(* ===== verification/Prelude.thy ===== *)
theory Prelude
  imports Main "HOL-Library.Word" "HOL-Library.Char_ord" "HOL-Library.List_Lexorder"
begin

text \<open>
  Shared material of the development: the outcome of a handler, Go's \<^verbatim>\<open>int64\<close>, the parts
  of Go's \<^verbatim>\<open>strconv\<close>, \<^verbatim>\<open>strings\<close> and \<^verbatim>\<open>encoding/hex\<close> packages the services use,
  generic lemmas on lists, options and maps, the collections \<open>go_simps\<close> and \<open>svc_frame\<close> that
  the component proofs add to the simplifier, and the transition-system interface
  (\<open>reactor\<close>) every stateful service implements.

  Strings are byte strings, as in Go: a \<open>char\<close> is one byte, \<open>length\<close> is Go's \<open>len\<close> and the
  order of \<open>HOL-Library.List_Lexorder\<close> over \<open>HOL-Library.Char_ord\<close> is Go's comparison of strings.
\<close>

named_theorems go_simps \<open>unfolding rules for the modelled parts of the Go library\<close>
named_theorems svc_frame \<open>which fields of a service an internal operation leaves alone\<close>

section \<open>Outcomes\<close>

text \<open>
  A handler returns a response, panics (a nil pointer is dereferenced) or blocks for ever (a mutex
  is locked twice by the goroutine that holds it).
\<close>

datatype 'a outcome = Returns 'a | Panics | Blocks

fun returned :: "'a outcome \<Rightarrow> 'a option" where
  "returned (Returns r) = Some r"
| "returned Panics = None"
| "returned Blocks = None"

section \<open>int64\<close>

type_synonym i64 = "64 word"
type_synonym i32 = "32 word"

abbreviation i64_max :: int where "i64_max \<equiv> 9223372036854775807"
abbreviation i64_min :: int where "i64_min \<equiv> - 9223372036854775808"

lemma sint_i64_bounds: "i64_min \<le> sint (w :: i64)" "sint (w :: i64) \<le> i64_max"
  using sint_ge [of w] sint_less [of w] by simp_all

lemma sint_i64_add:
  assumes "i64_min \<le> sint a + sint b" "sint a + sint b \<le> i64_max"
  shows "sint (a + b :: i64) = sint a + sint b"
proof -
  have "sint (a + b) = signed_take_bit 63 (sint a + sint b)"
    by (simp add: sint_word_ariths)
  also have "\<dots> = sint a + sint b"
    using assms by (intro signed_take_bit_int_eq_self) auto
  finally show ?thesis .
qed

lemma sint_i64_sub:
  assumes "i64_min \<le> sint a - sint b" "sint a - sint b \<le> i64_max"
  shows "sint (a - b :: i64) = sint a - sint b"
proof -
  have "sint (a - b) = signed_take_bit 63 (sint a - sint b)"
    by (simp add: sint_word_ariths)
  also have "\<dots> = sint a - sint b"
    using assms by (intro signed_take_bit_int_eq_self) auto
  finally show ?thesis .
qed

text \<open>Taking no more than a non-negative balance holds never wraps around.\<close>

lemma sint_i64_sub_covered:
  fixes a b :: i64
  assumes "0 \<le> sint b" "sint b \<le> sint a"
  shows "sint (a - b) = sint a - sint b"
  using assms sint_i64_bounds [of a] by (intro sint_i64_sub) auto

section \<open>strconv: Itoa, FormatInt, Atoi\<close>

definition digit_char :: "nat \<Rightarrow> char" where
  "digit_char d = char_of (48 + d)"

definition is_digit :: "char \<Rightarrow> bool" where
  "is_digit c \<longleftrightarrow> 48 \<le> (of_char c :: nat) \<and> (of_char c :: nat) \<le> 57"

definition digit_val :: "char \<Rightarrow> nat" where
  "digit_val c = of_char c - 48"

fun itoa_nat :: "nat \<Rightarrow> string" where
  "itoa_nat n = (if n < 10 then [digit_char n] else itoa_nat (n div 10) @ [digit_char (n mod 10)])"

declare itoa_nat.simps [simp del]

definition itoa :: "int \<Rightarrow> string" where
  "itoa i = (if i < 0 then CHR ''-'' # itoa_nat (nat (- i)) else itoa_nat (nat i))"

definition digits_val :: "string \<Rightarrow> nat" where
  "digits_val s = foldl (\<lambda>a c. 10 * a + digit_val c) 0 s"

text \<open>
  \<^verbatim>\<open>strconv.Atoi\<close>: an optional sign, at least one digit and nothing but digits, and a value in
  the range of \<^verbatim>\<open>int\<close>, which is 64 bits wide on the platforms the server is built for.
\<close>

definition atoi :: "string \<Rightarrow> int option" where
  "atoi s =
     (let neg = (s \<noteq> [] \<and> hd s = CHR ''-'');
          ds = (if s \<noteq> [] \<and> (hd s = CHR ''-'' \<or> hd s = CHR ''+'') then tl s else s)
      in if ds = [] \<or> \<not> list_all is_digit ds then None
         else let v = (if neg then - int (digits_val ds) else int (digits_val ds))
              in if i64_min \<le> v \<and> v \<le> i64_max then Some v else None)"

lemma of_char_digit_char [simp]: "d < 10 \<Longrightarrow> of_char (digit_char d) = (48 + d :: nat)"
  by (simp add: digit_char_def)

lemma is_digit_digit_char [simp]: "d < 10 \<Longrightarrow> is_digit (digit_char d)"
  by (simp add: is_digit_def)

lemma digit_val_digit_char [simp]: "d < 10 \<Longrightarrow> digit_val (digit_char d) = d"
  by (simp add: digit_val_def)

lemma digits_val_snoc: "digits_val (s @ [c]) = 10 * digits_val s + digit_val c"
  by (simp add: digits_val_def)

lemma itoa_nat_digits: "list_all is_digit (itoa_nat n)"
proof (induction n rule: itoa_nat.induct)
  case (1 n)
  then show ?case by (cases "n < 10") (simp_all add: itoa_nat.simps [of n])
qed

lemma itoa_nat_nonempty [simp]: "itoa_nat n \<noteq> []"
  by (subst itoa_nat.simps) simp

lemma digits_val_itoa_nat [simp]: "digits_val (itoa_nat n) = n"
proof (induction n rule: itoa_nat.induct)
  case (1 n)
  show ?case
  proof (cases "n < 10")
    case True
    then show ?thesis by (simp add: itoa_nat.simps [of n] digits_val_def)
  next
    case False
    then show ?thesis
      using 1 by (simp add: itoa_nat.simps [of n] digits_val_snoc)
  qed
qed

lemma itoa_nat_inj [simp]: "itoa_nat m = itoa_nat n \<longleftrightarrow> m = n"
  by (metis digits_val_itoa_nat)

lemma not_is_digit_sign [simp]: "\<not> is_digit (CHR ''-'')" "\<not> is_digit (CHR ''+'')"
  by (simp_all add: is_digit_def)

lemma hd_itoa_nat [simp]: "hd (itoa_nat n) \<noteq> CHR ''-''" "hd (itoa_nat n) \<noteq> CHR ''+''"
proof -
  have "is_digit (hd (itoa_nat n))"
    using itoa_nat_digits [of n] itoa_nat_nonempty [of n] by (metis list.set_sel(1) list_all_iff)
  then show "hd (itoa_nat n) \<noteq> CHR ''-''" "hd (itoa_nat n) \<noteq> CHR ''+''"
    using not_is_digit_sign by metis+
qed

lemma atoi_itoa: "i64_min \<le> i \<Longrightarrow> i \<le> i64_max \<Longrightarrow> atoi (itoa i) = Some i"
  by (auto simp: atoi_def itoa_def itoa_nat_digits Let_def)

lemma atoi_itoa_nat [simp]: "int n \<le> i64_max \<Longrightarrow> atoi (itoa_nat n) = Some (int n)"
  using atoi_itoa [of "int n"] by (simp add: itoa_def)

lemma itoa_inj: "itoa i = itoa j \<longleftrightarrow> i = j"
proof
  assume eq: "itoa i = itoa j"
  then have "i < 0 \<longleftrightarrow> j < 0"
    by (metis hd_itoa_nat(1) itoa_def list.sel(1))
  with eq show "i = j"
    by (auto simp: itoa_def split: if_splits)
qed simp

section \<open>strings and encoding/hex\<close>

definition bar :: string where "bar = ''|''"

text \<open>\<^verbatim>\<open>strings.Join(parts, sep)\<close>.\<close>

fun join :: "string \<Rightarrow> string list \<Rightarrow> string" where
  "join sep [] = []"
| "join sep [x] = x"
| "join sep (x # y # ys) = x @ sep @ join sep (y # ys)"

text \<open>\<^verbatim>\<open>hex.EncodeToString\<close>, which is also what the verb \<^verbatim>\<open>%x\<close> prints for a byte slice.\<close>

definition hex_digit :: "nat \<Rightarrow> char" where
  "hex_digit d = (if d < 10 then char_of (48 + d) else char_of (87 + d))"

fun hex_encode :: "string \<Rightarrow> string" where
  "hex_encode [] = []"
| "hex_encode (c # cs) =
     hex_digit (of_char c div 16) # hex_digit (of_char c mod 16) # hex_encode cs"

lemma length_hex_encode [simp]: "length (hex_encode s) = 2 * length s"
  by (induction s) auto

lemma hex_digit_inj: "a < 16 \<Longrightarrow> b < 16 \<Longrightarrow> hex_digit a = hex_digit b \<Longrightarrow> a = b"
proof -
  assume ab: "a < 16" "b < 16" and eq: "hex_digit a = hex_digit b"
  define f :: "nat \<Rightarrow> nat" where "f d = (if d < 10 then 48 + d else 87 + d)" for d
  have "of_char (hex_digit d) = f d" if "d < 16" for d
    using that by (simp add: hex_digit_def f_def)
  with ab eq have "f a = f b" by metis
  with ab show "a = b" by (simp add: f_def split: if_splits)
qed

lemma hex_encode_inj: "hex_encode s = hex_encode t \<longleftrightarrow> s = t"
proof
  show "hex_encode s = hex_encode t \<Longrightarrow> s = t"
  proof (induction s arbitrary: t)
    case Nil
    then show ?case by (cases t) auto
  next
    case (Cons c cs)
    then obtain d ds where t: "t = d # ds" by (cases t) auto
    have bound: "of_char x div 16 < (16 :: nat)" for x :: char
      using nat_of_char_less_256 [of x] by (simp add: less_mult_imp_div_less)
    have "of_char c div 16 = (of_char d div 16 :: nat)"
      using Cons.prems t by (intro hex_digit_inj bound) simp
    moreover have "of_char c mod 16 = (of_char d mod 16 :: nat)"
      using Cons.prems t by (intro hex_digit_inj) simp_all
    ultimately have "of_char c = (of_char d :: nat)"
      by (metis mult_div_mod_eq)
    then have "c = d" by (metis char_of_char)
    with Cons t show ?case by simp
  qed
qed simp

section \<open>Lists, options and maps\<close>

lemma map_upd_None [simp]: "(m(k \<mapsto> v)) k = Some v"
  by simp

lemma butlast_snoc_upd: "butlast (xs @ [x]) = xs"
  by simp

lemma map_filter_dom: "set ks \<subseteq> dom m \<Longrightarrow> List.map_filter m ks = map (\<lambda>k. the (m k)) ks"
  by (induction ks) (auto simp: List.map_filter_simps)

text \<open>Sum of a word-valued function over a list: the net movement of a list of postings.\<close>

abbreviation sum_over :: "('a \<Rightarrow> 'b::comm_monoid_add) \<Rightarrow> 'a list \<Rightarrow> 'b" where
  "sum_over f xs \<equiv> sum_list (map f xs)"

section \<open>Reactors: the interface of a stateful service\<close>

text \<open>
  Every service keeps a state that its handlers, run one at a time under the service's mutex,
  replace. A property the constructor establishes and every handler keeps holds after any sequence
  of requests.
\<close>

locale reactor =
  fixes start :: "'s \<Rightarrow> bool" and react :: "'i \<Rightarrow> 's \<Rightarrow> 's" and inv :: "'s \<Rightarrow> bool"
  assumes start_inv: "start s \<Longrightarrow> inv s"
    and react_inv: "inv s \<Longrightarrow> inv (react i s)"
begin

lemma run_inv: "inv s \<Longrightarrow> inv (fold react is s)"
  by (induction "is" arbitrary: s) (auto intro: react_inv)

lemma always_inv: "start s \<Longrightarrow> inv (fold react is s)"
  by (intro run_inv start_inv)

end

text \<open>
  A reactor with an abstraction: a function of the state that every handler moves as an abstract
  step would, so that a run of the service is a run of the specification.
\<close>

locale simulation = reactor start react inv
  for start :: "'s \<Rightarrow> bool" and react :: "'i \<Rightarrow> 's \<Rightarrow> 's" and inv :: "'s \<Rightarrow> bool" +
  fixes view :: "'s \<Rightarrow> 'v" and spec_step :: "'v \<Rightarrow> 'v \<Rightarrow> bool"
  assumes step_simulates: "inv s \<Longrightarrow> spec_step\<^sup>*\<^sup>* (view s) (view (react i s))"
begin

lemma run_simulates: "inv s \<Longrightarrow> spec_step\<^sup>*\<^sup>* (view s) (view (fold react is s))"
proof (induction "is" arbitrary: s)
  case (Cons i "is")
  from Cons.prems have "spec_step\<^sup>*\<^sup>* (view s) (view (react i s))" by (rule step_simulates)
  also from Cons.prems have "spec_step\<^sup>*\<^sup>* (view (react i s)) (view (fold react is (react i s)))"
    by (intro Cons.IH react_inv)
  finally show ?case by simp
qed simp

end

end
