(* ===== verification/GoTime.thy ===== *)
theory GoTime
  imports Prelude "HOL-Library.Monad_Syntax"
begin

text \<open>
  The part of Go's \<^verbatim>\<open>time\<close> package the services use. A \<^verbatim>\<open>time.Time\<close> in UTC is the number
  of nanoseconds since the Unix epoch; \<^verbatim>\<open>time.Duration\<close> is a number of nanoseconds. The theory
  gives the civil date of an instant, \<^verbatim>\<open>Format\<close> and \<^verbatim>\<open>Parse\<close> for the layout
  \<^verbatim>\<open>time.RFC3339Nano\<close> and the day layout \<^verbatim>\<open>2006-01-02\<close>, and shows that parsing what was
  printed gives the instant back.
\<close>

type_synonym time = int
type_synonym duration = int

abbreviation second :: duration where "second \<equiv> 1000000000"
abbreviation minute :: duration where "minute \<equiv> 60 * second"
abbreviation hour :: duration where "hour \<equiv> 60 * minute"
abbreviation day_ns :: duration where "day_ns \<equiv> 86400 * second"

text \<open>The zero \<^verbatim>\<open>time.Time\<close>, midnight of 1 January of year 1, and \<^verbatim>\<open>IsZero\<close>.\<close>

definition zero_time :: time where
  "zero_time = - 62135596800 * second"

section \<open>Civil dates\<close>

definition leap :: "int \<Rightarrow> bool" where
  "leap y \<longleftrightarrow> y mod 4 = 0 \<and> (y mod 100 \<noteq> 0 \<or> y mod 400 = 0)"

text \<open>Days of the year before the first of each month.\<close>

definition cum_days :: "bool \<Rightarrow> int list" where
  "cum_days lp = (if lp then [0, 31, 60, 91, 121, 152, 182, 213, 244, 274, 305, 335]
                  else [0, 31, 59, 90, 120, 151, 181, 212, 243, 273, 304, 334])"

definition month_of :: "bool \<Rightarrow> int \<Rightarrow> nat" where
  "month_of lp yd = length (filter (\<lambda>c. c \<le> yd) (cum_days lp))"

definition days_in :: "nat \<Rightarrow> bool \<Rightarrow> int" where
  "days_in m lp = (if m = 2 then (if lp then 29 else 28)
                  else if m \<in> {4, 6, 9, 11} then 30 else 31)"

text \<open>Year and day of the year of a day counted from 1 January of year 1.\<close>

definition year_yday :: "int \<Rightarrow> int \<times> int" where
  "year_yday d =
     (let a = d div 146097; d1 = d mod 146097;
          b = min 3 (d1 div 36524); d2 = d1 - b * 36524;
          c = d2 div 1461; d3 = d2 mod 1461;
          e = min 3 (d3 div 365)
      in (400 * a + 100 * b + 4 * c + e + 1, d3 - 365 * e))"

definition days_before_year :: "int \<Rightarrow> int" where
  "days_before_year y = 365 * (y - 1) + (y - 1) div 4 - (y - 1) div 100 + (y - 1) div 400"

text \<open>Days from 1 January of year 1 to the epoch: 719162.\<close>

definition civil :: "time \<Rightarrow> int \<times> nat \<times> int" where
  "civil t = (let (y, yd) = year_yday (t div day_ns + 719162); m = month_of (leap y) yd
              in (y, m, yd - cum_days (leap y) ! (m - 1) + 1))"

definition date :: "int \<Rightarrow> nat \<Rightarrow> int \<Rightarrow> int \<Rightarrow> int \<Rightarrow> int \<Rightarrow> int \<Rightarrow> time" where
  "date y m d hh mm ss ns =
     (days_before_year y + cum_days (leap y) ! (m - 1) + d - 1 - 719162) * day_ns
     + ((hh * 60 + mm) * 60 + ss) * second + ns"

lemma year_yday_inverse:
  assumes "year_yday d = (y, yd)"
  shows "days_before_year y + yd = d \<and> 0 \<le> yd \<and> yd \<le> (if leap y then 365 else 364)"
proof -
  define a where "a = d div 146097"
  define d1 where "d1 = d mod 146097"
  define b where "b = min 3 (d1 div 36524)"
  define d2 where "d2 = d1 - b * 36524"
  define c where "c = d2 div 1461"
  define d3 where "d3 = d2 mod 1461"
  define e where "e = min 3 (d3 div 365)"
  have y: "y = 400 * a + 100 * b + 4 * c + e + 1" and yd: "yd = d3 - 365 * e"
    using assms by (simp_all add: year_yday_def Let_def a_def b_def c_def d1_def d2_def d3_def e_def)
  have d1: "0 \<le> d1" "d1 \<le> 146096" "d = 146097 * a + d1" by (auto simp: d1_def a_def)
  have b: "0 \<le> b" "b \<le> 3" using d1 by (simp_all add: b_def pos_imp_zdiv_nonneg_iff)
  have q1: "36524 * (d1 div 36524) \<le> d1" "d1 \<le> 36524 * (d1 div 36524) + 36523" by presburger+
  have d2: "0 \<le> d2" "b < 3 \<Longrightarrow> d2 \<le> 36523" "d2 \<le> 36524"
    using q1 d1 by (auto simp: b_def d2_def min_def)
  have c: "0 \<le> c" "c \<le> 24" using d2 by (auto simp: c_def)
  have d3: "0 \<le> d3" "d3 \<le> 1460" "d2 = 1461 * c + d3" by (auto simp: d3_def c_def)
  have e: "0 \<le> e" "e \<le> 3" using d3 by (simp_all add: e_def pos_imp_zdiv_nonneg_iff)
  have q2: "365 * (d3 div 365) \<le> d3" "d3 \<le> 365 * (d3 div 365) + 364" by presburger+
  have yd_bounds: "0 \<le> yd" "e < 3 \<Longrightarrow> yd \<le> 364" "yd \<le> 365"
    using q2 d3 by (auto simp: e_def yd min_def)
  have q: "(y - 1) div 4 = 100 * a + 25 * b + c" "(y - 1) div 100 = 4 * a + b" "(y - 1) div 400 = a"
    using b c e by (simp_all add: y)
  have "days_before_year y + yd = d"
    by (simp add: days_before_year_def q) (simp add: y yd d1(3) d3(3) [symmetric] d2_def)
  moreover have "yd \<le> 364" if "\<not> leap y"
  proof (rule ccontr)
    assume "\<not> yd \<le> 364"
    with yd_bounds(2) e(2) have "e = 3" by linarith
    with yd_bounds(3) \<open>\<not> yd \<le> 364\<close> have "yd = 365" by linarith
    with \<open>e = 3\<close> have "d3 = 1460" by (simp add: yd)
    then have "c = 24 \<Longrightarrow> b = 3" using d2 d3 b by force
    moreover have "y mod 4 = 0" using \<open>e = 3\<close> by (simp add: y)
    moreover have "y mod 400 = 0" if "c = 24" "b = 3" using \<open>e = 3\<close> that by (simp add: y)
    moreover have "y mod 100 \<noteq> 0" if "c \<noteq> 24"
    proof -
      have "y = 100 * (4 * a + b) + (4 * c + 4)" using \<open>e = 3\<close> by (simp add: y)
      then have "y mod 100 = (4 * c + 4) mod 100" by (simp only: mod_mult_self4)
      also have "\<dots> = 4 * c + 4" using that c by (intro mod_pos_pos_trivial) auto
      finally show ?thesis using c by simp
    qed
    ultimately have "leap y" by (cases "c = 24") (simp_all add: leap_def)
    with that show False by simp
  qed
  ultimately show ?thesis using yd_bounds by auto
qed

text \<open>Every day of a year lies in one of its months: a finite table, evaluated once.\<close>

definition month_day_ok :: "bool \<Rightarrow> int \<Rightarrow> bool" where
  "month_day_ok lp yd \<longleftrightarrow>
     (let m = month_of lp yd; d = yd - cum_days lp ! (m - 1) + 1
      in 1 \<le> m \<and> m \<le> 12 \<and> 1 \<le> d \<and> d \<le> days_in m lp)"

lemma month_day_table: "list_all (month_day_ok lp) [0..if lp then 365 else 364]"
  by (cases lp) (simp_all only: if_True if_False, code_simp+)

lemma month_day_okI: "0 \<le> yd \<Longrightarrow> yd \<le> (if lp then 365 else 364) \<Longrightarrow> month_day_ok lp yd"
  using month_day_table [of lp] by (auto simp: list_all_iff split: if_splits)

text \<open>Hours, minutes, seconds and nanoseconds of the day.\<close>

definition clock_of :: "time \<Rightarrow> int \<times> int \<times> int \<times> int" where
  "clock_of t = (let n = t mod day_ns; s = n div second
                 in (s div 3600, s div 60 mod 60, s mod 60, n mod second))"

lemma date_of_civil:
  assumes "civil t = (y, m, d)" "clock_of t = (hh, mm, ss, ns)"
  shows "date y m d hh mm ss ns = t"
proof -
  obtain y' yd where yy: "year_yday (t div day_ns + 719162) = (y', yd)" by fastforce
  with assms(1) have "y' = y" "d = yd - cum_days (leap y) ! (m - 1) + 1"
    by (auto simp: civil_def Let_def)
  moreover have "days_before_year y' + yd = t div day_ns + 719162"
    using year_yday_inverse [OF yy] by simp
  ultimately have days: "days_before_year y + cum_days (leap y) ! (m - 1) + d - 1 - 719162 = t div day_ns"
    by simp
  define n where "n = t mod day_ns"
  have n: "0 \<le> n" "n < day_ns" by (auto simp: n_def)
  have c: "hh = n div second div 3600" "mm = n div second div 60 mod 60" "ss = n div second mod 60"
      "ns = n mod second"
    using assms(2) by (auto simp: clock_of_def Let_def n_def)
  have "n div second div 3600 = n div second div 60 div 60" by (simp add: zdiv_zmult2_eq)
  then have "((hh * 60 + mm) * 60 + ss) = n div second"
    unfolding c by (metis div_mult_mod_eq)
  then have "((hh * 60 + mm) * 60 + ss) * second + ns = n"
    using div_mult_mod_eq [of n second] by (simp add: c)
  with days have "date y m d hh mm ss ns = t div day_ns * day_ns + t mod day_ns"
    unfolding date_def n_def by (simp only: add.assoc)
  then show ?thesis by (simp only: div_mult_mod_eq)
qed

lemma civil_bounds:
  assumes "civil t = (y, m, d)"
  shows "1 \<le> m \<and> m \<le> 12 \<and> 1 \<le> d \<and> d \<le> days_in m (leap y)"
proof -
  obtain y' yd where yy: "year_yday (t div day_ns + 719162) = (y', yd)" by fastforce
  with assms have "y' = y" "m = month_of (leap y) yd" "d = yd - cum_days (leap y) ! (m - 1) + 1"
    by (auto simp: civil_def Let_def)
  moreover have "month_day_ok (leap y) yd"
    using year_yday_inverse [OF yy] \<open>y' = y\<close> by (intro month_day_okI) auto
  ultimately show ?thesis by (simp add: month_day_ok_def Let_def)
qed

lemma clock_bounds:
  assumes "clock_of t = (hh, mm, ss, ns)"
  shows "0 \<le> hh \<and> hh < 24 \<and> 0 \<le> mm \<and> mm < 60 \<and> 0 \<le> ss \<and> ss < 60 \<and> 0 \<le> ns \<and> ns < second"
proof -
  define n where "n = t mod day_ns"
  have n: "0 \<le> n" "n < day_ns" by (auto simp: n_def)
  then have "n div second < 86400" by (simp add: div_less_iff_less_mult)
  moreover define s where "s = n div second"
  ultimately have "0 \<le> s" "s div 3600 < 24" using n by (simp_all add: pos_imp_zdiv_nonneg_iff)
  moreover have "hh = s div 3600" "mm = s div 60 mod 60" "ss = s mod 60" "ns = n mod second"
    using assms by (simp_all add: clock_of_def Let_def n_def s_def)
  ultimately show ?thesis by (simp add: pos_imp_zdiv_nonneg_iff)
qed

section \<open>Printing\<close>

definition pad :: "nat \<Rightarrow> nat \<Rightarrow> string" where
  "pad w n = (let s = itoa_nat n in replicate (w - length s) (CHR ''0'') @ s)"

definition pad_int :: "nat \<Rightarrow> int \<Rightarrow> string" where
  "pad_int w i = (if i < 0 then CHR ''-'' # pad w (nat (- i)) else pad w (nat i))"

text \<open>The element \<^verbatim>\<open>.999999999\<close>: the fraction without trailing zeros, nothing when it is zero.\<close>

definition strip_zeros :: "string \<Rightarrow> string" where
  "strip_zeros s = rev (dropWhile (\<lambda>c. c = CHR ''0'') (rev s))"

definition fmt_fraction :: "int \<Rightarrow> string" where
  "fmt_fraction ns = (let f = strip_zeros (pad 9 (nat ns)) in if f = [] then [] else CHR ''.'' # f)"

definition fmt_date :: "time \<Rightarrow> string" where
  "fmt_date t = (let (y, m, d) = civil t in pad_int 4 y @ ''-'' @ pad 2 m @ ''-'' @ pad 2 (nat d))"

text \<open>\<^verbatim>\<open>t.Format(time.RFC3339Nano)\<close> for a time in UTC.\<close>

definition fmt_rfc3339nano :: "time \<Rightarrow> string" where
  "fmt_rfc3339nano t =
     (let (hh, mm, ss, ns) = clock_of t
      in fmt_date t @ ''T'' @ pad 2 (nat hh) @ '':'' @ pad 2 (nat mm) @ '':'' @ pad 2 (nat ss)
         @ fmt_fraction ns @ ''Z'')"

section \<open>Parsing\<close>

text \<open>\<^verbatim>\<open>getnum(s, fixed)\<close>: one or two digits, exactly two when \<open>fixed\<close>.\<close>

fun getnum :: "bool \<Rightarrow> string \<Rightarrow> (int \<times> string) option" where
  "getnum fixed [] = None"
| "getnum fixed [a] = (if is_digit a \<and> \<not> fixed then Some (int (digit_val a), []) else None)"
| "getnum fixed (a # b # s) =
     (if \<not> is_digit a then None
      else if \<not> is_digit b then (if fixed then None else Some (int (digit_val a), b # s))
      else Some (int (10 * digit_val a + digit_val b), s))"

definition skip_char :: "char \<Rightarrow> string \<Rightarrow> string option" where
  "skip_char c s = (case s of x # xs \<Rightarrow> if x = c then Some xs else None | [] \<Rightarrow> None)"

definition getyear :: "string \<Rightarrow> (int \<times> string) option" where
  "getyear s = (if length s < 4 \<or> \<not> list_all is_digit (take 4 s) then None
                else Some (int (digits_val (take 4 s)), drop 4 s))"

text \<open>The optional fraction; digits after the ninth are dropped.\<close>

definition getfraction :: "string \<Rightarrow> int \<times> string" where
  "getfraction s =
     (case s of
        p # q # r \<Rightarrow>
          if (p = CHR ''.'' \<or> p = CHR '','') \<and> is_digit q
          then let ds = takeWhile is_digit (q # r); k = take 9 ds
               in (int (digits_val k) * 10 ^ (9 - length k), drop (length ds) (q # r))
          else (0, s)
      | _ \<Rightarrow> (0, s))"

text \<open>The zone element \<^verbatim>\<open>Z07:00\<close>: \<open>Z\<close>, or a sign and an offset; the offset in seconds.\<close>

definition getzone :: "string \<Rightarrow> (int \<times> string) option" where
  "getzone s =
     (if s \<noteq> [] \<and> hd s = CHR ''Z'' then Some (0, tl s)
      else if length s < 6 \<or> s ! 3 \<noteq> CHR '':'' then None
      else case (getnum True [s ! 1, s ! 2], getnum True [s ! 4, s ! 5]) of
             (Some (hr, _), Some (mi, _)) \<Rightarrow>
               if hr > 24 \<or> mi > 60 then None
               else if hd s = CHR ''+'' then Some ((hr * 60 + mi) * 60, drop 6 s)
               else if hd s = CHR ''-'' then Some (- ((hr * 60 + mi) * 60), drop 6 s)
               else None
           | _ \<Rightarrow> None)"

text \<open>\<^verbatim>\<open>time.Parse(time.RFC3339Nano, s)\<close>; \<open>None\<close> is an error.\<close>

definition parse_rfc3339nano :: "string \<Rightarrow> time option" where
  "parse_rfc3339nano s = do {
     (y, s) \<leftarrow> getyear s;
     s \<leftarrow> skip_char (CHR ''-'') s;
     (m, s) \<leftarrow> getnum True s;
     if m \<le> 0 \<or> 12 < m then None else do {
     s \<leftarrow> skip_char (CHR ''-'') s;
     (d, s) \<leftarrow> getnum True s;
     s \<leftarrow> skip_char (CHR ''T'') s;
     (hh, s) \<leftarrow> getnum False s;
     if 24 \<le> hh then None else do {
     s \<leftarrow> skip_char (CHR '':'') s;
     (mi, s) \<leftarrow> getnum True s;
     if 60 \<le> mi then None else do {
     s \<leftarrow> skip_char (CHR '':'') s;
     (ss, s) \<leftarrow> getnum True s;
     if 60 \<le> ss then None else do {
     let (ns, s) = getfraction s;
     (off, s) \<leftarrow> getzone s;
     if s \<noteq> [] \<or> d < 1 \<or> days_in (nat m) (leap y) < d then None
     else Some (date y (nat m) d hh mi ss ns - off * second) }}}}}"

section \<open>Parsing what was printed\<close>

lemma digits_val_zeros: "digits_val (replicate k (CHR ''0'') @ s) = digits_val s"
  by (induction k) (simp_all add: digits_val_def digit_val_def)

lemma pad_digits: "list_all is_digit (pad w n)"
  by (auto simp: pad_def Let_def itoa_nat_digits list_all_iff is_digit_def)
     (auto simp: is_digit_def dest: itoa_nat_digits [unfolded list_all_iff, rule_format])

lemma digits_val_pad [simp]: "digits_val (pad w n) = n"
  by (simp add: pad_def Let_def digits_val_zeros)

lemma length_itoa_nat: "n < 10 ^ k \<Longrightarrow> 0 < k \<Longrightarrow> length (itoa_nat n) \<le> k"
proof (induction n arbitrary: k rule: itoa_nat.induct)
  case (1 n)
  show ?case
  proof (cases "n < 10")
    case True
    then show ?thesis using 1 by (simp add: itoa_nat.simps [of n])
  next
    case False
    with "1.prems" obtain j where k: "k = Suc j" "0 < j" by (cases k; cases "k - 1") auto
    then have "n div 10 < 10 ^ j" using "1.prems" by (simp add: div_less_iff_less_mult mult.commute)
    with False k show ?thesis using "1.IH" [of j] by (simp add: itoa_nat.simps [of n])
  qed
qed

lemma length_pad: "n < 10 ^ k \<Longrightarrow> 0 < k \<Longrightarrow> length (pad k n) = k"
  using length_itoa_nat [of n k] by (simp add: pad_def Let_def)

lemma getnum_pad:
  assumes "n < 100"
  shows "getnum fixed (pad 2 n @ s) = Some (int n, s)"
proof -
  have "length (pad 2 n) = 2" using length_pad [of n 2] assms by simp
  then obtain a b where ab: "pad 2 n = [a, b]" by (auto simp: numeral_2_eq_2 length_Suc_conv)
  then have "is_digit a" "is_digit b" "10 * digit_val a + digit_val b = n"
    using pad_digits [of 2 n] digits_val_pad [of 2 n] by (simp_all add: digits_val_def)
  then show ?thesis by (auto simp: ab)
qed

lemma getyear_pad:
  assumes "0 \<le> y" "y \<le> 9999"
  shows "getyear (pad_int 4 y @ s) = Some (y, s)"
proof -
  have len: "length (pad 4 (nat y)) = 4" using length_pad [of "nat y" 4] assms by simp
  then have "take 4 (pad 4 (nat y) @ s) = pad 4 (nat y)" "drop 4 (pad 4 (nat y) @ s) = s" by simp_all
  then show ?thesis using assms len pad_digits by (simp add: getyear_def pad_int_def)
qed

lemma strip_zeros_split: "\<exists>k. s = strip_zeros s @ replicate k (CHR ''0'')"
proof -
  have "rev s = takeWhile (\<lambda>c. c = CHR ''0'') (rev s) @ dropWhile (\<lambda>c. c = CHR ''0'') (rev s)" by simp
  then have "s = strip_zeros s @ rev (takeWhile (\<lambda>c. c = CHR ''0'') (rev s))"
    unfolding strip_zeros_def by (metis rev_append rev_rev_ident)
  moreover obtain k where "takeWhile (\<lambda>c. c = CHR ''0'') (rev s) = replicate k (CHR ''0'')"
    using replicate_eqI [OF refl, of "takeWhile (\<lambda>c. c = CHR ''0'') (rev s)" "CHR ''0''"]
    by (blast dest: set_takeWhileD)
  ultimately have "s = strip_zeros s @ replicate k (CHR ''0'')" by (simp only: rev_replicate)
  then show ?thesis by blast
qed

lemma digits_val_append_zeros: "digits_val (s @ replicate k (CHR ''0'')) = digits_val s * 10 ^ k"
proof (induction k)
  case (Suc k)
  have "s @ replicate (Suc k) (CHR ''0'') = (s @ replicate k (CHR ''0'')) @ [CHR ''0'']"
    by (simp add: replicate_append_same)
  then show ?case
    using Suc.IH by (simp only: digits_val_snoc) (simp add: digit_val_def)
qed simp

lemma getfraction_fmt:
  assumes "0 \<le> ns" "ns < second" "r \<noteq> []" "hd r = CHR ''Z''"
  shows "getfraction (fmt_fraction ns @ r) = (ns, r)"
proof -
  have z: "\<not> is_digit (CHR ''Z'')" by (simp add: is_digit_def)
  obtain r' where r: "r = CHR ''Z'' # r'" using assms(3,4) by (cases r) auto
  define f where "f = strip_zeros (pad 9 (nat ns))"
  obtain k where k: "pad 9 (nat ns) = f @ replicate k (CHR ''0'')"
    unfolding f_def using strip_zeros_split by blast
  have "length (pad 9 (nat ns)) = 9" using length_pad [of "nat ns" 9] assms by simp
  with k have len: "length f + k = 9" by simp
  have digits: "list_all is_digit f" using pad_digits [of 9 "nat ns"] k by simp
  have "digits_val f * 10 ^ k = nat ns"
    using digits_val_pad [of 9 "nat ns"] by (simp add: k digits_val_append_zeros)
  then have "int (digits_val f * 10 ^ k) = ns" using assms(1) by simp
  then have val: "int (digits_val f) * 10 ^ k = ns" by simp
  show ?thesis
  proof (cases f)
    case Nil
    with val have "ns = 0" by (simp add: digits_val_def)
    then show ?thesis
      using Nil z by (cases r') (auto simp: getfraction_def fmt_fraction_def Let_def f_def r)
  next
    case (Cons q u)
    then have "takeWhile is_digit (q # u @ r) = f"
      using digits z by (simp add: r takeWhile_append2 list_all_iff)
    moreover have "take 9 f = f" "9 - length f = k" using len by simp_all
    moreover have "drop (length f) (q # u @ r) = r" using Cons by simp
    moreover have "is_digit q" using digits Cons by simp
    ultimately show ?thesis
      using Cons val by (simp add: getfraction_def fmt_fraction_def Let_def f_def [symmetric])
  qed
qed

text \<open>
  An instant in the years 0 to 9999 is the value of its printed form: what the session and report
  code stores as text and parses again is the same instant.
\<close>

lemma parse_fmt:
  assumes year: "0 \<le> fst (civil t)" "fst (civil t) \<le> 9999"
  shows "parse_rfc3339nano (fmt_rfc3339nano t) = Some t"
proof -
  obtain y m d where ymd: "civil t = (y, m, d)" by (metis prod.exhaust)
  obtain hh mm ss ns where hms: "clock_of t = (hh, mm, ss, ns)" by (metis prod.exhaust)
  note c = clock_bounds [OF hms] and b = civil_bounds [OF ymd]
  have "d \<le> 31" using b by (auto simp: days_in_def split: if_splits)
  then have small: "m < 100" "nat d < 100" "nat hh < 100" "nat mm < 100" "nat ss < 100"
    using b c by auto
  note frac = getfraction_fmt [of ns "''Z''"] and inverse = date_of_civil [OF ymd hms]
  show ?thesis
    using year b c frac inverse small
    by (simp add: fmt_rfc3339nano_def fmt_date_def ymd hms parse_rfc3339nano_def getyear_pad
        getnum_pad skip_char_def getzone_def)
qed

end
