(* ===== verification/Json.thy ===== *)
theory Json
  imports Prelude
begin

text \<open>
  \<^verbatim>\<open>encoding/json\<close> as the services use it: \<^verbatim>\<open>json.Marshal\<close> of the snapshots that go into the
  audit log. Strings that reach a snapshot come out of protobuf messages, whose strings are valid
  UTF-8, so the replacement of invalid bytes is not modelled.
\<close>

datatype json = JString string | JInt int | JBool bool | JObject "(string \<times> json) list"

text \<open>The escaping of \<^verbatim>\<open>encoding/json\<close> with HTML escaping on, byte by byte.\<close>

definition json_escape_byte :: "char \<Rightarrow> string" where
  "json_escape_byte c =
     (let n = (of_char c :: nat)
      in if c = CHR ''\"'' then [CHR 0x5C, CHR ''\"'']
         else if n = 92 then [CHR 0x5C, CHR 0x5C]
         else if n = 8 then CHR 0x5C # ''b''
         else if n = 9 then CHR 0x5C # ''t''
         else if n = 10 then CHR 0x5C # ''n''
         else if n = 12 then CHR 0x5C # ''f''
         else if n = 13 then CHR 0x5C # ''r''
         else if n < 32 \<or> c = CHR ''<'' \<or> c = CHR ''>'' \<or> c = CHR ''&''
              then (CHR 0x5C # ''u00'') @ hex_encode [c]
         else [c])"

text \<open>The separators U+2028 and U+2029 (bytes E2 80 A8 and E2 80 A9) are escaped as well.\<close>

fun json_escape :: "string \<Rightarrow> string" where
  "json_escape [] = []"
| "json_escape (a # b # c # s) =
     (if a = CHR 0xE2 \<and> b = CHR 0x80 \<and> c = CHR 0xA8 then (CHR 0x5C # ''u2028'') @ json_escape s
      else if a = CHR 0xE2 \<and> b = CHR 0x80 \<and> c = CHR 0xA9 then (CHR 0x5C # ''u2029'') @ json_escape s
      else json_escape_byte a @ json_escape (b # c # s))"
| "json_escape (a # s) = json_escape_byte a @ json_escape s"

definition json_string :: "string \<Rightarrow> string" where
  "json_string s = ''\"'' @ json_escape s @ ''\"''"

fun json_encode :: "json \<Rightarrow> string" where
  "json_encode (JString s) = json_string s"
| "json_encode (JInt i) = itoa i"
| "json_encode (JBool b) = (if b then ''true'' else ''false'')"
| "json_encode (JObject kvs) =
     ''{'' @ join '','' (map (\<lambda>(k, v). json_string k @ '':'' @ json_encode v) kvs) @ ''}''"

text \<open>The literal \<^verbatim>\<open>`{}`\<close> the handlers pass when there is no state to show.\<close>

definition json_empty :: string where
  "json_empty = ''{}''"

lemma json_encode_empty_object: "json_encode (JObject []) = json_empty"
  by (simp add: json_empty_def)

text \<open>Struct fields tagged \<^verbatim>\<open>omitempty\<close>: empty strings and zero numbers are left out.\<close>

definition jstr :: "string \<Rightarrow> string \<Rightarrow> (string \<times> json) list" where
  "jstr k s = (if s = [] then [] else [(k, JString s)])"

definition jint :: "string \<Rightarrow> int \<Rightarrow> (string \<times> json) list" where
  "jint k i = (if i = 0 then [] else [(k, JInt i)])"

definition jopt :: "string \<Rightarrow> json option \<Rightarrow> (string \<times> json) list" where
  "jopt k v = (case v of None \<Rightarrow> [] | Some j \<Rightarrow> [(k, j)])"

text \<open>\<^verbatim>\<open>base64.RawStdEncoding\<close>: three bytes are four digits of six bits; no padding.\<close>

definition base64_digit :: "nat \<Rightarrow> char" where
  "base64_digit d =
     (if d < 26 then char_of (65 + d) else if d < 52 then char_of (97 + (d - 26))
      else if d < 62 then char_of (48 + (d - 52)) else if d = 62 then CHR ''+'' else CHR ''/'')"

fun base64_raw :: "string \<Rightarrow> string" where
  "base64_raw [] = []"
| "base64_raw [a] =
     (let n = of_char a * 65536 :: nat in [base64_digit (n div 262144), base64_digit (n div 4096 mod 64)])"
| "base64_raw [a, b] =
     (let n = of_char a * 65536 + of_char b * 256 :: nat
      in [base64_digit (n div 262144), base64_digit (n div 4096 mod 64), base64_digit (n div 64 mod 64)])"
| "base64_raw (a # b # c # s) =
     (let n = of_char a * 65536 + of_char b * 256 + of_char c :: nat
      in base64_digit (n div 262144) # base64_digit (n div 4096 mod 64) # base64_digit (n div 64 mod 64)
         # base64_digit (n mod 64) # base64_raw s)"

text \<open>
  A byte slice in a struct is the text of \<^verbatim>\<open>base64.StdEncoding\<close>: the same digits, filled up with \<^verbatim>\<open>=\<close> to a multiple of four.
\<close>

definition base64_std :: "string \<Rightarrow> string" where
  "base64_std s = base64_raw s @ replicate ((3 - length s mod 3) mod 3) (CHR ''='')"

text \<open>\<^verbatim>\<open>omitempty\<close> for booleans.\<close>

definition jbool :: "string \<Rightarrow> bool \<Rightarrow> (string \<times> json) list" where
  "jbool k b = (if b then [(k, JBool True)] else [])"

end
