(* ===== verification/Common.thy ===== *)
theory Common
  imports GoTime Json
begin

text \<open>
  What every service shares: the messages of \<^verbatim>\<open>api/proto/rgs/v1/common.proto\<close> and \<open>Money\<close>, the
  caller's identity (\<^verbatim>\<open>internal/platform/server/actor_context.go\<close>), the request helpers of
  \<^verbatim>\<open>ledger_grpc.go\<close> that the other services reuse, and the parameters of the model: the
  environment a request runs in and the functions of the programs outside the repository.
\<close>

section \<open>Messages\<close>

text \<open>An enum field of a proto3 message holds any 32-bit number; \<open>OTHER\<close> is one with no name.\<close>

datatype actor_type =
    ACTOR_TYPE_UNSPECIFIED | ACTOR_TYPE_PLAYER | ACTOR_TYPE_OPERATOR | ACTOR_TYPE_SERVICE
  | ACTOR_TYPE_OTHER i32

datatype result_code =
    RESULT_CODE_UNSPECIFIED | RESULT_CODE_OK | RESULT_CODE_DENIED | RESULT_CODE_INVALID
  | RESULT_CODE_ERROR

record actor =
  ActorId :: string
  ActorType :: actor_type

record request_meta =
  RequestId :: string
  IdempotencyKey :: string
  MetaActor :: "actor option"

record response_meta =
  RspRequestId :: string
  ResultCode :: result_code
  DenialReason :: string
  ServerTime :: string

record money =
  AmountMinor :: i64
  Currency :: string

fun actor_type_string :: "actor_type \<Rightarrow> string" where
  "actor_type_string ACTOR_TYPE_UNSPECIFIED = ''ACTOR_TYPE_UNSPECIFIED''"
| "actor_type_string ACTOR_TYPE_PLAYER = ''ACTOR_TYPE_PLAYER''"
| "actor_type_string ACTOR_TYPE_OPERATOR = ''ACTOR_TYPE_OPERATOR''"
| "actor_type_string ACTOR_TYPE_SERVICE = ''ACTOR_TYPE_SERVICE''"
| "actor_type_string (ACTOR_TYPE_OTHER w) = itoa (sint w)"

section \<open>Parameters of the model\<close>

text \<open>
  What a handler reads from outside while it serves one request: the service clock
  (\<^verbatim>\<open>clock.Clock\<close>), the wall clock (\<^verbatim>\<open>time.Now\<close>), the database's \<^verbatim>\<open>NOW()\<close> and the result
  of \<^verbatim>\<open>randomToken\<close> (\<open>None\<close> when the random source fails). A request sees one reading of each.
\<close>

record env =
  env_now :: time
  env_wall :: time
  env_dbnow :: time
  env_rand :: "string option"

text \<open>
  Functions of programs that are not in the repository: SHA-256 on bytes and, for the
  database, the rounding of \<^verbatim>\<open>timestamptz\<close>, the order of \<^verbatim>\<open>text\<close> under the database's collation,
  the text a \<^verbatim>\<open>jsonb\<close> value is read back as, whether a byte string is valid JSON, the cast of a text
  to \<^verbatim>\<open>timestamptz\<close> (\<open>None\<close> when it is refused), the text the driver gives for a \<^verbatim>\<open>timestamptz\<close>
  scanned into a string, and what a \<^verbatim>\<open>CHAR(3)\<close> column holds after a write (\<open>None\<close> when the value is
  too long).
\<close>

record ext =
  sha256 :: "string \<Rightarrow> string"
  pg_timestamptz :: "time \<Rightarrow> time"
  pg_text_less :: "string \<Rightarrow> string \<Rightarrow> bool"
  pg_jsonb :: "string \<Rightarrow> string"
  json_valid :: "string \<Rightarrow> bool"
  pg_time_of_text :: "string \<Rightarrow> time option"
  pg_time_text :: "time \<Rightarrow> string"
  pg_char3 :: "string \<Rightarrow> string option"

section \<open>Request helpers\<close>

definition requestID :: "request_meta option \<Rightarrow> string" where
  "requestID meta = (case meta of None \<Rightarrow> [] | Some m \<Rightarrow> RequestId m)"

definition idempotency :: "request_meta option \<Rightarrow> string" where
  "idempotency meta = (case meta of None \<Rightarrow> [] | Some m \<Rightarrow> IdempotencyKey m)"

definition invalidAmount :: "money option \<Rightarrow> bool" where
  "invalidAmount m = (case m of None \<Rightarrow> True
     | Some m \<Rightarrow> if sint (AmountMinor m) \<le> 0 then True else Currency m = [])"

definition money :: "i64 \<Rightarrow> string \<Rightarrow> money" where
  "money amount currency = \<lparr>AmountMinor = amount, Currency = currency\<rparr>"

definition money_json :: "money \<Rightarrow> json" where
  "money_json m = JObject (jint ''amount_minor'' (sint (AmountMinor m)) @ jstr ''currency'' (Currency m))"

definition responseMeta ::
    "env \<Rightarrow> request_meta option \<Rightarrow> result_code \<Rightarrow> string \<Rightarrow> response_meta" where
  "responseMeta e meta code denial =
     \<lparr>RspRequestId = requestID meta, ResultCode = code, DenialReason = denial,
      ServerTime = fmt_rfc3339nano (env_now e)\<rparr>"

lemma money_sel [simp]: "AmountMinor (money a c) = a" "Currency (money a c) = c"
  by (simp_all add: money_def)

lemma responseMeta_sel [simp]:
  "ResultCode (responseMeta e m c d) = c" "DenialReason (responseMeta e m c d) = d"
  "RspRequestId (responseMeta e m c d) = requestID m"
  by (simp_all add: responseMeta_def)

lemma not_invalidAmount:
  "\<not> invalidAmount m \<longleftrightarrow> (\<exists>v. m = Some v \<and> 0 < sint (AmountMinor v) \<and> Currency v \<noteq> [])"
  by (auto simp: invalidAmount_def split: option.splits)

section \<open>Trimming and upper case\<close>

text \<open>
  \<^verbatim>\<open>strings.TrimSpace\<close> removes Unicode white space; \<open>space_rune\<close> is the length in bytes of a
  white-space rune at the start of a string, 0 when there is none.
\<close>

definition space_rune :: "nat list \<Rightarrow> nat" where
  "space_rune s =
     (case s of
        a # t \<Rightarrow>
          if a = 32 \<or> (9 \<le> a \<and> a \<le> 13) then 1
          else (case t of
            b # u \<Rightarrow>
              if a = 0xC2 \<and> (b = 0x85 \<or> b = 0xA0) then 2
              else (case u of
                c # _ \<Rightarrow>
                  if (a = 0xE1 \<and> b = 0x9A \<and> c = 0x80)
                     \<or> (a = 0xE2 \<and> b = 0x80 \<and> ((0x80 \<le> c \<and> c \<le> 0x8A) \<or> c = 0xA8 \<or> c = 0xA9 \<or> c = 0xAF))
                     \<or> (a = 0xE2 \<and> b = 0x81 \<and> c = 0x9F) \<or> (a = 0xE3 \<and> b = 0x80 \<and> c = 0x80)
                  then 3 else 0
              | [] \<Rightarrow> 0)
          | [] \<Rightarrow> 0)
      | [] \<Rightarrow> 0)"

lemma space_rune_Nil [simp]: "space_rune [] = 0"
  by (simp add: space_rune_def)

function trim_left :: "string \<Rightarrow> string" where
  "trim_left s = (let k = space_rune (map of_char s) in if k = 0 then s else trim_left (drop k s))"
  by pat_completeness auto
termination
proof (relation "measure length")
  fix s :: string and k
  assume "k = space_rune (map of_char s)" "k \<noteq> 0"
  then have "s \<noteq> []" "0 < k" by auto
  then show "(drop k s, s) \<in> measure length" by simp
qed simp

declare trim_left.simps [simp del]

text \<open>From the right: the last one, two or three bytes are a white-space rune.\<close>

definition space_rune_end :: "string \<Rightarrow> nat" where
  "space_rune_end s =
     (if s \<noteq> [] \<and> space_rune (map of_char (drop (length s - 1) s)) = 1 then 1
      else if 2 \<le> length s \<and> space_rune (map of_char (drop (length s - 2) s)) = 2 then 2
      else if 3 \<le> length s \<and> space_rune (map of_char (drop (length s - 3) s)) = 3 then 3
      else 0)"

function trim_right :: "string \<Rightarrow> string" where
  "trim_right s = (let k = space_rune_end s in if k = 0 then s else trim_right (take (length s - k) s))"
  by pat_completeness auto
termination
proof (relation "measure length")
  fix s :: string and k
  assume "k = space_rune_end s" "k \<noteq> 0"
  then have "s \<noteq> []" "0 < k" by (auto simp: space_rune_end_def)
  then show "(take (length s - k) s, s) \<in> measure length" by simp
qed simp

declare trim_right.simps [simp del]

definition trim_space :: "string \<Rightarrow> string" where
  "trim_space s = trim_right (trim_left s)"

lemma trim_space_Nil [simp]: "trim_space [] = []"
  by (simp add: trim_space_def trim_left.simps trim_right.simps space_rune_end_def)

text \<open>
  \<^verbatim>\<open>strings.ToUpper\<close> on the ASCII letters and on the two other runes whose upper case is an ASCII
  letter, the dotless i (C4 B1) and the long s (C5 BF). Other runes outside ASCII stay outside ASCII
  and are kept, which no comparison with an ASCII word can tell.
\<close>

definition upper_byte :: "char \<Rightarrow> char" where
  "upper_byte c = (let n = (of_char c :: nat) in if 97 \<le> n \<and> n \<le> 122 then char_of (n - 32) else c)"

fun to_upper :: "string \<Rightarrow> string" where
  "to_upper [] = []"
| "to_upper (a # b # s) =
     (if a = CHR 0xC4 \<and> b = CHR 0xB1 then CHR ''I'' # to_upper s
      else if a = CHR 0xC5 \<and> b = CHR 0xBF then CHR ''S'' # to_upper s
      else upper_byte a # to_upper (b # s))"
| "to_upper [a] = [upper_byte a]"

text \<open>
  \<^verbatim>\<open>strings.ToLower\<close> on the ASCII letters. It is applied to values of database columns whose CHECK constraints only
  admit lower-case ASCII words, on which it is the identity.
\<close>

definition lower_byte :: "char \<Rightarrow> char" where
  "lower_byte c = (let n = (of_char c :: nat) in if 65 \<le> n \<and> n \<le> 90 then char_of (n + 32) else c)"

text \<open>\<^verbatim>\<open>strings.Split\<close> at a one-byte separator, \<^verbatim>\<open>strings.SplitN(s, sep, 2)\<close>, \<^verbatim>\<open>HasPrefix\<close> and \<^verbatim>\<open>TrimPrefix\<close>.\<close>

fun split_on :: "char \<Rightarrow> string \<Rightarrow> string list" where
  "split_on c [] = [[]]"
| "split_on c (a # s) =
     (if a = c then [] # split_on c s
      else (case split_on c s of [] \<Rightarrow> [[a]] | p # ps \<Rightarrow> (a # p) # ps))"

definition split_two :: "char \<Rightarrow> string \<Rightarrow> (string \<times> string) option" where
  "split_two c s = (if c \<in> set s then Some (takeWhile (\<lambda>a. a \<noteq> c) s, tl (dropWhile (\<lambda>a. a \<noteq> c) s)) else None)"

definition trim_prefix :: "string \<Rightarrow> string \<Rightarrow> string option" where
  "trim_prefix p s = (if take (length p) s = p then Some (drop (length p) s) else None)"

lemma trim_prefix_append [simp]: "trim_prefix p (p @ s) = Some s"
  by (simp add: trim_prefix_def)

section \<open>The caller: actor_context.go\<close>

text \<open>The actor the token middleware puts into the context, \<^verbatim>\<open>auth.Actor\<close>.\<close>

record auth_actor =
  AuthID :: string
  AuthType :: string

definition actorTypeFromString :: "string \<Rightarrow> actor_type" where
  "actorTypeFromString v =
     (let u = to_upper (trim_space v)
      in if u = ''ACTOR_TYPE_PLAYER'' \<or> u = ''PLAYER'' then ACTOR_TYPE_PLAYER
         else if u = ''ACTOR_TYPE_OPERATOR'' \<or> u = ''OPERATOR'' then ACTOR_TYPE_OPERATOR
         else if u = ''ACTOR_TYPE_SERVICE'' \<or> u = ''SERVICE'' then ACTOR_TYPE_SERVICE
         else ACTOR_TYPE_UNSPECIFIED)"

text \<open>\<open>Inl\<close> carries the reason of the refusal, \<open>Inr\<close> the actor the request acts for.\<close>

definition resolveActor ::
    "auth_actor option \<Rightarrow> request_meta option \<Rightarrow> string + actor" where
  "resolveActor ctx meta =
     (case ctx of
        Some a \<Rightarrow>
          let ctxActor = \<lparr>ActorId = AuthID a, ActorType = actorTypeFromString (AuthType a)\<rparr>
          in if ActorId ctxActor = [] \<or> ActorType ctxActor = ACTOR_TYPE_UNSPECIFIED
             then Inl ''actor context is invalid''
             else (case Option.bind meta MetaActor of
                     Some ma \<Rightarrow>
                       if ActorId ma \<noteq> ActorId ctxActor \<or> ActorType ma \<noteq> ActorType ctxActor
                       then Inl ''actor mismatch with token'' else Inr ctxActor
                   | None \<Rightarrow> Inr ctxActor)
      | None \<Rightarrow>
          (case Option.bind meta MetaActor of
             None \<Rightarrow> Inl ''actor is required''
           | Some ma \<Rightarrow>
               if ActorId ma = [] \<or> ActorType ma = ACTOR_TYPE_UNSPECIFIED
               then Inl ''actor binding is required'' else Inr ma))"

lemma resolveActor_bound:
  assumes "resolveActor ctx meta = Inr a"
  shows "ActorId a \<noteq> [] \<and> ActorType a \<noteq> ACTOR_TYPE_UNSPECIFIED"
  using assms by (auto simp: resolveActor_def Let_def split: option.splits if_splits)

text \<open>With a token in the context the request cannot act for anyone but the token's actor.\<close>

lemma resolveActor_token:
  assumes "resolveActor (Some t) meta = Inr a"
  shows "ActorId a = AuthID t \<and> ActorType a = actorTypeFromString (AuthType t)"
  using assms by (auto simp: resolveActor_def Let_def split: option.splits if_splits)

lemma resolveActor_reason: "resolveActor ctx meta = Inl r \<Longrightarrow> r \<noteq> []"
  by (auto simp: resolveActor_def Let_def split: option.splits if_splits)

text \<open>
  The check of the back-office services (config, registry, events, reporting, promotions, overlay,
  audit): operators and services only.
\<close>

definition operator_or_service :: "actor_type \<Rightarrow> bool" where
  "operator_or_service t \<longleftrightarrow> t = ACTOR_TYPE_OPERATOR \<or> t = ACTOR_TYPE_SERVICE"

definition authorize_backoffice ::
    "auth_actor option \<Rightarrow> request_meta option \<Rightarrow> string option" where
  "authorize_backoffice ctx meta =
     (case resolveActor ctx meta of
        Inl reason \<Rightarrow> Some reason
      | Inr actor \<Rightarrow> if operator_or_service (ActorType actor) then None
                     else Some ''unauthorized actor type'')"

text \<open>
  The check of the services a player may call for themselves (ledger, wagering, sessions): operators
  and services for anyone, a player for \<open>owner\<close> only, with the service's own refusal text.
\<close>

definition authorize_owner ::
    "string \<Rightarrow> auth_actor option \<Rightarrow> request_meta option \<Rightarrow> string \<Rightarrow> string option" where
  "authorize_owner denial ctx meta owner =
     (case resolveActor ctx meta of
        Inl reason \<Rightarrow> Some reason
      | Inr actor \<Rightarrow>
          (if operator_or_service (ActorType actor) then None
           else if ActorType actor = ACTOR_TYPE_PLAYER
                then (if ActorId actor \<noteq> owner then Some denial else None)
           else Some ''unauthorized actor type''))"

lemma authorize_owner_sound:
  assumes "authorize_owner denial ctx meta owner = None"
  shows "\<exists>a. resolveActor ctx meta = Inr a \<and>
           (operator_or_service (ActorType a) \<or> (ActorType a = ACTOR_TYPE_PLAYER \<and> ActorId a = owner))"
  using assms by (auto simp: authorize_owner_def split: sum.splits if_splits)

lemma authorize_backoffice_sound:
  assumes "authorize_backoffice ctx meta = None"
  shows "\<exists>a. resolveActor ctx meta = Inr a \<and> operator_or_service (ActorType a)"
  using assms by (auto simp: authorize_backoffice_def split: sum.splits if_splits)

end
