(* ===== verification/AuditChain.thy ===== *)
theory AuditChain
  imports Common
begin

text \<open>
  \<^verbatim>\<open>internal/platform/audit\<close>: the audit event, the hash that links an event to the one before it,
  and the in-memory store every service appends to. The lemmas show that a store built by
  \<open>Append\<close> is always a valid chain to which an append never fails, that the log only grows, and
  which fields of an event the chain protects.

  SHA-256 is a parameter \<open>sha\<close>; that two different texts of the logs in question do not share a
  digest and that a digest has 32 bytes are hypotheses of the lemmas that need them.
\<close>

section \<open>Events and their hash: model.go, chain.go\<close>

definition ResultSuccess :: string where "ResultSuccess = ''success''"
definition ResultDenied :: string where "ResultDenied = ''denied''"
definition ResultError :: string where "ResultError = ''error''"

record event =
  ev_AuditID :: string
  ev_OccurredAt :: time
  ev_RecordedAt :: time
  ev_ActorID :: string
  ev_ActorType :: string
  ev_AuthContext :: string
  ev_ObjectType :: string
  ev_ObjectID :: string
  ev_Action :: string
  ev_Before :: string
  ev_After :: string
  ev_Result :: string
  ev_Reason :: string
  ev_PartitionDay :: string
  ev_HashPrev :: string
  ev_HashCurr :: string

text \<open>The bytes \<^verbatim>\<open>ComputeHash\<close> feeds to SHA-256.\<close>

definition hash_input :: "string \<Rightarrow> event \<Rightarrow> string" where
  "hash_input prev e =
     prev @ ''|'' @ ev_AuditID e @ ''|'' @ fmt_rfc3339nano (ev_RecordedAt e)
     @ ''|'' @ ev_ActorID e @ ''|'' @ ev_Action e @ ''|'' @ ev_Result e
     @ ''|'' @ hex_encode (ev_Before e) @ ''|'' @ hex_encode (ev_After e)"

definition ComputeHash :: "(string \<Rightarrow> string) \<Rightarrow> string \<Rightarrow> event \<Rightarrow> string" where
  "ComputeHash sha prev e = hex_encode (sha (hash_input prev e))"

section \<open>The in-memory store: store.go\<close>

record store =
  st_events :: "event list"
  st_last :: string

definition genesis :: string where "genesis = ''GENESIS''"

definition NewInMemoryStore :: store where
  "NewInMemoryStore = \<lparr>st_events = [], st_last = genesis\<rparr>"

text \<open>\<open>None\<close> is \<^verbatim>\<open>ErrCorruptChain\<close>; the store is then unchanged.\<close>

definition Append :: "(string \<Rightarrow> string) \<Rightarrow> event \<Rightarrow> store \<Rightarrow> event option \<times> store" where
  "Append sha e s =
     (let e1 = e\<lparr>ev_HashPrev := st_last s\<rparr>;
          e2 = e1\<lparr>ev_HashCurr := ComputeHash sha (st_last s) e1\<rparr>;
          corrupt = (st_events s \<noteq> [] \<and>
                     (let prev = last (st_events s)
                      in ComputeHash sha (ev_HashPrev prev) prev \<noteq> ev_HashCurr prev))
      in if corrupt then (None, s)
         else (Some e2, s\<lparr>st_events := st_events s @ [e2], st_last := ev_HashCurr e2\<rparr>))"

definition Events :: "store \<Rightarrow> event list" where
  "Events s = st_events s"

section \<open>Valid chains\<close>

fun chain_from :: "(string \<Rightarrow> string) \<Rightarrow> string \<Rightarrow> event list \<Rightarrow> bool" where
  "chain_from sha prev [] = True"
| "chain_from sha prev (e # es) =
     (ev_HashPrev e = prev \<and> ev_HashCurr e = ComputeHash sha prev e \<and> chain_from sha (ev_HashCurr e) es)"

fun chain_end :: "string \<Rightarrow> event list \<Rightarrow> string" where
  "chain_end prev [] = prev"
| "chain_end prev (e # es) = chain_end (ev_HashCurr e) es"

definition store_ok :: "(string \<Rightarrow> string) \<Rightarrow> store \<Rightarrow> bool" where
  "store_ok sha s \<longleftrightarrow> chain_from sha genesis (st_events s) \<and> st_last s = chain_end genesis (st_events s)"

lemma hash_input_hashes [simp]:
  "hash_input p (e\<lparr>ev_HashPrev := x\<rparr>) = hash_input p e"
  "hash_input p (e\<lparr>ev_HashCurr := x\<rparr>) = hash_input p e"
  by (simp_all add: hash_input_def)

lemma ComputeHash_hashes [simp]:
  "ComputeHash sha p (e\<lparr>ev_HashPrev := x\<rparr>) = ComputeHash sha p e"
  "ComputeHash sha p (e\<lparr>ev_HashCurr := x\<rparr>) = ComputeHash sha p e"
  by (simp_all add: ComputeHash_def)

lemma chain_from_append:
  "chain_from sha p (es @ fs) \<longleftrightarrow> chain_from sha p es \<and> chain_from sha (chain_end p es) fs"
  by (induction es arbitrary: p) auto

lemma chain_end_append [simp]: "chain_end p (es @ fs) = chain_end (chain_end p es) fs"
  by (induction es arbitrary: p) auto

lemma chain_from_last:
  assumes "chain_from sha p es" "es \<noteq> []"
  shows "ComputeHash sha (ev_HashPrev (last es)) (last es) = ev_HashCurr (last es)"
  using assms
proof (induction es arbitrary: p)
  case (Cons e es)
  then show ?case by (cases es) auto
qed simp

lemma store_ok_new [simp]: "store_ok sha NewInMemoryStore"
  by (simp add: store_ok_def NewInMemoryStore_def)

text \<open>Appending to a valid store succeeds, keeps it valid and adds exactly the sealed event.\<close>

definition seal :: "(string \<Rightarrow> string) \<Rightarrow> store \<Rightarrow> event \<Rightarrow> event" where
  "seal sha s e = e\<lparr>ev_HashPrev := st_last s, ev_HashCurr := ComputeHash sha (st_last s) e\<rparr>"

lemma Append_ok:
  assumes "store_ok sha s"
  shows "Append sha e s =
           (Some (seal sha s e),
            s\<lparr>st_events := st_events s @ [seal sha s e], st_last := ev_HashCurr (seal sha s e)\<rparr>)"
  using assms chain_from_last [of sha genesis "st_events s"]
  by (auto simp: Append_def Let_def store_ok_def seal_def)

lemma Append_store_ok:
  assumes "store_ok sha s"
  shows "store_ok sha (snd (Append sha e s))"
  using assms by (simp add: Append_ok) (simp add: store_ok_def chain_from_append seal_def)

section \<open>The interface of an audit log\<close>

text \<open>
  What a service relies on: an append to a valid log succeeds and the log grows by one event that
  carries what was appended.
\<close>

locale audit_log =
  fixes append :: "'e \<Rightarrow> 's \<Rightarrow> 'e option \<times> 's" and entries :: "'s \<Rightarrow> 'e list"
    and valid :: "'s \<Rightarrow> bool" and same :: "'e \<Rightarrow> 'e \<Rightarrow> bool"
  assumes append_valid: "valid s \<Longrightarrow> valid (snd (append e s))"
    and append_entries:
      "valid s \<Longrightarrow> \<exists>e'. same e e' \<and> fst (append e s) = Some e' \<and> entries (snd (append e s)) = entries s @ [e']"
begin

definition append_all :: "'e list \<Rightarrow> 's \<Rightarrow> 's" where
  "append_all es s = fold (\<lambda>e s. snd (append e s)) es s"

lemma append_all_valid: "valid s \<Longrightarrow> valid (append_all es s)"
  unfolding append_all_def by (induction es arbitrary: s) (auto intro: append_valid)

lemma append_all_entries:
  "valid s \<Longrightarrow> \<exists>fs. entries (append_all es s) = entries s @ fs \<and> list_all2 same es fs"
proof (induction es arbitrary: s)
  case Nil
  then show ?case by (simp add: append_all_def)
next
  case (Cons e es)
  obtain e' where e': "same e e'" "entries (snd (append e s)) = entries s @ [e']"
    using append_entries [OF Cons.prems] by blast
  obtain fs where "entries (append_all es (snd (append e s))) = entries (snd (append e s)) @ fs"
      "list_all2 same es fs"
    using Cons.IH [OF append_valid [OF Cons.prems]] by blast
  with e' have "entries (append_all (e # es) s) = entries s @ e' # fs \<and> list_all2 same (e # es) (e' # fs)"
    by (simp add: append_all_def)
  then show ?case by blast
qed

end

definition same_event :: "event \<Rightarrow> event \<Rightarrow> bool" where
  "same_event e f \<longleftrightarrow> f = e\<lparr>ev_HashPrev := ev_HashPrev f, ev_HashCurr := ev_HashCurr f\<rparr>"

lemma same_event_seal [simp]: "same_event e (seal sha s e)"
  by (simp add: same_event_def seal_def)

interpretation mem_log: audit_log "Append sha" Events "store_ok sha" same_event for sha
proof
  show "store_ok sha s \<Longrightarrow> store_ok sha (snd (Append sha e s))" for s e
    by (rule Append_store_ok)
  show "store_ok sha s \<Longrightarrow> \<exists>e'. same_event e e' \<and> fst (Append sha e s) = Some e' \<and>
      Events (snd (Append sha e s)) = Events s @ [e']" for s e
    by (rule exI [of _ "seal sha s e"]) (simp add: Append_ok Events_def)
qed

text \<open>
  C1: whatever events are appended, one after the other, to a fresh audit store, the store ends as a
  hash chain from GENESIS that holds exactly these events in the order of the appends, each as it was
  given but for its two hash fields. No append is refused.
\<close>

theorem audit_store_is_chain:
  "\<exists>fs. Events (fold (\<lambda>e s. snd (Append sha e s)) es NewInMemoryStore) = fs \<and>
        list_all2 same_event es fs \<and> chain_from sha genesis fs"
proof -
  let ?s = "mem_log.append_all sha es NewInMemoryStore"
  have "store_ok sha ?s" by (rule mem_log.append_all_valid) simp
  moreover obtain fs where "Events ?s = Events NewInMemoryStore @ fs" "list_all2 same_event es fs"
    using mem_log.append_all_entries [of sha NewInMemoryStore es] by auto
  ultimately show ?thesis
    by (simp add: mem_log.append_all_def store_ok_def Events_def NewInMemoryStore_def)
qed

section \<open>What the chain protects\<close>

text \<open>The fields that enter the hash, and the fields that do not.\<close>

definition covered :: "event \<Rightarrow> string \<times> string \<times> string \<times> string \<times> string \<times> string \<times> string" where
  "covered e = (ev_AuditID e, fmt_rfc3339nano (ev_RecordedAt e), ev_ActorID e, ev_Action e, ev_Result e,
                ev_Before e, ev_After e)"

definition no_bar :: "string \<Rightarrow> bool" where
  "no_bar s \<longleftrightarrow> CHR ''|'' \<notin> set s"

text \<open>
  The separator is not escaped. The texts the services write into the identifier, action and result
  fields contain no bar; the actor identifier is free text.
\<close>

definition plain_event :: "event \<Rightarrow> bool" where
  "plain_event e \<longleftrightarrow> no_bar (ev_AuditID e) \<and> no_bar (ev_Action e) \<and> no_bar (ev_Result e)"

lemma no_bar_Nil [simp]: "no_bar []"
  by (simp add: no_bar_def)

lemma no_bar_Cons [simp]: "no_bar (c # s) \<longleftrightarrow> c \<noteq> CHR ''|'' \<and> no_bar s"
  by (auto simp: no_bar_def)

lemma no_bar_split:
  assumes "a @ ''|'' @ b = c @ ''|'' @ d" "no_bar a" "no_bar c"
  shows "a = c \<and> b = d"
  using assms
proof (induction a arbitrary: c)
  case Nil
  then show ?case by (cases c) (auto simp: no_bar_def)
next
  case (Cons x a)
  then show ?case by (cases c) (auto simp: no_bar_def)
qed

lemma no_bar_rev [simp]: "no_bar (rev s) = no_bar s"
  by (simp add: no_bar_def)

lemma no_bar_split_end:
  assumes "a @ ''|'' @ b = c @ ''|'' @ d" "no_bar b" "no_bar d"
  shows "a = c \<and> b = d"
proof -
  have "rev b @ ''|'' @ rev a = rev d @ ''|'' @ rev c"
    using arg_cong [OF assms(1), of rev] by simp
  then show ?thesis using no_bar_split [of "rev b" "rev a" "rev d" "rev c"] assms(2,3) by simp
qed

lemma hex_digit_no_bar: "d < 16 \<Longrightarrow> hex_digit d \<noteq> CHR ''|''"
proof
  assume "d < 16" "hex_digit d = CHR ''|''"
  then have "of_char (hex_digit d) = (124 :: nat)" by simp
  with \<open>d < 16\<close> show False by (simp add: hex_digit_def split: if_splits)
qed

lemma no_bar_hex [simp]: "no_bar (hex_encode s)"
proof (induction s)
  case (Cons c s)
  have "of_char c div 16 < (16 :: nat)"
    using nat_of_char_less_256 [of c] by (simp add: less_mult_imp_div_less)
  with Cons show ?case
    using hex_digit_no_bar [of "of_char c div 16"] hex_digit_no_bar [of "of_char c mod 16"]
    by (auto simp: no_bar_def)
qed (simp add: no_bar_def)

lemma no_bar_digits: "list_all is_digit s \<Longrightarrow> no_bar s"
  by (auto simp: no_bar_def is_digit_def list_all_iff)

lemma no_bar_append [simp]: "no_bar (s @ t) \<longleftrightarrow> no_bar s \<and> no_bar t"
  by (auto simp: no_bar_def)

lemma no_bar_pad [simp]: "no_bar (pad w n)"
  by (rule no_bar_digits) (rule pad_digits)

lemma no_bar_fraction [simp]: "no_bar (fmt_fraction ns)"
proof -
  have "no_bar (strip_zeros (pad 9 (nat ns)))"
    using strip_zeros_split [of "pad 9 (nat ns)"] no_bar_pad [of 9 "nat ns"]
    by (metis no_bar_append)
  then show ?thesis by (auto simp: fmt_fraction_def Let_def no_bar_def)
qed

lemma no_bar_time [simp]: "no_bar (fmt_rfc3339nano t)"
  by (simp add: fmt_rfc3339nano_def fmt_date_def pad_int_def split: prod.splits)

lemma hash_input_inj:
  assumes eq: "hash_input p e = hash_input q f"
    and "plain_event e" "plain_event f" "no_bar p" "no_bar q"
  shows "p = q \<and> covered e = covered f"
proof -
  define mid :: "event \<Rightarrow> string" where "mid = (\<lambda>g. ev_ActorID g @ ''|'' @ ev_Action g @ ''|'' @ ev_Result g
      @ ''|'' @ hex_encode (ev_Before g) @ ''|'' @ hex_encode (ev_After g))"
  have plain: "no_bar (ev_AuditID g)" "no_bar (ev_Action g)" "no_bar (ev_Result g)" if "g = e \<or> g = f" for g
    using that assms(2,3) by (auto simp: plain_event_def)
  from eq have "p = q \<and> ev_AuditID e @ ''|'' @ fmt_rfc3339nano (ev_RecordedAt e) @ ''|'' @ mid e
      = ev_AuditID f @ ''|'' @ fmt_rfc3339nano (ev_RecordedAt f) @ ''|'' @ mid f"
    unfolding hash_input_def mid_def using assms(4,5) by (rule no_bar_split)
  then have 1: "p = q" "ev_AuditID e = ev_AuditID f"
      "fmt_rfc3339nano (ev_RecordedAt e) @ ''|'' @ mid e = fmt_rfc3339nano (ev_RecordedAt f) @ ''|'' @ mid f"
    using no_bar_split plain by blast+
  then have 2: "fmt_rfc3339nano (ev_RecordedAt e) = fmt_rfc3339nano (ev_RecordedAt f)" "mid e = mid f"
    using no_bar_split no_bar_time by blast+
  define init :: "event \<Rightarrow> nat \<Rightarrow> string" where "init = (\<lambda>g n. fold (\<lambda>x acc. acc @ ''|'' @ x)
      (take n [ev_Action g, ev_Result g, hex_encode (ev_Before g)]) (ev_ActorID g))"
  have mid3: "mid g = init g 3 @ ''|'' @ hex_encode (ev_After g)"
      "init g 3 = init g 2 @ ''|'' @ hex_encode (ev_Before g)"
      "init g 2 = init g 1 @ ''|'' @ ev_Result g" "init g 1 = ev_ActorID g @ ''|'' @ ev_Action g" for g
    by (simp_all add: mid_def init_def numeral_3_eq_3 numeral_2_eq_2)
  have 3: "init e 3 = init f 3" "hex_encode (ev_After e) = hex_encode (ev_After f)"
    using no_bar_split_end [OF 2(2) [unfolded mid3(1)]] by simp_all
  have 4: "init e 2 = init f 2" "hex_encode (ev_Before e) = hex_encode (ev_Before f)"
    using no_bar_split_end [OF 3(1) [unfolded mid3(2)]] by simp_all
  have 5: "init e 1 = init f 1" "ev_Result e = ev_Result f"
    using no_bar_split_end [OF 4(1) [unfolded mid3(3)]] plain by simp_all
  have 6: "ev_ActorID e = ev_ActorID f" "ev_Action e = ev_Action f"
    using no_bar_split_end [OF 5(1) [unfolded mid3(4)]] plain by simp_all
  show ?thesis using 1 2 3 4 5 6 by (simp add: covered_def hex_encode_inj)
qed

text \<open>The texts hashed along a chain.\<close>

fun hashed :: "string \<Rightarrow> event list \<Rightarrow> string list" where
  "hashed prev [] = []"
| "hashed prev (e # es) = hash_input prev e # hashed (ev_HashCurr e) es"

lemma hashed_append: "hashed p (es @ fs) = hashed p es @ hashed (chain_end p es) fs"
  by (induction es arbitrary: p) auto

lemma no_bar_chain_end: "chain_from sha p es \<Longrightarrow> no_bar p \<Longrightarrow> no_bar (chain_end p es)"
  by (induction es arbitrary: p) (auto simp: ComputeHash_def)

lemma genesis_no_bar [simp]: "no_bar genesis"
  by (simp add: genesis_def no_bar_def)

lemma genesis_not_hash: "length d = 32 \<Longrightarrow> genesis \<noteq> hex_encode d"
  using length_hex_encode [of d] by (auto simp: genesis_def dest: arg_cong [of _ _ length])

text \<open>
  C2: the last hash of a log determines what the chain covers. Two valid chains from GENESIS that end in
  the same hash have the same events in the same order, as far as identifier, recording time, actor
  identifier, action, result and the two snapshots go, provided SHA-256 does not map two different
  texts of these logs to one digest. An attacker who edits, inserts, removes or reorders covered
  content and keeps the chain valid therefore changes the last hash.
\<close>

theorem audit_chain_tamper_evident:
  assumes "chain_from sha genesis es" "chain_from sha genesis fs"
    and "chain_end genesis es = chain_end genesis fs"
    and "list_all plain_event es" "list_all plain_event fs"
    and nocoll: "\<And>x y. x \<in> set (hashed genesis es) \<Longrightarrow> y \<in> set (hashed genesis fs) \<Longrightarrow> sha x = sha y \<Longrightarrow> x = y"
    and len: "\<And>x. length (sha x) = 32"
  shows "map covered es = map covered fs"
  using assms(1-6)
proof (induction es arbitrary: fs rule: rev_induct)
  case Nil
  then show ?case
    by (cases fs rule: rev_cases) (auto simp: chain_from_append ComputeHash_def genesis_not_hash len)
next
  case (snoc e es)
  show ?case
  proof (cases fs rule: rev_cases)
    case Nil
    with snoc.prems show ?thesis
      using genesis_not_hash [OF len, of "hash_input (chain_end genesis es) e"]
      by (auto simp: chain_from_append ComputeHash_def)
  next
    case (snoc gs f)
    let ?p = "chain_end genesis es" and ?q = "chain_end genesis gs"
    have ce: "chain_from sha genesis es" "chain_from sha genesis gs"
      and hc: "ev_HashCurr e = ComputeHash sha ?p e" "ev_HashCurr f = ComputeHash sha ?q f"
      and eq: "ev_HashCurr e = ev_HashCurr f"
      and plain: "plain_event e" "plain_event f" "list_all plain_event es" "list_all plain_event gs"
      using snoc.prems(1-5) by (simp_all add: chain_from_append \<open>fs = gs @ [f]\<close>)
    have "sha (hash_input ?p e) = sha (hash_input ?q f)"
      using eq hc by (simp add: ComputeHash_def hex_encode_inj)
    then have "hash_input ?p e = hash_input ?q f"
      by (rule snoc.prems(6) [rotated 2]) (simp_all add: hashed_append \<open>fs = gs @ [f]\<close>)
    then have pq: "?p = ?q" and cov: "covered e = covered f"
      using hash_input_inj [OF _ plain(1,2)] no_bar_chain_end [OF ce(1)] no_bar_chain_end [OF ce(2)]
      by simp_all
    have nc: "x = y" if "x \<in> set (hashed genesis es)" "y \<in> set (hashed genesis gs)" "sha x = sha y" for x y
      using that snoc.prems(6) [of x y] by (simp add: hashed_append \<open>fs = gs @ [f]\<close>)
    have "map covered es = map covered gs"
      using ce pq plain(3,4) nc by (rule snoc.IH)
    with cov show ?thesis using \<open>fs = gs @ [f]\<close> by simp
  qed
qed

definition demo_event :: event where
  "demo_event =
     \<lparr>ev_AuditID = ''audit-1'', ev_OccurredAt = 0, ev_RecordedAt = 0, ev_ActorID = ''op|1'',
      ev_ActorType = ''ACTOR_TYPE_OPERATOR'', ev_AuthContext = [], ev_ObjectType = ''ledger_account'',
      ev_ObjectID = ''acct-1'', ev_Action = ''deposit'', ev_Before = json_empty, ev_After = json_empty,
      ev_Result = ResultSuccess, ev_Reason = [], ev_PartitionDay = ''1970-01-01'',
      ev_HashPrev = [], ev_HashCurr = []\<rparr>"

definition demo_sha :: "string \<Rightarrow> string" where
  "demo_sha x = replicate 32 (CHR ''s'')"

definition demo_log :: "string \<Rightarrow> event list" where
  "demo_log reason = [seal demo_sha NewInMemoryStore (demo_event\<lparr>ev_Reason := reason\<rparr>)]"

lemma demo_log_facts:
  "chain_from demo_sha genesis (demo_log r)" "chain_end genesis (demo_log r) = chain_end genesis (demo_log r')"
  "list_all plain_event (demo_log r)" "hashed genesis (demo_log r) = [hash_input genesis demo_event]"
  by (simp_all add: demo_log_def seal_def NewInMemoryStore_def ComputeHash_def demo_sha_def
      hash_input_def demo_event_def plain_event_def ResultSuccess_def)

theorem audit_chain_tamper_evident_witness:
  "chain_from demo_sha genesis (demo_log ''a'') \<and> chain_from demo_sha genesis (demo_log ''b'') \<and>
   map covered (demo_log ''a'') = map covered (demo_log ''b'')"
proof -
  have "map covered (demo_log ''a'') = map covered (demo_log ''b'')"
    by (rule audit_chain_tamper_evident [of demo_sha])
       (simp_all add: demo_log_facts demo_log_facts(2) [of "''a''" "''b''"] demo_sha_def)
  then show ?thesis by (simp add: demo_log_facts)
qed

text \<open>An edit of the fields outside the hash, each by an arbitrary function of the event.\<close>

definition edit_uncovered ::
    "(event \<Rightarrow> time) \<Rightarrow> (event \<Rightarrow> string) \<Rightarrow> (event \<Rightarrow> string) \<Rightarrow> (event \<Rightarrow> string) \<Rightarrow> (event \<Rightarrow> string)
     \<Rightarrow> (event \<Rightarrow> string) \<Rightarrow> (event \<Rightarrow> string) \<Rightarrow> event \<Rightarrow> event" where
  "edit_uncovered occurred atype auth otype oid reason day e =
     e\<lparr>ev_OccurredAt := occurred e, ev_ActorType := atype e, ev_AuthContext := auth e,
       ev_ObjectType := otype e, ev_ObjectID := oid e, ev_Reason := reason e, ev_PartitionDay := day e\<rparr>"

lemma edit_uncovered_hash [simp]:
  "ComputeHash sha p (edit_uncovered oc at au ot oi re da e) = ComputeHash sha p e"
  "ev_HashPrev (edit_uncovered oc at au ot oi re da e) = ev_HashPrev e"
  "ev_HashCurr (edit_uncovered oc at au ot oi re da e) = ev_HashCurr e"
  by (simp_all add: edit_uncovered_def ComputeHash_def hash_input_def)

text \<open>
  C3: the chain says nothing about the other fields. Rewriting the object type and identifier, the
  reason, the actor type, the authentication context, the occurrence time and the partition day of
  any events leaves a chain exactly as valid as it was, with the same last hash.
\<close>

theorem audit_uncovered_fields_unprotected:
  "chain_from sha p (map (edit_uncovered oc at au ot oi re da) es) = chain_from sha p es \<and>
   chain_end p (map (edit_uncovered oc at au ot oi re da) es) = chain_end p es"
  by (induction es arbitrary: p) simp_all

end
