(* ===== verification/Service.thy ===== *)
theory Service
  imports AuditChain
begin

text \<open>
  The parts every service has: the handle of the PostgreSQL database, the audit store and the counter
  of audit identifiers, and \<open>appendAudit\<close>, which the services repeat word for word.

  A database is a record of tables; each service's tables extend \<open>dbcore\<close>, which holds the table
  of audit events. Statements are modelled by what their SQL text does to the tables. A statement can
  also fail for reasons outside the model (a lost connection, a timeout): \<open>db_faults\<close> says, statement
  by statement, which ones do, so that a lemma about all databases is a lemma about all failures.

  \<open>db_int_text\<close> says whether the driver accepts a Go integer for a parameter of the type \<^verbatim>\<open>text\<close>. Three statements rely on it, those
  that build an interval as \<^verbatim>\<open>($n || ' seconds')::interval\<close>; a driver that refuses makes them fail. Nothing is assumed about it.
\<close>

section \<open>Databases\<close>

record dbcore =
  db_faults :: "bool list"
  db_int_text :: bool
  db_audit_events :: "event list"

text \<open>One round trip to the database: \<open>False\<close> is an error.\<close>

definition sql_exec :: "'r dbcore_scheme \<Rightarrow> bool \<times> 'r dbcore_scheme" where
  "sql_exec d = (case db_faults d of [] \<Rightarrow> (True, d) | f # fs \<Rightarrow> (\<not> f, d\<lparr>db_faults := fs\<rparr>))"

text \<open>
  The statements of a transaction, in order. A statement is a function of the tables; \<open>None\<close> is a
  violated constraint. An error rolls the tables back.
\<close>

fun sql_all :: "('r dbcore_scheme \<Rightarrow> 'r dbcore_scheme option) list \<Rightarrow> 'r dbcore_scheme
    \<Rightarrow> bool \<times> 'r dbcore_scheme" where
  "sql_all [] d = (True, d)"
| "sql_all (q # qs) d =
     (let (ok, d1) = sql_exec d
      in if \<not> ok then (False, d1)
         else (case q d1 of None \<Rightarrow> (False, d1) | Some d2 \<Rightarrow> sql_all qs d2))"

definition sql_tx_commit :: "('r dbcore_scheme \<Rightarrow> 'r dbcore_scheme option)
    \<Rightarrow> ('r dbcore_scheme \<Rightarrow> 'r dbcore_scheme option) list \<Rightarrow> 'r dbcore_scheme
    \<Rightarrow> bool \<times> 'r dbcore_scheme" where
  "sql_tx_commit commit qs d =
     (let (ok, d') = sql_all (Some # qs @ [commit]) d
      in if ok then (True, d') else (False, d\<lparr>db_faults := db_faults d'\<rparr>))"

text \<open>\<open>commit\<close> holds the deferred constraints; most transactions have none.\<close>

definition sql_tx :: "('r dbcore_scheme \<Rightarrow> 'r dbcore_scheme option) list \<Rightarrow> 'r dbcore_scheme
    \<Rightarrow> bool \<times> 'r dbcore_scheme" where
  "sql_tx = sql_tx_commit Some"

text \<open>One statement outside a transaction, and one that only reads.\<close>

definition sql_stmt :: "('r dbcore_scheme \<Rightarrow> 'r dbcore_scheme option) \<Rightarrow> 'r dbcore_scheme
    \<Rightarrow> bool \<times> 'r dbcore_scheme" where
  "sql_stmt q d = (let (ok, d1) = sql_exec d
                   in if \<not> ok then (False, d1)
                      else (case q d1 of None \<Rightarrow> (False, d1) | Some d2 \<Rightarrow> (True, d2)))"

definition sql_query :: "('r dbcore_scheme \<Rightarrow> 'a) \<Rightarrow> 'r dbcore_scheme
    \<Rightarrow> 'a option \<times> 'r dbcore_scheme" where
  "sql_query q d = (let (ok, d1) = sql_exec d in (if ok then Some (q d1) else None, d1))"

text \<open>\<^verbatim>\<open>INSERT ... ON CONFLICT (key) DO UPDATE\<close> of every column, and the row found under a key afterwards.\<close>

definition upsert :: "('r \<Rightarrow> 'k) \<Rightarrow> 'r \<Rightarrow> 'r list \<Rightarrow> 'r list" where
  "upsert key row rows =
     (if \<exists>r \<in> set rows. key r = key row then map (\<lambda>r. if key r = key row then row else r) rows else rows @ [row])"

lemma find_map_other: "k \<noteq> key row \<Longrightarrow>
  find (\<lambda>r. key r = k) (map (\<lambda>r. if key r = key row then row else r) rows) = find (\<lambda>r. key r = k) rows"
  by (induction rows) auto

lemma find_append: "find P (xs @ ys) = (case find P xs of None \<Rightarrow> find P ys | Some y \<Rightarrow> Some y)"
  by (induction xs) auto

lemma find_upsert_same: "find (\<lambda>r. key r = key row) (upsert key row rows) = Some row"
proof (cases "\<exists>r \<in> set rows. key r = key row")
  case True
  then have "find (\<lambda>r. key r = key row) (map (\<lambda>r. if key r = key row then row else r) rows) = Some row"
    by (induction rows) auto
  with True show ?thesis by (simp add: upsert_def)
next
  case False
  then have "find (\<lambda>r. key r = key row) rows = None" by (simp add: find_None_iff)
  with False show ?thesis by (simp add: upsert_def find_append)
qed

lemma find_upsert:
  "find (\<lambda>r. key r = k) (upsert key row rows) = (if k = key row then Some row else find (\<lambda>r. key r = k) rows)"
proof (cases "k = key row")
  case False
  then have "find (\<lambda>r. key r = k) (rows @ [row]) = find (\<lambda>r. key r = k) rows"
    by (auto simp: find_append split: option.splits)
  with False show ?thesis by (simp add: upsert_def find_map_other)
qed (simp add: find_upsert_same)

text \<open>\<^verbatim>\<open>ON CONFLICT (key) DO UPDATE\<close> of some columns: \<open>merge old new\<close> is the row afterwards.\<close>

definition upsert_with :: "('r \<Rightarrow> 'k) \<Rightarrow> ('r \<Rightarrow> 'r \<Rightarrow> 'r) \<Rightarrow> 'r \<Rightarrow> 'r list \<Rightarrow> 'r list" where
  "upsert_with key merge row rows =
     (if \<exists>r \<in> set rows. key r = key row then map (\<lambda>r. if key r = key row then merge r row else r) rows
      else rows @ [row])"

text \<open>\<^verbatim>\<open>ON CONFLICT (key) DO NOTHING\<close>.\<close>

definition insert_new :: "('r \<Rightarrow> 'k) \<Rightarrow> 'r \<Rightarrow> 'r list \<Rightarrow> 'r list" where
  "insert_new key row rows = (if \<exists>r \<in> set rows. key r = key row then rows else rows @ [row])"

lemma find_upsert_with:
  assumes "\<And>old new. key (merge old new) = key old"
  shows "find (\<lambda>r. key r = k) (upsert_with key merge row rows) =
     (if k = key row then Some (case find (\<lambda>r. key r = k) rows of None \<Rightarrow> row | Some old \<Rightarrow> merge old row)
      else find (\<lambda>r. key r = k) rows)"
proof (cases "\<exists>r \<in> set rows. key r = key row")
  case True
  have upd: "find (\<lambda>r. key r = k) (map (\<lambda>r. if key r = key row then merge r row else r) rs) =
      map_option (\<lambda>r. if k = key row then merge r row else r) (find (\<lambda>r. key r = k) rs)" for rs
    by (induction rs) (auto simp: assms)
  have "find (\<lambda>r. key r = key row) rows \<noteq> None"
    using True by (auto simp: find_None_iff)
  then show ?thesis
    using True by (auto simp: upsert_with_def upd option.map_ident)
next
  case False
  then have "find (\<lambda>r. key r = key row) rows = None" by (simp add: find_None_iff)
  with False show ?thesis by (auto simp: upsert_with_def find_append split: option.splits)
qed

lemma set_upsert: "set (upsert key row rows) \<subseteq> insert row (set rows)"
  by (auto simp: upsert_def)

text \<open>
  A relation between the tables before and after that every statement of a transaction keeps holds
  between the tables before and after the transaction, whatever fails.
\<close>

lemma sql_exec_tables: "snd (sql_exec d) = d \<or> snd (sql_exec d) = d\<lparr>db_faults := tl (db_faults d)\<rparr>"
  by (auto simp: sql_exec_def split: list.splits)

lemma sql_all_induct:
  assumes "P d"
    and faults: "\<And>d fs. P d \<Longrightarrow> P (d\<lparr>db_faults := fs\<rparr>)"
    and stmts: "\<And>q d d'. q \<in> set qs \<Longrightarrow> P d \<Longrightarrow> q d = Some d' \<Longrightarrow> P d'"
  shows "P (snd (sql_all qs d))"
  using assms(1,3)
proof (induction qs arbitrary: d)
  case (Cons q qs)
  have "P (snd (sql_exec d))"
    using Cons.prems(1) faults sql_exec_tables [of d] by metis
  with Cons show ?case
    by (auto simp: split_beta Let_def split: option.splits)
qed simp

lemma sql_tx_commit_induct:
  assumes "P d"
    and faults: "\<And>d fs. P d \<Longrightarrow> P (d\<lparr>db_faults := fs\<rparr>)"
    and stmts: "\<And>q d d'. q \<in> set qs \<Longrightarrow> P d \<Longrightarrow> q d = Some d' \<Longrightarrow> P d'"
    and commit: "\<And>d d'. P d \<Longrightarrow> commit d = Some d' \<Longrightarrow> P d'"
  shows "P (snd (sql_tx_commit commit qs d))"
proof -
  have "P (snd (sql_all (Some # qs @ [commit]) d))"
  proof (rule sql_all_induct [OF assms(1) faults])
    fix q d d' assume q: "q \<in> set (Some # qs @ [commit])" "P d" "q d = Some d'"
    then consider "q = Some" | "q \<in> set qs" | "q = commit" by auto
    then show "P d'"
    proof cases
      case 1 then show ?thesis using q(2,3) by simp
    next
      case 2 then show ?thesis using q(2,3) by (rule stmts)
    next
      case 3 then show ?thesis using q(2,3) commit by blast
    qed
  qed
  moreover have "P (d\<lparr>db_faults := fs\<rparr>)" for fs
    using assms(1) by (rule faults)
  ultimately show ?thesis
    unfolding sql_tx_commit_def split_beta Let_def by (simp del: sql_all.simps)
qed

section \<open>Audit events in the database: audit_postgres.go\<close>

definition normalizeAuditJSON :: "ext \<Rightarrow> string \<Rightarrow> string" where
  "normalizeAuditJSON x raw =
     (if raw = [] then json_empty else if \<not> json_valid x raw then json_empty else raw)"

definition auditAuthContextJSON :: "string \<Rightarrow> string" where
  "auditAuthContextJSON v =
     (if v = [] then json_empty else json_encode (JObject [(''context'', JString v)]))"

text \<open>\<^verbatim>\<open>ORDER BY recorded_at, audit_id\<close>.\<close>

definition audit_row_less :: "ext \<Rightarrow> event \<Rightarrow> event \<Rightarrow> bool" where
  "audit_row_less x a b \<longleftrightarrow> ev_RecordedAt a < ev_RecordedAt b \<or>
     (ev_RecordedAt a = ev_RecordedAt b \<and> pg_text_less x (ev_AuditID a) (ev_AuditID b))"

definition audit_select_last :: "ext \<Rightarrow> string \<Rightarrow> event list \<Rightarrow> string" where
  "audit_select_last x day rows =
     (case filter (\<lambda>r. ev_PartitionDay r = day) rows of
        [] \<Rightarrow> genesis
      | r # rs \<Rightarrow> ev_HashCurr (foldl (\<lambda>m r. if audit_row_less x m r then r else m) r rs))"

text \<open>
  The row \<^verbatim>\<open>INSERT INTO audit_events\<close> writes for a sealed event. The column of the partition day is a \<^verbatim>\<open>DATE\<close>; it is kept here as the text
  of the event, which is always \<open>fmt_date\<close> of a time and which the database gives back unchanged.
\<close>

definition audit_row :: "ext \<Rightarrow> event \<Rightarrow> event" where
  "audit_row x ev =
     ev\<lparr>ev_OccurredAt := pg_timestamptz x (ev_OccurredAt ev),
        ev_RecordedAt := pg_timestamptz x (ev_RecordedAt ev),
        ev_AuthContext := pg_jsonb x (auditAuthContextJSON (ev_AuthContext ev)),
        ev_Before := pg_jsonb x (normalizeAuditJSON x (ev_Before ev)),
        ev_After := pg_jsonb x (normalizeAuditJSON x (ev_After ev))\<rparr>"

definition audit_insert :: "ext \<Rightarrow> event \<Rightarrow> 'r dbcore_scheme \<Rightarrow> 'r dbcore_scheme option" where
  "audit_insert x ev d =
     (let prev = audit_select_last x (ev_PartitionDay ev) (db_audit_events d);
          ev2 = ev\<lparr>ev_HashPrev := prev, ev_HashCurr := ComputeHash (sha256 x) prev ev\<rparr>
      in if \<exists>r \<in> set (db_audit_events d). ev_AuditID r = ev_AuditID ev2 then Some d
         else Some (d\<lparr>db_audit_events := db_audit_events d @ [audit_row x ev2]\<rparr>))"

text \<open>
  A transaction of two statements: the \<^verbatim>\<open>SELECT ... FOR UPDATE\<close> of the last hash of the day and the
  insertion, which does nothing when the audit identifier is taken.
\<close>

definition appendAuditEventToDB ::
    "ext \<Rightarrow> env \<Rightarrow> event \<Rightarrow> 'r dbcore_scheme \<Rightarrow> bool \<times> 'r dbcore_scheme" where
  "appendAuditEventToDB x e ev d =
     (let ev1 = (if ev_RecordedAt ev = zero_time then ev\<lparr>ev_RecordedAt := env_wall e\<rparr> else ev);
          ev2 = (if ev_OccurredAt ev1 = zero_time then ev1\<lparr>ev_OccurredAt := ev_RecordedAt ev1\<rparr> else ev1);
          ev3 = (if ev_PartitionDay ev2 = []
                 then ev2\<lparr>ev_PartitionDay := fmt_date (ev_RecordedAt ev2)\<rparr> else ev2)
      in sql_tx [Some, audit_insert x ev3] d)"

text \<open>Times as text: \<^verbatim>\<open>NULLIF($n, '')::timestamptz\<close>.\<close>

definition nullable_time :: "ext \<Rightarrow> string \<Rightarrow> time option option" where
  "nullable_time x t = (if t = [] then Some None else map_option Some (pg_time_of_text x t))"

text \<open>\<^verbatim>\<open>nonEmptyTime\<close> of \<^verbatim>\<open>reporting_postgres.go\<close>: the wall clock for a blank text.\<close>

definition nonEmptyTime :: "env \<Rightarrow> string \<Rightarrow> string" where
  "nonEmptyTime e v = (if trim_space v = [] then fmt_rfc3339nano (env_wall e) else v)"

text \<open>\<^verbatim>\<open>nullTime\<close>: the zero time is no bound.\<close>

definition nullTime :: "time \<Rightarrow> time option" where
  "nullTime v = (if v = zero_time then None else Some v)"

section \<open>The common state and appendAudit\<close>

record 'd svc =
  svc_AuditStore :: "store option"
  svc_nextAuditID :: nat
  svc_db :: "'d option"

text \<open>A statement of a service, \<^verbatim>\<open>s.db.ExecContext\<close>, and a query; without a database they do nothing.\<close>

definition svc_exec :: "('r dbcore_scheme \<Rightarrow> bool \<times> 'r dbcore_scheme) \<Rightarrow> ('r dbcore_scheme, 'z) svc_scheme
    \<Rightarrow> bool \<times> ('r dbcore_scheme, 'z) svc_scheme" where
  "svc_exec q s =
     (case svc_db s of
        None \<Rightarrow> (True, s)
      | Some d \<Rightarrow> (case q d of (ok, d') \<Rightarrow> (ok, s\<lparr>svc_db := Some d'\<rparr>)))"

definition svc_query :: "('r dbcore_scheme \<Rightarrow> 'a) \<Rightarrow> ('r dbcore_scheme, 'z) svc_scheme
    \<Rightarrow> 'a option \<times> ('r dbcore_scheme, 'z) svc_scheme" where
  "svc_query q s =
     (case svc_db s of
        None \<Rightarrow> (None, s)
      | Some d \<Rightarrow> (case sql_query q d of (r, d') \<Rightarrow> (r, s\<lparr>svc_db := Some d'\<rparr>)))"

definition audit_actor :: "request_meta option \<Rightarrow> string \<times> string" where
  "audit_actor meta =
     (case Option.bind meta MetaActor of
        Some a \<Rightarrow> (ActorId a, actor_type_string (ActorType a))
      | None \<Rightarrow> (''system'', ''service''))"

definition audit_event ::
    "env \<Rightarrow> string \<Rightarrow> request_meta option \<Rightarrow> string \<Rightarrow> string \<Rightarrow> string \<Rightarrow> string \<Rightarrow> string \<Rightarrow> string
     \<Rightarrow> string \<Rightarrow> event" where
  "audit_event e auditID meta objectType objectID action before after result reason =
     \<lparr>ev_AuditID = auditID, ev_OccurredAt = env_now e, ev_RecordedAt = env_now e,
      ev_ActorID = fst (audit_actor meta), ev_ActorType = snd (audit_actor meta), ev_AuthContext = [],
      ev_ObjectType = objectType, ev_ObjectID = objectID, ev_Action = action,
      ev_Before = before, ev_After = after, ev_Result = result, ev_Reason = reason,
      ev_PartitionDay = fmt_date (env_now e), ev_HashPrev = [], ev_HashCurr = []\<rparr>"

text \<open>
  The event goes to the database first, when there is one, then to the store; a failure of either is
  the error of \<open>appendAudit\<close>. \<open>False\<close> is an error. \<open>mk\<close> builds the event from its identifier.
\<close>

definition audit_put ::
    "ext \<Rightarrow> env \<Rightarrow> (nat \<Rightarrow> event) \<Rightarrow> ('r dbcore_scheme, 'z) svc_scheme
     \<Rightarrow> bool \<times> store option \<times> nat \<times> 'r dbcore_scheme option" where
  "audit_put x e mk s =
     (case svc_AuditStore s of
        None \<Rightarrow> (False, None, svc_nextAuditID s, svc_db s)
      | Some st \<Rightarrow>
          let n = Suc (svc_nextAuditID s); ev = mk n;
              (ok, db) = (case svc_db s of
                            None \<Rightarrow> (True, None)
                          | Some d \<Rightarrow> map_prod id Some (appendAuditEventToDB x e ev d))
          in if \<not> ok then (False, Some st, n, db)
             else (case Append (sha256 x) ev st of (r, st') \<Rightarrow> (r \<noteq> None, Some st', n, db)))"

definition svc_append ::
    "ext \<Rightarrow> env \<Rightarrow> (nat \<Rightarrow> event) \<Rightarrow> ('r dbcore_scheme, 'z) svc_scheme
     \<Rightarrow> bool \<times> ('r dbcore_scheme, 'z) svc_scheme" where
  "svc_append x e mk s =
     (case audit_put x e mk s of (ok, st, n, db) \<Rightarrow>
        (ok, s\<lparr>svc_AuditStore := st, svc_nextAuditID := n, svc_db := db\<rparr>))"

text \<open>The trail of a service: the events its store holds.\<close>

definition svc_trail :: "('d, 'z) svc_scheme \<Rightarrow> event list" where
  "svc_trail s = (case svc_AuditStore s of None \<Rightarrow> [] | Some st \<Rightarrow> Events st)"

definition svc_ok :: "ext \<Rightarrow> ('d, 'z) svc_scheme \<Rightarrow> bool" where
  "svc_ok x s \<longleftrightarrow> (case svc_AuditStore s of None \<Rightarrow> False | Some st \<Rightarrow> store_ok (sha256 x) st)"

lemma svc_append_ok [svc_frame]: "svc_ok x s \<Longrightarrow> svc_ok x (snd (svc_append x e mk s))"
proof -
  assume "svc_ok x s"
  then obtain st where st: "svc_AuditStore s = Some st" "store_ok (sha256 x) st"
    by (auto simp: svc_ok_def split: option.splits)
  have "store_ok (sha256 x) (snd (Append (sha256 x) ev st))" for ev
    using st(2) by (rule Append_store_ok)
  with st show ?thesis
    by (simp add: svc_ok_def svc_append_def audit_put_def Let_def split: prod.splits)
       (auto split: if_splits, metis snd_conv)
qed

lemma svc_append_nodb:
  assumes "svc_ok x s" "svc_db s = None"
  shows "fst (svc_append x e mk s) \<and> svc_db (snd (svc_append x e mk s)) = None \<and>
         (\<exists>ev. same_event (mk (Suc (svc_nextAuditID s))) ev \<and>
               svc_trail (snd (svc_append x e mk s)) = svc_trail s @ [ev])"
proof -
  obtain st where st: "svc_AuditStore s = Some st" "store_ok (sha256 x) st"
    using assms(1) by (auto simp: svc_ok_def split: option.splits)
  let ?ev = "mk (Suc (svc_nextAuditID s))"
  have "same_event ?ev (seal (sha256 x) st ?ev)" by simp
  then show ?thesis
    using st assms(2) by (auto simp: svc_append_def audit_put_def Let_def Append_ok svc_trail_def Events_def)
qed

lemma svc_append_fails:
  assumes "svc_AuditStore s = None"
  shows "\<not> fst (svc_append x e mk s)"
  using assms by (simp add: svc_append_def audit_put_def)

text \<open>
  A service without a database whose store is in order: an audit event is always accepted and changes nothing but the
  trail and the counter.
\<close>

definition mem_idle :: "ext \<Rightarrow> ('d, 'z) svc_scheme \<Rightarrow> bool" where
  "mem_idle x s \<longleftrightarrow> svc_db s = None \<and> svc_ok x s"

lemma svc_append_idle:
  assumes "mem_idle x s"
  obtains st where "svc_append x e mk s = (True, s\<lparr>svc_AuditStore := st, svc_nextAuditID := Suc (svc_nextAuditID s)\<rparr>)"
    "mem_idle x (s\<lparr>svc_AuditStore := st, svc_nextAuditID := Suc (svc_nextAuditID s)\<rparr>)"
    "\<exists>ev. same_event (mk (Suc (svc_nextAuditID s))) ev \<and>
       svc_trail (s\<lparr>svc_AuditStore := st, svc_nextAuditID := Suc (svc_nextAuditID s)\<rparr>) = svc_trail s @ [ev]"
proof -
  obtain st where st: "svc_AuditStore s = Some st" "store_ok (sha256 x) st"
    using assms by (auto simp: mem_idle_def svc_ok_def split: option.splits)
  have same: "s\<lparr>svc_db := svc_db s\<rparr> = s" by simp
  let ?st = "Some (snd (Append (sha256 x) (mk (Suc (svc_nextAuditID s))) st))"
  let ?s = "s\<lparr>svc_AuditStore := ?st, svc_nextAuditID := Suc (svc_nextAuditID s)\<rparr>"
  have app: "svc_append x e mk s = (True, ?s)"
    using st assms same by (simp add: svc_append_def audit_put_def Let_def Append_ok mem_idle_def)
  show ?thesis
    using svc_append_ok [of x s e mk] svc_append_nodb [of x s e mk] assms app
    by (intro that [of ?st]) (simp_all add: mem_idle_def)
qed

lemma svc_append_mem:
  assumes "mem_idle x s"
  obtains st n where "svc_append x e mk s = (True, s\<lparr>svc_AuditStore := st, svc_nextAuditID := n\<rparr>)"
    "mem_idle x (s\<lparr>svc_AuditStore := st, svc_nextAuditID := n\<rparr>)"
  by (rule svc_append_idle [OF assms, where e = e and mk = mk]) (rule that)

text \<open>With a database whose statements all succeed.\<close>

lemma sql_tx_live:
  assumes "db_faults d = []" "q d = Some d'" "db_faults d' = []"
  shows "sql_tx [Some, q] d = (True, d')"
  using assms by (simp add: sql_tx_def sql_tx_commit_def sql_exec_def)

lemma appendAuditEventToDB_live:
  assumes "db_faults d = []"
  obtains rows where "appendAuditEventToDB x e ev d = (True, d\<lparr>db_audit_events := rows\<rparr>)"
proof -
  obtain ev3 where ev3: "appendAuditEventToDB x e ev d = sql_tx [Some, audit_insert x ev3] d"
    unfolding appendAuditEventToDB_def Let_def by blast
  have "\<exists>rows. audit_insert x ev3 d = Some (d\<lparr>db_audit_events := rows\<rparr>)"
  proof (cases "\<exists>r \<in> set (db_audit_events d). ev_AuditID r = ev_AuditID ev3")
    case True
    then have "audit_insert x ev3 d = Some (d\<lparr>db_audit_events := db_audit_events d\<rparr>)"
      by (simp add: audit_insert_def Let_def)
    then show ?thesis by blast
  qed (auto simp: audit_insert_def Let_def)
  then obtain rows where "audit_insert x ev3 d = Some (d\<lparr>db_audit_events := rows\<rparr>)" ..
  then show ?thesis
    using sql_tx_live [OF assms, of "audit_insert x ev3"] assms that ev3 by simp
qed

lemma svc_append_live:
  assumes "svc_ok x s" "svc_db s = Some d" "db_faults d = []"
  obtains st n rows where "svc_append x e mk s =
      (True, s\<lparr>svc_AuditStore := st, svc_nextAuditID := n, svc_db := Some (d\<lparr>db_audit_events := rows\<rparr>)\<rparr>)"
proof -
  obtain st where st: "svc_AuditStore s = Some st" "store_ok (sha256 x) st"
    using assms(1) by (auto simp: svc_ok_def split: option.splits)
  obtain rows where "appendAuditEventToDB x e (mk (Suc (svc_nextAuditID s))) d = (True, d\<lparr>db_audit_events := rows\<rparr>)"
    using appendAuditEventToDB_live [OF assms(3)] .
  with st assms(2) show ?thesis
    by (intro that) (simp add: svc_append_def audit_put_def Let_def Append_ok)
qed

text \<open>Without a database there is none afterwards, and the other way round.\<close>

lemma svc_append_fields: "\<exists>st n db. snd (svc_append x e mk s) = s\<lparr>svc_AuditStore := st, svc_nextAuditID := n, svc_db := db\<rparr> \<and>
    (db = None \<longleftrightarrow> svc_db s = None)"
proof -
  obtain ok st n db where put: "audit_put x e mk s = (ok, st, n, db)" by (cases "audit_put x e mk s") auto
  then have "db = None \<longleftrightarrow> svc_db s = None"
    by (auto simp: audit_put_def Let_def map_prod_def split_beta split: option.splits if_splits)
  with put show ?thesis by (intro exI [of _ st] exI [of _ n] exI [of _ db]) (simp add: svc_append_def)
qed

lemma svc_append_has_db: "svc_db (snd (svc_append x e mk s)) = None \<longleftrightarrow> svc_db s = None"
  using svc_append_fields [of x e mk s] by auto

text \<open>Appending to the audit trail touches nothing else, and a service keeps having a database or not.\<close>

lemma svc_append_frame:
  obtains st n db where "svc_append x e mk s =
      (fst (svc_append x e mk s), s\<lparr>svc_AuditStore := st, svc_nextAuditID := n, svc_db := db\<rparr>)"
    and "db = None \<longleftrightarrow> svc_db s = None"
proof -
  obtain ok st n db where put: "audit_put x e mk s = (ok, st, n, db)" by (cases "audit_put x e mk s") auto
  moreover from put have "db = None \<longleftrightarrow> svc_db s = None"
    by (auto simp: audit_put_def Let_def map_prod_def split_beta split: option.splits if_splits)
  ultimately show ?thesis by (intro that [of db n st]) (simp_all add: svc_append_def)
qed

end
