(* ===== verification/LedgerDB.thy ===== *)
theory LedgerDB
  imports Service
begin

text \<open>
  The data of the cashless ledger (\<^verbatim>\<open>internal/platform/server/ledger_grpc.go\<close>, messages of
  \<^verbatim>\<open>ledger.proto\<close>) and its tables (\<^verbatim>\<open>ledger_postgres.go\<close>, with the constraints of
  \<^verbatim>\<open>migrations/000002\<close> and \<^verbatim>\<open>000013\<close>). A table is the list of its rows in the order of insertion.
\<close>

section \<open>Messages and in-memory data\<close>

datatype ledger_transaction_type =
    LEDGER_TRANSACTION_TYPE_UNSPECIFIED | LEDGER_TRANSACTION_TYPE_DEPOSIT
  | LEDGER_TRANSACTION_TYPE_WITHDRAWAL | LEDGER_TRANSACTION_TYPE_TRANSFER_TO_DEVICE
  | LEDGER_TRANSACTION_TYPE_TRANSFER_TO_ACCOUNT | LEDGER_TRANSACTION_TYPE_GAMEPLAY_DEBIT
  | LEDGER_TRANSACTION_TYPE_GAMEPLAY_CREDIT | LEDGER_TRANSACTION_TYPE_MANUAL_ADJUSTMENT

datatype transfer_status =
    TRANSFER_STATUS_UNSPECIFIED | TRANSFER_STATUS_ACCEPTED | TRANSFER_STATUS_PARTIAL
  | TRANSFER_STATUS_UNRESOLVED | TRANSFER_STATUS_DENIED

record ledger_transaction =
  TransactionId :: string
  TxAccountId :: string
  TransactionType :: ledger_transaction_type
  TxAmount :: money
  TxOccurredAt :: string
  TxAuthorizationId :: string
  TxDescription :: string

text \<open>The responses of Deposit, Withdraw and TransferToAccount have the same three fields.\<close>

record tx_response =
  RespMeta :: response_meta
  RespTransaction :: "ledger_transaction option"
  RespAvailable :: "money option"

record device_response =
  DevMeta :: response_meta
  DevTransferId :: string
  DevTransferStatus :: transfer_status
  DevTransferredAmount :: "money option"
  DevAvailable :: "money option"
  DevUnresolvedReason :: string

text \<open>What \<^verbatim>\<open>ledger_idempotency_keys.response_payload\<close> holds: the JSON of one of the two messages.\<close>

datatype payload = PTx tx_response | PDevice device_response

record ledgerAccount =
  acct_id :: string
  acct_currency :: string
  acct_available :: i64
  acct_pending :: i64

record ledgerPosting =
  post_accountID :: string
  post_direction :: string
  post_amount :: i64
  post_currency :: string
  post_createdAt :: time

section \<open>Transaction types in the database\<close>

fun ledgerTxTypeToDB :: "ledger_transaction_type \<Rightarrow> string" where
  "ledgerTxTypeToDB LEDGER_TRANSACTION_TYPE_DEPOSIT = ''deposit''"
| "ledgerTxTypeToDB LEDGER_TRANSACTION_TYPE_WITHDRAWAL = ''withdrawal''"
| "ledgerTxTypeToDB LEDGER_TRANSACTION_TYPE_TRANSFER_TO_DEVICE = ''transfer_to_device''"
| "ledgerTxTypeToDB LEDGER_TRANSACTION_TYPE_TRANSFER_TO_ACCOUNT = ''transfer_to_account''"
| "ledgerTxTypeToDB LEDGER_TRANSACTION_TYPE_GAMEPLAY_DEBIT = ''gameplay_debit''"
| "ledgerTxTypeToDB LEDGER_TRANSACTION_TYPE_GAMEPLAY_CREDIT = ''gameplay_credit''"
| "ledgerTxTypeToDB LEDGER_TRANSACTION_TYPE_MANUAL_ADJUSTMENT = ''manual_adjustment''"
| "ledgerTxTypeToDB LEDGER_TRANSACTION_TYPE_UNSPECIFIED = ''manual_adjustment''"

definition ledgerTxTypeFromDB :: "string \<Rightarrow> ledger_transaction_type" where
  "ledgerTxTypeFromDB v =
     (if v = ''deposit'' then LEDGER_TRANSACTION_TYPE_DEPOSIT
      else if v = ''withdrawal'' then LEDGER_TRANSACTION_TYPE_WITHDRAWAL
      else if v = ''transfer_to_device'' then LEDGER_TRANSACTION_TYPE_TRANSFER_TO_DEVICE
      else if v = ''transfer_to_account'' then LEDGER_TRANSACTION_TYPE_TRANSFER_TO_ACCOUNT
      else if v = ''gameplay_debit'' then LEDGER_TRANSACTION_TYPE_GAMEPLAY_DEBIT
      else if v = ''gameplay_credit'' then LEDGER_TRANSACTION_TYPE_GAMEPLAY_CREDIT
      else if v = ''manual_adjustment'' then LEDGER_TRANSACTION_TYPE_MANUAL_ADJUSTMENT
      else LEDGER_TRANSACTION_TYPE_UNSPECIFIED)"

section \<open>Tables\<close>

record account_row =
  ar_account_id :: string
  ar_player_id :: "string option"
  ar_account_type :: string
  ar_currency_code :: string
  ar_available :: int
  ar_pending :: int

record transaction_row =
  tr_transaction_id :: string
  tr_idempotency_key :: string
  tr_account_id :: string
  tr_transaction_type :: string
  tr_status :: string
  tr_amount :: int
  tr_currency_code :: string
  tr_authorization_id :: string
  tr_occurred_at :: time
  tr_received_at :: time
  tr_recorded_at :: time

record posting_row =
  pr_transaction_id :: string
  pr_account_id :: string
  pr_direction :: string
  pr_amount :: int
  pr_currency_code :: string

record idempotency_row =
  ir_scope :: string
  ir_key :: string
  ir_request_hash :: string
  ir_payload :: payload
  ir_result_code :: string
  ir_expires_at :: time

record lockout_row =
  lr_account_id :: string
  lr_failed_attempts :: int
  lr_locked_until :: "time option"

record ledger_db = dbcore +
  ledger_accounts :: "account_row list"
  ledger_transactions :: "transaction_row list"
  ledger_postings :: "posting_row list"
  ledger_idempotency_keys :: "idempotency_row list"
  ledger_eft_lockouts :: "lockout_row list"

section \<open>Statements of a ledger mutation\<close>

definition has_prefix :: "string \<Rightarrow> string \<Rightarrow> bool" where
  "has_prefix p s \<longleftrightarrow> take (length p) s = p"

text \<open>
  A taken account identifier is skipped; a cashless account of the same player and currency under another identifier violates the
  index \<^verbatim>\<open>ux_ledger_accounts_player_currency_cashless\<close>.
\<close>

definition ensureLedgerAccountTx :: "ext \<Rightarrow> string \<Rightarrow> string \<Rightarrow> ledger_db \<Rightarrow> ledger_db option" where
  "ensureLedgerAccountTx x accountID currency d =
     (let (accountType, playerID) =
        (if has_prefix ''device_escrow'' accountID then (''device_escrow'', [])
         else if accountID = ''operator_liability'' then (''operator_liability'', [])
         else (''player_cashless'', accountID))
      in case pg_char3 x (to_upper currency) of
           None \<Rightarrow> None
         | Some code \<Rightarrow>
             if \<exists>r \<in> set (ledger_accounts d). ar_account_id r = accountID then Some d
             else if accountType = ''player_cashless'' \<and> playerID \<noteq> [] \<and>
               (\<exists>r \<in> set (ledger_accounts d). ar_player_id r = Some playerID \<and> ar_currency_code r = code \<and>
                  ar_account_type r = ''player_cashless'') then None
             else Some (d\<lparr>ledger_accounts := ledger_accounts d @
               [\<lparr>ar_account_id = accountID,
                 ar_player_id = (if playerID = [] then None else Some playerID),
                 ar_account_type = accountType, ar_currency_code = code,
                 ar_available = 0, ar_pending = 0\<rparr>]\<rparr>))"

text \<open>
  \<^verbatim>\<open>INSERT INTO ledger_transactions\<close>: a taken transaction identifier is skipped, a taken
  (account, type, idempotency key) or an amount that is not positive is a violation.
\<close>

definition insert_transaction ::
    "ext \<Rightarrow> env \<Rightarrow> ledger_transaction \<Rightarrow> string \<Rightarrow> string \<Rightarrow> ledger_db \<Rightarrow> ledger_db option" where
  "insert_transaction x e tx status idemKey d =
     (let occurred = (if TxOccurredAt tx = [] then fmt_rfc3339nano (env_wall e) else TxOccurredAt tx)
      in case (pg_char3 x (to_upper (Currency (TxAmount tx))), pg_time_of_text x occurred,
               pg_time_of_text x (fmt_rfc3339nano (env_wall e))) of
           (Some code, Some occ, Some recv) \<Rightarrow>
             if sint (AmountMinor (TxAmount tx)) \<le> 0 then None
             else if \<exists>r \<in> set (ledger_transactions d). tr_transaction_id r = TransactionId tx then Some d
             else if \<exists>r \<in> set (ledger_transactions d). tr_account_id r = TxAccountId tx \<and>
                       tr_transaction_type r = ledgerTxTypeToDB (TransactionType tx) \<and>
                       tr_idempotency_key r = idemKey then None
             else Some (d\<lparr>ledger_transactions := ledger_transactions d @
               [\<lparr>tr_transaction_id = TransactionId tx, tr_idempotency_key = idemKey,
                 tr_account_id = TxAccountId tx,
                 tr_transaction_type = ledgerTxTypeToDB (TransactionType tx), tr_status = status,
                 tr_amount = sint (AmountMinor (TxAmount tx)), tr_currency_code = code,
                 tr_authorization_id = TxAuthorizationId tx, tr_occurred_at = occ,
                 tr_received_at = recv, tr_recorded_at = env_dbnow e\<rparr>]\<rparr>)
         | _ \<Rightarrow> None)"

definition insert_posting :: "ext \<Rightarrow> string \<Rightarrow> ledgerPosting \<Rightarrow> ledger_db \<Rightarrow> ledger_db option" where
  "insert_posting x txID p d =
     (case pg_char3 x (to_upper (post_currency p)) of
        None \<Rightarrow> None
      | Some code \<Rightarrow>
          if sint (post_amount p) \<le> 0
             \<or> \<not> (\<exists>r \<in> set (ledger_transactions d). tr_transaction_id r = txID)
             \<or> \<not> (\<exists>r \<in> set (ledger_accounts d). ar_account_id r = post_accountID p) then None
          else Some (d\<lparr>ledger_postings := ledger_postings d @
            [\<lparr>pr_transaction_id = txID, pr_account_id = post_accountID p,
              pr_direction = post_direction p, pr_amount = sint (post_amount p),
              pr_currency_code = code\<rparr>]\<rparr>))"

text \<open>
  \<^verbatim>\<open>UPDATE ledger_accounts SET available_balance_minor = available_balance_minor + $2\<close>: the sum must
  fit a \<^verbatim>\<open>BIGINT\<close> and pass \<^verbatim>\<open>CHECK (available_balance_minor >= 0)\<close>.
\<close>

definition posting_delta :: "ledgerPosting \<Rightarrow> i64" where
  "posting_delta p = (if post_direction p = ''debit'' then - post_amount p else post_amount p)"

definition adjust_row :: "string \<Rightarrow> int \<Rightarrow> account_row \<Rightarrow> account_row" where
  "adjust_row accountID delta r =
     (if ar_account_id r = accountID then r\<lparr>ar_available := ar_available r + delta\<rparr> else r)"

definition adjust_balance :: "ledgerPosting \<Rightarrow> ledger_db \<Rightarrow> ledger_db option" where
  "adjust_balance p d =
     (let rows = map (adjust_row (post_accountID p) (sint (posting_delta p))) (ledger_accounts d)
      in if \<exists>r \<in> set rows. ar_available r < 0 \<or> i64_max < ar_available r then None
         else Some (d\<lparr>ledger_accounts := rows\<rparr>))"

text \<open>The deferred trigger \<^verbatim>\<open>enforce_balanced_transaction\<close>.\<close>

definition row_delta :: "posting_row \<Rightarrow> int" where
  "row_delta r = (if pr_direction r = ''credit'' then pr_amount r else - pr_amount r)"

definition commit_balanced :: "string \<Rightarrow> ledger_db \<Rightarrow> ledger_db option" where
  "commit_balanced txID d =
     (if sum_list (map row_delta (filter (\<lambda>r. pr_transaction_id r = txID) (ledger_postings d))) = 0
      then Some d else None)"

definition persist_statements ::
    "ext \<Rightarrow> env \<Rightarrow> ledger_transaction \<Rightarrow> ledgerPosting list \<Rightarrow> string \<Rightarrow> string
     \<Rightarrow> (ledger_db \<Rightarrow> ledger_db option) list" where
  "persist_statements x e tx postings status idemKey =
     map (\<lambda>p. ensureLedgerAccountTx x (post_accountID p) (post_currency p)) postings
     @ [insert_transaction x e tx status idemKey]
     @ map (insert_posting x (TransactionId tx)) postings
     @ map adjust_balance postings"

section \<open>Queries\<close>

definition select_balance :: "string \<Rightarrow> ledger_db \<Rightarrow> (i64 \<times> i64 \<times> string) option" where
  "select_balance accountID d =
     (case find (\<lambda>r. ar_account_id r = accountID) (ledger_accounts d) of
        None \<Rightarrow> None
      | Some r \<Rightarrow> Some (word_of_int (ar_available r), word_of_int (ar_pending r), ar_currency_code r))"

text \<open>\<^verbatim>\<open>ORDER BY recorded_at DESC\<close>; rows recorded at the same instant come in the order of the table.\<close>

definition newest_first :: "transaction_row list \<Rightarrow> transaction_row list" where
  "newest_first rows = sort_key (\<lambda>r. - tr_recorded_at r) rows"

definition row_to_tx :: "transaction_row \<Rightarrow> string \<Rightarrow> ledger_transaction" where
  "row_to_tx r occurred =
     \<lparr>TransactionId = tr_transaction_id r, TxAccountId = tr_account_id r,
      TransactionType = ledgerTxTypeFromDB (tr_transaction_type r),
      TxAmount = money (word_of_int (tr_amount r)) (tr_currency_code r), TxOccurredAt = occurred,
      TxAuthorizationId = tr_authorization_id r, TxDescription = []\<rparr>"

definition select_transactions ::
    "ext \<Rightarrow> string \<Rightarrow> nat \<Rightarrow> nat \<Rightarrow> ledger_db \<Rightarrow> ledger_transaction list" where
  "select_transactions x accountID limit offset d =
     map (\<lambda>r. row_to_tx r (pg_time_text x (tr_occurred_at r)))
       (take limit (drop offset
         (newest_first (filter (\<lambda>r. tr_account_id r = accountID) (ledger_transactions d)))))"

definition select_by_idempotency ::
    "string \<Rightarrow> ledger_transaction_type \<Rightarrow> string \<Rightarrow> ledger_db \<Rightarrow> ledger_transaction option" where
  "select_by_idempotency accountID ty idemKey d =
     (case newest_first (filter (\<lambda>r. tr_account_id r = accountID \<and>
              tr_transaction_type r = ledgerTxTypeToDB ty \<and> tr_idempotency_key r = idemKey)
            (ledger_transactions d)) of
        [] \<Rightarrow> None
      | r # _ \<Rightarrow> Some (row_to_tx r (fmt_rfc3339nano (tr_occurred_at r))))"

definition select_idempotency :: "string \<Rightarrow> string \<Rightarrow> ledger_db \<Rightarrow> (string \<times> payload) option" where
  "select_idempotency scope idemKey d =
     map_option (\<lambda>r. (ir_request_hash r, ir_payload r))
       (find (\<lambda>r. ir_scope r = scope \<and> ir_key r = idemKey) (ledger_idempotency_keys d))"

definition insert_idempotency ::
    "ext \<Rightarrow> string \<Rightarrow> string \<Rightarrow> string \<Rightarrow> payload \<Rightarrow> string \<Rightarrow> string \<Rightarrow> ledger_db \<Rightarrow> ledger_db option" where
  "insert_idempotency x scope idemKey requestHash pay resultCode expiresAt d =
     (case pg_time_of_text x expiresAt of
        None \<Rightarrow> None
      | Some t \<Rightarrow>
          if \<exists>r \<in> set (ledger_idempotency_keys d). ir_scope r = scope \<and> ir_key r = idemKey then Some d
          else Some (d\<lparr>ledger_idempotency_keys := ledger_idempotency_keys d @
            [\<lparr>ir_scope = scope, ir_key = idemKey, ir_request_hash = requestHash, ir_payload = pay,
              ir_result_code = resultCode, ir_expires_at = t\<rparr>]\<rparr>))"

section \<open>Lockouts and cleanup\<close>

definition select_lockout :: "string \<Rightarrow> ledger_db \<Rightarrow> time option" where
  "select_lockout accountID d =
     map_option (\<lambda>r. case lr_locked_until r of None \<Rightarrow> 0 | Some t \<Rightarrow> t)
       (find (\<lambda>r. lr_account_id r = accountID) (ledger_eft_lockouts d))"

definition upsert_lockout :: "string \<Rightarrow> lockout_row \<Rightarrow> (lockout_row \<Rightarrow> lockout_row)
    \<Rightarrow> ledger_db \<Rightarrow> ledger_db option" where
  "upsert_lockout accountID fresh upd d =
     Some (if \<exists>r \<in> set (ledger_eft_lockouts d). lr_account_id r = accountID
           then d\<lparr>ledger_eft_lockouts :=
                  map (\<lambda>r. if lr_account_id r = accountID then upd r else r) (ledger_eft_lockouts d)\<rparr>
           else d\<lparr>ledger_eft_lockouts := ledger_eft_lockouts d @ [fresh]\<rparr>)"

definition record_lockout_failure :: "env \<Rightarrow> int \<Rightarrow> int \<Rightarrow> string \<Rightarrow> ledger_db \<Rightarrow> ledger_db option" where
  "record_lockout_failure e maxFailures seconds accountID d =
     (if \<not> db_int_text d then None
      else upsert_lockout accountID
        \<lparr>lr_account_id = accountID, lr_failed_attempts = 1, lr_locked_until = None\<rparr>
        (\<lambda>r. r\<lparr>lr_failed_attempts := lr_failed_attempts r + 1,
               lr_locked_until := (if lr_failed_attempts r + 1 \<ge> maxFailures
                                   then Some (env_dbnow e + seconds * second)
                                   else lr_locked_until r)\<rparr>) d)"

definition reset_lockout :: "string \<Rightarrow> ledger_db \<Rightarrow> ledger_db option" where
  "reset_lockout accountID =
     upsert_lockout accountID
       \<lparr>lr_account_id = accountID, lr_failed_attempts = 0, lr_locked_until = None\<rparr>
       (\<lambda>r. r\<lparr>lr_failed_attempts := 0, lr_locked_until := None\<rparr>)"

text \<open>
  \<^verbatim>\<open>CleanupExpiredIdempotencyKeys\<close>: the \<open>n\<close> expired rows with the smallest expiry are deleted (rows of
  equal expiry in the order of the table).
\<close>

definition doomed_keys :: "env \<Rightarrow> nat \<Rightarrow> ledger_db \<Rightarrow> (string \<times> string) list" where
  "doomed_keys e n d =
     map (\<lambda>r. (ir_scope r, ir_key r))
       (take n (sort_key ir_expires_at
         (filter (\<lambda>r. ir_expires_at r \<le> env_dbnow e) (ledger_idempotency_keys d))))"

definition delete_keys :: "(string \<times> string) list \<Rightarrow> ledger_db \<Rightarrow> ledger_db" where
  "delete_keys ks d =
     d\<lparr>ledger_idempotency_keys :=
        filter (\<lambda>r. (ir_scope r, ir_key r) \<notin> set ks) (ledger_idempotency_keys d)\<rparr>"

end
