(* ===== verification/Pagination.thy ===== *)
theory Pagination
  imports Service
begin

text \<open>
  Page tokens and page sizes, which the list handlers of the services repeat, and the loop of a
  client that follows the tokens. The lemmas show once, for every listing that keeps the contract
  \<open>paged_listing\<close>, that the loop ends and has then seen every item exactly once, in order.
\<close>

section \<open>Windows\<close>

text \<open>
  The token is the decimal offset of the first item. The lenient handlers (ledger, config, events,
  registry) read a malformed or negative token as 0.
\<close>

definition page_start :: "string \<Rightarrow> nat" where
  "page_start token =
     (if token = [] then 0
      else (case atoi token of None \<Rightarrow> 0 | Some p \<Rightarrow> if 0 \<le> p then nat p else 0))"

definition page_size :: "nat \<Rightarrow> i32 \<Rightarrow> nat" where
  "page_size dflt psize = (if sint psize \<le> 0 then dflt else nat (sint psize))"

definition page_slice :: "nat \<Rightarrow> nat \<Rightarrow> 'a list \<Rightarrow> 'a list \<times> string" where
  "page_slice start0 psize items =
     (let start = min start0 (length items); stop = min (start + psize) (length items)
      in (take (stop - start) (drop start items), if stop < length items then itoa_nat stop else []))"

definition page_window :: "nat \<Rightarrow> string \<Rightarrow> i32 \<Rightarrow> 'a list \<Rightarrow> 'a list \<times> string" where
  "page_window dflt token psize items = page_slice (page_start token) (page_size dflt psize) items"

text \<open>Rows from \<^verbatim>\<open>LIMIT psize OFFSET start\<close>: there is a next token whenever the page is full.\<close>

definition db_next :: "nat \<Rightarrow> nat \<Rightarrow> 'a list \<Rightarrow> string" where
  "db_next start psize rows = (if length rows = psize then itoa_nat (start + length rows) else [])"

text \<open>\<^verbatim>\<open>paginate\<close> of \<^verbatim>\<open>audit_grpc.go\<close>, which refuses a malformed token.\<close>

definition paginate :: "'a list \<Rightarrow> string \<Rightarrow> i32 \<Rightarrow> ('a list \<times> string) option" where
  "paginate items pageToken pageSize =
     (case (if pageToken = [] then Some 0 else atoi pageToken) of
        None \<Rightarrow> None
      | Some p \<Rightarrow> if p < 0 then None
                  else Some (page_slice (nat p) (page_size 100 pageSize) items))"

section \<open>The client's loop\<close>

text \<open>Fetch a page, stop at an empty token. \<open>None\<close>: the fuel was not enough.\<close>

fun walk :: "nat \<Rightarrow> (string \<Rightarrow> 'a list \<times> string) \<Rightarrow> string \<Rightarrow> 'a list option" where
  "walk 0 fetch token = None"
| "walk (Suc fuel) fetch token =
     (case fetch token of (page, next) \<Rightarrow>
        if next = [] then Some page else map_option ((@) page) (walk fuel fetch next))"

definition token_of :: "nat \<Rightarrow> string" where
  "token_of n = (if n = 0 then [] else itoa_nat n)"

text \<open>
  The contract of a listing of \<open>items\<close> in pages of \<open>psize\<close>: at offset \<open>start\<close> it gives the next
  \<open>psize\<close> items; an empty next token means there are no more, another one is the offset behind a page
  that was not empty.
\<close>

locale paged_listing =
  fixes fetch :: "string \<Rightarrow> 'a list \<times> string" and items :: "'a list" and psize :: nat
  assumes size_pos: "0 < psize"
    and page: "int (length items) \<le> i64_max \<Longrightarrow> start \<le> length items \<Longrightarrow>
      fst (fetch (token_of start)) = take psize (drop start items)"
    and last: "int (length items) \<le> i64_max \<Longrightarrow> start \<le> length items \<Longrightarrow>
      snd (fetch (token_of start)) = [] \<Longrightarrow> length items \<le> start + psize"
    and more: "int (length items) \<le> i64_max \<Longrightarrow> start \<le> length items \<Longrightarrow> snd (fetch (token_of start)) \<noteq> [] \<Longrightarrow>
      snd (fetch (token_of start)) = token_of (start + psize) \<and> start + psize \<le> length items"
begin

lemma walk_from:
  "int (length items) \<le> i64_max \<Longrightarrow> start \<le> length items \<Longrightarrow> length items - start < fuel \<Longrightarrow>
   walk fuel fetch (token_of start) = Some (drop start items)"
proof (induction fuel arbitrary: start)
  case (Suc fuel)
  note here = Suc.prems(1,2)
  show ?case
  proof (cases "snd (fetch (token_of start)) = []")
    case True
    then show ?thesis using last [OF here] page [OF here] by (simp add: split_beta)
  next
    case False
    note next_page = more [OF here False]
    then have "walk fuel fetch (token_of (start + psize)) = Some (drop (start + psize) items)"
      using Suc.prems size_pos by (intro Suc.IH) auto
    moreover have "take psize (drop start items) @ drop (start + psize) items = drop start items"
      by (metis append_take_drop_id drop_drop add.commute)
    moreover have "token_of (start + psize) \<noteq> []"
      using size_pos by (simp add: token_of_def)
    ultimately show ?thesis
      using next_page page [OF here] by (simp add: split_beta)
  qed
qed simp

lemma walk_complete: "int (length items) \<le> i64_max \<Longrightarrow> walk (Suc (length items)) fetch [] = Some items"
  using walk_from [of 0 "Suc (length items)"] by (simp add: token_of_def)

end

section \<open>The two kinds of listing keep the contract\<close>

lemma token_of_start [simp]: "int n \<le> i64_max \<Longrightarrow> page_start (token_of n) = n"
  by (simp add: page_start_def token_of_def)

lemma token_of_add: "0 < n \<Longrightarrow> token_of (k + n) = itoa_nat (k + n)"
  by (simp add: token_of_def)

lemma page_size_pos: "0 < page_size (Suc d) psize"
  by (simp add: page_size_def)

lemma page_slice_at:
  assumes "start \<le> length items"
  shows "page_slice start psize items =
    (take psize (drop start items),
     if start + psize < length items then itoa_nat (start + psize) else [])"
  using assms by (auto simp: page_slice_def Let_def min_def)

text \<open>The window over a list in memory.\<close>

interpretation mem_pages: paged_listing "\<lambda>token. page_window (Suc d) token psize items" items "page_size (Suc d) psize"
  for d psize items
proof -
  have at: "page_window (Suc d) (token_of start) psize items =
      (take (page_size (Suc d) psize) (drop start items),
       if start + page_size (Suc d) psize < length items then itoa_nat (start + page_size (Suc d) psize) else [])"
    if "int (length items) \<le> i64_max" "start \<le> length items" for start
    using that by (simp add: page_window_def page_slice_at)
  show "paged_listing (\<lambda>token. page_window (Suc d) token psize items) items (page_size (Suc d) psize)"
    using page_size_pos [of d psize] by unfold_locales (simp_all add: at token_of_add split: if_splits)
qed

text \<open>Rows of a query with LIMIT and OFFSET.\<close>

definition db_window :: "nat \<Rightarrow> string \<Rightarrow> i32 \<Rightarrow> 'a list \<Rightarrow> 'a list \<times> string" where
  "db_window dflt token psize items =
     (let start = page_start token; n = page_size dflt psize; rows = take n (drop start items)
      in (rows, db_next start n rows))"

interpretation db_pages: paged_listing "\<lambda>token. db_window (Suc d) token psize items" items "page_size (Suc d) psize"
  for d psize items
proof -
  have at: "db_window (Suc d) (token_of start) psize items =
      (let rows = take (page_size (Suc d) psize) (drop start items) in (rows, db_next start (page_size (Suc d) psize) rows))"
    if "int (length items) \<le> i64_max" "start \<le> length items" for start
    using that by (simp add: db_window_def Let_def)
  show "paged_listing (\<lambda>token. db_window (Suc d) token psize items) items (page_size (Suc d) psize)"
    using page_size_pos [of d psize] by unfold_locales (auto simp: at Let_def db_next_def token_of_add split: if_splits)
qed

end
