(* ===== verification/Ledger.thy ===== *)
theory Ledger
  imports LedgerDB Pagination
begin

text \<open>
  The cashless ledger service, \<^verbatim>\<open>internal/platform/server/ledger_grpc.go\<close>: its state, the EFT lockout,
  the idempotent mutations Deposit, Withdraw, TransferToDevice and TransferToAccount, GetBalance and
  ListTransactions, with and without a database.

  A handler is a function of the parameters, the environment of the request, the token's actor, the
  message (\<open>None\<close> is a nil message) and the state; it gives the response and the state after. The
  mutex \<^verbatim>\<open>s.mu\<close> is part of the state: \<open>Lock\<close> on a held mutex \<open>Blocks\<close>. Amounts are 64-bit words. The
  identifier counters, 64-bit integers that only count up by one, are natural numbers.
\<close>

section \<open>State\<close>

record ledger = "ledger_db svc" +
  mu :: bool
  accounts :: "string \<rightharpoonup> ledgerAccount"
  transactionsByAcct :: "string \<rightharpoonup> ledger_transaction list"
  postingsByTx :: "string \<rightharpoonup> ledgerPosting list"
  depositByIdempotency :: "string \<rightharpoonup> tx_response"
  withdrawByIdempotency :: "string \<rightharpoonup> tx_response"
  toDeviceByIdempotency :: "string \<rightharpoonup> device_response"
  toAccountByIdempotency :: "string \<rightharpoonup> tx_response"
  nextTransactionID :: nat
  nextTransferID :: nat
  eftFraudFailures :: "string \<rightharpoonup> int"
  eftFraudLockedUntil :: "string \<rightharpoonup> time"
  eftFraudMaxFailures :: int
  eftFraudLockoutTTL :: duration
  idempotencyTTL :: duration
  disableInMemIdemCache :: bool

definition NewLedgerService :: "ledger_db option \<Rightarrow> ledger" where
  "NewLedgerService handle =
     \<lparr>svc_AuditStore = Some NewInMemoryStore, svc_nextAuditID = 0, svc_db = handle, mu = False,
      accounts = Map.empty, transactionsByAcct = Map.empty, postingsByTx = Map.empty,
      depositByIdempotency = Map.empty, withdrawByIdempotency = Map.empty,
      toDeviceByIdempotency = Map.empty, toAccountByIdempotency = Map.empty,
      nextTransactionID = 0, nextTransferID = 0, eftFraudFailures = Map.empty,
      eftFraudLockedUntil = Map.empty, eftFraudMaxFailures = 5, eftFraudLockoutTTL = 15 * minute,
      idempotencyTTL = 24 * hour, disableInMemIdemCache = False\<rparr>"

definition dbEnabled :: "ledger \<Rightarrow> bool" where
  "dbEnabled s \<longleftrightarrow> svc_db s \<noteq> None"

definition useInMemoryIdempotencyCache :: "ledger \<Rightarrow> bool" where
  "useInMemoryIdempotencyCache s \<longleftrightarrow> \<not> (dbEnabled s \<and> disableInMemIdemCache s)"

definition useInMemoryStateMirror :: "ledger \<Rightarrow> bool" where
  "useInMemoryStateMirror s \<longleftrightarrow> \<not> (dbEnabled s \<and> disableInMemIdemCache s)"

text \<open>\<^verbatim>\<open>s.mu.Lock(); defer s.mu.Unlock()\<close> around the rest of a method.\<close>

definition with_lock :: "(ledger \<Rightarrow> 'a outcome \<times> ledger) \<Rightarrow> ledger \<Rightarrow> 'a outcome \<times> ledger" where
  "with_lock body s =
     (if mu s then (Blocks, s)
      else (case body (s\<lparr>mu := True\<rparr>) of
              (Blocks, s') \<Rightarrow> (Blocks, s')
            | (r, s') \<Rightarrow> (r, s'\<lparr>mu := False\<rparr>)))"

definition SetIdempotencyTTL :: "duration \<Rightarrow> ledger \<Rightarrow> unit outcome \<times> ledger" where
  "SetIdempotencyTTL ttl =
     with_lock (\<lambda>s. (Returns (), s\<lparr>idempotencyTTL := (if ttl \<le> 0 then 24 * hour else ttl)\<rparr>))"

definition getIdempotencyTTL :: "ledger \<Rightarrow> duration outcome \<times> ledger" where
  "getIdempotencyTTL =
     with_lock (\<lambda>s. (Returns (if idempotencyTTL s \<le> 0 then 24 * hour else idempotencyTTL s), s))"

definition SetEFTFraudPolicy :: "int \<Rightarrow> duration \<Rightarrow> ledger \<Rightarrow> unit outcome \<times> ledger" where
  "SetEFTFraudPolicy maxFailures ttl =
     with_lock (\<lambda>s. (Returns (),
       s\<lparr>eftFraudMaxFailures := (if maxFailures \<le> 0 then 5 else maxFailures),
         eftFraudLockoutTTL := (if ttl \<le> 0 then 15 * minute else ttl)\<rparr>))"

definition SetDisableInMemoryIdempotencyCache :: "bool \<Rightarrow> ledger \<Rightarrow> unit outcome \<times> ledger" where
  "SetDisableInMemoryIdempotencyCache disable =
     with_lock (\<lambda>s. (Returns (), s\<lparr>disableInMemIdemCache := disable\<rparr>))"

section \<open>Database access\<close>

text \<open>A query or a statement on the service's database; without one, nothing happens.\<close>

definition ledger_query :: "(ledger_db \<Rightarrow> 'a) \<Rightarrow> ledger \<Rightarrow> 'a option \<times> ledger" where
  "ledger_query q s =
     (case svc_db s of
        None \<Rightarrow> (None, s)
      | Some d \<Rightarrow> (case sql_query q d of (r, d') \<Rightarrow> (r, s\<lparr>svc_db := Some d'\<rparr>)))"

definition ledger_exec :: "(ledger_db \<Rightarrow> bool \<times> ledger_db) \<Rightarrow> ledger \<Rightarrow> bool \<times> ledger" where
  "ledger_exec q s =
     (case svc_db s of
        None \<Rightarrow> (True, s)
      | Some d \<Rightarrow> (case q d of (ok, d') \<Rightarrow> (ok, s\<lparr>svc_db := Some d'\<rparr>)))"

definition getBalanceFromDB :: "string \<Rightarrow> ledger \<Rightarrow> (i64 \<times> i64 \<times> string) option option \<times> ledger" where
  "getBalanceFromDB accountID s =
     (if \<not> dbEnabled s then (Some None, s) else ledger_query (select_balance accountID) s)"

definition persistLedgerMutation ::
    "ext \<Rightarrow> env \<Rightarrow> ledger_transaction \<Rightarrow> ledgerPosting list \<Rightarrow> string \<Rightarrow> string \<Rightarrow> ledger \<Rightarrow> bool \<times> ledger" where
  "persistLedgerMutation x e tx postings status idemKey s =
     (if \<not> dbEnabled s then (True, s)
      else if postings = [] then (True, s)
      else ledger_exec (sql_tx_commit (commit_balanced (TransactionId tx))
                          (persist_statements x e tx postings status idemKey)) s)"

definition listTransactionsFromDB ::
    "ext \<Rightarrow> string \<Rightarrow> nat \<Rightarrow> nat \<Rightarrow> ledger \<Rightarrow> ledger_transaction list option \<times> ledger" where
  "listTransactionsFromDB x accountID limit offset =
     ledger_query (select_transactions x accountID limit offset)"

definition findTransactionByIdempotency ::
    "string \<Rightarrow> ledger_transaction_type \<Rightarrow> string \<Rightarrow> ledger
     \<Rightarrow> ledger_transaction option option \<times> ledger" where
  "findTransactionByIdempotency accountID ty idemKey s =
     (if \<not> dbEnabled s then (Some None, s)
      else ledger_query (select_by_idempotency accountID ty idemKey) s)"

definition idemScope :: "string \<Rightarrow> string \<Rightarrow> string" where
  "idemScope accountID op = accountID @ ''|'' @ op"

definition hashRequest :: "ext \<Rightarrow> string list \<Rightarrow> string" where
  "hashRequest x parts = sha256 x (join bar parts)"

text \<open>
  \<^verbatim>\<open>loadIdempotencyResponse\<close>: no row, a replay, the error \<^verbatim>\<open>errIdempotencyRequestMismatch\<close>, or another
  error. \<open>unpack\<close> reads the message of the handler's type out of the payload.
\<close>

datatype 'a load = NotFound | Replay 'a | Mismatch | LoadError

definition loadIdempotencyResponse ::
    "(payload \<Rightarrow> 'a option) \<Rightarrow> string \<Rightarrow> string \<Rightarrow> string \<Rightarrow> ledger \<Rightarrow> 'a load \<times> ledger" where
  "loadIdempotencyResponse unpack scope idemKey requestHash s =
     (if \<not> dbEnabled s then (NotFound, s)
      else (case ledger_query (select_idempotency scope idemKey) s of
              (None, s') \<Rightarrow> (LoadError, s')
            | (Some None, s') \<Rightarrow> (NotFound, s')
            | (Some (Some (storedHash, pay)), s') \<Rightarrow>
                (if storedHash \<noteq> requestHash then Mismatch
                 else (case unpack pay of None \<Rightarrow> LoadError | Some r \<Rightarrow> Replay r), s')))"

fun result_code_string :: "result_code \<Rightarrow> string" where
  "result_code_string RESULT_CODE_UNSPECIFIED = ''RESULT_CODE_UNSPECIFIED''"
| "result_code_string RESULT_CODE_OK = ''RESULT_CODE_OK''"
| "result_code_string RESULT_CODE_DENIED = ''RESULT_CODE_DENIED''"
| "result_code_string RESULT_CODE_INVALID = ''RESULT_CODE_INVALID''"
| "result_code_string RESULT_CODE_ERROR = ''RESULT_CODE_ERROR''"

text \<open>The expiry is computed with \<^verbatim>\<open>getIdempotencyTTL\<close>, which locks \<^verbatim>\<open>s.mu\<close>.\<close>

definition persistIdempotencyResponse ::
    "ext \<Rightarrow> env \<Rightarrow> string \<Rightarrow> string \<Rightarrow> string \<Rightarrow> result_code \<Rightarrow> payload \<Rightarrow> ledger \<Rightarrow> bool outcome \<times> ledger" where
  "persistIdempotencyResponse x e scope idemKey requestHash resultCode pay s =
     (if \<not> dbEnabled s then (Returns True, s)
      else (case getIdempotencyTTL s of
              (Returns ttl, s1) \<Rightarrow>
                (case ledger_exec (sql_stmt (insert_idempotency x scope idemKey requestHash pay
                        (result_code_string resultCode) (fmt_rfc3339nano (env_wall e + ttl)))) s1 of
                   (ok, s2) \<Rightarrow> (Returns ok, s2))
            | (Panics, s1) \<Rightarrow> (Panics, s1)
            | (Blocks, s1) \<Rightarrow> (Blocks, s1)))"

text \<open>
  \<^verbatim>\<open>CleanupExpiredIdempotencyKeys\<close>; \<open>None\<close> is an error, otherwise the number of deleted rows. The
  inner loop of the cleanup worker calls it until it deletes fewer rows than the batch holds.
\<close>

definition CleanupExpiredIdempotencyKeys :: "env \<Rightarrow> int \<Rightarrow> ledger \<Rightarrow> nat option \<times> ledger" where
  "CleanupExpiredIdempotencyKeys e batchSize s =
     (case svc_db s of
        None \<Rightarrow> (Some 0, s)
      | Some d \<Rightarrow>
          let n = nat (if batchSize \<le> 0 then 500 else batchSize); (ok, d1) = sql_exec d
          in if \<not> ok then (None, s\<lparr>svc_db := Some d1\<rparr>)
             else let ks = doomed_keys e n d1
                  in (Some (length ks), s\<lparr>svc_db := Some (delete_keys ks d1)\<rparr>))"

section \<open>Accounts, transactions, postings\<close>

definition accountBalance :: "string \<Rightarrow> ledger \<Rightarrow> i64 \<times> i64 \<times> string \<times> bool" where
  "accountBalance accountID s =
     (case accounts s accountID of
        None \<Rightarrow> (0, 0, [], False)
      | Some a \<Rightarrow> (acct_available a, acct_pending a, acct_currency a, True))"

definition new_account :: "string \<Rightarrow> string \<Rightarrow> ledgerAccount" where
  "new_account accountID currency =
     \<lparr>acct_id = accountID, acct_currency = currency, acct_available = 0, acct_pending = 0\<rparr>"

text \<open>
  The code keeps a pointer to the account; when the account is in the map, a change through the
  pointer is a change of the map. \<open>put_account\<close> is such a change.
\<close>

definition put_account :: "string \<Rightarrow> ledgerAccount \<Rightarrow> ledger \<Rightarrow> ledger" where
  "put_account accountID a s =
     (if useInMemoryStateMirror s then s\<lparr>accounts := (accounts s)(accountID \<mapsto> a)\<rparr> else s)"

definition getOrCreateAccount :: "string \<Rightarrow> string \<Rightarrow> ledger \<Rightarrow> ledgerAccount \<times> ledger" where
  "getOrCreateAccount accountID currency s =
     (case accounts s accountID of
        Some a \<Rightarrow> (a, s)
      | None \<Rightarrow> let a = new_account accountID currency in (a, put_account accountID a s))"

definition mutationAccountState ::
    "string \<Rightarrow> string \<Rightarrow> ledger \<Rightarrow> ledgerAccount option \<times> ledger" where
  "mutationAccountState accountID defaultCurrency s =
     (if dbEnabled s
      then (case getBalanceFromDB accountID s of
              (None, s1) \<Rightarrow> (None, s1)
            | (Some row, s1) \<Rightarrow>
                let a = (case row of
                           None \<Rightarrow> new_account accountID defaultCurrency
                         | Some (available, pending, currency) \<Rightarrow>
                             \<lparr>acct_id = accountID, acct_currency = currency,
                              acct_available = available, acct_pending = pending\<rparr>)
                in (Some a, put_account accountID a s1))
      else (case getOrCreateAccount accountID defaultCurrency s of (a, s1) \<Rightarrow> (Some a, s1)))"

definition transactions_of :: "string \<Rightarrow> ledger \<Rightarrow> ledger_transaction list" where
  "transactions_of accountID s = (case transactionsByAcct s accountID of None \<Rightarrow> [] | Some ts \<Rightarrow> ts)"

definition appendTransaction :: "ledger_transaction \<Rightarrow> ledger \<Rightarrow> ledger" where
  "appendTransaction tx s =
     (if \<not> useInMemoryStateMirror s then s
      else s\<lparr>transactionsByAcct := (transactionsByAcct s)
               (TxAccountId tx \<mapsto> transactions_of (TxAccountId tx) s @ [tx])\<rparr>)"

definition rollbackLastTransaction :: "string \<Rightarrow> ledger \<Rightarrow> ledger" where
  "rollbackLastTransaction accountID s =
     (if \<not> useInMemoryStateMirror s then s
      else if transactions_of accountID s = [] then s
      else s\<lparr>transactionsByAcct := (transactionsByAcct s)
               (accountID \<mapsto> butlast (transactions_of accountID s))\<rparr>)"

definition tx_id :: "nat \<Rightarrow> string" where "tx_id n = ''tx-'' @ itoa_nat n"

definition nextTxIDLocked :: "ledger \<Rightarrow> string \<times> ledger" where
  "nextTxIDLocked s =
     (let n = Suc (nextTransactionID s) in (tx_id n, s\<lparr>nextTransactionID := n\<rparr>))"

definition nextTransferIDLocked :: "ledger \<Rightarrow> string \<times> ledger" where
  "nextTransferIDLocked s =
     (let n = Suc (nextTransferID s) in (''tr-'' @ itoa_nat n, s\<lparr>nextTransferID := n\<rparr>))"

definition postings_of :: "string \<Rightarrow> ledger \<Rightarrow> ledgerPosting list" where
  "postings_of txID s = (case postingsByTx s txID of None \<Rightarrow> [] | Some ps \<Rightarrow> ps)"

fun balance_total :: "i64 \<Rightarrow> ledgerPosting list \<Rightarrow> i64 option" where
  "balance_total acc [] = Some acc"
| "balance_total acc (p # ps) =
     (if post_direction p = ''credit'' then balance_total (acc + post_amount p) ps
      else if post_direction p = ''debit'' then balance_total (acc - post_amount p) ps
      else None)"

definition isBalanced :: "ledgerPosting list \<Rightarrow> bool" where
  "isBalanced ps \<longleftrightarrow> balance_total 0 ps = Some 0"

definition addPostings :: "string \<Rightarrow> ledgerPosting list \<Rightarrow> ledger \<Rightarrow> bool \<times> ledger" where
  "addPostings txID ps s =
     (if \<not> isBalanced ps then (False, s)
      else (True, if useInMemoryStateMirror s
                  then s\<lparr>postingsByTx := (postingsByTx s)(txID \<mapsto> postings_of txID s @ ps)\<rparr> else s))"

definition ledger_authorize ::
    "auth_actor option \<Rightarrow> request_meta option \<Rightarrow> string \<Rightarrow> string option" where
  "ledger_authorize = authorize_owner ''player cannot access another account''"

text \<open>\<^verbatim>\<open>json.Marshal\<close> of a map writes the keys in sorted order.\<close>

definition snapshotAccount :: "ledgerAccount \<Rightarrow> string" where
  "snapshotAccount a =
     json_encode (JObject [(''account_id'', JString (acct_id a)),
       (''available'', JInt (sint (acct_available a))), (''currency'', JString (acct_currency a)),
       (''pending'', JInt (sint (acct_pending a)))])"

definition ledger_appendAudit ::
    "ext \<Rightarrow> env \<Rightarrow> request_meta option \<Rightarrow> string \<Rightarrow> string \<Rightarrow> string \<Rightarrow> string \<Rightarrow> string \<Rightarrow> string \<Rightarrow> string
     \<Rightarrow> ledger \<Rightarrow> bool \<times> ledger" where
  "ledger_appendAudit x e meta objectType objectID action before after result reason =
     svc_append x e (\<lambda>n. audit_event e (''audit-'' @ itoa_nat n) meta objectType objectID action
                           before after result reason)"

definition ledger_auditDenied ::
    "ext \<Rightarrow> env \<Rightarrow> request_meta option \<Rightarrow> string \<Rightarrow> string \<Rightarrow> string \<Rightarrow> string \<Rightarrow> ledger \<Rightarrow> ledger" where
  "ledger_auditDenied x e meta objectType objectID action reason s =
     snd (ledger_appendAudit x e meta objectType objectID action json_empty json_empty ResultDenied reason s)"

section \<open>The EFT lockout\<close>

text \<open>\<open>None\<close> is a database error.\<close>

definition eftLocked :: "env \<Rightarrow> string \<Rightarrow> ledger \<Rightarrow> bool option \<times> ledger" where
  "eftLocked e accountID s =
     (if dbEnabled s
      then (case ledger_query (select_lockout accountID) s of
              (None, s1) \<Rightarrow> (None, s1)
            | (Some None, s1) \<Rightarrow> (Some False, s1)
            | (Some (Some lockedUntil), s1) \<Rightarrow> (Some (env_now e < lockedUntil), s1))
      else (Some (env_now e < (case eftFraudLockedUntil s accountID of None \<Rightarrow> zero_time | Some t \<Rightarrow> t)), s))"

definition eft_failures :: "string \<Rightarrow> ledger \<Rightarrow> int" where
  "eft_failures accountID s = (case eftFraudFailures s accountID of None \<Rightarrow> 0 | Some n \<Rightarrow> n)"

definition recordEFTFailure :: "env \<Rightarrow> string \<Rightarrow> ledger \<Rightarrow> bool \<times> ledger" where
  "recordEFTFailure e accountID s =
     (if accountID = [] then (True, s)
      else if dbEnabled s
      then ledger_exec (sql_stmt (record_lockout_failure e (eftFraudMaxFailures s)
             (eftFraudLockoutTTL s div second) accountID)) s
      else let n = eft_failures accountID s + 1; s1 = s\<lparr>eftFraudFailures := (eftFraudFailures s)(accountID \<mapsto> n)\<rparr>
           in (True, if n \<ge> eftFraudMaxFailures s
                     then s1\<lparr>eftFraudLockedUntil := (eftFraudLockedUntil s)
                               (accountID \<mapsto> env_now e + eftFraudLockoutTTL s)\<rparr>
                     else s1))"

definition resetEFTFailures :: "string \<Rightarrow> ledger \<Rightarrow> bool \<times> ledger" where
  "resetEFTFailures accountID s =
     (if accountID = [] then (True, s)
      else if dbEnabled s then ledger_exec (sql_stmt (reset_lockout accountID)) s
      else (True, s\<lparr>eftFraudFailures := (eftFraudFailures s)(accountID := None),
                    eftFraudLockedUntil := (eftFraudLockedUntil s)(accountID := None)\<rparr>))"

section \<open>The steps the four mutations share\<close>

text \<open>Sequencing: a method that blocks or panics ends its caller.\<close>

definition and_then ::
    "'a outcome \<times> ledger \<Rightarrow> ('a \<Rightarrow> ledger \<Rightarrow> 'b outcome \<times> ledger) \<Rightarrow> 'b outcome \<times> ledger" where
  "and_then m k = (case m of (Returns a, s) \<Rightarrow> k a s | (Panics, s) \<Rightarrow> (Panics, s) | (Blocks, s) \<Rightarrow> (Blocks, s))"

datatype tx_op = OpDeposit | OpWithdraw | OpToAccount

fun tx_cache :: "tx_op \<Rightarrow> ledger \<Rightarrow> string \<rightharpoonup> tx_response" where
  "tx_cache OpDeposit s = depositByIdempotency s"
| "tx_cache OpWithdraw s = withdrawByIdempotency s"
| "tx_cache OpToAccount s = toAccountByIdempotency s"

fun tx_cache_put :: "tx_op \<Rightarrow> string \<Rightarrow> tx_response \<Rightarrow> ledger \<Rightarrow> ledger" where
  "tx_cache_put OpDeposit key r s = s\<lparr>depositByIdempotency := (depositByIdempotency s)(key \<mapsto> r)\<rparr>"
| "tx_cache_put OpWithdraw key r s = s\<lparr>withdrawByIdempotency := (withdrawByIdempotency s)(key \<mapsto> r)\<rparr>"
| "tx_cache_put OpToAccount key r s = s\<lparr>toAccountByIdempotency := (toAccountByIdempotency s)(key \<mapsto> r)\<rparr>"

definition cache_tx :: "tx_op \<Rightarrow> string \<Rightarrow> tx_response \<Rightarrow> ledger \<Rightarrow> ledger" where
  "cache_tx op key r s = (if useInMemoryIdempotencyCache s then tx_cache_put op key r s else s)"

definition cache_device :: "string \<Rightarrow> device_response \<Rightarrow> ledger \<Rightarrow> ledger" where
  "cache_device key r s =
     (if useInMemoryIdempotencyCache s
      then s\<lparr>toDeviceByIdempotency := (toDeviceByIdempotency s)(key \<mapsto> r)\<rparr> else s)"

definition tx_refusal :: "env \<Rightarrow> request_meta option \<Rightarrow> result_code \<Rightarrow> string \<Rightarrow> tx_response" where
  "tx_refusal e meta code reason =
     \<lparr>RespMeta = responseMeta e meta code reason, RespTransaction = None, RespAvailable = None\<rparr>"

definition device_refusal :: "env \<Rightarrow> request_meta option \<Rightarrow> result_code \<Rightarrow> string \<Rightarrow> device_response" where
  "device_refusal e meta code reason =
     \<lparr>DevMeta = responseMeta e meta code reason, DevTransferId = [],
      DevTransferStatus = TRANSFER_STATUS_UNSPECIFIED, DevTransferredAmount = None,
      DevAvailable = None, DevUnresolvedReason = []\<rparr>"

fun unpack_tx :: "payload \<Rightarrow> tx_response option" where
  "unpack_tx (PTx r) = Some r" | "unpack_tx (PDevice _) = None"

fun unpack_device :: "payload \<Rightarrow> device_response option" where
  "unpack_device (PDevice r) = Some r" | "unpack_device (PTx _) = None"

text \<open>
  The look-ups before a mutation: the cache, the stored response, and a stored transaction whose
  response was lost. \<open>Some r\<close>: the handler returns \<open>r\<close> now.
\<close>

definition tx_replay ::
    "env \<Rightarrow> tx_op \<Rightarrow> ledger_transaction_type \<Rightarrow> request_meta option \<Rightarrow> string \<Rightarrow> string \<Rightarrow> string \<Rightarrow> string
     \<Rightarrow> string \<Rightarrow> ledger \<Rightarrow> tx_response option \<times> ledger" where
  "tx_replay e op ty meta accountID currency0 scope key requestHash s =
     (case (if useInMemoryIdempotencyCache s then tx_cache op s key else None) of
        Some prev \<Rightarrow> (Some prev, s)
      | None \<Rightarrow>
        (case loadIdempotencyResponse unpack_tx scope (idempotency meta) requestHash s of
           (Mismatch, s1) \<Rightarrow>
             (Some (tx_refusal e meta RESULT_CODE_INVALID ''idempotency_key reused with different request''), s1)
         | (LoadError, s1) \<Rightarrow> (Some (tx_refusal e meta RESULT_CODE_ERROR ''persistence unavailable''), s1)
         | (Replay r, s1) \<Rightarrow> (Some r, cache_tx op key r s1)
         | (NotFound, s1) \<Rightarrow>
           (case findTransactionByIdempotency accountID ty (idempotency meta) s1 of
              (None, s2) \<Rightarrow> (Some (tx_refusal e meta RESULT_CODE_ERROR ''persistence unavailable''), s2)
            | (Some None, s2) \<Rightarrow> (None, s2)
            | (Some (Some tx), s2) \<Rightarrow>
              (case getBalanceFromDB accountID s2 of
                 (None, s3) \<Rightarrow> (Some (tx_refusal e meta RESULT_CODE_ERROR ''persistence unavailable''), s3)
               | (Some row, s3) \<Rightarrow>
                   let (available, currency) =
                         (case row of None \<Rightarrow> (0, currency0) | Some (a, _, c) \<Rightarrow> (a, c));
                       r = \<lparr>RespMeta = responseMeta e meta RESULT_CODE_OK [], RespTransaction = Some tx,
                            RespAvailable = Some (money available currency)\<rparr>
                   in (Some r, cache_tx op key r s3)))))"

definition device_replay ::
    "env \<Rightarrow> request_meta option \<Rightarrow> string \<Rightarrow> string \<Rightarrow> string \<Rightarrow> ledger \<Rightarrow> device_response option \<times> ledger" where
  "device_replay e meta scope key requestHash s =
     (case (if useInMemoryIdempotencyCache s then toDeviceByIdempotency s key else None) of
        Some prev \<Rightarrow> (Some prev, s)
      | None \<Rightarrow>
        (case loadIdempotencyResponse unpack_device scope (idempotency meta) requestHash s of
           (Mismatch, s1) \<Rightarrow>
             (Some (device_refusal e meta RESULT_CODE_INVALID ''idempotency_key reused with different request''), s1)
         | (LoadError, s1) \<Rightarrow> (Some (device_refusal e meta RESULT_CODE_ERROR ''persistence unavailable''), s1)
         | (Replay r, s1) \<Rightarrow> (Some r, cache_device key r s1)
         | (NotFound, s1) \<Rightarrow> (None, s1)))"

text \<open>
  From \<^verbatim>\<open>addPostings\<close> to \<^verbatim>\<open>persistLedgerMutation\<close>: the postings, the balance, the transaction, the
  audit event and the database, undone in memory when one of the last two fails. \<open>Inl\<close> is the reason
  of the error response, \<open>Inr\<close> the account after. \<open>delta\<close> is added to the balance: a withdrawal of
  \<open>n\<close> adds \<open>- n\<close>.
\<close>

definition undo_mutation :: "string \<Rightarrow> ledgerAccount \<Rightarrow> string \<Rightarrow> ledger \<Rightarrow> ledger" where
  "undo_mutation accountID acct txID s =
     rollbackLastTransaction accountID
       ((put_account accountID acct s)\<lparr>postingsByTx := (postingsByTx s)(txID := None)\<rparr>)"

definition apply_mutation ::
    "ext \<Rightarrow> env \<Rightarrow> request_meta option \<Rightarrow> string \<Rightarrow> string \<Rightarrow> ledger_transaction \<Rightarrow> ledgerPosting list \<Rightarrow> i64
     \<Rightarrow> ledgerAccount \<Rightarrow> ledger \<Rightarrow> (string + ledgerAccount) \<times> ledger" where
  "apply_mutation x e meta action reason tx postings delta acct s =
     (case addPostings (TransactionId tx) postings s of
        (False, s1) \<Rightarrow> (Inl ''unbalanced postings'', s1)
      | (True, s1) \<Rightarrow>
          let acct1 = acct\<lparr>acct_available := acct_available acct + delta\<rparr>;
              acct0 = acct1\<lparr>acct_available := acct_available acct1 - delta\<rparr>;
              s2 = appendTransaction tx (put_account (TxAccountId tx) acct1 s1)
          in (case ledger_appendAudit x e meta ''ledger_account'' (TxAccountId tx) action
                     (snapshotAccount acct) (snapshotAccount acct1) ResultSuccess reason s2 of
                (False, s3) \<Rightarrow> (Inl ''audit unavailable'', undo_mutation (TxAccountId tx) acct0 (TransactionId tx) s3)
              | (True, s3) \<Rightarrow>
                (case persistLedgerMutation x e tx postings ''accepted'' (idempotency meta) s3 of
                   (False, s4) \<Rightarrow> (Inl ''persistence unavailable'', undo_mutation (TxAccountId tx) acct0 (TransactionId tx) s4)
                 | (True, s4) \<Rightarrow> (Inr acct1, s4))))"

definition posting :: "env \<Rightarrow> string \<Rightarrow> string \<Rightarrow> i64 \<Rightarrow> string \<Rightarrow> ledgerPosting" where
  "posting e accountID direction amount currency =
     \<lparr>post_accountID = accountID, post_direction = direction, post_amount = amount,
      post_currency = currency, post_createdAt = env_now e\<rparr>"

definition new_tx ::
    "env \<Rightarrow> string \<Rightarrow> string \<Rightarrow> ledger_transaction_type \<Rightarrow> i64 \<Rightarrow> string \<Rightarrow> string \<Rightarrow> string
     \<Rightarrow> ledger_transaction" where
  "new_tx e txID accountID ty amount currency auth description =
     \<lparr>TransactionId = txID, TxAccountId = accountID, TransactionType = ty,
      TxAmount = money amount currency, TxOccurredAt = fmt_rfc3339nano (env_now e),
      TxAuthorizationId = auth, TxDescription = description\<rparr>"

text \<open>The response is stored in the database, then in the cache; \<open>False\<close> is a database error.\<close>

definition store_tx_response ::
    "ext \<Rightarrow> env \<Rightarrow> tx_op \<Rightarrow> request_meta option \<Rightarrow> string \<Rightarrow> string \<Rightarrow> string \<Rightarrow> tx_response
     \<Rightarrow> ledger \<Rightarrow> bool outcome \<times> ledger" where
  "store_tx_response x e op meta scope key requestHash resp s =
     and_then (persistIdempotencyResponse x e scope (idempotency meta) requestHash
                 (ResultCode (RespMeta resp)) (PTx resp) s)
       (\<lambda>ok s1. (Returns ok, if ok then cache_tx op key resp s1 else s1))"

definition store_device_response ::
    "ext \<Rightarrow> env \<Rightarrow> request_meta option \<Rightarrow> string \<Rightarrow> string \<Rightarrow> string \<Rightarrow> device_response
     \<Rightarrow> ledger \<Rightarrow> bool outcome \<times> ledger" where
  "store_device_response x e meta scope key requestHash resp s =
     and_then (persistIdempotencyResponse x e scope (idempotency meta) requestHash
                 (ResultCode (DevMeta resp)) (PDevice resp) s)
       (\<lambda>ok s1. (Returns ok, if ok then cache_device key resp s1 else s1))"

section \<open>GetBalance and the mutations\<close>

record account_request =
  Req_Meta :: "request_meta option"
  Req_AccountId :: string

record amount_request = account_request +
  Req_Amount :: "money option"

record deposit_request = amount_request +
  Req_AuthorizationId :: string

record device_request = amount_request +
  Req_DeviceId :: string

record balance_response =
  BalMeta :: response_meta
  BalAccountId :: string
  BalAvailable :: "money option"
  BalPending :: "money option"

definition balance_refusal :: "env \<Rightarrow> request_meta option \<Rightarrow> result_code \<Rightarrow> string \<Rightarrow> balance_response" where
  "balance_refusal e meta code reason =
     \<lparr>BalMeta = responseMeta e meta code reason, BalAccountId = [], BalAvailable = None, BalPending = None\<rparr>"

definition GetBalance ::
    "ext \<Rightarrow> env \<Rightarrow> auth_actor option \<Rightarrow> account_request option \<Rightarrow> ledger \<Rightarrow> balance_response outcome \<times> ledger" where
  "GetBalance x e ctx req s =
     (case req of
        None \<Rightarrow> (Returns (balance_refusal e None RESULT_CODE_INVALID ''account_id is required''), s)
      | Some r \<Rightarrow>
          if Req_AccountId r = [] then
            (Returns (balance_refusal e None RESULT_CODE_INVALID ''account_id is required''), s)
          else (case ledger_authorize ctx (Req_Meta r) (Req_AccountId r) of
            Some reason \<Rightarrow>
              (Returns (balance_refusal e (Req_Meta r) RESULT_CODE_DENIED reason),
               ledger_auditDenied x e (Req_Meta r) ''ledger_account'' (Req_AccountId r) ''get_balance'' reason s)
          | None \<Rightarrow>
              with_lock (\<lambda>s.
                case getBalanceFromDB (Req_AccountId r) s of
                  (None, s1) \<Rightarrow>
                    (Returns (balance_refusal e (Req_Meta r) RESULT_CODE_ERROR ''persistence unavailable''), s1)
                | (Some row, s1) \<Rightarrow>
                    let (available, pending, currency) =
                          (case row of
                             Some b \<Rightarrow> b
                           | None \<Rightarrow> (case accountBalance (Req_AccountId r) s of
                               (available, pending, currency, ok) \<Rightarrow>
                                 (available, pending, if ok then currency else ''USD'')))
                    in (Returns \<lparr>BalMeta = responseMeta e (Req_Meta r) RESULT_CODE_OK [],
                                 BalAccountId = Req_AccountId r,
                                 BalAvailable = Some (money available currency),
                                 BalPending = Some (money pending currency)\<rparr>, s1)) s))"

text \<open>
  The beginning of the four mutations, with the response type's refusal, the name of the action and
  the text for a bad amount: the caller, the amount and the idempotency key are checked before the
  lock is taken, the EFT lockout after.
\<close>

definition ledger_guarded ::
    "(request_meta option \<Rightarrow> result_code \<Rightarrow> string \<Rightarrow> 'a) \<Rightarrow> ext \<Rightarrow> env \<Rightarrow> auth_actor option \<Rightarrow> string \<Rightarrow> string
     \<Rightarrow> request_meta option \<Rightarrow> string \<Rightarrow> money option \<Rightarrow> (ledger \<Rightarrow> 'a outcome \<times> ledger)
     \<Rightarrow> ledger \<Rightarrow> 'a outcome \<times> ledger" where
  "ledger_guarded refuse x e ctx action badAmount meta account amount body s =
     (case ledger_authorize ctx meta account of
        Some reason \<Rightarrow>
          (Returns (refuse meta RESULT_CODE_DENIED reason),
           ledger_auditDenied x e meta ''ledger_account'' account action reason s)
      | None \<Rightarrow>
          if invalidAmount amount then (Returns (refuse meta RESULT_CODE_INVALID badAmount), s)
          else if idempotency meta = [] then
            (Returns (refuse meta RESULT_CODE_INVALID ''idempotency_key is required''), s)
          else with_lock (\<lambda>s.
            case eftLocked e account s of
              (None, s1) \<Rightarrow> (Returns (refuse meta RESULT_CODE_ERROR ''persistence unavailable''), s1)
            | (Some locked, s1) \<Rightarrow>
                if locked then
                  (Returns (refuse meta RESULT_CODE_DENIED ''eft account locked''),
                   ledger_auditDenied x e meta ''ledger_account'' account action ''eft account locked'' s1)
                else body s1) s)"

text \<open>The end of Deposit, Withdraw and TransferToAccount: post, store the response, clear the lockout.\<close>

definition tx_post ::
    "ext \<Rightarrow> env \<Rightarrow> tx_op \<Rightarrow> request_meta option \<Rightarrow> string \<Rightarrow> string \<Rightarrow> string \<Rightarrow> string \<Rightarrow> ledger_transaction
     \<Rightarrow> ledgerPosting list \<Rightarrow> i64 \<Rightarrow> ledgerAccount \<Rightarrow> ledger \<Rightarrow> tx_response outcome \<times> ledger" where
  "tx_post x e op meta action scope key requestHash tx postings delta acct s =
     (case apply_mutation x e meta action [] tx postings delta acct s of
        (Inl reason, s1) \<Rightarrow> (Returns (tx_refusal e meta RESULT_CODE_ERROR reason), s1)
      | (Inr acct1, s1) \<Rightarrow>
          let resp = \<lparr>RespMeta = responseMeta e meta RESULT_CODE_OK [], RespTransaction = Some tx,
                      RespAvailable = Some (money (acct_available acct1) (acct_currency acct1))\<rparr>
          in and_then (store_tx_response x e op meta scope key requestHash resp s1)
               (\<lambda>ok s2. if ok then (Returns resp, snd (resetEFTFailures (TxAccountId tx) s2))
                        else (Returns (tx_refusal e meta RESULT_CODE_ERROR ''persistence unavailable''), s2)))"

text \<open>Between the lock and the end: replay, account, currency; \<open>k\<close> is the rest.\<close>

definition tx_locked ::
    "env \<Rightarrow> tx_op \<Rightarrow> ledger_transaction_type \<Rightarrow> request_meta option \<Rightarrow> string \<Rightarrow> string \<Rightarrow> string \<Rightarrow> string \<Rightarrow> string
     \<Rightarrow> (ledgerAccount \<Rightarrow> ledger \<Rightarrow> tx_response outcome \<times> ledger) \<Rightarrow> ledger \<Rightarrow> tx_response outcome \<times> ledger" where
  "tx_locked e op ty meta account currency scope key requestHash k s =
     (case tx_replay e op ty meta account currency scope key requestHash s of
        (Some resp, s1) \<Rightarrow> (Returns resp, s1)
      | (None, s1) \<Rightarrow>
        (case mutationAccountState account currency s1 of
           (None, s2) \<Rightarrow> (Returns (tx_refusal e meta RESULT_CODE_ERROR ''persistence unavailable''), s2)
         | (Some acct, s2) \<Rightarrow>
             if acct_currency acct \<noteq> currency then
               (Returns (tx_refusal e meta RESULT_CODE_INVALID ''currency mismatch for account''), s2)
             else k acct s2))"

definition deposit_post ::
    "ext \<Rightarrow> env \<Rightarrow> deposit_request \<Rightarrow> string \<Rightarrow> string \<Rightarrow> string \<Rightarrow> ledgerAccount
     \<Rightarrow> ledger \<Rightarrow> tx_response outcome \<times> ledger" where
  "deposit_post x e r scope key requestHash acct s =
     (let account = Req_AccountId r; amount = AmountMinor (the (Req_Amount r));
          currency = Currency (the (Req_Amount r)); (txID, s1) = nextTxIDLocked s;
          postings = [posting e ''operator_liability'' ''debit'' amount currency,
                      posting e account ''credit'' amount currency];
          tx = new_tx e txID account LEDGER_TRANSACTION_TYPE_DEPOSIT amount currency
                 (Req_AuthorizationId r) ''deposit accepted''
      in tx_post x e OpDeposit (Req_Meta r) ''deposit'' scope key requestHash tx postings amount acct s1)"

definition Deposit ::
    "ext \<Rightarrow> env \<Rightarrow> auth_actor option \<Rightarrow> deposit_request option \<Rightarrow> ledger \<Rightarrow> tx_response outcome \<times> ledger" where
  "Deposit x e ctx req s =
     (case req of
        None \<Rightarrow> (Returns (tx_refusal e None RESULT_CODE_INVALID ''account_id is required''), s)
      | Some r \<Rightarrow>
        let meta = Req_Meta r; account = Req_AccountId r; idem = idempotency meta;
            amount = AmountMinor (the (Req_Amount r)); currency = Currency (the (Req_Amount r));
            key = account @ ''|deposit|'' @ idem; scope = idemScope account ''deposit'';
            requestHash = hashRequest x [scope, currency, itoa (sint amount), Req_AuthorizationId r] in
        if account = [] then (Returns (tx_refusal e None RESULT_CODE_INVALID ''account_id is required''), s)
        else ledger_guarded (tx_refusal e) x e ctx ''deposit'' ''amount must be > 0 and currency provided''
               meta account (Req_Amount r)
          (tx_locked e OpDeposit LEDGER_TRANSACTION_TYPE_DEPOSIT meta account currency scope key requestHash
            (deposit_post x e r scope key requestHash)) s)"

text \<open>The refusal of a withdrawal the balance does not cover: counted, audited, stored.\<close>

definition withdraw_denied ::
    "ext \<Rightarrow> env \<Rightarrow> request_meta option \<Rightarrow> string \<Rightarrow> string \<Rightarrow> string \<Rightarrow> string \<Rightarrow> ledgerAccount
     \<Rightarrow> ledger \<Rightarrow> tx_response outcome \<times> ledger" where
  "withdraw_denied x e meta account scope key requestHash acct s =
     (case recordEFTFailure e account s of
        (ok, s1) \<Rightarrow>
          if \<not> ok then (Returns (tx_refusal e meta RESULT_CODE_ERROR ''persistence unavailable''), s1)
          else
            let s2 = ledger_auditDenied x e meta ''ledger_account'' account ''withdraw'' ''insufficient balance'' s1;
                resp = \<lparr>RespMeta = responseMeta e meta RESULT_CODE_DENIED ''insufficient balance'',
                        RespTransaction = None,
                        RespAvailable = Some (money (acct_available acct) (acct_currency acct))\<rparr>
            in and_then (store_tx_response x e OpWithdraw meta scope key requestHash resp s2)
                 (\<lambda>ok s3. (Returns (if ok then resp
                    else tx_refusal e meta RESULT_CODE_ERROR ''persistence unavailable''), s3)))"

definition withdraw_post ::
    "ext \<Rightarrow> env \<Rightarrow> amount_request \<Rightarrow> string \<Rightarrow> string \<Rightarrow> string \<Rightarrow> ledgerAccount
     \<Rightarrow> ledger \<Rightarrow> tx_response outcome \<times> ledger" where
  "withdraw_post x e r scope key requestHash acct s =
     (let account = Req_AccountId r; amount = AmountMinor (the (Req_Amount r));
          currency = Currency (the (Req_Amount r)) in
      if sint (acct_available acct) < sint amount then
        withdraw_denied x e (Req_Meta r) account scope key requestHash acct s
      else
        let (txID, s1) = nextTxIDLocked s;
            postings = [posting e account ''debit'' amount currency,
                        posting e ''operator_liability'' ''credit'' amount currency];
            tx = new_tx e txID account LEDGER_TRANSACTION_TYPE_WITHDRAWAL amount currency
                   [] ''withdrawal accepted''
        in tx_post x e OpWithdraw (Req_Meta r) ''withdraw'' scope key requestHash tx postings
             (- amount) acct s1)"

definition Withdraw ::
    "ext \<Rightarrow> env \<Rightarrow> auth_actor option \<Rightarrow> amount_request option \<Rightarrow> ledger \<Rightarrow> tx_response outcome \<times> ledger" where
  "Withdraw x e ctx req s =
     (case req of
        None \<Rightarrow> (Returns (tx_refusal e None RESULT_CODE_INVALID ''account_id is required''), s)
      | Some r \<Rightarrow>
        let meta = Req_Meta r; account = Req_AccountId r; idem = idempotency meta;
            amount = AmountMinor (the (Req_Amount r)); currency = Currency (the (Req_Amount r));
            key = account @ ''|withdraw|'' @ idem; scope = idemScope account ''withdraw'';
            requestHash = hashRequest x [scope, currency, itoa (sint amount)] in
        if account = [] then (Returns (tx_refusal e None RESULT_CODE_INVALID ''account_id is required''), s)
        else ledger_guarded (tx_refusal e) x e ctx ''withdraw'' ''amount must be > 0 and currency provided''
               meta account (Req_Amount r)
          (tx_locked e OpWithdraw LEDGER_TRANSACTION_TYPE_WITHDRAWAL meta account currency scope key requestHash
            (withdraw_post x e r scope key requestHash)) s)"

definition to_account_post ::
    "ext \<Rightarrow> env \<Rightarrow> amount_request \<Rightarrow> string \<Rightarrow> string \<Rightarrow> string \<Rightarrow> ledgerAccount
     \<Rightarrow> ledger \<Rightarrow> tx_response outcome \<times> ledger" where
  "to_account_post x e r scope key requestHash acct s =
     (let account = Req_AccountId r; amount = AmountMinor (the (Req_Amount r));
          currency = Currency (the (Req_Amount r)); (txID, s1) = nextTxIDLocked s;
          postings = [posting e ''device_escrow'' ''debit'' amount currency,
                      posting e account ''credit'' amount currency];
          tx = new_tx e txID account LEDGER_TRANSACTION_TYPE_TRANSFER_TO_ACCOUNT amount currency
                 [] ''transfer to account''
      in tx_post x e OpToAccount (Req_Meta r) ''transfer_to_account'' scope key requestHash tx postings
           amount acct s1)"

definition TransferToAccount ::
    "ext \<Rightarrow> env \<Rightarrow> auth_actor option \<Rightarrow> amount_request option \<Rightarrow> ledger \<Rightarrow> tx_response outcome \<times> ledger" where
  "TransferToAccount x e ctx req s =
     (case req of
        None \<Rightarrow> (Returns (tx_refusal e None RESULT_CODE_INVALID ''account_id is required''), s)
      | Some r \<Rightarrow>
        let meta = Req_Meta r; account = Req_AccountId r; idem = idempotency meta;
            amount = AmountMinor (the (Req_Amount r)); currency = Currency (the (Req_Amount r));
            key = account @ ''|to_account|'' @ idem; scope = idemScope account ''transfer_to_account'';
            requestHash = hashRequest x [scope, currency, itoa (sint amount)] in
        if account = [] then (Returns (tx_refusal e None RESULT_CODE_INVALID ''account_id is required''), s)
        else ledger_guarded (tx_refusal e) x e ctx ''transfer_to_account''
               ''amount must be > 0 and currency provided'' meta account (Req_Amount r)
          (tx_locked e OpToAccount LEDGER_TRANSACTION_TYPE_TRANSFER_TO_ACCOUNT meta account currency scope key
            requestHash
            (to_account_post x e r scope key requestHash)) s)"

text \<open>The amount a transfer to a device moves, its status and its reason.\<close>

definition transfer_plan :: "i64 \<Rightarrow> i64 \<Rightarrow> i64 \<times> transfer_status \<times> string" where
  "transfer_plan available requested =
     (if sint available < sint requested
      then (available, TRANSFER_STATUS_PARTIAL, ''requested amount exceeds available balance'')
      else (requested, TRANSFER_STATUS_ACCEPTED, []))"

definition device_denied ::
    "ext \<Rightarrow> env \<Rightarrow> request_meta option \<Rightarrow> string \<Rightarrow> string \<Rightarrow> string \<Rightarrow> string \<Rightarrow> ledgerAccount
     \<Rightarrow> ledger \<Rightarrow> device_response outcome \<times> ledger" where
  "device_denied x e meta account scope key requestHash acct s =
     (case recordEFTFailure e account s of
        (ok, s1) \<Rightarrow>
          if \<not> ok then (Returns (device_refusal e meta RESULT_CODE_ERROR ''persistence unavailable''), s1)
          else
            let s2 = ledger_auditDenied x e meta ''ledger_account'' account ''transfer_to_device''
                       ''insufficient balance'' s1;
                resp = \<lparr>DevMeta = responseMeta e meta RESULT_CODE_DENIED ''insufficient balance'',
                        DevTransferId = [], DevTransferStatus = TRANSFER_STATUS_DENIED,
                        DevTransferredAmount = Some (money 0 (acct_currency acct)),
                        DevAvailable = Some (money (acct_available acct) (acct_currency acct)),
                        DevUnresolvedReason = []\<rparr>
            in and_then (store_device_response x e meta scope key requestHash resp s2)
                 (\<lambda>ok s3. (Returns (if ok then resp
                    else device_refusal e meta RESULT_CODE_ERROR ''persistence unavailable''), s3)))"

text \<open>The transfer of a positive amount, whole or partial.\<close>

definition device_transfer ::
    "ext \<Rightarrow> env \<Rightarrow> device_request \<Rightarrow> string \<Rightarrow> string \<Rightarrow> string \<Rightarrow> ledgerAccount
     \<Rightarrow> ledger \<Rightarrow> device_response outcome \<times> ledger" where
  "device_transfer x e r scope key requestHash acct s =
     (let meta = Req_Meta r; account = Req_AccountId r; currency = Currency (the (Req_Amount r));
          (transfer, status, reason) = transfer_plan (acct_available acct) (AmountMinor (the (Req_Amount r)));
          (txID, s1) = nextTxIDLocked s;
          postings = [posting e account ''debit'' transfer currency,
                      posting e (''device_escrow:'' @ Req_DeviceId r) ''credit'' transfer currency];
          tx = new_tx e txID account LEDGER_TRANSACTION_TYPE_TRANSFER_TO_DEVICE transfer currency
                 [] ''transfer to device''
      in case apply_mutation x e meta ''transfer_to_device'' reason tx postings (- transfer) acct s1 of
           (Inl failure, s2) \<Rightarrow> (Returns (device_refusal e meta RESULT_CODE_ERROR failure), s2)
         | (Inr acct1, s2) \<Rightarrow>
             let (transferID, s3) = nextTransferIDLocked s2;
                 resp = \<lparr>DevMeta = responseMeta e meta RESULT_CODE_OK [],
                         DevTransferId = transferID, DevTransferStatus = status,
                         DevTransferredAmount = Some (money transfer (acct_currency acct1)),
                         DevAvailable = Some (money (acct_available acct1) (acct_currency acct1)),
                         DevUnresolvedReason = reason\<rparr>
             in and_then (store_device_response x e meta scope key requestHash resp s3)
                  (\<lambda>ok s4. if ok then (Returns resp, snd (resetEFTFailures account s4))
                           else (Returns (device_refusal e meta RESULT_CODE_ERROR ''persistence unavailable''), s4)))"

definition device_locked ::
    "ext \<Rightarrow> env \<Rightarrow> device_request \<Rightarrow> ledger \<Rightarrow> device_response outcome \<times> ledger" where
  "device_locked x e r s =
     (let meta = Req_Meta r; account = Req_AccountId r; idem = idempotency meta;
          requested = AmountMinor (the (Req_Amount r)); currency = Currency (the (Req_Amount r));
          key = account @ ''|to_device|'' @ idem; scope = idemScope account ''transfer_to_device'';
          requestHash = hashRequest x [scope, Req_DeviceId r, currency, itoa (sint requested)];
          unavailable = device_refusal e meta RESULT_CODE_ERROR ''persistence unavailable'' in
      case device_replay e meta scope key requestHash s of
        (Some resp, s1) \<Rightarrow> (Returns resp, s1)
      | (None, s1) \<Rightarrow>
        (case mutationAccountState account currency s1 of
           (None, s2) \<Rightarrow> (Returns unavailable, s2)
         | (Some acct, s2) \<Rightarrow>
           if acct_currency acct \<noteq> currency then
             (Returns (device_refusal e meta RESULT_CODE_INVALID ''currency mismatch for account''), s2)
           else if sint (acct_available acct) \<le> 0 then
             device_denied x e meta account scope key requestHash acct s2
           else device_transfer x e r scope key requestHash acct s2))"

definition TransferToDevice ::
    "ext \<Rightarrow> env \<Rightarrow> auth_actor option \<Rightarrow> device_request option \<Rightarrow> ledger \<Rightarrow> device_response outcome \<times> ledger" where
  "TransferToDevice x e ctx req s =
     (case req of
        None \<Rightarrow> (Returns (device_refusal e None RESULT_CODE_INVALID ''account_id and device_id are required''), s)
      | Some r \<Rightarrow>
        if Req_AccountId r = [] \<or> Req_DeviceId r = [] then
          (Returns (device_refusal e None RESULT_CODE_INVALID ''account_id and device_id are required''), s)
        else ledger_guarded (device_refusal e) x e ctx ''transfer_to_device''
               ''requested_amount must be > 0 and currency provided'' (Req_Meta r) (Req_AccountId r)
               (Req_Amount r) (device_locked x e r) s)"

section \<open>ListTransactions\<close>

record list_request = account_request +
  Req_PageSize :: i32
  Req_PageToken :: string

record list_response =
  ListMeta :: response_meta
  ListTransactionsItems :: "ledger_transaction list"
  ListNextPageToken :: string

definition list_refusal :: "env \<Rightarrow> request_meta option \<Rightarrow> result_code \<Rightarrow> string \<Rightarrow> list_response" where
  "list_refusal e meta code reason =
     \<lparr>ListMeta = responseMeta e meta code reason, ListTransactionsItems = [], ListNextPageToken = []\<rparr>"

definition ListTransactions ::
    "ext \<Rightarrow> env \<Rightarrow> auth_actor option \<Rightarrow> list_request option \<Rightarrow> ledger \<Rightarrow> list_response outcome \<times> ledger" where
  "ListTransactions x e ctx req s =
     (case req of
        None \<Rightarrow> (Returns (list_refusal e None RESULT_CODE_INVALID ''account_id is required''), s)
      | Some r \<Rightarrow>
        let meta = Req_Meta r; account = Req_AccountId r;
            reply = (\<lambda>items token. \<lparr>ListMeta = responseMeta e meta RESULT_CODE_OK [],
                                    ListTransactionsItems = items, ListNextPageToken = token\<rparr>) in
        if account = [] then (Returns (list_refusal e None RESULT_CODE_INVALID ''account_id is required''), s)
        else (case ledger_authorize ctx meta account of
          Some reason \<Rightarrow>
            (Returns (list_refusal e meta RESULT_CODE_DENIED reason),
             ledger_auditDenied x e meta ''ledger_account'' account ''list_transactions'' reason s)
        | None \<Rightarrow>
            with_lock (\<lambda>s.
              if dbEnabled s then
                let start = page_start (Req_PageToken r); psize = page_size 50 (Req_PageSize r) in
                (case listTransactionsFromDB x account psize start s of
                   (None, s1) \<Rightarrow> (Returns (list_refusal e meta RESULT_CODE_ERROR ''persistence unavailable''), s1)
                 | (Some rows, s1) \<Rightarrow> (Returns (reply rows (db_next start psize rows)), s1))
              else
                (case page_window 50 (Req_PageToken r) (Req_PageSize r) (transactions_of account s) of
                   (items, token) \<Rightarrow> (Returns (reply items token), s))) s))"

end
