(* ===== verification/LedgerBook.thy ===== *)
theory LedgerBook
  imports Ledger
begin

text \<open>
  What the ledger promises, as a specification of its own: a \<open>book\<close> of accounts, transactions and
  postings that only opens accounts and posts balanced movements. The service without a database
  implements it (\<open>ledger_sim\<close>), so the facts about every reachable book are facts about the service.
\<close>

section \<open>The specification\<close>

record book =
  bk_accounts :: "string \<rightharpoonup> ledgerAccount"
  bk_transactions :: "string \<rightharpoonup> ledger_transaction list"
  bk_postings :: "string \<rightharpoonup> ledgerPosting list"
  bk_count :: nat

definition book_of :: "ledger \<Rightarrow> book" where
  "book_of s = \<lparr>bk_accounts = accounts s, bk_transactions = transactionsByAcct s,
                bk_postings = postingsByTx s, bk_count = nextTransactionID s\<rparr>"

definition house_account :: "string \<Rightarrow> bool" where
  "house_account a \<longleftrightarrow> a = ''operator_liability'' \<or> has_prefix ''device_escrow'' a"

text \<open>A movement: a debit of one account and a credit of another, one of them the customer's.\<close>

definition movement :: "string \<Rightarrow> ledgerPosting list \<Rightarrow> i64 \<Rightarrow> i64 \<Rightarrow> bool" where
  "movement a ps available delta \<longleftrightarrow>
     (\<exists>from to amt cur t. 0 < sint amt \<and>
        ps = [\<lparr>post_accountID = from, post_direction = ''debit'', post_amount = amt,
               post_currency = cur, post_createdAt = t\<rparr>,
              \<lparr>post_accountID = to, post_direction = ''credit'', post_amount = amt,
               post_currency = cur, post_createdAt = t\<rparr>] \<and>
        (from = a \<and> house_account to \<and> sint amt \<le> sint available \<and> delta = - amt \<or>
         to = a \<and> house_account from \<and> delta = amt))"

inductive book_step :: "book \<Rightarrow> book \<Rightarrow> bool" where
  open_account: "bk_accounts b a = None \<Longrightarrow>
     book_step b (b\<lparr>bk_accounts := (bk_accounts b)(a \<mapsto> new_account a c)\<rparr>)"
| post: "bk_accounts b a = Some acct \<Longrightarrow> tid = tx_id (Suc (bk_count b)) \<Longrightarrow>
     movement a ps (acct_available acct) delta \<Longrightarrow> TransactionId tx = tid \<Longrightarrow> TxAccountId tx = a \<Longrightarrow>
     book_step b (b\<lparr>
       bk_accounts := (bk_accounts b)(a \<mapsto> acct\<lparr>acct_available := acct_available acct + delta\<rparr>),
       bk_transactions := (bk_transactions b)
         (a \<mapsto> (case bk_transactions b a of None \<Rightarrow> [] | Some ts \<Rightarrow> ts) @ [tx]),
       bk_postings := (bk_postings b)(tid \<mapsto> (case bk_postings b tid of None \<Rightarrow> [] | Some qs \<Rightarrow> qs) @ ps),
       bk_count := Suc (bk_count b)\<rparr>)"

inductive_cases book_stepE: "book_step b b'"

section \<open>The service without a database\<close>

definition mem_core :: "ext \<Rightarrow> ledger \<Rightarrow> bool" where
  "mem_core x s \<longleftrightarrow> svc_db s = None \<and> svc_ok x s"

lemma no_db [simp]:
  assumes "svc_db s = None"
  shows "\<not> dbEnabled s" "useInMemoryIdempotencyCache s" "useInMemoryStateMirror s"
  using assms by (simp_all add: dbEnabled_def useInMemoryIdempotencyCache_def useInMemoryStateMirror_def)

lemma eftLocked_mem:
  "svc_db s = None \<Longrightarrow> eftLocked e a s =
     (Some (env_now e < (case eftFraudLockedUntil s a of None \<Rightarrow> zero_time | Some t \<Rightarrow> t)), s)"
  by (simp add: eftLocked_def)

lemma tx_replay_mem:
  "svc_db s = None \<Longrightarrow> tx_replay e op ty meta a c scope key h s = (tx_cache op s key, s)"
  by (simp add: tx_replay_def loadIdempotencyResponse_def findTransactionByIdempotency_def split: option.splits)

lemma device_replay_mem:
  "svc_db s = None \<Longrightarrow> device_replay e meta scope key h s = (toDeviceByIdempotency s key, s)"
  by (simp add: device_replay_def loadIdempotencyResponse_def split: option.splits)

definition opened :: "string \<Rightarrow> string \<Rightarrow> ledger \<Rightarrow> ledger" where
  "opened a c s = (if accounts s a = None then s\<lparr>accounts := (accounts s)(a \<mapsto> new_account a c)\<rparr> else s)"

lemma mutationAccountState_mem:
  "svc_db s = None \<Longrightarrow> mutationAccountState a c s = (accounts (opened a c s) a, opened a c s)"
  by (simp add: mutationAccountState_def getOrCreateAccount_def put_account_def opened_def Let_def
      split: option.splits)

lemma store_tx_response_mem:
  "svc_db s = None \<Longrightarrow> store_tx_response x e op meta scope key h r s = (Returns True, tx_cache_put op key r s)"
  by (simp add: store_tx_response_def persistIdempotencyResponse_def and_then_def cache_tx_def)

lemma store_device_response_mem:
  "svc_db s = None \<Longrightarrow> store_device_response x e meta scope key h r s =
     (Returns True, s\<lparr>toDeviceByIdempotency := (toDeviceByIdempotency s)(key \<mapsto> r)\<rparr>)"
  by (simp add: store_device_response_def persistIdempotencyResponse_def and_then_def cache_device_def)

lemma ledger_appendAudit_mem:
  assumes "mem_core x s"
  obtains st n where "ledger_appendAudit x e meta ot oi ac be af re rs s =
      (True, s\<lparr>svc_AuditStore := st, svc_nextAuditID := n\<rparr>)"
    and "mem_core x (s\<lparr>svc_AuditStore := st, svc_nextAuditID := n\<rparr>)"
proof -
  let ?r = "ledger_appendAudit x e meta ot oi ac be af re rs s"
  have "fst ?r \<and> svc_db (snd ?r) = None" "svc_ok x (snd ?r)"
    using assms svc_append_nodb [of x s] svc_append_ok [of x s]
    by (simp_all add: ledger_appendAudit_def mem_core_def)
  moreover have "\<exists>st n db. snd ?r = s\<lparr>svc_AuditStore := st, svc_nextAuditID := n, svc_db := db\<rparr>"
    by (simp add: ledger_appendAudit_def svc_append_def split: prod.splits) blast
  moreover have "svc_db s = None" using assms by (simp add: mem_core_def)
  ultimately show ?thesis
    using that [of "svc_nextAuditID (snd ?r)" "svc_AuditStore (snd ?r)"]
    by (cases ?r) (auto simp: mem_core_def)
qed


lemma apply_mutation_mem:
  assumes core: "mem_core x s" and bal: "isBalanced ps"
  obtains st n where
    "apply_mutation x e meta action reason tx ps delta acct s =
      (Inr (acct\<lparr>acct_available := acct_available acct + delta\<rparr>),
       s\<lparr>accounts := (accounts s)(TxAccountId tx \<mapsto> acct\<lparr>acct_available := acct_available acct + delta\<rparr>),
         transactionsByAcct := (transactionsByAcct s)
           (TxAccountId tx \<mapsto> transactions_of (TxAccountId tx) s @ [tx]),
         postingsByTx := (postingsByTx s)(TransactionId tx \<mapsto> postings_of (TransactionId tx) s @ ps),
         svc_AuditStore := st, svc_nextAuditID := n\<rparr>)"
    and "svc_ok x (s\<lparr>svc_AuditStore := st\<rparr>)"
proof -
  let ?acct1 = "acct\<lparr>acct_available := acct_available acct + delta\<rparr>"
  let ?s2 = "s\<lparr>accounts := (accounts s)(TxAccountId tx \<mapsto> ?acct1),
       transactionsByAcct := (transactionsByAcct s)(TxAccountId tx \<mapsto> transactions_of (TxAccountId tx) s @ [tx]),
       postingsByTx := (postingsByTx s)(TransactionId tx \<mapsto> postings_of (TransactionId tx) s @ ps)\<rparr>"
  have db: "svc_db s = None" and core2: "mem_core x ?s2"
    using core by (simp_all add: mem_core_def svc_ok_def)
  obtain st n where aud: "ledger_appendAudit x e meta ''ledger_account'' (TxAccountId tx) action
      (snapshotAccount acct) (snapshotAccount ?acct1) ResultSuccess reason ?s2 =
      (True, ?s2\<lparr>svc_AuditStore := st, svc_nextAuditID := n\<rparr>)"
    and ok: "mem_core x (?s2\<lparr>svc_AuditStore := st, svc_nextAuditID := n\<rparr>)"
    using ledger_appendAudit_mem [OF core2] by metis
  have "appendTransaction tx (put_account (TxAccountId tx) ?acct1
      (s\<lparr>postingsByTx := (postingsByTx s)(TransactionId tx \<mapsto> postings_of (TransactionId tx) s @ ps)\<rparr>)) = ?s2"
    using db by (simp add: appendTransaction_def put_account_def transactions_of_def)
  then show ?thesis
    using that [of n st] db bal aud ok
    by (simp add: apply_mutation_def addPostings_def Let_def persistLedgerMutation_def mem_core_def svc_ok_def)
qed

lemma posting_pair_balanced:
  "isBalanced [posting e a ''debit'' n c, posting e b ''credit'' n c]"
  by (simp add: isBalanced_def posting_def)

text \<open>
  \<open>book_run x b m\<close>: the method \<open>m\<close>, run with the mutex held, returns, keeps the mutex and the audit
  store, and has moved the book \<open>b\<close> only as the specification allows.
\<close>

definition book_run :: "ext \<Rightarrow> book \<Rightarrow> 'a outcome \<times> ledger \<Rightarrow> bool" where
  "book_run x b m \<longleftrightarrow> (\<exists>r. fst m = Returns r) \<and> mem_core x (snd m) \<and> mu (snd m) \<and>
     book_step\<^sup>*\<^sup>* b (book_of (snd m))"

definition book_held :: "ext \<Rightarrow> book \<Rightarrow> ledger \<Rightarrow> bool" where
  "book_held x b s \<longleftrightarrow> mem_core x s \<and> mu s \<and> book_step\<^sup>*\<^sup>* b (book_of s)"

lemma book_run_Returns: "book_run x b (Returns r, s) \<longleftrightarrow> book_held x b s"
  by (simp add: book_run_def book_held_def)

lemma book_held_quiet:
  assumes "book_held x b s" "book_of s' = book_of s" "svc_db s' = None" "svc_AuditStore s' = svc_AuditStore s" "mu s'"
  shows "book_held x b s'"
  using assms by (simp add: book_held_def mem_core_def svc_ok_def)

lemma book_held_cache: "book_held x b s \<Longrightarrow> book_held x b (tx_cache_put op key r s)"
  by (rule book_held_quiet) (cases op; simp add: book_of_def book_held_def mem_core_def)+

lemma book_held_auditDenied:
  assumes "book_held x b s"
  shows "book_held x b (ledger_auditDenied x e meta ot oi ac rs s)"
proof -
  have core: "mem_core x s" using assms by (simp add: book_held_def)
  obtain st n where "ledger_auditDenied x e meta ot oi ac rs s = s\<lparr>svc_AuditStore := st, svc_nextAuditID := n\<rparr>"
    and "mem_core x (s\<lparr>svc_AuditStore := st, svc_nextAuditID := n\<rparr>)"
    using ledger_appendAudit_mem [OF core, of e meta ot oi ac json_empty json_empty ResultDenied rs]
    by (metis ledger_auditDenied_def snd_conv)
  then show ?thesis using assms by (simp add: book_held_def book_of_def)
qed

lemma book_held_failure: "book_held x b s \<Longrightarrow> book_held x b (snd (recordEFTFailure e a s))"
  by (rule book_held_quiet) (auto simp: recordEFTFailure_def Let_def book_of_def book_held_def mem_core_def svc_ok_def)

lemma book_held_reset: "book_held x b s \<Longrightarrow> book_held x b (snd (resetEFTFailures a s))"
  by (rule book_held_quiet) (auto simp: resetEFTFailures_def Let_def book_of_def book_held_def mem_core_def svc_ok_def)

lemma recordEFTFailure_mem: "svc_db s = None \<Longrightarrow> fst (recordEFTFailure e a s)"
  by (simp add: recordEFTFailure_def Let_def)

lemma book_held_opened: "book_held x b s \<Longrightarrow> book_held x b (opened a c s)"
proof (cases "accounts s a = None")
  case True
  assume held: "book_held x b s"
  have "book_step (book_of s) (book_of (opened a c s))"
    using True book_step.open_account [of "book_of s" a c] by (simp add: book_of_def opened_def)
  with held show ?thesis
    by (auto simp: book_held_def mem_core_def svc_ok_def opened_def intro: rtranclp.rtrancl_into_rtrancl)
qed (auto simp: opened_def)

lemma book_held_db: "book_held x b s \<Longrightarrow> svc_db s = None"
  by (simp add: book_held_def mem_core_def)

text \<open>The posting itself: one \<open>post\<close> step of the book.\<close>

lemma apply_mutation_book:
  assumes held: "book_held x b s" and acct: "accounts s a = Some acct"
    and tx: "TransactionId tx = tx_id (Suc (nextTransactionID s))" "TxAccountId tx = a"
    and mv: "movement a ps (acct_available acct) delta"
  obtains s2 where
    "apply_mutation x e meta action reason tx ps delta acct (s\<lparr>nextTransactionID := Suc (nextTransactionID s)\<rparr>) =
       (Inr (acct\<lparr>acct_available := acct_available acct + delta\<rparr>), s2)" "book_held x b s2"
proof -
  let ?s1 = "s\<lparr>nextTransactionID := Suc (nextTransactionID s)\<rparr>"
  have core: "mem_core x ?s1" using held by (simp add: book_held_def mem_core_def svc_ok_def)
  have bal: "isBalanced ps" using mv by (auto simp: movement_def isBalanced_def)
  obtain st n where ap: "apply_mutation x e meta action reason tx ps delta acct ?s1 =
      (Inr (acct\<lparr>acct_available := acct_available acct + delta\<rparr>),
       ?s1\<lparr>accounts := (accounts ?s1)(TxAccountId tx \<mapsto> acct\<lparr>acct_available := acct_available acct + delta\<rparr>),
         transactionsByAcct := (transactionsByAcct ?s1)
           (TxAccountId tx \<mapsto> transactions_of (TxAccountId tx) ?s1 @ [tx]),
         postingsByTx := (postingsByTx ?s1)(TransactionId tx \<mapsto> postings_of (TransactionId tx) ?s1 @ ps),
         svc_AuditStore := st, svc_nextAuditID := n\<rparr>)" (is "_ = (_, ?s2)")
    and ok: "svc_ok x (?s1\<lparr>svc_AuditStore := st\<rparr>)"
    by (rule apply_mutation_mem [OF core bal, of e meta action reason tx delta acct])
  have step: "book_step (book_of s) (book_of ?s2)"
    using book_step.post [of "book_of s" a acct _ ps delta tx, OF _ refl mv] acct tx
    by (simp add: book_of_def transactions_of_def postings_of_def)
  have "book_step\<^sup>*\<^sup>* b (book_of s)" using held by (simp add: book_held_def)
  then have "book_step\<^sup>*\<^sup>* b (book_of ?s2)" using step by (rule rtranclp.rtrancl_into_rtrancl)
  moreover have "mu ?s2" "mem_core x ?s2"
    using held ok by (simp_all add: book_held_def mem_core_def svc_ok_def)
  ultimately have "book_held x b ?s2" by (simp only: book_held_def)
  with ap show ?thesis by (rule that)
qed

lemma tx_post_book:
  assumes held: "book_held x b s" and acct: "accounts s a = Some acct"
    and tx: "TransactionId tx = tx_id (Suc (nextTransactionID s))" "TxAccountId tx = a"
    and mv: "movement a ps (acct_available acct) delta"
  shows "book_run x b (tx_post x e op meta action scope key h tx ps delta acct
           (s\<lparr>nextTransactionID := Suc (nextTransactionID s)\<rparr>))"
proof -
  obtain s2 where s2: "apply_mutation x e meta action [] tx ps delta acct (s\<lparr>nextTransactionID := Suc (nextTransactionID s)\<rparr>) =
       (Inr (acct\<lparr>acct_available := acct_available acct + delta\<rparr>), s2)" "book_held x b s2"
    by (rule apply_mutation_book [OF held acct tx mv])
  from s2(2) show ?thesis
    by (simp add: tx_post_def s2(1) Let_def store_tx_response_mem book_held_db and_then_def
        book_run_Returns book_held_reset book_held_cache)
qed

lemma tx_locked_book:
  assumes held: "book_held x b s"
    and k: "\<And>acct s'. book_held x b s' \<Longrightarrow> accounts s' a = Some acct \<Longrightarrow> book_run x b (k acct s')"
  shows "book_run x b (tx_locked e op ty meta a c scope key h k s)"
proof -
  have db: "svc_db s = None" using held by (rule book_held_db)
  obtain acct where "accounts (opened a c s) a = Some acct"
    by (cases "accounts s a") (simp_all add: opened_def)
  with held db k [of "opened a c s"] show ?thesis
    by (simp add: tx_locked_def tx_replay_mem mutationAccountState_mem book_run_Returns book_held_opened
        split: option.splits)
qed

text \<open>A call from outside: the mutex is free before and after.\<close>

definition book_call :: "ext \<Rightarrow> ledger \<Rightarrow> 'a outcome \<times> ledger \<Rightarrow> bool" where
  "book_call x s m \<longleftrightarrow> (\<exists>r. fst m = Returns r) \<and> mem_core x (snd m) \<and> \<not> mu (snd m) \<and>
     book_step\<^sup>*\<^sup>* (book_of s) (book_of (snd m))"

definition ledger_idle :: "ext \<Rightarrow> ledger \<Rightarrow> bool" where
  "ledger_idle x s \<longleftrightarrow> mem_core x s \<and> \<not> mu s"

lemma book_call_stay: "ledger_idle x s \<Longrightarrow> book_call x s (Returns r, s)"
  by (simp add: book_call_def ledger_idle_def)

lemma book_call_auditDenied:
  assumes "ledger_idle x s"
  shows "book_call x s (Returns r, ledger_auditDenied x e meta ot oi ac rs s)"
proof -
  have core: "mem_core x s" using assms by (simp add: ledger_idle_def)
  obtain st n where "ledger_auditDenied x e meta ot oi ac rs s = s\<lparr>svc_AuditStore := st, svc_nextAuditID := n\<rparr>"
    and "mem_core x (s\<lparr>svc_AuditStore := st, svc_nextAuditID := n\<rparr>)"
    using ledger_appendAudit_mem [OF core, of e meta ot oi ac json_empty json_empty ResultDenied rs]
    by (metis ledger_auditDenied_def snd_conv)
  then show ?thesis using assms by (simp add: book_call_def ledger_idle_def book_of_def)
qed

lemma with_lock_book:
  assumes idle: "ledger_idle x s"
    and body: "\<And>s'. s' = s\<lparr>mu := True\<rparr> \<Longrightarrow> book_held x (book_of s) s' \<Longrightarrow> book_run x (book_of s) (body s')"
  shows "book_call x s (with_lock body s)"
proof -
  have "book_held x (book_of s) (s\<lparr>mu := True\<rparr>)"
    using idle by (simp add: book_held_def ledger_idle_def mem_core_def svc_ok_def book_of_def)
  then have "book_run x (book_of s) (body (s\<lparr>mu := True\<rparr>))" by (rule body [OF refl])
  with idle show ?thesis
    by (auto simp: with_lock_def ledger_idle_def book_run_def book_call_def mem_core_def svc_ok_def book_of_def
        split: outcome.splits prod.splits)
qed

lemma ledger_guarded_book:
  assumes idle: "ledger_idle x s"
    and body: "\<And>s'. book_held x (book_of s) s' \<Longrightarrow> \<not> invalidAmount amt \<Longrightarrow> book_run x (book_of s) (body s')"
  shows "book_call x s (ledger_guarded refuse x e ctx action bad meta a amt body s)"
proof -
  have "book_call x s (with_lock (\<lambda>s.
            case eftLocked e a s of
              (None, s1) \<Rightarrow> (Returns (refuse meta RESULT_CODE_ERROR ''persistence unavailable''), s1)
            | (Some locked, s1) \<Rightarrow>
                if locked then
                  (Returns (refuse meta RESULT_CODE_DENIED ''eft account locked''),
                   ledger_auditDenied x e meta ''ledger_account'' a action ''eft account locked'' s1)
                else body s1) s)" if "\<not> invalidAmount amt"
    by (rule with_lock_book [OF idle])
       (simp add: eftLocked_mem book_held_db book_run_Returns book_held_auditDenied body that)
  then show ?thesis
    by (simp add: ledger_guarded_def book_call_auditDenied book_call_stay idle split: option.splits)
qed

lemma nextTxIDLocked_eq:
  "nextTxIDLocked s = (tx_id (Suc (nextTransactionID s)), s\<lparr>nextTransactionID := Suc (nextTransactionID s)\<rparr>)"
  by (simp add: nextTxIDLocked_def Let_def)

lemma new_tx_sel [simp]:
  "TransactionId (new_tx e t a ty n c au d) = t" "TxAccountId (new_tx e t a ty n c au d) = a"
  "TxAmount (new_tx e t a ty n c au d) = money n c" "TransactionType (new_tx e t a ty n c au d) = ty"
  by (simp_all add: new_tx_def)

lemma house_accounts [simp]:
  "house_account ''operator_liability''" "house_account ''device_escrow''"
  "house_account (''device_escrow:'' @ d)"
  by (simp_all add: house_account_def has_prefix_def)

lemma movement_in:
  "0 < sint amt \<Longrightarrow> house_account h \<Longrightarrow>
   movement a [posting e h ''debit'' amt c, posting e a ''credit'' amt c] avail amt"
  unfolding movement_def posting_def by blast

lemma movement_out:
  "0 < sint amt \<Longrightarrow> house_account h \<Longrightarrow> sint amt \<le> sint avail \<Longrightarrow>
   movement a [posting e a ''debit'' amt c, posting e h ''credit'' amt c] avail (- amt)"
  unfolding movement_def posting_def by blast

section \<open>Every call implements the specification\<close>

lemma Deposit_book: "ledger_idle x s \<Longrightarrow> book_call x s (Deposit x e ctx req s)"
  by (auto simp: Deposit_def deposit_post_def Let_def book_call_stay nextTxIDLocked_eq not_invalidAmount
      intro!: ledger_guarded_book tx_locked_book tx_post_book movement_in split: option.splits)

lemma TransferToAccount_book: "ledger_idle x s \<Longrightarrow> book_call x s (TransferToAccount x e ctx req s)"
  by (auto simp: TransferToAccount_def to_account_post_def Let_def book_call_stay nextTxIDLocked_eq not_invalidAmount
      intro!: ledger_guarded_book tx_locked_book tx_post_book movement_in split: option.splits)

lemma recordEFTFailure_book:
  assumes "book_held x b s"
  obtains s1 where "recordEFTFailure e a s = (True, s1)" "book_held x b s1"
  using recordEFTFailure_mem [of s e a] book_held_failure [OF assms, of e a] book_held_db [OF assms]
  by (cases "recordEFTFailure e a s") auto

lemma withdraw_denied_book:
  assumes "book_held x b s"
  shows "book_run x b (withdraw_denied x e meta a scope key h acct s)"
proof -
  obtain s1 where "recordEFTFailure e a s = (True, s1)" "book_held x b s1"
    by (rule recordEFTFailure_book [OF assms])
  then show ?thesis
    using book_held_auditDenied [of x b s1] book_held_auditDenied [THEN book_held_db, of x b s1]
    by (simp add: withdraw_denied_def Let_def store_tx_response_mem and_then_def book_run_Returns book_held_cache
        del: tx_cache_put.simps)
qed

lemma Withdraw_book: "ledger_idle x s \<Longrightarrow> book_call x s (Withdraw x e ctx req s)"
  by (auto simp: Withdraw_def withdraw_post_def Let_def book_call_stay nextTxIDLocked_eq not_invalidAmount
      intro!: ledger_guarded_book tx_locked_book tx_post_book movement_out withdraw_denied_book
      split: option.splits)

lemma book_held_device:
  "book_held x b s \<Longrightarrow> book_held x b (s\<lparr>toDeviceByIdempotency := c, nextTransferID := n\<rparr>)"
  "book_held x b s \<Longrightarrow> book_held x b (s\<lparr>toDeviceByIdempotency := c\<rparr>)"
  by (simp_all add: book_held_def mem_core_def svc_ok_def book_of_def)

lemma device_denied_book:
  assumes "book_held x b s"
  shows "book_run x b (device_denied x e meta a scope key h acct s)"
proof -
  obtain s1 where "recordEFTFailure e a s = (True, s1)" "book_held x b s1"
    by (rule recordEFTFailure_book [OF assms])
  then show ?thesis
    using book_held_auditDenied [of x b s1] book_held_auditDenied [THEN book_held_db, of x b s1]
    by (simp add: device_denied_def Let_def store_device_response_mem and_then_def book_run_Returns book_held_device)
qed

lemma transfer_plan_bounds:
  assumes "transfer_plan available requested = (n, status, reason)" "0 < sint available" "0 < sint requested"
  shows "0 < sint n" "sint n \<le> sint available" "sint n = min (sint available) (sint requested)"
  using assms by (auto simp: transfer_plan_def split: if_splits)

lemma device_transfer_book:
  assumes held: "book_held x b s" and acct: "accounts s (Req_AccountId r) = Some acct"
    and pos: "0 < sint (acct_available acct)" "0 < sint (AmountMinor (the (Req_Amount r)))"
  shows "book_run x b (device_transfer x e r scope key h acct s)"
proof -
  obtain n status reason where plan:
    "transfer_plan (acct_available acct) (AmountMinor (the (Req_Amount r))) = (n, status, reason)"
    by (metis prod_cases3)
  let ?a = "Req_AccountId r" and ?c = "Currency (the (Req_Amount r))"
  let ?tx = "new_tx e (tx_id (Suc (nextTransactionID s))) ?a LEDGER_TRANSACTION_TYPE_TRANSFER_TO_DEVICE n ?c
     [] ''transfer to device''"
  let ?ps = "[posting e ?a ''debit'' n ?c, posting e (''device_escrow:'' @ Req_DeviceId r) ''credit'' n ?c]"
  have "movement ?a ?ps (acct_available acct) (- n)"
    using transfer_plan_bounds [OF plan pos] by (intro movement_out house_accounts)
  then obtain s2 where ap: "apply_mutation x e (Req_Meta r) ''transfer_to_device'' reason ?tx ?ps (- n) acct
      (s\<lparr>nextTransactionID := Suc (nextTransactionID s)\<rparr>) =
       (Inr (acct\<lparr>acct_available := acct_available acct + (- n)\<rparr>), s2)" and s2: "book_held x b s2"
    using apply_mutation_book [OF held acct, of ?tx ?ps "- n" e "Req_Meta r" "''transfer_to_device''" reason]
    by auto
  have "book_held x b (s2\<lparr>nextTransferID := k\<rparr>)" for k
    using s2 by (simp add: book_held_def mem_core_def svc_ok_def book_of_def)
  then show ?thesis
    using s2 ap
    by (simp add: device_transfer_def plan nextTxIDLocked_eq nextTransferIDLocked_def Let_def
        store_device_response_mem and_then_def book_held_db book_run_Returns book_held_reset book_held_device)
qed

lemma TransferToDevice_book: "ledger_idle x s \<Longrightarrow> book_call x s (TransferToDevice x e ctx req s)"
proof -
  assume idle: "ledger_idle x s"
  have "book_run x b (device_locked x e r s')"
    if "book_held x b s'" "\<not> invalidAmount (Req_Amount r)" for b r s'
  proof -
    let ?a = "Req_AccountId r" and ?c = "Currency (the (Req_Amount r))"
    obtain acct where "accounts (opened ?a ?c s') ?a = Some acct"
      by (cases "accounts s' ?a") (simp_all add: opened_def)
    with that show ?thesis
      by (auto simp: device_locked_def Let_def device_replay_mem book_held_db mutationAccountState_mem
          book_run_Returns book_held_opened not_invalidAmount
          intro!: device_denied_book device_transfer_book split: option.splits)
  qed
  with idle show ?thesis
    by (auto simp: TransferToDevice_def book_call_stay intro!: ledger_guarded_book split: option.splits)
qed

lemma GetBalance_book: "ledger_idle x s \<Longrightarrow> book_call x s (GetBalance x e ctx req s)"
  by (auto simp: GetBalance_def book_call_stay book_call_auditDenied getBalanceFromDB_def book_held_db
      book_run_Returns Let_def split_beta intro!: with_lock_book split: option.splits)

lemma ListTransactions_book: "ledger_idle x s \<Longrightarrow> book_call x s (ListTransactions x e ctx req s)"
  by (auto simp: ListTransactions_def Let_def book_call_stay book_call_auditDenied book_held_db
      book_run_Returns split_beta intro!: with_lock_book split: option.splits)

section \<open>Runs of the service\<close>

datatype ledger_call =
    CallGetBalance "account_request option" | CallDeposit "deposit_request option"
  | CallWithdraw "amount_request option" | CallTransferToDevice "device_request option"
  | CallTransferToAccount "amount_request option" | CallListTransactions "list_request option"
  | CallSetIdempotencyTTL duration | CallSetEFTFraudPolicy int duration
  | CallSetDisableCache bool

text \<open>One call in its environment, under its token.\<close>

type_synonym ledger_input = "env \<times> auth_actor option \<times> ledger_call"

fun ledger_react :: "ext \<Rightarrow> ledger_input \<Rightarrow> ledger \<Rightarrow> ledger" where
  "ledger_react x (e, ctx, CallGetBalance r) s = snd (GetBalance x e ctx r s)"
| "ledger_react x (e, ctx, CallDeposit r) s = snd (Deposit x e ctx r s)"
| "ledger_react x (e, ctx, CallWithdraw r) s = snd (Withdraw x e ctx r s)"
| "ledger_react x (e, ctx, CallTransferToDevice r) s = snd (TransferToDevice x e ctx r s)"
| "ledger_react x (e, ctx, CallTransferToAccount r) s = snd (TransferToAccount x e ctx r s)"
| "ledger_react x (e, ctx, CallListTransactions r) s = snd (ListTransactions x e ctx r s)"
| "ledger_react x (e, ctx, CallSetIdempotencyTTL t) s = snd (SetIdempotencyTTL t s)"
| "ledger_react x (e, ctx, CallSetEFTFraudPolicy n t) s = snd (SetEFTFraudPolicy n t s)"
| "ledger_react x (e, ctx, CallSetDisableCache b) s = snd (SetDisableInMemoryIdempotencyCache b s)"

definition ledger_runs :: "ext \<Rightarrow> ledger_input list \<Rightarrow> ledger" where
  "ledger_runs x is = fold (ledger_react x) is (NewLedgerService None)"

lemma book_call_settings:
  assumes "ledger_idle x s"
  shows "book_call x s (SetIdempotencyTTL t s)" "book_call x s (SetEFTFraudPolicy n t s)"
    "book_call x s (SetDisableInMemoryIdempotencyCache b s)"
  using assms
  by (auto simp: SetIdempotencyTTL_def SetEFTFraudPolicy_def SetDisableInMemoryIdempotencyCache_def
      with_lock_def book_call_def ledger_idle_def mem_core_def svc_ok_def book_of_def)

lemmas ledger_calls = Deposit_book Withdraw_book TransferToDevice_book TransferToAccount_book
  GetBalance_book ListTransactions_book book_call_settings

lemma ledger_react_book:
  assumes "ledger_idle x s"
  shows "ledger_idle x (ledger_react x i s)" "book_step\<^sup>*\<^sup>* (book_of s) (book_of (ledger_react x i s))"
proof -
  obtain e ctx c where i: "i = (e, ctx, c)" by (cases i)
  have "\<exists>m :: unit outcome \<times> ledger. book_call x s m \<and> snd m = ledger_react x i s"
    using ledger_calls [OF assms] unfolding i book_call_def
    by (cases c) (force intro: exI [of _ "(Returns (), _)"])+
  then show "ledger_idle x (ledger_react x i s)" "book_step\<^sup>*\<^sup>* (book_of s) (book_of (ledger_react x i s))"
    by (auto simp: book_call_def ledger_idle_def)
qed

lemma NewLedgerService_idle: "ledger_idle x (NewLedgerService None)"
  by (simp add: ledger_idle_def mem_core_def svc_ok_def NewLedgerService_def)

interpretation ledger_sim: simulation "\<lambda>s. s = NewLedgerService None" "ledger_react x" "ledger_idle x"
    book_of book_step for x
  by unfold_locales (auto simp: NewLedgerService_idle ledger_react_book)

definition empty_book :: book where
  "empty_book = \<lparr>bk_accounts = Map.empty, bk_transactions = Map.empty, bk_postings = Map.empty, bk_count = 0\<rparr>"

lemma ledger_runs_book: "book_step\<^sup>*\<^sup>* empty_book (book_of (ledger_runs x is))"
  using ledger_sim.run_simulates [OF NewLedgerService_idle, of x "is"]
  by (simp add: ledger_runs_def empty_book_def book_of_def NewLedgerService_def)

end
