(* ===== verification/Samples.thy ===== *)
theory Samples
  imports Service
begin

text \<open>
  A concrete instance of the model's parameters, for the examples that show that the hypotheses of the
  theorems can hold: a database that stores what it is given, at the epoch, and an operator who calls.
\<close>

text \<open>A \<^verbatim>\<open>CHAR(3)\<close> column pads with blanks and refuses longer values.\<close>

definition char3 :: "string \<Rightarrow> string option" where
  "char3 s = (if length s \<le> 3 then Some (s @ replicate (3 - length s) (CHR '' '')) else None)"

definition demo_ext :: ext where
  "demo_ext = \<lparr>sha256 = (\<lambda>s. s), pg_timestamptz = (\<lambda>t. t), pg_text_less = (<), pg_jsonb = (\<lambda>s. s),
     json_valid = (\<lambda>_. True), pg_time_of_text = parse_rfc3339nano, pg_time_text = fmt_rfc3339nano, pg_char3 = char3\<rparr>"

definition demo_env :: env where
  "demo_env = \<lparr>env_now = 0, env_wall = 0, env_dbnow = 0, env_rand = None\<rparr>"

definition demo_meta :: "string \<Rightarrow> request_meta option" where
  "demo_meta key = Some \<lparr>RequestId = ''req-1'', IdempotencyKey = key,
     MetaActor = Some \<lparr>ActorId = ''op-1'', ActorType = ACTOR_TYPE_OPERATOR\<rparr>\<rparr>"

end
