(* ===== verification/LedgerProps.thy ===== *)
theory LedgerProps
  imports LedgerBook Samples
begin

text \<open>
  What holds of every book the specification reaches, hence of every run of the ledger without a
  database: double entry, balances that are exactly the postings and never negative short of an
  overflow, and identifiers that are never reused. Then the functional behaviour of the operations.
\<close>

section \<open>Postings of an account\<close>

definition posting_net :: "string \<Rightarrow> ledgerPosting \<Rightarrow> i64" where
  "posting_net a p =
     (if post_accountID p \<noteq> a then 0
      else if post_direction p = ''credit'' then post_amount p else - post_amount p)"

definition net_of :: "string \<Rightarrow> (string \<rightharpoonup> ledgerPosting list) \<Rightarrow> i64" where
  "net_of a m = (\<Sum>t \<in> dom m. sum_over (posting_net a) (the (m t)))"

definition balance_of :: "string \<Rightarrow> (string \<rightharpoonup> ledgerAccount) \<Rightarrow> i64" where
  "balance_of a m = (case m a of None \<Rightarrow> 0 | Some acct \<Rightarrow> acct_available acct)"

text \<open>The same as integers: what was credited and what was debited.\<close>

definition credited :: "string \<Rightarrow> ledgerPosting \<Rightarrow> int" where
  "credited a p = (if post_accountID p = a \<and> post_direction p = ''credit'' then sint (post_amount p) else 0)"

definition debited :: "string \<Rightarrow> ledgerPosting \<Rightarrow> int" where
  "debited a p = (if post_accountID p = a \<and> post_direction p \<noteq> ''credit'' then sint (post_amount p) else 0)"

definition total_of :: "(ledgerPosting \<Rightarrow> int) \<Rightarrow> (string \<rightharpoonup> ledgerPosting list) \<Rightarrow> int" where
  "total_of f m = (\<Sum>t \<in> dom m. sum_over f (the (m t)))"

section \<open>Invariant of the book\<close>

lemma tx_id_inj [simp]: "tx_id m = tx_id n \<longleftrightarrow> m = n"
  by (simp add: tx_id_def)

definition book_ids :: "book \<Rightarrow> bool" where
  "book_ids b \<longleftrightarrow> dom (bk_postings b) = tx_id ` {1..bk_count b}"

lemma book_ids_fresh: "book_ids b \<Longrightarrow> bk_postings b (tx_id (Suc (bk_count b))) = None"
proof -
  assume "book_ids b"
  moreover have "tx_id (Suc (bk_count b)) \<notin> tx_id ` {1..bk_count b}" by auto
  ultimately show ?thesis by (metis book_ids_def domIff)
qed

lemma book_ids_finite: "book_ids b \<Longrightarrow> finite (dom (bk_postings b))"
  by (simp add: book_ids_def)

lemma book_ids_step: "book_step b b' \<Longrightarrow> book_ids b \<Longrightarrow> book_ids b'"
  by (induction rule: book_step.induct)
     (auto simp: book_ids_def atLeastAtMostSuc_conv split: if_splits)

lemma sum_upd_fresh:
  assumes "m k = None" "finite (dom m)"
  shows "(\<Sum>t \<in> dom (m(k \<mapsto> v)). f (the ((m(k \<mapsto> v)) t))) = f v + (\<Sum>t \<in> dom m. f (the (m t)))"
proof -
  have "k \<notin> dom m" using assms(1) by auto
  then have "(\<Sum>t \<in> dom m. f (the ((m(k \<mapsto> v)) t))) = (\<Sum>t \<in> dom m. f (the (m t)))"
    by (intro sum.cong) auto
  with \<open>k \<notin> dom m\<close> assms(2) show ?thesis by simp
qed

lemma net_of_fresh:
  "m k = None \<Longrightarrow> finite (dom m) \<Longrightarrow> net_of a (m(k \<mapsto> ps)) = sum_over (posting_net a) ps + net_of a m"
  unfolding net_of_def by (rule sum_upd_fresh)

lemma total_of_fresh:
  "m k = None \<Longrightarrow> finite (dom m) \<Longrightarrow> total_of g (m(k \<mapsto> ps)) = sum_over g ps + total_of g m"
  unfolding total_of_def by (rule sum_upd_fresh)

lemma balance_of_open [simp]: "m a = None \<Longrightarrow> balance_of b (m(a \<mapsto> new_account a c)) = balance_of b m"
  by (simp add: balance_of_def new_account_def)

definition book_double_entry :: "book \<Rightarrow> bool" where
  "book_double_entry b \<longleftrightarrow> (\<forall>a. \<not> house_account a \<longrightarrow> balance_of a (bk_accounts b) = net_of a (bk_postings b))"

lemma movement_net:
  assumes "movement a ps avail delta" "\<not> house_account a'"
  shows "sum_over (posting_net a') ps = (if a' = a then delta else 0)"
  using assms by (auto simp: movement_def posting_net_def)

lemma book_double_entry_step:
  "book_step b b' \<Longrightarrow> book_ids b \<Longrightarrow> book_double_entry b \<Longrightarrow> book_double_entry b'"
proof (induction rule: book_step.induct)
  case (open_account b a c)
  then show ?case by (simp add: book_double_entry_def)
next
  case (post b a acct tid ps delta tx)
  have "net_of a' ((bk_postings b)(tid \<mapsto> ps)) = sum_over (posting_net a') ps + net_of a' (bk_postings b)" for a'
    using post.prems book_ids_fresh [of b] book_ids_finite [of b] post.hyps(2) by (simp add: net_of_fresh)
  with post show ?case
    using book_ids_fresh [of b]
    by (auto simp: book_double_entry_def balance_of_def movement_net split: option.splits)
qed

definition book_balanced :: "book \<Rightarrow> bool" where
  "book_balanced b \<longleftrightarrow> (\<forall>t ps. bk_postings b t = Some ps \<longrightarrow> isBalanced ps)"

lemma book_balanced_step: "book_step b b' \<Longrightarrow> book_ids b \<Longrightarrow> book_balanced b \<Longrightarrow> book_balanced b'"
proof (induction rule: book_step.induct)
  case (post b a acct tid ps delta tx)
  then show ?case
    using book_ids_fresh [of b] by (auto simp: book_balanced_def movement_def isBalanced_def)
qed (simp add: book_balanced_def)

section \<open>Without overflow\<close>

definition book_exact :: "book \<Rightarrow> bool" where
  "book_exact b \<longleftrightarrow> (\<forall>a. \<not> house_account a \<longrightarrow> total_of (credited a) (bk_postings b) \<le> i64_max \<longrightarrow>
     0 \<le> sint (balance_of a (bk_accounts b)) \<and>
     sint (balance_of a (bk_accounts b)) =
       total_of (credited a) (bk_postings b) - total_of (debited a) (bk_postings b) \<and>
     0 \<le> total_of (debited a) (bk_postings b))"

lemma book_exact_step: "book_step b b' \<Longrightarrow> book_ids b \<Longrightarrow> book_exact b \<Longrightarrow> book_exact b'"
proof (induction rule: book_step.induct)
  case (open_account b a c)
  then show ?case unfolding book_exact_def by auto
next
  case (post b a acct tid ps delta tx)
  have tot: "total_of g ((bk_postings b)(tid \<mapsto> ps)) = sum_over g ps + total_of g (bk_postings b)" for g
    using post.prems book_ids_fresh [of b] book_ids_finite [of b] post.hyps(2) by (simp add: total_of_fresh)
  have bal: "balance_of a (bk_accounts b) = acct_available acct" using post.hyps(1) by (simp add: balance_of_def)
  have fresh: "bk_postings b tid = None" using post book_ids_fresh by simp
  show ?case
    unfolding book_exact_def
  proof (intro allI impI)
    fix a'
    let ?b' = "b\<lparr>bk_accounts := (bk_accounts b)(a \<mapsto> acct\<lparr>acct_available := acct_available acct + delta\<rparr>),
       bk_transactions := (bk_transactions b)
         (a \<mapsto> (case bk_transactions b a of None \<Rightarrow> [] | Some ts \<Rightarrow> ts) @ [tx]),
       bk_postings := (bk_postings b)(tid \<mapsto> (case bk_postings b tid of None \<Rightarrow> [] | Some qs \<Rightarrow> qs) @ ps),
       bk_count := Suc (bk_count b)\<rparr>"
    assume a': "\<not> house_account a'" "total_of (credited a') (bk_postings ?b') \<le> i64_max"
    have cr: "0 \<le> sum_over (credited a') ps" "0 \<le> sum_over (debited a') ps"
      and zero: "a' \<noteq> a \<Longrightarrow> sum_over (credited a') ps = 0 \<and> sum_over (debited a') ps = 0"
      using post.hyps(3) a'(1) by (auto simp: movement_def credited_def debited_def)
    have old: "0 \<le> sint (balance_of a' (bk_accounts b))"
        "sint (balance_of a' (bk_accounts b)) =
          total_of (credited a') (bk_postings b) - total_of (debited a') (bk_postings b)"
        "0 \<le> total_of (debited a') (bk_postings b)"
      using post.prems(2) a' cr tot [of "credited a'"] fresh unfolding book_exact_def by auto
    have new: "0 \<le> sint (acct_available acct + delta) \<and>
        sint (acct_available acct + delta) = sint (acct_available acct)
          + sum_over (credited a) ps - sum_over (debited a) ps" if "a' = a"
      using post.hyps(3) old a' that tot [of "credited a'"] bal fresh
      by (auto simp: movement_def credited_def debited_def sint_i64_add sint_i64_sub_covered)
    show "0 \<le> sint (balance_of a' (bk_accounts ?b')) \<and>
      sint (balance_of a' (bk_accounts ?b')) =
        total_of (credited a') (bk_postings ?b') - total_of (debited a') (bk_postings ?b') \<and>
      0 \<le> total_of (debited a') (bk_postings ?b')"
      using new old tot cr zero bal fresh by (cases "a' = a") (auto simp: balance_of_def)
  qed
qed

section \<open>Reachable books\<close>

lemma book_reachable:
  assumes "book_step\<^sup>*\<^sup>* empty_book b"
  shows "book_ids b \<and> book_double_entry b \<and> book_balanced b \<and> book_exact b"
  using assms
proof (induction rule: rtranclp_induct)
  case base
  show ?case
    by (simp add: empty_book_def book_ids_def book_double_entry_def book_balanced_def book_exact_def
        balance_of_def net_of_def total_of_def)
next
  case (step b c)
  then show ?case
    using book_ids_step book_double_entry_step book_balanced_step book_exact_step by blast
qed

lemmas ledger_reachable = book_reachable [OF ledger_runs_book]

section \<open>The operations, exactly\<close>

definition eft_until :: "string \<Rightarrow> ledger \<Rightarrow> time" where
  "eft_until a s = (case eftFraudLockedUntil s a of None \<Rightarrow> zero_time | Some t \<Rightarrow> t)"

text \<open>The guards of a mutation, all passed.\<close>

definition admitted :: "env \<Rightarrow> auth_actor option \<Rightarrow> request_meta option \<Rightarrow> string \<Rightarrow> money option \<Rightarrow> ledger \<Rightarrow> bool" where
  "admitted e ctx meta a amt s \<longleftrightarrow>
     a \<noteq> [] \<and> ledger_authorize ctx meta a = None \<and> \<not> invalidAmount amt \<and> idempotency meta \<noteq> [] \<and>
     eft_until a s \<le> env_now e"

lemma ledger_guarded_mem:
  assumes "ledger_idle x s" "admitted e ctx meta a amt s"
  shows "ledger_guarded refuse x e ctx action bad meta a amt body s =
     (case body (s\<lparr>mu := True\<rparr>) of (Blocks, s') \<Rightarrow> (Blocks, s') | (r, s') \<Rightarrow> (r, s'\<lparr>mu := False\<rparr>))"
  using assms
  by (simp add: ledger_guarded_def admitted_def with_lock_def ledger_idle_def mem_core_def eftLocked_mem eft_until_def)

definition fits_currency :: "string \<Rightarrow> string \<Rightarrow> ledger \<Rightarrow> bool" where
  "fits_currency a c s \<longleftrightarrow> (case accounts s a of None \<Rightarrow> True | Some acct \<Rightarrow> acct_currency acct = c)"

definition account_at :: "string \<Rightarrow> string \<Rightarrow> ledger \<Rightarrow> ledgerAccount" where
  "account_at a c s = (case accounts s a of None \<Rightarrow> new_account a c | Some acct \<Rightarrow> acct)"

lemma account_at_facts:
  "acct_available (account_at a c s) = balance_of a (accounts s)"
  "fits_currency a c s \<Longrightarrow> acct_currency (account_at a c s) = c"
  "accounts (opened a c s) = (accounts s)(a \<mapsto> account_at a c s)"
  by (auto simp: account_at_def balance_of_def fits_currency_def opened_def new_account_def split: option.splits)

lemma tx_locked_mem:
  assumes "svc_db s = None" "tx_cache op s key = None" "fits_currency a c s"
  shows "tx_locked e op ty meta a c scope key h k s = k (account_at a c s) (opened a c s)"
  using assms account_at_facts [where a = a and c = c and s = s]
  by (simp add: tx_locked_def tx_replay_mem mutationAccountState_mem)

text \<open>The state after a mutation, except for the audit trail, the cache and the transfer counter.\<close>

definition mutated :: "ledger_transaction \<Rightarrow> ledgerPosting list \<Rightarrow> ledgerAccount \<Rightarrow> ledger \<Rightarrow> ledger" where
  "mutated tx ps acct s =
     (let a = TxAccountId tx in
      s\<lparr>nextTransactionID := Suc (nextTransactionID s), accounts := (accounts s)(a \<mapsto> acct),
        transactionsByAcct := (transactionsByAcct s)(a \<mapsto> transactions_of a s @ [tx]),
        postingsByTx := (postingsByTx s)(TransactionId tx \<mapsto> postings_of (TransactionId tx) s @ ps),
        eftFraudFailures := (eftFraudFailures s)(a := None),
        eftFraudLockedUntil := (eftFraudLockedUntil s)(a := None)\<rparr>)"

definition ok_response :: "env \<Rightarrow> request_meta option \<Rightarrow> ledger_transaction \<Rightarrow> ledgerAccount \<Rightarrow> tx_response" where
  "ok_response e meta tx acct =
     \<lparr>RespMeta = responseMeta e meta RESULT_CODE_OK [], RespTransaction = Some tx,
      RespAvailable = Some (money (acct_available acct) (acct_currency acct))\<rparr>"

lemma tx_post_mem:
  assumes core: "mem_core x s" and "TxAccountId tx \<noteq> []" and bal: "isBalanced ps"
    and acct1: "acct1 = acct\<lparr>acct_available := acct_available acct + delta\<rparr>"
  obtains st n where
    "tx_post x e op meta action scope key h tx ps delta acct (s\<lparr>nextTransactionID := Suc (nextTransactionID s)\<rparr>) =
       (Returns (ok_response e meta tx acct1),
        tx_cache_put op key (ok_response e meta tx acct1)
          ((mutated tx ps acct1 s)\<lparr>svc_AuditStore := st, svc_nextAuditID := n\<rparr>))"
proof -
  let ?s1 = "s\<lparr>nextTransactionID := Suc (nextTransactionID s)\<rparr>" and ?a = "TxAccountId tx"
  have core1: "mem_core x ?s1" using core by (simp add: mem_core_def svc_ok_def)
  obtain st n where ap: "apply_mutation x e meta action [] tx ps delta acct ?s1 =
      (Inr (acct\<lparr>acct_available := acct_available acct + delta\<rparr>),
       ?s1\<lparr>accounts := (accounts ?s1)(?a \<mapsto> acct\<lparr>acct_available := acct_available acct + delta\<rparr>),
         transactionsByAcct := (transactionsByAcct ?s1)(?a \<mapsto> transactions_of ?a ?s1 @ [tx]),
         postingsByTx := (postingsByTx ?s1)(TransactionId tx \<mapsto> postings_of (TransactionId tx) ?s1 @ ps),
         svc_AuditStore := st, svc_nextAuditID := n\<rparr>)"
    by (rule apply_mutation_mem [OF core1 bal, of e meta action "[]" tx delta acct])
  show ?thesis
    using that [of n st] core assms(2)
    by (cases op) (simp_all add: tx_post_def ap Let_def store_tx_response_mem mem_core_def and_then_def
        resetEFTFailures_def mutated_def ok_response_def acct1 transactions_of_def postings_of_def)
qed

text \<open>What an accepted mutation leaves, seen from outside.\<close>

definition posted :: "string \<Rightarrow> string \<Rightarrow> i64 \<Rightarrow> ledger_transaction \<Rightarrow> ledgerPosting list \<Rightarrow> ledger \<Rightarrow> ledger \<Rightarrow> bool" where
  "posted a c delta tx ps s s' \<longleftrightarrow>
     accounts s' = (accounts s)(a \<mapsto> (account_at a c s)\<lparr>acct_available := balance_of a (accounts s) + delta\<rparr>) \<and>
     transactionsByAcct s' = (transactionsByAcct s)(a \<mapsto> transactions_of a s @ [tx]) \<and>
     postingsByTx s' = (postingsByTx s)(TransactionId tx \<mapsto> postings_of (TransactionId tx) s @ ps) \<and>
     nextTransactionID s' = Suc (nextTransactionID s) \<and> TransactionId tx = tx_id (Suc (nextTransactionID s)) \<and>
     eftFraudFailures s' = (eftFraudFailures s)(a := None) \<and>
     eftFraudLockedUntil s' = (eftFraudLockedUntil s)(a := None) \<and> \<not> mu s' \<and> svc_db s' = None"

lemma posted_mutated:
  assumes "mem_core x s" "TxAccountId tx = a" "TransactionId tx = tx_id (Suc (nextTransactionID s))"
    and "acct1 = (account_at a c s)\<lparr>acct_available := balance_of a (accounts s) + delta\<rparr>"
  shows "posted a c delta tx ps s
    ((tx_cache_put op key r ((mutated tx ps acct1 (opened a c (s\<lparr>mu := True\<rparr>)))
        \<lparr>svc_AuditStore := st, svc_nextAuditID := n\<rparr>))\<lparr>mu := False\<rparr>)"
  using assms
  by (cases op) (auto simp: posted_def mutated_def Let_def account_at_facts(3) opened_def mem_core_def
      transactions_of_def postings_of_def account_at_def split: option.splits)

lemma account_at_mu [simp]:
  "account_at a c (s\<lparr>mu := b\<rparr>) = account_at a c s" "fits_currency a c (s\<lparr>mu := b\<rparr>) = fits_currency a c s"
  "tx_cache op (s\<lparr>mu := b\<rparr>) = tx_cache op s" "nextTransactionID (opened a c s) = nextTransactionID s"
  "mem_core x (s\<lparr>mu := b\<rparr>) = mem_core x s" "mem_core x (opened a c s) = mem_core x s"
  by (simp_all add: account_at_def fits_currency_def opened_def mem_core_def svc_ok_def)
     (cases op; simp)

lemma tx_cache_put_same [simp]: "tx_cache op (tx_cache_put op key r s) key = Some r"
  by (cases op) simp_all

text \<open>The common proof of an accepted Deposit, Withdraw or TransferToAccount.\<close>

lemma accepted_mutation:
  assumes idle: "ledger_idle x s" and adm: "admitted e ctx meta a amt s"
    and cache: "tx_cache op s key = None" and cur: "fits_currency a c s"
    and tx: "TxAccountId tx = a" "TransactionId tx = tx_id (Suc (nextTransactionID s))" and bal: "isBalanced ps"
    and k: "k (account_at a c s) (opened a c (s\<lparr>mu := True\<rparr>)) =
       tx_post x e op meta action scope key h tx ps delta (account_at a c s)
         ((opened a c (s\<lparr>mu := True\<rparr>))\<lparr>nextTransactionID := Suc (nextTransactionID s)\<rparr>)"
  shows "\<exists>s'. ledger_guarded refuse x e ctx action bad meta a amt (tx_locked e op ty meta a c scope key h k) s =
      (Returns (ok_response e meta tx ((account_at a c s)\<lparr>acct_available := balance_of a (accounts s) + delta\<rparr>)), s') \<and>
    posted a c delta tx ps s s' \<and>
    tx_cache op s' key =
      Some (ok_response e meta tx ((account_at a c s)\<lparr>acct_available := balance_of a (accounts s) + delta\<rparr>))"
proof -
  let ?s = "s\<lparr>mu := True\<rparr>" and ?acct1 = "(account_at a c s)\<lparr>acct_available := balance_of a (accounts s) + delta\<rparr>"
  have core: "mem_core x s" and db: "svc_db s = None" and ne: "TxAccountId tx \<noteq> []"
    using idle adm tx by (auto simp: ledger_idle_def mem_core_def admitted_def)
  have core1: "mem_core x (opened a c ?s)" using core by simp
  obtain st n where tp: "tx_post x e op meta action scope key h tx ps delta (account_at a c s)
      ((opened a c ?s)\<lparr>nextTransactionID := Suc (nextTransactionID (opened a c ?s))\<rparr>) =
      (Returns (ok_response e meta tx ?acct1), tx_cache_put op key (ok_response e meta tx ?acct1)
         ((mutated tx ps ?acct1 (opened a c ?s))\<lparr>svc_AuditStore := st, svc_nextAuditID := n\<rparr>))"
    by (rule tx_post_mem [OF core1 ne bal, of ?acct1 "account_at a c s"]) (simp add: account_at_facts)
  have "tx_locked e op ty meta a c scope key h k ?s = k (account_at a c s) (opened a c ?s)"
    using tx_locked_mem [of ?s op key a c] db cache cur by simp
  then have eq: "ledger_guarded refuse x e ctx action bad meta a amt (tx_locked e op ty meta a c scope key h k) s =
      (Returns (ok_response e meta tx ?acct1), (tx_cache_put op key (ok_response e meta tx ?acct1)
         ((mutated tx ps ?acct1 (opened a c ?s))\<lparr>svc_AuditStore := st, svc_nextAuditID := n\<rparr>))\<lparr>mu := False\<rparr>)"
    using tp k by (simp add: ledger_guarded_mem [OF idle adm] del: tx_cache_put.simps)
  have "posted a c delta tx ps s ((tx_cache_put op key (ok_response e meta tx ?acct1)
      ((mutated tx ps ?acct1 (opened a c ?s))\<lparr>svc_AuditStore := st, svc_nextAuditID := n\<rparr>))\<lparr>mu := False\<rparr>)"
    using core tx refl by (rule posted_mutated)
  then show ?thesis by (simp add: eq del: tx_cache_put.simps)
qed

lemma Deposit_fresh:
  fixes r :: deposit_request
  assumes "ledger_idle x s" "admitted e ctx (Req_Meta r) (Req_AccountId r) (Some (money n c)) s"
    and "Req_Amount r = Some (money n c)" "fits_currency (Req_AccountId r) c s"
    and "depositByIdempotency s (Req_AccountId r @ ''|deposit|'' @ idempotency (Req_Meta r)) = None"
  shows "\<exists>tx resp s'. Deposit x e ctx (Some r) s = (Returns resp, s') \<and>
    ResultCode (RespMeta resp) = RESULT_CODE_OK \<and>
    RespAvailable resp = Some (money (balance_of (Req_AccountId r) (accounts s) + n) c) \<and>
    posted (Req_AccountId r) c n tx
      [posting e ''operator_liability'' ''debit'' n c, posting e (Req_AccountId r) ''credit'' n c] s s' \<and>
    depositByIdempotency s' (Req_AccountId r @ ''|deposit|'' @ idempotency (Req_Meta r)) = Some resp"
proof -
  let ?a = "Req_AccountId r" and ?m = "Req_Meta r"
  let ?tx = "new_tx e (tx_id (Suc (nextTransactionID s))) ?a LEDGER_TRANSACTION_TYPE_DEPOSIT n c
    (Req_AuthorizationId r) ''deposit accepted''"
  let ?k = "?a @ ''|deposit|'' @ idempotency ?m"
  let ?h = "hashRequest x [idemScope ?a ''deposit'', c, itoa (sint n), Req_AuthorizationId r]"
  have cache: "tx_cache OpDeposit s ?k = None" using assms(5) by simp
  have k: "deposit_post x e r (idemScope ?a ''deposit'') ?k ?h (account_at ?a c s) (opened ?a c (s\<lparr>mu := True\<rparr>)) =
      tx_post x e OpDeposit ?m ''deposit'' (idemScope ?a ''deposit'') ?k ?h ?tx
        [posting e ''operator_liability'' ''debit'' n c, posting e ?a ''credit'' n c] n (account_at ?a c s)
        ((opened ?a c (s\<lparr>mu := True\<rparr>))\<lparr>nextTransactionID := Suc (nextTransactionID s)\<rparr>)"
    by (simp add: deposit_post_def Let_def nextTxIDLocked_eq assms(3))
  have "?a \<noteq> []" using assms(2) by (simp add: admitted_def)
  moreover note accepted_mutation [where k = "deposit_post x e r (idemScope ?a ''deposit'') ?k ?h"
      and refuse = "tx_refusal e" and ty = LEDGER_TRANSACTION_TYPE_DEPOSIT
      and bad = "''amount must be > 0 and currency provided''", OF assms(1,2) cache assms(4) new_tx_sel(2,1) posting_pair_balanced k]
  ultimately show ?thesis
    using assms(3) account_at_facts(2) [OF assms(4)]
    by (auto simp: Deposit_def Let_def ok_response_def intro!: exI [of _ ?tx])
qed

section \<open>A small run\<close>

definition demo_deposit :: "i64 \<Rightarrow> deposit_request" where
  "demo_deposit n = \<lparr>Req_Meta = demo_meta ''k1'', Req_AccountId = ''acct-1'', Req_Amount = Some (money n ''USD''),
     Req_AuthorizationId = ''auth-1''\<rparr>"

abbreviation demo_start :: ledger where "demo_start \<equiv> NewLedgerService None"

lemma demo_admitted:
  "eftFraudLockedUntil s ''acct-1'' = None \<Longrightarrow> amt = Some (money n ''USD'') \<Longrightarrow> 0 < sint n \<Longrightarrow>
   admitted demo_env None (demo_meta ''k1'') ''acct-1'' amt s"
  by (simp add: admitted_def ledger_authorize_def authorize_owner_def resolveActor_def demo_meta_def
      operator_or_service_def not_invalidAmount idempotency_def eft_until_def demo_env_def zero_time_def)

lemma demo_start_facts [simp]:
  "eftFraudLockedUntil demo_start = Map.empty" "accounts demo_start = Map.empty"
  "depositByIdempotency demo_start = Map.empty" "postingsByTx demo_start = Map.empty"
  "withdrawByIdempotency demo_start = Map.empty" "fits_currency a c demo_start"
  by (simp_all add: NewLedgerService_def fits_currency_def)

lemma demo_deposit_sel [simp]:
  "Req_Meta (demo_deposit n) = demo_meta ''k1''" "Req_AccountId (demo_deposit n) = ''acct-1''"
  "Req_Amount (demo_deposit n) = Some (money n ''USD'')"
  by (simp_all add: demo_deposit_def)

lemma demo_deposited:
  "\<exists>tx resp s'. Deposit demo_ext demo_env None (Some (demo_deposit 500)) demo_start = (Returns resp, s') \<and>
    ResultCode (RespMeta resp) = RESULT_CODE_OK \<and>
    posted ''acct-1'' ''USD'' 500 tx
      [posting demo_env ''operator_liability'' ''debit'' 500 ''USD'', posting demo_env ''acct-1'' ''credit'' 500 ''USD'']
      demo_start s'"
  using Deposit_fresh [OF NewLedgerService_idle, of demo_env None "demo_deposit 500" 500 "''USD''" demo_ext]
  by (auto simp: demo_admitted)

definition demo_run :: "ledger_input list" where
  "demo_run = [(demo_env, None, CallDeposit (Some (demo_deposit 500)))]"

lemma demo_run_posted:
  "\<exists>tx. posted ''acct-1'' ''USD'' 500 tx
      [posting demo_env ''operator_liability'' ''debit'' 500 ''USD'', posting demo_env ''acct-1'' ''credit'' 500 ''USD'']
      demo_start (ledger_runs demo_ext demo_run)"
  using demo_deposited by (auto simp: ledger_runs_def demo_run_def)

lemma acct_1_not_house [simp]: "\<not> house_account ''acct-1''"
  by (simp add: house_account_def has_prefix_def)

lemma demo_run_total: "total_of (credited ''acct-1'') (postingsByTx (ledger_runs demo_ext demo_run)) = 500"
  using demo_run_posted by (auto simp: posted_def postings_of_def total_of_def credited_def posting_def)

section \<open>Properties\<close>

text \<open>
  C4: double entry. After any sequence of calls on a ledger without a database, the available balance
  of every account that is not one of the house's own equals the net of its postings (credits
  minus debits, in 64-bit arithmetic).
\<close>

theorem ledger_double_entry:
  assumes "\<not> house_account a"
  shows "balance_of a (accounts (ledger_runs x is)) = net_of a (postingsByTx (ledger_runs x is))"
  using ledger_reachable [of x "is"] assms by (simp add: book_double_entry_def book_of_def)

theorem ledger_double_entry_witness:
  "balance_of ''acct-1'' (accounts (ledger_runs demo_ext demo_run)) = 500 \<and>
   net_of ''acct-1'' (postingsByTx (ledger_runs demo_ext demo_run)) = 500"
proof -
  have "balance_of ''acct-1'' (accounts (ledger_runs demo_ext demo_run)) = 500"
    using demo_run_posted by (auto simp: posted_def balance_of_def)
  then show ?thesis using ledger_double_entry [of "''acct-1''" demo_ext demo_run] by simp
qed

text \<open>
  C5: short of an overflow a balance is the exact integer sum of what was posted and never negative.
  If everything ever credited to a customer's account adds up to a 64-bit integer, its
  balance is credits minus debits as integers, and at least 0: no withdrawal or transfer takes
  more than the account holds.
\<close>

theorem ledger_balance_exact:
  assumes "\<not> house_account a"
    and "total_of (credited a) (postingsByTx (ledger_runs x is)) \<le> i64_max"
  shows "0 \<le> sint (balance_of a (accounts (ledger_runs x is))) \<and>
    sint (balance_of a (accounts (ledger_runs x is))) =
      total_of (credited a) (postingsByTx (ledger_runs x is)) -
      total_of (debited a) (postingsByTx (ledger_runs x is))"
  using ledger_reachable [of x "is"] assms by (auto simp: book_exact_def book_of_def)

theorem ledger_balance_exact_witness:
  "0 \<le> sint (balance_of ''acct-1'' (accounts (ledger_runs demo_ext demo_run)))"
  using ledger_balance_exact [of "''acct-1''" demo_ext demo_run] demo_run_total by simp


text \<open>
  An admitted deposit under a fresh idempotency key answers OK with the new balance, posts a
  debit of the operator's liability and a credit of the account under a new transaction number,
  leaves every other account alone, clears the account's lockout and stores the answer under the
  key.
\<close>

theorem deposit_accepted:
  fixes r :: deposit_request
  assumes "ledger_idle x s" "admitted e ctx (Req_Meta r) (Req_AccountId r) (Some (money n c)) s"
    and "Req_Amount r = Some (money n c)" "fits_currency (Req_AccountId r) c s"
    and "depositByIdempotency s (Req_AccountId r @ ''|deposit|'' @ idempotency (Req_Meta r)) = None"
  shows "\<exists>tx resp s'. Deposit x e ctx (Some r) s = (Returns resp, s') \<and>
    ResultCode (RespMeta resp) = RESULT_CODE_OK \<and>
    RespAvailable resp = Some (money (balance_of (Req_AccountId r) (accounts s) + n) c) \<and>
    posted (Req_AccountId r) c n tx
      [posting e ''operator_liability'' ''debit'' n c, posting e (Req_AccountId r) ''credit'' n c] s s' \<and>
    depositByIdempotency s' (Req_AccountId r @ ''|deposit|'' @ idempotency (Req_Meta r)) = Some resp"
  using assms by (rule Deposit_fresh)

theorem deposit_accepted_witness:
  "\<exists>tx resp s'. Deposit demo_ext demo_env None (Some (demo_deposit 500)) demo_start = (Returns resp, s') \<and>
    RespAvailable resp = Some (money 500 ''USD'') \<and> balance_of ''acct-1'' (accounts s') = 500"
  using deposit_accepted [OF NewLedgerService_idle, of demo_env None "demo_deposit 500" 500 "''USD''" demo_ext]
  by (auto simp: demo_admitted posted_def balance_of_def)

end
