(* ===== verification/LedgerOps.thy ===== *)
theory LedgerOps
  imports LedgerProps
begin

text \<open>
  More of what the single operations do without a database: refusals, retries under one idempotency
  key, the EFT lockout and the roll-back of a mutation that cannot be audited.
\<close>

section \<open>The idempotency caches\<close>

definition caches ::
    "ledger \<Rightarrow> (string \<rightharpoonup> tx_response) \<times> (string \<rightharpoonup> tx_response) \<times> (string \<rightharpoonup> tx_response) \<times> (string \<rightharpoonup> device_response)" where
  "caches s = (depositByIdempotency s, withdrawByIdempotency s, toAccountByIdempotency s, toDeviceByIdempotency s)"

text \<open>\<open>caches_grow s s'\<close>: no cached answer of \<open>s\<close> is changed or lost in \<open>s'\<close>.\<close>

definition caches_grow :: "ledger \<Rightarrow> ledger \<Rightarrow> bool" where
  "caches_grow s s' \<longleftrightarrow>
     depositByIdempotency s \<subseteq>\<^sub>m depositByIdempotency s' \<and> withdrawByIdempotency s \<subseteq>\<^sub>m withdrawByIdempotency s' \<and>
     toAccountByIdempotency s \<subseteq>\<^sub>m toAccountByIdempotency s' \<and> toDeviceByIdempotency s \<subseteq>\<^sub>m toDeviceByIdempotency s'"

lemma caches_grow_refl [simp]: "caches_grow s s"
  by (simp add: caches_grow_def)

lemma caches_grow_trans: "caches_grow s t \<Longrightarrow> caches_grow t u \<Longrightarrow> caches_grow s u"
  by (auto simp: caches_grow_def intro: map_le_trans)

lemma caches_same: "caches t = caches s \<Longrightarrow> caches_grow s t"
  by (simp add: caches_def caches_grow_def)

lemma caches_frame [simp]:
  "caches (s\<lparr>mu := b\<rparr>) = caches s" "caches (s\<lparr>accounts := ac\<rparr>) = caches s"
  "caches (s\<lparr>nextTransactionID := n\<rparr>) = caches s" "caches (s\<lparr>nextTransferID := n\<rparr>) = caches s"
  "caches (s\<lparr>svc_db := d\<rparr>) = caches s" "caches (s\<lparr>postingsByTx := p\<rparr>) = caches s"
  "caches (s\<lparr>transactionsByAcct := tr\<rparr>) = caches s" "caches (s\<lparr>eftFraudFailures := f\<rparr>) = caches s"
  "caches (s\<lparr>eftFraudLockedUntil := l\<rparr>) = caches s" "caches (s\<lparr>svc_AuditStore := st\<rparr>) = caches s"
  "caches (s\<lparr>svc_nextAuditID := n\<rparr>) = caches s" "caches (s\<lparr>idempotencyTTL := d1\<rparr>) = caches s"
  "caches (s\<lparr>eftFraudMaxFailures := i\<rparr>) = caches s" "caches (s\<lparr>eftFraudLockoutTTL := d1\<rparr>) = caches s"
  "caches (s\<lparr>disableInMemIdemCache := b\<rparr>) = caches s"
  by (simp_all add: caches_def)

lemma caches_helpers [simp]:
  "caches (put_account a acct s) = caches s" "caches (appendTransaction tx s) = caches s"
  "caches (rollbackLastTransaction a s) = caches s" "caches (snd (svc_append x e mk s)) = caches s"
  "caches (undo_mutation a acct t s) = caches s" "caches (snd (addPostings t ps s)) = caches s"
  "caches (snd (ledger_exec q s)) = caches s" "caches (snd (ledger_query q' s)) = caches s"
  by (simp_all add: put_account_def appendTransaction_def rollbackLastTransaction_def svc_append_def
      undo_mutation_def addPostings_def ledger_exec_def ledger_query_def split: prod.splits option.splits)

lemma caches_steps [simp]:
  "caches (ledger_auditDenied x e m ot oi ac rs s) = caches s"
  "caches (snd (resetEFTFailures a s)) = caches s" "caches (snd (recordEFTFailure e a s)) = caches s"
  "caches (opened a c s) = caches s"
  by (simp_all add: ledger_auditDenied_def ledger_appendAudit_def resetEFTFailures_def recordEFTFailure_def
      opened_def Let_def)

lemma apply_mutation_caches: "caches (snd (apply_mutation x e meta ac rs tx ps delta acct s)) = caches s"
proof -
  let ?acct1 = "acct\<lparr>acct_available := acct_available acct + delta\<rparr>"
  obtain b1 s1 where 1: "addPostings (TransactionId tx) ps s = (b1, s1)" by fastforce
  let ?s2 = "appendTransaction tx (put_account (TxAccountId tx) ?acct1 s1)"
  obtain b3 s3 where 3: "ledger_appendAudit x e meta ''ledger_account'' (TxAccountId tx) ac (snapshotAccount acct)
      (snapshotAccount ?acct1) ResultSuccess rs ?s2 = (b3, s3)" by fastforce
  obtain b4 s4 where 4: "persistLedgerMutation x e tx ps ''accepted'' (idempotency meta) s3 = (b4, s4)" by fastforce
  have "caches s1 = caches s" using caches_helpers(6) [of "TransactionId tx" ps s] by (simp add: 1)
  moreover have "caches s3 = caches ?s2"
    using arg_cong [OF 3, of "\<lambda>m. caches (snd m)"] by (simp add: ledger_appendAudit_def)
  moreover have "caches s4 = caches s3"
    using arg_cong [OF 4, of "\<lambda>m. caches (snd m)"] by (simp add: persistLedgerMutation_def split: if_splits)
  ultimately show ?thesis
    by (cases b1; cases b3; cases b4) (simp_all add: apply_mutation_def 1 3 4 Let_def)
qed

section \<open>Replays\<close>

lemma idle_mu: "ledger_idle x s \<Longrightarrow> s\<lparr>mu := False\<rparr> = s"
  by (simp add: ledger_idle_def)

text \<open>
  With the answer cached, the handler gives it back and leaves the state exactly as it was, whatever
  the request's amount.
\<close>

lemma tx_locked_hit:
  "svc_db s = None \<Longrightarrow> tx_cache op s key = Some resp \<Longrightarrow>
   tx_locked e op ty meta a c scope key h k s = (Returns resp, s)"
  by (simp add: tx_locked_def tx_replay_mem)

lemma guarded_hit:
  assumes "ledger_idle x s" "admitted e ctx meta a amt s" "tx_cache op s key = Some resp"
  shows "ledger_guarded refuse x e ctx action bad meta a amt (tx_locked e op ty meta a c scope key h k) s =
    (Returns resp, s)"
  using assms tx_locked_hit [of "s\<lparr>mu := True\<rparr>" op key resp]
  by (simp add: ledger_guarded_mem) (simp add: ledger_idle_def mem_core_def)

lemma Deposit_hit:
  assumes "ledger_idle x s" "admitted e ctx (Req_Meta r) (Req_AccountId r) (Req_Amount r) s"
    and "depositByIdempotency s (Req_AccountId r @ ''|deposit|'' @ idempotency (Req_Meta r)) = Some resp"
  shows "Deposit x e ctx (Some r) s = (Returns resp, s)"
  using guarded_hit [OF assms(1,2), of OpDeposit] assms by (simp add: Deposit_def Let_def admitted_def)

lemma Withdraw_hit:
  assumes "ledger_idle x s" "admitted e ctx (Req_Meta r) (Req_AccountId r) (Req_Amount r) s"
    and "withdrawByIdempotency s (Req_AccountId r @ ''|withdraw|'' @ idempotency (Req_Meta r)) = Some resp"
  shows "Withdraw x e ctx (Some r) s = (Returns resp, s)"
  using guarded_hit [OF assms(1,2), of OpWithdraw] assms by (simp add: Withdraw_def Let_def admitted_def)

section \<open>The caches only grow\<close>

lemma caches_put:
  "tx_cache op s key = None \<Longrightarrow> caches t = caches s \<Longrightarrow> caches_grow s (tx_cache_put op key r t)"
  by (cases op) (auto simp: caches_def caches_grow_def map_le_def)

lemma tx_cache_of_caches: "caches t = caches s \<Longrightarrow> tx_cache op t = tx_cache op s"
  by (cases op) (simp_all add: caches_def)

definition grows :: "ledger \<Rightarrow> 'a outcome \<times> ledger \<Rightarrow> bool" where
  "grows s m \<longleftrightarrow> caches_grow s (snd m)"

lemma grows_Returns [simp]: "grows s (Returns r, t) = caches_grow s t"
  by (simp add: grows_def)

lemma grows_from: "caches t = caches s \<Longrightarrow> grows t m \<Longrightarrow> grows s m"
  by (simp add: grows_def caches_grow_def caches_def)

lemma tx_post_grows:
  assumes "mem_core x s" "TxAccountId tx \<noteq> []" "isBalanced ps" "tx_cache op s key = None"
  shows "grows s (tx_post x e op meta action scope key h tx ps delta acct
           (s\<lparr>nextTransactionID := Suc (nextTransactionID s)\<rparr>))"
proof -
  let ?acct1 = "acct\<lparr>acct_available := acct_available acct + delta\<rparr>"
  obtain st n where "tx_post x e op meta action scope key h tx ps delta acct
      (s\<lparr>nextTransactionID := Suc (nextTransactionID s)\<rparr>) =
      (Returns (ok_response e meta tx ?acct1), tx_cache_put op key (ok_response e meta tx ?acct1)
         ((mutated tx ps ?acct1 s)\<lparr>svc_AuditStore := st, svc_nextAuditID := n\<rparr>))"
    by (rule tx_post_mem [OF assms(1-3) refl])
  moreover have "caches ((mutated tx ps ?acct1 s)\<lparr>svc_AuditStore := st, svc_nextAuditID := n\<rparr>) = caches s"
    by (simp add: mutated_def Let_def)
  ultimately show ?thesis using assms(4) by (simp add: caches_put del: tx_cache_put.simps)
qed

lemma denied_step:
  assumes "mem_core x s"
  obtains t where "recordEFTFailure e a s = (True, snd (recordEFTFailure e a s))"
    "ledger_auditDenied x e' m ot oi ac rs (snd (recordEFTFailure e a s)) = t" "caches t = caches s" "svc_db t = None"
proof -
  let ?s1 = "snd (recordEFTFailure e a s)"
  have "svc_db s = None" using assms by (simp add: mem_core_def)
  then have "recordEFTFailure e a s = (True, ?s1)" "mem_core x ?s1"
    using assms by (auto simp: recordEFTFailure_def Let_def mem_core_def svc_ok_def)
  moreover have "svc_db (ledger_auditDenied x e' m ot oi ac rs ?s1) = None"
    using \<open>mem_core x ?s1\<close> svc_append_nodb [of x ?s1]
    by (simp add: ledger_auditDenied_def ledger_appendAudit_def mem_core_def)
  ultimately show ?thesis by (intro that) simp_all
qed

lemma withdraw_denied_grows:
  assumes "mem_core x s" "tx_cache OpWithdraw s key = None"
  shows "grows s (withdraw_denied x e meta a scope key h acct s)"
proof -
  obtain t where t: "recordEFTFailure e a s = (True, snd (recordEFTFailure e a s))"
    "ledger_auditDenied x e meta ''ledger_account'' a ''withdraw'' ''insufficient balance''
       (snd (recordEFTFailure e a s)) = t" "caches t = caches s" "svc_db t = None"
    by (rule denied_step [OF assms(1)])
  show ?thesis unfolding withdraw_denied_def
    by (subst t(1)) (use t(2-) assms(2) in \<open>simp add: Let_def store_tx_response_mem and_then_def caches_put
        del: tx_cache_put.simps\<close>)
qed

lemma tx_locked_grows:
  assumes core: "mem_core x s"
    and k: "\<And>acct s'. mem_core x s' \<Longrightarrow> tx_cache op s' key = None \<Longrightarrow> grows s' (k acct s')"
  shows "grows s (tx_locked e op ty meta a c scope key h k s)"
proof -
  have db: "svc_db s = None" using core by (simp add: mem_core_def)
  obtain acct where acct: "accounts (opened a c s) a = Some acct"
    by (cases "accounts s a") (simp_all add: opened_def)
  show ?thesis
  proof (cases "tx_cache op s key")
    case None
    then have "grows s (k acct (opened a c s))"
      using core by (intro grows_from [OF _ k]) (simp_all add: tx_cache_of_caches [of "opened a c s" s])
    with None db acct show ?thesis
      by (simp add: tx_locked_def tx_replay_mem mutationAccountState_mem caches_same)
  qed (use db in \<open>simp add: tx_locked_def tx_replay_mem\<close>)
qed

lemma with_lock_grows:
  assumes "ledger_idle x s" "\<And>s'. s' = s\<lparr>mu := True\<rparr> \<Longrightarrow> mem_core x s' \<Longrightarrow> grows s' (body s')"
  shows "grows s (with_lock body s)"
proof -
  have "grows (s\<lparr>mu := True\<rparr>) (body (s\<lparr>mu := True\<rparr>))"
    using assms by (simp add: ledger_idle_def)
  then have "grows s (body (s\<lparr>mu := True\<rparr>))" by (rule grows_from [rotated]) simp
  with assms(1) show ?thesis
    by (auto simp: with_lock_def ledger_idle_def grows_def caches_grow_def split: outcome.splits prod.splits)
qed

lemma ledger_guarded_grows:
  assumes "ledger_idle x s" "\<And>s'. mem_core x s' \<Longrightarrow> grows s' (body s')"
  shows "grows s (ledger_guarded refuse x e ctx action bad meta a amt body s)"
proof -
  have "svc_db t = None" if "mem_core x t" for t using that by (simp add: mem_core_def)
  then show ?thesis
    using assms
    by (auto simp: ledger_guarded_def caches_same eftLocked_mem intro!: with_lock_grows split: option.splits)
qed

lemma Deposit_grows: "ledger_idle x s \<Longrightarrow> grows s (Deposit x e ctx req s)"
  by (auto simp: Deposit_def deposit_post_def Let_def nextTxIDLocked_eq posting_pair_balanced
      intro!: ledger_guarded_grows tx_locked_grows tx_post_grows split: option.splits)

lemma Withdraw_grows: "ledger_idle x s \<Longrightarrow> grows s (Withdraw x e ctx req s)"
  by (auto simp: Withdraw_def withdraw_post_def Let_def nextTxIDLocked_eq posting_pair_balanced
      intro!: ledger_guarded_grows tx_locked_grows tx_post_grows withdraw_denied_grows split: option.splits)

lemma TransferToAccount_grows: "ledger_idle x s \<Longrightarrow> grows s (TransferToAccount x e ctx req s)"
  by (auto simp: TransferToAccount_def to_account_post_def Let_def nextTxIDLocked_eq posting_pair_balanced
      intro!: ledger_guarded_grows tx_locked_grows tx_post_grows split: option.splits)

section \<open>Transfers to a device\<close>

definition device_ok :: "env \<Rightarrow> request_meta option \<Rightarrow> nat \<Rightarrow> i64 \<Rightarrow> transfer_status \<Rightarrow> string \<Rightarrow> ledgerAccount \<Rightarrow> device_response" where
  "device_ok e meta k n status reason acct =
     \<lparr>DevMeta = responseMeta e meta RESULT_CODE_OK [], DevTransferId = ''tr-'' @ itoa_nat k,
      DevTransferStatus = status, DevTransferredAmount = Some (money n (acct_currency acct)),
      DevAvailable = Some (money (acct_available acct) (acct_currency acct)), DevUnresolvedReason = reason\<rparr>"

lemma device_transfer_mem:
  assumes core: "mem_core x s" and "Req_AccountId r \<noteq> []"
    and plan: "transfer_plan (acct_available acct) (AmountMinor (the (Req_Amount r))) = (n, status, reason)"
    and c: "c = Currency (the (Req_Amount r))"
    and tx: "tx = new_tx e (tx_id (Suc (nextTransactionID s))) (Req_AccountId r)
       LEDGER_TRANSACTION_TYPE_TRANSFER_TO_DEVICE n c [] ''transfer to device''"
    and ps: "ps = [posting e (Req_AccountId r) ''debit'' n c, posting e (''device_escrow:'' @ Req_DeviceId r) ''credit'' n c]"
    and acct1: "acct1 = acct\<lparr>acct_available := acct_available acct - n\<rparr>"
    and resp: "resp = device_ok e (Req_Meta r) (Suc (nextTransferID s)) n status reason acct1"
  obtains st k where "device_transfer x e r scope key h acct s =
    (Returns resp, (mutated tx ps acct1 s)\<lparr>svc_AuditStore := st, svc_nextAuditID := k,
       nextTransferID := Suc (nextTransferID s), toDeviceByIdempotency := (toDeviceByIdempotency s)(key \<mapsto> resp)\<rparr>)"
proof -
  let ?s1 = "s\<lparr>nextTransactionID := Suc (nextTransactionID s)\<rparr>" and ?a = "Req_AccountId r" and ?m = "Req_Meta r"
  have core1: "mem_core x ?s1" using core by (simp add: mem_core_def svc_ok_def)
  have bal: "isBalanced ps" unfolding ps by (rule posting_pair_balanced)
  obtain st k where ap: "apply_mutation x e ?m ''transfer_to_device'' reason tx ps (- n) acct ?s1 =
      (Inr (acct\<lparr>acct_available := acct_available acct + (- n)\<rparr>),
       ?s1\<lparr>accounts := (accounts ?s1)(TxAccountId tx \<mapsto> acct\<lparr>acct_available := acct_available acct + (- n)\<rparr>),
         transactionsByAcct := (transactionsByAcct ?s1)(TxAccountId tx \<mapsto> transactions_of (TxAccountId tx) ?s1 @ [tx]),
         postingsByTx := (postingsByTx ?s1)(TransactionId tx \<mapsto> postings_of (TransactionId tx) ?s1 @ ps),
         svc_AuditStore := st, svc_nextAuditID := k\<rparr>)"
    by (rule apply_mutation_mem [OF core1 bal, of e ?m "''transfer_to_device''" reason tx "- n" acct])
  have "svc_db s = None" using core by (simp add: mem_core_def)
  then show ?thesis
    using that [of k st] assms(2) ap [unfolded tx ps]
    by (simp add: device_transfer_def plan nextTxIDLocked_eq nextTransferIDLocked_def Let_def c [symmetric]
        store_device_response_mem and_then_def resetEFTFailures_def mutated_def tx ps acct1 resp device_ok_def
        transactions_of_def postings_of_def)
qed

lemma device_transfer_grows:
  assumes "mem_core x s" "Req_AccountId r \<noteq> []" "toDeviceByIdempotency s key = None"
  shows "grows s (device_transfer x e r scope key h acct s)"
proof -
  obtain n status reason where plan:
    "transfer_plan (acct_available acct) (AmountMinor (the (Req_Amount r))) = (n, status, reason)"
    by (metis prod_cases3)
  show ?thesis
    by (rule device_transfer_mem [OF assms(1,2) plan refl refl refl refl refl, of e scope key h])
       (use assms(3) in \<open>auto simp: caches_grow_def mutated_def Let_def map_le_def\<close>)
qed

lemma device_denied_grows:
  assumes "mem_core x s" "toDeviceByIdempotency s key = None"
  shows "grows s (device_denied x e meta a scope key h acct s)"
proof -
  obtain t where t: "recordEFTFailure e a s = (True, snd (recordEFTFailure e a s))"
    "ledger_auditDenied x e meta ''ledger_account'' a ''transfer_to_device'' ''insufficient balance''
       (snd (recordEFTFailure e a s)) = t" "caches t = caches s" "svc_db t = None"
    by (rule denied_step [OF assms(1)])
  show ?thesis unfolding device_denied_def
    by (subst t(1)) (use t(2-) assms(2) in \<open>auto simp: Let_def store_device_response_mem and_then_def
        caches_grow_def caches_def map_le_def\<close>)
qed

lemma device_locked_grows:
  assumes core: "mem_core x s" and "Req_AccountId r \<noteq> []"
  shows "grows s (device_locked x e r s)"
proof -
  let ?a = "Req_AccountId r" and ?c = "Currency (the (Req_Amount r))"
  let ?key = "?a @ ''|to_device|'' @ idempotency (Req_Meta r)" and ?t = "opened ?a ?c s"
  have db: "svc_db s = None" using core by (simp add: mem_core_def)
  obtain acct where acct: "accounts ?t ?a = Some acct"
    by (cases "accounts s ?a") (simp_all add: opened_def)
  have *: "caches ?t = caches s" "mem_core x ?t" "toDeviceByIdempotency ?t = toDeviceByIdempotency s"
    using core by (simp, simp, simp add: opened_def)
  show ?thesis
  proof (cases "toDeviceByIdempotency s ?key")
    case None
    then have "grows s (device_denied x e (Req_Meta r) ?a sc ?key h acct ?t)"
      "grows s (device_transfer x e r sc ?key h acct ?t)" for sc h
      using * assms(2) by (auto intro!: grows_from [OF *(1)] device_denied_grows device_transfer_grows)
    with None db acct * show ?thesis
      by (simp add: device_locked_def Let_def device_replay_mem mutationAccountState_mem caches_same)
  qed (use db in \<open>simp add: device_locked_def Let_def device_replay_mem\<close>)
qed

lemma TransferToDevice_grows: "ledger_idle x s \<Longrightarrow> grows s (TransferToDevice x e ctx req s)"
  by (auto simp: TransferToDevice_def intro!: ledger_guarded_grows device_locked_grows split: option.splits)

lemma other_calls_grow:
  assumes "ledger_idle x s"
  shows "grows s (GetBalance x e ctx req s)" "grows s (ListTransactions x e ctx req' s)"
    "grows s (SetIdempotencyTTL t s)" "grows s (SetEFTFraudPolicy n t s)"
    "grows s (SetDisableInMemoryIdempotencyCache b s)"
  using assms
  by (auto simp: GetBalance_def ListTransactions_def SetIdempotencyTTL_def SetEFTFraudPolicy_def
      SetDisableInMemoryIdempotencyCache_def caches_same getBalanceFromDB_def mem_core_def Let_def split_beta
      intro!: with_lock_grows split: option.splits)

lemma ledger_react_grows: "ledger_idle x s \<Longrightarrow> caches_grow s (ledger_react x i s)"
  using Deposit_grows Withdraw_grows TransferToAccount_grows TransferToDevice_grows other_calls_grow
  by (cases "(x, i, s)" rule: ledger_react.cases) (simp_all add: grows_def)

lemma ledger_later_grows: "ledger_idle x s \<Longrightarrow> caches_grow s (fold (ledger_react x) js s)"
proof (induction js arbitrary: s)
  case (Cons j js)
  have "caches_grow (ledger_react x j s) (fold (ledger_react x) js (ledger_react x j s))"
    by (rule Cons.IH) (rule ledger_react_book(1) [OF Cons.prems])
  then show ?case using caches_grow_trans [OF ledger_react_grows [OF Cons.prems]] by simp
qed simp

section \<open>A funded account\<close>

abbreviation demo_funded :: ledger where "demo_funded \<equiv> ledger_runs demo_ext demo_run"

definition demo_amount :: "i64 \<Rightarrow> amount_request" where
  "demo_amount n = \<lparr>Req_Meta = demo_meta ''k1'', Req_AccountId = ''acct-1'', Req_Amount = Some (money n ''USD'')\<rparr>"


lemma demo_amount_sel [simp]:
  "Req_Meta (demo_amount n) = demo_meta ''k1''" "Req_AccountId (demo_amount n) = ''acct-1''"
  "Req_Amount (demo_amount n) = Some (money n ''USD'')"
  by (simp_all add: demo_amount_def)


definition demo_rich :: ledger where
  "demo_rich = demo_start\<lparr>accounts := [''acct-1'' \<mapsto> (new_account ''acct-1'' ''USD'')\<lparr>acct_available := 500\<rparr>]\<rparr>"

lemma demo_rich_facts:
  "ledger_idle demo_ext demo_rich" "balance_of ''acct-1'' (accounts demo_rich) = 500"
  "eftFraudLockedUntil demo_rich ''acct-1'' = None" "fits_currency ''acct-1'' ''USD'' demo_rich"
  "withdrawByIdempotency demo_rich = Map.empty" "toDeviceByIdempotency demo_rich = Map.empty"
  using NewLedgerService_idle [of demo_ext]
  by (simp_all add: demo_rich_def NewLedgerService_def ledger_idle_def mem_core_def svc_ok_def balance_of_def
      fits_currency_def new_account_def)

lemma posted_balance: "posted a c d tx ps s s' \<Longrightarrow> balance_of a (accounts s') = balance_of a (accounts s) + d"
proof -
  have upd: "balance_of a (m(a \<mapsto> acct)) = acct_available acct" for m acct by (simp add: balance_of_def)
  assume "posted a c d tx ps s s'"
  then show ?thesis by (simp add: posted_def upd)
qed

lemma demo_funded_unlocked: "eftFraudLockedUntil demo_funded ''acct-1'' = None"
  using demo_run_posted by (auto simp: posted_def)

section \<open>Outcomes\<close>

text \<open>A refused request is never answered OK.\<close>

lemma guarded_ok_admitted:
  assumes idle: "ledger_idle x s" and "a \<noteq> []"
    and ret: "ledger_guarded (tx_refusal e) x e ctx action bad meta a amt body s = (Returns resp, s1)"
    and ok: "ResultCode (RespMeta resp) = RESULT_CODE_OK"
  shows "admitted e ctx meta a amt s"
proof -
  have "svc_db s = None" "\<not> mu s" using idle by (simp_all add: ledger_idle_def mem_core_def)
  with assms show ?thesis
    by (auto simp: ledger_guarded_def admitted_def tx_refusal_def with_lock_def eftLocked_mem eft_until_def
        split: option.splits if_splits)
qed

lemma guarded_currency:
  assumes "ledger_idle x s" "admitted e ctx meta a amt s" "tx_cache op s key = None" "\<not> fits_currency a c s"
  shows "ledger_guarded refuse x e ctx action bad meta a amt (tx_locked e op ty meta a c scope key h k) s =
    (Returns (tx_refusal e meta RESULT_CODE_INVALID ''currency mismatch for account''), s)"
proof -
  obtain acct where "accounts s a = Some acct" "acct_currency acct \<noteq> c"
    using assms(4) by (auto simp: fits_currency_def split: option.splits)
  then have "tx_locked e op ty meta a c scope key h k (s\<lparr>mu := True\<rparr>) =
      (Returns (tx_refusal e meta RESULT_CODE_INVALID ''currency mismatch for account''), s\<lparr>mu := True\<rparr>)"
    using assms(1,3)
    by (simp add: tx_locked_def tx_replay_mem mutationAccountState_mem opened_def ledger_idle_def mem_core_def)
  then show ?thesis using assms(1) by (simp add: ledger_guarded_mem [OF assms(1,2)] ledger_idle_def)
qed

text \<open>
  An admitted withdrawal under a fresh key that the balance covers answers OK with the balance less
  the amount and posts the debit of the account and the credit of the operator's liability.
\<close>

theorem withdraw_accepted:
  fixes r :: amount_request
  assumes "ledger_idle x s" "admitted e ctx (Req_Meta r) (Req_AccountId r) (Some (money n c)) s"
    and "Req_Amount r = Some (money n c)" "fits_currency (Req_AccountId r) c s"
    and "withdrawByIdempotency s (Req_AccountId r @ ''|withdraw|'' @ idempotency (Req_Meta r)) = None"
    and "sint n \<le> sint (balance_of (Req_AccountId r) (accounts s))"
  shows "\<exists>tx resp s'. Withdraw x e ctx (Some r) s = (Returns resp, s') \<and>
    ResultCode (RespMeta resp) = RESULT_CODE_OK \<and>
    RespAvailable resp = Some (money (balance_of (Req_AccountId r) (accounts s) - n) c) \<and>
    posted (Req_AccountId r) c (- n) tx
      [posting e (Req_AccountId r) ''debit'' n c, posting e ''operator_liability'' ''credit'' n c] s s' \<and>
    0 \<le> sint (balance_of (Req_AccountId r) (accounts s')) \<and>
    withdrawByIdempotency s' (Req_AccountId r @ ''|withdraw|'' @ idempotency (Req_Meta r)) = Some resp"
proof -
  let ?a = "Req_AccountId r" and ?m = "Req_Meta r"
  let ?tx = "new_tx e (tx_id (Suc (nextTransactionID s))) ?a LEDGER_TRANSACTION_TYPE_WITHDRAWAL n c
    [] ''withdrawal accepted''"
  let ?k = "?a @ ''|withdraw|'' @ idempotency ?m"
  let ?h = "hashRequest x [idemScope ?a ''withdraw'', c, itoa (sint n)]"
  have cache: "tx_cache OpWithdraw s ?k = None" using assms(5) by simp
  have k: "withdraw_post x e r (idemScope ?a ''withdraw'') ?k ?h (account_at ?a c s) (opened ?a c (s\<lparr>mu := True\<rparr>)) =
      tx_post x e OpWithdraw ?m ''withdraw'' (idemScope ?a ''withdraw'') ?k ?h ?tx
        [posting e ?a ''debit'' n c, posting e ''operator_liability'' ''credit'' n c] (- n) (account_at ?a c s)
        ((opened ?a c (s\<lparr>mu := True\<rparr>))\<lparr>nextTransactionID := Suc (nextTransactionID s)\<rparr>)"
    using assms(6) by (simp add: withdraw_post_def Let_def nextTxIDLocked_eq assms(3) account_at_facts)
  have "?a \<noteq> []" "0 < sint n" using assms(2) by (auto simp: admitted_def not_invalidAmount)
  moreover from this have "0 \<le> sint (balance_of ?a (accounts s) - n)"
    using assms(6) by (simp add: sint_i64_sub_covered)
  moreover note accepted_mutation [where k = "withdraw_post x e r (idemScope ?a ''withdraw'') ?k ?h"
      and refuse = "tx_refusal e" and ty = LEDGER_TRANSACTION_TYPE_WITHDRAWAL
      and bad = "''amount must be > 0 and currency provided''",
      OF assms(1,2) cache assms(4) new_tx_sel(2,1) posting_pair_balanced k]
  ultimately show ?thesis
    using assms(3) account_at_facts(2) [OF assms(4)]
    by (auto simp: Withdraw_def Let_def ok_response_def posted_def balance_of_def intro!: exI [of _ ?tx])
qed

theorem withdraw_accepted_witness:
  "\<exists>tx resp s'. Withdraw demo_ext demo_env None (Some (demo_amount 200)) demo_rich = (Returns resp, s') \<and>
    RespAvailable resp = Some (money 300 ''USD'') \<and> balance_of ''acct-1'' (accounts s') = 300"
  using withdraw_accepted [OF demo_rich_facts(1), of demo_env None "demo_amount 200" 200 "''USD''"]
  by (auto simp: demo_admitted demo_rich_facts posted_balance)

text \<open>
  C9: without a database, an admitted withdrawal under a fresh idempotency key that exceeds the balance answers
  DENIED with the balance, moves no money (no balance, transaction or posting changes), counts one failed attempt for
  the account and stores the answer under the key. With a database such a
  request can block or fail instead: see \<open>withdraw_empty_tables\<close> of the theory LedgerTables.
\<close>

theorem withdraw_insufficient:
  fixes r :: amount_request
  assumes "ledger_idle x s" "admitted e ctx (Req_Meta r) (Req_AccountId r) (Some (money n c)) s"
    and "Req_Amount r = Some (money n c)" "fits_currency (Req_AccountId r) c s"
    and "withdrawByIdempotency s (Req_AccountId r @ ''|withdraw|'' @ idempotency (Req_Meta r)) = None"
    and "sint (balance_of (Req_AccountId r) (accounts s)) < sint n"
  shows "\<exists>resp s'. Withdraw x e ctx (Some r) s = (Returns resp, s') \<and>
    ResultCode (RespMeta resp) = RESULT_CODE_DENIED \<and> DenialReason (RespMeta resp) = ''insufficient balance'' \<and>
    RespAvailable resp = Some (money (balance_of (Req_AccountId r) (accounts s)) c) \<and>
    (\<forall>b. balance_of b (accounts s') = balance_of b (accounts s)) \<and>
    transactionsByAcct s' = transactionsByAcct s \<and> postingsByTx s' = postingsByTx s \<and>
    eft_failures (Req_AccountId r) s' = eft_failures (Req_AccountId r) s + 1 \<and>
    withdrawByIdempotency s' (Req_AccountId r @ ''|withdraw|'' @ idempotency (Req_Meta r)) = Some resp"
proof -
  let ?a = "Req_AccountId r" and ?m = "Req_Meta r" and ?s = "s\<lparr>mu := True\<rparr>"
  let ?k = "?a @ ''|withdraw|'' @ idempotency ?m" and ?sc = "idemScope ?a ''withdraw''"
  let ?h = "hashRequest x [?sc, c, itoa (sint n)]"
  let ?resp = "\<lparr>RespMeta = responseMeta e ?m RESULT_CODE_DENIED ''insufficient balance'', RespTransaction = None,
     RespAvailable = Some (money (balance_of ?a (accounts s)) c)\<rparr>"
  define t1 where "t1 = snd (recordEFTFailure e ?a (opened ?a c ?s))"
  have db: "svc_db s = None" and ne: "?a \<noteq> []" and core: "mem_core x (opened ?a c ?s)"
    using assms(1,2) by (auto simp: ledger_idle_def mem_core_def admitted_def opened_def svc_ok_def)
  have rec: "recordEFTFailure e ?a (opened ?a c ?s) = (True, t1)" and core1: "mem_core x t1"
    using core ne by (auto simp: t1_def recordEFTFailure_def Let_def mem_core_def svc_ok_def)
  obtain st k where aud: "ledger_auditDenied x e ?m ''ledger_account'' ?a ''withdraw'' ''insufficient balance'' t1 =
      t1\<lparr>svc_AuditStore := st, svc_nextAuditID := k\<rparr>"
    using ledger_appendAudit_mem [OF core1, of e ?m "''ledger_account''" ?a "''withdraw''" json_empty json_empty
        ResultDenied "''insufficient balance''"] by (metis ledger_auditDenied_def snd_conv)
  have "tx_locked e OpWithdraw LEDGER_TRANSACTION_TYPE_WITHDRAWAL ?m ?a c ?sc ?k ?h (withdraw_post x e r ?sc ?k ?h) ?s =
      withdraw_post x e r ?sc ?k ?h (account_at ?a c s) (opened ?a c ?s)"
    using tx_locked_mem [of ?s OpWithdraw ?k ?a c] db assms(4,5) by simp
  also have "\<dots> = (Returns ?resp, tx_cache_put OpWithdraw ?k ?resp (t1\<lparr>svc_AuditStore := st, svc_nextAuditID := k\<rparr>))"
    using assms(3,6) core1 account_at_facts(2) [OF assms(4)]
    by (simp add: withdraw_post_def Let_def account_at_facts(1) withdraw_denied_def rec aud store_tx_response_mem
        mem_core_def and_then_def)
  finally have eq: "Withdraw x e ctx (Some r) s =
      (Returns ?resp, (tx_cache_put OpWithdraw ?k ?resp (t1\<lparr>svc_AuditStore := st, svc_nextAuditID := k\<rparr>))\<lparr>mu := False\<rparr>)"
    using ne assms(3) by (simp add: Withdraw_def Let_def ledger_guarded_mem [OF assms(1,2)])
  have "accounts t1 = (accounts s)(?a \<mapsto> account_at ?a c s)" "transactionsByAcct t1 = transactionsByAcct s"
    "postingsByTx t1 = postingsByTx s" "eft_failures ?a t1 = eft_failures ?a s + 1"
    using db ne account_at_facts(3) [of ?a c ?s]
    by (auto simp: t1_def recordEFTFailure_def Let_def opened_def eft_failures_def)
  then show ?thesis
    unfolding eq by (auto simp: balance_of_def eft_failures_def account_at_def new_account_def split: option.splits)
qed

theorem withdraw_insufficient_witness:
  "\<exists>resp s'. Withdraw demo_ext demo_env None (Some (demo_amount 700)) demo_rich = (Returns resp, s') \<and>
    ResultCode (RespMeta resp) = RESULT_CODE_DENIED \<and> balance_of ''acct-1'' (accounts s') = 500"
  using withdraw_insufficient [OF demo_rich_facts(1), of demo_env None "demo_amount 700" 700 "''USD''"]
  by (auto simp: demo_admitted demo_rich_facts)



lemma Deposit_ok_cached:
  fixes r :: deposit_request
  assumes idle: "ledger_idle x s" and ret: "Deposit x e ctx (Some r) s = (Returns resp, s1)"
    and ok: "ResultCode (RespMeta resp) = RESULT_CODE_OK"
  shows "depositByIdempotency s1 (Req_AccountId r @ ''|deposit|'' @ idempotency (Req_Meta r)) = Some resp"
proof -
  let ?a = "Req_AccountId r" and ?m = "Req_Meta r" let ?k = "?a @ ''|deposit|'' @ idempotency ?m"
  have ne: "?a \<noteq> []" using ret ok by (auto simp: Deposit_def tx_refusal_def Let_def split: if_splits)
  with ret ok have adm: "admitted e ctx ?m ?a (Req_Amount r) s"
    by (auto simp: Deposit_def Let_def intro: guarded_ok_admitted [OF idle])
  then obtain n c where amt: "Req_Amount r = Some (money n c)"
    by (auto simp: admitted_def not_invalidAmount money_def) (metis money.surjective old.unit.exhaust)
  consider "depositByIdempotency s ?k \<noteq> None" | "depositByIdempotency s ?k = None" "fits_currency ?a c s"
    | "depositByIdempotency s ?k = None" "\<not> fits_currency ?a c s" by blast
  then show ?thesis
  proof cases
    case 1
    then show ?thesis using Deposit_hit [OF idle adm] ret by auto
  next
    case 2
    then show ?thesis using Deposit_fresh [OF idle adm [unfolded amt] amt 2(2,1)] ret by auto
  next
    case 3
    then have "Deposit x e ctx (Some r) s = (Returns (tx_refusal e ?m RESULT_CODE_INVALID ''currency mismatch for account''), s)"
      using guarded_currency [OF idle adm, of OpDeposit ?k c] ne amt by (simp add: Deposit_def Let_def)
    with ret ok show ?thesis by (auto simp: tx_refusal_def)
  qed
qed

text \<open>
  C11: retries are safe for as long as the process lives. Once a deposit was answered OK, any later
  deposit for the same account under the same idempotency key gets the same answer and changes
  nothing, whatever calls came in between; even when it asks for another amount.
\<close>

theorem deposit_retry:
  fixes r r' :: deposit_request
  assumes "Deposit x e ctx (Some r) (ledger_runs x is) = (Returns resp, s1)"
    and "ResultCode (RespMeta resp) = RESULT_CODE_OK"
    and "s2 = fold (ledger_react x) js s1"
    and "admitted e' ctx' (Req_Meta r') (Req_AccountId r') (Req_Amount r') s2"
    and "Req_AccountId r' = Req_AccountId r" "idempotency (Req_Meta r') = idempotency (Req_Meta r)"
  shows "Deposit x e' ctx' (Some r') s2 = (Returns resp, s2)"
proof -
  let ?k = "Req_AccountId r @ ''|deposit|'' @ idempotency (Req_Meta r)"
  have idle: "ledger_idle x (ledger_runs x is)"
    unfolding ledger_runs_def by (rule ledger_sim.always_inv) simp
  then have idle1: "ledger_idle x s1"
    using ledger_react_book(1) [OF idle, of "(e, ctx, CallDeposit (Some r))"] assms(1) by simp
  have "depositByIdempotency s1 ?k = Some resp" by (rule Deposit_ok_cached [OF idle assms(1,2)])
  then have "depositByIdempotency s2 ?k = Some resp"
    using ledger_later_grows [OF idle1, of js] assms(3) unfolding caches_grow_def map_le_def by (metis domI)
  moreover have "ledger_idle x s2" unfolding assms(3) using idle1 by (rule ledger_sim.run_inv)
  ultimately show ?thesis using Deposit_hit assms(4-6) by metis
qed

theorem deposit_retry_witness:
  "\<exists>resp. Deposit demo_ext demo_env None (Some (demo_deposit 900)) demo_funded = (Returns resp, demo_funded) \<and>
     ResultCode (RespMeta resp) = RESULT_CODE_OK"
proof -
  obtain resp where r: "Deposit demo_ext demo_env None (Some (demo_deposit 500)) demo_start = (Returns resp, demo_funded)"
      "ResultCode (RespMeta resp) = RESULT_CODE_OK"
    using demo_deposited by (auto simp: ledger_runs_def demo_run_def)
  then have "Deposit demo_ext demo_env None (Some (demo_deposit 500)) (ledger_runs demo_ext []) = (Returns resp, demo_funded)"
    by (simp add: ledger_runs_def)
  from deposit_retry [OF this r(2), of demo_funded "[]" demo_env None "demo_deposit 900"] r(2) show ?thesis
    by (auto simp: demo_admitted demo_funded_unlocked)
qed

end
