(* ===== verification/Lockout.thy ===== *)
theory Lockout
  imports GoTime
begin

text \<open>
  The contract of a failure counter that locks a key out: the ledger's EFT lockout and the lockout of
  the identity service keep one each. A failure adds one to the count; from the limit on, every
  failure locks the key for the time to live, counted from that failure.
\<close>

locale lockout =
  fixes valid :: "'k \<Rightarrow> 's \<Rightarrow> bool" and failures :: "'k \<Rightarrow> 's \<Rightarrow> int" and locked_until :: "'k \<Rightarrow> 's \<Rightarrow> time"
    and limit :: "'s \<Rightarrow> int" and ttl :: "'s \<Rightarrow> duration" and fail :: "'e \<Rightarrow> 'k \<Rightarrow> 's \<Rightarrow> 's" and now :: "'e \<Rightarrow> time"
  assumes fail_valid: "valid k s \<Longrightarrow> valid k (fail e k s)"
    and fail_count: "valid k s \<Longrightarrow> failures k (fail e k s) = failures k s + 1"
    and fail_locks: "valid k s \<Longrightarrow> limit s \<le> failures k s + 1 \<Longrightarrow> locked_until k (fail e k s) = now e + ttl s"
    and fail_keeps: "valid k s \<Longrightarrow> failures k s + 1 < limit s \<Longrightarrow> locked_until k (fail e k s) = locked_until k s"
    and fail_policy: "valid k s \<Longrightarrow> limit (fail e k s) = limit s \<and> ttl (fail e k s) = ttl s"
begin

definition fail_all :: "'e list \<Rightarrow> 'k \<Rightarrow> 's \<Rightarrow> 's" where
  "fail_all es k s = fold (\<lambda>e. fail e k) es s"

lemma fail_all_facts:
  "valid k s \<Longrightarrow> valid k (fail_all es k s) \<and> failures k (fail_all es k s) = failures k s + int (length es) \<and>
   limit (fail_all es k s) = limit s \<and> ttl (fail_all es k s) = ttl s"
proof (induction es rule: rev_induct)
  case (snoc e es)
  then show ?case
    using fail_valid [of k "fail_all es k s" e] fail_count [of k "fail_all es k s" e] fail_policy [of k "fail_all es k s" e]
    by (simp add: fail_all_def)
qed (simp add: fail_all_def)

lemma locked_after:
  assumes "valid k s" "es \<noteq> []" "limit s \<le> failures k s + int (length es)"
  shows "locked_until k (fail_all es k s) = now (last es) + ttl s"
proof -
  obtain fs e where es: "es = fs @ [e]" using assms(2) by (metis append_butlast_last_id)
  note f = fail_all_facts [OF assms(1), of fs]
  have "locked_until k (fail e k (fail_all fs k s)) = now e + ttl (fail_all fs k s)"
    using f assms(3) es by (intro fail_locks) auto
  with f es show ?thesis by (simp add: fail_all_def)
qed

lemma unlocked_before:
  assumes "valid k s" "failures k s + int (length es) < limit s"
  shows "locked_until k (fail_all es k s) = locked_until k s"
  using assms
proof (induction es rule: rev_induct)
  case (snoc e es)
  note f = fail_all_facts [OF assms(1), of es]
  have "locked_until k (fail e k (fail_all es k s)) = locked_until k (fail_all es k s)"
    using f snoc.prems by (intro fail_keeps) auto
  with snoc show ?case by (simp add: fail_all_def)
qed (simp add: fail_all_def)

end

end
