(* ===== verification/LedgerGuards.thy ===== *)
theory LedgerGuards
  imports LedgerOps Lockout
begin

text \<open>
  The guards of the ledger: who may act on an account, the EFT lockout, and the roll-back of a mutation
  that fails after it has changed the state in memory.
\<close>

section \<open>Access\<close>

fun call_target :: "ledger_call \<Rightarrow> (request_meta option \<times> string) option" where
  "call_target (CallGetBalance r) = map_option (\<lambda>r. (Req_Meta r, Req_AccountId r)) r"
| "call_target (CallDeposit r) = map_option (\<lambda>r. (Req_Meta r, Req_AccountId r)) r"
| "call_target (CallWithdraw r) = map_option (\<lambda>r. (Req_Meta r, Req_AccountId r)) r"
| "call_target (CallTransferToDevice r) =
     (case r of None \<Rightarrow> None | Some r \<Rightarrow> if Req_DeviceId r = [] then None else Some (Req_Meta r, Req_AccountId r))"
| "call_target (CallTransferToAccount r) = map_option (\<lambda>r. (Req_Meta r, Req_AccountId r)) r"
| "call_target (CallListTransactions r) = map_option (\<lambda>r. (Req_Meta r, Req_AccountId r)) r"
| "call_target (CallSetIdempotencyTTL t) = None"
| "call_target (CallSetEFTFraudPolicy n t) = None"
| "call_target (CallSetDisableCache b) = None"

lemma unauthorized_is_audited:
  assumes "call_target c = Some (meta, a)" "a \<noteq> []" "ledger_authorize ctx meta a = Some reason"
  obtains action where "ledger_react x (e, ctx, c) s = ledger_auditDenied x e meta ''ledger_account'' a action reason s"
  using assms
  by (cases c) (fastforce simp: GetBalance_def Deposit_def Withdraw_def TransferToDevice_def TransferToAccount_def
      ListTransactions_def ledger_guarded_def Let_def split: option.splits if_splits)+

lemma auditDenied_mem:
  assumes "ledger_idle x s"
  obtains st k ev where "ledger_auditDenied x e meta ot a action reason s = s\<lparr>svc_AuditStore := st, svc_nextAuditID := k\<rparr>"
    "svc_trail (s\<lparr>svc_AuditStore := st, svc_nextAuditID := k\<rparr>) = svc_trail s @ [ev]"
    "ev_Result ev = ResultDenied" "ev_Reason ev = reason" "ev_ObjectID ev = a" "ev_Action ev = action"
proof -
  let ?mk = "\<lambda>n. audit_event e (''audit-'' @ itoa_nat n) meta ot a action json_empty json_empty ResultDenied reason"
  have core: "svc_ok x s" "svc_db s = None" using assms by (simp_all add: ledger_idle_def mem_core_def)
  obtain st k where 1: "ledger_auditDenied x e meta ot a action reason s = s\<lparr>svc_AuditStore := st, svc_nextAuditID := k\<rparr>"
    using ledger_appendAudit_mem [of x s e meta ot a action json_empty json_empty ResultDenied reason] assms
    by (metis ledger_auditDenied_def ledger_idle_def snd_conv)
  obtain ev where ev: "same_event (?mk (Suc (svc_nextAuditID s))) ev"
      "svc_trail (snd (svc_append x e ?mk s)) = svc_trail s @ [ev]"
    using svc_append_nodb [OF core, of e ?mk] by blast
  have "ev_Result ev = ResultDenied" "ev_Reason ev = reason" "ev_ObjectID ev = a" "ev_Action ev = action"
    using arg_cong [OF ev(1) [unfolded same_event_def], of ev_Result]
      arg_cong [OF ev(1) [unfolded same_event_def], of ev_Reason]
      arg_cong [OF ev(1) [unfolded same_event_def], of ev_ObjectID]
      arg_cong [OF ev(1) [unfolded same_event_def], of ev_Action]
    by (simp_all add: audit_event_def)
  with 1 ev(2) show ?thesis
    by (intro that [of k st ev]) (simp_all add: ledger_auditDenied_def ledger_appendAudit_def)
qed

text \<open>
  C12: a player reaches no account but their own. Whatever ledger method a player calls for another
  account, nothing changes but the audit trail, which gains one denied event for that account with the reason.
\<close>

theorem ledger_player_isolated:
  assumes "ledger_idle x s" "call_target c = Some (meta, a)" "a \<noteq> []"
    and "resolveActor ctx meta = Inr p" "ActorType p = ACTOR_TYPE_PLAYER" "ActorId p \<noteq> a"
  shows "\<exists>st k ev. ledger_react x (e, ctx, c) s = s\<lparr>svc_AuditStore := st, svc_nextAuditID := k\<rparr> \<and>
    svc_trail (ledger_react x (e, ctx, c) s) = svc_trail s @ [ev] \<and> ev_Result ev = ResultDenied \<and>
    ev_ObjectID ev = a \<and> ev_Reason ev = ''player cannot access another account''"
proof -
  have "ledger_authorize ctx meta a = Some ''player cannot access another account''"
    using assms(4-6) by (simp add: ledger_authorize_def authorize_owner_def operator_or_service_def)
  then obtain action where "ledger_react x (e, ctx, c) s =
      ledger_auditDenied x e meta ''ledger_account'' a action ''player cannot access another account'' s"
    using unauthorized_is_audited [OF assms(2,3)] by blast
  then show ?thesis
    using auditDenied_mem [OF assms(1), of e meta "''ledger_account''" a action "''player cannot access another account''"]
    by metis
qed

definition demo_player_call :: ledger_call where
  "demo_player_call = CallWithdraw (Some \<lparr>Req_Meta = None, Req_AccountId = ''acct-1'',
     Req_Amount = Some (money 1 ''USD'')\<rparr>)"

definition demo_player :: "auth_actor option" where
  "demo_player = Some \<lparr>AuthID = ''p-2'', AuthType = ''ACTOR_TYPE_PLAYER''\<rparr>"

lemma demo_player_resolved:
  "resolveActor demo_player None = Inr \<lparr>ActorId = ''p-2'', ActorType = ACTOR_TYPE_PLAYER\<rparr>"
  by (simp add: demo_player_def resolveActor_def actorTypeFromString_def)
     code_simp

theorem ledger_player_isolated_witness:
  "\<exists>st k. ledger_react demo_ext (demo_env, demo_player, demo_player_call) demo_rich =
     demo_rich\<lparr>svc_AuditStore := st, svc_nextAuditID := k\<rparr>"
  using ledger_player_isolated [OF demo_rich_facts(1), of demo_player_call None "''acct-1''" demo_player] demo_player_resolved
  by (auto simp: demo_player_call_def)

section \<open>The EFT lockout\<close>

interpretation eft: lockout "\<lambda>a s. svc_db s = None \<and> a \<noteq> []" eft_failures eft_until eftFraudMaxFailures
    eftFraudLockoutTTL "\<lambda>e a s. snd (recordEFTFailure e a s)" env_now
  by unfold_locales (auto simp: recordEFTFailure_def Let_def eft_failures_def eft_until_def)

text \<open>
  An account that fails often enough is locked out. When the failures recorded for an account reach
  the limit, every mutation of that account during the time to live after the last failure is
  refused before its body runs; while they stay below the limit, the lockout does not change.
\<close>

theorem eft_lockout:
  assumes "svc_db s = None" "a \<noteq> []" "\<not> mu s" "ledger_authorize ctx meta a = None" "\<not> invalidAmount amt"
    and "idempotency meta \<noteq> []" "es \<noteq> []"
    and "s' = fold (\<lambda>e s. snd (recordEFTFailure e a s)) es s"
  shows "(eftFraudMaxFailures s \<le> eft_failures a s + int (length es) \<longrightarrow>
     env_now e < env_now (last es) + eftFraudLockoutTTL s \<longrightarrow>
     fst (ledger_guarded refuse x e ctx action bad meta a amt body s') =
       Returns (refuse meta RESULT_CODE_DENIED ''eft account locked'')) \<and>
   (eft_failures a s + int (length es) < eftFraudMaxFailures s \<longrightarrow> eft_until a s' = eft_until a s)"
proof -
  have s': "s' = eft.fail_all es a s" using assms(8) by (simp add: eft.fail_all_def)
  have db: "svc_db s' = None"
    using eft.fail_all_facts [of s a es] assms(1,2) s' by simp
  have mu: "\<not> mu s'"
    unfolding assms(8) using assms(3)
    by (induction es arbitrary: s) (auto simp: recordEFTFailure_def ledger_exec_def Let_def split: option.splits prod.splits)
  have "eft_until a s' = env_now (last es) + eftFraudLockoutTTL s"
    if "eftFraudMaxFailures s \<le> eft_failures a s + int (length es)"
    using eft.locked_after [of s a es] assms(1,2,7) that s' by simp
  moreover have "eft_until a s' = eft_until a s" if "eft_failures a s + int (length es) < eftFraudMaxFailures s"
    using eft.unlocked_before [of s a es] assms(1,2) that s' by simp
  ultimately show ?thesis
    using assms(4-6) mu db
    by (simp add: ledger_guarded_def with_lock_def eftLocked_mem eft_until_def)
qed

text \<open>Five failures at time 0 under the default policy: locked a second later.\<close>

theorem eft_lockout_witness:
  "fst (ledger_guarded (tx_refusal demo_env) demo_ext (demo_env\<lparr>env_now := second\<rparr>) None ''withdraw'' ''bad'' (demo_meta ''k1'')
     ''acct-1'' (Some (money 100 ''USD'')) (\<lambda>s. (Blocks, s))
     (fold (\<lambda>e s. snd (recordEFTFailure e ''acct-1'' s)) (replicate 5 demo_env) demo_rich)) =
   Returns (tx_refusal demo_env (demo_meta ''k1'') RESULT_CODE_DENIED ''eft account locked'')"
proof -
  have adm: "admitted demo_env None (demo_meta ''k1'') ''acct-1'' (Some (money 100 ''USD'')) demo_rich"
    by (rule demo_admitted [OF _ refl]) (simp_all add: demo_rich_facts)
  have rich: "svc_db demo_rich = None" "\<not> mu demo_rich" "eftFraudMaxFailures demo_rich = 5"
      "eft_failures ''acct-1'' demo_rich = 0" "eftFraudLockoutTTL demo_rich = 15 * minute"
    by (simp_all add: demo_rich_def NewLedgerService_def eft_failures_def)
  show ?thesis
    using adm rich by (intro eft_lockout [THEN conjunct1, rule_format, where es = "replicate 5 demo_env"])
      (auto simp: admitted_def demo_env_def)
qed

section \<open>Roll-back\<close>

text \<open>The undo step puts back what \<open>addPostings\<close>, the new balance and \<open>appendTransaction\<close> changed.\<close>

lemma undo_restores:
  assumes b1: "b1" and acct: "accounts s (TxAccountId tx) = Some acct" "postingsByTx s (TransactionId tx) = None"
    and post: "addPostings (TransactionId tx) ps s = (b1, s1)"
    and same: "accounts t = accounts (appendTransaction tx (put_account (TxAccountId tx) acct1 s1)) \<and>
      postingsByTx t = postingsByTx (appendTransaction tx (put_account (TxAccountId tx) acct1 s1)) \<and>
      transactionsByAcct t = transactionsByAcct (appendTransaction tx (put_account (TxAccountId tx) acct1 s1)) \<and>
      useInMemoryStateMirror t = useInMemoryStateMirror (appendTransaction tx (put_account (TxAccountId tx) acct1 s1))"
  shows "accounts (undo_mutation (TxAccountId tx) acct (TransactionId tx) t) = accounts s \<and>
      postingsByTx (undo_mutation (TxAccountId tx) acct (TransactionId tx) t) = postingsByTx s \<and>
      (\<forall>b. transactions_of b (undo_mutation (TxAccountId tx) acct (TransactionId tx) t) = transactions_of b s)"
proof (cases "useInMemoryStateMirror s")
  case True
  then have s1: "s1 = s\<lparr>postingsByTx := (postingsByTx s)(TransactionId tx \<mapsto> ps)\<rparr>"
    using post b1 acct(2) by (simp add: addPostings_def postings_of_def split: if_splits)
  have m: "useInMemoryStateMirror s1" "useInMemoryStateMirror (put_account (TxAccountId tx) acct1 s1)" "useInMemoryStateMirror (appendTransaction tx (put_account (TxAccountId tx) acct1 s1))"
    using True by (simp_all add: s1 put_account_def appendTransaction_def useInMemoryStateMirror_def dbEnabled_def)
  have "accounts t = (accounts s)((TxAccountId tx) \<mapsto> acct1)" "postingsByTx t = (postingsByTx s)(TransactionId tx \<mapsto> ps)"
    "transactionsByAcct t = (transactionsByAcct s)((TxAccountId tx) \<mapsto> transactions_of (TxAccountId tx) s @ [tx])" "useInMemoryStateMirror t"
    using same m by (simp_all add: s1 put_account_def appendTransaction_def transactions_of_def)
  moreover have "useInMemoryStateMirror ((put_account (TxAccountId tx) acct t)\<lparr>postingsByTx := p\<rparr>)" for p
    using \<open>useInMemoryStateMirror t\<close> by (simp add: put_account_def useInMemoryStateMirror_def dbEnabled_def)
  ultimately show ?thesis
    using acct
    by (simp add: undo_mutation_def rollbackLastTransaction_def put_account_def transactions_of_def fun_upd_idem)
next
  case False
  then have "s1 = s" using post by (simp add: addPostings_def split: if_splits)
  with False same have t: "accounts t = accounts s" "postingsByTx t = postingsByTx s"
      "transactionsByAcct t = transactionsByAcct s" "\<not> useInMemoryStateMirror t"
    by (simp_all add: appendTransaction_def put_account_def)
  then have "\<not> useInMemoryStateMirror (t\<lparr>postingsByTx := p\<rparr>)" for p
    by (simp add: useInMemoryStateMirror_def dbEnabled_def)
  with t show ?thesis
    using acct(2) by (simp add: undo_mutation_def put_account_def rollbackLastTransaction_def transactions_of_def fun_upd_idem)
qed

text \<open>
  C14: a mutation that fails leaves no trace in memory. If the audit event or the database transaction of
  a mutation fails, then the balances, the postings and the transaction lists are what they were
  before, in every mode of the service.
\<close>

theorem mutation_rolled_back:
  assumes "apply_mutation x e meta action reason tx ps delta acct s = (Inl why, s')"
    and "accounts s (TxAccountId tx) = Some acct" "postingsByTx s (TransactionId tx) = None"
  shows "accounts s' = accounts s \<and> postingsByTx s' = postingsByTx s \<and>
    (\<forall>b. transactions_of b s' = transactions_of b s) \<and>
    (why = ''unbalanced postings'' \<or> why = ''audit unavailable'' \<or> why = ''persistence unavailable'')"
proof -
  let ?acct1 = "acct\<lparr>acct_available := acct_available acct + delta\<rparr>" and ?a = "TxAccountId tx"
  have kept: "accounts t' = accounts t \<and> postingsByTx t' = postingsByTx t \<and> transactionsByAcct t' = transactionsByAcct t \<and>
      useInMemoryStateMirror t' = useInMemoryStateMirror t"
    if "ledger_appendAudit x e meta ot oi ac be af re rs t = (b, t')" for ot oi ac be af re rs t b t'
    using that unfolding ledger_appendAudit_def
    by - (rule svc_append_frame [of x e "\<lambda>n. audit_event e (''audit-'' @ itoa_nat n) meta ot oi ac be af re rs" t],
       auto simp: useInMemoryStateMirror_def dbEnabled_def)
  have kept2: "accounts t' = accounts t \<and> postingsByTx t' = postingsByTx t \<and> transactionsByAcct t' = transactionsByAcct t \<and>
      useInMemoryStateMirror t' = useInMemoryStateMirror t"
    if "persistLedgerMutation x e tx ps st ik t = (b, t')" for st ik t b t'
    using that
    by (auto simp: persistLedgerMutation_def ledger_exec_def useInMemoryStateMirror_def dbEnabled_def
        split: option.splits prod.splits if_splits)
  obtain b1 s1 where post: "addPostings (TransactionId tx) ps s = (b1, s1)" by fastforce
  let ?s2 = "appendTransaction tx (put_account ?a ?acct1 s1)"
  obtain b3 s3 where aud: "ledger_appendAudit x e meta ''ledger_account'' ?a action (snapshotAccount acct)
      (snapshotAccount ?acct1) ResultSuccess reason ?s2 = (b3, s3)" by fastforce
  obtain b4 s4 where per: "persistLedgerMutation x e tx ps ''accepted'' (idempotency meta) s3 = (b4, s4)" by fastforce
  note undo = undo_restores [OF _ assms(2,3) post ]
  have acct0: "acct\<lparr>acct_available := acct_available acct + delta - delta\<rparr> = acct" by simp
  have undo3: "accounts (undo_mutation ?a acct (TransactionId tx) s3) = accounts s \<and>
      postingsByTx (undo_mutation ?a acct (TransactionId tx) s3) = postingsByTx s \<and>
      (\<forall>b. transactions_of b (undo_mutation ?a acct (TransactionId tx) s3) = transactions_of b s)" if b1
    using that kept [OF aud] by (rule undo)
  have undo4: "accounts (undo_mutation ?a acct (TransactionId tx) s4) = accounts s \<and>
      postingsByTx (undo_mutation ?a acct (TransactionId tx) s4) = postingsByTx s \<and>
      (\<forall>b. transactions_of b (undo_mutation ?a acct (TransactionId tx) s4) = transactions_of b s)" if b1
    using kept [OF aud] kept2 [OF per] by (intro undo that) simp
  consider "\<not> b1" "s1 = s" | "b1" "\<not> b3" | "b1" "b3" "\<not> b4" | "b1" "b3" "b4"
    using post by (cases b1; cases b3; cases b4) (auto simp: addPostings_def split: if_splits)
  then show ?thesis
  proof cases
    case 1
    then show ?thesis using assms(1) by (simp add: apply_mutation_def post)
  next
    case 2
    then show ?thesis using assms(1) undo3 by (simp add: apply_mutation_def post aud Let_def acct0)
  next
    case 3
    then show ?thesis using assms(1) undo4
      by (simp add: apply_mutation_def post aud per Let_def acct0)
  next
    case 4
    then show ?thesis using assms(1)
      by (simp add: apply_mutation_def post aud
          per Let_def)
  qed
qed

definition demo_unaudited :: ledger where
  "demo_unaudited = demo_rich\<lparr>svc_AuditStore := None\<rparr>"

definition demo_tx :: ledger_transaction where
  "demo_tx = new_tx demo_env ''tx-1'' ''acct-1'' LEDGER_TRANSACTION_TYPE_DEPOSIT 100 ''USD'' [] ''deposit accepted''"

theorem mutation_rolled_back_witness:
  "\<exists>s'. apply_mutation demo_ext demo_env None ''deposit'' [] demo_tx
      [posting demo_env ''operator_liability'' ''debit'' 100 ''USD'', posting demo_env ''acct-1'' ''credit'' 100 ''USD'']
      100 ((new_account ''acct-1'' ''USD'')\<lparr>acct_available := 500\<rparr>) demo_unaudited = (Inl ''audit unavailable'', s') \<and>
    accounts s' = accounts demo_unaudited \<and> postingsByTx s' = postingsByTx demo_unaudited"
proof -
  let ?acct = "(new_account ''acct-1'' ''USD'')\<lparr>acct_available := 500\<rparr>"
  let ?ps = "[posting demo_env ''operator_liability'' ''debit'' 100 ''USD'', posting demo_env ''acct-1'' ''credit'' 100 ''USD'']"
  have noaudit: "ledger_appendAudit demo_ext demo_env None ot oi ac be af re rs t = (False, t)"
    if "svc_AuditStore t = None" for ot oi ac be af re rs t
    using that by (cases t) (simp add: ledger_appendAudit_def svc_append_def audit_put_def)
  obtain s' where ap: "apply_mutation demo_ext demo_env None ''deposit'' [] demo_tx ?ps 100 ?acct demo_unaudited = (Inl ''audit unavailable'', s')"
    by (simp add: apply_mutation_def addPostings_def posting_pair_balanced Let_def demo_unaudited_def
        appendTransaction_def put_account_def noaudit)
  have "accounts demo_unaudited (TxAccountId demo_tx) = Some ?acct" "postingsByTx demo_unaudited (TransactionId demo_tx) = None"
    by (simp_all add: demo_unaudited_def demo_rich_def demo_tx_def NewLedgerService_def)
  with mutation_rolled_back [OF ap] show ?thesis using ap by blast
qed

end
