(* ===== verification/LedgerTables.thy ===== *)
theory LedgerTables
  imports LedgerGuards
begin

text \<open>
  The ledger with a database. \<open>ledger_tables\<close> is the contract of a property of the tables that the single
  statements keep; every method of the service then keeps it, whatever statement fails. Two facts follow
  about the service on the schema of \<^verbatim>\<open>migrations/000002\<close>: no account ever holds money, and a withdrawal on empty tables
  blocks at the idempotency table, or fails before it when the driver does not take an integer for a text.
\<close>

locale ledger_tables =
  fixes P :: "ledger_db \<Rightarrow> bool"
  assumes faults: "P d \<Longrightarrow> P (d\<lparr>db_faults := fs\<rparr>)"
    and audit: "P d \<Longrightarrow> P (d\<lparr>db_audit_events := evs\<rparr>)"
    and idem: "P d \<Longrightarrow> P (d\<lparr>ledger_idempotency_keys := ks\<rparr>)"
    and lockouts: "P d \<Longrightarrow> P (d\<lparr>ledger_eft_lockouts := ls\<rparr>)"
    and mutation: "P d \<Longrightarrow> P (snd (sql_tx_commit (commit_balanced (TransactionId tx))
        (persist_statements x e tx [posting e from ''debit'' n c, posting e to ''credit'' n c] st ik) d))"
begin

definition keeps :: "ledger \<Rightarrow> bool" where
  "keeps s \<longleftrightarrow> (case svc_db s of None \<Rightarrow> True | Some d \<Rightarrow> P d)"

definition kept :: "'a \<times> ledger \<Rightarrow> bool" where
  "kept m \<longleftrightarrow> keeps (snd m)"

lemma kept_pair [simp]: "kept (r, s) = keeps s"
  by (simp add: kept_def)

lemma keeps_frame [simp]:
  "keeps (s\<lparr>mu := b\<rparr>) = keeps s" "keeps (s\<lparr>accounts := ac\<rparr>) = keeps s"
  "keeps (s\<lparr>nextTransactionID := n\<rparr>) = keeps s" "keeps (s\<lparr>nextTransferID := n\<rparr>) = keeps s"
  "keeps (s\<lparr>postingsByTx := p\<rparr>) = keeps s" "keeps (s\<lparr>transactionsByAcct := tr\<rparr>) = keeps s"
  "keeps (s\<lparr>eftFraudFailures := f\<rparr>) = keeps s" "keeps (s\<lparr>eftFraudLockedUntil := l\<rparr>) = keeps s"
  "keeps (s\<lparr>idempotencyTTL := d1\<rparr>) = keeps s" "keeps (s\<lparr>eftFraudMaxFailures := i\<rparr>) = keeps s"
  "keeps (s\<lparr>eftFraudLockoutTTL := d1\<rparr>) = keeps s" "keeps (s\<lparr>disableInMemIdemCache := b\<rparr>) = keeps s"
  "keeps (s\<lparr>toDeviceByIdempotency := td\<rparr>) = keeps s" "keeps (s\<lparr>svc_AuditStore := st, svc_nextAuditID := n\<rparr>) = keeps s"
  "keeps (tx_cache_put op key r s) = keeps s"
  by (simp_all add: keeps_def) (cases op; simp add: keeps_def)

lemma sql_exec_P: "P d \<Longrightarrow> P (snd (sql_exec d))"
  using sql_exec_tables [of d] faults by metis

lemma query_kept: "keeps s \<Longrightarrow> kept (ledger_query q s)"
  by (auto simp: ledger_query_def keeps_def sql_query_def split_beta Let_def sql_exec_P split: option.splits)

lemma exec_kept:
  assumes "keeps s" "\<And>d. P d \<Longrightarrow> P (snd (q d))"
  shows "kept (ledger_exec q s)"
  using assms by (auto simp: ledger_exec_def keeps_def split_beta split: option.splits)

lemma stmt_kept:
  assumes "\<And>d d'. P d \<Longrightarrow> q d = Some d' \<Longrightarrow> P d'" "P d"
  shows "P (snd (sql_stmt q d))"
  using assms sql_exec_P [of d] by (auto simp: sql_stmt_def split_beta Let_def split: option.splits)

lemma appendAudit_P: "P d \<Longrightarrow> P (snd (appendAuditEventToDB x e ev d))"
proof -
  assume "P d"
  have "P d'" if "q \<in> set [Some, audit_insert x ev']" "P d0" "q d0 = Some d'" for q d0 d' ev'
    using that audit by (auto simp: audit_insert_def Let_def split: if_splits)
  then show ?thesis
    unfolding appendAuditEventToDB_def Let_def sql_tx_def
    by (intro sql_tx_commit_induct [OF \<open>P d\<close> faults]) auto
qed

lemma appendAudit_kept: "keeps s \<Longrightarrow> kept (ledger_appendAudit x e meta ot oi ac be af re rs s)"
  by (auto simp: keeps_def kept_def ledger_appendAudit_def svc_append_def audit_put_def Let_def map_prod_def
      split_beta appendAudit_P split: option.splits if_splits)

lemma auditDenied_keeps [simp]: "keeps s \<Longrightarrow> keeps (ledger_auditDenied x e meta ot oi ac rs s)"
  using appendAudit_kept by (simp add: ledger_auditDenied_def kept_def)

lemma helpers_keep [simp]:
  "keeps (put_account a acct s) = keeps s" "keeps (appendTransaction tx s) = keeps s"
  "keeps (rollbackLastTransaction a s) = keeps s" "keeps (undo_mutation a acct t s) = keeps s"
  "kept (addPostings t ps s) = keeps s" "keeps (cache_tx op key r s) = keeps s" "keeps (cache_device key rd s) = keeps s"
  by (simp_all add: put_account_def appendTransaction_def rollbackLastTransaction_def undo_mutation_def addPostings_def
      cache_tx_def cache_device_def)

lemma lockout_kept:
  "keeps s \<Longrightarrow> kept (eftLocked e a s)" "keeps s \<Longrightarrow> kept (recordEFTFailure e a s)" "keeps s \<Longrightarrow> kept (resetEFTFailures a s)"
proof -
  assume s: "keeps s"
  have up: "P d'" if "P d" "upsert_lockout a fresh upd d = Some d'" for d d' fresh upd
    using that lockouts by (auto simp: upsert_lockout_def split: if_splits)
  show "kept (eftLocked e a s)"
    using query_kept [OF s, of "select_lockout a"] s
    by (auto simp: eftLocked_def kept_def split: prod.splits option.splits)
  show "kept (recordEFTFailure e a s)"
  proof -
    have "P (snd (sql_stmt (record_lockout_failure e m k a) d))" if "P d" for m k d
      using that up by (intro stmt_kept) (auto simp: record_lockout_failure_def split: if_splits)
    then show ?thesis
      using s exec_kept [OF s, of "sql_stmt (record_lockout_failure e m k a)" for m k] by (simp add: recordEFTFailure_def Let_def)
  qed
  show "kept (resetEFTFailures a s)"
    using s exec_kept [OF s, of "sql_stmt (reset_lockout a)"] up
    by (simp add: resetEFTFailures_def reset_lockout_def stmt_kept)
qed

lemma lookups_kept:
  "keeps s \<Longrightarrow> kept (getBalanceFromDB a s)" "keeps s \<Longrightarrow> kept (findTransactionByIdempotency a ty ik s)"
  "keeps s \<Longrightarrow> kept (listTransactionsFromDB x a lim off s)" "keeps s \<Longrightarrow> kept (loadIdempotencyResponse un sc ik h s)"
  "keeps s \<Longrightarrow> kept (mutationAccountState a c s)"
proof -
  assume s: "keeps s"
  note q = query_kept [OF s]
  show bal: "kept (getBalanceFromDB a s)" and "kept (findTransactionByIdempotency a ty ik s)"
    "kept (listTransactionsFromDB x a lim off s)"
    using s by (simp_all add: query_kept getBalanceFromDB_def findTransactionByIdempotency_def listTransactionsFromDB_def)
  show "kept (loadIdempotencyResponse un sc ik h s)"
    using s q [of "select_idempotency sc ik"]
    by (auto simp: loadIdempotencyResponse_def kept_def split: prod.splits option.splits)
  show "kept (mutationAccountState a c s)"
    using s bal
    by (auto simp: mutationAccountState_def getOrCreateAccount_def Let_def kept_def split: prod.splits option.splits)
qed

lemma kept_obtain:
  assumes "kept m"
  obtains r s where "m = (r, s)" "keeps s"
  using assms by (cases m) auto

lemma tx_replay_kept:
  assumes s: "keeps s"
  shows "kept (tx_replay e op ty meta a c sc key h s)"
proof -
  obtain r s1 where 1: "loadIdempotencyResponse unpack_tx sc (idempotency meta) h s = (r, s1)" "keeps s1"
    by (rule kept_obtain [OF lookups_kept(4) [OF s]])
  obtain f s2 where 2: "findTransactionByIdempotency a ty (idempotency meta) s1 = (f, s2)" "keeps s2"
    by (rule kept_obtain [OF lookups_kept(2) [OF 1(2)]])
  obtain b s3 where 3: "getBalanceFromDB a s2 = (b, s3)" "keeps s3"
    by (rule kept_obtain [OF lookups_kept(1) [OF 2(2)]])
  show ?thesis
    using s 1(2) 2(2) 3(2)
    by (simp add: tx_replay_def 1(1) 2(1) 3(1) Let_def split: option.split load.split prod.split)
qed

lemma device_replay_kept:
  assumes s: "keeps s"
  shows "kept (device_replay e meta sc key h s)"
proof -
  obtain r s1 where 1: "loadIdempotencyResponse unpack_device sc (idempotency meta) h s = (r, s1)" "keeps s1"
    by (rule kept_obtain [OF lookups_kept(4) [OF s]])
  show ?thesis using s 1(2) by (simp add: device_replay_def 1(1) split: option.split load.split)
qed

lemma persistMutation_kept:
  "keeps s \<Longrightarrow> kept (persistLedgerMutation x e tx [posting e from ''debit'' n c, posting e to ''credit'' n c] st ik s)"
  by (auto simp: persistLedgerMutation_def intro!: exec_kept mutation)

lemma apply_mutation_kept:
  assumes "keeps s"
  shows "kept (apply_mutation x e meta ac rs tx [posting e from ''debit'' n c, posting e to ''credit'' n c] delta acct s)"
proof -
  let ?acct1 = "acct\<lparr>acct_available := acct_available acct + delta\<rparr>"
  let ?ps = "[posting e from ''debit'' n c, posting e to ''credit'' n c]"
  obtain b1 s1 where 1: "addPostings (TransactionId tx) ?ps s = (b1, s1)" "keeps s1"
    using assms by (metis helpers_keep(5) kept_obtain)
  let ?s2 = "appendTransaction tx (put_account (TxAccountId tx) ?acct1 s1)"
  have "keeps ?s2" using 1(2) by simp
  then obtain b3 s3 where 3: "ledger_appendAudit x e meta ''ledger_account'' (TxAccountId tx) ac (snapshotAccount acct)
      (snapshotAccount ?acct1) ResultSuccess rs ?s2 = (b3, s3)" "keeps s3"
    by (rule kept_obtain [OF appendAudit_kept])
  obtain b4 s4 where 4: "persistLedgerMutation x e tx ?ps ''accepted'' (idempotency meta) s3 = (b4, s4)" "keeps s4"
    by (rule kept_obtain [OF persistMutation_kept [OF 3(2)]])
  show ?thesis
    using 1(2) 3(2) 4(2)
    by (cases b1; cases b3; cases b4) (simp_all add: apply_mutation_def 1(1) 3(1) 4(1) Let_def)
qed

lemma with_lock_kept:
  assumes "keeps s" "\<And>t. keeps t \<Longrightarrow> kept (body t)"
  shows "kept (with_lock body s)"
  using assms(2) [of "s\<lparr>mu := True\<rparr>"] assms(1)
  by (auto simp: with_lock_def kept_def split: outcome.splits prod.splits)

lemma getIdempotencyTTL_kept: "keeps s \<Longrightarrow> kept (getIdempotencyTTL s)"
  unfolding getIdempotencyTTL_def by (rule with_lock_kept) simp_all

lemma persistIdempotency_kept:
  assumes "keeps s"
  shows "kept (persistIdempotencyResponse x e sc ik h code pay s)"
proof -
  have ins: "P d'" if "P d" "insert_idempotency x sc ik h pay rc ex d = Some d'" for d d' rc ex
    using that idem by (auto simp: insert_idempotency_def split: option.splits if_splits)
  obtain r s1 where 1: "getIdempotencyTTL s = (r, s1)" "keeps s1"
    by (rule kept_obtain [OF getIdempotencyTTL_kept [OF assms]])
  have "kept (ledger_exec (sql_stmt (insert_idempotency x sc ik h pay rc ex)) s1)" for rc ex
    using 1(2) by (rule exec_kept) (rule stmt_kept [OF ins])
  then show ?thesis
    using assms 1(2)
    by (simp add: persistIdempotencyResponse_def 1(1) kept_def split_beta split: outcome.split)
qed

lemma and_then_kept:
  assumes "kept m" "\<And>a t. keeps t \<Longrightarrow> kept (k a t)"
  shows "kept (and_then m k)"
  using assms by (cases m) (auto simp: and_then_def split: outcome.split)

lemma store_kept:
  "keeps s \<Longrightarrow> kept (store_tx_response x e op meta sc key h r s)"
  "keeps s \<Longrightarrow> kept (store_device_response x e meta sc key h rd s)"
  by (auto simp: store_tx_response_def store_device_response_def intro!: and_then_kept persistIdempotency_kept)

lemma tx_post_kept:
  "keeps s \<Longrightarrow> kept (tx_post x e op meta ac sc key h tx [posting e from ''debit'' n c, posting e to ''credit'' n c] delta acct s)"
proof -
  assume "keeps s"
  then obtain r s1 where 1: "apply_mutation x e meta ac [] tx [posting e from ''debit'' n c, posting e to ''credit'' n c]
      delta acct s = (r, s1)" "keeps s1"
    by (rule kept_obtain [OF apply_mutation_kept])
  then show ?thesis
    by (auto simp: tx_post_def Let_def lockout_kept(3) [unfolded kept_def] intro!: and_then_kept store_kept split: sum.split)
qed

lemma tx_locked_kept:
  assumes s: "keeps s" and k: "\<And>acct t. keeps t \<Longrightarrow> kept (k acct t)"
  shows "kept (tx_locked e op ty meta a c sc key h k s)"
proof -
  obtain r s1 where 1: "tx_replay e op ty meta a c sc key h s = (r, s1)" "keeps s1"
    by (rule kept_obtain [OF tx_replay_kept [OF s]])
  obtain acct s2 where 2: "mutationAccountState a c s1 = (acct, s2)" "keeps s2"
    by (rule kept_obtain [OF lookups_kept(5) [OF 1(2)]])
  show ?thesis using 1(2) 2(2) k by (simp add: tx_locked_def 1(1) 2(1) split: option.split)
qed

lemma denied_kept:
  assumes s: "keeps s"
  shows "kept (withdraw_denied x e meta a sc key h acct s)" "kept (device_denied x e meta a sc key h acct s)"
proof -
  obtain ok s1 where 1: "recordEFTFailure e a s = (ok, s1)" "keeps s1"
    by (rule kept_obtain [OF lockout_kept(2) [OF s]])
  show "kept (withdraw_denied x e meta a sc key h acct s)" "kept (device_denied x e meta a sc key h acct s)"
    using 1(2) by (auto simp: withdraw_denied_def device_denied_def 1(1) Let_def intro!: and_then_kept store_kept)
qed

lemma device_transfer_kept:
  assumes s: "keeps s"
  shows "kept (device_transfer x e r sc key h acct s)"
proof -
  let ?c = "Currency (the (Req_Amount r))" and ?a = "Req_AccountId r"
  obtain n status reason where plan:
    "transfer_plan (acct_available acct) (AmountMinor (the (Req_Amount r))) = (n, status, reason)" by (metis prod_cases3)
  let ?tx = "new_tx e (tx_id (Suc (nextTransactionID s))) ?a LEDGER_TRANSACTION_TYPE_TRANSFER_TO_DEVICE n ?c [] ''transfer to device''"
  have "keeps (s\<lparr>nextTransactionID := Suc (nextTransactionID s)\<rparr>)" using s by simp
  then obtain q s1 where 1: "apply_mutation x e (Req_Meta r) ''transfer_to_device'' reason ?tx
      [posting e ?a ''debit'' n ?c, posting e (''device_escrow:'' @ Req_DeviceId r) ''credit'' n ?c] (- n) acct
      (s\<lparr>nextTransactionID := Suc (nextTransactionID s)\<rparr>) = (q, s1)" "keeps s1"
    by (rule kept_obtain [OF apply_mutation_kept])
  then show ?thesis
    by (auto simp: device_transfer_def plan nextTxIDLocked_eq nextTransferIDLocked_def Let_def
        lockout_kept(3) [unfolded kept_def] intro!: and_then_kept store_kept split: sum.split)
qed

lemma device_locked_kept:
  assumes s: "keeps s"
  shows "kept (device_locked x e r s)"
proof -
  let ?a = "Req_AccountId r" and ?c = "Currency (the (Req_Amount r))" and ?m = "Req_Meta r"
  let ?sc = "idemScope ?a ''transfer_to_device''" and ?key = "?a @ ''|to_device|'' @ idempotency ?m"
  let ?h = "hashRequest x [?sc, Req_DeviceId r, ?c, itoa (sint (AmountMinor (the (Req_Amount r))))]"
  obtain q s1 where 1: "device_replay e ?m ?sc ?key ?h s = (q, s1)" "keeps s1"
    by (rule kept_obtain [OF device_replay_kept [OF s]])
  obtain acct s2 where 2: "mutationAccountState ?a ?c s1 = (acct, s2)" "keeps s2"
    by (rule kept_obtain [OF lookups_kept(5) [OF 1(2)]])
  show ?thesis
    using 1 2 denied_kept device_transfer_kept by (simp add: device_locked_def Let_def split: option.split)
qed

lemma guarded_kept:
  assumes s: "keeps s" and body: "\<And>t. keeps t \<Longrightarrow> kept (body t)"
  shows "kept (ledger_guarded refuse x e ctx ac bad meta a amt body s)"
proof -
  have "kept (with_lock (\<lambda>s. case eftLocked e a s of
        (None, s1) \<Rightarrow> (Returns (refuse meta RESULT_CODE_ERROR ''persistence unavailable''), s1)
      | (Some locked, s1) \<Rightarrow>
          if locked then (Returns (refuse meta RESULT_CODE_DENIED ''eft account locked''),
             ledger_auditDenied x e meta ''ledger_account'' a ac ''eft account locked'' s1)
          else body s1) s)"
  proof (rule with_lock_kept [OF s])
    fix t assume "keeps t"
    then obtain q s1 where 1: "eftLocked e a t = (q, s1)" "keeps s1" by (rule kept_obtain [OF lockout_kept(1)])
    then show "kept (case eftLocked e a t of
        (None, s1) \<Rightarrow> (Returns (refuse meta RESULT_CODE_ERROR ''persistence unavailable''), s1)
      | (Some locked, s1) \<Rightarrow>
          if locked then (Returns (refuse meta RESULT_CODE_DENIED ''eft account locked''),
             ledger_auditDenied x e meta ''ledger_account'' a ac ''eft account locked'' s1)
          else body s1)"
      using body by (simp split: option.split)
  qed
  with s show ?thesis by (simp add: ledger_guarded_def split: option.split)
qed

lemma react_keeps: "keeps s \<Longrightarrow> keeps (ledger_react x i s)"
proof -
  assume s: "keeps s"
  note parts = guarded_kept tx_locked_kept tx_post_kept denied_kept device_locked_kept
  have "kept (Deposit x e ctx r1 s)" "kept (Withdraw x e ctx r2 s)" "kept (TransferToAccount x e ctx r2 s)"
    "kept (TransferToDevice x e ctx r3 s)" for e ctx r1 r2 r3
    using s by (auto simp: Deposit_def Withdraw_def TransferToAccount_def TransferToDevice_def deposit_post_def
        withdraw_post_def to_account_post_def Let_def nextTxIDLocked_eq intro!: parts split: option.split)
  moreover have "kept (GetBalance x e ctx r4 s)" "kept (ListTransactions x e ctx r5 s)" for e ctx r4 r5
    using s lookups_kept(1,3)
    by (auto simp: GetBalance_def ListTransactions_def Let_def kept_def split_beta intro!: with_lock_kept [unfolded kept_def]
        split: option.split prod.split)
  moreover have "kept (SetIdempotencyTTL t s)" "kept (SetEFTFraudPolicy n t s)"
    "kept (SetDisableInMemoryIdempotencyCache b s)" for t n b
    using s by (auto simp: SetIdempotencyTTL_def SetEFTFraudPolicy_def SetDisableInMemoryIdempotencyCache_def
        intro!: with_lock_kept)
  ultimately show ?thesis
    by (cases "(x, i, s)" rule: ledger_react.cases) (simp_all add: kept_def)
qed

lemma run_keeps: "keeps s \<Longrightarrow> keeps (fold (ledger_react x) is s)"
  by (induction "is" arbitrary: s) (auto intro: react_keeps)

end

section \<open>No money enters the database\<close>

definition zero_db :: "ledger_db \<Rightarrow> bool" where
  "zero_db d \<longleftrightarrow> list_all (\<lambda>r. ar_available r = 0) (ledger_accounts d)"

lemma sql_all_True:
  assumes "sql_all (q # qs) d = (True, d')"
  shows "\<exists>fs d2. q (d\<lparr>db_faults := fs\<rparr>) = Some d2 \<and> sql_all qs d2 = (True, d')"
proof (cases "db_faults d")
  case Nil
  then have "sql_exec d = (True, d)" by (simp add: sql_exec_def)
  with assms show ?thesis
    by (intro exI [of _ "db_faults d"]) (auto split: option.splits)
next
  case (Cons f fs)
  with assms show ?thesis
    by (intro exI [of _ fs]) (auto simp: sql_exec_def split: option.splits if_splits)
qed

lemma ensure_zero:
  assumes "ensureLedgerAccountTx x a c d = Some d'"
  shows "zero_db d \<Longrightarrow> zero_db d'" "\<exists>r \<in> set (ledger_accounts d'). ar_account_id r = a"
    "set (ledger_accounts d) \<subseteq> set (ledger_accounts d')"
  using assms by (auto simp: ensureLedgerAccountTx_def zero_db_def Let_def split: option.splits if_splits)

lemma insert_accounts:
  "insert_transaction x e tx st ik d = Some d' \<Longrightarrow> ledger_accounts d' = ledger_accounts d"
  "insert_posting x t p d = Some d' \<Longrightarrow> ledger_accounts d' = ledger_accounts d \<and> 0 < sint (post_amount p)"
  by (auto simp: insert_transaction_def insert_posting_def Let_def split: option.splits if_splits)

lemma adjust_zero_fails:
  assumes "zero_db d" "r \<in> set (ledger_accounts d)" "ar_account_id r = a" "0 < sint n"
  shows "adjust_balance (posting e a ''debit'' n c) d = None"
proof -
  have "sint (- n) = - sint n"
    using sint_i64_sub [of 0 n] sint_i64_bounds [of n] assms(4) by simp
  moreover have "ar_available r = 0" using assms(1,2) by (auto simp: zero_db_def list_all_iff)
  ultimately have "ar_available (adjust_row a (sint (- n)) r) < 0"
    using assms(3,4) by (simp add: adjust_row_def)
  moreover have "adjust_row a (sint (- n)) r \<in> set (map (adjust_row a (sint (- n))) (ledger_accounts d))"
    using assms(2) by simp
  ultimately have "\<exists>r' \<in> set (map (adjust_row a (sint (- n))) (ledger_accounts d)). ar_available r' < 0 \<or> i64_max < ar_available r'"
    by blast
  then show ?thesis by (simp add: adjust_balance_def Let_def posting_def posting_delta_def)
qed

lemma zero_mutation_fails:
  assumes "zero_db d"
  shows "\<not> fst (sql_all (Some # persist_statements x e tx [posting e from ''debit'' n c, posting e to ''credit'' n c] st ik
      @ [commit_balanced t]) d)"
proof
  let ?p = "posting e from ''debit'' n c" and ?q = "posting e to ''credit'' n c"
  let ?D = "\<lambda>d f. d\<lparr>db_faults := f\<rparr>"
  assume "fst (sql_all (Some # persist_statements x e tx [?p, ?q] st ik @ [commit_balanced t]) d)"
  then obtain d' where run: "sql_all (Some # persist_statements x e tx [?p, ?q] st ik @ [commit_balanced t]) d = (True, d')"
    by (metis (full_types) prod.collapse)
  have sel: "post_accountID ?p = from" "post_currency ?p = c" "post_accountID ?q = to" "post_currency ?q = c" "post_amount ?p = n"
    by (simp_all add: posting_def)
  let ?rest = "[insert_transaction x e tx st ik, insert_posting x (TransactionId tx) ?p, insert_posting x (TransactionId tx) ?q,
      adjust_balance ?p, adjust_balance ?q, commit_balanced t]"
  have "persist_statements x e tx [?p, ?q] st ik @ [commit_balanced t] =
      ensureLedgerAccountTx x from c # ensureLedgerAccountTx x to c # ?rest"
    by (simp add: persist_statements_def sel)
  from sql_all_True [OF run [unfolded this]] obtain f1 d1 where 1: "d1 = ?D d f1"
    and r1: "sql_all (ensureLedgerAccountTx x from c # ensureLedgerAccountTx x to c # ?rest) d1 = (True, d')"
    by blast
  from sql_all_True [OF r1] obtain f2 d2 where 2: "ensureLedgerAccountTx x from c (?D d1 f2) = Some d2"
    and r2: "sql_all (ensureLedgerAccountTx x to c # ?rest) d2 = (True, d')" by blast
  from sql_all_True [OF r2] obtain f3 d3 where 3: "ensureLedgerAccountTx x to c (?D d2 f3) = Some d3"
    and r3: "sql_all ?rest d3 = (True, d')" by blast
  from sql_all_True [OF r3] obtain f4 d4 where 4: "insert_transaction x e tx st ik (?D d3 f4) = Some d4"
    and r4: "sql_all (insert_posting x (TransactionId tx) ?p # insert_posting x (TransactionId tx) ?q # adjust_balance ?p # adjust_balance ?q # [commit_balanced t]) d4 = (True, d')" by blast
  from sql_all_True [OF r4] obtain f5 d5 where 5: "insert_posting x (TransactionId tx) ?p (?D d4 f5) = Some d5"
    and r5: "sql_all (insert_posting x (TransactionId tx) ?q # adjust_balance ?p # adjust_balance ?q # [commit_balanced t]) d5 = (True, d')" by blast
  from sql_all_True [OF r5] obtain f6 d6 where 6: "insert_posting x (TransactionId tx) ?q (?D d5 f6) = Some d6"
    and r6: "sql_all (adjust_balance ?p # adjust_balance ?q # [commit_balanced t]) d6 = (True, d')" by blast
  from sql_all_True [OF r6] obtain f7 d7 where 7: "adjust_balance ?p (?D d6 f7) = Some d7" by blast
  have frame: "zero_db (?D d f) = zero_db d" "ledger_accounts (?D d f) = ledger_accounts d" for d f by (simp_all add: zero_db_def)
  have "zero_db d3" "\<exists>r \<in> set (ledger_accounts d3). ar_account_id r = from"
    using ensure_zero [OF 2] ensure_zero [OF 3] assms 1 by (auto simp: frame)
  moreover have "ledger_accounts (?D d6 f7) = ledger_accounts d3" "0 < sint n"
    using insert_accounts(1) [OF 4] insert_accounts(2) [OF 5] insert_accounts(2) [OF 6] sel by (auto simp: frame)
  ultimately have "adjust_balance ?p (?D d6 f7) = None"
    using adjust_zero_fails [of "?D d6 f7" _ "from" n e c] by (auto simp: zero_db_def)
  with 7 show False by simp
qed

interpretation zero: ledger_tables zero_db
proof
  show "zero_db (snd (sql_tx_commit (commit_balanced (TransactionId tx))
      (persist_statements x e tx [posting e from ''debit'' n c, posting e to ''credit'' n c] st ik) d))"
    if "zero_db d" for d tx x e "from" n c to st ik
    using zero_mutation_fails [OF that, of x e tx "from" n c to st ik "TransactionId tx"] that
    by (auto simp: sql_tx_commit_def split_beta Let_def zero_db_def simp del: sql_all.simps)
qed (simp_all add: zero_db_def)

text \<open>
  C15: with a database whose balances are all zero (an empty one, for a start), no sequence of calls ever gives
  any account a balance: each mutation first debits its source, whose row starts at zero, and the
  schema's CHECK on the balance refuses the debit. The code is at odds here with its own integration tests, which expect 750 after a
  deposit of 1000 and a withdrawal of 250 on empty tables (\<^verbatim>\<open>postgres_integration_test.go\<close>,
  \<^verbatim>\<open>TestPostgresLedgerIdempotencyReplayAcrossRestart\<close> and \<^verbatim>\<open>TestPostgresLedgerMutationAfterRestartUsesDurableBalance\<close>); those tests are
  skipped unless \<^verbatim>\<open>RGS_TEST_DATABASE_URL\<close> is set.
\<close>

theorem ledger_db_stays_empty:
  assumes "zero_db d"
  shows "case svc_db (fold (ledger_react x) is (NewLedgerService (Some d))) of
     None \<Rightarrow> True | Some d' \<Rightarrow> list_all (\<lambda>r. ar_available r = 0) (ledger_accounts d')"
proof -
  have "zero.keeps (NewLedgerService (Some d))"
    using assms by (simp add: zero.keeps_def NewLedgerService_def)
  then have "zero.keeps (fold (ledger_react x) is (NewLedgerService (Some d)))" by (rule zero.run_keeps)
  then show ?thesis by (simp add: zero.keeps_def zero_db_def split: option.splits)
qed

text \<open>An empty database in which nothing fails.\<close>

definition demo_db :: ledger_db where
  "demo_db = \<lparr>db_faults = [], db_int_text = True, db_audit_events = [], ledger_accounts = [], ledger_transactions = [],
     ledger_postings = [], ledger_idempotency_keys = [], ledger_eft_lockouts = []\<rparr>"

theorem ledger_db_stays_empty_witness:
  "case svc_db (fold (ledger_react demo_ext) demo_run (NewLedgerService (Some demo_db))) of
     None \<Rightarrow> True | Some d' \<Rightarrow> list_all (\<lambda>r. ar_available r = 0) (ledger_accounts d')"
  by (rule ledger_db_stays_empty) (simp add: demo_db_def zero_db_def)

section \<open>The deadlock\<close>

text \<open>
  The response is stored under the lock, and storing it locks again.
\<close>

lemma store_blocks:
  assumes "svc_db s \<noteq> None" "mu s"
  shows "store_tx_response x e op meta sc key h r s = (Blocks, s)"
    "store_device_response x e meta sc key h rd s = (Blocks, s)"
  using assms
  by (simp_all add: store_tx_response_def store_device_response_def persistIdempotencyResponse_def dbEnabled_def
      getIdempotencyTTL_def with_lock_def and_then_def)

lemma recordEFTFailure_db:
  assumes "svc_db t = Some d" "db_faults d = []" "a \<noteq> []"
  shows "db_int_text d \<Longrightarrow> \<exists>u. recordEFTFailure e a t = (True, u) \<and> mu u = mu t \<and> svc_db u \<noteq> None"
    and "\<not> db_int_text d \<Longrightarrow> recordEFTFailure e a t = (False, t)"
  using assms
  by (cases t; simp add: recordEFTFailure_def dbEnabled_def ledger_exec_def sql_stmt_def sql_exec_def Let_def
      record_lockout_failure_def upsert_lockout_def)+

lemma auditDenied_db:
  "mu (ledger_auditDenied x e m ot oi ac rs u) = mu u"
  "svc_db (ledger_auditDenied x e m ot oi ac rs u) = None \<longleftrightarrow> svc_db u = None"
proof -
  let ?mk = "\<lambda>k. audit_event e (''audit-'' @ itoa_nat k) m ot oi ac json_empty json_empty ResultDenied rs"
  obtain st n db where "svc_append x e ?mk u =
      (fst (svc_append x e ?mk u), u\<lparr>svc_AuditStore := st, svc_nextAuditID := n, svc_db := db\<rparr>)"
    and "db = None \<longleftrightarrow> svc_db u = None"
    by (rule svc_append_frame)
  then have "snd (svc_append x e ?mk u) = u\<lparr>svc_AuditStore := st, svc_nextAuditID := n, svc_db := db\<rparr>"
    "db = None \<longleftrightarrow> svc_db u = None" by (metis snd_conv)+
  then show "mu (ledger_auditDenied x e m ot oi ac rs u) = mu u"
    "svc_db (ledger_auditDenied x e m ot oi ac rs u) = None \<longleftrightarrow> svc_db u = None"
    by (simp_all add: ledger_auditDenied_def ledger_appendAudit_def)
qed

text \<open>
  A withdrawal beyond the balance, on empty tables in which no statement fails. When the failure is counted, the service goes on to
  store its answer, which blocks with the mutex held; every method that takes the mutex blocks from then on. When the driver refuses
  the statement that counts the failure, the answer is an error. In neither case is it a denial.
\<close>

definition empty_ledger :: "ledger_db \<Rightarrow> bool" where
  "empty_ledger d \<longleftrightarrow> db_faults d = [] \<and> ledger_accounts d = [] \<and> ledger_transactions d = [] \<and> ledger_idempotency_keys d = [] \<and>
     ledger_eft_lockouts d = []"

lemma withdraw_empty_tables:
  fixes r :: amount_request
  assumes "svc_db s = Some d" "empty_ledger d" "\<not> mu s"
    and "Req_AccountId r \<noteq> []" "ledger_authorize ctx (Req_Meta r) (Req_AccountId r) = None"
    and "\<not> invalidAmount (Req_Amount r)" "idempotency (Req_Meta r) \<noteq> []"
    and "withdrawByIdempotency s (Req_AccountId r @ ''|withdraw|'' @ idempotency (Req_Meta r)) = None"
  obtains u where "db_int_text d \<Longrightarrow> Withdraw x e ctx (Some r) s = (Blocks, u) \<and> mu u"
    and "\<not> db_int_text d \<Longrightarrow> Withdraw x e ctx (Some r) s = (Returns (tx_refusal e (Req_Meta r) RESULT_CODE_ERROR ''persistence unavailable''), u)"
proof -
  let ?a = "Req_AccountId r" and ?m = "Req_Meta r" and ?s = "s\<lparr>mu := True\<rparr>"
  obtain n c where amt: "Req_Amount r = Some (money n c)" "0 < sint n"
    using assms(6) by (auto simp: not_invalidAmount money_def) (metis money.surjective old.unit.exhaust)
  let ?sc = "idemScope ?a ''withdraw''" and ?k = "?a @ ''|withdraw|'' @ idempotency ?m" and ?ty = LEDGER_TRANSACTION_TYPE_WITHDRAWAL
  let ?h = "hashRequest x [?sc, c, itoa (sint n)]" and ?t = "put_account ?a (new_account ?a c) ?s"
  have new: "acct_available (new_account ?a c) = 0" "acct_currency (new_account ?a c) = c"
    by (simp_all add: new_account_def)
  note d = assms(2) [unfolded empty_ledger_def]
  have db: "svc_db ?s = Some d" "dbEnabled ?s" using assms(1) by (simp_all add: dbEnabled_def)
  have q: "ledger_query f ?s = (Some (f d), ?s)" for f :: "ledger_db \<Rightarrow> 'z"
    using db(1) d by (cases s) (simp add: ledger_query_def sql_query_def sql_exec_def)
  have replay: "tx_replay e OpWithdraw ?ty ?m ?a c ?sc ?k ?h ?s = (None, ?s)"
    using db assms(8) d
    by (simp add: tx_replay_def loadIdempotencyResponse_def findTransactionByIdempotency_def
        q select_idempotency_def select_by_idempotency_def newest_first_def)
  have acct: "mutationAccountState ?a c ?s = (Some (new_account ?a c), ?t)"
    using db d by (simp add: mutationAccountState_def getBalanceFromDB_def q select_balance_def Let_def)
  have t: "svc_db ?t = Some d" "mu ?t" using db(1) by (simp_all add: put_account_def)
  have lock: "Withdraw x e ctx (Some r) s = with_lock (tx_locked e OpWithdraw ?ty ?m ?a c ?sc ?k ?h (withdraw_post x e r ?sc ?k ?h)) s"
    using assms(3-7) amt db d
    by (simp add: Withdraw_def Let_def ledger_guarded_def with_lock_def eftLocked_def q select_lockout_def)
  have locked: "tx_locked e OpWithdraw ?ty ?m ?a c ?sc ?k ?h (withdraw_post x e r ?sc ?k ?h) ?s =
      withdraw_denied x e ?m ?a ?sc ?k ?h (new_account ?a c) ?t"
    unfolding tx_locked_def replay using amt by (simp add: acct withdraw_post_def Let_def and_then_def new)
  show thesis
  proof (cases "db_int_text d")
    case True
    obtain u where rec: "recordEFTFailure e ?a ?t = (True, u)" "mu u" "svc_db u \<noteq> None"
      using recordEFTFailure_db(1) [OF t(1) _ assms(4) True, of e] d t(2) by blast
    let ?v = "ledger_auditDenied x e ?m ''ledger_account'' ?a ''withdraw'' ''insufficient balance'' u"
    have v: "mu ?v" "svc_db ?v \<noteq> None" using rec(2,3) by (simp_all add: auditDenied_db)
    have "withdraw_denied x e ?m ?a ?sc ?k ?h (new_account ?a c) ?t = (Blocks, ?v)"
      using v by (simp add: withdraw_denied_def Let_def rec(1) store_blocks and_then_def new)
    then show thesis using that [of ?v] lock locked v(1) True assms(3) by (simp add: with_lock_def)
  next
    case False
    have "withdraw_denied x e ?m ?a ?sc ?k ?h (new_account ?a c) ?t = (Returns (tx_refusal e ?m RESULT_CODE_ERROR ''persistence unavailable''), ?t)"
      using recordEFTFailure_db(2) [OF t(1) _ assms(4) False, of e] d by (simp add: withdraw_denied_def)
    then show thesis using that [of "?t\<lparr>mu := False\<rparr>"] lock locked False assms(3) by (simp add: with_lock_def)
  qed
qed

lemma blocked_balance: "mu u \<Longrightarrow> ledger_authorize ctx (Req_Meta q) (Req_AccountId q) = None \<Longrightarrow> Req_AccountId q \<noteq> [] \<Longrightarrow>
    fst (GetBalance x e ctx (Some q) u) = Blocks" for q :: account_request
  by (simp add: GetBalance_def with_lock_def)

section \<open>Listings\<close>

text \<open>A page of \<^verbatim>\<open>ListTransactions\<close>, as a client that follows the tokens reads it.\<close>

definition list_page ::
    "ext \<Rightarrow> env \<Rightarrow> auth_actor option \<Rightarrow> list_request \<Rightarrow> ledger \<Rightarrow> string \<Rightarrow> ledger_transaction list \<times> string" where
  "list_page x e ctx r s token =
     (case fst (ListTransactions x e ctx (Some (r\<lparr>Req_PageToken := token\<rparr>)) s) of
        Returns resp \<Rightarrow> (ListTransactionsItems resp, ListNextPageToken resp)
      | _ \<Rightarrow> ([], []))"

text \<open>
  Following the page tokens of ListTransactions from the first page reads every transaction of the
  account exactly once, in order, and ends; a client needs at most one call more than there are transactions,
  for every page size it asks for.
\<close>

theorem list_transactions_complete:
  assumes "ledger_idle x s" "Req_AccountId r \<noteq> []" "ledger_authorize ctx (Req_Meta r) (Req_AccountId r) = None"
    and "int (length (transactions_of (Req_AccountId r) s)) \<le> i64_max"
  shows "walk (Suc (length (transactions_of (Req_AccountId r) s))) (list_page x e ctx r s) [] =
    Some (transactions_of (Req_AccountId r) s)"
proof -
  have "list_page x e ctx r s token = page_window (Suc 49) token (Req_PageSize r) (transactions_of (Req_AccountId r) s)" for token
    using assms(1-3)
    by (simp add: list_page_def ListTransactions_def Let_def with_lock_def ledger_idle_def mem_core_def split_beta)
       (simp add: transactions_of_def)
  then have eq: "list_page x e ctx r s = (\<lambda>token. page_window (Suc 49) token (Req_PageSize r) (transactions_of (Req_AccountId r) s))"
    by blast
  show ?thesis unfolding eq by (rule mem_pages.walk_complete [OF assms(4)])
qed

theorem list_transactions_complete_witness:
  "walk (Suc (length (transactions_of ''acct-1'' demo_funded)))
     (list_page demo_ext demo_env None \<lparr>Req_Meta = demo_meta ''k1'', Req_AccountId = ''acct-1'', Req_PageSize = 1, Req_PageToken = []\<rparr>
        demo_funded) [] = Some (transactions_of ''acct-1'' demo_funded) \<and>
   length (transactions_of ''acct-1'' demo_funded) = 1"
proof -
  have adm: "admitted demo_env None (demo_meta ''k1'') ''acct-1'' (Some (money 100 ''USD'')) demo_start"
    by (rule demo_admitted [OF _ refl]) simp_all
  have idle: "ledger_idle demo_ext demo_funded"
    unfolding ledger_runs_def by (rule ledger_sim.always_inv) simp
  have len: "length (transactions_of ''acct-1'' demo_funded) = 1"
    using demo_run_posted by (auto simp: posted_def transactions_of_def NewLedgerService_def)
  show ?thesis
    using list_transactions_complete [OF idle, of "\<lparr>Req_Meta = demo_meta ''k1'', Req_AccountId = ''acct-1'',
        Req_PageSize = 1, Req_PageToken = []\<rparr>" None demo_env] adm len
    by (simp add: admitted_def)
qed

section \<open>Overflow\<close>

text \<open>
  Balances are not protected against overflow. A deposit that takes a balance past the largest
  64-bit integer is accepted, answered OK, and leaves the account with a negative balance.
\<close>

theorem deposit_overflow_wraps:
  fixes r :: deposit_request
  assumes "ledger_idle x s" "admitted e ctx (Req_Meta r) (Req_AccountId r) (Some (money n c)) s"
    and "Req_Amount r = Some (money n c)" "fits_currency (Req_AccountId r) c s"
    and "depositByIdempotency s (Req_AccountId r @ ''|deposit|'' @ idempotency (Req_Meta r)) = None"
    and "i64_max < sint (balance_of (Req_AccountId r) (accounts s)) + sint n"
  shows "\<exists>resp s'. Deposit x e ctx (Some r) s = (Returns resp, s') \<and> ResultCode (RespMeta resp) = RESULT_CODE_OK \<and>
    sint (balance_of (Req_AccountId r) (accounts s')) < 0"
proof -
  let ?b = "balance_of (Req_AccountId r) (accounts s)"
  have "sint (?b + n) = signed_take_bit 63 (sint ?b + sint n)" by (simp add: sint_word_ariths)
  also have "\<dots> \<le> sint ?b + sint n - 2 ^ Suc 63"
    using assms(6) by (intro signed_take_bit_int_less_eq) simp
  finally have "sint (?b + n) < 0" using sint_i64_bounds [of ?b] sint_i64_bounds [of n] by simp
  moreover obtain tx resp s' where "Deposit x e ctx (Some r) s = (Returns resp, s')"
      "ResultCode (RespMeta resp) = RESULT_CODE_OK"
      "posted (Req_AccountId r) c n tx [posting e ''operator_liability'' ''debit'' n c, posting e (Req_AccountId r) ''credit'' n c] s s'"
    using Deposit_fresh [OF assms(1-5)] by blast
  ultimately show ?thesis using posted_balance by auto
qed

theorem deposit_overflow_wraps_witness:
  "\<exists>resp s'. Deposit demo_ext demo_env None (Some (demo_deposit 9223372036854775807)) demo_rich = (Returns resp, s') \<and>
     ResultCode (RespMeta resp) = RESULT_CODE_OK \<and> sint (balance_of ''acct-1'' (accounts s')) < 0"
proof -
  have "admitted demo_env None (demo_meta ''k1'') ''acct-1'' (Some (money 9223372036854775807 ''USD'')) demo_rich"
    by (rule demo_admitted [OF _ refl]) (simp_all add: demo_rich_facts)
  moreover have "depositByIdempotency demo_rich = Map.empty" by (simp add: demo_rich_def NewLedgerService_def)
  ultimately show ?thesis
    using deposit_overflow_wraps [OF demo_rich_facts(1), of demo_env None "demo_deposit 9223372036854775807" 9223372036854775807 "''USD''"]
    by (simp add: demo_rich_facts)
qed

end
