(* ===== verification/Wagering.thy ===== *)
theory Wagering
  imports Service
begin

text \<open>
  The wagering service, \<^verbatim>\<open>internal/platform/server/wagering_grpc.go\<close> and \<^verbatim>\<open>wagering_postgres.go\<close>: wagers are
  placed, then settled or canceled, each under an idempotency key.

  The handlers run under the mutex from their look-ups on and call nothing that locks it again, so that a handler is one
  atomic step. \<^verbatim>\<open>wager.Status = ...\<close> goes through a pointer: a wager found in the map is changed
  there, one read from the database is a copy beside the copy put into the map.
\<close>

section \<open>Messages and tables\<close>

datatype wager_status =
    WAGER_STATUS_UNSPECIFIED | WAGER_STATUS_PENDING | WAGER_STATUS_SETTLED | WAGER_STATUS_CANCELED

record wager =
  WagerId :: string
  WagerPlayerId :: string
  WagerGameId :: string
  Stake :: "money option"
  WagerStatus :: wager_status
  Payout :: "money option"
  OutcomeRef :: string
  PlacedAt :: string
  SettledAt :: string
  CanceledAt :: string
  CancelReason :: string

record wager_response =
  WagerMeta :: response_meta
  RespWager :: "wager option"

record place_request =
  Place_Meta :: "request_meta option"
  Place_PlayerId :: string
  Place_GameId :: string
  Place_Stake :: "money option"

record settle_request =
  Settle_Meta :: "request_meta option"
  Settle_WagerId :: string
  Settle_Payout :: "money option"
  Settle_OutcomeRef :: string

record cancel_request =
  Cancel_Meta :: "request_meta option"
  Cancel_WagerId :: string
  Cancel_Reason :: string

record wager_row =
  wr_wager_id :: string
  wr_player_id :: string
  wr_game_id :: string
  wr_stake_amount :: int
  wr_stake_currency :: string
  wr_status :: string
  wr_payout_amount :: int
  wr_payout_currency :: string
  wr_outcome_ref :: string
  wr_placed_at :: time
  wr_settled_at :: "time option"
  wr_canceled_at :: "time option"
  wr_cancel_reason :: string

record wager_idem_row =
  wi_operation :: string
  wi_scope_id :: string
  wi_key :: string
  wi_request_hash :: string
  wi_payload :: wager_response

record wager_db = dbcore +
  wagers_table :: "wager_row list"
  wagering_idempotency_keys :: "wager_idem_row list"

fun wageringStatusToDB :: "wager_status \<Rightarrow> string" where
  "wageringStatusToDB WAGER_STATUS_PENDING = ''pending''"
| "wageringStatusToDB WAGER_STATUS_SETTLED = ''settled''"
| "wageringStatusToDB WAGER_STATUS_CANCELED = ''canceled''"
| "wageringStatusToDB WAGER_STATUS_UNSPECIFIED = ''pending''"

definition wageringStatusFromDB :: "string \<Rightarrow> wager_status" where
  "wageringStatusFromDB v =
     (let l = map lower_byte v
      in if l = ''pending'' then WAGER_STATUS_PENDING
         else if l = ''settled'' then WAGER_STATUS_SETTLED
         else if l = ''canceled'' then WAGER_STATUS_CANCELED
         else WAGER_STATUS_UNSPECIFIED)"

section \<open>State\<close>

record wagering = "wager_db svc" +
  wagers :: "string \<rightharpoonup> wager"
  placeByIdempotency :: "string \<rightharpoonup> wager_response"
  settleByIdempotency :: "string \<rightharpoonup> wager_response"
  cancelByIdempotency :: "string \<rightharpoonup> wager_response"
  nextWagerID :: nat
  disableInMemCache :: bool

definition NewWageringService :: "wager_db option \<Rightarrow> wagering" where
  "NewWageringService handle =
     \<lparr>svc_AuditStore = Some NewInMemoryStore, svc_nextAuditID = 0, svc_db = handle,
      wagers = Map.empty, placeByIdempotency = Map.empty, settleByIdempotency = Map.empty,
      cancelByIdempotency = Map.empty, nextWagerID = 0, disableInMemCache = False\<rparr>"

definition wagering_dbEnabled :: "wagering \<Rightarrow> bool" where
  "wagering_dbEnabled s \<longleftrightarrow> svc_db s \<noteq> None"

definition useInMemoryCache :: "wagering \<Rightarrow> bool" where
  "useInMemoryCache s \<longleftrightarrow> \<not> (wagering_dbEnabled s \<and> disableInMemCache s)"

definition useInMemoryWagerMirror :: "wagering \<Rightarrow> bool" where
  "useInMemoryWagerMirror s \<longleftrightarrow> \<not> (wagering_dbEnabled s \<and> disableInMemCache s)"

definition wagering_SetDisableInMemoryIdempotencyCache :: "bool \<Rightarrow> wagering \<Rightarrow> wagering" where
  "wagering_SetDisableInMemoryIdempotencyCache disable s = s\<lparr>disableInMemCache := disable\<rparr>"

definition wager_id :: "time \<Rightarrow> nat \<Rightarrow> string" where
  "wager_id wall n = ''wager-'' @ itoa wall @ ''-'' @ itoa_nat n"

definition nextWagerIDLocked :: "env \<Rightarrow> wagering \<Rightarrow> string \<times> wagering" where
  "nextWagerIDLocked e s =
     (let n = Suc (nextWagerID s) in (wager_id (env_wall e) n, s\<lparr>nextWagerID := n\<rparr>))"

definition wagering_appendAudit ::
    "ext \<Rightarrow> env \<Rightarrow> request_meta option \<Rightarrow> string \<Rightarrow> string \<Rightarrow> string \<Rightarrow> string \<Rightarrow> string \<Rightarrow> string
     \<Rightarrow> wagering \<Rightarrow> bool \<times> wagering" where
  "wagering_appendAudit x e meta objectID action before after result reason =
     svc_append x e (\<lambda>n. audit_event e (''wagering-audit-'' @ itoa_nat n) meta ''wager'' objectID action
                           before after result reason)"

definition authorizePlace :: "auth_actor option \<Rightarrow> request_meta option \<Rightarrow> string \<Rightarrow> string option" where
  "authorizePlace = authorize_owner ''player cannot place wager for another player''"

definition authorizeSettlement :: "auth_actor option \<Rightarrow> request_meta option \<Rightarrow> string option" where
  "authorizeSettlement = authorize_backoffice"

text \<open>\<^verbatim>\<open>json.Marshal\<close> of the generated struct: its fields in order, without the empty ones.\<close>

fun wager_status_number :: "wager_status \<Rightarrow> int" where
  "wager_status_number WAGER_STATUS_UNSPECIFIED = 0"
| "wager_status_number WAGER_STATUS_PENDING = 1"
| "wager_status_number WAGER_STATUS_SETTLED = 2"
| "wager_status_number WAGER_STATUS_CANCELED = 3"

definition wager_json :: "wager \<Rightarrow> string" where
  "wager_json w = json_encode (JObject (
     jstr ''wager_id'' (WagerId w) @ jstr ''player_id'' (WagerPlayerId w) @ jstr ''game_id'' (WagerGameId w)
     @ jopt ''stake'' (map_option money_json (Stake w)) @ jint ''status'' (wager_status_number (WagerStatus w))
     @ jopt ''payout'' (map_option money_json (Payout w)) @ jstr ''outcome_ref'' (OutcomeRef w)
     @ jstr ''placed_at'' (PlacedAt w) @ jstr ''settled_at'' (SettledAt w)
     @ jstr ''canceled_at'' (CanceledAt w) @ jstr ''cancel_reason'' (CancelReason w)))"

section \<open>The database\<close>

definition hashWageringRequest :: "ext \<Rightarrow> string list \<Rightarrow> string" where
  "hashWageringRequest x parts = hex_encode (sha256 x (join bar parts))"

text \<open>The row the statement writes; \<open>None\<close> when a cast or a check refuses it.\<close>

definition wager_row_of :: "ext \<Rightarrow> env \<Rightarrow> wager \<Rightarrow> wager_row option" where
  "wager_row_of x e w =
     (let payout = (case Payout w of None \<Rightarrow> money 0 [] | Some m \<Rightarrow> m);
          stake = (case Stake w of None \<Rightarrow> money 0 [] | Some m \<Rightarrow> m);
          occurred = (if PlacedAt w = [] then fmt_rfc3339nano (env_wall e) else PlacedAt w)
      in case (pg_char3 x (Currency stake), pg_char3 x (Currency payout),
               pg_time_of_text x (nonEmptyTime e (PlacedAt w)), nullable_time x (SettledAt w),
               nullable_time x (CanceledAt w), pg_time_of_text x occurred) of
           (Some sc, Some pc, Some placed, Some settled, Some canceled, Some _) \<Rightarrow>
             if sint (AmountMinor stake) \<le> 0 \<or> sint (AmountMinor payout) < 0 then None
             else Some \<lparr>wr_wager_id = WagerId w, wr_player_id = WagerPlayerId w, wr_game_id = WagerGameId w,
                        wr_stake_amount = sint (AmountMinor stake), wr_stake_currency = sc,
                        wr_status = wageringStatusToDB (WagerStatus w),
                        wr_payout_amount = sint (AmountMinor payout), wr_payout_currency = pc,
                        wr_outcome_ref = OutcomeRef w, wr_placed_at = placed, wr_settled_at = settled,
                        wr_canceled_at = canceled, wr_cancel_reason = CancelReason w\<rparr>
         | _ \<Rightarrow> None)"

definition upsert_wager :: "ext \<Rightarrow> env \<Rightarrow> wager \<Rightarrow> wager_db \<Rightarrow> wager_db option" where
  "upsert_wager x e w d =
     map_option (\<lambda>row. d\<lparr>wagers_table := upsert wr_wager_id row (wagers_table d)\<rparr>) (wager_row_of x e w)"

definition persistWager :: "ext \<Rightarrow> env \<Rightarrow> wager \<Rightarrow> wagering \<Rightarrow> bool \<times> wagering" where
  "persistWager x e w = svc_exec (sql_stmt (upsert_wager x e w))"

definition row_to_wager :: "wager_row \<Rightarrow> wager" where
  "row_to_wager r =
     \<lparr>WagerId = wr_wager_id r, WagerPlayerId = wr_player_id r, WagerGameId = wr_game_id r,
      Stake = Some (money (word_of_int (wr_stake_amount r)) (wr_stake_currency r)),
      WagerStatus = wageringStatusFromDB (wr_status r),
      Payout = (if wr_payout_currency r \<noteq> [] \<or> wr_payout_amount r \<noteq> 0
                then Some (money (word_of_int (wr_payout_amount r)) (wr_payout_currency r)) else None),
      OutcomeRef = wr_outcome_ref r, PlacedAt = fmt_rfc3339nano (wr_placed_at r),
      SettledAt = (case wr_settled_at r of None \<Rightarrow> [] | Some t \<Rightarrow> fmt_rfc3339nano t),
      CanceledAt = (case wr_canceled_at r of None \<Rightarrow> [] | Some t \<Rightarrow> fmt_rfc3339nano t),
      CancelReason = wr_cancel_reason r\<rparr>"

text \<open>The outer \<open>None\<close> is a database error.\<close>

definition getWager :: "string \<Rightarrow> wagering \<Rightarrow> wager option option \<times> wagering" where
  "getWager wagerID =
     svc_query (\<lambda>d. map_option row_to_wager (find (\<lambda>r. wr_wager_id r = wagerID) (wagers_table d)))"

datatype wager_load = WNotFound | WReplay wager_response | WMismatch | WLoadError

definition wagering_loadIdempotencyResponse ::
    "string \<Rightarrow> string \<Rightarrow> string \<Rightarrow> string \<Rightarrow> wagering \<Rightarrow> wager_load \<times> wagering" where
  "wagering_loadIdempotencyResponse operation scopeID idempotencyKey requestHash s =
     (if \<not> wagering_dbEnabled s then (WNotFound, s)
      else (case svc_query (\<lambda>d. find (\<lambda>r. wi_operation r = operation \<and> wi_scope_id r = scopeID \<and>
                                              wi_key r = idempotencyKey) (wagering_idempotency_keys d)) s of
              (None, s') \<Rightarrow> (WLoadError, s')
            | (Some None, s') \<Rightarrow> (WNotFound, s')
            | (Some (Some r), s') \<Rightarrow>
                (if wi_request_hash r \<noteq> requestHash then WMismatch else WReplay (wi_payload r), s')))"

definition upsert_wager_idem ::
    "string \<Rightarrow> string \<Rightarrow> string \<Rightarrow> string \<Rightarrow> wager_response \<Rightarrow> wager_db \<Rightarrow> wager_db option" where
  "upsert_wager_idem operation scopeID idempotencyKey requestHash resp d =
     Some (d\<lparr>wagering_idempotency_keys :=
       upsert (\<lambda>r. (wi_operation r, wi_scope_id r, wi_key r))
         \<lparr>wi_operation = operation, wi_scope_id = scopeID, wi_key = idempotencyKey, wi_request_hash = requestHash,
          wi_payload = resp\<rparr> (wagering_idempotency_keys d)\<rparr>)"

definition wagering_persistIdempotencyResponse ::
    "string \<Rightarrow> string \<Rightarrow> string \<Rightarrow> string \<Rightarrow> wager_response \<Rightarrow> wagering \<Rightarrow> bool \<times> wagering" where
  "wagering_persistIdempotencyResponse operation scopeID idempotencyKey requestHash resp =
     svc_exec (sql_stmt (upsert_wager_idem operation scopeID idempotencyKey requestHash resp))"

section \<open>Shared steps of the handlers\<close>

datatype wager_op = OpPlace | OpSettle | OpCancel

fun wager_cache :: "wager_op \<Rightarrow> wagering \<Rightarrow> string \<rightharpoonup> wager_response" where
  "wager_cache OpPlace s = placeByIdempotency s"
| "wager_cache OpSettle s = settleByIdempotency s"
| "wager_cache OpCancel s = cancelByIdempotency s"

fun wager_cache_put :: "wager_op \<Rightarrow> string \<Rightarrow> wager_response \<Rightarrow> wagering \<Rightarrow> wagering" where
  "wager_cache_put OpPlace key r s = s\<lparr>placeByIdempotency := (placeByIdempotency s)(key \<mapsto> r)\<rparr>"
| "wager_cache_put OpSettle key r s = s\<lparr>settleByIdempotency := (settleByIdempotency s)(key \<mapsto> r)\<rparr>"
| "wager_cache_put OpCancel key r s = s\<lparr>cancelByIdempotency := (cancelByIdempotency s)(key \<mapsto> r)\<rparr>"

fun op_word :: "wager_op \<Rightarrow> string" where
  "op_word OpPlace = ''place''" | "op_word OpSettle = ''settle''" | "op_word OpCancel = ''cancel''"

definition wager_refusal :: "env \<Rightarrow> request_meta option \<Rightarrow> result_code \<Rightarrow> string \<Rightarrow> wager_response" where
  "wager_refusal e meta code reason = \<lparr>WagerMeta = responseMeta e meta code reason, RespWager = None\<rparr>"

definition wager_cached :: "wager_op \<Rightarrow> string \<Rightarrow> wager_response \<Rightarrow> wagering \<Rightarrow> wagering" where
  "wager_cached op key r s = (if useInMemoryCache s then wager_cache_put op key r s else s)"

definition wager_mirrored :: "wager option \<Rightarrow> wagering \<Rightarrow> wagering" where
  "wager_mirrored w s =
     (case w of
        None \<Rightarrow> s
      | Some w \<Rightarrow> if useInMemoryWagerMirror s then s\<lparr>wagers := (wagers s)(WagerId w \<mapsto> w)\<rparr> else s)"

text \<open>The cached or stored answer, if there is one, or the refusal the look-up ends with.\<close>

definition wager_replay ::
    "env \<Rightarrow> wager_op \<Rightarrow> request_meta option \<Rightarrow> string \<Rightarrow> string \<Rightarrow> string \<Rightarrow> wagering
     \<Rightarrow> wager_response option \<times> wagering" where
  "wager_replay e op meta scopeID key requestHash s =
     (case (if useInMemoryCache s then wager_cache op s key else None) of
        Some prev \<Rightarrow> (Some prev, s)
      | None \<Rightarrow>
        (case wagering_loadIdempotencyResponse (op_word op) scopeID (idempotency meta) requestHash s of
           (WMismatch, s1) \<Rightarrow>
             (Some (wager_refusal e meta RESULT_CODE_INVALID ''idempotency_key reused with different request''), s1)
         | (WLoadError, s1) \<Rightarrow> (Some (wager_refusal e meta RESULT_CODE_ERROR ''persistence unavailable''), s1)
         | (WReplay r, s1) \<Rightarrow> (Some r, wager_mirrored (RespWager r) (wager_cached op key r s1))
         | (WNotFound, s1) \<Rightarrow> (None, s1)))"

text \<open>
  The wager a settlement or cancellation works on: the one in the map, and then the flag says that
  changes go there, or a copy of the row.
\<close>

definition wager_lookup :: "string \<Rightarrow> wagering \<Rightarrow> (wager \<times> bool) option option \<times> wagering" where
  "wager_lookup wagerID s =
     (case (if useInMemoryWagerMirror s then wagers s wagerID else None) of
        Some w \<Rightarrow> (Some (Some (w, True)), s)
      | None \<Rightarrow>
          if \<not> wagering_dbEnabled s then (Some None, s)
          else (case getWager wagerID s of
                  (None, s1) \<Rightarrow> (None, s1)
                | (Some None, s1) \<Rightarrow> (Some None, s1)
                | (Some (Some w), s1) \<Rightarrow> (Some (Some (w, False)), wager_mirrored (Some w) s1)))"

text \<open>The end of the three handlers: cache, wager row, idempotency row, audit event.\<close>

definition wager_finish ::
    "ext \<Rightarrow> env \<Rightarrow> wager_op \<Rightarrow> request_meta option \<Rightarrow> string \<Rightarrow> string \<Rightarrow> string \<Rightarrow> wager \<Rightarrow> string \<Rightarrow> string \<Rightarrow> string
     \<Rightarrow> wagering \<Rightarrow> wager_response \<times> wagering" where
  "wager_finish x e op meta scopeID key requestHash w objectID before action s =
     (let resp = \<lparr>WagerMeta = responseMeta e meta RESULT_CODE_OK [], RespWager = Some w\<rparr>;
          unavailable = wager_refusal e meta RESULT_CODE_ERROR ''persistence unavailable'';
          s1 = wager_cached op key resp s;
          (ok2, s2) = persistWager x e w s1
      in if \<not> ok2 then (unavailable, s2)
         else
           let (ok3, s3) = wagering_persistIdempotencyResponse (op_word op) scopeID (idempotency meta) requestHash resp s2
           in if \<not> ok3 then (unavailable, s3)
              else
                let (ok4, s4) = wagering_appendAudit x e meta objectID action before (wager_json w) ResultSuccess [] s3
                in if ok4 then (resp, s4)
                   else (wager_refusal e meta RESULT_CODE_ERROR ''audit unavailable'', s4))"

section \<open>PlaceWager\<close>

definition PlaceWager ::
    "ext \<Rightarrow> env \<Rightarrow> auth_actor option \<Rightarrow> place_request option \<Rightarrow> wagering \<Rightarrow> wager_response \<times> wagering" where
  "PlaceWager x e ctx req s =
     (case req of
        None \<Rightarrow> (wager_refusal e None RESULT_CODE_INVALID ''player_id, game_id, and valid stake are required'', s)
      | Some r \<Rightarrow>
        let meta = Place_Meta r; idem = idempotency meta; player = Place_PlayerId r in
        if player = [] \<or> Place_GameId r = [] \<or> invalidAmount (Place_Stake r) then
          (wager_refusal e meta RESULT_CODE_INVALID ''player_id, game_id, and valid stake are required'', s)
        else if idem = [] then (wager_refusal e meta RESULT_CODE_INVALID ''idempotency_key is required'', s)
        else (case authorizePlace ctx meta player of
          Some reason \<Rightarrow>
            (wager_refusal e meta RESULT_CODE_DENIED reason,
             snd (wagering_appendAudit x e meta [] ''place_wager'' json_empty json_empty ResultDenied reason s))
        | None \<Rightarrow>
          let key = player @ ''|place|'' @ idem; stake = the (Place_Stake r);
              requestHash = hashWageringRequest x [''place'', player, Place_GameId r, Currency stake,
                              itoa (sint (AmountMinor stake))] in
          (case wager_replay e OpPlace meta player key requestHash s of
             (Some resp, s1) \<Rightarrow> (resp, s1)
           | (None, s1) \<Rightarrow>
               let (wid, s2) = nextWagerIDLocked e s1;
                   w = \<lparr>WagerId = wid, WagerPlayerId = player, WagerGameId = Place_GameId r, Stake = Place_Stake r,
                        WagerStatus = WAGER_STATUS_PENDING, Payout = None, OutcomeRef = [],
                        PlacedAt = fmt_rfc3339nano (env_now e), SettledAt = [], CanceledAt = [], CancelReason = []\<rparr>
               in wager_finish x e OpPlace meta player key requestHash w wid json_empty ''place_wager''
                    (wager_mirrored (Some w) s2))))"

section \<open>SettleWager and CancelWager\<close>

text \<open>
  The two handlers after their checks: replay, look-up, the test that the wager is pending, the change
  \<open>upd\<close> through the pointer, and the end.
\<close>

definition wager_resolve ::
    "ext \<Rightarrow> env \<Rightarrow> wager_op \<Rightarrow> request_meta option \<Rightarrow> string \<Rightarrow> string \<Rightarrow> string \<Rightarrow> string \<Rightarrow> (wager \<Rightarrow> wager)
     \<Rightarrow> wagering \<Rightarrow> wager_response \<times> wagering" where
  "wager_resolve x e op meta wid key requestHash action upd s =
     (case wager_replay e op meta wid key requestHash s of
        (Some resp, s1) \<Rightarrow> (resp, s1)
      | (None, s1) \<Rightarrow>
        (case wager_lookup wid s1 of
           (None, s2) \<Rightarrow> (wager_refusal e meta RESULT_CODE_ERROR ''persistence unavailable'', s2)
         | (Some None, s2) \<Rightarrow> (wager_refusal e meta RESULT_CODE_INVALID ''wager not found'', s2)
         | (Some (Some (w, aliased)), s2) \<Rightarrow>
             if WagerStatus w \<noteq> WAGER_STATUS_PENDING then
               (wager_refusal e meta RESULT_CODE_INVALID ''wager is not pending'', s2)
             else wager_finish x e op meta wid key requestHash (upd w) wid (wager_json w) action
                    (if aliased then s2\<lparr>wagers := (wagers s2)(wid \<mapsto> upd w)\<rparr> else s2)))"

definition settled :: "env \<Rightarrow> settle_request \<Rightarrow> wager \<Rightarrow> wager" where
  "settled e r w = w\<lparr>WagerStatus := WAGER_STATUS_SETTLED, Payout := Settle_Payout r,
     OutcomeRef := Settle_OutcomeRef r, SettledAt := fmt_rfc3339nano (env_now e)\<rparr>"

definition canceled :: "env \<Rightarrow> cancel_request \<Rightarrow> wager \<Rightarrow> wager" where
  "canceled e r w = w\<lparr>WagerStatus := WAGER_STATUS_CANCELED, CancelReason := Cancel_Reason r,
     CanceledAt := fmt_rfc3339nano (env_now e)\<rparr>"

definition SettleWager ::
    "ext \<Rightarrow> env \<Rightarrow> auth_actor option \<Rightarrow> settle_request option \<Rightarrow> wagering \<Rightarrow> wager_response \<times> wagering" where
  "SettleWager x e ctx req s =
     (case req of
        None \<Rightarrow> (wager_refusal e None RESULT_CODE_INVALID ''wager_id, outcome_ref, and valid payout are required'', s)
      | Some r \<Rightarrow>
        let meta = Settle_Meta r; idem = idempotency meta; wid = Settle_WagerId r in
        if wid = [] \<or> Settle_OutcomeRef r = [] \<or> invalidAmount (Settle_Payout r) then
          (wager_refusal e meta RESULT_CODE_INVALID ''wager_id, outcome_ref, and valid payout are required'', s)
        else if idem = [] then (wager_refusal e meta RESULT_CODE_INVALID ''idempotency_key is required'', s)
        else (case authorizeSettlement ctx meta of
          Some reason \<Rightarrow>
            (wager_refusal e meta RESULT_CODE_DENIED reason,
             snd (wagering_appendAudit x e meta wid ''settle_wager'' json_empty json_empty ResultDenied reason s))
        | None \<Rightarrow>
          let payout = the (Settle_Payout r);
              requestHash = hashWageringRequest x [''settle'', wid, Currency payout,
                              itoa (sint (AmountMinor payout)), Settle_OutcomeRef r]
          in wager_resolve x e OpSettle meta wid (wid @ ''|settle|'' @ idem) requestHash ''settle_wager'' (settled e r) s))"

definition CancelWager ::
    "ext \<Rightarrow> env \<Rightarrow> auth_actor option \<Rightarrow> cancel_request option \<Rightarrow> wagering \<Rightarrow> wager_response \<times> wagering" where
  "CancelWager x e ctx req s =
     (case req of
        None \<Rightarrow> (wager_refusal e None RESULT_CODE_INVALID ''wager_id and reason are required'', s)
      | Some r \<Rightarrow>
        let meta = Cancel_Meta r; idem = idempotency meta; wid = Cancel_WagerId r in
        if wid = [] \<or> Cancel_Reason r = [] then
          (wager_refusal e meta RESULT_CODE_INVALID ''wager_id and reason are required'', s)
        else if idem = [] then (wager_refusal e meta RESULT_CODE_INVALID ''idempotency_key is required'', s)
        else (case authorizeSettlement ctx meta of
          Some reason \<Rightarrow>
            (wager_refusal e meta RESULT_CODE_DENIED reason,
             snd (wagering_appendAudit x e meta wid ''cancel_wager'' json_empty json_empty ResultDenied reason s))
        | None \<Rightarrow>
          let requestHash = hashWageringRequest x [''cancel'', wid, Cancel_Reason r]
          in wager_resolve x e OpCancel meta wid (wid @ ''|cancel|'' @ idem) requestHash ''cancel_wager'' (canceled e r) s))"

end
