(* ===== verification/WageringProps.thy ===== *)
theory WageringProps
  imports Wagering Samples
begin

text \<open>
  The life of a wager: placed as pending, then resolved once, as settled or canceled, and final from then
  on. Without a database the service implements this specification; with one, a wager that was read back
  from the database can be resolved twice.
\<close>

section \<open>The specification\<close>

type_synonym wager_book = "(string \<rightharpoonup> wager) \<times> nat"

text \<open>What a resolution may change: the status, once, and the fields that say how.\<close>

definition same_bet :: "wager \<Rightarrow> wager \<Rightarrow> bool" where
  "same_bet w w' \<longleftrightarrow> WagerId w' = WagerId w \<and> WagerPlayerId w' = WagerPlayerId w \<and> WagerGameId w' = WagerGameId w \<and>
     Stake w' = Stake w \<and> PlacedAt w' = PlacedAt w"

inductive wager_step :: "wager_book \<Rightarrow> wager_book \<Rightarrow> bool" where
  place: "WagerId w = wager_id t (Suc n) \<Longrightarrow> WagerStatus w = WAGER_STATUS_PENDING \<Longrightarrow>
     wager_step (m, n) (m(WagerId w \<mapsto> w), Suc n)"
| resolve: "m wid = Some w \<Longrightarrow> WagerStatus w = WAGER_STATUS_PENDING \<Longrightarrow> same_bet w w' \<Longrightarrow>
     WagerStatus w' \<in> {WAGER_STATUS_SETTLED, WAGER_STATUS_CANCELED} \<Longrightarrow> wager_step (m, n) (m(wid \<mapsto> w'), n)"

inductive_cases wager_stepE: "wager_step b b'"

definition wager_book_ok :: "wager_book \<Rightarrow> bool" where
  "wager_book_ok b \<longleftrightarrow> (\<forall>wid w. fst b wid = Some w \<longrightarrow>
     WagerId w = wid \<and> WagerStatus w \<noteq> WAGER_STATUS_UNSPECIFIED \<and> (\<exists>t k. wid = wager_id t k \<and> k \<le> snd b))"

text \<open>Identifiers end in their number, so that two of them with different numbers differ.\<close>

lemma digits_no_dash: "list_all is_digit s \<Longrightarrow> CHR ''-'' \<notin> set s"
  by (auto simp: list_all_iff is_digit_def)

lemma split_at_last_dash:
  assumes "a @ ''-'' @ b = c @ ''-'' @ d" "CHR ''-'' \<notin> set b" "CHR ''-'' \<notin> set d"
  shows "b = d"
proof -
  have "takeWhile (\<lambda>z. z \<noteq> CHR ''-'') (rev (u @ ''-'' @ v)) = rev v" if "CHR ''-'' \<notin> set v" for u v
    using that by (simp add: takeWhile_append2 takeWhile_tail) (metis rev_rev_ident set_rev takeWhile_append takeWhile_eq_all_conv)
  from this [OF assms(2), of a] this [OF assms(3), of c] assms(1) have "rev b = rev d" by metis
  then show ?thesis by simp
qed

lemma wager_id_number: "wager_id t k = wager_id u n \<Longrightarrow> k = n"
  using split_at_last_dash [of "''wager-'' @ itoa t" "itoa_nat k" "''wager-'' @ itoa u" "itoa_nat n"]
    digits_no_dash [OF itoa_nat_digits]
  by (simp add: wager_id_def)

lemma wager_book_ok_step: "wager_step b b' \<Longrightarrow> wager_book_ok b \<Longrightarrow> wager_book_ok b'"
proof (induction rule: wager_step.induct)
  case (place w t n m)
  then have "\<exists>t k. WagerId w = wager_id t k \<and> k \<le> Suc n" by blast
  moreover from place.prems have "m wid = Some v \<Longrightarrow> \<exists>t k. wid = wager_id t k \<and> k \<le> Suc n" for wid v
    unfolding wager_book_ok_def by (metis fst_conv snd_conv le_SucI)
  ultimately show ?case using place by (simp add: wager_book_ok_def)
next
  case (resolve m wid w w' n)
  then show ?case by (auto simp: wager_book_ok_def same_bet_def)
qed

lemma wager_book_ok_fresh: "wager_book_ok b \<Longrightarrow> fst b (wager_id t (Suc (snd b))) = None"
proof (rule ccontr)
  assume ok: "wager_book_ok b" and "fst b (wager_id t (Suc (snd b))) \<noteq> None"
  then obtain u k where "wager_id t (Suc (snd b)) = wager_id u k" "k \<le> snd b"
    by (fastforce simp: wager_book_ok_def)
  then show False using wager_id_number by fastforce
qed

text \<open>A wager never disappears or changes its bet, and a resolved one never changes at all.\<close>

definition wager_later :: "wager_book \<Rightarrow> wager_book \<Rightarrow> bool" where
  "wager_later b b' \<longleftrightarrow> (\<forall>wid w. fst b wid = Some w \<longrightarrow>
     (\<exists>w'. fst b' wid = Some w' \<and> same_bet w w' \<and> (WagerStatus w \<noteq> WAGER_STATUS_PENDING \<longrightarrow> w' = w)))"

lemma wager_later_step: "wager_step b b' \<Longrightarrow> wager_book_ok b \<Longrightarrow> wager_later b b'"
proof (induction rule: wager_step.induct)
  case (place w t n m)
  then show ?case
    using wager_book_ok_fresh [of "(m, n)" t] by (auto simp: wager_later_def same_bet_def)
next
  case (resolve m wid w w' n)
  then show ?case by (auto simp: wager_later_def same_bet_def)
qed

lemma same_bet_trans: "same_bet u v \<Longrightarrow> same_bet v w \<Longrightarrow> same_bet u w"
  by (simp add: same_bet_def)

lemma wager_later_trans:
  assumes ab: "wager_later a b" and bc: "wager_later b c"
  shows "wager_later a c"
  unfolding wager_later_def
proof (intro allI impI)
  fix wid w assume "fst a wid = Some w"
  with ab obtain v where v: "fst b wid = Some v" "same_bet w v" "WagerStatus w \<noteq> WAGER_STATUS_PENDING \<longrightarrow> v = w"
    unfolding wager_later_def by blast
  with bc obtain u where "fst c wid = Some u" "same_bet v u" "WagerStatus v \<noteq> WAGER_STATUS_PENDING \<longrightarrow> u = v"
    unfolding wager_later_def by blast
  with v show "\<exists>w'. fst c wid = Some w' \<and> same_bet w w' \<and> (WagerStatus w \<noteq> WAGER_STATUS_PENDING \<longrightarrow> w' = w)"
    using same_bet_trans by blast
qed

lemma wager_later_steps: "wager_step\<^sup>*\<^sup>* b b' \<Longrightarrow> wager_book_ok b \<Longrightarrow> wager_later b b' \<and> wager_book_ok b'"
proof (induction rule: rtranclp_induct)
  case base
  then show ?case by (auto simp: wager_later_def same_bet_def)
next
  case (step b c)
  then show ?case using wager_later_step wager_later_trans wager_book_ok_step by blast
qed

section \<open>The service without a database\<close>

definition wagering_idle :: "ext \<Rightarrow> wagering \<Rightarrow> bool" where
  "wagering_idle x s \<longleftrightarrow> svc_db s = None \<and> svc_ok x s"

definition wager_view :: "wagering \<Rightarrow> wager_book" where
  "wager_view s = (wagers s, nextWagerID s)"

lemma wagering_no_db [simp]:
  assumes "svc_db s = None"
  shows "\<not> wagering_dbEnabled s" "useInMemoryCache s" "useInMemoryWagerMirror s"
    "persistWager x e w s = (True, s)" "wagering_persistIdempotencyResponse op sc k h r s = (True, s)"
    "wagering_loadIdempotencyResponse op sc k h s = (WNotFound, s)"
  using assms
  by (simp_all add: wagering_dbEnabled_def useInMemoryCache_def useInMemoryWagerMirror_def persistWager_def
      svc_exec_def wagering_persistIdempotencyResponse_def wagering_loadIdempotencyResponse_def)

lemma wager_cached_db [simp]: "svc_db (wager_cached op k r s) = svc_db s" "svc_AuditStore (wager_cached op k r s) = svc_AuditStore s"
  "wagers (wager_cached op k r s) = wagers s" "nextWagerID (wager_cached op k r s) = nextWagerID s"
  by (cases op; simp add: wager_cached_def)+

text \<open>An audit event leaves the wagers and the caches alone and succeeds without a database.\<close>

lemma wagering_appendAudit_idle:
  assumes "wagering_idle x s"
  shows "fst (wagering_appendAudit x e meta oid act b a r why s)"
    and "wagering_idle x (snd (wagering_appendAudit x e meta oid act b a r why s))"
    and "wager_view (snd (wagering_appendAudit x e meta oid act b a r why s)) = wager_view s"
    and "wager_cache op (snd (wagering_appendAudit x e meta oid act b a r why s)) = wager_cache op s"
proof -
  let ?mk = "\<lambda>n. audit_event e (''wagering-audit-'' @ itoa_nat n) meta ''wager'' oid act b a r why"
  obtain st n db where f: "svc_append x e ?mk s =
      (fst (svc_append x e ?mk s), s\<lparr>svc_AuditStore := st, svc_nextAuditID := n, svc_db := db\<rparr>)"
    by (rule svc_append_frame)
  then have snd: "snd (svc_append x e ?mk s) = s\<lparr>svc_AuditStore := st, svc_nextAuditID := n, svc_db := db\<rparr>"
    by (metis snd_conv)
  show "fst (wagering_appendAudit x e meta oid act b a r why s)"
    "wagering_idle x (snd (wagering_appendAudit x e meta oid act b a r why s))"
    using assms svc_append_nodb [of x s e ?mk] svc_append_ok [of x s e ?mk]
    by (simp_all add: wagering_appendAudit_def wagering_idle_def)
  show "wager_view (snd (wagering_appendAudit x e meta oid act b a r why s)) = wager_view s"
    "wager_cache op (snd (wagering_appendAudit x e meta oid act b a r why s)) = wager_cache op s"
    using snd by (cases op; simp add: wagering_appendAudit_def wager_view_def)+
qed

lemma wager_finish_idle:
  fixes e :: env and meta :: "request_meta option" and w :: wager
  assumes "wagering_idle x s"
  defines "resp \<equiv> \<lparr>WagerMeta = responseMeta e meta RESULT_CODE_OK [], RespWager = Some w\<rparr>"
  shows "fst (wager_finish x e op meta sc key h w oid b act s) = resp"
    and "wagering_idle x (snd (wager_finish x e op meta sc key h w oid b act s))"
    and "wager_view (snd (wager_finish x e op meta sc key h w oid b act s)) = wager_view s"
    and "wager_cache op' (snd (wager_finish x e op meta sc key h w oid b act s)) =
         wager_cache op' (wager_cache_put op key resp s)"
proof -
  have cached: "wager_cached op key resp s = wager_cache_put op key resp s"
    using assms(1) by (simp add: wager_cached_def wagering_idle_def)
  have idle: "wagering_idle x (wager_cache_put op key resp s)"
    using assms(1) by (cases op) (simp_all add: wagering_idle_def svc_ok_def)
  then have "svc_db (wager_cache_put op key resp s) = None" by (simp add: wagering_idle_def)
  then have fin: "wager_finish x e op meta sc key h w oid b act s =
      (resp, snd (wagering_appendAudit x e meta oid act b (wager_json w) ResultSuccess [] (wager_cache_put op key resp s)))"
    using wagering_appendAudit_idle(1) [OF idle, of e meta oid act b "wager_json w" ResultSuccess "[]"]
    by (simp add: wager_finish_def Let_def split_beta cached resp_def [symmetric])
  show "fst (wager_finish x e op meta sc key h w oid b act s) = resp" by (simp add: fin)
  show "wagering_idle x (snd (wager_finish x e op meta sc key h w oid b act s))"
    by (simp add: fin wagering_appendAudit_idle(2) [OF idle])
  show "wager_view (snd (wager_finish x e op meta sc key h w oid b act s)) = wager_view s"
    by (simp add: fin wagering_appendAudit_idle(3) [OF idle]) (cases op, simp_all add: wager_view_def)
  show "wager_cache op' (snd (wager_finish x e op meta sc key h w oid b act s)) =
      wager_cache op' (wager_cache_put op key resp s)"
    by (simp add: fin wagering_appendAudit_idle(4) [OF idle])
qed


section \<open>The handlers implement the specification\<close>

text \<open>What one call does to a service without a database.\<close>

definition wager_call :: "ext \<Rightarrow> wagering \<Rightarrow> wagering \<Rightarrow> bool" where
  "wager_call x s s' \<longleftrightarrow> wagering_idle x s' \<and> wager_step\<^sup>=\<^sup>= (wager_view s) (wager_view s')"

lemma wager_call_same: "wagering_idle x s \<Longrightarrow> wager_call x s s"
  by (simp add: wager_call_def)

lemma wager_call_audit:
  "wagering_idle x s \<Longrightarrow> wager_call x s (snd (wagering_appendAudit x e meta oid act b a r why s))"
  by (simp add: wager_call_def wagering_appendAudit_idle)

lemma wager_replay_idle:
  "wagering_idle x s \<Longrightarrow> wager_replay e op meta sc key h s = (wager_cache op s key, s)"
  by (cases "wager_cache op s key") (simp_all add: wager_replay_def wagering_idle_def)

lemma wager_lookup_idle:
  "wagering_idle x s \<Longrightarrow> wager_lookup wid s = (Some (map_option (\<lambda>w. (w, True)) (wagers s wid)), s)"
  by (cases "wagers s wid") (simp_all add: wager_lookup_def wagering_idle_def)

lemma wager_finish_call:
  assumes "wagering_idle x s1" "wager_step (wager_view s) (wager_view s1)"
  shows "wager_call x s (snd (wager_finish x e op meta sc key h w oid b act s1))"
  using assms by (simp add: wager_call_def wager_finish_idle)

lemma PlaceWager_call:
  assumes idle: "wagering_idle x s"
  shows "wager_call x s (snd (PlaceWager x e ctx req s))"
proof -
  have placed: "wager_call x s (snd (wager_finish x e op meta sc key h w oid b act
      (wager_mirrored (Some w) (s\<lparr>nextWagerID := Suc (nextWagerID s)\<rparr>))))"
    if "WagerId w = wager_id t (Suc (nextWagerID s))" "WagerStatus w = WAGER_STATUS_PENDING"
    for op meta sc key h w oid b act t
    using idle wager_step.place [OF that]
    by (intro wager_finish_call) (simp_all add: wagering_idle_def svc_ok_def wager_view_def wager_mirrored_def)
  show ?thesis
    by (auto simp: PlaceWager_def Let_def wager_replay_idle [OF idle] nextWagerIDLocked_def split_beta
        intro!: placed wager_call_same [OF idle] wager_call_audit [OF idle] split: option.splits)
qed

lemma wager_resolve_call:
  assumes idle: "wagering_idle x s"
    and upd: "\<And>w. same_bet w (upd w)" "\<And>w. WagerStatus (upd w) \<in> {WAGER_STATUS_SETTLED, WAGER_STATUS_CANCELED}"
  shows "wager_call x s (snd (wager_resolve x e op meta wid key h act upd s))"
proof (cases "wager_cache op s key")
  case None
  show ?thesis
  proof (cases "\<exists>w. wagers s wid = Some w \<and> WagerStatus w = WAGER_STATUS_PENDING")
    case True
    then obtain w where w: "wagers s wid = Some w" "WagerStatus w = WAGER_STATUS_PENDING" by blast
    have "wager_step (wager_view s) (wager_view (s\<lparr>wagers := (wagers s)(wid \<mapsto> upd w)\<rparr>))"
      using wager_step.resolve [of "wagers s" wid w "upd w" "nextWagerID s", OF w upd] by (simp add: wager_view_def)
    then show ?thesis
      using None w idle
      by (auto simp: wager_resolve_def wager_replay_idle wager_lookup_idle wagering_idle_def svc_ok_def
          intro!: wager_finish_call)
  qed (use None idle in \<open>auto simp: wager_resolve_def wager_replay_idle wager_lookup_idle wager_call_same
         split: option.splits\<close>)
qed (use idle in \<open>simp add: wager_resolve_def wager_replay_idle wager_call_same\<close>)

lemma SettleWager_call: "wagering_idle x s \<Longrightarrow> wager_call x s (snd (SettleWager x e ctx req s))"
  by (auto simp: SettleWager_def Let_def settled_def same_bet_def
      intro!: wager_call_same wager_call_audit wager_resolve_call split: option.splits)

lemma CancelWager_call: "wagering_idle x s \<Longrightarrow> wager_call x s (snd (CancelWager x e ctx req s))"
  by (auto simp: CancelWager_def Let_def canceled_def same_bet_def
      intro!: wager_call_same wager_call_audit wager_resolve_call split: option.splits)

datatype wager_request =
    CallPlace "place_request option" | CallSettle "settle_request option" | CallCancel "cancel_request option"
  | CallWagerCache bool

type_synonym wager_input = "env \<times> auth_actor option \<times> wager_request"

fun wager_react :: "ext \<Rightarrow> wager_input \<Rightarrow> wagering \<Rightarrow> wagering" where
  "wager_react x (e, ctx, CallPlace r) s = snd (PlaceWager x e ctx r s)"
| "wager_react x (e, ctx, CallSettle r) s = snd (SettleWager x e ctx r s)"
| "wager_react x (e, ctx, CallCancel r) s = snd (CancelWager x e ctx r s)"
| "wager_react x (e, ctx, CallWagerCache b) s = wagering_SetDisableInMemoryIdempotencyCache b s"

definition wager_runs :: "ext \<Rightarrow> wager_input list \<Rightarrow> wagering" where
  "wager_runs x is = fold (wager_react x) is (NewWageringService None)"

lemma wager_cache_switch_call:
  "wagering_idle x s \<Longrightarrow> wager_call x s (wagering_SetDisableInMemoryIdempotencyCache b s)"
  by (simp add: wager_call_def wagering_SetDisableInMemoryIdempotencyCache_def wagering_idle_def svc_ok_def wager_view_def)

lemma wager_react_call: "wagering_idle x s \<Longrightarrow> wager_call x s (wager_react x i s)"
  by (cases "(x, i, s)" rule: wager_react.cases)
     (simp_all add: PlaceWager_call SettleWager_call CancelWager_call wager_cache_switch_call)

lemma NewWageringService_idle: "wagering_idle x (NewWageringService None)"
  by (simp add: wagering_idle_def NewWageringService_def svc_ok_def)

interpretation wager_sim: simulation "\<lambda>s. s = NewWageringService None" "wager_react x" "wagering_idle x"
    wager_view wager_step for x
proof unfold_locales
  fix s i assume "wagering_idle x s"
  then have "wager_call x s (wager_react x i s)" by (rule wager_react_call)
  then show "wagering_idle x (wager_react x i s)" "wager_step\<^sup>*\<^sup>* (wager_view s) (wager_view (wager_react x i s))"
    unfolding wager_call_def by auto
qed (simp_all add: NewWageringService_idle)

lemma wager_runs_append: "wager_runs x (is @ js) = fold (wager_react x) js (wager_runs x is)"
  by (simp add: wager_runs_def)

lemma wager_runs_idle: "wagering_idle x (wager_runs x is)"
  unfolding wager_runs_def by (rule wager_sim.always_inv) simp

lemma wager_runs_spec: "wager_step\<^sup>*\<^sup>* (Map.empty, 0) (wager_view (wager_runs x is))"
  using wager_sim.run_simulates [OF NewWageringService_idle, of x "is"]
  by (simp add: wager_runs_def wager_view_def NewWageringService_def)

lemma wager_runs_book: "wager_book_ok (wager_view (wager_runs x is))"
  using wager_later_steps [OF wager_runs_spec] by (simp add: wager_book_ok_def)

section \<open>What a handler answers\<close>

text \<open>The requests the two resolving handlers get to their look-ups with.\<close>

definition settle_admitted :: "auth_actor option \<Rightarrow> settle_request \<Rightarrow> bool" where
  "settle_admitted ctx r \<longleftrightarrow> Settle_WagerId r \<noteq> [] \<and> Settle_OutcomeRef r \<noteq> [] \<and> \<not> invalidAmount (Settle_Payout r) \<and>
     idempotency (Settle_Meta r) \<noteq> [] \<and> authorizeSettlement ctx (Settle_Meta r) = None"

definition cancel_admitted :: "auth_actor option \<Rightarrow> cancel_request \<Rightarrow> bool" where
  "cancel_admitted ctx r \<longleftrightarrow> Cancel_WagerId r \<noteq> [] \<and> Cancel_Reason r \<noteq> [] \<and>
     idempotency (Cancel_Meta r) \<noteq> [] \<and> authorizeSettlement ctx (Cancel_Meta r) = None"

definition settle_key :: "settle_request \<Rightarrow> string" where
  "settle_key r = Settle_WagerId r @ ''|settle|'' @ idempotency (Settle_Meta r)"

definition cancel_key :: "cancel_request \<Rightarrow> string" where
  "cancel_key r = Cancel_WagerId r @ ''|cancel|'' @ idempotency (Cancel_Meta r)"

lemma SettleWager_admitted:
  "settle_admitted ctx r \<Longrightarrow> \<exists>h. SettleWager x e ctx (Some r) s =
     wager_resolve x e OpSettle (Settle_Meta r) (Settle_WagerId r) (settle_key r) h ''settle_wager'' (settled e r) s"
  by (auto simp: settle_admitted_def SettleWager_def Let_def settle_key_def)

lemma CancelWager_admitted:
  "cancel_admitted ctx r \<Longrightarrow> \<exists>h. CancelWager x e ctx (Some r) s =
     wager_resolve x e OpCancel (Cancel_Meta r) (Cancel_WagerId r) (cancel_key r) h ''cancel_wager'' (canceled e r) s"
  by (auto simp: cancel_admitted_def CancelWager_def Let_def cancel_key_def)

lemma wager_resolve_replays:
  "wagering_idle x s \<Longrightarrow> wager_cache op s key = Some resp \<Longrightarrow>
   wager_resolve x e op meta wid key h act upd s = (resp, s)"
  by (simp add: wager_resolve_def wager_replay_idle)

lemma wager_resolve_refuses:
  "wagering_idle x s \<Longrightarrow> wager_cache op s key = None \<Longrightarrow> wagers s wid = Some w \<Longrightarrow>
   WagerStatus w \<noteq> WAGER_STATUS_PENDING \<Longrightarrow>
   wager_resolve x e op meta wid key h act upd s =
     (wager_refusal e meta RESULT_CODE_INVALID ''wager is not pending'', s)"
  by (simp add: wager_resolve_def wager_replay_idle wager_lookup_idle)

lemma wager_resolve_changes:
  fixes e :: env and meta :: "request_meta option" and upd :: "wager \<Rightarrow> wager"
  assumes "wagering_idle x s" "wager_cache op s key = None" "wagers s wid = Some w" "WagerStatus w = WAGER_STATUS_PENDING"
  defines "resp \<equiv> \<lparr>WagerMeta = responseMeta e meta RESULT_CODE_OK [], RespWager = Some (upd w)\<rparr>"
  obtains s' where "wager_resolve x e op meta wid key h act upd s = (resp, s')" "wagering_idle x s'"
    "wager_view s' = ((wagers s)(wid \<mapsto> upd w), nextWagerID s)"
    "wager_cache op s' key = Some resp"
proof -
  let ?s = "s\<lparr>wagers := (wagers s)(wid \<mapsto> upd w)\<rparr>"
  have idle: "wagering_idle x ?s" using assms(1) by (simp add: wagering_idle_def svc_ok_def)
  have "wager_cache op (wager_cache_put op key resp ?s) key = Some resp" by (cases op) simp_all
  then show ?thesis
    using assms(1-4) wager_finish_idle [OF idle, where e = e and op = op and meta = meta and sc = wid and key = key and h = h
        and w = "upd w" and oid = wid and b = "wager_json w" and act = act]
    by (intro that [of "snd (wager_resolve x e op meta wid key h act upd s)"])
       (simp_all add: wager_resolve_def wager_replay_idle wager_lookup_idle resp_def wager_view_def prod_eq_iff)
qed

lemma PlaceWager_fresh:
  fixes e :: env
  assumes idle: "wagering_idle x s"
    and ok: "Place_PlayerId r \<noteq> []" "Place_GameId r \<noteq> []" "\<not> invalidAmount (Place_Stake r)"
      "idempotency (Place_Meta r) \<noteq> []" "authorizePlace ctx (Place_Meta r) (Place_PlayerId r) = None"
    and fresh: "placeByIdempotency s (Place_PlayerId r @ ''|place|'' @ idempotency (Place_Meta r)) = None"
  defines "wid \<equiv> wager_id (env_wall e) (Suc (nextWagerID s))"
  defines "w \<equiv> \<lparr>WagerId = wid, WagerPlayerId = Place_PlayerId r, WagerGameId = Place_GameId r, Stake = Place_Stake r,
      WagerStatus = WAGER_STATUS_PENDING, Payout = None, OutcomeRef = [], PlacedAt = fmt_rfc3339nano (env_now e),
      SettledAt = [], CanceledAt = [], CancelReason = []\<rparr>"
  obtains s' where "PlaceWager x e ctx (Some r) s =
        (\<lparr>WagerMeta = responseMeta e (Place_Meta r) RESULT_CODE_OK [], RespWager = Some w\<rparr>, s')"
    "wagering_idle x s'" "wager_view s' = ((wagers s)(wid \<mapsto> w), Suc (nextWagerID s))"
    "settleByIdempotency s' = settleByIdempotency s" "cancelByIdempotency s' = cancelByIdempotency s"
proof -
  let ?s = "wager_mirrored (Some w) (s\<lparr>nextWagerID := Suc (nextWagerID s)\<rparr>)"
  have mirrored: "?s = s\<lparr>nextWagerID := Suc (nextWagerID s), wagers := (wagers s)(wid \<mapsto> w)\<rparr>"
    using idle by (simp add: wager_mirrored_def wagering_idle_def w_def)
  have idle': "wagering_idle x ?s" unfolding mirrored using idle by (simp add: wagering_idle_def svc_ok_def)
  obtain meta sc key h b act where fin: "PlaceWager x e ctx (Some r) s =
      wager_finish x e OpPlace (Place_Meta r) sc key h w wid b act ?s"
    using ok fresh by (auto simp: PlaceWager_def Let_def wager_replay_idle [OF idle] nextWagerIDLocked_def w_def wid_def)
  note f = wager_finish_idle [OF idle', where e = e and op = OpPlace and meta = "Place_Meta r" and sc = sc and key = key
      and h = h and w = w and oid = wid and b = b and act = act]
  show ?thesis
  proof (rule that)
    show "PlaceWager x e ctx (Some r) s =
        (\<lparr>WagerMeta = responseMeta e (Place_Meta r) RESULT_CODE_OK [], RespWager = Some w\<rparr>, snd (PlaceWager x e ctx (Some r) s))"
      using f(1) fin by (metis prod.collapse)
    show "wagering_idle x (snd (PlaceWager x e ctx (Some r) s))" using f(2) fin by metis
    show "wager_view (snd (PlaceWager x e ctx (Some r) s)) = ((wagers s)(wid \<mapsto> w), Suc (nextWagerID s))"
      unfolding fin f(3) by (simp add: mirrored wager_view_def)
    show "settleByIdempotency (snd (PlaceWager x e ctx (Some r) s)) = settleByIdempotency s"
      "cancelByIdempotency (snd (PlaceWager x e ctx (Some r) s)) = cancelByIdempotency s"
      using f(4) [of OpSettle] f(4) [of OpCancel] unfolding fin by (simp_all add: mirrored)
  qed
qed

section \<open>A run\<close>

definition demo_place :: place_request where
  "demo_place = \<lparr>Place_Meta = demo_meta ''k1'', Place_PlayerId = ''p1'', Place_GameId = ''g1'',
     Place_Stake = Some (money 100 ''USD'')\<rparr>"

definition demo_settle :: settle_request where
  "demo_settle = \<lparr>Settle_Meta = demo_meta ''k2'', Settle_WagerId = ''wager-0-1'',
     Settle_Payout = Some (money 250 ''USD''), Settle_OutcomeRef = ''out-1''\<rparr>"

definition demo_cancel :: cancel_request where
  "demo_cancel = \<lparr>Cancel_Meta = demo_meta ''k3'', Cancel_WagerId = ''wager-0-1'', Cancel_Reason = ''void''\<rparr>"

definition demo_wager :: wager where
  "demo_wager = \<lparr>WagerId = ''wager-0-1'', WagerPlayerId = ''p1'', WagerGameId = ''g1'',
     Stake = Some (money 100 ''USD''), WagerStatus = WAGER_STATUS_PENDING, Payout = None, OutcomeRef = [],
     PlacedAt = fmt_rfc3339nano 0, SettledAt = [], CanceledAt = [], CancelReason = []\<rparr>"

definition demo_placing :: "wager_input list" where
  "demo_placing = [(demo_env, None, CallPlace (Some demo_place))]"

lemma demo_wager_id: "wager_id 0 1 = ''wager-0-1''"
  by code_simp

lemma demo_authorized:
  "authorizeSettlement None (demo_meta k) = None" "authorizePlace None (demo_meta k) p = None"
  by (simp_all add: authorizeSettlement_def authorizePlace_def authorize_backoffice_def authorize_owner_def resolveActor_def
      demo_meta_def operator_or_service_def)

lemma demo_idempotency [simp]: "idempotency (demo_meta k) = k"
  by (simp add: idempotency_def demo_meta_def)

lemma demo_placed:
  "wagers (wager_runs demo_ext demo_placing) = [''wager-0-1'' \<mapsto> demo_wager]"
  "settleByIdempotency (wager_runs demo_ext demo_placing) = Map.empty"
  "cancelByIdempotency (wager_runs demo_ext demo_placing) = Map.empty"
proof -
  obtain s' where s': "PlaceWager demo_ext demo_env None (Some demo_place) (NewWageringService None) =
        (\<lparr>WagerMeta = responseMeta demo_env (Place_Meta demo_place) RESULT_CODE_OK [], RespWager = Some demo_wager\<rparr>, s')"
    "wager_view s' = ([''wager-0-1'' \<mapsto> demo_wager], Suc 0)"
    "settleByIdempotency s' = Map.empty" "cancelByIdempotency s' = Map.empty"
    by (rule PlaceWager_fresh [OF NewWageringService_idle, where r = demo_place and ctx = None and e = demo_env and x = demo_ext])
       (simp_all add: demo_place_def demo_authorized not_invalidAmount demo_wager_def demo_env_def demo_wager_id
          [simplified] NewWageringService_def)
  have "wager_runs demo_ext demo_placing = s'"
    using s'(1) by (simp add: wager_runs_def demo_placing_def)
  with s' show "wagers (wager_runs demo_ext demo_placing) = [''wager-0-1'' \<mapsto> demo_wager]"
    "settleByIdempotency (wager_runs demo_ext demo_placing) = Map.empty"
    "cancelByIdempotency (wager_runs demo_ext demo_placing) = Map.empty"
    by (simp_all add: wager_view_def)
qed

section \<open>Properties\<close>

text \<open>
  C19. Without a database, the wagering service implements the life cycle \<open>wager_step\<close>: whatever requests come, in
  whatever order, the wagers and the counter of identifiers move only as the specification allows (a new pending
  wager under the next identifier; one change of a pending wager to settled or canceled that keeps the bet), and every
  wager is filed under its own identifier, whose number the counter has passed.
\<close>

theorem wagering_refines_lifecycle:
  "wager_step\<^sup>*\<^sup>* (Map.empty, 0) (wager_view (wager_runs x is)) \<and> wager_book_ok (wager_view (wager_runs x is))"
  by (simp add: wager_runs_spec wager_runs_book)

text \<open>
  C20. Without a database, a wager stays: after any further requests to the service it is still there with the same player,
  game, stake and time, and once it is settled or canceled nothing about it changes any more. With a database this
  fails across a restart, as the last theorem of this theory shows.
\<close>

theorem wager_final:
  assumes "wagers (wager_runs x is) wid = Some w"
  shows "\<exists>w'. wagers (wager_runs x (is @ js)) wid = Some w' \<and> same_bet w w' \<and>
    (WagerStatus w \<noteq> WAGER_STATUS_PENDING \<longrightarrow> w' = w)"
proof -
  have "wager_step\<^sup>*\<^sup>* (wager_view (wager_runs x is)) (wager_view (wager_runs x (is @ js)))"
    unfolding wager_runs_append by (rule wager_sim.run_simulates [OF wager_runs_idle])
  then have "wager_later (wager_view (wager_runs x is)) (wager_view (wager_runs x (is @ js)))"
    using wager_later_steps wager_runs_book by blast
  with assms show ?thesis by (simp add: wager_later_def wager_view_def)
qed

lemma wager_final_witness:
  "\<exists>w'. wagers (wager_runs demo_ext (demo_placing @ [(demo_env, None, CallSettle (Some demo_settle))])) ''wager-0-1'' = Some w' \<and>
     same_bet demo_wager w'"
  using wager_final [of demo_ext demo_placing "''wager-0-1''" demo_wager "[(demo_env, None, CallSettle (Some demo_settle))]"]
  by (auto simp: demo_placed)

text \<open>
  An admitted settlement of a pending wager is accepted and answered with the wager settled, which is what the
  service then holds and all that changes among the wagers; from then on the same request, at any later time, gets the
  recorded answer and changes nothing, and any other admitted settlement or cancellation of the wager is refused
  because it is not pending and changes nothing.
\<close>

theorem settle_resolves_once:
  assumes "s = wager_runs x is" "settle_admitted ctx r" "settleByIdempotency s (settle_key r) = None"
    and "wagers s (Settle_WagerId r) = Some w" "WagerStatus w = WAGER_STATUS_PENDING"
  shows "\<exists>s'. SettleWager x e ctx (Some r) s =
        (\<lparr>WagerMeta = responseMeta e (Settle_Meta r) RESULT_CODE_OK [], RespWager = Some (settled e r w)\<rparr>, s') \<and>
      wagers s' = (wagers s)(Settle_WagerId r \<mapsto> settled e r w) \<and>
      SettleWager x e' ctx (Some r) s' =
        (\<lparr>WagerMeta = responseMeta e (Settle_Meta r) RESULT_CODE_OK [], RespWager = Some (settled e r w)\<rparr>, s') \<and>
      (\<forall>r'. settle_admitted ctx r' \<and> Settle_WagerId r' = Settle_WagerId r \<and> settleByIdempotency s' (settle_key r') = None \<longrightarrow>
         SettleWager x e' ctx (Some r') s' =
           (wager_refusal e' (Settle_Meta r') RESULT_CODE_INVALID ''wager is not pending'', s')) \<and>
      (\<forall>r'. cancel_admitted ctx r' \<and> Cancel_WagerId r' = Settle_WagerId r \<and> cancelByIdempotency s' (cancel_key r') = None \<longrightarrow>
         CancelWager x e' ctx (Some r') s' =
           (wager_refusal e' (Cancel_Meta r') RESULT_CODE_INVALID ''wager is not pending'', s'))"
proof -
  let ?resp = "\<lparr>WagerMeta = responseMeta e (Settle_Meta r) RESULT_CODE_OK [], RespWager = Some (settled e r w)\<rparr>"
  have idle: "wagering_idle x s" unfolding assms(1) by (rule wager_runs_idle)
  obtain h where h: "SettleWager x e ctx (Some r) s = wager_resolve x e OpSettle (Settle_Meta r) (Settle_WagerId r)
      (settle_key r) h ''settle_wager'' (settled e r) s"
    using SettleWager_admitted [OF assms(2)] by blast
  obtain s' where s': "wager_resolve x e OpSettle (Settle_Meta r) (Settle_WagerId r) (settle_key r) h ''settle_wager''
      (settled e r) s = (?resp, s')" "wagering_idle x s'"
      "wager_view s' = ((wagers s)(Settle_WagerId r \<mapsto> settled e r w), nextWagerID s)"
      "wager_cache OpSettle s' (settle_key r) = Some ?resp"
    by (rule wager_resolve_changes [OF idle, where op = OpSettle and key = "settle_key r" and e = e and meta = "Settle_Meta r"
          and upd = "settled e r" and h = h and act = "''settle_wager''"]) (use assms(3-5) in simp_all)
  have held: "wagers s' (Settle_WagerId r) = Some (settled e r w)" "WagerStatus (settled e r w) \<noteq> WAGER_STATUS_PENDING"
    using s'(3) by (simp_all add: wager_view_def settled_def)
  from s'(4) have again: "SettleWager x e' ctx (Some r) s' = (?resp, s')"
    using SettleWager_admitted [OF assms(2), of x e' s'] wager_resolve_replays [OF s'(2)] by fastforce
  have no_settle: "SettleWager x e' ctx (Some r') s' =
      (wager_refusal e' (Settle_Meta r') RESULT_CODE_INVALID ''wager is not pending'', s')"
    if "settle_admitted ctx r'" "Settle_WagerId r' = Settle_WagerId r" "settleByIdempotency s' (settle_key r') = None" for r'
    using SettleWager_admitted [OF that(1), of x e' s'] wager_resolve_refuses [OF s'(2), of OpSettle "settle_key r'"]
      that(2,3) held by fastforce
  have no_cancel: "CancelWager x e' ctx (Some r') s' =
      (wager_refusal e' (Cancel_Meta r') RESULT_CODE_INVALID ''wager is not pending'', s')"
    if "cancel_admitted ctx r'" "Cancel_WagerId r' = Settle_WagerId r" "cancelByIdempotency s' (cancel_key r') = None" for r'
    using CancelWager_admitted [OF that(1), of x e' s'] wager_resolve_refuses [OF s'(2), of OpCancel "cancel_key r'"]
      that(2,3) held by fastforce
  show ?thesis
    using h s' again no_settle no_cancel by (intro exI [of _ s']) (simp add: wager_view_def)
qed

lemma settle_resolves_once_witness:
  "\<exists>s'. SettleWager demo_ext demo_env None (Some demo_settle) (wager_runs demo_ext demo_placing) =
        (\<lparr>WagerMeta = responseMeta demo_env (Settle_Meta demo_settle) RESULT_CODE_OK [],
          RespWager = Some (settled demo_env demo_settle demo_wager)\<rparr>, s') \<and>
      (cancelByIdempotency s' (cancel_key demo_cancel) = None \<longrightarrow>
       CancelWager demo_ext demo_env None (Some demo_cancel) s' =
        (wager_refusal demo_env (Cancel_Meta demo_cancel) RESULT_CODE_INVALID ''wager is not pending'', s'))"
proof -
  have "settle_admitted None demo_settle" "cancel_admitted None demo_cancel"
    by (simp_all add: settle_admitted_def cancel_admitted_def demo_settle_def demo_cancel_def demo_authorized not_invalidAmount)
  moreover have "wagers (wager_runs demo_ext demo_placing) (Settle_WagerId demo_settle) = Some demo_wager"
    "WagerStatus demo_wager = WAGER_STATUS_PENDING" "Cancel_WagerId demo_cancel = Settle_WagerId demo_settle"
    by (simp_all add: demo_placed demo_settle_def demo_cancel_def demo_wager_def)
  ultimately show ?thesis
    using settle_resolves_once [of "wager_runs demo_ext demo_placing" demo_ext demo_placing None demo_settle demo_wager
        demo_env demo_env]
    by (auto simp: demo_placed)
qed

text \<open>What the database keeps of a wager whose columns all fit.\<close>

definition storable :: "ext \<Rightarrow> wager \<Rightarrow> bool" where
  "storable x w \<longleftrightarrow> WagerStatus w \<noteq> WAGER_STATUS_UNSPECIFIED \<and> trim_space (PlacedAt w) \<noteq> [] \<and>
     (\<exists>stake payout. Stake w = Some stake \<and> Payout w = Some payout \<and> 0 < sint (AmountMinor stake) \<and>
        0 \<le> sint (AmountMinor payout) \<and> Currency payout \<noteq> [] \<and>
        pg_char3 x (Currency stake) = Some (Currency stake) \<and> pg_char3 x (Currency payout) = Some (Currency payout)) \<and>
     (\<exists>t. pg_time_of_text x (PlacedAt w) = Some t \<and> fmt_rfc3339nano t = PlacedAt w) \<and>
     (SettledAt w = [] \<or> (\<exists>t. pg_time_of_text x (SettledAt w) = Some t \<and> fmt_rfc3339nano t = SettledAt w)) \<and>
     (CanceledAt w = [] \<or> (\<exists>t. pg_time_of_text x (CanceledAt w) = Some t \<and> fmt_rfc3339nano t = CanceledAt w))"

lemma status_roundtrip: "st \<noteq> WAGER_STATUS_UNSPECIFIED \<Longrightarrow> wageringStatusFromDB (wageringStatusToDB st) = st"
  by (cases st) (simp_all add: wageringStatusFromDB_def lower_byte_def Let_def)

lemma nullable_time_roundtrip:
  assumes "t = [] \<or> (\<exists>u. pg_time_of_text x t = Some u \<and> fmt_rfc3339nano u = t)"
  obtains v where "nullable_time x t = Some v" "(case v of None \<Rightarrow> [] | Some u \<Rightarrow> fmt_rfc3339nano u) = t"
  using assms by (cases "t = []") (auto simp: nullable_time_def)

lemma upsert_wager_read:
  assumes "storable x w"
  shows "\<exists>d'. upsert_wager x e w d = Some d' \<and> db_faults d' = db_faults d \<and>
     map_option row_to_wager (find (\<lambda>r. wr_wager_id r = WagerId w) (wagers_table d')) = Some w"
proof -
  obtain stake payout where m: "Stake w = Some stake" "Payout w = Some payout" "0 < sint (AmountMinor stake)"
      "0 \<le> sint (AmountMinor payout)" "Currency payout \<noteq> []"
      "pg_char3 x (Currency stake) = Some (Currency stake)" "pg_char3 x (Currency payout) = Some (Currency payout)"
    using assms unfolding storable_def by blast
  obtain t where t: "pg_time_of_text x (PlacedAt w) = Some t" "fmt_rfc3339nano t = PlacedAt w"
    using assms unfolding storable_def by blast
  have t': "PlacedAt w \<noteq> []" "nonEmptyTime e (PlacedAt w) = PlacedAt w"
    using assms unfolding storable_def nonEmptyTime_def by auto
  obtain u v where u: "nullable_time x (SettledAt w) = Some u" "(case u of None \<Rightarrow> [] | Some u \<Rightarrow> fmt_rfc3339nano u) = SettledAt w"
    and v: "nullable_time x (CanceledAt w) = Some v" "(case v of None \<Rightarrow> [] | Some u \<Rightarrow> fmt_rfc3339nano u) = CanceledAt w"
    using assms nullable_time_roundtrip unfolding storable_def by metis
  let ?row = "\<lparr>wr_wager_id = WagerId w, wr_player_id = WagerPlayerId w, wr_game_id = WagerGameId w,
      wr_stake_amount = sint (AmountMinor stake), wr_stake_currency = Currency stake,
      wr_status = wageringStatusToDB (WagerStatus w), wr_payout_amount = sint (AmountMinor payout),
      wr_payout_currency = Currency payout, wr_outcome_ref = OutcomeRef w, wr_placed_at = t, wr_settled_at = u,
      wr_canceled_at = v, wr_cancel_reason = CancelReason w\<rparr>"
  have "row_to_wager ?row = w"
    using m(1,2,5) t u v status_roundtrip [of "WagerStatus w"] assms
    by (simp add: row_to_wager_def money_def storable_def)
  moreover have "wager_row_of x e w = Some ?row"
    using m t t' u v by (simp add: wager_row_of_def Let_def)
  ultimately show ?thesis
    using find_upsert_same [of wr_wager_id ?row "wagers_table d"] by (simp add: upsert_wager_def)
qed

text \<open>
  A resolved wager whose times and currencies the database can hold comes back from the database as it was
  written: after a \<open>persistWager\<close> that no failure of the connection interrupts, \<open>getWager\<close> returns the wager itself,
  whatever the tables held before.
\<close>

theorem wager_db_roundtrip:
  assumes "storable x w" "svc_db s = Some d" "db_faults d = []"
  shows "\<exists>s'. persistWager x e w s = (True, s') \<and> fst (getWager (WagerId w) s') = Some (Some w)"
proof -
  obtain d' where d': "upsert_wager x e w d = Some d'" "db_faults d' = db_faults d"
      "map_option row_to_wager (find (\<lambda>r. wr_wager_id r = WagerId w) (wagers_table d')) = Some w"
    using upsert_wager_read [OF assms(1), of e d] by blast
  have "persistWager x e w s = (True, s\<lparr>svc_db := Some d'\<rparr>)"
    using assms d'(1,2) by (simp add: persistWager_def svc_exec_def sql_stmt_def sql_exec_def)
  then show ?thesis
    using assms(3) d'(2,3) by (simp add: getWager_def svc_query_def sql_query_def sql_exec_def)
qed

definition demo_row :: wager_row where
  "demo_row = \<lparr>wr_wager_id = ''wager-0-1'', wr_player_id = ''p1'', wr_game_id = ''g1'', wr_stake_amount = 100,
     wr_stake_currency = ''USD'', wr_status = ''pending'', wr_payout_amount = 0, wr_payout_currency = ''   '',
     wr_outcome_ref = [], wr_placed_at = 0, wr_settled_at = None, wr_canceled_at = None, wr_cancel_reason = []\<rparr>"

definition demo_wager_db :: wager_db where
  "demo_wager_db = \<lparr>db_faults = [], db_int_text = True, db_audit_events = [], wagers_table = [demo_row],
     wagering_idempotency_keys = [\<lparr>wi_operation = ''place'', wi_scope_id = ''p1'', wi_key = ''k1'', wi_request_hash = ''h'',
       wi_payload = \<lparr>WagerMeta = responseMeta demo_env (demo_meta ''k1'') RESULT_CODE_OK [], RespWager = Some (row_to_wager demo_row)\<rparr>\<rparr>]\<rparr>"

lemma demo_storable: "storable demo_ext (settled demo_env demo_settle demo_wager)"
proof -
  have "trim_space (fmt_rfc3339nano 0) \<noteq> []" by code_simp
  moreover have "parse_rfc3339nano (fmt_rfc3339nano 0) = Some 0" by code_simp
  ultimately show ?thesis
    by (simp add: storable_def settled_def demo_settle_def demo_wager_def demo_ext_def char3_def demo_env_def money_def)
qed

lemma wager_db_roundtrip_witness:
  "\<exists>s'. persistWager demo_ext demo_env (settled demo_env demo_settle demo_wager) (NewWageringService (Some demo_wager_db)) = (True, s') \<and>
        fst (getWager ''wager-0-1'' s') = Some (Some (settled demo_env demo_settle demo_wager))"
  using wager_db_roundtrip [OF demo_storable, of "NewWageringService (Some demo_wager_db)" demo_wager_db demo_env]
  by (simp add: NewWageringService_def demo_wager_db_def) (simp add: settled_def demo_wager_def)

section \<open>With a database that answers\<close>

text \<open>No statement fails from now on.\<close>

definition wagering_live :: "ext \<Rightarrow> wagering \<Rightarrow> wager_db \<Rightarrow> bool" where
  "wagering_live x s d \<longleftrightarrow> svc_ok x s \<and> svc_db s = Some d \<and> db_faults d = [] \<and> \<not> disableInMemCache s"

lemma wagering_live_caches: "wagering_live x s d \<Longrightarrow> useInMemoryCache s \<and> useInMemoryWagerMirror s \<and> wagering_dbEnabled s"
  by (simp add: wagering_live_def useInMemoryCache_def useInMemoryWagerMirror_def wagering_dbEnabled_def)

lemma wagering_appendAudit_live:
  assumes "wagering_live x s d"
  obtains s' rows where "wagering_appendAudit x e meta oid act b a r why s = (True, s')"
    "wagering_live x s' (d\<lparr>db_audit_events := rows\<rparr>)" "wagers s' = wagers s" "wager_cache op s' = wager_cache op s"
proof -
  let ?mk = "\<lambda>n. audit_event e (''wagering-audit-'' @ itoa_nat n) meta ''wager'' oid act b a r why"
  obtain st n rows where app: "svc_append x e ?mk s =
      (True, s\<lparr>svc_AuditStore := st, svc_nextAuditID := n, svc_db := Some (d\<lparr>db_audit_events := rows\<rparr>)\<rparr>)"
    using assms svc_append_live [of x s d e ?mk] unfolding wagering_live_def by metis
  then show ?thesis
    using assms svc_append_ok [of x s e ?mk]
    by (intro that [of "snd (svc_append x e ?mk s)" rows])
       (simp_all add: wagering_live_def wagering_appendAudit_def, cases op, simp_all)
qed

lemma upsert_wager_frame:
  assumes "upsert_wager x e w d = Some d1"
  shows "db_faults d1 = db_faults d" "wagering_idempotency_keys d1 = wagering_idempotency_keys d"
  using assms by (auto simp: upsert_wager_def)

lemma upsert_wager_some:
  assumes "wager_row_of x e w \<noteq> None"
  shows "\<exists>d1. upsert_wager x e w d = Some d1 \<and>
    map_option wr_status (find (\<lambda>r. wr_wager_id r = WagerId w) (wagers_table d1)) = Some (wageringStatusToDB (WagerStatus w))"
proof -
  obtain row where row: "wager_row_of x e w = Some row" using assms by blast
  then have "wr_wager_id row = WagerId w" "wr_status row = wageringStatusToDB (WagerStatus w)"
    by (auto simp: wager_row_of_def Let_def split: option.splits if_splits)
  then show ?thesis using row find_upsert_same [of wr_wager_id row] by (simp add: upsert_wager_def)
qed

lemma upsert_wager_idem_frame:
  "\<exists>d2. upsert_wager_idem op sc k h resp d = Some d2 \<and> db_faults d2 = db_faults d \<and> wagers_table d2 = wagers_table d \<and>
     (\<forall>r \<in> set (wagering_idempotency_keys d2). wi_operation r = op \<or> r \<in> set (wagering_idempotency_keys d))"
  by (auto simp: upsert_wager_idem_def upsert_def)

lemma wager_finish_live:
  fixes e :: env and meta :: "request_meta option" and w :: wager
  assumes live: "wagering_live x s d" and up: "upsert_wager x e w d = Some d1"
  obtains s' d' where "wager_finish x e op meta sc key h w oid b act s =
        (\<lparr>WagerMeta = responseMeta e meta RESULT_CODE_OK [], RespWager = Some w\<rparr>, s')"
    "wagering_live x s' d'" "wagers s' = wagers s" "wagers_table d' = wagers_table d1"
    "op' \<noteq> op \<longrightarrow> wager_cache op' s' = wager_cache op' s"
    "\<forall>r \<in> set (wagering_idempotency_keys d'). wi_operation r = op_word op \<or> r \<in> set (wagering_idempotency_keys d)"
proof -
  let ?resp = "\<lparr>WagerMeta = responseMeta e meta RESULT_CODE_OK [], RespWager = Some w\<rparr>"
  let ?s1 = "wager_cache_put op key ?resp s"
  obtain d2 where d2: "upsert_wager_idem (op_word op) sc (idempotency meta) h ?resp d1 = Some d2"
      "db_faults d2 = db_faults d1" "wagers_table d2 = wagers_table d1"
      "\<forall>r \<in> set (wagering_idempotency_keys d2). wi_operation r = op_word op \<or> r \<in> set (wagering_idempotency_keys d)"
    using upsert_wager_frame(2) [OF up] upsert_wager_idem_frame [of "op_word op" sc "idempotency meta" h ?resp d1]
    by auto
  let ?s2 = "?s1\<lparr>svc_db := Some d1\<rparr>" and ?s3 = "?s1\<lparr>svc_db := Some d2\<rparr>"
  have put: "svc_db ?s1 = Some d" "wagers ?s1 = wagers s" "disableInMemCache ?s1 = disableInMemCache s"
      "svc_AuditStore ?s1 = svc_AuditStore s"
    using live by (cases op; simp add: wagering_live_def)+
  have "persistWager x e w ?s1 = (True, ?s2)"
    using put up live by (simp add: persistWager_def svc_exec_def sql_stmt_def sql_exec_def wagering_live_def)
  moreover have "wagering_persistIdempotencyResponse (op_word op) sc (idempotency meta) h ?resp ?s2 = (True, ?s3)"
    using d2 upsert_wager_frame [OF up] live
    by (simp add: wagering_persistIdempotencyResponse_def svc_exec_def sql_stmt_def sql_exec_def wagering_live_def)
  moreover have live3: "wagering_live x ?s3 d2"
    using live put d2(2) upsert_wager_frame [OF up] by (simp add: wagering_live_def svc_ok_def)
  then obtain s' rows where s': "wagering_appendAudit x e meta oid act b (wager_json w) ResultSuccess [] ?s3 = (True, s')"
      "wagering_live x s' (d2\<lparr>db_audit_events := rows\<rparr>)" "wagers s' = wagers ?s3" "wager_cache op' s' = wager_cache op' ?s3"
    by (rule wagering_appendAudit_live [where op = op'])
  moreover have "wager_cached op key ?resp s = ?s1"
    using wagering_live_caches [OF live] by (simp add: wager_cached_def)
  ultimately have "wager_finish x e op meta sc key h w oid b act s = (?resp, s')"
    by (simp add: wager_finish_def Let_def)
  moreover have "wager_cache op' ?s3 = wager_cache op' s" if "op' \<noteq> op" using that by (cases op; cases op') simp_all
  ultimately show ?thesis
    using s' d2 put by (intro that [of s' "d2\<lparr>db_audit_events := rows\<rparr>"]) simp_all
qed

lemma wager_replay_live:
  assumes "wagering_live x s d" "wager_cache op s key = None"
    "\<forall>r \<in> set (wagering_idempotency_keys d). wi_scope_id r = sc \<longrightarrow> wi_operation r \<noteq> op_word op"
  shows "wager_replay e op meta sc key h s = (None, s)"
proof -
  have "find (\<lambda>r. wi_operation r = op_word op \<and> wi_scope_id r = sc \<and> wi_key r = idempotency meta)
      (wagering_idempotency_keys d) = None"
    using assms(3) by (auto simp: find_None_iff)
  moreover have "s\<lparr>svc_db := Some d\<rparr> = s" using assms(1) by (simp add: wagering_live_def flip: wagering.surjective)
  ultimately show ?thesis
    using assms(1,2) wagering_live_caches [OF assms(1)]
    by (simp add: wager_replay_def wagering_loadIdempotencyResponse_def svc_query_def sql_query_def sql_exec_def
        wagering_live_def)
qed

lemma getWager_live:
  "wagering_live x s d \<Longrightarrow>
   getWager wid s = (Some (map_option row_to_wager (find (\<lambda>r. wr_wager_id r = wid) (wagers_table d))), s)"
  by (simp add: getWager_def svc_query_def sql_query_def sql_exec_def wagering_live_def)

lemma wager_lookup_row:
  assumes "wagering_live x s d" "wagers s wid = None"
    "find (\<lambda>r. wr_wager_id r = wid) (wagers_table d) = Some row"
  shows "wager_lookup wid s = (Some (Some (row_to_wager row, False)), s\<lparr>wagers := (wagers s)(wid \<mapsto> row_to_wager row)\<rparr>)"
proof -
  have "wr_wager_id row = wid" using assms(3) by (auto simp: find_Some_iff)
  then have "WagerId (row_to_wager row) = wid" by (simp add: row_to_wager_def)
  then show ?thesis
    using assms(2,3) wagering_live_caches [OF assms(1)]
    by (simp add: wager_lookup_def getWager_live [OF assms(1)] wager_mirrored_def)
qed

text \<open>A resolution of a wager that is in the map, and one of a wager that only the database has, which leaves the map's
  copy as it was.\<close>

lemma wager_resolve_live:
  assumes live: "wagering_live x s d" and fresh: "wager_cache op s key = None"
    "\<forall>r \<in> set (wagering_idempotency_keys d). wi_scope_id r = wid \<longrightarrow> wi_operation r \<noteq> op_word op"
    and pending: "WagerStatus w = WAGER_STATUS_PENDING" "WagerId (upd w) = wid" "wager_row_of x e (upd w) \<noteq> None"
    and held: "wagers s wid = Some w \<or>
      wagers s wid = None \<and> (\<exists>row. find (\<lambda>r. wr_wager_id r = wid) (wagers_table d) = Some row \<and> row_to_wager row = w)"
  obtains resp s' d' where "wager_resolve x e op meta wid key h act upd s = (resp, s')"
    "ResultCode (WagerMeta resp) = RESULT_CODE_OK" "wagering_live x s' d'"
    "wagers s' wid = Some (if wagers s wid = None then w else upd w)"
    "map_option wr_status (find (\<lambda>r. wr_wager_id r = wid) (wagers_table d')) = Some (wageringStatusToDB (WagerStatus (upd w)))"
    "op' \<noteq> op \<longrightarrow> wager_cache op' s' = wager_cache op' s"
    "\<forall>r \<in> set (wagering_idempotency_keys d'). wi_operation r = op_word op \<or> r \<in> set (wagering_idempotency_keys d)"
proof -
  let ?s = "s\<lparr>wagers := (wagers s)(wid \<mapsto> if wagers s wid = None then w else upd w)\<rparr>"
  have live': "wagering_live x ?s d" using live by (simp add: wagering_live_def svc_ok_def)
  have cache: "wager_cache op' ?s = wager_cache op' s" by (cases op') simp_all
  obtain d1 where up: "upsert_wager x e (upd w) d = Some d1"
      "map_option wr_status (find (\<lambda>r. wr_wager_id r = wid) (wagers_table d1)) = Some (wageringStatusToDB (WagerStatus (upd w)))"
    using upsert_wager_some [OF pending(3), of d] pending(2) by auto
  have "wager_lookup wid s = (Some (Some (w, wagers s wid \<noteq> None)), if wagers s wid = None then ?s else s)"
    using held wager_lookup_row [OF live] wagering_live_caches [OF live] by (auto simp: wager_lookup_def)
  then have res: "wager_resolve x e op meta wid key h act upd s =
      wager_finish x e op meta wid key h (upd w) wid (wager_json w) act ?s"
    using wager_replay_live [OF live fresh] pending(1) by (simp add: wager_resolve_def)
  obtain s' d' where fin: "wager_finish x e op meta wid key h (upd w) wid (wager_json w) act ?s =
        (\<lparr>WagerMeta = responseMeta e meta RESULT_CODE_OK [], RespWager = Some (upd w)\<rparr>, s')"
      "wagering_live x s' d'" "wagers s' = wagers ?s" "wagers_table d' = wagers_table d1"
      "op' \<noteq> op \<longrightarrow> wager_cache op' s' = wager_cache op' ?s"
      "\<forall>r \<in> set (wagering_idempotency_keys d'). wi_operation r = op_word op \<or> r \<in> set (wagering_idempotency_keys d)"
    by (rule wager_finish_live [OF live' up(1), where op = op and op' = op' and meta = meta and sc = wid and key = key
          and h = h and oid = wid and b = "wager_json w" and act = act])
  show ?thesis
    by (rule that [OF res [unfolded fin(1)] _ fin(2)]) (use fin(3-6) up(2) cache in simp_all)
qed

text \<open>
  C23. With a database and the in-memory mirror, which the strict production mode turns off and every other mode keeps, the life
  cycle is not final across a restart: a wager whose row is still pending, and for which no settlement or cancellation has been
  answered yet, is settled by the restarted service, and can then be canceled by a second request. The second
  resolution works on the copy that the first one left pending in memory; both are answered with success, and the row, settled
  after the first, ends as canceled. The answer stored when the wager was placed does not matter.
\<close>

theorem restart_resolves_twice:
  assumes "db_faults d = []"
    and keys: "\<forall>k \<in> set (wagering_idempotency_keys d). wi_scope_id k = wid \<longrightarrow> wi_operation k \<notin> {''settle'', ''cancel''}"
    and row: "find (\<lambda>r. wr_wager_id r = wid) (wagers_table d) = Some row" "wr_status row = ''pending''"
    and settle: "settle_admitted ctx r" "Settle_WagerId r = wid" "wager_row_of x e (settled e r (row_to_wager row)) \<noteq> None"
    and cancel: "cancel_admitted ctx c" "Cancel_WagerId c = wid" "wager_row_of x e' (canceled e' c (row_to_wager row)) \<noteq> None"
  shows "\<exists>r1 s1 d1 r2 s2 d2. SettleWager x e ctx (Some r) (NewWageringService (Some d)) = (r1, s1) \<and>
      ResultCode (WagerMeta r1) = RESULT_CODE_OK \<and> svc_db s1 = Some d1 \<and>
      map_option wr_status (find (\<lambda>r. wr_wager_id r = wid) (wagers_table d1)) = Some ''settled'' \<and>
      CancelWager x e' ctx (Some c) s1 = (r2, s2) \<and>
      ResultCode (WagerMeta r2) = RESULT_CODE_OK \<and> svc_db s2 = Some d2 \<and>
      map_option wr_status (find (\<lambda>r. wr_wager_id r = wid) (wagers_table d2)) = Some ''canceled''"
proof -
  let ?s = "NewWageringService (Some d)" and ?w = "row_to_wager row"
  have live: "wagering_live x ?s d"
    using assms(1) by (simp_all add: wagering_live_def NewWageringService_def svc_ok_def)
  have w: "WagerId ?w = wid" "WagerStatus ?w = WAGER_STATUS_PENDING"
    using row by (auto simp: row_to_wager_def find_Some_iff wageringStatusFromDB_def lower_byte_def Let_def)
  have empty: "settleByIdempotency ?s = Map.empty" "cancelByIdempotency ?s = Map.empty" "wagers ?s = Map.empty"
    by (simp_all add: NewWageringService_def)
  obtain h1 where h1: "SettleWager x e ctx (Some r) ?s =
      wager_resolve x e OpSettle (Settle_Meta r) wid (settle_key r) h1 ''settle_wager'' (settled e r) ?s"
    using SettleWager_admitted [OF settle(1)] settle(2) by blast
  obtain r1 s1 d1 where first: "wager_resolve x e OpSettle (Settle_Meta r) wid (settle_key r) h1 ''settle_wager'' (settled e r) ?s = (r1, s1)"
      "ResultCode (WagerMeta r1) = RESULT_CODE_OK" "wagering_live x s1 d1"
      "wagers s1 wid = Some ?w" "cancelByIdempotency s1 = Map.empty"
      "map_option wr_status (find (\<lambda>r. wr_wager_id r = wid) (wagers_table d1)) = Some ''settled''"
      "\<forall>r \<in> set (wagering_idempotency_keys d1). wi_operation r = op_word OpSettle \<or> r \<in> set (wagering_idempotency_keys d)"
    by (rule wager_resolve_live [OF live, where op = OpSettle and op' = OpCancel and w = ?w and wid = wid
          and upd = "settled e r" and e = e and key = "settle_key r" and h = h1 and meta = "Settle_Meta r" and act = "''settle_wager''"])
       (use empty w row settle keys in \<open>auto simp: settled_def\<close>)
  have fresh: "\<forall>r \<in> set (wagering_idempotency_keys d1). wi_scope_id r = wid \<longrightarrow> wi_operation r \<noteq> op_word OpCancel"
    using first(7) keys by fastforce
  obtain h2 where h2: "CancelWager x e' ctx (Some c) s1 =
      wager_resolve x e' OpCancel (Cancel_Meta c) wid (cancel_key c) h2 ''cancel_wager'' (canceled e' c) s1"
    using CancelWager_admitted [OF cancel(1)] cancel(2) by blast
  obtain r2 s2 d2 where second: "wager_resolve x e' OpCancel (Cancel_Meta c) wid (cancel_key c) h2 ''cancel_wager'' (canceled e' c) s1 = (r2, s2)"
      "ResultCode (WagerMeta r2) = RESULT_CODE_OK" "wagering_live x s2 d2"
      "map_option wr_status (find (\<lambda>r. wr_wager_id r = wid) (wagers_table d2)) = Some ''canceled''"
    by (rule wager_resolve_live [OF first(3), where op = OpCancel and op' = OpSettle and w = ?w and wid = wid
          and upd = "canceled e' c" and e = e' and key = "cancel_key c" and h = h2 and meta = "Cancel_Meta c" and act = "''cancel_wager''"])
       (use empty w first(4,5) fresh cancel in \<open>auto simp: canceled_def\<close>)
  from h1 first h2 second show ?thesis by (auto simp: wagering_live_def)
qed

lemma restart_resolves_twice_witness:
  "\<exists>r1 s1 r2 s2. SettleWager demo_ext demo_env None (Some demo_settle) (NewWageringService (Some demo_wager_db)) = (r1, s1) \<and>
      ResultCode (WagerMeta r1) = RESULT_CODE_OK \<and> CancelWager demo_ext demo_env None (Some demo_cancel) s1 = (r2, s2) \<and>
      ResultCode (WagerMeta r2) = RESULT_CODE_OK"
proof -
  have "trim_space (fmt_rfc3339nano 0) \<noteq> []" "parse_rfc3339nano (fmt_rfc3339nano 0) = Some 0" "fmt_rfc3339nano 0 \<noteq> []"
    by code_simp+
  then have "wager_row_of demo_ext demo_env (settled demo_env demo_settle (row_to_wager demo_row)) \<noteq> None"
    "wager_row_of demo_ext demo_env (canceled demo_env demo_cancel (row_to_wager demo_row)) \<noteq> None"
    by (simp_all add: wager_row_of_def Let_def settled_def canceled_def demo_settle_def demo_cancel_def row_to_wager_def demo_row_def
        demo_ext_def char3_def nullable_time_def nonEmptyTime_def demo_env_def)
  moreover have "settle_admitted None demo_settle" "cancel_admitted None demo_cancel"
    by (simp_all add: settle_admitted_def cancel_admitted_def demo_settle_def demo_cancel_def demo_authorized not_invalidAmount)
  moreover have "find (\<lambda>r. wr_wager_id r = ''wager-0-1'') (wagers_table demo_wager_db) = Some demo_row"
    by (simp add: demo_wager_db_def demo_row_def)
  ultimately show ?thesis
    using restart_resolves_twice [of demo_wager_db "''wager-0-1''" demo_row None demo_settle demo_ext demo_env demo_cancel demo_env]
    by (simp add: demo_wager_db_def demo_row_def demo_settle_def demo_cancel_def) blast
qed

end
