(* ===== verification/Jwt.thy ===== *)
theory Jwt
  imports Common
begin

text \<open>
  Access tokens, \<^verbatim>\<open>internal/platform/auth\<close>: the keyset of HMAC keys, the signer of the identity service, the verifier
  of the gRPC interceptor and of the HTTP middleware, and the interceptor itself.

  The JWT package is not part of the repository. It is a parameter: \<open>jwt_sign\<close> is
  \<^verbatim>\<open>NewWithClaims(HS256, claims)\<close> with the header \<^verbatim>\<open>kid\<close> and \<^verbatim>\<open>SignedString(secret)\<close>; \<open>jwt_parse\<close> is
  \<^verbatim>\<open>ParseWithClaims\<close> restricted to HS256 with the given leeway, at a reading of the wall clock. Its argument is the
  key function, applied to the algorithm and the \<^verbatim>\<open>kid\<close> of the header (empty when there is none); the result are the
  claims of a valid token.
\<close>

section \<open>Keysets\<close>

record HMACKeyset =
  ActiveKID :: string
  Keys :: "string \<rightharpoonup> string"

text \<open>The loop over the entries of the specification; \<open>None\<close> is a malformed entry.\<close>

fun keyset_entries :: "string list \<Rightarrow> (string \<rightharpoonup> string) \<Rightarrow> (string \<rightharpoonup> string) option" where
  "keyset_entries [] keys = Some keys"
| "keyset_entries (part # parts) keys =
     (let entry = trim_space part
      in if entry = [] then keyset_entries parts keys
         else (case split_two (CHR '':'') entry of
                 None \<Rightarrow> None
               | Some (k, v) \<Rightarrow>
                   let kid = trim_space k; secret = trim_space v
                   in if kid = [] \<or> secret = [] then None
                      else keyset_entries parts (keys(kid \<mapsto> secret))))"

text \<open>An empty keyset is an error of its own in the source; it has no active key either, and errors carry no text here.\<close>

definition ParseHMACKeyset :: "string \<Rightarrow> string \<Rightarrow> string \<Rightarrow> HMACKeyset option" where
  "ParseHMACKeyset fallbackSecret keysetSpec activeKID =
     (let active = (if trim_space activeKID = [] then ''default'' else activeKID);
          entries = (if trim_space keysetSpec \<noteq> [] then keyset_entries (split_on (CHR '','') keysetSpec) Map.empty
                     else if trim_space fallbackSecret = [] then None
                     else Some [active \<mapsto> fallbackSecret])
      in case entries of
           None \<Rightarrow> None
         | Some keys \<Rightarrow>
             if keys active = None then None
             else Some \<lparr>ActiveKID = active, Keys = keys\<rparr>)"

text \<open>
  \<^verbatim>\<open>LoadHMACKeysetJSON\<close> after the decoding: \<open>entries\<close> are the keys of the decoded map in the order the loop visits
  them.
\<close>

definition LoadHMACKeysetJSON :: "string \<Rightarrow> (string \<times> string) list \<Rightarrow> HMACKeyset option" where
  "LoadHMACKeysetJSON activeKID entries =
     (let active = (if trim_space activeKID = [] then ''default'' else trim_space activeKID);
          keys = fold (\<lambda>(k, v) ks. let kid = trim_space k; secret = trim_space v
                                   in if kid = [] \<or> secret = [] then ks else ks(kid \<mapsto> secret)) entries Map.empty
      in if keys active = None then None
         else Some \<lparr>ActiveKID = active, Keys = keys\<rparr>)"

text \<open>Signer and verifier hold the same data, copied; \<open>SetKeyset\<close> replaces it and is refused when the active key is missing.\<close>

type_synonym jwt_keys = HMACKeyset

definition NewJWTSignerWithKeyset :: "HMACKeyset \<Rightarrow> jwt_keys" where
  "NewJWTSignerWithKeyset keyset = keyset"

definition NewJWTSigner :: "string \<Rightarrow> jwt_keys outcome" where
  "NewJWTSigner secret =
     (case ParseHMACKeyset secret [] ''default'' of None \<Rightarrow> Panics | Some keyset \<Rightarrow> Returns (NewJWTSignerWithKeyset keyset))"

definition NewJWTVerifierWithKeyset :: "HMACKeyset \<Rightarrow> jwt_keys" where
  "NewJWTVerifierWithKeyset keyset = keyset"

definition SetKeyset :: "HMACKeyset \<Rightarrow> jwt_keys \<Rightarrow> bool \<times> jwt_keys" where
  "SetKeyset keyset s = (if Keys keyset (ActiveKID keyset) = None then (False, s) else (True, keyset))"

section \<open>Signing and verifying\<close>

record jwt_claims =
  Sub :: string
  ActorTypeClaim :: string
  Iat :: int
  Exp :: int

record jwt_lib =
  jwt_sign :: "string \<Rightarrow> jwt_claims \<Rightarrow> string \<Rightarrow> string option"
  jwt_parse :: "duration \<Rightarrow> time \<Rightarrow> (string \<Rightarrow> string \<Rightarrow> string option) \<Rightarrow> string \<Rightarrow> (string option \<times> string option) option"

definition unix :: "time \<Rightarrow> int" where
  "unix t = t div second"

definition SignActor :: "('z) jwt_lib_scheme \<Rightarrow> jwt_keys \<Rightarrow> auth_actor \<Rightarrow> time \<Rightarrow> duration \<Rightarrow> (string \<times> time) option" where
  "SignActor lib s a now ttl =
     (case Keys s (ActiveKID s) of
        None \<Rightarrow> None
      | Some secret \<Rightarrow>
          if secret = [] then None
          else let expiresAt = now + ttl
               in map_option (\<lambda>signed. (signed, expiresAt))
                    (jwt_sign lib (ActiveKID s)
                      \<lparr>Sub = AuthID a, ActorTypeClaim = AuthType a, Iat = unix now, Exp = unix expiresAt\<rparr> secret))"

text \<open>The key function of \<^verbatim>\<open>ParseActor\<close>; a claim that is missing or no string reads as empty.\<close>

definition verifier_key :: "jwt_keys \<Rightarrow> string \<Rightarrow> string \<Rightarrow> string option" where
  "verifier_key v alg kid0 =
     (if alg \<noteq> ''HS256'' then None
      else let kid = (if trim_space kid0 = [] then ActiveKID v else kid0)
           in case Keys v kid of None \<Rightarrow> None | Some secret \<Rightarrow> if secret = [] then None else Some secret)"

definition claim_text :: "string option \<Rightarrow> string" where
  "claim_text c = (case c of None \<Rightarrow> [] | Some t \<Rightarrow> t)"

definition ParseActor :: "('z) jwt_lib_scheme \<Rightarrow> jwt_keys \<Rightarrow> time \<Rightarrow> string \<Rightarrow> auth_actor option" where
  "ParseActor lib v wall tokenString =
     (case jwt_parse lib (5 * second) wall (verifier_key v) tokenString of
        None \<Rightarrow> None
      | Some (sub, ty) \<Rightarrow>
          if claim_text sub = [] \<or> claim_text ty = [] then None
          else Some \<lparr>AuthID = claim_text sub, AuthType = claim_text ty\<rparr>)"

text \<open>
  The interceptor: \<open>Inl\<close> is the status message of an unauthenticated call, \<open>Inr\<close> the actor the handler finds in its
  context, if any. \<open>md\<close> are the values of the header \<^verbatim>\<open>authorization\<close> in the incoming metadata.
\<close>

definition UnaryJWTInterceptor ::
    "('z) jwt_lib_scheme \<Rightarrow> jwt_keys \<Rightarrow> string list \<Rightarrow> time \<Rightarrow> string \<Rightarrow> string list option \<Rightarrow> string + auth_actor option" where
  "UnaryJWTInterceptor lib v allow wall fullMethod md =
     (if fullMethod \<in> set allow then Inr None
      else (case md of
              None \<Rightarrow> Inl ''missing metadata''
            | Some [] \<Rightarrow> Inl ''missing bearer token''
            | Some (h # _) \<Rightarrow>
                (case trim_prefix ''Bearer '' h of
                   None \<Rightarrow> Inl ''missing bearer token''
                 | Some token \<Rightarrow>
                     (case ParseActor lib v wall token of None \<Rightarrow> Inl ''invalid token'' | Some a \<Rightarrow> Inr (Some a)))))"

definition HTTPJWTMiddlewareWithSkips ::
    "('z) jwt_lib_scheme \<Rightarrow> jwt_keys \<Rightarrow> string list \<Rightarrow> time \<Rightarrow> string \<Rightarrow> string \<Rightarrow> string + auth_actor option" where
  "HTTPJWTMiddlewareWithSkips lib v skips wall path header =
     (if path \<in> set skips then Inr None
      else (case trim_prefix ''Bearer '' header of
              None \<Rightarrow> Inl ''missing bearer token''
            | Some token \<Rightarrow>
                (case ParseActor lib v wall token of None \<Rightarrow> Inl ''invalid token'' | Some a \<Rightarrow> Inr (Some a))))"

section \<open>The refresh-token allow list\<close>

definition allowlist_Add :: "string \<Rightarrow> string set \<Rightarrow> string set" where
  "allowlist_Add token l = (if trim_space token = [] then l else insert token l)"

definition allowlist_Remove :: "string \<Rightarrow> string set \<Rightarrow> string set" where
  "allowlist_Remove token l = (if trim_space token = [] then l else l - {token})"

definition allowlist_Contains :: "string \<Rightarrow> string set \<Rightarrow> bool" where
  "allowlist_Contains token l = (if trim_space token = [] then False else token \<in> l)"

section \<open>Facts\<close>

text \<open>What the keyset parser accepts has an active key, and no key or key name is blank.\<close>

definition keys_named :: "(string \<rightharpoonup> string) \<Rightarrow> bool" where
  "keys_named keys \<longleftrightarrow> (\<forall>k v. keys k = Some v \<longrightarrow> k \<noteq> [] \<and> v \<noteq> [])"

lemma keys_named_upd: "keys_named keys \<Longrightarrow> k \<noteq> [] \<Longrightarrow> v \<noteq> [] \<Longrightarrow> keys_named (keys(k \<mapsto> v))"
  by (simp add: keys_named_def)

lemma keyset_entries_ok: "keyset_entries parts keys = Some keys' \<Longrightarrow> keys_named keys \<Longrightarrow> keys_named keys'"
proof (induction parts arbitrary: keys)
  case (Cons part parts)
  show ?case
  proof (cases "trim_space part = []")
    case False
    with Cons.prems(1) obtain k v where kv: "trim_space k \<noteq> []" "trim_space v \<noteq> []"
        "keyset_entries parts (keys(trim_space k \<mapsto> trim_space v)) = Some keys'"
      by (auto simp: Let_def split: if_splits option.splits)
    show ?thesis by (rule Cons.IH [OF kv(3) keys_named_upd [OF Cons.prems(2) kv(1,2)]])
  qed (use Cons in simp)
qed simp

lemma ParseHMACKeyset_active:
  assumes "ParseHMACKeyset f spec a = Some ks"
  shows "\<exists>v. Keys ks (ActiveKID ks) = Some v \<and> v \<noteq> []"
proof -
  have "keys_named keys \<Longrightarrow> keys k = Some v \<Longrightarrow> v \<noteq> []" for keys k v by (simp add: keys_named_def)
  moreover have "keys_named Map.empty" by (simp add: keys_named_def)
  ultimately show ?thesis
    using assms keyset_entries_ok [of "split_on (CHR '','') spec" Map.empty]
    by (auto simp: ParseHMACKeyset_def Let_def split: option.splits if_splits)
qed

text \<open>
  The documented behaviour of the package the properties rely on: a token is accepted until its expiry with the key
  the key function names for its header, and then has the claims it was signed with.
\<close>

definition jwt_accepts_own :: "('z) jwt_lib_scheme \<Rightarrow> bool" where
  "jwt_accepts_own lib \<longleftrightarrow> (\<forall>kid claims secret token leeway wall key. jwt_sign lib kid claims secret = Some token \<longrightarrow>
     key ''HS256'' kid = Some secret \<longrightarrow> wall div second < Exp claims \<longrightarrow> 0 \<le> leeway \<longrightarrow>
     jwt_parse lib leeway wall key token = Some (Some (Sub claims), Some (ActorTypeClaim claims)))"

lemma jwt_leeway: "0 \<le> 5 * second"
  by simp

lemma SignActor_parses:
  assumes "jwt_accepts_own lib" "SignActor lib s a now ttl = Some (token, expiresAt)" "Keys v (ActiveKID s) = Keys s (ActiveKID s)"
    and "trim_space (ActiveKID s) \<noteq> []" "AuthID a \<noteq> []" "AuthType a \<noteq> []" "wall div second < expiresAt div second"
  shows "ParseActor lib v wall token = Some a"
proof -
  obtain secret where sec: "Keys s (ActiveKID s) = Some secret" "secret \<noteq> []"
    and signed: "jwt_sign lib (ActiveKID s) \<lparr>Sub = AuthID a, ActorTypeClaim = AuthType a, Iat = unix now, Exp = unix expiresAt\<rparr> secret = Some token"
    using assms(2) by (auto simp: SignActor_def Let_def split: option.splits if_splits)
  have "verifier_key v ''HS256'' (ActiveKID s) = Some secret"
    using sec assms(3,4) by (simp add: verifier_key_def)
  then have "jwt_parse lib (5 * second) wall (verifier_key v) token = Some (Some (AuthID a), Some (AuthType a))"
    using assms(1,7) signed unfolding jwt_accepts_own_def unix_def
    by (metis (no_types, lifting) jwt_claims.select_convs jwt_leeway)
  with assms(5,6) show ?thesis by (simp add: ParseActor_def claim_text_def)
qed

end
