(* ===== verification/Identity.thy ===== *)
theory Identity
  imports Service Jwt
begin

text \<open>
  The identity service, \<^verbatim>\<open>internal/platform/server/identity_grpc.go\<close> and \<^verbatim>\<open>identity_postgres.go\<close>: logins with rate
  limit and lockout, refresh-token sessions, and the administration of credentials and lockouts.

  The handlers hold the mutex from the rate limit or session look-up on and call nothing that locks it
  again, so that a handler is one atomic step. The observers that the metrics component installs are
  modelled by the list of their calls. The bcrypt package is not part of the repository: \<open>bcrypt_ok\<close> is
  \<^verbatim>\<open>CompareHashAndPassword(hash, secret) == nil\<close> and \<open>bcrypt_cost\<close> is \<^verbatim>\<open>Cost\<close>.
\<close>

section \<open>Messages, tables and state\<close>

record identity_lib = jwt_lib +
  bcrypt_ok :: "string \<Rightarrow> string \<Rightarrow> bool"
  bcrypt_cost :: "string \<Rightarrow> int option"

text \<open>The credentials of a login: identifier and secret; a oneof member may be set to a nil message.\<close>

datatype login_credentials =
    PlayerCredentials "(string \<times> string) option" | OperatorCredentials "(string \<times> string) option" | NoCredentials

record login_request =
  Login_Meta :: "request_meta option"
  Login_Credentials :: login_credentials

record refresh_request =
  Refresh_Meta :: "request_meta option"
  Refresh_Token :: string

record session_token =
  AccessToken :: string
  RefreshTokenText :: string
  TokenType :: string
  TokenExpiresAt :: string
  TokenActor :: actor

record token_response =
  TokenMeta :: response_meta
  Token :: "session_token option"

record credential_request =
  Cred_Meta :: "request_meta option"
  Cred_Actor :: "actor option"
  Cred_Hash :: string
  Cred_Reason :: string

record lockout_status =
  StatusActor :: actor
  FailedAttempts :: i32
  Locked :: bool
  LockedUntilText :: string

record lockout_response =
  LockoutMeta :: response_meta
  LockoutState :: "lockout_status option"

record identitySession =
  sess_refreshToken :: string
  sess_actorID :: string
  sess_actorType :: actor_type
  sess_expiresAt :: time
  sess_revoked :: bool

record loginRateWindow =
  window_start :: time
  window_count :: int

record credential_row =
  cr_actor_id :: string
  cr_actor_type :: string
  cr_password_hash :: string
  cr_status :: string

record identity_lockout_row =
  il_actor_id :: string
  il_actor_type :: string
  il_failed_attempts :: int
  il_locked_until :: "time option"

record session_row =
  is_refresh_token :: string
  is_actor_id :: string
  is_actor_type :: string
  is_expires_at :: time
  is_revoked :: bool

record rate_row =
  rl_actor_id :: string
  rl_actor_type :: string
  rl_window_start :: time
  rl_attempt_count :: int

record identity_db = dbcore +
  identity_credentials :: "credential_row list"
  identity_lockouts :: "identity_lockout_row list"
  identity_sessions :: "session_row list"
  identity_login_rate_limits :: "rate_row list"

datatype identity_call = ObservedLogin result_code actor_type | ObservedLockout actor_type

record identity = "identity_db svc" +
  refreshSessions :: "string \<rightharpoonup> identitySession"
  failedAttempts :: "string \<rightharpoonup> int"
  lockedUntil :: "string \<rightharpoonup> time"
  tokenSigner :: jwt_keys
  accessTTL :: duration
  refreshTTL :: duration
  lockoutTTL :: duration
  maxFailures :: int
  loginRateMax :: int
  loginRateWindowLen :: duration
  loginRates :: "string \<rightharpoonup> loginRateWindow"
  observers :: bool
  observed :: "identity_call list"

section \<open>Construction and policies\<close>

definition NewIdentityService :: "string \<Rightarrow> duration \<Rightarrow> duration \<Rightarrow> identity_db option \<Rightarrow> identity outcome" where
  "NewIdentityService signingSecret access refresh handle =
     (let secret = (if signingSecret = [] then ''dev-insecure-change-me'' else signingSecret)
      in case NewJWTSigner secret of
           Returns signer \<Rightarrow>
             Returns \<lparr>svc_AuditStore = Some NewInMemoryStore, svc_nextAuditID = 0, svc_db = handle,
               refreshSessions = Map.empty, failedAttempts = Map.empty, lockedUntil = Map.empty,
               tokenSigner = signer, accessTTL = (if access \<le> 0 then 15 * minute else access),
               refreshTTL = (if refresh \<le> 0 then 24 * hour else refresh), lockoutTTL = 15 * minute,
               maxFailures = 5, loginRateMax = 60, loginRateWindowLen = minute, loginRates = Map.empty,
               observers = False, observed = []\<rparr>
         | Panics \<Rightarrow> Panics
         | Blocks \<Rightarrow> Blocks)"

definition SetJWTSigner :: "jwt_keys option \<Rightarrow> identity \<Rightarrow> identity" where
  "SetJWTSigner signer s = (case signer of None \<Rightarrow> s | Some k \<Rightarrow> s\<lparr>tokenSigner := k\<rparr>)"

text \<open>Whether observers are installed; the server installs both.\<close>

definition SetMetricsObservers :: "bool \<Rightarrow> identity \<Rightarrow> identity" where
  "SetMetricsObservers b s = s\<lparr>observers := b\<rparr>"

definition SetLockoutPolicy :: "int \<Rightarrow> duration \<Rightarrow> identity \<Rightarrow> identity" where
  "SetLockoutPolicy n ttl s =
     s\<lparr>maxFailures := (if n \<le> 0 then 5 else n), lockoutTTL := (if ttl \<le> 0 then 15 * minute else ttl)\<rparr>"

definition SetLoginRateLimit :: "int \<Rightarrow> duration \<Rightarrow> identity \<Rightarrow> identity" where
  "SetLoginRateLimit n window s =
     s\<lparr>loginRateMax := (if n < 0 then 0 else n), loginRateWindowLen := (if window \<le> 0 then minute else window)\<rparr>"

definition observe :: "identity_call \<Rightarrow> identity \<Rightarrow> identity" where
  "observe c s = (if observers s then s\<lparr>observed := observed s @ [c]\<rparr> else s)"

definition identity_appendAudit ::
    "ext \<Rightarrow> env \<Rightarrow> request_meta option \<Rightarrow> string \<Rightarrow> string \<Rightarrow> string \<Rightarrow> string \<Rightarrow> string \<Rightarrow> string
     \<Rightarrow> identity \<Rightarrow> bool \<times> identity" where
  "identity_appendAudit x e meta objectID action before after result reason =
     svc_append x e (\<lambda>n. audit_event e (''identity-audit-'' @ itoa_nat n) meta ''identity_session'' objectID action
                           before after result reason)"

definition identity_auditDenied ::
    "ext \<Rightarrow> env \<Rightarrow> request_meta option \<Rightarrow> string \<Rightarrow> string \<Rightarrow> string \<Rightarrow> identity \<Rightarrow> identity" where
  "identity_auditDenied x e meta objectID action reason s =
     snd (identity_appendAudit x e meta objectID action json_empty json_empty ResultDenied reason s)"

section \<open>Rate limit, lockout and credentials\<close>

definition lockKey :: "string \<Rightarrow> actor_type \<Rightarrow> string" where
  "lockKey actorID actorType = actor_type_string actorType @ ''|'' @ actorID"

definition loginRateKey :: "string \<Rightarrow> actor_type \<Rightarrow> string" where
  "loginRateKey actorID actorType = ''login_rate|'' @ lockKey actorID actorType"

text \<open>An INTEGER column refuses values beyond 32 bits.\<close>

definition pg_integer :: "int \<Rightarrow> int option" where
  "pg_integer n = (if - 2147483648 \<le> n \<and> n \<le> 2147483647 then Some n else None)"

text \<open>
  The rate-limit statement; \<open>window\<close> is in whole seconds. \<open>None\<close> is an error of the statement, such as a driver that does not take
  the integer \<open>window\<close> for a text.
\<close>

definition count_attempt ::
    "env \<Rightarrow> string \<Rightarrow> string \<Rightarrow> int \<Rightarrow> identity_db \<Rightarrow> (int \<times> identity_db) option" where
  "count_attempt e actorID ty window d =
     (let key = (\<lambda>r. (rl_actor_id r, rl_actor_type r));
          now = env_dbnow e;
          next = (case find (\<lambda>r. key r = (actorID, ty)) (identity_login_rate_limits d) of
                    None \<Rightarrow> (now, 1)
                  | Some r \<Rightarrow> if rl_window_start r \<le> now - window * second then (now, 1)
                              else (rl_window_start r, rl_attempt_count r + 1))
      in if \<not> db_int_text d then None
         else map_option (\<lambda>n. (n, d\<lparr>identity_login_rate_limits :=
                upsert key \<lparr>rl_actor_id = actorID, rl_actor_type = ty, rl_window_start = fst next, rl_attempt_count = n\<rparr>
                  (identity_login_rate_limits d)\<rparr>))
              (pg_integer (snd next)))"

text \<open>A statement with \<^verbatim>\<open>RETURNING\<close>.\<close>

definition sql_returning :: "('r dbcore_scheme \<Rightarrow> ('a \<times> 'r dbcore_scheme) option) \<Rightarrow> 'r dbcore_scheme
    \<Rightarrow> 'a option \<times> 'r dbcore_scheme" where
  "sql_returning q d = (let (ok, d1) = sql_exec d
                        in if \<not> ok then (None, d1)
                           else (case q d1 of None \<Rightarrow> (None, d1) | Some (a, d2) \<Rightarrow> (Some a, d2)))"

definition rateLimitExceeded :: "env \<Rightarrow> string \<Rightarrow> actor_type \<Rightarrow> identity \<Rightarrow> bool option \<times> identity" where
  "rateLimitExceeded e actorID actorType s =
     (if loginRateMax s \<le> 0 then (Some False, s)
      else (case svc_db s of
        Some d \<Rightarrow>
          (case sql_returning (count_attempt e actorID (actor_type_string actorType) (loginRateWindowLen s div second)) d of
             (None, d') \<Rightarrow> (None, s\<lparr>svc_db := Some d'\<rparr>)
           | (Some attempts, d') \<Rightarrow> (Some (attempts > loginRateMax s), s\<lparr>svc_db := Some d'\<rparr>))
      | None \<Rightarrow>
          let key = loginRateKey actorID actorType; now = env_now e;
              w0 = (case loginRates s key of None \<Rightarrow> \<lparr>window_start = zero_time, window_count = 0\<rparr> | Some w \<Rightarrow> w);
              w1 = (if window_start w0 = zero_time \<or> now - window_start w0 \<ge> loginRateWindowLen s
                    then \<lparr>window_start = now, window_count = 0\<rparr> else w0);
              w2 = w1\<lparr>window_count := window_count w1 + 1\<rparr>
          in (Some (window_count w2 > loginRateMax s), s\<lparr>loginRates := (loginRates s)(key \<mapsto> w2)\<rparr>)))"

definition lockout_key :: "identity_lockout_row \<Rightarrow> string \<times> string" where
  "lockout_key r = (il_actor_id r, il_actor_type r)"

definition identity_select_lockout :: "string \<Rightarrow> string \<Rightarrow> identity_db \<Rightarrow> identity_lockout_row option" where
  "identity_select_lockout actorID ty d = find (\<lambda>r. lockout_key r = (actorID, ty)) (identity_lockouts d)"

definition id_until :: "string \<Rightarrow> identity \<Rightarrow> time" where
  "id_until k s = (case lockedUntil s k of None \<Rightarrow> zero_time | Some t \<Rightarrow> t)"

definition id_failures :: "string \<Rightarrow> identity \<Rightarrow> int" where
  "id_failures k s = (case failedAttempts s k of None \<Rightarrow> 0 | Some n \<Rightarrow> n)"

definition checkLocked :: "env \<Rightarrow> string \<Rightarrow> actor_type \<Rightarrow> identity \<Rightarrow> bool option \<times> identity" where
  "checkLocked e actorID actorType s =
     (if svc_db s \<noteq> None
      then (case svc_query (identity_select_lockout actorID (actor_type_string actorType)) s of
              (None, s1) \<Rightarrow> (None, s1)
            | (Some None, s1) \<Rightarrow> (Some False, s1)
            | (Some (Some r), s1) \<Rightarrow>
                (Some (env_now e < (case il_locked_until r of None \<Rightarrow> 0 | Some t \<Rightarrow> t)), s1))
      else (Some (env_now e < id_until (lockKey actorID actorType) s), s))"

definition fail_row :: "env \<Rightarrow> string \<Rightarrow> string \<Rightarrow> int \<Rightarrow> int \<Rightarrow> identity_db \<Rightarrow> identity_db option" where
  "fail_row e actorID ty limit ttl d =
     (let next = (case identity_select_lockout actorID ty d of
                    None \<Rightarrow> (1, None)
                  | Some r \<Rightarrow> (il_failed_attempts r + 1,
                               if il_failed_attempts r + 1 \<ge> limit then Some (env_dbnow e + ttl * second)
                               else il_locked_until r))
      in if \<not> db_int_text d then None
         else map_option (\<lambda>n. d\<lparr>identity_lockouts :=
             upsert lockout_key \<lparr>il_actor_id = actorID, il_actor_type = ty, il_failed_attempts = n, il_locked_until = snd next\<rparr>
               (identity_lockouts d)\<rparr>) (pg_integer (fst next)))"

text \<open>The first component: the failure activated the lockout. \<open>None\<close> is a database error.\<close>

definition recordFailure :: "env \<Rightarrow> string \<Rightarrow> actor_type \<Rightarrow> identity \<Rightarrow> bool option \<times> identity" where
  "recordFailure e actorID actorType s =
     (if svc_db s \<noteq> None
      then (case checkLocked e actorID actorType s of
              (None, s1) \<Rightarrow> (None, s1)
            | (Some wasLocked, s1) \<Rightarrow>
                (case svc_exec (sql_stmt (fail_row e actorID (actor_type_string actorType) (maxFailures s)
                        (lockoutTTL s div second))) s1 of
                   (False, s2) \<Rightarrow> (None, s2)
                 | (True, s2) \<Rightarrow>
                     (case checkLocked e actorID actorType s2 of
                        (None, s3) \<Rightarrow> (None, s3)
                      | (Some nowLocked, s3) \<Rightarrow> (Some (\<not> wasLocked \<and> nowLocked), s3))))
      else
        let k = lockKey actorID actorType;
            beforeLocked = env_now e < id_until k s;
            n = id_failures k s + 1;
            s1 = s\<lparr>failedAttempts := (failedAttempts s)(k \<mapsto> n)\<rparr>;
            s2 = (if n \<ge> maxFailures s then s1\<lparr>lockedUntil := (lockedUntil s)(k \<mapsto> env_now e + lockoutTTL s)\<rparr> else s1)
        in (Some (\<not> beforeLocked \<and> env_now e < id_until k s2), s2))"

definition clear_row :: "string \<Rightarrow> string \<Rightarrow> identity_db \<Rightarrow> identity_db option" where
  "clear_row actorID ty d = Some (d\<lparr>identity_lockouts :=
     upsert lockout_key \<lparr>il_actor_id = actorID, il_actor_type = ty, il_failed_attempts = 0, il_locked_until = None\<rparr>
       (identity_lockouts d)\<rparr>)"

definition resetFailures :: "string \<Rightarrow> actor_type \<Rightarrow> identity \<Rightarrow> bool \<times> identity" where
  "resetFailures actorID actorType s =
     (if svc_db s \<noteq> None then svc_exec (sql_stmt (clear_row actorID (actor_type_string actorType))) s
      else let k = lockKey actorID actorType
           in (True, s\<lparr>failedAttempts := (failedAttempts s)(k := None), lockedUntil := (lockedUntil s)(k := None)\<rparr>))"

definition credential_key :: "credential_row \<Rightarrow> string \<times> string" where
  "credential_key r = (cr_actor_id r, cr_actor_type r)"

definition verifyCredentials ::
    "('z) identity_lib_scheme \<Rightarrow> string \<Rightarrow> actor_type \<Rightarrow> string \<Rightarrow> identity \<Rightarrow> bool option \<times> identity" where
  "verifyCredentials lib actorID actorType secret s =
     (if svc_db s \<noteq> None
      then (case svc_query (\<lambda>d. find (\<lambda>r. credential_key r = (actorID, actor_type_string actorType)) (identity_credentials d)) s of
              (None, s1) \<Rightarrow> (None, s1)
            | (Some None, s1) \<Rightarrow> (Some False, s1)
            | (Some (Some r), s1) \<Rightarrow>
                (Some (if cr_status r \<noteq> ''active'' then False else bcrypt_ok lib (cr_password_hash r) secret), s1))
      else if actorType = ACTOR_TYPE_PLAYER then (Some (secret = ''1234''), s)
      else if actorType = ACTOR_TYPE_OPERATOR then (Some (secret = ''operator-pass''), s)
      else (Some False, s))"

definition authorizeIdentityAdmin :: "auth_actor option \<Rightarrow> request_meta option \<Rightarrow> string option" where
  "authorizeIdentityAdmin = authorize_backoffice"

section \<open>Sessions in the database\<close>

definition session_to_row :: "ext \<Rightarrow> identitySession \<Rightarrow> session_row option" where
  "session_to_row x sess =
     map_option (\<lambda>t. \<lparr>is_refresh_token = sess_refreshToken sess, is_actor_id = sess_actorID sess,
                      is_actor_type = actor_type_string (sess_actorType sess), is_expires_at = t,
                      is_revoked = sess_revoked sess\<rparr>)
       (pg_time_of_text x (fmt_rfc3339nano (sess_expiresAt sess)))"

definition row_to_session :: "session_row \<Rightarrow> identitySession" where
  "row_to_session r =
     \<lparr>sess_refreshToken = is_refresh_token r, sess_actorID = is_actor_id r,
      sess_actorType = actorTypeFromString (is_actor_type r), sess_expiresAt = is_expires_at r,
      sess_revoked = is_revoked r\<rparr>"

definition upsert_session :: "ext \<Rightarrow> identitySession \<Rightarrow> identity_db \<Rightarrow> identity_db option" where
  "upsert_session x sess d =
     map_option (\<lambda>row. d\<lparr>identity_sessions := upsert is_refresh_token row (identity_sessions d)\<rparr>) (session_to_row x sess)"

text \<open>A plain INSERT fails on a token that is taken.\<close>

definition insert_session :: "ext \<Rightarrow> identitySession \<Rightarrow> identity_db \<Rightarrow> identity_db option" where
  "insert_session x sess d =
     (case session_to_row x sess of
        None \<Rightarrow> None
      | Some row \<Rightarrow> if \<exists>r \<in> set (identity_sessions d). is_refresh_token r = is_refresh_token row then None
                    else Some (d\<lparr>identity_sessions := identity_sessions d @ [row]\<rparr>))"

definition revoke_row :: "string \<Rightarrow> identity_db \<Rightarrow> identity_db option" where
  "revoke_row token d = Some (d\<lparr>identity_sessions :=
     map (\<lambda>r. if is_refresh_token r = token then r\<lparr>is_revoked := True\<rparr> else r) (identity_sessions d)\<rparr>)"

definition storeSession :: "ext \<Rightarrow> identitySession \<Rightarrow> identity \<Rightarrow> bool \<times> identity" where
  "storeSession x sess = svc_exec (sql_stmt (upsert_session x sess))"

definition getSession :: "string \<Rightarrow> identity \<Rightarrow> identitySession option option \<times> identity" where
  "getSession refreshToken s =
     (if svc_db s = None then (Some None, s)
      else svc_query (\<lambda>d. map_option row_to_session (find (\<lambda>r. is_refresh_token r = refreshToken) (identity_sessions d))) s)"

definition revokeSession :: "string \<Rightarrow> identity \<Rightarrow> bool \<times> identity" where
  "revokeSession refreshToken = svc_exec (sql_stmt (revoke_row refreshToken))"

definition rotateSession :: "ext \<Rightarrow> string \<Rightarrow> identitySession \<Rightarrow> identity \<Rightarrow> bool \<times> identity" where
  "rotateSession x oldRefreshToken next = svc_exec (sql_tx [revoke_row oldRefreshToken, insert_session x next])"

text \<open>
  The cleanup deletes up to \<open>batch\<close> expired rows, the ones that expire first; rows that expire together
  are taken in any order, here in the order of the table.
\<close>

definition doomed_sessions :: "env \<Rightarrow> nat \<Rightarrow> identity_db \<Rightarrow> session_row list" where
  "doomed_sessions e batch d =
     take batch (sort_key is_expires_at (filter (\<lambda>r. is_expires_at r \<le> env_dbnow e) (identity_sessions d)))"

definition delete_sessions :: "env \<Rightarrow> nat \<Rightarrow> identity_db \<Rightarrow> (nat \<times> identity_db) option" where
  "delete_sessions e batch d =
     (let gone = doomed_sessions e batch d
      in Some (length gone, d\<lparr>identity_sessions := filter (\<lambda>r. r \<notin> set gone) (identity_sessions d)\<rparr>))"

definition CleanupExpiredSessions :: "env \<Rightarrow> int \<Rightarrow> identity \<Rightarrow> nat option \<times> identity" where
  "CleanupExpiredSessions e batchSize s =
     (case svc_db s of
        None \<Rightarrow> (Some 0, s)
      | Some d \<Rightarrow>
          let batch = (if batchSize \<le> 0 then 500 else nat batchSize)
          in (case sql_returning (delete_sessions e batch) d of (r, d') \<Rightarrow> (r, s\<lparr>svc_db := Some d'\<rparr>)))"

text \<open>
  One tick of the cleanup worker: batches until one fails, is empty or is not full. The fuel bounds the
  number of batches; \<open>Suc\<close> of the number of rows is enough.
\<close>

fun cleanup_tick :: "nat \<Rightarrow> env \<Rightarrow> int \<Rightarrow> identity \<Rightarrow> identity option" where
  "cleanup_tick 0 e batchSize s = None"
| "cleanup_tick (Suc fuel) e batchSize s =
     (let batch = (if batchSize \<le> 0 then 500 else batchSize)
      in case CleanupExpiredSessions e batch s of
           (None, s1) \<Rightarrow> Some s1
         | (Some deleted, s1) \<Rightarrow>
             if deleted = 0 then Some s1
             else if int deleted < batch then Some s1
             else cleanup_tick fuel e batchSize s1)"

definition HasActiveCredentials :: "identity \<Rightarrow> bool option \<times> identity" where
  "HasActiveCredentials s =
     (if svc_db s = None then (Some False, s)
      else svc_query (\<lambda>d. \<exists>r \<in> set (identity_credentials d). cr_status r = ''active'') s)"

section \<open>Login\<close>

definition token_refusal :: "env \<Rightarrow> request_meta option \<Rightarrow> result_code \<Rightarrow> string \<Rightarrow> token_response" where
  "token_refusal e meta code reason = \<lparr>TokenMeta = responseMeta e meta code reason, Token = None\<rparr>"

text \<open>\<open>Inl\<close> is the reason of the refusal.\<close>

definition validateLoginRequest :: "login_request option \<Rightarrow> string + string \<times> actor_type" where
  "validateLoginRequest req =
     (case req of
        None \<Rightarrow> Inl ''actor is required''
      | Some r \<Rightarrow>
        (case Option.bind (Login_Meta r) MetaActor of
           None \<Rightarrow> Inl ''actor is required''
         | Some a \<Rightarrow>
             if ActorId a = [] \<or> ActorType a = ACTOR_TYPE_UNSPECIFIED then Inl ''actor binding is required''
             else (case Login_Credentials r of
                PlayerCredentials c \<Rightarrow>
                  (case c of
                     None \<Rightarrow> Inl ''player_id and pin are required''
                   | Some (player, pin) \<Rightarrow>
                       if player = [] \<or> pin = [] then Inl ''player_id and pin are required''
                       else if ActorType a \<noteq> ACTOR_TYPE_PLAYER \<or> ActorId a \<noteq> player
                       then Inl ''actor must match player credentials'' else Inr (player, ACTOR_TYPE_PLAYER))
              | OperatorCredentials c \<Rightarrow>
                  (case c of
                     None \<Rightarrow> Inl ''operator_id and password are required''
                   | Some (operator, password) \<Rightarrow>
                       if operator = [] \<or> password = [] then Inl ''operator_id and password are required''
                       else if ActorType a \<noteq> ACTOR_TYPE_OPERATOR \<or> ActorId a \<noteq> operator
                       then Inl ''actor must match operator credentials'' else Inr (operator, ACTOR_TYPE_OPERATOR))
              | NoCredentials \<Rightarrow> Inl ''credentials are required'')))"

fun login_secret :: "login_credentials \<Rightarrow> string" where
  "login_secret (PlayerCredentials c) = (case c of None \<Rightarrow> [] | Some (_, pin) \<Rightarrow> pin)"
| "login_secret (OperatorCredentials c) = (case c of None \<Rightarrow> [] | Some (_, password) \<Rightarrow> password)"
| "login_secret NoCredentials = []"

definition signAccessToken ::
    "('z) identity_lib_scheme \<Rightarrow> env \<Rightarrow> string \<Rightarrow> actor_type \<Rightarrow> identity \<Rightarrow> (string \<times> string) option" where
  "signAccessToken lib e actorID actorType s =
     map_option (\<lambda>(signed, expiresAt). (signed, fmt_rfc3339nano expiresAt))
       (SignActor lib (tokenSigner s) \<lparr>AuthID = actorID, AuthType = actor_type_string actorType\<rparr> (env_now e) (accessTTL s))"

text \<open>\<^verbatim>\<open>json.Marshal\<close> of a map writes the keys in order.\<close>

definition sessionSnapshot :: "string \<Rightarrow> string \<Rightarrow> actor_type \<Rightarrow> time \<Rightarrow> bool \<Rightarrow> string" where
  "sessionSnapshot refreshToken actorID actorType expiresAt revoked = json_encode (JObject [
     (''actor_id'', JString actorID), (''actor_type'', JString (actor_type_string actorType)),
     (''expires_at'', JString (fmt_rfc3339nano expiresAt)), (''refresh_token'', JString refreshToken),
     (''revoked'', JBool revoked)])"

definition login_error :: "env \<Rightarrow> request_meta option \<Rightarrow> actor_type \<Rightarrow> string \<Rightarrow> identity \<Rightarrow> token_response \<times> identity" where
  "login_error e meta actorType reason s =
     (token_refusal e meta RESULT_CODE_ERROR reason, observe (ObservedLogin RESULT_CODE_ERROR actorType) s)"

definition login_denied ::
    "ext \<Rightarrow> env \<Rightarrow> request_meta option \<Rightarrow> actor_type \<Rightarrow> string \<Rightarrow> identity \<Rightarrow> token_response \<times> identity" where
  "login_denied x e meta actorType reason s =
     (token_refusal e meta RESULT_CODE_DENIED reason,
      observe (ObservedLogin RESULT_CODE_DENIED actorType) (identity_auditDenied x e meta [] ''identity_login'' reason s))"

text \<open>The end of a login with the right credentials: tokens, session, audit event.\<close>

definition login_issue ::
    "ext \<Rightarrow> ('z) identity_lib_scheme \<Rightarrow> env \<Rightarrow> request_meta option \<Rightarrow> string \<Rightarrow> actor_type \<Rightarrow> identity
     \<Rightarrow> token_response \<times> identity" where
  "login_issue x lib e meta actorID actorType s =
     (case signAccessToken lib e actorID actorType s of
        None \<Rightarrow> login_error e meta actorType ''failed to sign token'' s
      | Some (accessToken, accessExpiry) \<Rightarrow>
        (case env_rand e of
           None \<Rightarrow> login_error e meta actorType ''failed to create refresh token'' s
         | Some refreshToken \<Rightarrow>
             let expiresAt = env_now e + refreshTTL s;
                 sess = \<lparr>sess_refreshToken = refreshToken, sess_actorID = actorID, sess_actorType = actorType,
                         sess_expiresAt = expiresAt, sess_revoked = False\<rparr>;
                 (ok1, s1) = (if svc_db s \<noteq> None then storeSession x sess s
                              else (True, s\<lparr>refreshSessions := (refreshSessions s)(refreshToken \<mapsto> sess)\<rparr>))
             in if \<not> ok1 then login_error e meta actorType ''persistence unavailable'' s1
                else
                  let (ok2, s2) = identity_appendAudit x e meta refreshToken ''identity_login'' json_empty
                        (sessionSnapshot refreshToken actorID actorType expiresAt False) ResultSuccess [] s1
                  in if \<not> ok2 then
                       login_error e meta actorType ''audit unavailable''
                         (if svc_db s2 \<noteq> None then snd (revokeSession refreshToken s2)
                          else s2\<lparr>refreshSessions := (refreshSessions s2)(refreshToken := None)\<rparr>)
                     else
                       (\<lparr>TokenMeta = responseMeta e meta RESULT_CODE_OK [],
                         Token = Some \<lparr>AccessToken = accessToken, RefreshTokenText = refreshToken,
                           TokenType = ''Bearer'', TokenExpiresAt = accessExpiry,
                           TokenActor = \<lparr>ActorId = actorID, ActorType = actorType\<rparr>\<rparr>\<rparr>,
                        observe (ObservedLogin RESULT_CODE_OK actorType) s2)))"

text \<open>The part under the mutex: rate limit, lockout, credentials.\<close>

definition login_attempt ::
    "ext \<Rightarrow> ('z) identity_lib_scheme \<Rightarrow> env \<Rightarrow> request_meta option \<Rightarrow> string \<Rightarrow> actor_type \<Rightarrow> string \<Rightarrow> identity
     \<Rightarrow> token_response \<times> identity" where
  "login_attempt x lib e meta actorID actorType secret s =
     (case rateLimitExceeded e actorID actorType s of
        (None, s1) \<Rightarrow> login_error e meta actorType ''persistence unavailable'' s1
      | (Some True, s1) \<Rightarrow> login_denied x e meta actorType ''rate limit exceeded'' s1
      | (Some False, s1) \<Rightarrow>
        (case checkLocked e actorID actorType s1 of
           (None, s2) \<Rightarrow> login_error e meta actorType ''persistence unavailable'' s2
         | (Some True, s2) \<Rightarrow> login_denied x e meta actorType ''account locked'' s2
         | (Some False, s2) \<Rightarrow>
           (case verifyCredentials lib actorID actorType secret s2 of
              (None, s3) \<Rightarrow> login_error e meta actorType ''persistence unavailable'' s3
            | (Some False, s3) \<Rightarrow>
                (case recordFailure e actorID actorType s3 of
                   (lockedNow, s4) \<Rightarrow>
                     login_denied x e meta actorType ''invalid credentials''
                       (if lockedNow = Some True then observe (ObservedLockout actorType) s4 else s4))
            | (Some True, s3) \<Rightarrow>
                (case resetFailures actorID actorType s3 of
                   (False, s4) \<Rightarrow> login_error e meta actorType ''persistence unavailable'' s4
                 | (True, s4) \<Rightarrow> login_issue x lib e meta actorID actorType s4))))"

definition Login ::
    "ext \<Rightarrow> ('z) identity_lib_scheme \<Rightarrow> env \<Rightarrow> login_request option \<Rightarrow> identity \<Rightarrow> token_response \<times> identity" where
  "Login x lib e req s =
     (case validateLoginRequest req of
        Inl reason \<Rightarrow> login_denied x e (Option.bind req Login_Meta) ACTOR_TYPE_UNSPECIFIED reason s
      | Inr (actorID, actorType) \<Rightarrow>
          let r = the req
          in login_attempt x lib e (Login_Meta r) actorID actorType (login_secret (Login_Credentials r)) s)"

section \<open>Logout and RefreshToken\<close>

definition unbound_actor :: "request_meta option \<Rightarrow> bool" where
  "unbound_actor meta =
     (case Option.bind meta MetaActor of
        None \<Rightarrow> True
      | Some a \<Rightarrow> ActorId a = [] \<or> ActorType a = ACTOR_TYPE_UNSPECIFIED)"

definition find_session :: "string \<Rightarrow> identity \<Rightarrow> identitySession option option \<times> identity" where
  "find_session token s = (if svc_db s \<noteq> None then getSession token s else (Some (refreshSessions s token), s))"

definition owns_session :: "request_meta option \<Rightarrow> identitySession \<Rightarrow> bool" where
  "owns_session meta sess =
     (case Option.bind meta MetaActor of
        None \<Rightarrow> False
      | Some a \<Rightarrow> sess_actorID sess = ActorId a \<and> sess_actorType sess = ActorType a)"

definition Logout :: "ext \<Rightarrow> env \<Rightarrow> refresh_request option \<Rightarrow> identity \<Rightarrow> response_meta \<times> identity" where
  "Logout x e req s =
     (case req of
        None \<Rightarrow> (responseMeta e None RESULT_CODE_INVALID ''refresh_token is required'', s)
      | Some r \<Rightarrow>
        let meta = Refresh_Meta r; token = Refresh_Token r in
        if token = [] then (responseMeta e None RESULT_CODE_INVALID ''refresh_token is required'', s)
        else if unbound_actor meta then (responseMeta e meta RESULT_CODE_INVALID ''actor is required'', s)
        else (case find_session token s of
          (None, s1) \<Rightarrow> (responseMeta e meta RESULT_CODE_ERROR ''persistence unavailable'', s1)
        | (Some None, s1) \<Rightarrow> (responseMeta e meta RESULT_CODE_DENIED ''refresh token not found'', s1)
        | (Some (Some sess), s1) \<Rightarrow>
            if \<not> owns_session meta sess then
              (responseMeta e meta RESULT_CODE_DENIED ''actor mismatch with token'',
               identity_auditDenied x e meta token ''identity_logout'' ''actor mismatch with token'' s1)
            else
              let before = sessionSnapshot (sess_refreshToken sess) (sess_actorID sess) (sess_actorType sess)
                             (sess_expiresAt sess) (sess_revoked sess);
                  after = sessionSnapshot (sess_refreshToken sess) (sess_actorID sess) (sess_actorType sess)
                            (sess_expiresAt sess) True;
                  (ok2, s2) = (if svc_db s1 \<noteq> None then revokeSession token s1
                               else (True, s1\<lparr>refreshSessions := (refreshSessions s1)(token := None)\<rparr>))
              in if \<not> ok2 then (responseMeta e meta RESULT_CODE_ERROR ''persistence unavailable'', s2)
                 else
                   let (ok3, s3) = identity_appendAudit x e meta token ''identity_logout'' before after ResultSuccess [] s2
                   in (if ok3 then responseMeta e meta RESULT_CODE_OK []
                       else responseMeta e meta RESULT_CODE_ERROR ''audit unavailable'', s3)))"

text \<open>The rotation: a new access token, and a new session in place of the old one.\<close>

definition refresh_rotate ::
    "ext \<Rightarrow> ('z) identity_lib_scheme \<Rightarrow> env \<Rightarrow> request_meta option \<Rightarrow> string \<Rightarrow> identitySession \<Rightarrow> identity
     \<Rightarrow> token_response \<times> identity" where
  "refresh_rotate x lib e meta token sess s =
     (case signAccessToken lib e (sess_actorID sess) (sess_actorType sess) s of
        None \<Rightarrow> (token_refusal e meta RESULT_CODE_ERROR ''failed to sign token'', s)
      | Some (accessToken, accessExpiry) \<Rightarrow>
        (case env_rand e of
           None \<Rightarrow> (token_refusal e meta RESULT_CODE_ERROR ''failed to create refresh token'', s)
         | Some newRefreshToken \<Rightarrow>
             let before = sessionSnapshot (sess_refreshToken sess) (sess_actorID sess) (sess_actorType sess)
                            (sess_expiresAt sess) (sess_revoked sess);
                 newExpiry = env_now e + refreshTTL s;
                 next = \<lparr>sess_refreshToken = newRefreshToken, sess_actorID = sess_actorID sess,
                         sess_actorType = sess_actorType sess, sess_expiresAt = newExpiry, sess_revoked = False\<rparr>;
                 (ok1, s1) = (if svc_db s \<noteq> None then rotateSession x token next s
                              else (True, s\<lparr>refreshSessions :=
                                      ((refreshSessions s)(token := None))(newRefreshToken \<mapsto> next)\<rparr>))
             in if \<not> ok1 then (token_refusal e meta RESULT_CODE_ERROR ''persistence unavailable'', s1)
                else
                  let after = sessionSnapshot newRefreshToken (sess_actorID sess) (sess_actorType sess) newExpiry False;
                      (ok2, s2) = identity_appendAudit x e meta newRefreshToken ''identity_refresh'' before after
                                    ResultSuccess [] s1
                  in if \<not> ok2 then
                       (token_refusal e meta RESULT_CODE_ERROR ''audit unavailable'',
                        if svc_db s2 = None then s2\<lparr>refreshSessions := (refreshSessions s2)(newRefreshToken := None)\<rparr> else s2)
                     else
                       (\<lparr>TokenMeta = responseMeta e meta RESULT_CODE_OK [],
                         Token = Some \<lparr>AccessToken = accessToken, RefreshTokenText = newRefreshToken,
                           TokenType = ''Bearer'', TokenExpiresAt = accessExpiry,
                           TokenActor = \<lparr>ActorId = sess_actorID sess, ActorType = sess_actorType sess\<rparr>\<rparr>\<rparr>, s2)))"

definition RefreshToken ::
    "ext \<Rightarrow> ('z) identity_lib_scheme \<Rightarrow> env \<Rightarrow> refresh_request option \<Rightarrow> identity \<Rightarrow> token_response \<times> identity" where
  "RefreshToken x lib e req s =
     (case req of
        None \<Rightarrow> (token_refusal e None RESULT_CODE_INVALID ''refresh_token is required'', s)
      | Some r \<Rightarrow>
        let meta = Refresh_Meta r; token = Refresh_Token r in
        if token = [] then (token_refusal e None RESULT_CODE_INVALID ''refresh_token is required'', s)
        else if unbound_actor meta then (token_refusal e meta RESULT_CODE_INVALID ''actor is required'', s)
        else
          let denied = (\<lambda>reason s1. (token_refusal e meta RESULT_CODE_DENIED reason,
                          identity_auditDenied x e meta token ''identity_refresh'' reason s1))
          in (case find_session token s of
            (None, s1) \<Rightarrow> (token_refusal e meta RESULT_CODE_ERROR ''persistence unavailable'', s1)
          | (Some None, s1) \<Rightarrow> denied ''invalid refresh token'' s1
          | (Some (Some sess), s1) \<Rightarrow>
              if sess_revoked sess \<or> \<not> env_now e < sess_expiresAt sess then denied ''invalid refresh token'' s1
              else if \<not> owns_session meta sess then denied ''actor mismatch with token'' s1
              else refresh_rotate x lib e meta token sess s1))"

section \<open>Credentials and lockouts\<close>

datatype credential_change = Changed bool | NoDatabase | ChangeFailed

definition set_credential_row :: "string \<Rightarrow> string \<Rightarrow> string \<Rightarrow> identity_db \<Rightarrow> identity_db option" where
  "set_credential_row actorID ty hash d = Some (d\<lparr>identity_credentials :=
     upsert credential_key \<lparr>cr_actor_id = actorID, cr_actor_type = ty, cr_password_hash = hash, cr_status = ''active''\<rparr>
       (identity_credentials d)\<rparr>)"

definition setCredentialHash :: "string \<Rightarrow> actor_type \<Rightarrow> string \<Rightarrow> identity \<Rightarrow> credential_change \<times> identity" where
  "setCredentialHash actorID actorType hash s =
     (if svc_db s = None then (NoDatabase, s)
      else (case svc_exec (sql_stmt (set_credential_row actorID (actor_type_string actorType) hash)) s of
              (ok, s1) \<Rightarrow> (if ok then Changed True else ChangeFailed, s1)))"

definition set_status_row :: "string \<Rightarrow> string \<Rightarrow> string \<Rightarrow> identity_db \<Rightarrow> (bool \<times> identity_db) option" where
  "set_status_row actorID ty status d =
     Some (\<exists>r \<in> set (identity_credentials d). credential_key r = (actorID, ty),
           d\<lparr>identity_credentials :=
             map (\<lambda>r. if credential_key r = (actorID, ty) then r\<lparr>cr_status := status\<rparr> else r) (identity_credentials d)\<rparr>)"

definition setCredentialStatus :: "string \<Rightarrow> actor_type \<Rightarrow> string \<Rightarrow> identity \<Rightarrow> credential_change \<times> identity" where
  "setCredentialStatus actorID actorType status s =
     (case svc_db s of
        None \<Rightarrow> (NoDatabase, s)
      | Some d \<Rightarrow>
          (case sql_returning (set_status_row actorID (actor_type_string actorType) status) d of
             (None, d') \<Rightarrow> (ChangeFailed, s\<lparr>svc_db := Some d'\<rparr>)
           | (Some updated, d') \<Rightarrow> (Changed updated, s\<lparr>svc_db := Some d'\<rparr>)))"

definition unusable_actor :: "actor option \<Rightarrow> bool" where
  "unusable_actor a = (case a of None \<Rightarrow> True | Some b \<Rightarrow> ActorId b = [] \<or> ActorType b = ACTOR_TYPE_UNSPECIFIED)"

text \<open>\<^verbatim>\<open>bcrypt.DefaultCost\<close>.\<close>

definition bcrypt_DefaultCost :: int where
  "bcrypt_DefaultCost = 10"

definition SetCredential ::
    "ext \<Rightarrow> ('z) identity_lib_scheme \<Rightarrow> env \<Rightarrow> auth_actor option \<Rightarrow> credential_request option \<Rightarrow> identity
     \<Rightarrow> response_meta \<times> identity" where
  "SetCredential x lib e ctx req s =
     (case req of
        None \<Rightarrow> (responseMeta e None RESULT_CODE_INVALID ''actor and credential hash are required'', s)
      | Some r \<Rightarrow>
        let meta = Cred_Meta r; a = the (Cred_Actor r) in
        if unusable_actor (Cred_Actor r) \<or> Cred_Hash r = [] then
          (responseMeta e None RESULT_CODE_INVALID ''actor and credential hash are required'', s)
        else (case authorizeIdentityAdmin ctx meta of
          Some reason \<Rightarrow>
            (responseMeta e meta RESULT_CODE_DENIED reason,
             identity_auditDenied x e meta (ActorId a) ''identity_set_credential'' reason s)
        | None \<Rightarrow>
          (case bcrypt_cost lib (Cred_Hash r) of
             None \<Rightarrow> (responseMeta e meta RESULT_CODE_INVALID ''credential hash must be bcrypt'', s)
           | Some cost \<Rightarrow>
             if cost < bcrypt_DefaultCost then
               (responseMeta e meta RESULT_CODE_INVALID ''credential hash cost too low'', s)
             else (case setCredentialHash (ActorId a) (ActorType a) (Cred_Hash r) s of
               (NoDatabase, s1) \<Rightarrow> (responseMeta e meta RESULT_CODE_DENIED ''credential management requires database'', s1)
             | (ChangeFailed, s1) \<Rightarrow> (responseMeta e meta RESULT_CODE_ERROR ''persistence unavailable'', s1)
             | (Changed _, s1) \<Rightarrow>
               (case resetFailures (ActorId a) (ActorType a) s1 of
                  (False, s2) \<Rightarrow> (responseMeta e meta RESULT_CODE_ERROR ''persistence unavailable'', s2)
                | (True, s2) \<Rightarrow>
                    let after = json_encode (JObject [(''actor_id'', JString (ActorId a)),
                          (''actor_type'', JString (actor_type_string (ActorType a))), (''status'', JString ''active'')]);
                        (ok, s3) = identity_appendAudit x e meta (ActorId a) ''identity_set_credential'' json_empty after
                                     ResultSuccess (Cred_Reason r) s2
                    in (if ok then responseMeta e meta RESULT_CODE_OK []
                        else responseMeta e meta RESULT_CODE_ERROR ''audit unavailable'', s3))))))"

text \<open>\<^verbatim>\<open>DisableCredential\<close> and \<^verbatim>\<open>EnableCredential\<close> differ in the status and the names.\<close>

definition change_credential ::
    "ext \<Rightarrow> env \<Rightarrow> string \<Rightarrow> string \<Rightarrow> auth_actor option \<Rightarrow> credential_request option \<Rightarrow> identity
     \<Rightarrow> response_meta \<times> identity" where
  "change_credential x e action status ctx req s =
     (case req of
        None \<Rightarrow> (responseMeta e None RESULT_CODE_INVALID ''actor is required'', s)
      | Some r \<Rightarrow>
        let meta = Cred_Meta r; a = the (Cred_Actor r) in
        if unusable_actor (Cred_Actor r) then (responseMeta e None RESULT_CODE_INVALID ''actor is required'', s)
        else (case authorizeIdentityAdmin ctx meta of
          Some reason \<Rightarrow>
            (responseMeta e meta RESULT_CODE_DENIED reason, identity_auditDenied x e meta (ActorId a) action reason s)
        | None \<Rightarrow>
          (case setCredentialStatus (ActorId a) (ActorType a) status s of
             (NoDatabase, s1) \<Rightarrow> (responseMeta e meta RESULT_CODE_DENIED ''credential management requires database'', s1)
           | (ChangeFailed, s1) \<Rightarrow> (responseMeta e meta RESULT_CODE_ERROR ''persistence unavailable'', s1)
           | (Changed False, s1) \<Rightarrow> (responseMeta e meta RESULT_CODE_INVALID ''credential not found'', s1)
           | (Changed True, s1) \<Rightarrow>
               let after = json_encode (JObject [(''status'', JString status)]);
                   (ok, s2) = identity_appendAudit x e meta (ActorId a) action json_empty after ResultSuccess
                                (Cred_Reason r) s1
               in (if ok then responseMeta e meta RESULT_CODE_OK []
                   else responseMeta e meta RESULT_CODE_ERROR ''audit unavailable'', s2))))"

definition DisableCredential ::
    "ext \<Rightarrow> env \<Rightarrow> auth_actor option \<Rightarrow> credential_request option \<Rightarrow> identity \<Rightarrow> response_meta \<times> identity" where
  "DisableCredential x e = change_credential x e ''identity_disable_credential'' ''disabled''"

definition EnableCredential ::
    "ext \<Rightarrow> env \<Rightarrow> auth_actor option \<Rightarrow> credential_request option \<Rightarrow> identity \<Rightarrow> response_meta \<times> identity" where
  "EnableCredential x e = change_credential x e ''identity_enable_credential'' ''active''"

definition lockout_state :: "env \<Rightarrow> actor \<Rightarrow> int \<Rightarrow> time option \<Rightarrow> lockout_status" where
  "lockout_state e a failed until =
     \<lparr>StatusActor = \<lparr>ActorId = ActorId a, ActorType = ActorType a\<rparr>, FailedAttempts = word_of_int failed,
      Locked = (case until of None \<Rightarrow> False | Some t \<Rightarrow> env_now e < t),
      LockedUntilText = (case until of None \<Rightarrow> [] | Some t \<Rightarrow> fmt_rfc3339nano t)\<rparr>"

text \<open>In memory an account without lockout has the zero time, which is never after the clock.\<close>

definition lockoutStatus :: "env \<Rightarrow> actor \<Rightarrow> identity \<Rightarrow> lockout_status option \<times> identity" where
  "lockoutStatus e a s =
     (if svc_db s \<noteq> None
      then (case svc_query (identity_select_lockout (ActorId a) (actor_type_string (ActorType a))) s of
              (None, s1) \<Rightarrow> (None, s1)
            | (Some None, s1) \<Rightarrow> (Some (lockout_state e a 0 None), s1)
            | (Some (Some r), s1) \<Rightarrow> (Some (lockout_state e a (il_failed_attempts r) (il_locked_until r)), s1))
      else
        let k = lockKey (ActorId a) (ActorType a); until = id_until k s
        in (Some ((lockout_state e a (id_failures k s) None)
                   \<lparr>Locked := env_now e < until,
                    LockedUntilText := (if until = zero_time then [] else fmt_rfc3339nano until)\<rparr>), s))"

fun actor_type_number :: "actor_type \<Rightarrow> int" where
  "actor_type_number ACTOR_TYPE_UNSPECIFIED = 0"
| "actor_type_number ACTOR_TYPE_PLAYER = 1"
| "actor_type_number ACTOR_TYPE_OPERATOR = 2"
| "actor_type_number ACTOR_TYPE_SERVICE = 3"
| "actor_type_number (ACTOR_TYPE_OTHER w) = sint w"

definition lockout_json :: "lockout_status \<Rightarrow> string" where
  "lockout_json st = json_encode (JObject (
     [(''actor'', JObject (jstr ''actor_id'' (ActorId (StatusActor st))
                           @ jint ''actor_type'' (actor_type_number (ActorType (StatusActor st)))))]
     @ jint ''failed_attempts'' (sint (FailedAttempts st))
     @ (if Locked st then [(''locked'', JBool True)] else []) @ jstr ''locked_until'' (LockedUntilText st)))"

definition lockout_refusal :: "env \<Rightarrow> request_meta option \<Rightarrow> result_code \<Rightarrow> string \<Rightarrow> lockout_response" where
  "lockout_refusal e meta code reason = \<lparr>LockoutMeta = responseMeta e meta code reason, LockoutState = None\<rparr>"

definition GetLockout ::
    "ext \<Rightarrow> env \<Rightarrow> auth_actor option \<Rightarrow> credential_request option \<Rightarrow> identity \<Rightarrow> lockout_response \<times> identity" where
  "GetLockout x e ctx req s =
     (case req of
        None \<Rightarrow> (lockout_refusal e None RESULT_CODE_INVALID ''actor is required'', s)
      | Some r \<Rightarrow>
        let meta = Cred_Meta r; a = the (Cred_Actor r) in
        if unusable_actor (Cred_Actor r) then (lockout_refusal e None RESULT_CODE_INVALID ''actor is required'', s)
        else (case authorizeIdentityAdmin ctx meta of
          Some reason \<Rightarrow>
            (lockout_refusal e meta RESULT_CODE_DENIED reason,
             identity_auditDenied x e meta (ActorId a) ''identity_get_lockout'' reason s)
        | None \<Rightarrow>
          (case lockoutStatus e a s of
             (None, s1) \<Rightarrow> (lockout_refusal e meta RESULT_CODE_ERROR ''persistence unavailable'', s1)
           | (Some st, s1) \<Rightarrow>
               (\<lparr>LockoutMeta = responseMeta e meta RESULT_CODE_OK [], LockoutState = Some st\<rparr>, s1))))"

definition ResetLockout ::
    "ext \<Rightarrow> env \<Rightarrow> auth_actor option \<Rightarrow> credential_request option \<Rightarrow> identity \<Rightarrow> lockout_response \<times> identity" where
  "ResetLockout x e ctx req s =
     (case req of
        None \<Rightarrow> (lockout_refusal e None RESULT_CODE_INVALID ''actor is required'', s)
      | Some r \<Rightarrow>
        let meta = Cred_Meta r; a = the (Cred_Actor r) in
        if unusable_actor (Cred_Actor r) then (lockout_refusal e None RESULT_CODE_INVALID ''actor is required'', s)
        else (case authorizeIdentityAdmin ctx meta of
          Some reason \<Rightarrow>
            (lockout_refusal e meta RESULT_CODE_DENIED reason,
             identity_auditDenied x e meta (ActorId a) ''identity_reset_lockout'' reason s)
        | None \<Rightarrow>
          (case resetFailures (ActorId a) (ActorType a) s of
             (False, s1) \<Rightarrow> (lockout_refusal e meta RESULT_CODE_ERROR ''persistence unavailable'', s1)
           | (True, s1) \<Rightarrow>
             (case lockoutStatus e a s1 of
                (None, s2) \<Rightarrow> (lockout_refusal e meta RESULT_CODE_ERROR ''persistence unavailable'', s2)
              | (Some st, s2) \<Rightarrow>
                  (case identity_appendAudit x e meta (ActorId a) ''identity_reset_lockout'' json_empty (lockout_json st)
                      ResultSuccess (Cred_Reason r) s2 of
                     (False, s3) \<Rightarrow> (lockout_refusal e meta RESULT_CODE_ERROR ''audit unavailable'', s3)
                   | (True, s3) \<Rightarrow>
                       (\<lparr>LockoutMeta = responseMeta e meta RESULT_CODE_OK [], LockoutState = Some st\<rparr>, s3))))))"

end
