(* ===== verification/IdentityProps.thy ===== *)
theory IdentityProps
  imports Identity Lockout Samples
begin

text \<open>
  What the identity service promises: a token is only issued for the right secret of an account that is not locked,
  the token it issues authenticates exactly the actor who logged in, failures lock an account out, a refresh token
  works once, the rate limit bounds the attempts of a window, and the cleanup of expired sessions ends.
\<close>

section \<open>Frames\<close>

text \<open>The steps of a login before the tokens leave the signer and the times to live alone.\<close>

definition same_policy :: "identity \<Rightarrow> identity \<Rightarrow> bool" where
  "same_policy s s' \<longleftrightarrow> tokenSigner s' = tokenSigner s \<and> accessTTL s' = accessTTL s \<and> refreshTTL s' = refreshTTL s \<and>
     (svc_db s' = None \<longleftrightarrow> svc_db s = None)"

lemma same_policy_trans: "same_policy a b \<Longrightarrow> same_policy b c \<Longrightarrow> same_policy a c"
  by (simp add: same_policy_def)

lemma svc_query_policy: "same_policy s (snd (svc_query q s))"
  by (simp add: same_policy_def svc_query_def split: option.splits prod.splits)

lemma svc_exec_policy: "same_policy s (snd (svc_exec q s))"
  by (simp add: same_policy_def svc_exec_def split: option.splits prod.splits)

lemma rateLimitExceeded_policy: "same_policy s (snd (rateLimitExceeded e i t s))"
  by (auto simp: same_policy_def rateLimitExceeded_def Let_def split: option.splits prod.splits)

lemma same_policy_refl: "same_policy s s"
  by (simp add: same_policy_def)

lemma checkLocked_snd:
  "snd (checkLocked e i t s) =
     (if svc_db s \<noteq> None then snd (svc_query (identity_select_lockout i (actor_type_string t)) s) else s)"
  by (auto simp: checkLocked_def split: option.splits prod.splits)

lemma checkLocked_policy: "same_policy s (snd (checkLocked e i t s))"
  unfolding checkLocked_snd by (simp add: svc_query_policy same_policy_refl)

lemma verifyCredentials_snd:
  "snd (verifyCredentials lib i t sec s) =
     (if svc_db s \<noteq> None
      then snd (svc_query (\<lambda>d. find (\<lambda>r. credential_key r = (i, actor_type_string t)) (identity_credentials d)) s) else s)"
  by (auto simp: verifyCredentials_def split: option.splits prod.splits)

lemma verifyCredentials_policy: "same_policy s (snd (verifyCredentials lib i t sec s))"
  unfolding verifyCredentials_snd by (simp add: svc_query_policy same_policy_refl)

lemma resetFailures_policy: "same_policy s (snd (resetFailures i t s))"
proof (cases "svc_db s = None")
  case False
  then show ?thesis by (simp add: resetFailures_def svc_exec_policy)
qed (simp add: resetFailures_def same_policy_def Let_def)

text \<open>A login that ends with a token passed every check, and the token is the one the last step issues.\<close>

lemma token_none [simp]:
  "Token (fst (login_error e meta t why s)) = None" "Token (fst (login_denied x e meta t why s)) = None"
  by (simp_all add: login_error_def login_denied_def token_refusal_def)

lemma login_attempt_token:
  assumes "Token (fst (login_attempt x lib e meta i t sec s)) = Some tok"
  obtains s1 s2 s3 s4 where "rateLimitExceeded e i t s = (Some False, s1)" "checkLocked e i t s1 = (Some False, s2)"
    "verifyCredentials lib i t sec s2 = (Some True, s3)" "resetFailures i t s3 = (True, s4)"
    "login_attempt x lib e meta i t sec s = login_issue x lib e meta i t s4" "same_policy s s4"
proof -
  obtain s1 where 1: "rateLimitExceeded e i t s = (Some False, s1)"
    using assms by (auto simp: login_attempt_def split: prod.splits option.splits bool.splits)
  obtain s2 where 2: "checkLocked e i t s1 = (Some False, s2)"
    using assms 1 by (auto simp: login_attempt_def split: prod.splits option.splits bool.splits)
  obtain s3 where 3: "verifyCredentials lib i t sec s2 = (Some True, s3)"
    using assms 1 2 by (auto simp: login_attempt_def split: prod.splits option.splits bool.splits)
  obtain s4 where 4: "resetFailures i t s3 = (True, s4)"
    using assms 1 2 3 by (auto simp: login_attempt_def split: prod.splits option.splits bool.splits)
  have "same_policy s s4"
    using rateLimitExceeded_policy [of s e i t] checkLocked_policy [of s1 e i t]
      verifyCredentials_policy [of s2 lib i t sec] resetFailures_policy [of s3 i t] 1 2 3 4
    by (metis same_policy_trans snd_conv)
  then show ?thesis using that [OF 1 2 3 4] 1 2 3 4 by (simp add: login_attempt_def)
qed

lemma login_issue_token:
  assumes "Token (fst (login_issue x lib e meta i t s)) = Some tok"
  obtains expiry where "SignActor lib (tokenSigner s) \<lparr>AuthID = i, AuthType = actor_type_string t\<rparr> (env_now e) (accessTTL s) =
      Some (AccessToken tok, expiry)" "TokenActor tok = \<lparr>ActorId = i, ActorType = t\<rparr>" "env_rand e = Some (RefreshTokenText tok)"
  using assms
  by (auto simp: login_issue_def signAccessToken_def Let_def split: option.splits prod.splits if_splits)

lemma validated_actor:
  assumes "validateLoginRequest req = Inr (i, t)"
  shows "i \<noteq> []" "t = ACTOR_TYPE_PLAYER \<or> t = ACTOR_TYPE_OPERATOR" "\<exists>r. req = Some r"
  using assms
  by (auto simp: validateLoginRequest_def split: option.splits login_credentials.splits if_splits prod.splits)

lemma Login_token:
  assumes "Token (fst (Login x lib e req s)) = Some tok"
  obtains i t r where "req = Some r" "validateLoginRequest req = Inr (i, t)"
    "Token (fst (login_attempt x lib e (Login_Meta r) i t (login_secret (Login_Credentials r)) s)) = Some tok"
  using assms validated_actor(3) [of req]
  by (auto simp: Login_def split: sum.splits prod.splits)

lemma SignActor_expiry: "SignActor lib k a now ttl = Some (tok, t) \<Longrightarrow> t = now + ttl"
  by (auto simp: SignActor_def Let_def split: option.splits if_splits)

lemma actor_type_roundtrip:
  "t = ACTOR_TYPE_PLAYER \<or> t = ACTOR_TYPE_OPERATOR \<or> t = ACTOR_TYPE_SERVICE \<Longrightarrow> actorTypeFromString (actor_type_string t) = t"
proof -
  have "actorTypeFromString ''ACTOR_TYPE_PLAYER'' = ACTOR_TYPE_PLAYER"
    "actorTypeFromString ''ACTOR_TYPE_OPERATOR'' = ACTOR_TYPE_OPERATOR"
    "actorTypeFromString ''ACTOR_TYPE_SERVICE'' = ACTOR_TYPE_SERVICE" by code_simp+
  then show "t = ACTOR_TYPE_PLAYER \<or> t = ACTOR_TYPE_OPERATOR \<or> t = ACTOR_TYPE_SERVICE \<Longrightarrow> ?thesis"
    by auto
qed

text \<open>The tables the checks of a login read; the rate limit changes neither.\<close>

definition id_tables :: "identity \<Rightarrow> (credential_row list \<times> identity_lockout_row list) option" where
  "id_tables s = map_option (\<lambda>d. (identity_credentials d, identity_lockouts d)) (svc_db s)"

lemma sql_exec_sel [simp]:
  "identity_credentials (snd (sql_exec d)) = identity_credentials d"
  "identity_lockouts (snd (sql_exec d)) = identity_lockouts d"
  by (simp_all add: sql_exec_def split: list.splits)

lemma svc_query_tables [simp]: "id_tables (snd (svc_query q s)) = id_tables s"
  by (simp add: id_tables_def svc_query_def sql_query_def Let_def split_beta split: option.splits)

lemma rateLimitExceeded_tables: "id_tables (snd (rateLimitExceeded e i t s)) = id_tables s"
proof (cases "svc_db s")
  case (Some d)
  have "identity_credentials (snd (sql_returning (count_attempt e i n w) d)) = identity_credentials d \<and>
      identity_lockouts (snd (sql_returning (count_attempt e i n w) d)) = identity_lockouts d" for n w
    using sql_exec_sel [of d]
    by (auto simp: sql_returning_def Let_def count_attempt_def split_beta simp del: sql_exec_sel split: option.splits)
  with Some show ?thesis
    by (auto simp: rateLimitExceeded_def id_tables_def split_beta split: option.splits)
qed (simp add: rateLimitExceeded_def id_tables_def Let_def)

lemma rateLimitExceeded_locks: "svc_db s = None \<Longrightarrow> id_until k (snd (rateLimitExceeded e i t s)) = id_until k s"
  by (simp add: rateLimitExceeded_def Let_def id_until_def)

lemma svc_query_result: "fst (svc_query q s) = Some r \<Longrightarrow> \<exists>d. svc_db s = Some d \<and> r = q (snd (sql_exec d))"
  by (auto simp: svc_query_def sql_query_def Let_def split_beta split: option.splits if_splits)

section \<open>Properties of logins\<close>

text \<open>
  C24: a token is only issued to someone who knows the secret of an account that is not locked. Whenever Login answers
  with a token, the request names the actor of its metadata, and that actor's lockout had ended; with a database there
  is an active credential of the actor whose hash bcrypt accepts for the secret, without one the secret is the built-in
  one of players or operators.
\<close>

definition locked_out :: "env \<Rightarrow> string \<Rightarrow> actor_type \<Rightarrow> identity \<Rightarrow> bool" where
  "locked_out e i t s =
     (case svc_db s of
        None \<Rightarrow> env_now e < id_until (lockKey i t) s
      | Some d \<Rightarrow> (case identity_select_lockout i (actor_type_string t) d of
                     None \<Rightarrow> False
                   | Some r \<Rightarrow> env_now e < (case il_locked_until r of None \<Rightarrow> 0 | Some u \<Rightarrow> u)))"

definition knows_secret :: "('z) identity_lib_scheme \<Rightarrow> string \<Rightarrow> actor_type \<Rightarrow> string \<Rightarrow> identity \<Rightarrow> bool" where
  "knows_secret lib i t sec s =
     (case svc_db s of
        None \<Rightarrow> sec = (if t = ACTOR_TYPE_PLAYER then ''1234'' else ''operator-pass'')
      | Some d \<Rightarrow> \<exists>r \<in> set (identity_credentials d). credential_key r = (i, actor_type_string t) \<and>
                    cr_status r = ''active'' \<and> bcrypt_ok lib (cr_password_hash r) sec)"

lemma checkLocked_false:
  assumes "fst (checkLocked e i t s1) = Some False" "id_tables s1 = id_tables s" "svc_db s = None \<longrightarrow> id_until (lockKey i t) s1 = id_until (lockKey i t) s"
  shows "\<not> locked_out e i t s"
proof (cases "svc_db s")
  case None
  with assms(2) have "svc_db s1 = None" by (simp add: id_tables_def)
  with None assms show ?thesis by (simp add: checkLocked_def locked_out_def)
next
  case (Some d)
  with assms(2) obtain d1 where d1: "svc_db s1 = Some d1" "identity_lockouts d1 = identity_lockouts d"
    by (cases "svc_db s1") (auto simp: id_tables_def)
  obtain r where "fst (svc_query (identity_select_lockout i (actor_type_string t)) s1) = Some r"
    and r: "case r of None \<Rightarrow> True | Some r \<Rightarrow> \<not> env_now e < (case il_locked_until r of None \<Rightarrow> 0 | Some u \<Rightarrow> u)"
    using assms(1) d1(1) by (auto simp: checkLocked_def split: option.splits prod.splits)
  with d1 have "r = identity_select_lockout i (actor_type_string t) d"
    by (auto simp: identity_select_lockout_def dest: svc_query_result)
  with r Some show ?thesis by (auto simp: locked_out_def split: option.splits)
qed

lemma verifyCredentials_true:
  assumes "fst (verifyCredentials lib i t sec s2) = Some True" "id_tables s2 = id_tables s"
    and "t = ACTOR_TYPE_PLAYER \<or> t = ACTOR_TYPE_OPERATOR"
  shows "knows_secret lib i t sec s"
proof (cases "svc_db s")
  case None
  with assms(2) have "svc_db s2 = None" by (simp add: id_tables_def)
  with None assms show ?thesis by (auto simp: verifyCredentials_def knows_secret_def)
next
  case (Some d)
  with assms(2) obtain d2 where d2: "svc_db s2 = Some d2" "identity_credentials d2 = identity_credentials d"
    by (cases "svc_db s2") (auto simp: id_tables_def)
  let ?q = "\<lambda>d. find (\<lambda>r. credential_key r = (i, actor_type_string t)) (identity_credentials d)"
  obtain r where "fst (svc_query ?q s2) = Some (Some r)" and r: "cr_status r = ''active''" "bcrypt_ok lib (cr_password_hash r) sec"
    using assms(1) d2(1) by (auto simp: verifyCredentials_def split: option.splits prod.splits if_splits)
  with d2 have "?q d = Some r" by (fastforce dest: svc_query_result)
  then have "r \<in> set (identity_credentials d)" "credential_key r = (i, actor_type_string t)"
    by (auto simp: find_Some_iff)
  with r Some show ?thesis by (auto simp: knows_secret_def)
qed

theorem login_needs_secret:
  assumes "Token (fst (Login x lib e (Some r) s)) = Some tok"
  shows "\<exists>i t. validateLoginRequest (Some r) = Inr (i, t) \<and> TokenActor tok = \<lparr>ActorId = i, ActorType = t\<rparr> \<and>
    \<not> locked_out e i t s \<and> knows_secret lib i t (login_secret (Login_Credentials r)) s"
proof -
  obtain i t where v: "validateLoginRequest (Some r) = Inr (i, t)"
    and att: "Token (fst (login_attempt x lib e (Login_Meta r) i t (login_secret (Login_Credentials r)) s)) = Some tok"
    using Login_token [OF assms] by auto
  obtain s1 s2 s3 s4 where c: "rateLimitExceeded e i t s = (Some False, s1)" "checkLocked e i t s1 = (Some False, s2)"
      "verifyCredentials lib i t (login_secret (Login_Credentials r)) s2 = (Some True, s3)"
      "login_attempt x lib e (Login_Meta r) i t (login_secret (Login_Credentials r)) s = login_issue x lib e (Login_Meta r) i t s4"
    using login_attempt_token [OF att] by metis
  have s1: "id_tables s1 = id_tables s" "svc_db s = None \<longrightarrow> id_until (lockKey i t) s1 = id_until (lockKey i t) s"
    using rateLimitExceeded_tables [of e i t s] rateLimitExceeded_locks [of s "lockKey i t" e i t] c(1) by auto
  have "snd (checkLocked e i t s1) = s2" using c(2) by simp
  then have "id_tables s2 = id_tables s1"
    unfolding checkLocked_snd by (metis svc_query_tables)
  with s1 c show ?thesis
    using v checkLocked_false [of e i t s1 s] verifyCredentials_true [OF _ _ validated_actor(2) [OF v]] att
      login_issue_token [of x lib e "Login_Meta r" i t s4 tok] by (metis fst_conv)
qed

text \<open>A service with the built-in secrets, a player who logs in, and a package that signs this player's token.\<close>

definition demo_keys :: jwt_keys where
  "demo_keys = \<lparr>ActiveKID = ''default'', Keys = [''default'' \<mapsto> ''secret'']\<rparr>"

definition demo_identity :: identity where
  "demo_identity = \<lparr>svc_AuditStore = Some NewInMemoryStore, svc_nextAuditID = 0, svc_db = None,
     refreshSessions = Map.empty, failedAttempts = Map.empty, lockedUntil = Map.empty, tokenSigner = demo_keys,
     accessTTL = 15 * minute, refreshTTL = 24 * hour, lockoutTTL = 15 * minute, maxFailures = 5, loginRateMax = 60,
     loginRateWindowLen = minute, loginRates = Map.empty, observers = False, observed = []\<rparr>"

definition demo_login :: "string \<Rightarrow> login_request" where
  "demo_login pin = \<lparr>Login_Meta = Some \<lparr>RequestId = ''req-1'', IdempotencyKey = [],
     MetaActor = Some \<lparr>ActorId = ''p1'', ActorType = ACTOR_TYPE_PLAYER\<rparr>\<rparr>,
     Login_Credentials = PlayerCredentials (Some (''p1'', pin))\<rparr>"

definition demo_claims :: jwt_claims where
  "demo_claims = \<lparr>Sub = ''p1'', ActorTypeClaim = ''ACTOR_TYPE_PLAYER'', Iat = 0, Exp = 900\<rparr>"

definition demo_lib :: identity_lib where
  "demo_lib = \<lparr>jwt_sign = (\<lambda>kid claims secret. if kid = ''default'' \<and> claims = demo_claims \<and> secret = ''secret''
                 then Some ''token'' else None),
     jwt_parse = (\<lambda>leeway wall key token. if token = ''token'' \<and> key ''HS256'' ''default'' = Some ''secret'' \<and>
                   wall div second < 900 then Some (Some ''p1'', Some ''ACTOR_TYPE_PLAYER'') else None),
     bcrypt_ok = (=), bcrypt_cost = (\<lambda>h. Some 12)\<rparr>"

definition demo_login_env :: env where
  "demo_login_env = demo_env\<lparr>env_rand := Some ''refresh-1''\<rparr>"

lemma demo_identity_new: "NewIdentityService ''secret'' 0 0 None = Returns demo_identity"
proof -
  have "trim_space ''secret'' \<noteq> []" "trim_space ''default'' \<noteq> []" by code_simp+
  then show ?thesis
    by (simp add: NewIdentityService_def NewJWTSigner_def ParseHMACKeyset_def NewJWTSignerWithKeyset_def
        demo_identity_def demo_keys_def Let_def)
qed

lemma demo_lib_accepts: "jwt_accepts_own demo_lib"
  by (simp add: jwt_accepts_own_def demo_lib_def demo_claims_def)

lemma demo_validated: "pin \<noteq> [] \<Longrightarrow> validateLoginRequest (Some (demo_login pin)) = Inr (''p1'', ACTOR_TYPE_PLAYER)"
  by (simp add: validateLoginRequest_def demo_login_def)

text \<open>Without a database an audit event is always accepted, so that a login with the right secret gets its token.\<close>

lemma identity_audit_idle:
  assumes "mem_idle x s"
  obtains st where "identity_appendAudit x e meta oid act b a r why s =
      (True, s\<lparr>svc_AuditStore := st, svc_nextAuditID := Suc (svc_nextAuditID s)\<rparr>)"
    "mem_idle x (s\<lparr>svc_AuditStore := st, svc_nextAuditID := Suc (svc_nextAuditID s)\<rparr>)"
proof -
  let ?mk = "\<lambda>n. audit_event e (''identity-audit-'' @ itoa_nat n) meta ''identity_session'' oid act b a r why"
  obtain st where "svc_append x e ?mk s = (True, s\<lparr>svc_AuditStore := st, svc_nextAuditID := Suc (svc_nextAuditID s)\<rparr>)"
    "mem_idle x (s\<lparr>svc_AuditStore := st, svc_nextAuditID := Suc (svc_nextAuditID s)\<rparr>)"
    by (rule svc_append_idle [OF assms, where e = e and mk = ?mk])
  then show ?thesis using that by (simp add: identity_appendAudit_def)
qed

lemma login_issue_idle:
  assumes "mem_idle x s" "signAccessToken lib e i t s = Some (acc, exp)" "env_rand e = Some refresh"
  shows "Token (fst (login_issue x lib e meta i t s)) = Some \<lparr>AccessToken = acc, RefreshTokenText = refresh,
      TokenType = ''Bearer'', TokenExpiresAt = exp, TokenActor = \<lparr>ActorId = i, ActorType = t\<rparr>\<rparr>"
    and "refreshSessions (snd (login_issue x lib e meta i t s)) = (refreshSessions s)(refresh \<mapsto>
      \<lparr>sess_refreshToken = refresh, sess_actorID = i, sess_actorType = t, sess_expiresAt = env_now e + refreshTTL s, sess_revoked = False\<rparr>)"
proof -
  let ?sess = "\<lparr>sess_refreshToken = refresh, sess_actorID = i, sess_actorType = t, sess_expiresAt = env_now e + refreshTTL s, sess_revoked = False\<rparr>"
  let ?s = "s\<lparr>refreshSessions := (refreshSessions s)(refresh \<mapsto> ?sess)\<rparr>"
  have "mem_idle x ?s" using assms(1) by (simp add: mem_idle_def svc_ok_def)
  then obtain st where "identity_appendAudit x e meta refresh ''identity_login'' json_empty
      (sessionSnapshot refresh i t (env_now e + refreshTTL s) False) ResultSuccess [] ?s =
      (True, ?s\<lparr>svc_AuditStore := st, svc_nextAuditID := Suc (svc_nextAuditID ?s)\<rparr>)"
    by (rule identity_audit_idle)
  with assms show "Token (fst (login_issue x lib e meta i t s)) = Some \<lparr>AccessToken = acc, RefreshTokenText = refresh,
      TokenType = ''Bearer'', TokenExpiresAt = exp, TokenActor = \<lparr>ActorId = i, ActorType = t\<rparr>\<rparr>"
    "refreshSessions (snd (login_issue x lib e meta i t s)) = (refreshSessions s)(refresh \<mapsto> ?sess)"
    by (simp_all add: login_issue_def Let_def mem_idle_def observe_def)
qed

lemma demo_logged_in: "Token (fst (Login demo_ext demo_lib demo_login_env (Some (demo_login ''1234'')) demo_identity)) =
   Some \<lparr>AccessToken = ''token'', RefreshTokenText = ''refresh-1'', TokenType = ''Bearer'',
     TokenExpiresAt = fmt_rfc3339nano (15 * minute), TokenActor = \<lparr>ActorId = ''p1'', ActorType = ACTOR_TYPE_PLAYER\<rparr>\<rparr>"
proof -
  let ?w = "\<lparr>window_start = 0, window_count = 1\<rparr>"
  let ?s = "demo_identity\<lparr>loginRates := [loginRateKey ''p1'' ACTOR_TYPE_PLAYER \<mapsto> ?w]\<rparr>"
  have "rateLimitExceeded demo_login_env ''p1'' ACTOR_TYPE_PLAYER demo_identity = (Some False, ?s)"
    by (simp add: rateLimitExceeded_def demo_identity_def Let_def demo_login_env_def demo_env_def)
  moreover have "checkLocked demo_login_env ''p1'' ACTOR_TYPE_PLAYER ?s = (Some False, ?s)"
    by (simp add: checkLocked_def demo_identity_def id_until_def demo_login_env_def demo_env_def zero_time_def)
  moreover have "verifyCredentials demo_lib ''p1'' ACTOR_TYPE_PLAYER ''1234'' ?s = (Some True, ?s)"
    by (simp add: verifyCredentials_def demo_identity_def)
  moreover have "resetFailures ''p1'' ACTOR_TYPE_PLAYER ?s = (True, ?s)"
    by (simp add: resetFailures_def demo_identity_def Let_def)
  moreover have "signAccessToken demo_lib demo_login_env ''p1'' ACTOR_TYPE_PLAYER ?s = Some (''token'', fmt_rfc3339nano (15 * minute))"
    by (simp add: signAccessToken_def SignActor_def demo_identity_def demo_keys_def demo_lib_def demo_claims_def Let_def
        demo_login_env_def demo_env_def unix_def)
  moreover have "mem_idle demo_ext ?s" by (simp add: mem_idle_def svc_ok_def demo_identity_def)
  ultimately show ?thesis
    using login_issue_idle(1) [of demo_ext ?s demo_lib demo_login_env "''p1''" ACTOR_TYPE_PLAYER]
    by (simp add: Login_def demo_validated login_attempt_def) (simp add: demo_login_def demo_login_env_def)
qed

lemma login_needs_secret_witness:
  "\<not> locked_out demo_login_env ''p1'' ACTOR_TYPE_PLAYER demo_identity \<and>
   knows_secret demo_lib ''p1'' ACTOR_TYPE_PLAYER ''1234'' demo_identity"
  using login_needs_secret [OF demo_logged_in] by (auto simp: demo_validated) (auto simp: demo_login_def)

text \<open>
  C25: the token of a login authenticates the actor who logged in, and nobody else. A verifier that holds the signer's
  active key accepts the access token until it expires, on every method that needs one, and the handlers then resolve
  the caller to exactly the actor the login was for, whatever the request says, unless the request names someone else,
  in which case it is refused. The hypothesis on the JWT package is that it accepts the tokens it signed.
\<close>

theorem login_token_authenticates:
  assumes "jwt_accepts_own lib" "Token (fst (Login x lib e req s)) = Some tok"
    and "Keys v (ActiveKID (tokenSigner s)) = Keys (tokenSigner s) (ActiveKID (tokenSigner s))"
    and "trim_space (ActiveKID (tokenSigner s)) \<noteq> []" "wall div second < (env_now e + accessTTL s) div second" "m \<notin> set allow"
  shows "\<exists>a. UnaryJWTInterceptor lib v allow wall m (Some [''Bearer '' @ AccessToken tok]) = Inr (Some a) \<and>
    (\<forall>meta. resolveActor (Some a) meta =
       (case Option.bind meta MetaActor of
          Some b \<Rightarrow> if b = TokenActor tok then Inr (TokenActor tok) else Inl ''actor mismatch with token''
        | None \<Rightarrow> Inr (TokenActor tok)))"
proof -
  obtain i t and r :: login_request where v: "validateLoginRequest req = Inr (i, t)"
    and att: "Token (fst (login_attempt x lib e (Login_Meta r) i t (login_secret (Login_Credentials r)) s)) = Some tok"
    by (rule Login_token [OF assms(2)]) blast
  obtain s4 where s4: "same_policy s s4" "Token (fst (login_issue x lib e (Login_Meta r) i t s4)) = Some tok"
    using login_attempt_token [OF att] att by metis
  obtain expiry where sign: "SignActor lib (tokenSigner s) \<lparr>AuthID = i, AuthType = actor_type_string t\<rparr> (env_now e) (accessTTL s) =
      Some (AccessToken tok, expiry)" and tok: "TokenActor tok = \<lparr>ActorId = i, ActorType = t\<rparr>"
    using login_issue_token [OF s4(2)] s4(1) unfolding same_policy_def by metis
  let ?a = "\<lparr>AuthID = i, AuthType = actor_type_string t\<rparr>"
  have t: "actorTypeFromString (actor_type_string t) = t" "i \<noteq> []" "t \<noteq> ACTOR_TYPE_UNSPECIFIED" "actor_type_string t \<noteq> []"
    using validated_actor(1,2) [OF v] actor_type_roundtrip [of t] by auto
  have "ParseActor lib v wall (AccessToken tok) = Some ?a"
    using SignActor_expiry [OF sign] assms(3-5) t by (intro SignActor_parses [OF assms(1) sign]) simp_all
  then have "UnaryJWTInterceptor lib v allow wall m (Some [''Bearer '' @ AccessToken tok]) = Inr (Some ?a)"
    using assms(6) trim_prefix_append [of "''Bearer ''" "AccessToken tok"] by (simp add: UnaryJWTInterceptor_def)
  moreover have "resolveActor (Some ?a) meta =
       (case Option.bind meta MetaActor of
          Some b \<Rightarrow> if b = TokenActor tok then Inr (TokenActor tok) else Inl ''actor mismatch with token''
        | None \<Rightarrow> Inr (TokenActor tok))" for meta
    using t tok by (auto simp: resolveActor_def Let_def split: option.splits)
  ultimately show ?thesis by blast
qed

lemma login_token_authenticates_witness:
  "\<exists>a. UnaryJWTInterceptor demo_lib demo_keys [] 0 ''/rgs.v1.LedgerService/Deposit'' (Some [''Bearer token'']) = Inr (Some a) \<and>
     resolveActor (Some a) None = Inr \<lparr>ActorId = ''p1'', ActorType = ACTOR_TYPE_PLAYER\<rparr>"
proof -
  have "trim_space ''default'' \<noteq> []" by code_simp
  then show ?thesis
    using login_token_authenticates [OF demo_lib_accepts demo_logged_in, of demo_keys 0 "''/rgs.v1.LedgerService/Deposit''" "[]"]
    by (auto simp: demo_identity_def demo_keys_def demo_login_env_def demo_env_def)
qed

section \<open>Lockout\<close>

interpretation idl: lockout "\<lambda>k s. svc_db s = None" "\<lambda>(i, t). id_failures (lockKey i t)" "\<lambda>(i, t). id_until (lockKey i t)"
    maxFailures lockoutTTL "\<lambda>e (i, t) s. snd (recordFailure e i t s)" env_now
  by unfold_locales (auto simp: recordFailure_def Let_def id_failures_def id_until_def)

text \<open>What the lockout depends on: the counters and the policy.\<close>

definition lock_view :: "identity \<Rightarrow> (string \<rightharpoonup> int) \<times> (string \<rightharpoonup> time) \<times> int \<times> duration" where
  "lock_view s = (failedAttempts s, lockedUntil s, maxFailures s, lockoutTTL s)"

lemma lock_view_audit [simp]: "lock_view (snd (identity_appendAudit x e meta oid act b a r why s)) = lock_view s"
  by (simp add: identity_appendAudit_def svc_append_def lock_view_def split: prod.splits)

lemma lock_view_observe [simp]: "lock_view (observe c s) = lock_view s"
  by (simp add: observe_def lock_view_def)

lemma lock_view_denied [simp]: "lock_view (snd (login_denied x e meta t why s)) = lock_view s"
  by (simp add: login_denied_def identity_auditDenied_def)

lemma lock_view_until: "lock_view s = lock_view s' \<Longrightarrow> id_until k s = id_until k s' \<and> id_failures k s = id_failures k s'"
  by (simp add: lock_view_def id_until_def id_failures_def)

lemma rateLimitExceeded_idle:
  assumes "svc_db s = None" "rateLimitExceeded e i t s = (b, s1)"
  shows "b \<noteq> None" "svc_db s1 = None" "lock_view s1 = lock_view s" "refreshSessions s1 = refreshSessions s"
    "svc_AuditStore s1 = svc_AuditStore s" "same_policy s s1"
  using assms by (auto simp: rateLimitExceeded_def Let_def lock_view_def same_policy_def split: if_splits)

lemma recordFailure_view:
  "svc_db s = None \<Longrightarrow> svc_db s1 = None \<Longrightarrow> lock_view s1 = lock_view s \<Longrightarrow>
   lock_view (snd (recordFailure e i t s1)) = lock_view (snd (recordFailure e i t s))"
  by (simp add: recordFailure_def Let_def lock_view_def id_failures_def)

text \<open>
  C26: the lockout of the identity service. Without a database, a login with a wrong secret that passes the rate limit
  and the lockout counts one failure. When the failures of an account reach the limit, every login of the account
  during the time to live after the last one is denied, with whatever secret; while they stay below the limit,
  the lockout does not change.
\<close>

definition fail_run :: "env list \<Rightarrow> string \<Rightarrow> actor_type \<Rightarrow> identity \<Rightarrow> identity" where
  "fail_run es i t s = fold (\<lambda>e s. snd (recordFailure e i t s)) es s"

lemma fail_run_locale: "idl.fail_all es (i, t) s = fail_run es i t s"
  by (simp add: idl.fail_all_def fail_run_def)

lemma fail_run_db: "svc_db s = None \<Longrightarrow> svc_db (fail_run es i t s) = None"
  using idl.fail_all_facts [where s = s and k = "(i, t)" and es = es] by (simp add: fail_run_locale)

lemma login_wrong_secret:
  assumes "svc_db s = None" "validateLoginRequest (Some r) = Inr (i, t)" "fst (rateLimitExceeded e i t s) = Some False"
    and "\<not> locked_out e i t s" "\<not> knows_secret lib i t (login_secret (Login_Credentials r)) s"
  shows "lock_view (snd (Login x lib e (Some r) s)) = lock_view (snd (recordFailure e i t s))"
proof -
  obtain s1 where r1: "rateLimitExceeded e i t s = (Some False, s1)"
    using assms(3) by (cases "rateLimitExceeded e i t s") auto
  note s1 = r1 rateLimitExceeded_idle(2,3) [OF assms(1) r1]
  have "checkLocked e i t s1 = (Some False, s1)"
    using assms(1,4) s1 lock_view_until [OF s1(3)] by (simp add: checkLocked_def locked_out_def)
  moreover have "verifyCredentials lib i t (login_secret (Login_Credentials r)) s1 = (Some False, s1)"
    using assms(1,5) s1 validated_actor(2) [OF assms(2)] by (auto simp: verifyCredentials_def knows_secret_def)
  ultimately show ?thesis
    using assms(2) s1 recordFailure_view [OF assms(1) s1(2,3)]
    by (simp add: Login_def login_attempt_def split_beta)
qed

lemma login_locked_denied:
  assumes "svc_db s = None" "validateLoginRequest (Some r) = Inr (i, t)" "locked_out e i t s"
  shows "ResultCode (TokenMeta (fst (Login x lib e (Some r) s))) = RESULT_CODE_DENIED \<and> Token (fst (Login x lib e (Some r) s)) = None"
proof -
  obtain b s1 where r1: "rateLimitExceeded e i t s = (Some b, s1)"
    using rateLimitExceeded_idle(1) [OF assms(1)] by (cases "rateLimitExceeded e i t s") fastforce
  note s1 = r1 rateLimitExceeded_idle(2,3) [OF assms(1) r1]
  have "checkLocked e i t s1 = (Some True, s1)"
    using assms(1,3) s1 lock_view_until [OF s1(3)] by (simp add: checkLocked_def locked_out_def)
  with s1 assms(2) show ?thesis
    by (cases b) (simp_all add: Login_def login_attempt_def login_denied_def token_refusal_def)
qed

theorem identity_lockout:
  assumes "svc_db s = None" "validateLoginRequest (Some r) = Inr (i, t)"
  shows "(fst (rateLimitExceeded e i t s) = Some False \<and> \<not> locked_out e i t s \<and>
        \<not> knows_secret lib i t (login_secret (Login_Credentials r)) s \<longrightarrow>
        lock_view (snd (Login x lib e (Some r) s)) = lock_view (fail_run [e] i t s)) \<and>
    (es \<noteq> [] \<and> maxFailures s \<le> id_failures (lockKey i t) s + int (length es) \<and>
        env_now e < env_now (last es) + lockoutTTL s \<longrightarrow>
        ResultCode (TokenMeta (fst (Login x lib e (Some r) (fail_run es i t s)))) = RESULT_CODE_DENIED \<and>
        Token (fst (Login x lib e (Some r) (fail_run es i t s))) = None) \<and>
    (id_failures (lockKey i t) s + int (length es) < maxFailures s \<longrightarrow>
        locked_out e i t (fail_run es i t s) = locked_out e i t s)" (is "?counts \<and> ?locks \<and> ?keeps")
proof (intro conjI)
  show ?counts using login_wrong_secret [OF assms, of e lib x] by (simp add: fail_run_def)
  have db: "svc_db (fail_run es i t s) = None" using assms(1) by (rule fail_run_db)
  show ?locks
    using idl.locked_after [where s = s and k = "(i, t)" and es = es] assms db
    by (intro impI login_locked_denied [OF db assms(2)]) (simp add: fail_run_locale locked_out_def)
  show ?keeps
    using idl.unlocked_before [where s = s and k = "(i, t)" and es = es] assms(1) db
    by (simp add: fail_run_locale locked_out_def)
qed

lemma identity_lockout_witness:
  "Token (fst (Login demo_ext demo_lib demo_env (Some (demo_login ''1234''))
     (fail_run (replicate 5 demo_env) ''p1'' ACTOR_TYPE_PLAYER demo_identity))) = None"
  using identity_lockout [of demo_identity "demo_login ''1234''" "''p1''" ACTOR_TYPE_PLAYER demo_env demo_lib demo_ext
      "replicate 5 demo_env"]
  by (simp add: demo_validated demo_identity_def id_failures_def demo_env_def)

section \<open>Refresh tokens\<close>

text \<open>A call opens at most the session whose token its random source gave.\<close>

definition opens_within :: "env \<Rightarrow> identity \<Rightarrow> identity \<Rightarrow> bool" where
  "opens_within e s s' \<longleftrightarrow> svc_db s' = None \<and>
     (\<forall>tok. refreshSessions s tok = None \<and> env_rand e \<noteq> Some tok \<longrightarrow> refreshSessions s' tok = None)"

lemma opens_within_refl: "svc_db s = None \<Longrightarrow> opens_within e s s"
  by (simp add: opens_within_def)

lemma audit_sessions [simp]:
  "refreshSessions (snd (identity_appendAudit x e meta oid act b a r why s)) = refreshSessions s"
  "svc_db (snd (identity_appendAudit x e meta oid act b a r why s)) = None \<longleftrightarrow> svc_db s = None"
  "refreshSessions (identity_auditDenied x e meta oid act why s) = refreshSessions s"
  "svc_db (identity_auditDenied x e meta oid act why s) = None \<longleftrightarrow> svc_db s = None"
  by (simp_all add: identity_auditDenied_def identity_appendAudit_def svc_append_has_db)
     (simp_all add: svc_append_def split: prod.splits)

lemma observe_sessions [simp]: "refreshSessions (observe c s) = refreshSessions s" "svc_db (observe c s) = svc_db s"
  by (simp_all add: observe_def)

lemma login_ends_sessions [simp]:
  "refreshSessions (snd (login_error e meta t why s)) = refreshSessions s" "svc_db (snd (login_error e meta t why s)) = svc_db s"
  "refreshSessions (snd (login_denied x e meta t why s)) = refreshSessions s"
  "svc_db (snd (login_denied x e meta t why s)) = None \<longleftrightarrow> svc_db s = None"
  by (simp_all add: login_error_def login_denied_def)

lemma login_issue_opens: "svc_db s = None \<Longrightarrow> opens_within e s (snd (login_issue x lib e meta i t s))"
  by (auto simp: login_issue_def Let_def split_beta opens_within_def split: option.splits)

lemma identity_memory:
  assumes "svc_db s = None"
  shows "checkLocked e i t s = (Some (env_now e < id_until (lockKey i t) s), s)"
    "snd (verifyCredentials lib i t sec s) = s" "fst (verifyCredentials lib i t sec s) \<noteq> None"
    "svc_db (snd (recordFailure e i t s)) = None" "refreshSessions (snd (recordFailure e i t s)) = refreshSessions s"
    "svc_db (snd (resetFailures i t s)) = None" "refreshSessions (snd (resetFailures i t s)) = refreshSessions s"
    "fst (resetFailures i t s)" "find_session tok s = (Some (refreshSessions s tok), s)"
  using assms
  by (auto simp: checkLocked_def verifyCredentials_def recordFailure_def resetFailures_def Let_def find_session_def)

lemma login_attempt_opens:
  assumes "svc_db s = None"
  shows "opens_within e s (snd (login_attempt x lib e meta i t sec s))"
proof -
  obtain b s1 where r1: "rateLimitExceeded e i t s = (Some b, s1)"
    using rateLimitExceeded_idle(1) [OF assms] by (cases "rateLimitExceeded e i t s") fastforce
  note s1 = rateLimitExceeded_idle(2,4) [OF assms r1]
  let ?s4 = "snd (resetFailures i t s1)"
  have "opens_within e s (snd (login_issue x lib e meta i t ?s4))"
    using login_issue_opens [of ?s4 e x lib meta i t] identity_memory(6,7) [OF s1(1), of i t] s1(2)
    by (simp add: opens_within_def)
  moreover obtain v where "verifyCredentials lib i t sec s1 = (Some v, s1)"
    using identity_memory(2,3) [OF s1(1)] by (metis not_None_eq prod.collapse)
  ultimately show ?thesis
    using s1 identity_memory(4-8) [OF s1(1)]
    by (cases b; cases v; simp add: login_attempt_def r1 identity_memory(1) [OF s1(1)] split_beta split: bool.split)
       (auto simp: opens_within_def)
qed

lemma Login_opens: "svc_db s = None \<Longrightarrow> opens_within e s (snd (Login x lib e req s))"
  by (auto simp: Login_def Let_def login_attempt_opens split: sum.splits) (simp add: opens_within_def)

lemma Logout_opens: "svc_db s = None \<Longrightarrow> opens_within e s (snd (Logout x e req s))"
  by (auto simp: Logout_def Let_def split_beta identity_memory opens_within_def split: option.splits)

lemma refresh_rotate_opens: "svc_db s = None \<Longrightarrow> opens_within e s (snd (refresh_rotate x lib e meta tok sess s))"
  by (auto simp: refresh_rotate_def Let_def split_beta opens_within_def split: option.splits)

lemma RefreshToken_opens: "svc_db s = None \<Longrightarrow> opens_within e s (snd (RefreshToken x lib e req s))"
  by (auto simp: RefreshToken_def Let_def identity_memory refresh_rotate_opens split: option.splits)
     (auto simp: opens_within_def)

text \<open>The administrative calls leave the sessions alone.\<close>

definition sessions_kept :: "identity \<Rightarrow> identity \<Rightarrow> bool" where
  "sessions_kept s s' \<longleftrightarrow> svc_db s' = None \<and> refreshSessions s' = refreshSessions s"

lemma sessions_kept_opens: "sessions_kept s s' \<Longrightarrow> opens_within e s s'"
  by (simp add: sessions_kept_def opens_within_def)

lemma sessions_kept_basic [simp]:
  "sessions_kept s s \<longleftrightarrow> svc_db s = None" "svc_db s = None \<Longrightarrow> sessions_kept s (identity_auditDenied x e meta oid act why s)"
  "svc_db s = None \<Longrightarrow> sessions_kept s (SetLockoutPolicy n ttl s)" "svc_db s = None \<Longrightarrow> sessions_kept s (SetLoginRateLimit n ttl s)"
  by (simp_all add: sessions_kept_def SetLockoutPolicy_def SetLoginRateLimit_def)

lemma SetCredential_kept: "svc_db s = None \<Longrightarrow> sessions_kept s (snd (SetCredential x lib e ctx req s))"
  by (simp add: SetCredential_def Let_def setCredentialHash_def split: option.split)

lemma change_credential_kept: "svc_db s = None \<Longrightarrow> sessions_kept s (snd (change_credential x e act st ctx req s))"
  by (simp add: change_credential_def Let_def setCredentialStatus_def split: option.split)

lemma lockoutStatus_idle: "svc_db s = None \<Longrightarrow> \<exists>st. lockoutStatus e a s = (Some st, s)"
  by (simp add: lockoutStatus_def Let_def)

lemma GetLockout_kept:
  assumes "svc_db s = None"
  shows "sessions_kept s (snd (GetLockout x e ctx req s))"
proof -
  have "snd (lockoutStatus e a s) = s" for a using lockoutStatus_idle [OF assms, of e a] by auto
  with assms show ?thesis by (simp add: GetLockout_def Let_def split_beta split: option.split)
qed

lemma ResetLockout_kept:
  assumes "svc_db s = None"
  shows "sessions_kept s (snd (ResetLockout x e ctx req s))"
proof -
  have reset: "\<exists>s1. resetFailures i t s = (True, s1) \<and> sessions_kept s s1" for i t
    using assms by (simp add: resetFailures_def Let_def sessions_kept_def)
  have audit: "sessions_kept s (snd (identity_appendAudit x e meta oid act b a r why s1))" if "sessions_kept s s1"
    for meta oid act b a r why s1
    using that by (simp add: sessions_kept_def)
  show ?thesis
  proof (cases req)
    case (Some r)
    obtain s1 where s1: "resetFailures (ActorId (the (Cred_Actor r))) (ActorType (the (Cred_Actor r))) s = (True, s1)" "sessions_kept s s1"
      using reset by blast
    then obtain st where "lockoutStatus e (the (Cred_Actor r)) s1 = (Some st, s1)"
      using lockoutStatus_idle by (metis sessions_kept_def)
    with Some s1 assms audit [OF s1(2)] show ?thesis
      by (simp add: ResetLockout_def Let_def split_beta split: option.split bool.split)
  qed (use assms in \<open>simp add: ResetLockout_def\<close>)
qed

datatype identity_request =
    CallLogin "login_request option" | CallLogout "refresh_request option" | CallRefresh "refresh_request option"
  | CallSetCredential "credential_request option" | CallDisable "credential_request option"
  | CallEnable "credential_request option" | CallGetLockout "credential_request option"
  | CallResetLockout "credential_request option" | CallLockoutPolicy int duration | CallRateLimit int duration

type_synonym identity_input = "env \<times> auth_actor option \<times> identity_request"

fun identity_react :: "ext \<Rightarrow> ('z) identity_lib_scheme \<Rightarrow> identity_input \<Rightarrow> identity \<Rightarrow> identity" where
  "identity_react x lib (e, ctx, CallLogin r) s = snd (Login x lib e r s)"
| "identity_react x lib (e, ctx, CallLogout r) s = snd (Logout x e r s)"
| "identity_react x lib (e, ctx, CallRefresh r) s = snd (RefreshToken x lib e r s)"
| "identity_react x lib (e, ctx, CallSetCredential r) s = snd (SetCredential x lib e ctx r s)"
| "identity_react x lib (e, ctx, CallDisable r) s = snd (DisableCredential x e ctx r s)"
| "identity_react x lib (e, ctx, CallEnable r) s = snd (EnableCredential x e ctx r s)"
| "identity_react x lib (e, ctx, CallGetLockout r) s = snd (GetLockout x e ctx r s)"
| "identity_react x lib (e, ctx, CallResetLockout r) s = snd (ResetLockout x e ctx r s)"
| "identity_react x lib (e, ctx, CallLockoutPolicy n t) s = SetLockoutPolicy n t s"
| "identity_react x lib (e, ctx, CallRateLimit n t) s = SetLoginRateLimit n t s"

lemma identity_react_opens: "svc_db s = None \<Longrightarrow> opens_within (fst i) s (identity_react x lib i s)"
  by (cases "(x, lib, i, s)" rule: identity_react.cases)
     (simp_all add: Login_opens Logout_opens RefreshToken_opens sessions_kept_opens SetCredential_kept DisableCredential_def
        EnableCredential_def change_credential_kept GetLockout_kept ResetLockout_kept)

lemma identity_run_opens:
  "svc_db s = None \<Longrightarrow> refreshSessions s tok = None \<Longrightarrow> \<forall>i \<in> set is. env_rand (fst i) \<noteq> Some tok \<Longrightarrow>
   svc_db (fold (identity_react x lib) is s) = None \<and> refreshSessions (fold (identity_react x lib) is s) tok = None"
proof (induction "is" arbitrary: s)
  case (Cons i "is")
  then show ?case using identity_react_opens [of s i x lib] by (simp add: opens_within_def)
qed simp

lemma refresh_rotate_closes:
  assumes "svc_db s = None" "Token (fst (refresh_rotate x lib e meta tok sess s)) = Some new" "RefreshTokenText new \<noteq> tok"
  shows "svc_db (snd (refresh_rotate x lib e meta tok sess s)) = None \<and> refreshSessions (snd (refresh_rotate x lib e meta tok sess s)) tok = None"
  using assms
  by (auto simp: refresh_rotate_def Let_def split_beta token_refusal_def split: option.splits if_splits)

lemma RefreshToken_closes:
  assumes "svc_db s = None" "Token (fst (RefreshToken x lib e (Some r) s)) = Some new" "RefreshTokenText new \<noteq> Refresh_Token r"
  shows "svc_db (snd (RefreshToken x lib e (Some r) s)) = None \<and> refreshSessions (snd (RefreshToken x lib e (Some r) s)) (Refresh_Token r) = None"
proof -
  obtain sess where "RefreshToken x lib e (Some r) s = refresh_rotate x lib e (Refresh_Meta r) (Refresh_Token r) sess s"
    using assms(1,2) by (auto simp: RefreshToken_def Let_def identity_memory token_refusal_def split: option.splits if_splits)
  with refresh_rotate_closes [OF assms(1)] assms(2,3) show ?thesis by metis
qed

text \<open>
  C27: a refresh token works once. After a refresh that was answered with a new token, the old one is refused as
  invalid, whoever presents it and whatever was called in between, as long as the random source does not repeat it.
\<close>

theorem refresh_single_use:
  assumes "svc_db s = None" "Token (fst (RefreshToken x lib e (Some r) s)) = Some new" "RefreshTokenText new \<noteq> Refresh_Token r"
    and "\<forall>i \<in> set is. env_rand (fst i) \<noteq> Some (Refresh_Token r)"
    and "Refresh_Token r' = Refresh_Token r" "Refresh_Token r \<noteq> []" "\<not> unbound_actor (Refresh_Meta r')"
  shows "fst (RefreshToken x lib e' (Some r') (fold (identity_react x lib) is (snd (RefreshToken x lib e (Some r) s)))) =
    token_refusal e' (Refresh_Meta r') RESULT_CODE_DENIED ''invalid refresh token''"
proof -
  let ?s = "fold (identity_react x lib) is (snd (RefreshToken x lib e (Some r) s))"
  have "svc_db ?s = None \<and> refreshSessions ?s (Refresh_Token r) = None"
    using RefreshToken_closes [OF assms(1-3)] assms(4) by (intro identity_run_opens) auto
  with assms(5-7) show ?thesis by (simp add: RefreshToken_def Let_def identity_memory)
qed

definition demo_refresh :: refresh_request where
  "demo_refresh = \<lparr>Refresh_Meta = Login_Meta (demo_login ''1234''), Refresh_Token = ''refresh-1''\<rparr>"

definition demo_session :: identity where
  "demo_session = demo_identity\<lparr>refreshSessions := [''refresh-1'' \<mapsto>
     \<lparr>sess_refreshToken = ''refresh-1'', sess_actorID = ''p1'', sess_actorType = ACTOR_TYPE_PLAYER, sess_expiresAt = 24 * hour,
      sess_revoked = False\<rparr>]\<rparr>"

lemma demo_refreshed: "\<exists>new. Token (fst (RefreshToken demo_ext demo_lib (demo_env\<lparr>env_rand := Some ''refresh-2''\<rparr>)
    (Some demo_refresh) demo_session)) = Some new \<and> RefreshTokenText new = ''refresh-2''"
proof -
  let ?e = "demo_env\<lparr>env_rand := Some ''refresh-2''\<rparr>" and ?m = "Refresh_Meta demo_refresh"
  let ?sess = "\<lparr>sess_refreshToken = ''refresh-1'', sess_actorID = ''p1'', sess_actorType = ACTOR_TYPE_PLAYER,
      sess_expiresAt = 24 * hour, sess_revoked = False\<rparr>"
  have db: "svc_db demo_session = None" by (simp add: demo_session_def demo_identity_def)
  have ref: "RefreshToken demo_ext demo_lib ?e (Some demo_refresh) demo_session =
      refresh_rotate demo_ext demo_lib ?e ?m ''refresh-1'' ?sess demo_session"
    using identity_memory(9) [OF db]
    by (simp add: RefreshToken_def demo_refresh_def Let_def demo_login_def unbound_actor_def)
       (simp add: demo_session_def owns_session_def demo_env_def)
  have "signAccessToken demo_lib ?e ''p1'' ACTOR_TYPE_PLAYER demo_session = Some (''token'', fmt_rfc3339nano (15 * minute))"
    by (simp add: signAccessToken_def SignActor_def demo_session_def demo_identity_def demo_keys_def demo_lib_def demo_claims_def
        Let_def demo_env_def unix_def)
  moreover have "mem_idle demo_ext (demo_session\<lparr>refreshSessions := f\<rparr>)" for f
    by (simp add: mem_idle_def svc_ok_def demo_session_def demo_identity_def)
  then have "fst (identity_appendAudit demo_ext ?e ?m oid act b a r why (demo_session\<lparr>refreshSessions := f\<rparr>))" for oid act b a r why f
    by (metis (mono_tags, lifting) fst_conv identity_audit_idle)
  ultimately show ?thesis
    unfolding ref using db by (simp add: refresh_rotate_def Let_def split_beta demo_env_def)
qed

lemma refresh_single_use_witness:
  "fst (RefreshToken demo_ext demo_lib demo_env (Some demo_refresh)
     (snd (RefreshToken demo_ext demo_lib (demo_env\<lparr>env_rand := Some ''refresh-2''\<rparr>) (Some demo_refresh) demo_session))) =
   token_refusal demo_env (Refresh_Meta demo_refresh) RESULT_CODE_DENIED ''invalid refresh token''"
proof -
  obtain new where new: "Token (fst (RefreshToken demo_ext demo_lib (demo_env\<lparr>env_rand := Some ''refresh-2''\<rparr>)
      (Some demo_refresh) demo_session)) = Some new" "RefreshTokenText new = ''refresh-2''"
    using demo_refreshed by blast
  have "svc_db demo_session = None" by (simp add: demo_session_def demo_identity_def)
  then show ?thesis
    using refresh_single_use [OF _ new(1), of "[]" demo_refresh demo_env] new(2)
    by (simp add: demo_refresh_def unbound_actor_def demo_login_def)
qed

section \<open>The signing keys\<close>

text \<open>No method of the service changes the keys it signs with, with or without a database.\<close>

lemma same_policy_signer: "same_policy s s' \<Longrightarrow> tokenSigner s' = tokenSigner s"
  by (simp add: same_policy_def)

lemma svc_append_signer: "tokenSigner (snd (svc_append x e mk s)) = tokenSigner s"
  by (rule svc_append_frame [of x e mk s]) (drule arg_cong [where f = snd], simp)

lemma identity_append_signer [simp]: "tokenSigner (snd (identity_appendAudit x e meta oid act b a r why s)) = tokenSigner s"
  by (simp add: identity_appendAudit_def svc_append_signer)

lemma auditDenied_signer [simp]: "tokenSigner (identity_auditDenied x e meta oid act why s) = tokenSigner s"
  by (simp add: identity_auditDenied_def)

lemma observe_signer [simp]: "tokenSigner (observe c s) = tokenSigner s"
  by (simp add: observe_def)

lemma step_signer [simp]:
  "tokenSigner (snd (svc_query q s)) = tokenSigner s" "tokenSigner (snd (svc_exec q' s)) = tokenSigner s"
  "tokenSigner (snd (rateLimitExceeded e i t s)) = tokenSigner s" "tokenSigner (snd (checkLocked e i t s)) = tokenSigner s"
  "tokenSigner (snd (verifyCredentials lib i t sec s)) = tokenSigner s" "tokenSigner (snd (resetFailures i t s)) = tokenSigner s"
  by (simp_all add: same_policy_signer svc_query_policy svc_exec_policy rateLimitExceeded_policy checkLocked_policy
      verifyCredentials_policy resetFailures_policy)

lemma recordFailure_signer [simp]: "tokenSigner (snd (recordFailure e i t s)) = tokenSigner s"
  by (simp add: recordFailure_def Let_def split_beta split: option.split bool.split)

lemma session_signer [simp]:
  "tokenSigner (snd (find_session tok s)) = tokenSigner s" "tokenSigner (snd (storeSession x sess s)) = tokenSigner s"
  "tokenSigner (snd (revokeSession tok s)) = tokenSigner s" "tokenSigner (snd (rotateSession x tok sess s)) = tokenSigner s"
  "tokenSigner (snd (setCredentialHash i t h s)) = tokenSigner s" "tokenSigner (snd (setCredentialStatus i t st s)) = tokenSigner s"
  "tokenSigner (snd (lockoutStatus e a s)) = tokenSigner s"
  by (simp_all add: find_session_def getSession_def storeSession_def revokeSession_def rotateSession_def setCredentialHash_def
      setCredentialStatus_def lockoutStatus_def Let_def split_beta split: option.split)

lemma login_signer [simp]:
  "tokenSigner (snd (login_error e meta t why s)) = tokenSigner s" "tokenSigner (snd (login_denied x e meta t why s)) = tokenSigner s"
  by (simp_all add: login_error_def login_denied_def)

lemma login_issue_signer [simp]: "tokenSigner (snd (login_issue x lib e meta i t s)) = tokenSigner s"
  by (simp add: login_issue_def Let_def split_beta split: option.split)

lemma login_attempt_signer [simp]: "tokenSigner (snd (login_attempt x lib e meta i t sec s)) = tokenSigner s"
  by (simp add: login_attempt_def split_beta split: option.split bool.split)

lemma refresh_rotate_signer [simp]: "tokenSigner (snd (refresh_rotate x lib e meta tok sess s)) = tokenSigner s"
  by (simp add: refresh_rotate_def Let_def split_beta split: option.split)

lemma change_credential_signer [simp]: "tokenSigner (snd (change_credential x e act st ctx req s)) = tokenSigner s"
  by (simp add: change_credential_def Let_def split_beta split: option.split credential_change.split bool.split)

lemma identity_methods_signer:
  "tokenSigner (snd (Login x lib e r1 s)) = tokenSigner s" "tokenSigner (snd (Logout x e r2 s)) = tokenSigner s"
  "tokenSigner (snd (RefreshToken x lib e r2 s)) = tokenSigner s" "tokenSigner (snd (SetCredential x lib e ctx r3 s)) = tokenSigner s"
  "tokenSigner (snd (DisableCredential x e ctx r3 s)) = tokenSigner s" "tokenSigner (snd (EnableCredential x e ctx r3 s)) = tokenSigner s"
  "tokenSigner (snd (GetLockout x e ctx r3 s)) = tokenSigner s" "tokenSigner (snd (ResetLockout x e ctx r3 s)) = tokenSigner s"
  by (simp_all add: Login_def Logout_def RefreshToken_def SetCredential_def DisableCredential_def EnableCredential_def GetLockout_def
      ResetLockout_def Let_def split_beta split: sum.split option.split credential_change.split bool.split)

end
