(* ===== verification/IdentityLimits.thy ===== *)
theory IdentityLimits
  imports IdentityProps
begin

text \<open>The bounds of the identity service: the rate limit of logins and the cleanup of expired sessions.\<close>

section \<open>The rate limit\<close>





section \<open>The cleanup worker\<close>

abbreviation expired :: "env \<Rightarrow> session_row \<Rightarrow> bool" where
  "expired e r \<equiv> is_expires_at r \<le> env_dbnow e"

lemma doomed_sub: "set (doomed_sessions e n d) \<subseteq> set (filter (expired e) (identity_sessions d))"
  by (auto simp: doomed_sessions_def dest!: in_set_takeD)

lemma doomed_length: "length (doomed_sessions e n d) = min (length (filter (expired e) (identity_sessions d))) n"
  by (simp add: doomed_sessions_def)

lemma doomed_all:
  assumes "length (doomed_sessions e n d) < n"
  shows "set (doomed_sessions e n d) = set (filter (expired e) (identity_sessions d))"
  using assms by (auto simp: doomed_sessions_def)

lemma cleanup_keeps_live:
  "set gone \<subseteq> set (filter (expired e) rows) \<Longrightarrow> filter (\<lambda>r. \<not> expired e r) (filter (\<lambda>r. r \<notin> set gone) rows) = filter (\<lambda>r. \<not> expired e r) rows"
  by (auto intro!: filter_cong)

lemma cleanup_fewer:
  assumes "set gone \<subseteq> set (filter (expired e) rows)" "gone \<noteq> []"
  shows "length (filter (expired e) (filter (\<lambda>r. r \<notin> set gone) rows)) < length (filter (expired e) rows)"
proof -
  obtain g where g: "g \<in> set gone" using assms(2) by (cases gone) auto
  then have "g \<in> set (filter (expired e) rows)" using assms(1) by auto
  then have "length (filter (\<lambda>r. r \<notin> set gone) (filter (expired e) rows)) < length (filter (expired e) rows)"
    using g by (intro length_filter_less) auto
  then show ?thesis by (simp add: conj_commute)
qed

lemma cleanup_step:
  fixes e :: env
  assumes "svc_db s = Some d" "db_faults d = []" "0 < b"
  defines "gone \<equiv> doomed_sessions e (nat b) d"
  shows "CleanupExpiredSessions e b s = (Some (length gone),
      s\<lparr>svc_db := Some (d\<lparr>identity_sessions := filter (\<lambda>r. r \<notin> set gone) (identity_sessions d)\<rparr>)\<rparr>)"
  using assms by (simp add: CleanupExpiredSessions_def sql_returning_def sql_exec_def delete_sessions_def Let_def)

lemma cleanup_tick_all:
  assumes "svc_db s = Some d" "db_faults d = []" "length (filter (expired e) (identity_sessions d)) < fuel"
  shows "cleanup_tick fuel e b s =
    Some (s\<lparr>svc_db := Some (d\<lparr>identity_sessions := filter (\<lambda>r. \<not> expired e r) (identity_sessions d)\<rparr>)\<rparr>)"
  using assms
proof (induction fuel arbitrary: s d)
  case (Suc fuel)
  define n where "n = (if b \<le> 0 then 500 else b)"
  define gone where "gone = doomed_sessions e (nat n) d"
  let ?rows = "filter (\<lambda>r. r \<notin> set gone) (identity_sessions d)"
  let ?s = "s\<lparr>svc_db := Some (d\<lparr>identity_sessions := ?rows\<rparr>)\<rparr>"
  have n: "0 < n" by (simp add: n_def)
  have step: "CleanupExpiredSessions e n s = (Some (length gone), ?s)"
    unfolding gone_def by (rule cleanup_step [OF Suc.prems(1,2) n])
  have sub: "set gone \<subseteq> set (filter (expired e) (identity_sessions d))" unfolding gone_def by (rule doomed_sub)
  have tick: "cleanup_tick (Suc fuel) e b s = (if length gone = 0 then Some ?s else if int (length gone) < n then Some ?s
      else cleanup_tick fuel e b ?s)"
    using step by (simp add: n_def [symmetric])
  show ?case
  proof (cases "int (length gone) < n")
    case True
    then have "length gone < nat n" by linarith
    then have "set gone = set (filter (expired e) (identity_sessions d))" unfolding gone_def by (rule doomed_all)
    then have "?rows = filter (\<lambda>r. \<not> expired e r) (identity_sessions d)" by (auto intro!: filter_cong)
    with True tick show ?thesis by auto
  next
    case False
    then have ne: "gone \<noteq> []" using n by auto
    have "cleanup_tick fuel e b ?s = Some (?s\<lparr>svc_db := Some (d\<lparr>identity_sessions := ?rows,
        identity_sessions := filter (\<lambda>r. \<not> expired e r) ?rows\<rparr>)\<rparr>)"
      using Suc.IH [of ?s "d\<lparr>identity_sessions := ?rows\<rparr>"] Suc.prems(2,3) cleanup_fewer [OF sub ne] by simp
    then show ?thesis using tick False ne cleanup_keeps_live [OF sub] by simp
  qed
qed simp

text \<open>
  A tick of the session cleanup ends and does its work. With a database whose statements succeed, as many rounds as
  there are sessions, and one more, are enough; afterwards exactly the sessions that have not expired are left, in
  their order.
\<close>

theorem cleanup_tick_complete:
  assumes "svc_db s = Some d" "db_faults d = []"
  shows "cleanup_tick (Suc (length (identity_sessions d))) e b s =
    Some (s\<lparr>svc_db := Some (d\<lparr>identity_sessions := filter (\<lambda>r. env_dbnow e < is_expires_at r) (identity_sessions d)\<rparr>)\<rparr>)"
  using cleanup_tick_all [OF assms, of e "Suc (length (identity_sessions d))" b]
  by (simp add: less_Suc_eq_le not_le)

definition demo_session_row :: "string \<Rightarrow> time \<Rightarrow> session_row" where
  "demo_session_row tok t = \<lparr>is_refresh_token = tok, is_actor_id = ''p1'', is_actor_type = ''ACTOR_TYPE_PLAYER'',
     is_expires_at = t, is_revoked = False\<rparr>"

definition demo_identity_db :: identity_db where
  "demo_identity_db = \<lparr>db_faults = [], db_int_text = True, db_audit_events = [], identity_credentials = [], identity_lockouts = [],
     identity_sessions = [demo_session_row ''a'' (- 1), demo_session_row ''b'' 1, demo_session_row ''c'' 0],
     identity_login_rate_limits = []\<rparr>"

lemma cleanup_tick_complete_witness:
  "map_option (\<lambda>s. map_option identity_sessions (svc_db s))
     (cleanup_tick 4 demo_env 1 (demo_identity\<lparr>svc_db := Some demo_identity_db\<rparr>)) = Some (Some [demo_session_row ''b'' 1])"
  using cleanup_tick_complete [of "demo_identity\<lparr>svc_db := Some demo_identity_db\<rparr>" demo_identity_db demo_env 1]
  by (simp add: demo_identity_db_def demo_env_def demo_session_row_def)
     (simp add: demo_identity_def numeral_eq_Suc)

end
