(* ===== verification/Sessions.thy ===== *)
theory Sessions
  imports Service Samples
begin

text \<open>
  The player-session service, \<^verbatim>\<open>internal/platform/server/sessions_grpc.go\<close> and \<^verbatim>\<open>sessions_postgres.go\<close>: a session is
  started, seen, and then ended by an actor or expired by the clock. The handlers hold the mutex from the session
  look-up on; with a database the sessions are only there, without one only in memory.
\<close>

section \<open>Messages, tables and state\<close>

datatype session_state =
    SESSION_STATE_UNSPECIFIED | SESSION_STATE_ACTIVE | SESSION_STATE_ENDED | SESSION_STATE_EXPIRED

record player_session =
  SessionId :: string
  SessPlayerId :: string
  SessDeviceId :: string
  State :: session_state
  StartedAt :: string
  LastSeenAt :: string
  EndedAt :: string
  ExpiresAt :: string
  EndReason :: string

record start_request =
  Start_Meta :: "request_meta option"
  Start_PlayerId :: string
  Start_DeviceId :: string
  Start_TimeoutSeconds :: i32

record session_request =
  Sess_Meta :: "request_meta option"
  Sess_SessionId :: string
  Sess_Reason :: string

record session_response =
  SessMeta :: response_meta
  SessSession :: "player_session option"

record player_session_row =
  ps_session_id :: string
  ps_player_id :: string
  ps_device_id :: string
  ps_state :: string
  ps_started_at :: time
  ps_last_seen_at :: time
  ps_ended_at :: "time option"
  ps_expires_at :: time
  ps_end_reason :: string

record sessions_db = dbcore +
  player_sessions :: "player_session_row list"

record sessions_service = "sessions_db svc" +
  sessions :: "string \<rightharpoonup> player_session"
  defaultTimeout :: duration
  sess_disableInMemoryCache :: bool

definition NewSessionsService :: "sessions_db option \<Rightarrow> sessions_service" where
  "NewSessionsService handle =
     \<lparr>svc_AuditStore = Some NewInMemoryStore, svc_nextAuditID = 0, svc_db = handle,
      sessions = Map.empty, defaultTimeout = hour, sess_disableInMemoryCache = False\<rparr>"

definition sessions_SetDisableInMemoryCache :: "bool \<Rightarrow> sessions_service \<Rightarrow> sessions_service" where
  "sessions_SetDisableInMemoryCache disable s = s\<lparr>sess_disableInMemoryCache := disable\<rparr>"

definition SetDefaultTimeout :: "duration \<Rightarrow> sessions_service \<Rightarrow> sessions_service" where
  "SetDefaultTimeout timeout s = (if timeout \<le> 0 then s else s\<lparr>defaultTimeout := timeout\<rparr>)"

definition sessions_appendAudit ::
    "ext \<Rightarrow> env \<Rightarrow> request_meta option \<Rightarrow> string \<Rightarrow> string \<Rightarrow> string \<Rightarrow> string \<Rightarrow> string \<Rightarrow> string
     \<Rightarrow> sessions_service \<Rightarrow> bool \<times> sessions_service" where
  "sessions_appendAudit x e meta objectID action before after result reason =
     svc_append x e (\<lambda>n. audit_event e (''sessions-audit-'' @ itoa_nat n) meta ''player_session'' objectID action
                           before after result reason)"

fun session_state_number :: "session_state \<Rightarrow> int" where
  "session_state_number SESSION_STATE_UNSPECIFIED = 0"
| "session_state_number SESSION_STATE_ACTIVE = 1"
| "session_state_number SESSION_STATE_ENDED = 2"
| "session_state_number SESSION_STATE_EXPIRED = 3"

definition playerSessionSnapshot :: "player_session \<Rightarrow> string" where
  "playerSessionSnapshot p = json_encode (JObject (
     jstr ''session_id'' (SessionId p) @ jstr ''player_id'' (SessPlayerId p) @ jstr ''device_id'' (SessDeviceId p)
     @ jint ''state'' (session_state_number (State p)) @ jstr ''started_at'' (StartedAt p)
     @ jstr ''last_seen_at'' (LastSeenAt p) @ jstr ''ended_at'' (EndedAt p) @ jstr ''expires_at'' (ExpiresAt p)
     @ jstr ''end_reason'' (EndReason p)))"

text \<open>A timeout of 32 bits in seconds fits the 64 bits of a duration in nanoseconds.\<close>

definition timeoutForRequest :: "start_request \<Rightarrow> sessions_service \<Rightarrow> duration" where
  "timeoutForRequest r s =
     (let t0 = defaultTimeout s;
          t1 = (if sint (Start_TimeoutSeconds r) > 0 then sint (Start_TimeoutSeconds r) * second else t0);
          t2 = (if t1 \<le> 0 then hour else t1)
      in if t2 > 24 * hour then 24 * hour else t2)"

definition authorizeStart :: "auth_actor option \<Rightarrow> request_meta option \<Rightarrow> string \<Rightarrow> string option" where
  "authorizeStart = authorize_owner ''player actor must match player_id''"

definition authorizeAccess :: "auth_actor option \<Rightarrow> request_meta option \<Rightarrow> player_session \<Rightarrow> string option" where
  "authorizeAccess ctx meta sess = authorize_owner ''player actor unauthorized for session'' ctx meta (SessPlayerId sess)"

section \<open>The database\<close>

fun sessionStateToDB :: "session_state \<Rightarrow> string" where
  "sessionStateToDB SESSION_STATE_ACTIVE = ''ACTIVE''"
| "sessionStateToDB SESSION_STATE_ENDED = ''ENDED''"
| "sessionStateToDB SESSION_STATE_EXPIRED = ''EXPIRED''"
| "sessionStateToDB SESSION_STATE_UNSPECIFIED = ''UNSPECIFIED''"

definition sessionStateFromDB :: "string \<Rightarrow> session_state" where
  "sessionStateFromDB raw =
     (if raw = ''ACTIVE'' then SESSION_STATE_ACTIVE
      else if raw = ''ENDED'' then SESSION_STATE_ENDED
      else if raw = ''EXPIRED'' then SESSION_STATE_EXPIRED
      else SESSION_STATE_UNSPECIFIED)"

definition player_session_row_of :: "ext \<Rightarrow> env \<Rightarrow> player_session \<Rightarrow> player_session_row option" where
  "player_session_row_of x e p =
     (case (pg_time_of_text x (nonEmptyTime e (StartedAt p)), pg_time_of_text x (nonEmptyTime e (LastSeenAt p)),
            nullable_time x (EndedAt p), pg_time_of_text x (nonEmptyTime e (ExpiresAt p))) of
        (Some started, Some seen, Some ended, Some expires) \<Rightarrow>
          Some \<lparr>ps_session_id = SessionId p, ps_player_id = SessPlayerId p, ps_device_id = SessDeviceId p,
                ps_state = sessionStateToDB (State p), ps_started_at = started, ps_last_seen_at = seen,
                ps_ended_at = ended, ps_expires_at = expires, ps_end_reason = EndReason p\<rparr>
      | _ \<Rightarrow> None)"

definition upsertSessionInDB :: "ext \<Rightarrow> env \<Rightarrow> player_session \<Rightarrow> sessions_service \<Rightarrow> bool \<times> sessions_service" where
  "upsertSessionInDB x e p =
     svc_exec (sql_stmt (\<lambda>d. map_option (\<lambda>row. d\<lparr>player_sessions := upsert ps_session_id row (player_sessions d)\<rparr>)
                                (player_session_row_of x e p)))"

definition row_to_player_session :: "player_session_row \<Rightarrow> player_session" where
  "row_to_player_session r =
     \<lparr>SessionId = ps_session_id r, SessPlayerId = ps_player_id r, SessDeviceId = ps_device_id r,
      State = sessionStateFromDB (ps_state r), StartedAt = fmt_rfc3339nano (ps_started_at r),
      LastSeenAt = fmt_rfc3339nano (ps_last_seen_at r),
      EndedAt = (case ps_ended_at r of None \<Rightarrow> [] | Some t \<Rightarrow> fmt_rfc3339nano t),
      ExpiresAt = fmt_rfc3339nano (ps_expires_at r), EndReason = ps_end_reason r\<rparr>"

definition getSessionFromDB :: "string \<Rightarrow> sessions_service \<Rightarrow> player_session option option \<times> sessions_service" where
  "getSessionFromDB sessionID =
     svc_query (\<lambda>d. map_option row_to_player_session (find (\<lambda>r. ps_session_id r = sessionID) (player_sessions d)))"

definition loadSession :: "string \<Rightarrow> sessions_service \<Rightarrow> player_session option option \<times> sessions_service" where
  "loadSession sessionID s =
     (if svc_db s \<noteq> None then getSessionFromDB sessionID s
      else if sess_disableInMemoryCache s then (Some None, s)
      else (Some (sessions s sessionID), s))"

definition persistSession :: "ext \<Rightarrow> env \<Rightarrow> player_session \<Rightarrow> sessions_service \<Rightarrow> bool \<times> sessions_service" where
  "persistSession x e p s =
     (if svc_db s \<noteq> None then upsertSessionInDB x e p s
      else if sess_disableInMemoryCache s then (False, s)
      else (True, s\<lparr>sessions := (sessions s)(SessionId p \<mapsto> p)\<rparr>))"

section \<open>Handlers\<close>

text \<open>A session whose expiry cannot be read counts as expiring now, which is not before now.\<close>

definition touched :: "env \<Rightarrow> player_session \<Rightarrow> player_session" where
  "touched e p =
     (let now = env_now e;
          expiresAt = (case parse_rfc3339nano (ExpiresAt p) of None \<Rightarrow> now | Some t \<Rightarrow> t);
          p1 = (if State p = SESSION_STATE_ACTIVE \<and> expiresAt < now
                then p\<lparr>State := SESSION_STATE_EXPIRED, EndedAt := fmt_rfc3339nano now,
                       EndReason := (if EndReason p = [] then ''session timeout'' else EndReason p)\<rparr>
                else p)
      in if State p1 = SESSION_STATE_ACTIVE then p1\<lparr>LastSeenAt := fmt_rfc3339nano now\<rparr> else p1)"

definition touchAndExpireSessionIfNeeded ::
    "ext \<Rightarrow> env \<Rightarrow> player_session \<Rightarrow> sessions_service \<Rightarrow> player_session option \<times> sessions_service" where
  "touchAndExpireSessionIfNeeded x e p s =
     (let updated = touched e p
      in if updated = p then (Some updated, s)
         else (case persistSession x e updated s of
                 (False, s1) \<Rightarrow> (None, s1)
               | (True, s1) \<Rightarrow> (Some updated, s1)))"

definition session_refusal :: "env \<Rightarrow> request_meta option \<Rightarrow> result_code \<Rightarrow> string \<Rightarrow> session_response" where
  "session_refusal e meta code reason = \<lparr>SessMeta = responseMeta e meta code reason, SessSession = None\<rparr>"

definition session_ok :: "env \<Rightarrow> request_meta option \<Rightarrow> player_session \<Rightarrow> session_response" where
  "session_ok e meta p = \<lparr>SessMeta = responseMeta e meta RESULT_CODE_OK [], SessSession = Some p\<rparr>"

definition session_denied ::
    "ext \<Rightarrow> env \<Rightarrow> request_meta option \<Rightarrow> string \<Rightarrow> string \<Rightarrow> string \<Rightarrow> sessions_service
     \<Rightarrow> session_response \<times> sessions_service" where
  "session_denied x e meta objectID action reason s =
     (session_refusal e meta RESULT_CODE_DENIED reason,
      snd (sessions_appendAudit x e meta objectID action json_empty json_empty ResultDenied reason s))"

text \<open>The audit event at the end of a handler, and the answer.\<close>

definition session_audited ::
    "ext \<Rightarrow> env \<Rightarrow> request_meta option \<Rightarrow> string \<Rightarrow> string \<Rightarrow> string \<Rightarrow> string \<Rightarrow> player_session \<Rightarrow> sessions_service
     \<Rightarrow> session_response \<times> sessions_service" where
  "session_audited x e meta objectID action before reason p s =
     (case sessions_appendAudit x e meta objectID action before (playerSessionSnapshot p) ResultSuccess reason s of
        (False, s1) \<Rightarrow> (session_refusal e meta RESULT_CODE_ERROR ''audit unavailable'', s1)
      | (True, s1) \<Rightarrow> (session_ok e meta p, s1))"

definition new_session :: "env \<Rightarrow> start_request \<Rightarrow> string \<Rightarrow> sessions_service \<Rightarrow> player_session" where
  "new_session e r rawToken s =
     \<lparr>SessionId = ''sess-'' @ rawToken, SessPlayerId = Start_PlayerId r, SessDeviceId = Start_DeviceId r,
      State = SESSION_STATE_ACTIVE, StartedAt = fmt_rfc3339nano (env_now e), LastSeenAt = fmt_rfc3339nano (env_now e),
      EndedAt = [], ExpiresAt = fmt_rfc3339nano (env_now e + timeoutForRequest r s), EndReason = []\<rparr>"

definition StartSession ::
    "ext \<Rightarrow> env \<Rightarrow> auth_actor option \<Rightarrow> start_request option \<Rightarrow> sessions_service \<Rightarrow> session_response \<times> sessions_service" where
  "StartSession x e ctx req s =
     (case req of
        None \<Rightarrow> (session_refusal e None RESULT_CODE_INVALID ''player_id and device_id are required'', s)
      | Some r \<Rightarrow>
        let meta = Start_Meta r in
        if Start_PlayerId r = [] \<or> Start_DeviceId r = [] then
          (session_refusal e None RESULT_CODE_INVALID ''player_id and device_id are required'', s)
        else (case authorizeStart ctx meta (Start_PlayerId r) of
          Some reason \<Rightarrow> session_denied x e meta [] ''start_session'' reason s
        | None \<Rightarrow>
          if svc_db s = None \<and> sess_disableInMemoryCache s then
            (session_refusal e meta RESULT_CODE_ERROR ''persistence unavailable'', s)
          else (case env_rand e of
            None \<Rightarrow> (session_refusal e meta RESULT_CODE_ERROR ''failed to create session id'', s)
          | Some rawToken \<Rightarrow>
              let p = new_session e r rawToken s
              in (case persistSession x e p s of
                    (False, s1) \<Rightarrow> (session_refusal e meta RESULT_CODE_ERROR ''persistence unavailable'', s1)
                  | (True, s1) \<Rightarrow>
                      session_audited x e meta (SessionId p) ''start_session'' json_empty [] p s1))))"

definition ended :: "env \<Rightarrow> string \<Rightarrow> player_session \<Rightarrow> player_session" where
  "ended e reason p =
     p\<lparr>State := SESSION_STATE_ENDED, EndedAt := fmt_rfc3339nano (env_now e),
       EndReason := (if reason \<noteq> [] then reason else ''ended by actor'')\<rparr>"

definition EndSession ::
    "ext \<Rightarrow> env \<Rightarrow> auth_actor option \<Rightarrow> session_request option \<Rightarrow> sessions_service \<Rightarrow> session_response \<times> sessions_service" where
  "EndSession x e ctx req s =
     (case req of
        None \<Rightarrow> (session_refusal e None RESULT_CODE_INVALID ''session_id is required'', s)
      | Some r \<Rightarrow>
        let meta = Sess_Meta r; sid = Sess_SessionId r in
        if sid = [] then (session_refusal e None RESULT_CODE_INVALID ''session_id is required'', s)
        else (case loadSession sid s of
          (None, s1) \<Rightarrow> (session_refusal e meta RESULT_CODE_ERROR ''persistence unavailable'', s1)
        | (Some None, s1) \<Rightarrow> (session_refusal e meta RESULT_CODE_INVALID ''session not found'', s1)
        | (Some (Some p), s1) \<Rightarrow>
          (case authorizeAccess ctx meta p of
             Some reason \<Rightarrow> session_denied x e meta sid ''end_session'' reason s1
           | None \<Rightarrow>
             if State p = SESSION_STATE_ACTIVE then
               (case persistSession x e (ended e (Sess_Reason r) p) s1 of
                  (False, s2) \<Rightarrow> (session_refusal e meta RESULT_CODE_ERROR ''persistence unavailable'', s2)
                | (True, s2) \<Rightarrow>
                    session_audited x e meta sid ''end_session'' (playerSessionSnapshot p) (Sess_Reason r)
                      (ended e (Sess_Reason r) p) s2)
             else session_audited x e meta sid ''end_session'' (playerSessionSnapshot p) (Sess_Reason r) p s1)))"

definition GetSession ::
    "ext \<Rightarrow> env \<Rightarrow> auth_actor option \<Rightarrow> session_request option \<Rightarrow> sessions_service \<Rightarrow> session_response \<times> sessions_service" where
  "GetSession x e ctx req s =
     (case req of
        None \<Rightarrow> (session_refusal e None RESULT_CODE_INVALID ''session_id is required'', s)
      | Some r \<Rightarrow>
        let meta = Sess_Meta r; sid = Sess_SessionId r in
        if sid = [] then (session_refusal e None RESULT_CODE_INVALID ''session_id is required'', s)
        else (case loadSession sid s of
          (None, s1) \<Rightarrow> (session_refusal e meta RESULT_CODE_ERROR ''persistence unavailable'', s1)
        | (Some None, s1) \<Rightarrow> (session_refusal e meta RESULT_CODE_INVALID ''session not found'', s1)
        | (Some (Some p), s1) \<Rightarrow>
          (case authorizeAccess ctx meta p of
             Some reason \<Rightarrow> session_denied x e meta sid ''get_session'' reason s1
           | None \<Rightarrow>
             (case touchAndExpireSessionIfNeeded x e p s1 of
                (None, s2) \<Rightarrow> (session_refusal e meta RESULT_CODE_ERROR ''persistence unavailable'', s2)
              | (Some updated, s2) \<Rightarrow> session_audited x e meta sid ''get_session'' json_empty [] updated s2))))"

end
