(* ===== verification/SessionsProps.thy ===== *)
theory SessionsProps
  imports Sessions
begin

text \<open>
  The life of a player session: opened as active, seen, and then closed for good, by an actor or by the clock. The
  step relations \<open>session_step\<close> and \<open>sessions_step\<close> are the specification; the handlers implement it, and a session
  expires exactly after the timeout it was opened with.
\<close>

section \<open>The specification\<close>

text \<open>Opened at some instant, for a positive time of at most a day.\<close>

definition session_span :: "string \<Rightarrow> string \<Rightarrow> bool" where
  "session_span started expires \<longleftrightarrow>
     (\<exists>t d. started = fmt_rfc3339nano t \<and> expires = fmt_rfc3339nano (t + d) \<and> 0 < d \<and> d \<le> 24 * hour)"

definition session_wf :: "player_session \<Rightarrow> bool" where
  "session_wf p \<longleftrightarrow> SessPlayerId p \<noteq> [] \<and> SessDeviceId p \<noteq> [] \<and> State p \<noteq> SESSION_STATE_UNSPECIFIED \<and>
     (EndedAt p = [] \<longleftrightarrow> State p = SESSION_STATE_ACTIVE) \<and> (EndReason p = [] \<longleftrightarrow> State p = SESSION_STATE_ACTIVE) \<and>
     session_span (StartedAt p) (ExpiresAt p)"

inductive session_step :: "player_session \<Rightarrow> player_session \<Rightarrow> bool" where
  seen: "State p = SESSION_STATE_ACTIVE \<Longrightarrow> session_step p (p\<lparr>LastSeenAt := t\<rparr>)"
| closed: "State p = SESSION_STATE_ACTIVE \<Longrightarrow> st \<in> {SESSION_STATE_ENDED, SESSION_STATE_EXPIRED} \<Longrightarrow> t \<noteq> [] \<Longrightarrow>
     why \<noteq> [] \<Longrightarrow> session_step p (p\<lparr>State := st, EndedAt := t, EndReason := why\<rparr>)"

inductive_simps session_step_simps: "session_step p q"

text \<open>One request, whose random token is \<open>tok\<close>: nothing, a new session, or a step of one session.\<close>

inductive sessions_step :: "string option \<Rightarrow> (string \<rightharpoonup> player_session) \<Rightarrow> (string \<rightharpoonup> player_session) \<Rightarrow> bool"
  for tok :: "string option" where
  idle: "sessions_step tok m m"
| start: "tok = Some raw \<Longrightarrow> SessionId p = ''sess-'' @ raw \<Longrightarrow> State p = SESSION_STATE_ACTIVE \<Longrightarrow> session_wf p \<Longrightarrow>
     sessions_step tok m (m(SessionId p \<mapsto> p))"
| move: "m (SessionId p) = Some p \<Longrightarrow> session_step p q \<Longrightarrow> sessions_step tok m (m(SessionId p \<mapsto> q))"

definition session_book_ok :: "(string \<rightharpoonup> player_session) \<Rightarrow> bool" where
  "session_book_ok m \<longleftrightarrow> (\<forall>sid p. m sid = Some p \<longrightarrow> SessionId p = sid \<and> session_wf p)"

lemma session_step_id: "session_step p q \<Longrightarrow> SessionId q = SessionId p"
  by (auto simp: session_step_simps)

lemma session_step_wf: "session_step p q \<Longrightarrow> session_wf p \<Longrightarrow> session_wf q"
  by (auto simp: session_step_simps session_wf_def)

lemma sessions_step_ok: "sessions_step tok m m' \<Longrightarrow> session_book_ok m \<Longrightarrow> session_book_ok m'"
proof (induction rule: sessions_step.induct)
  case (move m p q)
  then have "session_wf p" by (simp add: session_book_ok_def)
  then have "SessionId q = SessionId p" "session_wf q"
    using move.hyps(2) session_step_id session_step_wf by blast+
  with move.prems show ?case by (simp add: session_book_ok_def)
qed (simp_all add: session_book_ok_def)

text \<open>What a session keeps: everything but the time it was last seen, and after its end that too.\<close>

definition session_later :: "player_session \<Rightarrow> player_session \<Rightarrow> bool" where
  "session_later p q \<longleftrightarrow> SessionId q = SessionId p \<and> SessPlayerId q = SessPlayerId p \<and> SessDeviceId q = SessDeviceId p \<and>
     StartedAt q = StartedAt p \<and> ExpiresAt q = ExpiresAt p \<and> (State p \<noteq> SESSION_STATE_ACTIVE \<longrightarrow> q = p)"

lemma session_later_refl [simp]: "session_later p p"
  by (simp add: session_later_def)

lemma session_later_step: "session_step p q \<Longrightarrow> session_later p q"
  by (auto simp: session_step_simps session_later_def)

lemma session_later_trans: "session_later p q \<Longrightarrow> session_later q r \<Longrightarrow> session_later p r"
  by (auto simp: session_later_def)

lemma sessions_step_later:
  assumes "sessions_step tok m m'" "m sid = Some p" "\<And>raw. tok = Some raw \<Longrightarrow> sid \<noteq> ''sess-'' @ raw"
  shows "\<exists>q. m' sid = Some q \<and> session_later p q"
  using assms by (induction rule: sessions_step.induct) (auto simp: session_later_step)

section \<open>The handlers implement it\<close>

definition sessions_inv :: "ext \<Rightarrow> sessions_service \<Rightarrow> bool" where
  "sessions_inv x s \<longleftrightarrow> mem_idle x s \<and> session_book_ok (sessions s)"

lemma timeoutForRequest_bounds: "0 < timeoutForRequest r s \<and> timeoutForRequest r s \<le> 24 * hour"
  by (simp add: timeoutForRequest_def Let_def)

lemma fmt_rfc3339nano_nonempty [simp]: "fmt_rfc3339nano t \<noteq> []"
  by (simp add: fmt_rfc3339nano_def split_beta)

lemma new_session_wf:
  assumes "Start_PlayerId r \<noteq> []" "Start_DeviceId r \<noteq> []"
  shows "session_wf (new_session e r raw s)"
proof -
  have "session_span (fmt_rfc3339nano (env_now e)) (fmt_rfc3339nano (env_now e + timeoutForRequest r s))"
    unfolding session_span_def using timeoutForRequest_bounds by blast
  with assms show ?thesis by (simp add: session_wf_def new_session_def)
qed

lemma ended_step: "State p = SESSION_STATE_ACTIVE \<Longrightarrow> session_step p (ended e why p)"
  unfolding ended_def by (rule session_step.closed) simp_all

lemma touched_step: "touched e p = p \<or> session_step p (touched e p)"
proof (cases "State p = SESSION_STATE_ACTIVE")
  case True
  define why where "why = (if EndReason p = [] then ''session timeout'' else EndReason p)"
  have "why \<noteq> []" by (simp add: why_def)
  then have "session_step p (p\<lparr>State := SESSION_STATE_EXPIRED, EndedAt := fmt_rfc3339nano (env_now e), EndReason := why\<rparr>)"
    using True by (intro session_step.closed) simp_all
  with True show ?thesis
    by (simp add: touched_def Let_def why_def [symmetric] session_step.seen)
qed (simp add: touched_def)

lemma persistSession_mem:
  assumes "svc_db s = None"
  shows "persistSession x e p s = (if sess_disableInMemoryCache s then (False, s)
           else (True, s\<lparr>sessions := (sessions s)(SessionId p \<mapsto> p)\<rparr>))"
    and "loadSession sid s = (Some (if sess_disableInMemoryCache s then None else sessions s sid), s)"
  using assms by (simp_all add: persistSession_def loadSession_def)

text \<open>What one call may do to a service without a database.\<close>

definition session_call :: "ext \<Rightarrow> env \<Rightarrow> sessions_service \<Rightarrow> sessions_service \<Rightarrow> bool" where
  "session_call x e s s' \<longleftrightarrow> mem_idle x s' \<and> sessions_step (env_rand e) (sessions s) (sessions s')"

lemma session_call_same: "mem_idle x s \<Longrightarrow> session_call x e s s"
  by (simp add: session_call_def sessions_step.idle)

lemma sessions_appendAudit_mem:
  assumes "mem_idle x s"
  shows "fst (sessions_appendAudit x e meta oid act b a r why s) \<and>
         mem_idle x (snd (sessions_appendAudit x e meta oid act b a r why s)) \<and>
         sessions (snd (sessions_appendAudit x e meta oid act b a r why s)) = sessions s"
proof -
  let ?mk = "\<lambda>n. audit_event e (''sessions-audit-'' @ itoa_nat n) meta ''player_session'' oid act b a r why"
  obtain st where "svc_append x e ?mk s = (True, s\<lparr>svc_AuditStore := st, svc_nextAuditID := Suc (svc_nextAuditID s)\<rparr>)"
    "mem_idle x (s\<lparr>svc_AuditStore := st, svc_nextAuditID := Suc (svc_nextAuditID s)\<rparr>)"
    by (rule svc_append_idle [OF assms, where e = e and mk = ?mk])
  then show ?thesis by (simp add: sessions_appendAudit_def)
qed

lemma session_call_audit:
  "mem_idle x s1 \<Longrightarrow> sessions_step (env_rand e) (sessions s) (sessions s1) \<Longrightarrow>
   session_call x e s (snd (sessions_appendAudit x e meta oid act b a r why s1))"
  by (simp add: session_call_def sessions_appendAudit_mem)

lemma session_audited_mem:
  assumes "mem_idle x s"
  shows "session_audited x e meta oid act b why p s = (session_ok e meta p,
           snd (sessions_appendAudit x e meta oid act b (playerSessionSnapshot p) ResultSuccess why s))"
  using sessions_appendAudit_mem [OF assms, of e meta oid act b "playerSessionSnapshot p" ResultSuccess why]
  by (simp add: session_audited_def split_beta)

lemma session_denied_mem:
  assumes "mem_idle x s"
  shows "session_call x e s (snd (session_denied x e meta oid act why s))"
  using assms by (simp add: session_denied_def session_call_audit sessions_step.idle)

text \<open>A session is stored: without a database and with the memory switched on.\<close>

lemma mem_idle_stored: "mem_idle x s \<Longrightarrow> mem_idle x (s\<lparr>sessions := m\<rparr>)"
  by (simp add: mem_idle_def svc_ok_def)

lemma mem_idle_no_db: "mem_idle x s \<Longrightarrow> svc_db s = None"
  by (simp add: mem_idle_def)

lemma session_stored_call:
  assumes "mem_idle x s" "sessions_step (env_rand e) (sessions s) m"
  shows "session_call x e s (snd (session_audited x e meta oid act b why p (s\<lparr>sessions := m\<rparr>)))"
  using assms by (simp add: session_audited_mem mem_idle_stored session_call_audit)

lemma StartSession_call:
  assumes "mem_idle x s"
  shows "session_call x e s (snd (StartSession x e ctx req s))"
proof -
  have "session_call x e s (snd (session_audited x e meta oid act b why p
      (s\<lparr>sessions := (sessions s)(SessionId (new_session e r raw s) \<mapsto> new_session e r raw s)\<rparr>)))"
    if "env_rand e = Some raw" "Start_PlayerId r \<noteq> []" "Start_DeviceId r \<noteq> []" for r raw meta oid act b why p
    using assms that new_session_wf [OF that(2,3)]
    by (intro session_stored_call sessions_step.start) (simp_all add: new_session_def)
  with assms mem_idle_no_db [OF assms] show ?thesis
    by (auto simp: StartSession_def Let_def persistSession_mem session_call_same session_denied_mem split: option.splits)
qed

text \<open>What the handlers answer to a caller they admit.\<close>

lemma sessions_appendAudit_switch [simp]:
  "sess_disableInMemoryCache (snd (sessions_appendAudit x e meta oid act b a r why s)) = sess_disableInMemoryCache s"
proof -
  let ?mk = "\<lambda>n. audit_event e (''sessions-audit-'' @ itoa_nat n) meta ''player_session'' oid act b a r why"
  show ?thesis
    unfolding sessions_appendAudit_def using svc_append_fields [of x e ?mk s] by force
qed

lemma StartSession_admitted:
  assumes "mem_idle x s" "\<not> sess_disableInMemoryCache s" "Start_PlayerId r \<noteq> []" "Start_DeviceId r \<noteq> []"
    "authorizeStart ctx (Start_Meta r) (Start_PlayerId r) = None" "env_rand e = Some raw"
  defines "p \<equiv> new_session e r raw s"
  shows "fst (StartSession x e ctx (Some r) s) = session_ok e (Start_Meta r) p"
    and "sessions (snd (StartSession x e ctx (Some r) s)) = (sessions s)(SessionId p \<mapsto> p)"
    and "\<not> sess_disableInMemoryCache (snd (StartSession x e ctx (Some r) s))"
  using assms mem_idle_no_db [OF assms(1)]
  by (simp_all add: StartSession_def Let_def persistSession_mem session_audited_mem mem_idle_stored sessions_appendAudit_mem)

lemma GetSession_admitted:
  assumes "mem_idle x s" "\<not> sess_disableInMemoryCache s" "Sess_SessionId g \<noteq> []"
    "sessions s (Sess_SessionId g) = Some p" "SessionId p = Sess_SessionId g" "authorizeAccess ctx (Sess_Meta g) p = None"
  shows "fst (GetSession x e ctx (Some g) s) = session_ok e (Sess_Meta g) (touched e p)"
    and "sessions (snd (GetSession x e ctx (Some g) s)) (Sess_SessionId g) = Some (touched e p)"
proof -
  have "SessionId (touched e p) = Sess_SessionId g" using assms(5) by (simp add: touched_def Let_def)
  then show "fst (GetSession x e ctx (Some g) s) = session_ok e (Sess_Meta g) (touched e p)"
    "sessions (snd (GetSession x e ctx (Some g) s)) (Sess_SessionId g) = Some (touched e p)"
    using assms mem_idle_no_db [OF assms(1)]
    by (simp_all add: GetSession_def Let_def persistSession_mem touchAndExpireSessionIfNeeded_def session_audited_mem
        mem_idle_stored sessions_appendAudit_mem)
qed

lemma session_moved_call:
  assumes "mem_idle x s" "session_book_ok (sessions s)" "sessions s sid = Some p" "session_step p q"
  shows "session_call x e s (snd (session_audited x e meta oid act b why r
           (s\<lparr>sessions := (sessions s)(SessionId q \<mapsto> q)\<rparr>)))"
proof -
  have "SessionId p = sid" using assms(2,3) by (simp add: session_book_ok_def)
  then show ?thesis
    using assms sessions_step.move [of "sessions s" p q] session_step_id [OF assms(4)]
    by (intro session_stored_call) simp_all
qed

lemma session_audited_call: "mem_idle x s \<Longrightarrow> session_call x e s (snd (session_audited x e meta oid act b why p s))"
  by (simp add: session_audited_mem session_call_audit sessions_step.idle)

lemma EndSession_call:
  assumes "sessions_inv x s"
  shows "session_call x e s (snd (EndSession x e ctx req s))"
proof -
  have idle: "mem_idle x s" and book: "session_book_ok (sessions s)" using assms by (simp_all add: sessions_inv_def)
  note moved = session_moved_call [OF idle book _ ended_step]
  show ?thesis
    using mem_idle_no_db [OF idle]
    by (auto simp: EndSession_def Let_def persistSession_mem session_call_same [OF idle] session_denied_mem [OF idle]
        session_audited_call [OF idle] moved split: option.splits)
qed

lemma touchAndExpire_mem:
  assumes "svc_db s = None" "\<not> sess_disableInMemoryCache s"
  shows "touchAndExpireSessionIfNeeded x e p s =
     (Some (touched e p), if touched e p = p then s else s\<lparr>sessions := (sessions s)(SessionId (touched e p) \<mapsto> touched e p)\<rparr>)"
  using assms by (simp add: touchAndExpireSessionIfNeeded_def Let_def persistSession_mem)

lemma GetSession_call:
  assumes "sessions_inv x s"
  shows "session_call x e s (snd (GetSession x e ctx req s))"
proof -
  have idle: "mem_idle x s" and book: "session_book_ok (sessions s)" using assms by (simp_all add: sessions_inv_def)
  have moved: "session_call x e s (snd (session_audited x e meta oid act b why r
      (s\<lparr>sessions := (sessions s)(SessionId (touched e p) \<mapsto> touched e p)\<rparr>)))"
    if "sessions s sid = Some p" "touched e p \<noteq> p" for sid p meta oid act b why r
    using session_moved_call [OF idle book that(1)] touched_step [of e p] that(2) by blast
  show ?thesis
    using mem_idle_no_db [OF idle] moved
    by (auto simp: GetSession_def Let_def persistSession_mem session_call_same [OF idle] session_denied_mem [OF idle]
        touchAndExpire_mem session_audited_call [OF idle] split: option.splits if_splits)
qed

section \<open>Runs of the service\<close>

datatype session_call_request =
    CallStart "start_request option" | CallEnd "session_request option" | CallGet "session_request option"
  | CallTimeout duration | CallSessionCache bool

type_synonym session_input = "env \<times> auth_actor option \<times> session_call_request"

fun session_react :: "ext \<Rightarrow> session_input \<Rightarrow> sessions_service \<Rightarrow> sessions_service" where
  "session_react x (e, ctx, CallStart r) s = snd (StartSession x e ctx r s)"
| "session_react x (e, ctx, CallEnd r) s = snd (EndSession x e ctx r s)"
| "session_react x (e, ctx, CallGet r) s = snd (GetSession x e ctx r s)"
| "session_react x (e, ctx, CallTimeout d) s = SetDefaultTimeout d s"
| "session_react x (e, ctx, CallSessionCache b) s = sessions_SetDisableInMemoryCache b s"

definition session_runs :: "ext \<Rightarrow> session_input list \<Rightarrow> sessions_service" where
  "session_runs x is = fold (session_react x) is (NewSessionsService None)"

lemma session_switch_call:
  "mem_idle x s \<Longrightarrow> session_call x e s (SetDefaultTimeout d s) \<and> session_call x e s (sessions_SetDisableInMemoryCache b s)"
  by (simp add: SetDefaultTimeout_def sessions_SetDisableInMemoryCache_def session_call_def sessions_step.idle
      mem_idle_def svc_ok_def)

lemma session_react_call:
  assumes "sessions_inv x s"
  shows "session_call x (fst i) s (session_react x i s)"
proof -
  obtain e ctx c where i: "i = (e, ctx, c)" by (cases i) auto
  have idle: "mem_idle x s" using assms by (simp add: sessions_inv_def)
  show ?thesis
    using assms idle by (cases c) (simp_all add: i StartSession_call EndSession_call GetSession_call session_switch_call)
qed

interpretation sess: reactor "\<lambda>s. s = NewSessionsService None" "session_react x" "sessions_inv x" for x
proof unfold_locales
  fix s i assume "sessions_inv x s"
  then show "sessions_inv x (session_react x i s)"
    using session_react_call [of x s i] sessions_step_ok
    by (auto simp: sessions_inv_def session_call_def)
qed (simp add: sessions_inv_def NewSessionsService_def mem_idle_def svc_ok_def session_book_ok_def)

lemma session_runs_inv: "sessions_inv x (session_runs x is)"
  unfolding session_runs_def by (rule sess.always_inv) simp

lemma session_runs_append: "session_runs x (is @ js) = fold (session_react x) js (session_runs x is)"
  by (simp add: session_runs_def)

lemma session_kept_from:
  assumes "sessions_inv x s" "sessions s sid = Some p"
    and "\<And>i raw. i \<in> set js \<Longrightarrow> env_rand (fst i) = Some raw \<Longrightarrow> sid \<noteq> ''sess-'' @ raw"
  shows "\<exists>q. sessions (fold (session_react x) js s) sid = Some q \<and> session_later p q"
  using assms
proof (induction js arbitrary: s p)
  case (Cons j js)
  have "sessions_step (env_rand (fst j)) (sessions s) (sessions (session_react x j s))"
    using session_react_call [OF Cons.prems(1)] by (simp add: session_call_def)
  then obtain q where q: "sessions (session_react x j s) sid = Some q" "session_later p q"
    using sessions_step_later [where m = "sessions s" and sid = sid and p = p] Cons.prems(2,3)
    by (metis list.set_intros(1))
  have "\<exists>r. sessions (fold (session_react x) js (session_react x j s)) sid = Some r \<and> session_later q r"
    using Cons.prems(3) by (intro Cons.IH [OF sess.react_inv [OF Cons.prems(1)] q(1)]) auto
  with q(2) show ?case using session_later_trans by auto
qed simp

section \<open>Properties\<close>

text \<open>
  C30. Every session the service holds after any sequence of requests is well formed: it is filed under its own identifier,
  names a player and a device, is active, ended or expired, has an end time and a reason for its end exactly when it is not
  active, and its printed start and expiry lie a positive time of at most 24 hours apart.
\<close>

theorem sessions_well_formed: "session_book_ok (sessions (session_runs x is))"
  using session_runs_inv [of x "is"] by (simp add: sessions_inv_def)

text \<open>A player opens a session of an hour on a cabinet.\<close>

definition demo_sess_start :: start_request where
  "demo_sess_start = \<lparr>Start_Meta = demo_meta ''k'', Start_PlayerId = ''p-1'', Start_DeviceId = ''cab-1'', Start_TimeoutSeconds = 0\<rparr>"

definition demo_see :: session_request where
  "demo_see = \<lparr>Sess_Meta = demo_meta ''k'', Sess_SessionId = ''sess-t'', Sess_Reason = []\<rparr>"

definition demo_at :: "time \<Rightarrow> string option \<Rightarrow> env" where
  "demo_at t tok = \<lparr>env_now = t, env_wall = t, env_dbnow = t, env_rand = tok\<rparr>"

definition demo_opened_session :: player_session where
  "demo_opened_session = new_session (demo_at 0 (Some ''t'')) demo_sess_start ''t'' (NewSessionsService None)"

text \<open>
  C31. A session never changes its player, device, start or expiry, and once it is ended or expired it never changes again,
  whatever requests follow, as long as the random source does not draw its token a second time.
\<close>

theorem session_final:
  assumes "sessions (session_runs x is) sid = Some p"
    and "\<forall>j \<in> set js. \<forall>raw. env_rand (fst j) = Some raw \<longrightarrow> sid \<noteq> ''sess-'' @ raw"
  shows "\<exists>q. sessions (session_runs x (is @ js)) sid = Some q \<and> session_later p q"
  unfolding session_runs_append
  by (rule session_kept_from [OF session_runs_inv assms(1)]) (use assms(2) in blast)

definition demo_opening :: session_input where
  "demo_opening = (demo_at 0 (Some ''t''), None, CallStart (Some demo_sess_start))"

lemma demo_opened: "sessions (session_runs demo_ext [demo_opening]) ''sess-t'' = Some demo_opened_session"
proof -
  have "sessions (session_runs demo_ext [demo_opening]) =
      (sessions (NewSessionsService None))(SessionId demo_opened_session \<mapsto> demo_opened_session)"
    unfolding session_runs_def demo_opening_def demo_opened_session_def
    by (simp, rule StartSession_admitted)
       (simp_all add: mem_idle_def NewSessionsService_def svc_ok_def demo_sess_start_def demo_at_def authorizeStart_def
          authorize_owner_def resolveActor_def demo_meta_def operator_or_service_def)
  then show ?thesis by (simp add: demo_opened_session_def new_session_def)
qed

theorem session_final_witness:
  "\<exists>q. sessions (session_runs demo_ext ([demo_opening] @ [(demo_at 5 None, None, CallGet (Some demo_see))])) ''sess-t'' = Some q
     \<and> session_later demo_opened_session q"
  by (rule session_final [OF demo_opened]) (simp add: demo_at_def)

text \<open>
  A session expires exactly when its time is up: when a request that opened a session with the timeout
  \<open>timeoutForRequest\<close> is followed by a look-up by a caller with access, the look-up answers OK with the session as stored,
  active and seen now as long as the clock has not passed start plus timeout, expired and ended now after that. The
  timeout is positive and at most 24 hours. The printed expiry is readable when it lies in the years 0 to 9999.
\<close>

theorem session_expires_on_time:
  assumes "s = session_runs x reqs" "\<not> sess_disableInMemoryCache s" "env_rand e = Some raw"
    and "Start_PlayerId r \<noteq> []" "Start_DeviceId r \<noteq> []" "authorizeStart ctx (Start_Meta r) (Start_PlayerId r) = None"
    and "Sess_SessionId g = ''sess-'' @ raw" "authorizeStart ctx' (Sess_Meta g) (Start_PlayerId r) = None"
    and "expiry = env_now e + timeoutForRequest r s" "0 \<le> fst (civil expiry)" "fst (civil expiry) \<le> 9999"
    and "answer = GetSession x e' ctx' (Some g) (snd (StartSession x e ctx (Some r) s))"
  shows "0 < timeoutForRequest r s \<and> timeoutForRequest r s \<le> 24 * hour \<and>
    ResultCode (SessMeta (fst answer)) = RESULT_CODE_OK \<and>
    (\<exists>p. SessSession (fst answer) = Some p \<and> sessions (snd answer) (Sess_SessionId g) = Some p \<and>
         SessPlayerId p = Start_PlayerId r \<and>
         (if env_now e' \<le> expiry
          then State p = SESSION_STATE_ACTIVE \<and> LastSeenAt p = fmt_rfc3339nano (env_now e') \<and> EndedAt p = []
          else State p = SESSION_STATE_EXPIRED \<and> EndedAt p = fmt_rfc3339nano (env_now e') \<and>
               EndReason p = ''session timeout''))"
proof -
  let ?s = "snd (StartSession x e ctx (Some r) s)" and ?p = "new_session e r raw s"
  have idle: "mem_idle x s" using session_runs_inv [of x reqs] assms(1) by (simp add: sessions_inv_def)
  note st = StartSession_admitted [OF idle assms(2,4,5,6,3)]
  have idle': "mem_idle x ?s" using StartSession_call [OF idle, of e ctx "Some r"] by (simp add: session_call_def)
  have id: "SessionId ?p = Sess_SessionId g" "Sess_SessionId g \<noteq> []" using assms(7) by (simp_all add: new_session_def)
  have here: "sessions ?s (Sess_SessionId g) = Some ?p" using st(2) id by simp
  have "authorizeAccess ctx' (Sess_Meta g) ?p = None"
    using assms(8) by (auto simp: authorizeAccess_def authorizeStart_def authorize_owner_def new_session_def
        split: sum.splits if_splits)
  note get = GetSession_admitted [OF idle' st(3) id(2) here id(1) this, of e']
  have parse: "parse_rfc3339nano (ExpiresAt ?p) = Some expiry"
    using parse_fmt [of expiry] assms(9-11) by (simp add: new_session_def)
  show ?thesis
    using timeoutForRequest_bounds [of r s] get parse
    by (simp add: assms(12) session_ok_def touched_def Let_def) (simp add: new_session_def)
qed

lemma session_demo_facts:
  "env_rand (demo_at 0 (Some ''t'')) = Some ''t''" "Start_PlayerId demo_sess_start = ''p-1''" "Start_DeviceId demo_sess_start = ''cab-1''"
  "authorizeStart None (Start_Meta demo_sess_start) p = None" "Sess_SessionId demo_see = ''sess-'' @ ''t''"
  "authorizeStart None (Sess_Meta demo_see) p = None" "\<not> sess_disableInMemoryCache (session_runs x [])"
  "timeoutForRequest demo_sess_start (session_runs x []) = hour" "env_now (demo_at t tok) = t"
  by (simp_all add: demo_at_def demo_sess_start_def demo_see_def authorizeStart_def authorize_owner_def resolveActor_def
      demo_meta_def operator_or_service_def session_runs_def NewSessionsService_def timeoutForRequest_def)

lemma civil_demo: "fst (civil hour) = 1970"
  by code_simp

theorem session_expires_on_time_witness:
  "\<exists>p. SessSession (fst (GetSession demo_ext (demo_at (hour + 1) None) None (Some demo_see)
       (snd (StartSession demo_ext (demo_at 0 (Some ''t'')) None (Some demo_sess_start) (session_runs demo_ext []))))) = Some p \<and>
     State p = SESSION_STATE_EXPIRED"
proof -
  have "0 \<le> fst (civil (env_now (demo_at 0 (Some ''t'')) + timeoutForRequest demo_sess_start (session_runs demo_ext [])))"
    "fst (civil (env_now (demo_at 0 (Some ''t'')) + timeoutForRequest demo_sess_start (session_runs demo_ext []))) \<le> 9999"
    using civil_demo by (simp_all add: session_demo_facts)
  then show ?thesis
    using session_expires_on_time [where x = demo_ext and e = "demo_at 0 (Some ''t'')" and r = demo_sess_start and g = demo_see
        and ctx = None and ctx' = None and reqs = "[]" and e' = "demo_at (hour + 1) None" and raw = "''t''",
        OF refl session_demo_facts(7,1) _ _ session_demo_facts(4,5,6) refl _ _ refl]
    by (auto simp: session_demo_facts)
qed

end
