(* ===== verification/Sorting.thy ===== *)
theory Sorting
  imports Prelude "HOL-Library.Multiset"
begin

text \<open>
  \<^verbatim>\<open>sort.Slice\<close> and \<^verbatim>\<open>sort.SliceStable\<close> with a comparison that the listings of the services repeat. The result is
  defined by insertion; for a comparison that is a strict weak order, and the listings' ones are, a stable sort has
  only one result, so that this is the result of the library's algorithm.
\<close>

text \<open>Behind the elements that are not greater, in front of the first one that is.\<close>

fun insert_by :: "('a \<Rightarrow> 'a \<Rightarrow> bool) \<Rightarrow> 'a \<Rightarrow> 'a list \<Rightarrow> 'a list" where
  "insert_by lt x [] = [x]"
| "insert_by lt x (y # ys) = (if lt x y then x # y # ys else y # insert_by lt x ys)"

definition stable_sort :: "('a \<Rightarrow> 'a \<Rightarrow> bool) \<Rightarrow> 'a list \<Rightarrow> 'a list" where
  "stable_sort lt xs = foldl (\<lambda>acc x. insert_by lt x acc) [] xs"

locale sorting =
  fixes lt :: "'a \<Rightarrow> 'a \<Rightarrow> bool"
  assumes asym: "lt x y \<Longrightarrow> \<not> lt y x"
    and neg_trans: "\<not> lt x y \<Longrightarrow> \<not> lt y z \<Longrightarrow> \<not> lt x z"
begin

text \<open>In order: no element is less than one before it.\<close>

definition in_order :: "'a list \<Rightarrow> bool" where
  "in_order = sorted_wrt (\<lambda>x y. \<not> lt y x)"

lemma insert_by_mset: "mset (insert_by lt x ys) = add_mset x (mset ys)"
  by (induction ys) auto

lemma insert_by_set [simp]: "set (insert_by lt x ys) = insert x (set ys)"
  by (metis insert_by_mset set_mset_add_mset_insert set_mset_mset)

lemma insert_by_in_order: "in_order ys \<Longrightarrow> in_order (insert_by lt x ys)"
proof (induction ys)
  case (Cons y ys)
  show ?case
  proof (cases "lt x y")
    case True
    have "\<not> lt z x" if "z \<in> set ys" for z
      using that Cons.prems neg_trans [of z y x] asym [OF True] by (simp add: in_order_def)
    with True Cons.prems asym show ?thesis by (auto simp: in_order_def)
  next
    case False
    with Cons show ?thesis by (auto simp: in_order_def)
  qed
qed (simp add: in_order_def)

lemma stable_sort_in_order: "in_order (stable_sort lt xs)"
proof -
  have "in_order acc \<Longrightarrow> in_order (foldl (\<lambda>acc x. insert_by lt x acc) acc xs)" for acc
    by (induction xs arbitrary: acc) (simp_all add: insert_by_in_order)
  then show ?thesis by (simp add: stable_sort_def in_order_def)
qed

lemma stable_sort_mset: "mset (stable_sort lt xs) = mset xs"
proof -
  have "mset (foldl (\<lambda>acc x. insert_by lt x acc) acc xs) = mset acc + mset xs" for acc
    by (induction xs arbitrary: acc) (simp_all add: insert_by_mset)
  then show ?thesis by (simp add: stable_sort_def)
qed

text \<open>Stability: elements that are in order already keep their order.\<close>

lemma insert_by_filter:
  assumes "in_order ys" "\<And>b. P x \<Longrightarrow> b \<in> set ys \<Longrightarrow> P b \<Longrightarrow> \<not> lt x b"
  shows "filter P (insert_by lt x ys) = filter P ys @ (if P x then [x] else [])"
  using assms
proof (induction ys)
  case (Cons y ys)
  show ?case
  proof (cases "lt x y \<and> P x")
    case True
    have "\<not> P z" if "z \<in> set (y # ys)" for z
    proof
      assume "P z"
      then have "\<not> lt x z" using True that Cons.prems(2) by blast
      moreover have "\<not> lt z y" using that Cons.prems(1) asym by (auto simp: in_order_def)
      ultimately show False using True neg_trans [of x z y] by blast
    qed
    then have "filter P (y # ys) = []" by (simp add: filter_empty_conv)
    with True show ?thesis by simp
  qed (use Cons in \<open>auto simp: in_order_def\<close>)
qed simp

lemma stable_sort_keeps:
  assumes "in_order (filter P xs)"
  shows "filter P (stable_sort lt xs) = filter P xs"
proof -
  have "in_order acc \<Longrightarrow> in_order (filter P acc @ filter P xs) \<Longrightarrow>
      filter P (foldl (\<lambda>acc x. insert_by lt x acc) acc xs) = filter P acc @ filter P xs" for acc
  proof (induction xs arbitrary: acc)
    case (Cons x xs)
    have "filter P (insert_by lt x acc) = filter P acc @ (if P x then [x] else [])"
      using Cons.prems by (intro insert_by_filter) (auto simp: in_order_def sorted_wrt_append)
    with Cons insert_by_in_order [of acc x] show ?case by (auto split: if_splits)
  qed simp
  from this [of "[]"] assms show ?thesis by (simp add: stable_sort_def in_order_def)
qed

lemma stable_sort_class:
  assumes "\<And>a b. P a \<Longrightarrow> P b \<Longrightarrow> \<not> lt a b"
  shows "filter P (stable_sort lt xs) = filter P xs"
proof (rule stable_sort_keeps)
  have "sorted_wrt (\<lambda>x y. \<not> lt y x) ys" if "\<forall>y \<in> set ys. P y" for ys
    using that by (induction ys) (auto simp: assms)
  then show "in_order (filter P xs)" by (simp add: in_order_def)
qed

end

text \<open>A comparison by a key: the result is the library's \<open>sort_key\<close>.\<close>

interpretation keyed: sorting "\<lambda>a b. f a < f b" for f :: "'a \<Rightarrow> 'b::linorder"
  by unfold_locales auto

lemma stable_sort_key: "stable_sort (\<lambda>a b. f a < f b) xs = sort_key f xs" for f :: "'a \<Rightarrow> 'b::linorder"
proof (rule properties_for_sort_key [symmetric])
  show "mset (stable_sort (\<lambda>a b. f a < f b) xs) = mset xs" by (rule keyed.stable_sort_mset)
  show "filter (\<lambda>x. f k = f x) (stable_sort (\<lambda>a b. f a < f b) xs) = filter (\<lambda>x. f k = f x) xs" for k
    by (rule keyed.stable_sort_class) simp
  show "sorted (map f (stable_sort (\<lambda>a b. f a < f b) xs))"
    using keyed.stable_sort_in_order [of f xs] by (simp add: keyed.in_order_def sorted_wrt_map not_less)
qed

end
