(* ===== verification/Config.thy ===== *)
theory Config
  imports Service Samples Pagination Sorting
begin

text \<open>
  The configuration service, \<^verbatim>\<open>internal/platform/server/config_grpc.go\<close> and \<^verbatim>\<open>config_postgres.go\<close>: configuration
  changes are proposed, approved and applied; changes of the download library are recorded, an activation only with a
  signature. The handlers read \<^verbatim>\<open>req.Meta.Actor.ActorId\<close>, which panics when the caller is known from the token alone;
  the REST gateway calls them in the process, whose HTTP server survives the panic, so that the state afterwards matters.
\<close>

unbundle bit_operations_syntax

section \<open>Messages, tables and state\<close>

datatype config_change_status =
    CONFIG_CHANGE_STATUS_UNSPECIFIED | CONFIG_CHANGE_STATUS_PROPOSED | CONFIG_CHANGE_STATUS_APPROVED
  | CONFIG_CHANGE_STATUS_APPLIED | CONFIG_CHANGE_STATUS_REJECTED

datatype download_action =
    DOWNLOAD_ACTION_UNSPECIFIED | DOWNLOAD_ACTION_ADD | DOWNLOAD_ACTION_UPDATE | DOWNLOAD_ACTION_DELETE
  | DOWNLOAD_ACTION_ACTIVATE | DOWNLOAD_ACTION_OTHER i32

record config_change =
  ChangeId :: string
  ConfigNamespace :: string
  ConfigKey :: string
  ProposedValue :: string
  PreviousValue :: string
  ChangeReason :: string
  ChangeStatus :: config_change_status
  ProposerId :: string
  ApproverId :: string
  AppliedBy :: string
  CreatedAt :: string
  ApprovedAt :: string
  AppliedAt :: string

record download_entry =
  EntryId :: string
  LibraryPath :: string
  Checksum :: string
  Version :: string
  Action :: download_action
  ChangedBy :: string
  EntryReason :: string
  EntryOccurredAt :: string
  SignerKid :: string
  Signature :: string
  SignatureAlg :: string

record propose_request =
  Propose_Meta :: "request_meta option"
  Propose_Namespace :: string
  Propose_Key :: string
  Propose_Value :: string
  Propose_Reason :: string

record change_request =
  Change_Meta :: "request_meta option"
  Change_Id :: string
  Change_Reason :: string

record page_request =
  Page_Meta :: "request_meta option"
  Page_Filter :: string
  Page_Size :: i32
  Page_Token :: string

record entry_request =
  Entry_Meta :: "request_meta option"
  Entry_Entry :: "download_entry option"

record change_response =
  ChgMeta :: response_meta
  ChgChange :: "config_change option"

record entry_response =
  EntMeta :: response_meta
  EntEntry :: "download_entry option"

record 'a page_response =
  PageMeta :: response_meta
  PageItems :: "'a list"
  PageNext :: string

record config_change_row =
  cc_change_id :: string
  cc_namespace :: string
  cc_key :: string
  cc_proposed_value :: string
  cc_previous_value :: string
  cc_reason :: string
  cc_status :: string
  cc_proposer_id :: string
  cc_approver_id :: string
  cc_applied_by :: string
  cc_created_at :: time
  cc_approved_at :: "time option"
  cc_applied_at :: "time option"

record current_value_row =
  cv_namespace :: string
  cv_key :: string
  cv_value :: string
  cv_updated_by :: string

record download_row =
  dl_entry_id :: string
  dl_library_path :: string
  dl_checksum :: string
  dl_version :: string
  dl_action :: string
  dl_changed_by :: string
  dl_reason :: string
  dl_occurred_at :: time
  dl_signer_kid :: string
  dl_signature :: string
  dl_signature_alg :: string

record config_db = dbcore +
  config_changes :: "config_change_row list"
  config_current_values :: "current_value_row list"
  download_library_changes :: "download_row list"

record config_service = "config_db svc" +
  changes :: "string \<rightharpoonup> config_change"
  changeOrder :: "string list"
  nextChangeID :: nat
  currentValues :: "string \<rightharpoonup> string"
  downloadEntries :: "string \<rightharpoonup> download_entry"
  downloadOrder :: "string list"
  nextEntryID :: nat
  downloadSigKeys :: "string \<rightharpoonup> string"
  config_disableInMemoryCache :: bool

definition NewConfigService :: "config_db option \<Rightarrow> config_service" where
  "NewConfigService handle =
     \<lparr>svc_AuditStore = Some NewInMemoryStore, svc_nextAuditID = 0, svc_db = handle,
      changes = Map.empty, changeOrder = [], nextChangeID = 0, currentValues = Map.empty,
      downloadEntries = Map.empty, downloadOrder = [], nextEntryID = 0, downloadSigKeys = Map.empty,
      config_disableInMemoryCache = False\<rparr>"

definition config_SetDisableInMemoryCache :: "bool \<Rightarrow> config_service \<Rightarrow> config_service" where
  "config_SetDisableInMemoryCache disable s = s\<lparr>config_disableInMemoryCache := disable\<rparr>"

text \<open>The keys of a Go map come in an order of their own at every iteration: \<open>keys\<close> lists them in that order.\<close>

definition SetDownloadSignatureKeys :: "(string \<times> string) list \<Rightarrow> config_service \<Rightarrow> config_service" where
  "SetDownloadSignatureKeys keys s =
     s\<lparr>downloadSigKeys := fold (\<lambda>(kid0, secret) m. let kid = trim_space kid0
          in if kid = [] \<or> secret = [] then m else m(kid \<mapsto> secret)) keys Map.empty\<rparr>"

definition config_appendAudit ::
    "ext \<Rightarrow> env \<Rightarrow> request_meta option \<Rightarrow> string \<Rightarrow> string \<Rightarrow> string \<Rightarrow> string \<Rightarrow> string \<Rightarrow> string \<Rightarrow> string
     \<Rightarrow> config_service \<Rightarrow> bool \<times> config_service" where
  "config_appendAudit x e meta objectType objectID action before after result reason =
     svc_append x e (\<lambda>n. audit_event e (''config-audit-'' @ itoa_nat n) meta objectType objectID action
                           before after result reason)"

text \<open>\<^verbatim>\<open>req.Meta.Actor.ActorId\<close>; \<open>None\<close> is the dereference of a nil pointer.\<close>

definition meta_actor_id :: "request_meta option \<Rightarrow> string option" where
  "meta_actor_id meta = map_option ActorId (Option.bind meta MetaActor)"

definition keyFor :: "string \<Rightarrow> string \<Rightarrow> string" where
  "keyFor namespace key = namespace @ ''::'' @ key"

fun config_status_number :: "config_change_status \<Rightarrow> int" where
  "config_status_number CONFIG_CHANGE_STATUS_UNSPECIFIED = 0"
| "config_status_number CONFIG_CHANGE_STATUS_PROPOSED = 1"
| "config_status_number CONFIG_CHANGE_STATUS_APPROVED = 2"
| "config_status_number CONFIG_CHANGE_STATUS_APPLIED = 3"
| "config_status_number CONFIG_CHANGE_STATUS_REJECTED = 4"

fun download_action_number :: "download_action \<Rightarrow> int" where
  "download_action_number DOWNLOAD_ACTION_UNSPECIFIED = 0"
| "download_action_number DOWNLOAD_ACTION_ADD = 1"
| "download_action_number DOWNLOAD_ACTION_UPDATE = 2"
| "download_action_number DOWNLOAD_ACTION_DELETE = 3"
| "download_action_number DOWNLOAD_ACTION_ACTIVATE = 4"
| "download_action_number (DOWNLOAD_ACTION_OTHER w) = sint w"

fun download_action_string :: "download_action \<Rightarrow> string" where
  "download_action_string DOWNLOAD_ACTION_UNSPECIFIED = ''DOWNLOAD_ACTION_UNSPECIFIED''"
| "download_action_string DOWNLOAD_ACTION_ADD = ''DOWNLOAD_ACTION_ADD''"
| "download_action_string DOWNLOAD_ACTION_UPDATE = ''DOWNLOAD_ACTION_UPDATE''"
| "download_action_string DOWNLOAD_ACTION_DELETE = ''DOWNLOAD_ACTION_DELETE''"
| "download_action_string DOWNLOAD_ACTION_ACTIVATE = ''DOWNLOAD_ACTION_ACTIVATE''"
| "download_action_string (DOWNLOAD_ACTION_OTHER w) = itoa (sint w)"

definition change_json :: "config_change \<Rightarrow> string" where
  "change_json c = json_encode (JObject (
     jstr ''change_id'' (ChangeId c) @ jstr ''config_namespace'' (ConfigNamespace c) @ jstr ''config_key'' (ConfigKey c)
     @ jstr ''proposed_value'' (ProposedValue c) @ jstr ''previous_value'' (PreviousValue c)
     @ jstr ''reason'' (ChangeReason c) @ jint ''status'' (config_status_number (ChangeStatus c))
     @ jstr ''proposer_id'' (ProposerId c) @ jstr ''approver_id'' (ApproverId c) @ jstr ''applied_by'' (AppliedBy c)
     @ jstr ''created_at'' (CreatedAt c) @ jstr ''approved_at'' (ApprovedAt c) @ jstr ''applied_at'' (AppliedAt c)))"

definition download_json :: "download_entry \<Rightarrow> string" where
  "download_json d = json_encode (JObject (
     jstr ''entry_id'' (EntryId d) @ jstr ''library_path'' (LibraryPath d) @ jstr ''checksum'' (Checksum d)
     @ jstr ''version'' (Version d) @ jint ''action'' (download_action_number (Action d))
     @ jstr ''changed_by'' (ChangedBy d) @ jstr ''reason'' (EntryReason d) @ jstr ''occurred_at'' (EntryOccurredAt d)
     @ jstr ''signer_kid'' (SignerKid d) @ jstr ''signature'' (Signature d)
     @ jstr ''signature_alg'' (SignatureAlg d)))"

section \<open>Download signatures\<close>

text \<open>\<^verbatim>\<open>crypto/hmac\<close> over a hash with blocks of 64 bytes.\<close>

definition xor_pad :: "nat \<Rightarrow> string \<Rightarrow> string" where
  "xor_pad b = map (\<lambda>c. char_of (of_char c XOR b))"

definition hmac :: "(string \<Rightarrow> string) \<Rightarrow> string \<Rightarrow> string \<Rightarrow> string" where
  "hmac hash key msg =
     (let k0 = (if length key > 64 then hash key else key);
          k = k0 @ replicate (64 - length k0) (CHR 0x00)
      in hash (xor_pad 0x5C k @ hash (xor_pad 0x36 k @ msg)))"

definition downloadSignaturePayload :: "download_entry \<Rightarrow> string" where
  "downloadSignaturePayload d =
     join ''|'' [trim_space (LibraryPath d), trim_space (Checksum d), trim_space (Version d),
                 download_action_string (Action d)]"

text \<open>A missing key is the nil slice, whose length is 0.\<close>

definition verifyDownloadSignature :: "ext \<Rightarrow> download_entry \<Rightarrow> string option \<Rightarrow> bool" where
  "verifyDownloadSignature x d secret =
     (case secret of
        None \<Rightarrow> False
      | Some key \<Rightarrow> key \<noteq> [] \<and> base64_raw (hmac (sha256 x) key (downloadSignaturePayload d)) = trim_space (Signature d))"

section \<open>The database\<close>

fun configStatusToDB :: "config_change_status \<Rightarrow> string" where
  "configStatusToDB CONFIG_CHANGE_STATUS_PROPOSED = ''proposed''"
| "configStatusToDB CONFIG_CHANGE_STATUS_APPROVED = ''approved''"
| "configStatusToDB CONFIG_CHANGE_STATUS_APPLIED = ''applied''"
| "configStatusToDB CONFIG_CHANGE_STATUS_REJECTED = ''rejected''"
| "configStatusToDB CONFIG_CHANGE_STATUS_UNSPECIFIED = ''proposed''"

definition configStatusFromDB :: "string \<Rightarrow> config_change_status" where
  "configStatusFromDB v =
     (if v = ''proposed'' then CONFIG_CHANGE_STATUS_PROPOSED
      else if v = ''approved'' then CONFIG_CHANGE_STATUS_APPROVED
      else if v = ''applied'' then CONFIG_CHANGE_STATUS_APPLIED
      else if v = ''rejected'' then CONFIG_CHANGE_STATUS_REJECTED
      else CONFIG_CHANGE_STATUS_UNSPECIFIED)"

fun downloadActionToDB :: "download_action \<Rightarrow> string" where
  "downloadActionToDB DOWNLOAD_ACTION_ADD = ''add''"
| "downloadActionToDB DOWNLOAD_ACTION_UPDATE = ''update''"
| "downloadActionToDB DOWNLOAD_ACTION_DELETE = ''delete''"
| "downloadActionToDB DOWNLOAD_ACTION_ACTIVATE = ''activate''"
| "downloadActionToDB _ = ''add''"

definition downloadActionFromDB :: "string \<Rightarrow> download_action" where
  "downloadActionFromDB v =
     (if v = ''add'' then DOWNLOAD_ACTION_ADD
      else if v = ''update'' then DOWNLOAD_ACTION_UPDATE
      else if v = ''delete'' then DOWNLOAD_ACTION_DELETE
      else if v = ''activate'' then DOWNLOAD_ACTION_ACTIVATE
      else DOWNLOAD_ACTION_UNSPECIFIED)"

text \<open>\<open>None\<close> is \<^verbatim>\<open>NULL\<close>.\<close>

definition nullIfEmpty :: "string \<Rightarrow> string option" where
  "nullIfEmpty v = (if trim_space v = [] then None else Some v)"

definition nullable_cast :: "ext \<Rightarrow> string \<Rightarrow> time option option" where
  "nullable_cast x v =
     (case nullIfEmpty v of None \<Rightarrow> Some None | Some t \<Rightarrow> map_option Some (pg_time_of_text x t))"

text \<open>A \<^verbatim>\<open>NOT NULL\<close> column refuses the statement.\<close>

definition required_cast :: "ext \<Rightarrow> string \<Rightarrow> time option" where
  "required_cast x v = Option.bind (nullIfEmpty v) (pg_time_of_text x)"

definition config_change_row_of :: "ext \<Rightarrow> config_change \<Rightarrow> config_change_row option" where
  "config_change_row_of x c =
     (case (required_cast x (CreatedAt c), nullable_cast x (ApprovedAt c), nullable_cast x (AppliedAt c)) of
        (Some created, Some approved, Some applied) \<Rightarrow>
          Some \<lparr>cc_change_id = ChangeId c, cc_namespace = ConfigNamespace c, cc_key = ConfigKey c,
                cc_proposed_value = ProposedValue c, cc_previous_value = PreviousValue c, cc_reason = ChangeReason c,
                cc_status = configStatusToDB (ChangeStatus c), cc_proposer_id = ProposerId c,
                cc_approver_id = ApproverId c, cc_applied_by = AppliedBy c, cc_created_at = created,
                cc_approved_at = approved, cc_applied_at = applied\<rparr>
      | _ \<Rightarrow> None)"

definition merge_change :: "config_change_row \<Rightarrow> config_change_row \<Rightarrow> config_change_row" where
  "merge_change old new =
     old\<lparr>cc_status := cc_status new, cc_approver_id := cc_approver_id new, cc_applied_by := cc_applied_by new,
         cc_approved_at := cc_approved_at new, cc_applied_at := cc_applied_at new, cc_reason := cc_reason new\<rparr>"

definition persistConfigChange :: "ext \<Rightarrow> config_change \<Rightarrow> config_service \<Rightarrow> bool \<times> config_service" where
  "persistConfigChange x c =
     svc_exec (sql_stmt (\<lambda>d. map_option
       (\<lambda>row. d\<lparr>config_changes := upsert_with cc_change_id merge_change row (config_changes d)\<rparr>)
       (config_change_row_of x c)))"

definition persistCurrentValue ::
    "string \<Rightarrow> string \<Rightarrow> string \<Rightarrow> string \<Rightarrow> config_service \<Rightarrow> bool \<times> config_service" where
  "persistCurrentValue namespace key val updatedBy =
     svc_exec (sql_stmt (\<lambda>d. Some (d\<lparr>config_current_values :=
       upsert (\<lambda>r. (cv_namespace r, cv_key r))
         \<lparr>cv_namespace = namespace, cv_key = key, cv_value = val, cv_updated_by = updatedBy\<rparr>
         (config_current_values d)\<rparr>)))"

definition download_row_of :: "ext \<Rightarrow> download_entry \<Rightarrow> download_row option" where
  "download_row_of x d =
     map_option (\<lambda>occurred. \<lparr>dl_entry_id = EntryId d, dl_library_path = LibraryPath d, dl_checksum = Checksum d,
        dl_version = Version d, dl_action = downloadActionToDB (Action d), dl_changed_by = ChangedBy d,
        dl_reason = EntryReason d, dl_occurred_at = occurred, dl_signer_kid = SignerKid d, dl_signature = Signature d,
        dl_signature_alg = SignatureAlg d\<rparr>) (required_cast x (EntryOccurredAt d))"

definition merge_download :: "download_row \<Rightarrow> download_row \<Rightarrow> download_row" where
  "merge_download old new = new\<lparr>dl_entry_id := dl_entry_id old, dl_library_path := dl_library_path old\<rparr>"

definition persistDownloadEntry :: "ext \<Rightarrow> download_entry \<Rightarrow> config_service \<Rightarrow> bool \<times> config_service" where
  "persistDownloadEntry x entry =
     svc_exec (sql_stmt (\<lambda>d. map_option
       (\<lambda>row. d\<lparr>download_library_changes := upsert_with dl_entry_id merge_download row (download_library_changes d)\<rparr>)
       (download_row_of x entry)))"

definition getCurrentValue :: "string \<Rightarrow> string \<Rightarrow> config_service \<Rightarrow> string option \<times> config_service" where
  "getCurrentValue namespace key =
     svc_query (\<lambda>d. case find (\<lambda>r. (cv_namespace r, cv_key r) = (namespace, key)) (config_current_values d) of
                      None \<Rightarrow> [] | Some r \<Rightarrow> cv_value r)"

definition time_or_blank :: "time option \<Rightarrow> string" where
  "time_or_blank t = (case t of None \<Rightarrow> [] | Some t \<Rightarrow> fmt_rfc3339nano t)"

definition row_to_change :: "config_change_row \<Rightarrow> config_change" where
  "row_to_change r =
     \<lparr>ChangeId = cc_change_id r, ConfigNamespace = cc_namespace r, ConfigKey = cc_key r,
      ProposedValue = cc_proposed_value r, PreviousValue = cc_previous_value r, ChangeReason = cc_reason r,
      ChangeStatus = configStatusFromDB (cc_status r), ProposerId = cc_proposer_id r, ApproverId = cc_approver_id r,
      AppliedBy = cc_applied_by r, CreatedAt = fmt_rfc3339nano (cc_created_at r),
      ApprovedAt = time_or_blank (cc_approved_at r), AppliedAt = time_or_blank (cc_applied_at r)\<rparr>"

definition getConfigChange :: "string \<Rightarrow> config_service \<Rightarrow> config_change option option \<times> config_service" where
  "getConfigChange changeID =
     svc_query (\<lambda>d. map_option row_to_change (find (\<lambda>r. cc_change_id r = changeID) (config_changes d)))"

text \<open>\<^verbatim>\<open>ORDER BY created_at DESC, change_id DESC LIMIT limit OFFSET offset\<close>.\<close>

definition change_row_before :: "ext \<Rightarrow> config_change_row \<Rightarrow> config_change_row \<Rightarrow> bool" where
  "change_row_before x a b \<longleftrightarrow> cc_created_at b < cc_created_at a \<or>
     (cc_created_at a = cc_created_at b \<and> pg_text_less x (cc_change_id b) (cc_change_id a))"

definition listConfigHistoryFromDB ::
    "ext \<Rightarrow> string \<Rightarrow> nat \<Rightarrow> nat \<Rightarrow> config_service \<Rightarrow> config_change list option \<times> config_service" where
  "listConfigHistoryFromDB x namespaceFilter limit offset =
     svc_query (\<lambda>d. map row_to_change (take limit (drop offset (stable_sort (change_row_before x)
       (filter (\<lambda>r. namespaceFilter = [] \<or> cc_namespace r = namespaceFilter) (config_changes d))))))"

definition row_to_download :: "download_row \<Rightarrow> download_entry" where
  "row_to_download r =
     \<lparr>EntryId = dl_entry_id r, LibraryPath = dl_library_path r, Checksum = dl_checksum r, Version = dl_version r,
      Action = downloadActionFromDB (dl_action r), ChangedBy = dl_changed_by r, EntryReason = dl_reason r,
      EntryOccurredAt = fmt_rfc3339nano (dl_occurred_at r), SignerKid = dl_signer_kid r, Signature = dl_signature r,
      SignatureAlg = dl_signature_alg r\<rparr>"

definition download_row_before :: "ext \<Rightarrow> download_row \<Rightarrow> download_row \<Rightarrow> bool" where
  "download_row_before x a b \<longleftrightarrow> dl_occurred_at b < dl_occurred_at a \<or>
     (dl_occurred_at a = dl_occurred_at b \<and> pg_text_less x (dl_entry_id b) (dl_entry_id a))"

definition listDownloadEntriesFromDB ::
    "ext \<Rightarrow> nat \<Rightarrow> nat \<Rightarrow> config_service \<Rightarrow> download_entry list option \<times> config_service" where
  "listDownloadEntriesFromDB x limit offset =
     svc_query (\<lambda>d. map row_to_download (take limit (drop offset
       (stable_sort (download_row_before x) (download_library_changes d)))))"

section \<open>Handlers of configuration changes\<close>

definition change_refusal :: "env \<Rightarrow> request_meta option \<Rightarrow> result_code \<Rightarrow> string \<Rightarrow> change_response outcome" where
  "change_refusal e meta code reason = Returns \<lparr>ChgMeta = responseMeta e meta code reason, ChgChange = None\<rparr>"

definition change_ok :: "env \<Rightarrow> request_meta option \<Rightarrow> config_change \<Rightarrow> change_response outcome" where
  "change_ok e meta c = Returns \<lparr>ChgMeta = responseMeta e meta RESULT_CODE_OK [], ChgChange = Some c\<rparr>"

definition config_denied ::
    "ext \<Rightarrow> env \<Rightarrow> request_meta option \<Rightarrow> string \<Rightarrow> string \<Rightarrow> string \<Rightarrow> string \<Rightarrow> config_service \<Rightarrow> config_service" where
  "config_denied x e meta objectType objectID action reason s =
     snd (config_appendAudit x e meta objectType objectID action json_empty json_empty ResultDenied reason s)"

definition new_change :: "env \<Rightarrow> propose_request \<Rightarrow> string \<Rightarrow> string \<Rightarrow> string \<Rightarrow> config_change" where
  "new_change e r cid current proposer =
     \<lparr>ChangeId = cid, ConfigNamespace = Propose_Namespace r, ConfigKey = Propose_Key r,
      ProposedValue = Propose_Value r, PreviousValue = current, ChangeReason = Propose_Reason r,
      ChangeStatus = CONFIG_CHANGE_STATUS_PROPOSED, ProposerId = proposer, ApproverId = [], AppliedBy = [],
      CreatedAt = fmt_rfc3339nano (env_now e), ApprovedAt = [], AppliedAt = []\<rparr>"

definition change_id :: "nat \<Rightarrow> string" where
  "change_id n = ''cfg-'' @ itoa_nat n"

definition file_change :: "config_change \<Rightarrow> config_service \<Rightarrow> config_service" where
  "file_change c s =
     (if config_disableInMemoryCache s then s
      else s\<lparr>changes := (changes s)(ChangeId c \<mapsto> c), changeOrder := changeOrder s @ [ChangeId c]\<rparr>)"

definition ProposeConfigChange ::
    "ext \<Rightarrow> env \<Rightarrow> auth_actor option \<Rightarrow> propose_request option \<Rightarrow> config_service
     \<Rightarrow> change_response outcome \<times> config_service" where
  "ProposeConfigChange x e ctx req s =
     (case req of
        None \<Rightarrow> (change_refusal e None RESULT_CODE_INVALID ''config_namespace, config_key and proposed_value are required'', s)
      | Some r \<Rightarrow>
        let meta = Propose_Meta r in
        if Propose_Namespace r = [] \<or> Propose_Key r = [] \<or> Propose_Value r = [] then
          (change_refusal e None RESULT_CODE_INVALID ''config_namespace, config_key and proposed_value are required'', s)
        else (case authorize_backoffice ctx meta of
          Some reason \<Rightarrow>
            (change_refusal e meta RESULT_CODE_DENIED reason,
             config_denied x e meta ''config_change'' [] ''propose_config_change'' reason s)
        | None \<Rightarrow>
          let s1 = s\<lparr>nextChangeID := Suc (nextChangeID s)\<rparr>;
              cid = change_id (Suc (nextChangeID s));
              mem = (case currentValues s1 (keyFor (Propose_Namespace r) (Propose_Key r)) of None \<Rightarrow> [] | Some v \<Rightarrow> v);
              (found, s2) = (if svc_db s1 = None then (Some mem, s1)
                             else getCurrentValue (Propose_Namespace r) (Propose_Key r) s1)
          in (case found of
                None \<Rightarrow> (change_refusal e meta RESULT_CODE_ERROR ''persistence unavailable'', s2)
              | Some current \<Rightarrow>
                (case meta_actor_id meta of
                   None \<Rightarrow> (Panics, s2)
                 | Some proposer \<Rightarrow>
                   let c = new_change e r cid current proposer
                   in (case config_appendAudit x e meta ''config_change'' cid ''propose_config_change'' json_empty
                             (change_json c) ResultSuccess (Propose_Reason r) s2 of
                         (False, s3) \<Rightarrow> (change_refusal e meta RESULT_CODE_ERROR ''audit unavailable'', s3)
                       | (True, s3) \<Rightarrow>
                         (case persistConfigChange x c s3 of
                            (False, s4) \<Rightarrow> (change_refusal e meta RESULT_CODE_ERROR ''persistence unavailable'', s4)
                          | (True, s4) \<Rightarrow> (change_ok e meta c, file_change c s4)))))))"

text \<open>
  The look-up of the approving and applying handlers: a change found in the map, or read from the database and put into
  it, is the map's object, so that what the handler writes to it is written to the map; \<open>put_change\<close> is such a write.
\<close>

definition find_change :: "string \<Rightarrow> config_service \<Rightarrow> config_change option option \<times> config_service" where
  "find_change cid s =
     (case changes s cid of
        Some c \<Rightarrow> (Some (Some c), s)
      | None \<Rightarrow>
        if svc_db s = None then (Some None, s)
        else (case getConfigChange cid s of
                (Some (Some c), s1) \<Rightarrow>
                  (Some (Some c), if config_disableInMemoryCache s1 then s1 else s1\<lparr>changes := (changes s1)(cid \<mapsto> c)\<rparr>)
              | other \<Rightarrow> other))"

definition put_change :: "string \<Rightarrow> config_change \<Rightarrow> config_service \<Rightarrow> config_service" where
  "put_change cid c s = (if changes s cid = None then s else s\<lparr>changes := (changes s)(cid \<mapsto> c)\<rparr>)"

text \<open>
  The common part of the two handlers: \<open>from\<close> is the status the change has to be in, \<open>to\<close> the next one, which is
  written before the actor of the request is read; \<open>sign\<close> writes the actor and the time; \<open>note\<close> is what else the
  handler does before the audit event.
\<close>

definition advance_change ::
    "ext \<Rightarrow> env \<Rightarrow> auth_actor option \<Rightarrow> change_request option \<Rightarrow> string \<Rightarrow> config_change_status \<Rightarrow> string
     \<Rightarrow> config_change_status \<Rightarrow> (string \<Rightarrow> config_change \<Rightarrow> config_change)
     \<Rightarrow> (config_change \<Rightarrow> config_service \<Rightarrow> config_service)
     \<Rightarrow> (config_change \<Rightarrow> config_service \<Rightarrow> bool \<times> config_service)
     \<Rightarrow> config_service \<Rightarrow> change_response outcome \<times> config_service" where
  "advance_change x e ctx req action from not_from to sign note_value persist s =
     (case req of
        None \<Rightarrow> (change_refusal e None RESULT_CODE_INVALID ''change_id is required'', s)
      | Some r \<Rightarrow>
        let meta = Change_Meta r; cid = Change_Id r in
        if cid = [] then (change_refusal e None RESULT_CODE_INVALID ''change_id is required'', s)
        else (case authorize_backoffice ctx meta of
          Some reason \<Rightarrow>
            (change_refusal e meta RESULT_CODE_DENIED reason, config_denied x e meta ''config_change'' cid action reason s)
        | None \<Rightarrow>
          (case find_change cid s of
             (None, s1) \<Rightarrow> (change_refusal e meta RESULT_CODE_ERROR ''persistence unavailable'', s1)
           | (Some None, s1) \<Rightarrow> (change_refusal e meta RESULT_CODE_INVALID ''change not found'', s1)
           | (Some (Some c), s1) \<Rightarrow>
             if ChangeStatus c \<noteq> from then (change_refusal e meta RESULT_CODE_DENIED not_from, s1)
             else
               let c1 = c\<lparr>ChangeStatus := to\<rparr>
               in (case meta_actor_id meta of
                     None \<Rightarrow> (Panics, put_change cid c1 s1)
                   | Some actor \<Rightarrow>
                     let c2 = sign actor c1; s2 = note_value c2 (put_change cid c2 s1)
                     in (case config_appendAudit x e meta ''config_change'' (ChangeId c2) action (change_json c)
                               (change_json c2) ResultSuccess (Change_Reason r) s2 of
                           (False, s3) \<Rightarrow> (change_refusal e meta RESULT_CODE_ERROR ''audit unavailable'', s3)
                         | (True, s3) \<Rightarrow>
                           (case persist c2 s3 of
                              (False, s4) \<Rightarrow> (change_refusal e meta RESULT_CODE_ERROR ''persistence unavailable'', s4)
                            | (True, s4) \<Rightarrow> (change_ok e meta c2, s4)))))))"

definition ApproveConfigChange ::
    "ext \<Rightarrow> env \<Rightarrow> auth_actor option \<Rightarrow> change_request option \<Rightarrow> config_service
     \<Rightarrow> change_response outcome \<times> config_service" where
  "ApproveConfigChange x e ctx req s =
     advance_change x e ctx req ''approve_config_change'' CONFIG_CHANGE_STATUS_PROPOSED
       ''change is not in proposed state'' CONFIG_CHANGE_STATUS_APPROVED
       (\<lambda>actor c. c\<lparr>ApproverId := actor, ApprovedAt := fmt_rfc3339nano (env_now e)\<rparr>)
       (\<lambda>c s. s) (persistConfigChange x) s"

definition store_current :: "config_change \<Rightarrow> config_service \<Rightarrow> config_service" where
  "store_current c s =
     (if config_disableInMemoryCache s then s
      else s\<lparr>currentValues := (currentValues s)(keyFor (ConfigNamespace c) (ConfigKey c) \<mapsto> ProposedValue c)\<rparr>)"

definition persist_applied :: "ext \<Rightarrow> config_change \<Rightarrow> config_service \<Rightarrow> bool \<times> config_service" where
  "persist_applied x c s =
     (case persistConfigChange x c s of
        (False, s1) \<Rightarrow> (False, s1)
      | (True, s1) \<Rightarrow> persistCurrentValue (ConfigNamespace c) (ConfigKey c) (ProposedValue c) (AppliedBy c) s1)"

definition ApplyConfigChange ::
    "ext \<Rightarrow> env \<Rightarrow> auth_actor option \<Rightarrow> change_request option \<Rightarrow> config_service
     \<Rightarrow> change_response outcome \<times> config_service" where
  "ApplyConfigChange x e ctx req s =
     advance_change x e ctx req ''apply_config_change'' CONFIG_CHANGE_STATUS_APPROVED
       ''change is not approved'' CONFIG_CHANGE_STATUS_APPLIED
       (\<lambda>actor c. c\<lparr>AppliedBy := actor, AppliedAt := fmt_rfc3339nano (env_now e)\<rparr>)
       store_current (persist_applied x) s"

section \<open>Listings and the download library\<close>

definition page_refusal :: "env \<Rightarrow> request_meta option \<Rightarrow> result_code \<Rightarrow> string \<Rightarrow> 'a page_response" where
  "page_refusal e meta code reason = \<lparr>PageMeta = responseMeta e meta code reason, PageItems = [], PageNext = []\<rparr>"

definition page_ok :: "env \<Rightarrow> request_meta option \<Rightarrow> 'a list \<times> string \<Rightarrow> 'a page_response" where
  "page_ok e meta p = \<lparr>PageMeta = responseMeta e meta RESULT_CODE_OK [], PageItems = fst p, PageNext = snd p\<rparr>"

definition no_page_request :: page_request where
  "no_page_request = \<lparr>Page_Meta = None, Page_Filter = [], Page_Size = 0, Page_Token = []\<rparr>"

text \<open>The list handlers: \<open>mem\<close> gives the items held in memory, \<open>rows limit offset\<close> reads the database.\<close>

definition config_listing ::
    "ext \<Rightarrow> env \<Rightarrow> auth_actor option \<Rightarrow> page_request option \<Rightarrow> string \<Rightarrow> string
     \<Rightarrow> (page_request \<Rightarrow> nat \<Rightarrow> nat \<Rightarrow> config_service \<Rightarrow> 'a list option \<times> config_service)
     \<Rightarrow> (page_request \<Rightarrow> config_service \<Rightarrow> 'a list)
     \<Rightarrow> config_service \<Rightarrow> 'a page_response \<times> config_service" where
  "config_listing x e ctx req objectType action rows mem s =
     (let r = (case req of None \<Rightarrow> no_page_request | Some r \<Rightarrow> r); meta = Page_Meta r
      in case authorize_backoffice ctx meta of
           Some reason \<Rightarrow>
             (page_refusal e meta RESULT_CODE_DENIED reason, config_denied x e meta objectType [] action reason s)
         | None \<Rightarrow>
           let start = page_start (Page_Token r); psize = page_size 50 (Page_Size r)
           in if svc_db s \<noteq> None then
                (case rows r psize start s of
                   (None, s1) \<Rightarrow> (page_refusal e meta RESULT_CODE_ERROR ''persistence unavailable'', s1)
                 | (Some items, s1) \<Rightarrow> (page_ok e meta (items, db_next start psize items), s1))
              else (page_ok e meta (page_slice start psize (mem r s)), s))"

text \<open>The newest change first.\<close>

definition history_of :: "string \<Rightarrow> config_service \<Rightarrow> config_change list" where
  "history_of namespaceFilter s =
     filter (\<lambda>c. namespaceFilter = [] \<or> ConfigNamespace c = namespaceFilter)
       (List.map_filter (changes s) (rev (changeOrder s)))"

definition ListConfigHistory ::
    "ext \<Rightarrow> env \<Rightarrow> auth_actor option \<Rightarrow> page_request option \<Rightarrow> config_service
     \<Rightarrow> config_change page_response \<times> config_service" where
  "ListConfigHistory x e ctx req s =
     config_listing x e ctx req ''config_change'' ''list_config_history''
       (\<lambda>r. listConfigHistoryFromDB x (Page_Filter r)) (\<lambda>r. history_of (Page_Filter r)) s"

definition entry_refusal :: "env \<Rightarrow> request_meta option \<Rightarrow> result_code \<Rightarrow> string \<Rightarrow> entry_response outcome" where
  "entry_refusal e meta code reason = Returns \<lparr>EntMeta = responseMeta e meta code reason, EntEntry = None\<rparr>"

definition stamped_entry :: "env \<Rightarrow> string \<Rightarrow> download_entry \<Rightarrow> download_entry" where
  "stamped_entry e by d =
     (let d1 = d\<lparr>ChangedBy := by\<rparr>
      in if EntryOccurredAt d1 = [] then d1\<lparr>EntryOccurredAt := fmt_rfc3339nano (env_now e)\<rparr> else d1)"

definition file_entry :: "download_entry \<Rightarrow> config_service \<Rightarrow> config_service" where
  "file_entry d s =
     (if config_disableInMemoryCache s then s
      else s\<lparr>downloadEntries := (downloadEntries s)(EntryId d \<mapsto> d), downloadOrder := downloadOrder s @ [EntryId d]\<rparr>)"

definition record_entry ::
    "ext \<Rightarrow> env \<Rightarrow> request_meta option \<Rightarrow> download_entry \<Rightarrow> config_service \<Rightarrow> entry_response outcome \<times> config_service" where
  "record_entry x e meta d s =
     (case config_appendAudit x e meta ''download_library_entry'' (EntryId d) ''record_download_library_change''
             json_empty (download_json d) ResultSuccess (EntryReason d) s of
        (False, s1) \<Rightarrow> (entry_refusal e meta RESULT_CODE_ERROR ''audit unavailable'', s1)
      | (True, s1) \<Rightarrow>
        (case persistDownloadEntry x d s1 of
           (False, s2) \<Rightarrow> (entry_refusal e meta RESULT_CODE_ERROR ''persistence unavailable'', s2)
         | (True, s2) \<Rightarrow>
             (Returns \<lparr>EntMeta = responseMeta e meta RESULT_CODE_OK [], EntEntry = Some d\<rparr>, file_entry d s2)))"

text \<open>The entry with its identifier: who changed it and when, and the signature of an activation.\<close>

definition checked_entry ::
    "ext \<Rightarrow> env \<Rightarrow> request_meta option \<Rightarrow> download_entry \<Rightarrow> config_service \<Rightarrow> entry_response outcome \<times> config_service" where
  "checked_entry x e meta d s =
     (if Action d \<noteq> DOWNLOAD_ACTION_ACTIVATE then record_entry x e meta d s
      else if SignerKid d = [] \<or> Signature d = [] then
        (entry_refusal e meta RESULT_CODE_INVALID ''activation requires signer_kid and signature'', s)
      else if \<not> verifyDownloadSignature x d (downloadSigKeys s (SignerKid d)) then
        (entry_refusal e meta RESULT_CODE_DENIED ''invalid download signature'',
         config_denied x e meta ''download_library_entry'' (EntryId d) ''record_download_library_change''
           ''invalid download signature'' s)
      else record_entry x e meta
        (if SignatureAlg d = [] then d\<lparr>SignatureAlg := ''HMAC-SHA256''\<rparr> else d) s)"

definition RecordDownloadLibraryChange ::
    "ext \<Rightarrow> env \<Rightarrow> auth_actor option \<Rightarrow> entry_request option \<Rightarrow> config_service
     \<Rightarrow> entry_response outcome \<times> config_service" where
  "RecordDownloadLibraryChange x e ctx req s =
     (case Option.bind req (\<lambda>r. map_option (Pair (Entry_Meta r)) (Entry_Entry r)) of
        None \<Rightarrow> (entry_refusal e None RESULT_CODE_INVALID ''entry library_path/checksum/version are required'', s)
      | Some (meta, d) \<Rightarrow>
        if LibraryPath d = [] \<or> Checksum d = [] \<or> Version d = [] then
          (entry_refusal e None RESULT_CODE_INVALID ''entry library_path/checksum/version are required'', s)
        else (case authorize_backoffice ctx meta of
          Some reason \<Rightarrow>
            (entry_refusal e meta RESULT_CODE_DENIED reason,
             config_denied x e meta ''download_library_entry'' [] ''record_download_library_change'' reason s)
        | None \<Rightarrow>
          let (d1, s1) = (if EntryId d = []
                          then (d\<lparr>EntryId := ''dll-'' @ itoa_nat (Suc (nextEntryID s))\<rparr>,
                                s\<lparr>nextEntryID := Suc (nextEntryID s)\<rparr>)
                          else (d, s))
          in (case (if ChangedBy d1 = [] then meta_actor_id meta else Some (ChangedBy d1)) of
                None \<Rightarrow> (Panics, s1)
              | Some by \<Rightarrow> checked_entry x e meta (stamped_entry e by d1) s1)))"

text \<open>\<^verbatim>\<open>sort.SliceStable\<close> by the time as text, newest first, then by identifier.\<close>

definition download_before :: "download_entry \<Rightarrow> download_entry \<Rightarrow> bool" where
  "download_before a b =
     (if EntryOccurredAt a = EntryOccurredAt b then EntryId a < EntryId b else EntryOccurredAt b < EntryOccurredAt a)"

text \<open>Every identifier of \<open>downloadOrder\<close> is a key of \<open>downloadEntries\<close>.\<close>

definition downloads_of :: "config_service \<Rightarrow> download_entry list" where
  "downloads_of s = stable_sort download_before (List.map_filter (downloadEntries s) (downloadOrder s))"

definition ListDownloadLibraryChanges ::
    "ext \<Rightarrow> env \<Rightarrow> auth_actor option \<Rightarrow> page_request option \<Rightarrow> config_service
     \<Rightarrow> download_entry page_response \<times> config_service" where
  "ListDownloadLibraryChanges x e ctx req s =
     config_listing x e ctx req ''download_library_entry'' ''list_download_library_changes''
       (\<lambda>r. listDownloadEntriesFromDB x) (\<lambda>r. downloads_of) s"

end
