(* ===== verification/ConfigProps.thy ===== *)
theory ConfigProps
  imports Config
begin

text \<open>
  Change control: a configuration change goes from proposed to approved to applied and never back, and a value is only in
  force when it was the proposed value of an applied change. An approval without an actor in the request panics with the
  change already approved. The download library lists what was recorded, in order.
\<close>

section \<open>The specification of change control\<close>

type_synonym config_book = "(string \<rightharpoonup> config_change) \<times> (string \<rightharpoonup> string) \<times> nat"

definition change_key :: "config_change \<Rightarrow> string" where
  "change_key c = keyFor (ConfigNamespace c) (ConfigKey c)"

text \<open>
  \<open>skip\<close> is an identifier that is drawn and not used; \<open>mark\<close> is an application that does not put the value in force: the
  handler panicked, or the memory is switched off.
\<close>

inductive config_step :: "config_book \<Rightarrow> config_book \<Rightarrow> bool" where
  skip: "config_step (m, v, n) (m, v, Suc n)"
| propose: "ChangeId c = change_id (Suc n) \<Longrightarrow> ChangeStatus c = CONFIG_CHANGE_STATUS_PROPOSED \<Longrightarrow> ApproverId c = [] \<Longrightarrow>
     config_step (m, v, n) (m(ChangeId c \<mapsto> c), v, Suc n)"
| approve: "m cid = Some c \<Longrightarrow> ChangeStatus c = CONFIG_CHANGE_STATUS_PROPOSED \<Longrightarrow>
     config_step (m, v, n)
       (m(cid \<mapsto> c\<lparr>ChangeStatus := CONFIG_CHANGE_STATUS_APPROVED, ApproverId := who, ApprovedAt := t\<rparr>), v, n)"
| enforce: "m cid = Some c \<Longrightarrow> ChangeStatus c = CONFIG_CHANGE_STATUS_APPROVED \<Longrightarrow>
     config_step (m, v, n)
       (m(cid \<mapsto> c\<lparr>ChangeStatus := CONFIG_CHANGE_STATUS_APPLIED, AppliedBy := who, AppliedAt := t\<rparr>),
        v(change_key c \<mapsto> ProposedValue c), n)"
| mark: "m cid = Some c \<Longrightarrow> ChangeStatus c = CONFIG_CHANGE_STATUS_APPROVED \<Longrightarrow>
     config_step (m, v, n)
       (m(cid \<mapsto> c\<lparr>ChangeStatus := CONFIG_CHANGE_STATUS_APPLIED, AppliedBy := who, AppliedAt := t\<rparr>), v, n)"

definition config_book_ok :: "config_book \<Rightarrow> bool" where
  "config_book_ok b \<longleftrightarrow> (\<forall>cid c. fst b cid = Some c \<longrightarrow> ChangeId c = cid \<and>
     ChangeStatus c \<in> {CONFIG_CHANGE_STATUS_PROPOSED, CONFIG_CHANGE_STATUS_APPROVED, CONFIG_CHANGE_STATUS_APPLIED} \<and>
     (ChangeStatus c = CONFIG_CHANGE_STATUS_PROPOSED \<longrightarrow> ApproverId c = []) \<and>
     (\<exists>k \<le> snd (snd b). cid = change_id k))"

text \<open>Every value in force is the proposed value of an applied change of its key.\<close>

definition applied_change :: "(string \<rightharpoonup> config_change) \<Rightarrow> string \<Rightarrow> string \<Rightarrow> bool" where
  "applied_change m k val \<longleftrightarrow> (\<exists>cid c. m cid = Some c \<and> ChangeStatus c = CONFIG_CHANGE_STATUS_APPLIED \<and>
     change_key c = k \<and> ProposedValue c = val)"

definition values_applied :: "config_book \<Rightarrow> bool" where
  "values_applied b \<longleftrightarrow> (\<forall>k val. fst (snd b) k = Some val \<longrightarrow> applied_change (fst b) k val)"

text \<open>What is kept of a change: what was proposed, by whom and when; its approval once approved; all of it once applied.\<close>

definition change_later :: "config_change \<Rightarrow> config_change \<Rightarrow> bool" where
  "change_later c d \<longleftrightarrow> ChangeId d = ChangeId c \<and> ConfigNamespace d = ConfigNamespace c \<and> ConfigKey d = ConfigKey c \<and>
     ProposedValue d = ProposedValue c \<and> PreviousValue d = PreviousValue c \<and> ChangeReason d = ChangeReason c \<and>
     ProposerId d = ProposerId c \<and> CreatedAt d = CreatedAt c \<and>
     config_status_number (ChangeStatus c) \<le> config_status_number (ChangeStatus d) \<and>
     (2 \<le> config_status_number (ChangeStatus c) \<longrightarrow> ApproverId d = ApproverId c \<and> ApprovedAt d = ApprovedAt c) \<and>
     (3 \<le> config_status_number (ChangeStatus c) \<longrightarrow> d = c)"

definition config_later :: "config_book \<Rightarrow> config_book \<Rightarrow> bool" where
  "config_later b b' \<longleftrightarrow> (\<forall>cid c. fst b cid = Some c \<longrightarrow> (\<exists>d. fst b' cid = Some d \<and> change_later c d))"

lemma change_id_inj [simp]: "change_id k = change_id n \<longleftrightarrow> k = n"
  by (simp add: change_id_def)

lemma config_book_fresh: "config_book_ok (m, v, n) \<Longrightarrow> m (change_id (Suc n)) = None"
  by (rule ccontr) (fastforce simp: config_book_ok_def)

lemma config_book_ok_step: "config_step b b' \<Longrightarrow> config_book_ok b \<Longrightarrow> config_book_ok b'"
proof (induction rule: config_step.induct)
  case (skip m v n)
  then show ?case unfolding config_book_ok_def by (metis fst_conv le_SucI snd_conv)
next
  case (propose c n m v)
  then have "m cid = Some d \<Longrightarrow> \<exists>k \<le> Suc n. cid = change_id k" for cid d
    unfolding config_book_ok_def by (metis fst_conv le_SucI snd_conv)
  with propose show ?case by (auto simp: config_book_ok_def)
qed (auto simp: config_book_ok_def)

lemma applied_change_upd:
  assumes "applied_change m k val" "\<And>c. m cid = Some c \<Longrightarrow> ChangeStatus c \<noteq> CONFIG_CHANGE_STATUS_APPLIED"
  shows "applied_change (m(cid \<mapsto> d)) k val"
proof -
  obtain cid' c where "m cid' = Some c" "ChangeStatus c = CONFIG_CHANGE_STATUS_APPLIED" "change_key c = k" "ProposedValue c = val"
    using assms(1) unfolding applied_change_def by blast
  moreover from this assms(2) have "cid' \<noteq> cid" by blast
  ultimately show ?thesis unfolding applied_change_def by (intro exI [of _ cid'] exI [of _ c]) simp
qed

lemma values_applied_upd:
  "values_applied (m, v, n) \<Longrightarrow> (\<And>c. m cid = Some c \<Longrightarrow> ChangeStatus c \<noteq> CONFIG_CHANGE_STATUS_APPLIED) \<Longrightarrow>
   values_applied (m(cid \<mapsto> d), v, k)"
  by (simp add: values_applied_def applied_change_upd)

lemma values_applied_step: "config_step b b' \<Longrightarrow> config_book_ok b \<Longrightarrow> values_applied b \<Longrightarrow> values_applied b'"
proof (induction rule: config_step.induct)
  case (skip m v n)
  then show ?case by (simp add: values_applied_def)
next
  case (propose c n m v)
  then show ?case using config_book_fresh [of m v n] by (intro values_applied_upd) auto
next
  case (approve m cid c v n who t)
  then show ?case by (intro values_applied_upd) auto
next
  case (mark m cid c v n who t)
  then show ?case by (intro values_applied_upd) auto
next
  case (enforce m cid c v n t who)
  let ?d = "c\<lparr>ChangeStatus := CONFIG_CHANGE_STATUS_APPLIED, AppliedBy := who, AppliedAt := t\<rparr>"
  have "values_applied (m(cid \<mapsto> ?d), v, n)" using enforce by (intro values_applied_upd) auto
  moreover have "applied_change (m(cid \<mapsto> ?d)) (change_key c) (ProposedValue c)"
    unfolding applied_change_def by (intro exI [of _ cid] exI [of _ ?d]) (simp add: change_key_def)
  ultimately show ?case by (simp add: values_applied_def)
qed

lemma change_later_refl [simp]: "change_later c c"
  by (simp add: change_later_def)

lemma config_later_refl [simp]: "config_later b b"
  by (auto simp: config_later_def)

lemma change_later_trans: "change_later a b \<Longrightarrow> change_later b c \<Longrightarrow> change_later a c"
  by (auto simp: change_later_def)

lemma config_later_trans: "config_later a b \<Longrightarrow> config_later b c \<Longrightarrow> config_later a c"
  unfolding config_later_def using change_later_trans by meson

lemma config_later_step: "config_step b b' \<Longrightarrow> config_book_ok b \<Longrightarrow> config_later b b'"
proof (induction rule: config_step.induct)
  case (propose c n m v)
  then show ?case using config_book_fresh [of m v n] by (auto simp: config_later_def)
qed (auto simp: config_later_def change_later_def)

lemma config_steps:
  "config_step\<^sup>*\<^sup>* b b' \<Longrightarrow> config_book_ok b \<Longrightarrow> values_applied b \<Longrightarrow>
   config_later b b' \<and> config_book_ok b' \<and> values_applied b'"
proof (induction rule: rtranclp_induct)
  case (step b c)
  then show ?case
    using config_later_step config_later_trans config_book_ok_step values_applied_step by blast
qed simp

section \<open>The handlers implement it\<close>

definition config_view :: "config_service \<Rightarrow> config_book" where
  "config_view s = (changes s, currentValues s, nextChangeID s)"

definition downloads_ok :: "config_service \<Rightarrow> bool" where
  "downloads_ok s \<longleftrightarrow> set (downloadOrder s) \<subseteq> dom (downloadEntries s)"

text \<open>What one call may do to a service without a database.\<close>

definition config_call :: "ext \<Rightarrow> config_service \<Rightarrow> config_service \<Rightarrow> bool" where
  "config_call x s s' \<longleftrightarrow> mem_idle x s' \<and> config_step\<^sup>=\<^sup>= (config_view s) (config_view s') \<and> (downloads_ok s \<longrightarrow> downloads_ok s')"

lemma config_appendAudit_mem:
  assumes "mem_idle x s"
  obtains st n where "config_appendAudit x e meta ot oid act b a r why s = (True, s\<lparr>svc_AuditStore := st, svc_nextAuditID := n\<rparr>)"
    "mem_idle x (s\<lparr>svc_AuditStore := st, svc_nextAuditID := n\<rparr>)"
  by (rule svc_append_mem [OF assms]) (rule that [unfolded config_appendAudit_def])

lemma config_mem [simp]:
  assumes "svc_db s = None"
  shows "persistConfigChange x c s = (True, s)" "persistCurrentValue ns k val u s = (True, s)"
    "persistDownloadEntry x d s = (True, s)" "persist_applied x c s = (True, s)" "find_change cid s = (Some (changes s cid), s)"
  using assms
  by (simp_all add: persistConfigChange_def persistCurrentValue_def persistDownloadEntry_def persist_applied_def svc_exec_def
      find_change_def split: option.splits)

lemma config_call_same: "mem_idle x s \<Longrightarrow> config_call x s s"
  by (simp add: config_call_def)

lemma config_call_audited:
  assumes "mem_idle x s1" "config_step\<^sup>=\<^sup>= (config_view s) (config_view s1)" "downloads_ok s \<longrightarrow> downloads_ok s1"
  shows "config_call x s (snd (config_appendAudit x e meta ot oid act b a r why s1))"
  by (rule config_appendAudit_mem [OF assms(1), of e meta ot oid act b a r why])
     (use assms(2,3) in \<open>simp add: config_call_def config_view_def downloads_ok_def\<close>)

lemma config_denied_call: "mem_idle x s \<Longrightarrow> config_call x s (config_denied x e meta ot oid act why s)"
  unfolding config_denied_def by (intro config_call_audited) simp_all

lemma ProposeConfigChange_call:
  assumes idle: "mem_idle x s"
  shows "config_call x s (snd (ProposeConfigChange x e ctx req s))"
proof -
  have db: "svc_db s = None" using idle by (simp add: mem_idle_def)
  let ?s = "s\<lparr>nextChangeID := Suc (nextChangeID s)\<rparr>"
  have idle': "mem_idle x ?s" using idle by (simp add: mem_idle_def svc_ok_def)
  have skip: "config_call x s ?s"
    using idle' config_step.skip by (simp add: config_call_def config_view_def downloads_ok_def)
  have filed: "config_call x s (snd (case config_appendAudit x e meta ot oid act b a r why ?s of
        (False, s3) \<Rightarrow> (bad s3, s3)
      | (True, s3) \<Rightarrow> (case persistConfigChange x c s3 of (False, s4) \<Rightarrow> (bad' s4, s4) | (True, s4) \<Rightarrow> (good, file_change c s4))))"
    if "ChangeId c = change_id (Suc (nextChangeID s))" "ChangeStatus c = CONFIG_CHANGE_STATUS_PROPOSED" "ApproverId c = []"
    for meta ot oid act b a r why c bad bad' good
    by (rule config_appendAudit_mem [OF idle', of e meta ot oid act b a r why])
       (use db that config_step.skip config_step.propose [OF that] in
         \<open>simp add: config_call_def config_view_def downloads_ok_def file_change_def mem_idle_def svc_ok_def\<close>)
  show ?thesis
    using db
    by (auto simp: ProposeConfigChange_def Let_def new_change_def intro!: skip filed
        config_call_same [OF idle] config_denied_call [OF idle] split: option.splits)
qed

lemma advance_change_call:
  assumes idle: "mem_idle x s"
    and panicked: "\<And>cid c. changes s cid = Some c \<Longrightarrow> ChangeStatus c = from \<Longrightarrow>
      config_step (config_view s) (config_view (put_change cid (c\<lparr>ChangeStatus := to\<rparr>) s))"
    and signed: "\<And>cid c who. changes s cid = Some c \<Longrightarrow> ChangeStatus c = from \<Longrightarrow>
      config_step (config_view s)
        (config_view (note_value (sign who (c\<lparr>ChangeStatus := to\<rparr>)) (put_change cid (sign who (c\<lparr>ChangeStatus := to\<rparr>)) s)))"
    and frame: "\<And>c s. note_value c s = s\<lparr>currentValues := currentValues (note_value c s)\<rparr>"
    and persist: "\<And>c s. svc_db s = None \<Longrightarrow> persist c s = (True, s)"
  shows "config_call x s (snd (advance_change x e ctx req act from why to sign note_value persist s))"
proof -
  have db: "svc_db s = None" using idle by (simp add: mem_idle_def)
  have quiet: "mem_idle x (note_value c (put_change cid d s)) \<and> mem_idle x (put_change cid d s) \<and>
      downloads_ok (note_value c (put_change cid d s)) = downloads_ok s \<and> downloads_ok (put_change cid d s) = downloads_ok s"
    for c cid d
    by (subst (1 2) frame) (use idle in \<open>simp add: mem_idle_def svc_ok_def downloads_ok_def put_change_def\<close>)
  have panic: "config_call x s (put_change cid (c\<lparr>ChangeStatus := to\<rparr>) s)"
    if "changes s cid = Some c" "ChangeStatus c = from" for cid c
    using panicked [OF that] quiet by (simp add: config_call_def)
  have step: "config_call x s (snd (case config_appendAudit x e meta ot oid act b a r why (note_value c2 (put_change cid c2 s)) of
        (False, s3) \<Rightarrow> (bad, s3)
      | (True, s3) \<Rightarrow> (case persist c2 s3 of (False, s4) \<Rightarrow> (bad', s4) | (True, s4) \<Rightarrow> (good, s4))))"
    if "changes s cid = Some c" "ChangeStatus c = from" "c2 = sign who (c\<lparr>ChangeStatus := to\<rparr>)"
    for meta ot oid act b a r why c c2 cid bad bad' good who
  proof -
    let ?s = "note_value c2 (put_change cid c2 s)"
    have idle': "mem_idle x ?s" using quiet by blast
    have "config_call x s (snd (config_appendAudit x e meta ot oid act b a r why ?s))"
      using signed [OF that(1,2), of who] that(3) quiet by (intro config_call_audited) auto
    moreover obtain st n where "config_appendAudit x e meta ot oid act b a r why ?s = (True, ?s\<lparr>svc_AuditStore := st, svc_nextAuditID := n\<rparr>)"
      by (rule config_appendAudit_mem [OF idle', of e meta ot oid act b a r why])
    moreover have "svc_db ?s = None" using idle' by (simp add: mem_idle_def)
    ultimately show ?thesis by (simp add: persist)
  qed
  show ?thesis
    using db
    by (auto simp: advance_change_def Let_def intro!: panic step
        config_call_same [OF idle] config_denied_call [OF idle] split: option.splits)
qed

lemma ApproveConfigChange_call:
  assumes "mem_idle x s"
  shows "config_call x s (snd (ApproveConfigChange x e ctx req s))"
  unfolding ApproveConfigChange_def
proof (rule advance_change_call [OF assms])
  fix cid c assume c: "changes s cid = Some c" "ChangeStatus c = CONFIG_CHANGE_STATUS_PROPOSED"
  from config_step.approve [of "changes s", OF c, of "currentValues s" "nextChangeID s" "ApprovedAt c" "ApproverId c"] c(1)
  show "config_step (config_view s) (config_view (put_change cid (c\<lparr>ChangeStatus := CONFIG_CHANGE_STATUS_APPROVED\<rparr>) s))"
    by (simp add: config_view_def put_change_def)
qed (auto simp: config_view_def put_change_def intro: config_step.approve)

lemma ApplyConfigChange_call:
  assumes "mem_idle x s"
  shows "config_call x s (snd (ApplyConfigChange x e ctx req s))"
  unfolding ApplyConfigChange_def
proof (rule advance_change_call [OF assms])
  fix cid c who assume c: "changes s cid = Some c" "ChangeStatus c = CONFIG_CHANGE_STATUS_APPROVED"
  from config_step.mark [of "changes s", OF c, of "currentValues s" "nextChangeID s" "AppliedAt c" "AppliedBy c"] c(1)
  show "config_step (config_view s) (config_view (put_change cid (c\<lparr>ChangeStatus := CONFIG_CHANGE_STATUS_APPLIED\<rparr>) s))"
    by (simp add: config_view_def put_change_def)
  let ?d = "c\<lparr>ChangeStatus := CONFIG_CHANGE_STATUS_APPLIED, AppliedBy := who, AppliedAt := fmt_rfc3339nano (env_now e)\<rparr>"
  show "config_step (config_view s) (config_view (store_current ?d (put_change cid ?d s)))"
    using c config_step.mark [of "changes s", OF c] config_step.enforce [of "changes s", OF c]
    by (simp add: config_view_def put_change_def store_current_def change_key_def)
qed (simp_all add: store_current_def)

lemma record_entry_call:
  assumes "mem_idle x s1" "config_view s1 = config_view s" "downloads_ok s \<longrightarrow> downloads_ok s1"
  shows "config_call x s (snd (record_entry x e meta d s1))"
  by (rule config_appendAudit_mem [OF assms(1), of e meta "''download_library_entry''" "EntryId d"
        "''record_download_library_change''" json_empty "download_json d" ResultSuccess "EntryReason d"])
     (use assms in \<open>auto simp: record_entry_def config_call_def config_view_def downloads_ok_def file_entry_def
        mem_idle_def svc_ok_def\<close>)

lemma checked_entry_call:
  assumes "mem_idle x s1" "config_view s1 = config_view s" "downloads_ok s \<longrightarrow> downloads_ok s1"
  shows "config_call x s (snd (checked_entry x e meta d s1))"
proof -
  have "config_call x s s1" using assms by (simp add: config_call_def)
  moreover have "config_call x s (config_denied x e meta ot oid act why s1)" for ot oid act why
    unfolding config_denied_def using assms by (intro config_call_audited) simp_all
  ultimately show ?thesis
    using record_entry_call [OF assms] by (simp add: checked_entry_def)
qed

lemma RecordDownload_call:
  assumes idle: "mem_idle x s"
  shows "config_call x s (snd (RecordDownloadLibraryChange x e ctx req s))"
proof -
  let ?s = "s\<lparr>nextEntryID := Suc (nextEntryID s)\<rparr>"
  have idle': "mem_idle x ?s" using idle by (simp add: mem_idle_def svc_ok_def)
  have view: "config_view ?s = config_view s" "downloads_ok ?s = downloads_ok s"
    by (simp_all add: config_view_def downloads_ok_def)
  have checked: "config_call x s (snd (checked_entry x e meta d ?s))" "config_call x s (snd (checked_entry x e meta d s))" for meta d
    using idle idle' view by (simp_all add: checked_entry_call)
  moreover have "config_call x s ?s" using idle' view by (simp add: config_call_def)
  ultimately show ?thesis
    using config_call_same [OF idle] config_denied_call [OF idle]
    by (simp add: RecordDownloadLibraryChange_def Let_def split: option.splits)
qed

lemma config_listing_call:
  assumes "mem_idle x s"
  shows "config_call x s (snd (config_listing x e ctx req ot act rows mem s))"
  using assms
  by (auto simp: config_listing_def Let_def mem_idle_def intro!: config_call_same config_denied_call split: option.splits)

datatype config_request =
    CallPropose "propose_request option" | CallApprove "change_request option" | CallApply "change_request option"
  | CallHistory "page_request option" | CallRecord "entry_request option" | CallDownloads "page_request option"
  | CallSigKeys "(string \<times> string) list" | CallConfigCache bool

type_synonym config_input = "env \<times> auth_actor option \<times> config_request"

fun config_react :: "ext \<Rightarrow> config_input \<Rightarrow> config_service \<Rightarrow> config_service" where
  "config_react x (e, ctx, CallPropose r) s = snd (ProposeConfigChange x e ctx r s)"
| "config_react x (e, ctx, CallApprove r) s = snd (ApproveConfigChange x e ctx r s)"
| "config_react x (e, ctx, CallApply r) s = snd (ApplyConfigChange x e ctx r s)"
| "config_react x (e, ctx, CallHistory r) s = snd (ListConfigHistory x e ctx r s)"
| "config_react x (e, ctx, CallRecord r) s = snd (RecordDownloadLibraryChange x e ctx r s)"
| "config_react x (e, ctx, CallDownloads r) s = snd (ListDownloadLibraryChanges x e ctx r s)"
| "config_react x (e, ctx, CallSigKeys ks) s = SetDownloadSignatureKeys ks s"
| "config_react x (e, ctx, CallConfigCache b) s = config_SetDisableInMemoryCache b s"

definition config_runs :: "ext \<Rightarrow> config_input list \<Rightarrow> config_service" where
  "config_runs x reqs = fold (config_react x) reqs (NewConfigService None)"

lemma config_switch_call:
  "mem_idle x s \<Longrightarrow> config_call x s (SetDownloadSignatureKeys ks s) \<and> config_call x s (config_SetDisableInMemoryCache b s)"
  by (simp add: SetDownloadSignatureKeys_def config_SetDisableInMemoryCache_def config_call_def config_view_def
      mem_idle_def svc_ok_def downloads_ok_def)

lemma config_react_call:
  assumes "mem_idle x s"
  shows "config_call x s (config_react x i s)"
proof -
  obtain e ctx c where i: "i = (e, ctx, c)" by (cases i) auto
  show ?thesis
    using assms by (cases c) (simp_all add: i ProposeConfigChange_call ApproveConfigChange_call ApplyConfigChange_call
        ListConfigHistory_def ListDownloadLibraryChanges_def config_listing_call RecordDownload_call config_switch_call)
qed

definition config_inv :: "ext \<Rightarrow> config_service \<Rightarrow> bool" where
  "config_inv x s \<longleftrightarrow> mem_idle x s \<and> downloads_ok s"

interpretation cfg: simulation "\<lambda>s. s = NewConfigService None" "config_react x" "config_inv x" config_view config_step for x
proof unfold_locales
  fix s i assume "config_inv x s"
  then show "config_inv x (config_react x i s)" "config_step\<^sup>*\<^sup>* (config_view s) (config_view (config_react x i s))"
    using config_react_call [of x s i] by (auto simp: config_inv_def config_call_def)
qed (simp add: config_inv_def mem_idle_def NewConfigService_def svc_ok_def downloads_ok_def)

lemma config_runs_inv: "config_inv x (config_runs x reqs)"
  unfolding config_runs_def by (rule cfg.always_inv) simp

lemma config_runs_book: "config_book_ok (config_view (config_runs x reqs)) \<and> values_applied (config_view (config_runs x reqs))
    \<and> config_step\<^sup>*\<^sup>* (Map.empty, Map.empty, 0) (config_view (config_runs x reqs))"
proof -
  have "config_step\<^sup>*\<^sup>* (config_view (NewConfigService None)) (config_view (config_runs x reqs))"
    unfolding config_runs_def by (rule cfg.run_simulates [where x = x])
      (simp add: config_inv_def mem_idle_def NewConfigService_def svc_ok_def downloads_ok_def)
  moreover have "config_view (NewConfigService None) = (Map.empty, Map.empty, 0)"
    by (simp add: config_view_def NewConfigService_def)
  moreover have "config_book_ok (Map.empty, Map.empty, 0)" "values_applied (Map.empty, Map.empty, 0)"
    by (simp_all add: config_book_ok_def values_applied_def)
  ultimately show ?thesis using config_steps by metis
qed

section \<open>Properties\<close>

text \<open>
  C33. Without a database the configuration service is change control: any sequence of requests is a run of the
  specification \<open>config_step\<close>; whatever requests follow, a change keeps what was proposed, its status never goes back, an
  approval is kept from then on and an applied change never changes again; and every value in force is the proposed value
  of an applied change of its key.
\<close>

theorem config_change_control:
  "config_step\<^sup>*\<^sup>* (Map.empty, Map.empty, 0) (config_view (config_runs x reqs)) \<and>
   config_later (config_view (config_runs x reqs)) (config_view (config_runs x (reqs @ later))) \<and>
   values_applied (config_view (config_runs x reqs))"
proof -
  have "config_step\<^sup>*\<^sup>* (config_view (config_runs x reqs)) (config_view (config_runs x (reqs @ later)))"
    using cfg.run_simulates [OF config_runs_inv [of x reqs], of later] by (simp add: config_runs_def)
  then show ?thesis using config_runs_book [of x reqs] config_steps by metis
qed

section \<open>Approval without an actor\<close>

text \<open>What an admitted application answers and does in memory.\<close>

lemma ApplyConfigChange_admitted:
  fixes e :: env
  assumes "mem_idle x s" "\<not> config_disableInMemoryCache s" "changes s (Change_Id r) = Some c" "Change_Id r \<noteq> []"
    "ChangeStatus c = CONFIG_CHANGE_STATUS_APPROVED" "authorize_backoffice ctx (Change_Meta r) = None"
    "meta_actor_id (Change_Meta r) = Some who"
  defines "d \<equiv> c\<lparr>ChangeStatus := CONFIG_CHANGE_STATUS_APPLIED, AppliedBy := who, AppliedAt := fmt_rfc3339nano (env_now e)\<rparr>"
  shows "fst (ApplyConfigChange x e ctx (Some r) s) = change_ok e (Change_Meta r) d \<and>
    currentValues (snd (ApplyConfigChange x e ctx (Some r) s)) (change_key c) = Some (ProposedValue c)"
proof -
  let ?s = "store_current d (put_change (Change_Id r) d s)"
  have db: "svc_db s = None" using assms(1) by (simp add: mem_idle_def)
  have idle: "mem_idle x ?s" using assms(1) by (simp add: mem_idle_def svc_ok_def store_current_def put_change_def)
  obtain st n where "config_appendAudit x e (Change_Meta r) ''config_change'' (ChangeId d) ''apply_config_change''
      (change_json c) (change_json d) ResultSuccess (Change_Reason r) ?s = (True, ?s\<lparr>svc_AuditStore := st, svc_nextAuditID := n\<rparr>)"
    by (rule config_appendAudit_mem [OF idle])
  moreover have "svc_db ?s = None" using idle by (simp add: mem_idle_def)
  moreover have "currentValues ?s (change_key c) = Some (ProposedValue c)"
    using assms(2) by (simp add: store_current_def put_change_def change_key_def d_def)
  ultimately show ?thesis
    using assms(3-7) db by (simp add: ApplyConfigChange_def advance_change_def Let_def d_def)
qed

text \<open>
  A token-authorised caller whose request names no actor makes the approval panic after the change was marked: the
  change is approved with no approver and no audit event, and the next application puts its value in force.
\<close>

theorem approval_without_actor:
  assumes "s = config_runs x reqs" "\<not> config_disableInMemoryCache s"
    and "changes s cid = Some c" "ChangeStatus c = CONFIG_CHANGE_STATUS_PROPOSED"
    and "Change_Id r = cid" "authorize_backoffice ctx (Change_Meta r) = None" "meta_actor_id (Change_Meta r) = None"
    and "Change_Id r' = cid" "authorize_backoffice ctx' (Change_Meta r') = None" "meta_actor_id (Change_Meta r') = Some who"
    and "s1 = snd (ApproveConfigChange x e ctx (Some r) s)"
  shows "fst (ApproveConfigChange x e ctx (Some r) s) = Panics \<and> svc_trail s1 = svc_trail s \<and>
    changes s1 cid = Some (c\<lparr>ChangeStatus := CONFIG_CHANGE_STATUS_APPROVED\<rparr>) \<and> ApproverId c = [] \<and>
    (\<exists>d. fst (ApplyConfigChange x e' ctx' (Some r') s1) = change_ok e' (Change_Meta r') d \<and> ApproverId d = [] \<and>
         currentValues (snd (ApplyConfigChange x e' ctx' (Some r') s1)) (change_key c) = Some (ProposedValue c))"
proof -
  have idle: "mem_idle x s" using config_runs_inv [of x reqs] assms(1) by (simp add: config_inv_def)
  then have db: "svc_db s = None" by (simp add: mem_idle_def)
  have "config_book_ok (config_view s)" using config_runs_book assms(1) by blast
  then have "\<exists>k. cid = change_id k" and unsigned: "ApproverId c = []"
    using assms(3,4) by (auto simp: config_book_ok_def config_view_def)
  then have cid: "cid \<noteq> []" by (auto simp: change_id_def)
  have s1: "ApproveConfigChange x e ctx (Some r) s = (Panics, put_change cid (c\<lparr>ChangeStatus := CONFIG_CHANGE_STATUS_APPROVED\<rparr>) s)"
    using assms(3-7) cid db by (simp add: ApproveConfigChange_def advance_change_def Let_def)
  have idle1: "mem_idle x s1" using idle assms(11) s1 by (simp add: mem_idle_def svc_ok_def put_change_def)
  have held: "changes s1 cid = Some (c\<lparr>ChangeStatus := CONFIG_CHANGE_STATUS_APPROVED\<rparr>)" "\<not> config_disableInMemoryCache s1"
    "svc_trail s1 = svc_trail s"
    using assms(2,3,11) s1 by (simp_all add: put_change_def svc_trail_def)
  note applied = ApplyConfigChange_admitted [where s = s1 and r = r' and ctx = ctx' and e = e' and who = who
      and c = "c\<lparr>ChangeStatus := CONFIG_CHANGE_STATUS_APPROVED\<rparr>" and x = x, OF idle1 held(2)]
  have "change_key (c\<lparr>ChangeStatus := CONFIG_CHANGE_STATUS_APPROVED\<rparr>) = change_key c" by (simp add: change_key_def)
  with applied held assms(8-10) cid unsigned s1 show ?thesis by auto
qed

lemma ProposeConfigChange_admitted:
  assumes "mem_idle x s" "\<not> config_disableInMemoryCache s" "Propose_Namespace r \<noteq> []" "Propose_Key r \<noteq> []" "Propose_Value r \<noteq> []"
    "authorize_backoffice ctx (Propose_Meta r) = None" "meta_actor_id (Propose_Meta r) = Some who"
  shows "\<exists>prev. changes (snd (ProposeConfigChange x e ctx (Some r) s)) (change_id (Suc (nextChangeID s))) =
      Some (new_change e r (change_id (Suc (nextChangeID s))) prev who)
    \<and> \<not> config_disableInMemoryCache (snd (ProposeConfigChange x e ctx (Some r) s))"
proof -
  define prev where "prev = (case currentValues s (keyFor (Propose_Namespace r) (Propose_Key r)) of None \<Rightarrow> [] | Some v \<Rightarrow> v)"
  let ?s = "s\<lparr>nextChangeID := Suc (nextChangeID s)\<rparr>" and ?c = "new_change e r (change_id (Suc (nextChangeID s))) prev who"
  have db: "svc_db s = None" using assms(1) by (simp add: mem_idle_def)
  have idle: "mem_idle x ?s" using assms(1) by (simp add: mem_idle_def svc_ok_def)
  obtain st n where "config_appendAudit x e (Propose_Meta r) ''config_change'' (change_id (Suc (nextChangeID s)))
      ''propose_config_change'' json_empty (change_json ?c) ResultSuccess (Propose_Reason r) ?s =
      (True, ?s\<lparr>svc_AuditStore := st, svc_nextAuditID := n\<rparr>)"
    by (rule config_appendAudit_mem [OF idle])
  moreover have "ChangeId ?c = change_id (Suc (nextChangeID s))" by (simp add: new_change_def)
  ultimately have "changes (snd (ProposeConfigChange x e ctx (Some r) s)) (change_id (Suc (nextChangeID s))) = Some ?c
      \<and> \<not> config_disableInMemoryCache (snd (ProposeConfigChange x e ctx (Some r) s))"
    using assms(2-7) db prev_def by (simp add: ProposeConfigChange_def Let_def file_change_def cong: option.case_cong)
  then show ?thesis by blast
qed

text \<open>An operator proposes a change; another one, known from a token alone, approves it; the first applies it.\<close>

definition demo_propose :: config_input where
  "demo_propose = (demo_env, None, CallPropose (Some \<lparr>Propose_Meta = demo_meta ''k'', Propose_Namespace = ''games'',
     Propose_Key = ''rtp'', Propose_Value = ''94'', Propose_Reason = []\<rparr>))"

definition demo_token :: "auth_actor option" where
  "demo_token = Some \<lparr>AuthID = ''op-2'', AuthType = ''OPERATOR''\<rparr>"

definition demo_change :: "request_meta option \<Rightarrow> change_request" where
  "demo_change meta = \<lparr>Change_Meta = meta, Change_Id = change_id 1, Change_Reason = []\<rparr>"

lemma demo_token_type: "actorTypeFromString ''OPERATOR'' = ACTOR_TYPE_OPERATOR"
  by code_simp

lemma demo_change_admitted:
  "authorize_backoffice demo_token (Change_Meta (demo_change None)) = None" "meta_actor_id (Change_Meta (demo_change None)) = None"
  "authorize_backoffice None (demo_meta ''k'') = None" "meta_actor_id (demo_meta ''k'') = Some ''op-1''"
  "Change_Meta (demo_change meta) = meta" "Change_Id (demo_change meta) = change_id 1"
  by (simp_all add: authorize_backoffice_def resolveActor_def demo_token_def demo_change_def demo_meta_def meta_actor_id_def
      demo_token_type operator_or_service_def)

lemma demo_proposed:
  "\<exists>c. changes (config_runs demo_ext [demo_propose]) (change_id 1) = Some c \<and> ChangeStatus c = CONFIG_CHANGE_STATUS_PROPOSED
     \<and> \<not> config_disableInMemoryCache (config_runs demo_ext [demo_propose])"
proof -
  let ?r = "\<lparr>Propose_Meta = demo_meta ''k'', Propose_Namespace = ''games'', Propose_Key = ''rtp'',
    Propose_Value = ''94'', Propose_Reason = []\<rparr>"
  have "mem_idle demo_ext (NewConfigService None)" "\<not> config_disableInMemoryCache (NewConfigService None)"
    "nextChangeID (NewConfigService None) = 0"
    by (simp_all add: mem_idle_def NewConfigService_def svc_ok_def)
  then show ?thesis
    using ProposeConfigChange_admitted [of demo_ext "NewConfigService None" ?r None "''op-1''" demo_env] demo_change_admitted(3,4)
    by (auto simp: config_runs_def demo_propose_def new_change_def)
qed

theorem approval_without_actor_witness:
  "fst (ApproveConfigChange demo_ext demo_env demo_token (Some (demo_change None)) (config_runs demo_ext [demo_propose])) = Panics"
proof -
  obtain c where "changes (config_runs demo_ext [demo_propose]) (change_id 1) = Some c"
      "ChangeStatus c = CONFIG_CHANGE_STATUS_PROPOSED" "\<not> config_disableInMemoryCache (config_runs demo_ext [demo_propose])"
    using demo_proposed by blast
  then show ?thesis
    using approval_without_actor [where x = demo_ext and reqs = "[demo_propose]" and r = "demo_change None" and e = demo_env
        and r' = "demo_change (demo_meta ''k'')" and ctx = demo_token and ctx' = None and who = "''op-1''"]
      demo_change_admitted by simp
qed

section \<open>Signed activations\<close>

lemma config_appendAudit_fields:
  "downloadEntries (snd (config_appendAudit x e meta ot oid act b a r why s)) = downloadEntries s"
  "downloadOrder (snd (config_appendAudit x e meta ot oid act b a r why s)) = downloadOrder s"
  using svc_append_fields [of x e "\<lambda>n. audit_event e (''config-audit-'' @ itoa_nat n) meta ot oid act b a r why" s]
  by (auto simp: config_appendAudit_def)

lemma persistDownloadEntry_fields:
  "downloadEntries (snd (persistDownloadEntry x d s)) = downloadEntries s"
  "downloadOrder (snd (persistDownloadEntry x d s)) = downloadOrder s"
  by (simp_all add: persistDownloadEntry_def svc_exec_def split: option.splits prod.splits)

definition entry_answer :: "entry_response outcome \<Rightarrow> download_entry option" where
  "entry_answer out = Option.bind (returned out) EntEntry"

text \<open>An answer without an entry left the library as it was.\<close>

definition library_kept :: "entry_response outcome \<times> config_service \<Rightarrow> config_service \<Rightarrow> bool" where
  "library_kept a s \<longleftrightarrow> (entry_answer (fst a) = None \<longrightarrow>
     downloadEntries (snd a) = downloadEntries s \<and> downloadOrder (snd a) = downloadOrder s)"

lemma record_entry_answer:
  "library_kept (record_entry x e meta d s) s \<and> (entry_answer (fst (record_entry x e meta d s)) \<in> {None, Some d})"
proof -
  obtain ok1 s1 where a: "config_appendAudit x e meta ''download_library_entry'' (EntryId d) ''record_download_library_change''
      json_empty (download_json d) ResultSuccess (EntryReason d) s = (ok1, s1)" by fastforce
  obtain ok2 s2 where p: "persistDownloadEntry x d s1 = (ok2, s2)" by fastforce
  have "downloadEntries s1 = downloadEntries s" "downloadOrder s1 = downloadOrder s"
    using config_appendAudit_fields [of x e meta "''download_library_entry''" "EntryId d" "''record_download_library_change''"
        json_empty "download_json d" ResultSuccess "EntryReason d" s] a by simp_all
  moreover have "downloadEntries s2 = downloadEntries s1" "downloadOrder s2 = downloadOrder s1"
    using persistDownloadEntry_fields [of x d s1] p by simp_all
  ultimately show ?thesis
    using a p by (auto simp: record_entry_def library_kept_def entry_answer_def entry_refusal_def split: bool.splits)
qed

lemma checked_entry_answer:
  assumes "a = checked_entry x e meta d s"
  shows "library_kept a s \<and> (\<forall>d'. entry_answer (fst a) = Some d' \<longrightarrow> Action d' = DOWNLOAD_ACTION_ACTIVATE \<longrightarrow>
    verifyDownloadSignature x d' (downloadSigKeys s (SignerKid d')))"
proof -
  have same: "verifyDownloadSignature x (d\<lparr>SignatureAlg := alg\<rparr>) key = verifyDownloadSignature x d key" for alg key
    by (simp add: verifyDownloadSignature_def downloadSignaturePayload_def split: option.splits)
  have refused: "library_kept (entry_refusal e m code why, config_denied x e m ot oid act r s) s"
    "library_kept (entry_refusal e m code why, s) s" for m code why ot oid act r
    by (simp_all add: library_kept_def config_denied_def config_appendAudit_fields)
  show ?thesis
  proof (cases "Action d = DOWNLOAD_ACTION_ACTIVATE \<and> (SignerKid d = [] \<or> Signature d = [] \<or>
      \<not> verifyDownloadSignature x d (downloadSigKeys s (SignerKid d)))")
    case True
    then show ?thesis
      using refused by (auto simp: assms checked_entry_def entry_answer_def entry_refusal_def)
  next
    case False
    define d' where "d' = (if Action d = DOWNLOAD_ACTION_ACTIVATE \<and> SignatureAlg d = [] then d\<lparr>SignatureAlg := ''HMAC-SHA256''\<rparr> else d)"
    have a: "a = record_entry x e meta d' s" using False by (auto simp: assms checked_entry_def d'_def)
    have "Action d' = DOWNLOAD_ACTION_ACTIVATE \<longrightarrow> verifyDownloadSignature x d' (downloadSigKeys s (SignerKid d'))"
      using False by (auto simp: d'_def same)
    then show ?thesis using record_entry_answer [of x e meta d' s] a by auto
  qed
qed

text \<open>
  C35. In every mode, a request for the download library is answered with an entry that activates a library only if the key
  registered under the entry's signer signs the entry's path, checksum, version and action with the entry's signature; and a
  request that is answered without an entry, by a refusal or a panic, leaves the library in memory as it was.
\<close>

theorem activation_is_signed:
  "library_kept (RecordDownloadLibraryChange x e ctx req s) s \<and>
   (\<forall>d. entry_answer (fst (RecordDownloadLibraryChange x e ctx req s)) = Some d \<longrightarrow> Action d = DOWNLOAD_ACTION_ACTIVATE \<longrightarrow>
      (\<exists>key. downloadSigKeys s (SignerKid d) = Some key \<and> key \<noteq> [] \<and>
             trim_space (Signature d) = base64_raw (hmac (sha256 x) key (downloadSignaturePayload d))))"
proof -
  let ?s = "s\<lparr>nextEntryID := Suc (nextEntryID s)\<rparr>"
  have verified: "(\<exists>key. k = Some key \<and> key \<noteq> [] \<and> trim_space (Signature d) = base64_raw (hmac (sha256 x) key (downloadSignaturePayload d)))
      \<longleftrightarrow> verifyDownloadSignature x d k" for k d
    by (auto simp: verifyDownloadSignature_def split: option.splits)
  have refused: "library_kept (entry_refusal e m code why, config_denied x e m ot oid act r s) s"
    "library_kept (entry_refusal e m code why, s) s" "library_kept (Panics, s) s" "library_kept (Panics, ?s) s"
    "library_kept (checked_entry x e m d ?s) ?s \<Longrightarrow> library_kept (checked_entry x e m d ?s) s"
    "entry_answer Panics = None" "entry_answer (entry_refusal e m code why) = None"
    for m code why ot oid act r d
    by (simp_all add: library_kept_def config_denied_def config_appendAudit_fields entry_answer_def entry_refusal_def)
  note checked = checked_entry_answer [OF refl, of x e _ _ s] checked_entry_answer [OF refl, of x e _ _ ?s]
  show ?thesis
    unfolding verified using refused checked
    by (simp add: RecordDownloadLibraryChange_def Let_def split: option.splits)
qed

text \<open>A library is activated with a signature under a key of one byte and a hash of one byte.\<close>

definition demo_hash :: ext where
  "demo_hash = demo_ext\<lparr>sha256 := (\<lambda>_. ''x'')\<rparr>"

definition demo_key :: "(string \<times> string) list" where
  "demo_key = [('' kid-1'', ''s'')]"

definition demo_unsigned :: download_entry where
  "demo_unsigned = \<lparr>EntryId = [], LibraryPath = ''a'', Checksum = ''c'', Version = ''1'', Action = DOWNLOAD_ACTION_ACTIVATE,
     ChangedBy = [], EntryReason = [], EntryOccurredAt = [], SignerKid = ''kid-1'', Signature = [], SignatureAlg = []\<rparr>"

definition demo_signature :: string where
  "demo_signature = base64_raw (hmac (sha256 demo_hash) ''s'' (downloadSignaturePayload demo_unsigned))"

definition demo_activation :: "entry_request option" where
  "demo_activation = Some \<lparr>Entry_Meta = demo_meta ''k'', Entry_Entry = Some (demo_unsigned\<lparr>Signature := demo_signature\<rparr>)\<rparr>"

definition demo_library :: config_service where
  "demo_library = SetDownloadSignatureKeys demo_key (NewConfigService None)"

lemma demo_signature_trimmed: "trim_space demo_signature = demo_signature" "demo_signature \<noteq> []"
proof -
  have "demo_signature = [base64_digit 30, base64_digit 0]" by (simp add: demo_signature_def demo_hash_def hmac_def)
  also have "\<dots> = ''eA''" by code_simp
  finally have sig: "demo_signature = ''eA''" .
  have "trim_space ''eA'' = ''eA''" by code_simp
  then show "trim_space demo_signature = demo_signature" by (simp only: sig)
  show "demo_signature \<noteq> []" by (simp add: sig)
qed

lemma demo_library_key: "downloadSigKeys demo_library ''kid-1'' = Some ''s''"
  by code_simp

lemma record_entry_mem: "mem_idle x s \<Longrightarrow> entry_answer (fst (record_entry x e meta d s)) = Some d"
  by (rule config_appendAudit_mem [of x s e meta "''download_library_entry''" "EntryId d"
        "''record_download_library_change''" json_empty "download_json d" ResultSuccess "EntryReason d"])
     (simp_all add: record_entry_def entry_answer_def mem_idle_def)

lemma demo_activated:
  "\<exists>d. entry_answer (fst (RecordDownloadLibraryChange demo_hash demo_env None demo_activation demo_library)) = Some d \<and>
     Action d = DOWNLOAD_ACTION_ACTIVATE"
proof -
  let ?d = "stamped_entry demo_env ''op-1'' (demo_unsigned\<lparr>EntryId := ''dll-1'', Signature := demo_signature\<rparr>)"
  let ?s = "demo_library\<lparr>nextEntryID := 1\<rparr>"
  have idle: "mem_idle demo_hash ?s"
    by (simp add: mem_idle_def demo_library_def SetDownloadSignatureKeys_def NewConfigService_def svc_ok_def)
  have d: "Action ?d = DOWNLOAD_ACTION_ACTIVATE" "SignerKid ?d = ''kid-1''" "Signature ?d = demo_signature" "SignatureAlg ?d = []"
    "downloadSignaturePayload ?d = downloadSignaturePayload demo_unsigned"
    by (simp_all add: stamped_entry_def demo_unsigned_def downloadSignaturePayload_def)
  have "verifyDownloadSignature demo_hash ?d (downloadSigKeys ?s (SignerKid ?d))"
    using demo_library_key demo_signature_trimmed by (simp add: verifyDownloadSignature_def d demo_signature_def [symmetric])
  then have rec: "checked_entry demo_hash demo_env (demo_meta ''k'') ?d ?s =
      record_entry demo_hash demo_env (demo_meta ''k'') (?d\<lparr>SignatureAlg := ''HMAC-SHA256''\<rparr>) ?s"
    using demo_signature_trimmed by (simp add: checked_entry_def d)
  have "itoa_nat 1 = ''1''" by code_simp
  moreover have "nextEntryID demo_library = 0"
    by (simp add: demo_library_def SetDownloadSignatureKeys_def NewConfigService_def)
  ultimately have "RecordDownloadLibraryChange demo_hash demo_env None demo_activation demo_library =
      checked_entry demo_hash demo_env (demo_meta ''k'') ?d ?s"
    using demo_change_admitted by (simp add: RecordDownloadLibraryChange_def demo_activation_def demo_unsigned_def)
  with rec show ?thesis using record_entry_mem [OF idle] d(1) by auto
qed

theorem activation_is_signed_witness:
  "\<exists>d key. entry_answer (fst (RecordDownloadLibraryChange demo_hash demo_env None demo_activation demo_library)) = Some d \<and>
     downloadSigKeys demo_library (SignerKid d) = Some key \<and>
     trim_space (Signature d) = base64_raw (hmac (sha256 demo_hash) key (downloadSignaturePayload d))"
  using activation_is_signed [of demo_hash demo_env None demo_activation demo_library] demo_activated by blast

section \<open>The library is listed in order\<close>

interpretation newest: sorting download_before
proof
  fix a b c :: download_entry
  show "download_before a b \<Longrightarrow> \<not> download_before b a" by (auto simp: download_before_def split: if_splits)
  show "\<not> download_before a b \<Longrightarrow> \<not> download_before b c \<Longrightarrow> \<not> download_before a c"
    by (auto simp: download_before_def split: if_splits)
qed

definition downloads_page ::
    "ext \<Rightarrow> env \<Rightarrow> auth_actor option \<Rightarrow> page_request \<Rightarrow> config_service \<Rightarrow> string \<Rightarrow> download_entry list \<times> string" where
  "downloads_page x e ctx r s token =
     (let resp = fst (ListDownloadLibraryChanges x e ctx (Some (r\<lparr>Page_Token := token\<rparr>)) s) in (PageItems resp, PageNext resp))"

text \<open>
  Without a database, following the page tokens of the download library from the first page ends, within one call more
  than there are recordings, with the current entry of every recorded identifier, once per recording, the newest text of time
  first and entries of the same time by identifier.
\<close>

theorem downloads_listed_in_order:
  assumes "s = config_runs x reqs" "authorize_backoffice ctx (Page_Meta r) = None" "int (length (downloadOrder s)) \<le> i64_max"
  shows "\<exists>items. walk (Suc (length (downloadOrder s))) (downloads_page x e ctx r s) [] = Some items \<and>
    mset items = mset (map (\<lambda>eid. the (downloadEntries s eid)) (downloadOrder s)) \<and>
    set (downloadOrder s) \<subseteq> dom (downloadEntries s) \<and>
    sorted_wrt (\<lambda>a b. \<not> download_before b a) items"
proof -
  have inv: "mem_idle x s" "downloads_ok s" using config_runs_inv [of x reqs] assms(1) by (simp_all add: config_inv_def)
  then have items: "List.map_filter (downloadEntries s) (downloadOrder s) = map (\<lambda>eid. the (downloadEntries s eid)) (downloadOrder s)"
    by (simp add: downloads_ok_def map_filter_dom)
  have "downloads_page x e ctx r s = (\<lambda>token. page_window (Suc 49) token (Page_Size r) (downloads_of s))"
    using assms(2) inv
    by (intro ext) (simp add: downloads_page_def ListDownloadLibraryChanges_def config_listing_def Let_def mem_idle_def
        page_ok_def page_window_def)
  moreover have sorted: "mset (downloads_of s) = mset (map (\<lambda>eid. the (downloadEntries s eid)) (downloadOrder s))"
    "sorted_wrt (\<lambda>a b. \<not> download_before b a) (downloads_of s)"
    using newest.stable_sort_in_order newest.stable_sort_mset items
    by (simp_all add: downloads_of_def newest.in_order_def)
  moreover have len: "length (downloads_of s) = length (downloadOrder s)"
    using sorted(1) by (metis length_map size_mset)
  ultimately show ?thesis
    using mem_pages.walk_complete [of "downloads_of s" 49 "Page_Size r"] assms(3) inv(2) by (auto simp: downloads_ok_def)
qed

theorem downloads_listed_in_order_witness:
  "\<exists>items. walk 1 (downloads_page demo_ext demo_env None
       \<lparr>Page_Meta = demo_meta ''k'', Page_Filter = [], Page_Size = 0, Page_Token = []\<rparr> (config_runs demo_ext [])) [] = Some items"
  using downloads_listed_in_order [where x = demo_ext and reqs = "[]" and ctx = None and e = demo_env
      and r = "\<lparr>Page_Meta = demo_meta ''k'', Page_Filter = [], Page_Size = 0, Page_Token = []\<rparr>", OF refl] demo_change_admitted(3)
  by (auto simp: config_runs_def NewConfigService_def)

end
