(* ===== verification/Registry.thy ===== *)
theory Registry
  imports Service Samples Pagination Sorting "HOL-Library.Mapping"
begin

text \<open>
  The equipment registry, \<^verbatim>\<open>internal/platform/server/registry_grpc.go\<close> and \<^verbatim>\<open>registry_postgres.go\<close>. The tables are those
  of \<^verbatim>\<open>migrations/000003_registry_events_meters.up.sql\<close>, which the event service shares: a significant event or a meter
  record of unknown equipment registers it.
\<close>

section \<open>Messages, tables and state\<close>

datatype equipment_status =
    EQUIPMENT_STATUS_UNSPECIFIED | EQUIPMENT_STATUS_ACTIVE | EQUIPMENT_STATUS_INACTIVE | EQUIPMENT_STATUS_MAINTENANCE
  | EQUIPMENT_STATUS_DISABLED | EQUIPMENT_STATUS_RETIRED | EQUIPMENT_STATUS_OTHER i32

text \<open>A Go map of attributes, listed by its keys in order.\<close>

type_synonym attributes = "(string \<times> string) list"

record equipment_record =
  EquipmentId :: string
  ExternalReference :: string
  Location :: string
  EquipStatus :: equipment_status
  TheoreticalRtpBps :: string
  ControlProgramVersion :: string
  ConfigVersion :: string
  EquipCreatedAt :: string
  UpdatedAt :: string
  Attributes :: attributes

record upsert_request =
  Upsert_Meta :: "request_meta option"
  Upsert_Equipment :: "equipment_record option"
  Upsert_Reason :: string

record get_request =
  Get_Meta :: "request_meta option"
  Get_EquipmentId :: string

record equipment_list_request =
  EqList_Meta :: "request_meta option"
  EqList_PageSize :: i32
  EqList_PageToken :: string
  EqList_StatusFilter :: equipment_status

record equipment_response =
  EqMeta :: response_meta
  EqEquipment :: "equipment_record option"

record equipment_list_response =
  EqListMeta :: response_meta
  EqListItems :: "equipment_record list"
  EqListNext :: string

record equipment_row =
  er_equipment_id :: string
  er_external_reference :: string
  er_location :: string
  er_status :: string
  er_theoretical_rtp_bps :: "int option"
  er_control_program_version :: string
  er_config_version :: string
  er_attributes :: attributes
  er_created_at :: time
  er_updated_at :: time

record event_row =
  sr_event_id :: string
  sr_equipment_id :: string
  sr_event_code :: string
  sr_localized_description :: string
  sr_severity :: string
  sr_occurred_at :: time
  sr_received_at :: time
  sr_recorded_at :: time

record meter_row =
  mr_meter_id :: string
  mr_equipment_id :: string
  mr_meter_label :: string
  mr_monetary_unit :: string
  mr_record_kind :: string
  mr_value_minor :: i64
  mr_delta_minor :: i64
  mr_occurred_at :: time
  mr_received_at :: time
  mr_recorded_at :: time

record buffer_row =
  br_record_kind :: string
  br_status :: string
  br_equipment_id :: string
  br_source_record_id :: string
  br_request_id :: string
  br_occurred_at :: time
  br_received_at :: time

record floor_db = dbcore +
  equipment_registry :: "equipment_row list"
  significant_events :: "event_row list"
  meter_records :: "meter_row list"
  ingestion_buffers :: "buffer_row list"

record registry_service = "floor_db svc" +
  equipment :: "(string, equipment_record) mapping"
  registry_disableInMemoryCache :: bool

definition NewRegistryService :: "floor_db option \<Rightarrow> registry_service" where
  "NewRegistryService handle =
     \<lparr>svc_AuditStore = Some NewInMemoryStore, svc_nextAuditID = 0, svc_db = handle,
      equipment = Mapping.empty, registry_disableInMemoryCache = False\<rparr>"

definition registry_SetDisableInMemoryCache :: "bool \<Rightarrow> registry_service \<Rightarrow> registry_service" where
  "registry_SetDisableInMemoryCache disable s = s\<lparr>registry_disableInMemoryCache := disable\<rparr>"

definition registry_appendAudit ::
    "ext \<Rightarrow> env \<Rightarrow> request_meta option \<Rightarrow> string \<Rightarrow> string \<Rightarrow> string \<Rightarrow> string \<Rightarrow> string \<Rightarrow> string
     \<Rightarrow> registry_service \<Rightarrow> bool \<times> registry_service" where
  "registry_appendAudit x e meta objectID action before after result reason =
     svc_append x e (\<lambda>n. audit_event e (''registry-audit-'' @ itoa_nat n) meta ''equipment'' objectID action
                           before after result reason)"

fun equipment_status_number :: "equipment_status \<Rightarrow> int" where
  "equipment_status_number EQUIPMENT_STATUS_UNSPECIFIED = 0"
| "equipment_status_number EQUIPMENT_STATUS_ACTIVE = 1"
| "equipment_status_number EQUIPMENT_STATUS_INACTIVE = 2"
| "equipment_status_number EQUIPMENT_STATUS_MAINTENANCE = 3"
| "equipment_status_number EQUIPMENT_STATUS_DISABLED = 4"
| "equipment_status_number EQUIPMENT_STATUS_RETIRED = 5"
| "equipment_status_number (EQUIPMENT_STATUS_OTHER w) = sint w"

text \<open>\<^verbatim>\<open>json.Marshal\<close> prints a map in the order of its keys; an empty one is left out.\<close>

definition jmap :: "string \<Rightarrow> attributes \<Rightarrow> (string \<times> json) list" where
  "jmap k kvs = (if kvs = [] then [] else [(k, JObject (map (\<lambda>(a, b). (a, JString b)) kvs))])"

definition equipmentSnapshot :: "equipment_record option \<Rightarrow> string" where
  "equipmentSnapshot eq =
     (case eq of
        None \<Rightarrow> json_empty
      | Some q \<Rightarrow> json_encode (JObject (
          jstr ''equipment_id'' (EquipmentId q) @ jstr ''external_reference'' (ExternalReference q)
          @ jstr ''location'' (Location q) @ jint ''status'' (equipment_status_number (EquipStatus q))
          @ jstr ''theoretical_rtp_bps'' (TheoreticalRtpBps q)
          @ jstr ''control_program_version'' (ControlProgramVersion q) @ jstr ''config_version'' (ConfigVersion q)
          @ jstr ''created_at'' (EquipCreatedAt q) @ jstr ''updated_at'' (UpdatedAt q)
          @ jmap ''attributes'' (Attributes q))))"

section \<open>The database\<close>

fun equipmentStatusToDB :: "equipment_status \<Rightarrow> string" where
  "equipmentStatusToDB EQUIPMENT_STATUS_ACTIVE = ''active''"
| "equipmentStatusToDB EQUIPMENT_STATUS_INACTIVE = ''inactive''"
| "equipmentStatusToDB EQUIPMENT_STATUS_MAINTENANCE = ''maintenance''"
| "equipmentStatusToDB EQUIPMENT_STATUS_DISABLED = ''disabled''"
| "equipmentStatusToDB EQUIPMENT_STATUS_RETIRED = ''retired''"
| "equipmentStatusToDB _ = ''active''"

definition equipmentStatusFromDB :: "string \<Rightarrow> equipment_status" where
  "equipmentStatusFromDB v =
     (let l = map lower_byte v
      in if l = ''active'' then EQUIPMENT_STATUS_ACTIVE
         else if l = ''inactive'' then EQUIPMENT_STATUS_INACTIVE
         else if l = ''maintenance'' then EQUIPMENT_STATUS_MAINTENANCE
         else if l = ''disabled'' then EQUIPMENT_STATUS_DISABLED
         else if l = ''retired'' then EQUIPMENT_STATUS_RETIRED
         else EQUIPMENT_STATUS_UNSPECIFIED)"

text \<open>\<^verbatim>\<open>strconv.ParseInt(raw, 10, 32)\<close>: the numbers of \<^verbatim>\<open>Atoi\<close> that fit 32 bits.\<close>

definition parseOptionalRTP :: "string \<Rightarrow> int option" where
  "parseOptionalRTP v =
     (let raw = trim_space v
      in if raw = [] then None
         else (case atoi raw of
                 None \<Rightarrow> None
               | Some n \<Rightarrow> if - 2147483648 \<le> n \<and> n \<le> 2147483647 then Some n else None))"

text \<open>\<^verbatim>\<open>nonEmptyTimestamp\<close> and \<^verbatim>\<open>nonEmptyTS\<close> of the two files are \<open>nonEmptyTime\<close> under other names.\<close>

definition nonEmptyTimestamp :: "env \<Rightarrow> string \<Rightarrow> string" where
  "nonEmptyTimestamp e v = (if trim_space v = [] then fmt_rfc3339nano (env_wall e) else v)"

text \<open>\<open>None\<close>: a cast or the CHECK on the theoretical return refuses the row.\<close>

definition equipment_row_of :: "ext \<Rightarrow> env \<Rightarrow> equipment_record \<Rightarrow> equipment_row option" where
  "equipment_row_of x e q =
     (case (pg_time_of_text x (nonEmptyTimestamp e (EquipCreatedAt q)),
            pg_time_of_text x (nonEmptyTimestamp e (UpdatedAt q)), parseOptionalRTP (TheoreticalRtpBps q)) of
        (Some created, Some updated, rtp) \<Rightarrow>
          if (case rtp of None \<Rightarrow> True | Some n \<Rightarrow> 0 \<le> n \<and> n \<le> 10000) then
            Some \<lparr>er_equipment_id = EquipmentId q, er_external_reference = ExternalReference q,
                  er_location = Location q, er_status = equipmentStatusToDB (EquipStatus q),
                  er_theoretical_rtp_bps = rtp, er_control_program_version = ControlProgramVersion q,
                  er_config_version = ConfigVersion q, er_attributes = Attributes q,
                  er_created_at = created, er_updated_at = updated\<rparr>
          else None
      | _ \<Rightarrow> None)"

text \<open>The update keeps the time of creation; the trigger of the table sets the time of the update.\<close>

definition merge_equipment :: "env \<Rightarrow> equipment_row \<Rightarrow> equipment_row \<Rightarrow> equipment_row" where
  "merge_equipment e old new =
     new\<lparr>er_equipment_id := er_equipment_id old, er_created_at := er_created_at old, er_updated_at := env_dbnow e\<rparr>"

definition upsertEquipmentInDB :: "ext \<Rightarrow> env \<Rightarrow> equipment_record \<Rightarrow> registry_service \<Rightarrow> bool \<times> registry_service" where
  "upsertEquipmentInDB x e q =
     svc_exec (sql_tx [\<lambda>d. map_option
       (\<lambda>row. d\<lparr>equipment_registry := upsert_with er_equipment_id (merge_equipment e) row (equipment_registry d)\<rparr>)
       (equipment_row_of x e q)])"

definition row_to_equipment :: "equipment_row \<Rightarrow> equipment_record" where
  "row_to_equipment r =
     \<lparr>EquipmentId = er_equipment_id r, ExternalReference = er_external_reference r, Location = er_location r,
      EquipStatus = equipmentStatusFromDB (er_status r),
      TheoreticalRtpBps = (case er_theoretical_rtp_bps r of None \<Rightarrow> [] | Some n \<Rightarrow> itoa n),
      ControlProgramVersion = er_control_program_version r, ConfigVersion = er_config_version r,
      EquipCreatedAt = fmt_rfc3339nano (er_created_at r), UpdatedAt = fmt_rfc3339nano (er_updated_at r),
      Attributes = er_attributes r\<rparr>"

definition getEquipmentFromDB :: "string \<Rightarrow> registry_service \<Rightarrow> equipment_record option option \<times> registry_service" where
  "getEquipmentFromDB equipmentID =
     svc_query (\<lambda>d. map_option row_to_equipment (find (\<lambda>r. er_equipment_id r = equipmentID) (equipment_registry d)))"

definition listEquipmentFromDB ::
    "ext \<Rightarrow> equipment_status \<Rightarrow> nat \<Rightarrow> nat \<Rightarrow> registry_service \<Rightarrow> equipment_record list option \<times> registry_service" where
  "listEquipmentFromDB x statusFilter limit offset =
     (let status = (if statusFilter = EQUIPMENT_STATUS_UNSPECIFIED then [] else equipmentStatusToDB statusFilter)
      in svc_query (\<lambda>d. map row_to_equipment (take limit (drop offset
           (stable_sort (\<lambda>a b. pg_text_less x (er_equipment_id a) (er_equipment_id b))
             (filter (\<lambda>r. status = [] \<or> er_status r = status) (equipment_registry d)))))))"

section \<open>Handlers\<close>

definition equipment_refusal :: "env \<Rightarrow> request_meta option \<Rightarrow> result_code \<Rightarrow> string \<Rightarrow> equipment_response" where
  "equipment_refusal e meta code reason = \<lparr>EqMeta = responseMeta e meta code reason, EqEquipment = None\<rparr>"

definition equipment_ok :: "env \<Rightarrow> request_meta option \<Rightarrow> equipment_record \<Rightarrow> equipment_response" where
  "equipment_ok e meta q = \<lparr>EqMeta = responseMeta e meta RESULT_CODE_OK [], EqEquipment = Some q\<rparr>"

definition registry_denied ::
    "ext \<Rightarrow> env \<Rightarrow> request_meta option \<Rightarrow> string \<Rightarrow> string \<Rightarrow> string \<Rightarrow> registry_service \<Rightarrow> registry_service" where
  "registry_denied x e meta objectID action reason s =
     snd (registry_appendAudit x e meta objectID action json_empty json_empty ResultDenied reason s)"

text \<open>The times of the stored equipment: of the first registration, unless the caller names one, and of this one.\<close>

definition stamped_equipment :: "env \<Rightarrow> equipment_record option \<Rightarrow> equipment_record \<Rightarrow> equipment_record" where
  "stamped_equipment e existing q =
     (let now = fmt_rfc3339nano (env_now e);
          created = (if EquipCreatedAt q \<noteq> [] then EquipCreatedAt q
                     else (case existing of
                             Some o' \<Rightarrow> if EquipCreatedAt o' \<noteq> [] then EquipCreatedAt o' else now
                           | None \<Rightarrow> now))
      in q\<lparr>EquipCreatedAt := created, UpdatedAt := now\<rparr>)"

definition store_equipment :: "equipment_record \<Rightarrow> registry_service \<Rightarrow> registry_service" where
  "store_equipment q s =
     (if registry_disableInMemoryCache s then s else s\<lparr>equipment := Mapping.update (EquipmentId q) q (equipment s)\<rparr>)"

definition UpsertEquipment ::
    "ext \<Rightarrow> env \<Rightarrow> auth_actor option \<Rightarrow> upsert_request option \<Rightarrow> registry_service \<Rightarrow> equipment_response \<times> registry_service" where
  "UpsertEquipment x e ctx req s =
     (case Option.bind req (\<lambda>r. map_option (Pair r) (Upsert_Equipment r)) of
        None \<Rightarrow> (equipment_refusal e None RESULT_CODE_INVALID ''equipment.equipment_id is required'', s)
      | Some (r, q) \<Rightarrow>
        let meta = Upsert_Meta r; eid = EquipmentId q in
        if eid = [] then (equipment_refusal e None RESULT_CODE_INVALID ''equipment.equipment_id is required'', s)
        else (case authorize_backoffice ctx meta of
          Some reason \<Rightarrow>
            (equipment_refusal e meta RESULT_CODE_DENIED reason, registry_denied x e meta eid ''upsert_equipment'' reason s)
        | None \<Rightarrow>
          (case (if svc_db s = None then (Some (Mapping.lookup (equipment s) eid), s) else getEquipmentFromDB eid s) of
             (None, s1) \<Rightarrow> (equipment_refusal e meta RESULT_CODE_ERROR ''persistence unavailable'', s1)
           | (Some existing, s1) \<Rightarrow>
             let q1 = stamped_equipment e existing q
             in (case registry_appendAudit x e meta eid ''upsert_equipment'' (equipmentSnapshot existing)
                       (equipmentSnapshot (Some q1)) ResultSuccess (Upsert_Reason r) s1 of
                   (False, s2) \<Rightarrow> (equipment_refusal e meta RESULT_CODE_ERROR ''audit unavailable'', s2)
                 | (True, s2) \<Rightarrow>
                   if svc_db s2 = None then (equipment_ok e meta q1, store_equipment q1 s2)
                   else (case upsertEquipmentInDB x e q1 s2 of
                           (False, s3) \<Rightarrow> (equipment_refusal e meta RESULT_CODE_ERROR ''persistence unavailable'', s3)
                         | (True, s3) \<Rightarrow> (equipment_ok e meta q1, s3))))))"

definition GetEquipment ::
    "ext \<Rightarrow> env \<Rightarrow> auth_actor option \<Rightarrow> get_request option \<Rightarrow> registry_service \<Rightarrow> equipment_response \<times> registry_service" where
  "GetEquipment x e ctx req s =
     (case req of
        None \<Rightarrow> (equipment_refusal e None RESULT_CODE_INVALID ''equipment_id is required'', s)
      | Some r \<Rightarrow>
        let meta = Get_Meta r; eid = Get_EquipmentId r in
        if eid = [] then (equipment_refusal e None RESULT_CODE_INVALID ''equipment_id is required'', s)
        else (case authorize_backoffice ctx meta of
          Some reason \<Rightarrow>
            (equipment_refusal e meta RESULT_CODE_DENIED reason, registry_denied x e meta eid ''get_equipment'' reason s)
        | None \<Rightarrow>
          (case (if svc_db s \<noteq> None then getEquipmentFromDB eid s
                 else if registry_disableInMemoryCache s then (Some None, s)
                 else (Some (Mapping.lookup (equipment s) eid), s)) of
             (None, s1) \<Rightarrow> (equipment_refusal e meta RESULT_CODE_ERROR ''persistence unavailable'', s1)
           | (Some None, s1) \<Rightarrow> (equipment_refusal e meta RESULT_CODE_INVALID ''equipment not found'', s1)
           | (Some (Some q), s1) \<Rightarrow> (equipment_ok e meta q, s1))))"

text \<open>The equipment in memory, by identifier.\<close>

definition equipment_of :: "equipment_status \<Rightarrow> registry_service \<Rightarrow> equipment_record list" where
  "equipment_of statusFilter s =
     filter (\<lambda>q. statusFilter = EQUIPMENT_STATUS_UNSPECIFIED \<or> EquipStatus q = statusFilter)
       (List.map_filter (Mapping.lookup (equipment s)) (Mapping.ordered_keys (equipment s)))"

definition ListEquipment ::
    "ext \<Rightarrow> env \<Rightarrow> auth_actor option \<Rightarrow> equipment_list_request option \<Rightarrow> registry_service
     \<Rightarrow> equipment_list_response \<times> registry_service" where
  "ListEquipment x e ctx req s =
     (let r = (case req of
                 None \<Rightarrow> \<lparr>EqList_Meta = None, EqList_PageSize = 0, EqList_PageToken = [],
                          EqList_StatusFilter = EQUIPMENT_STATUS_UNSPECIFIED\<rparr>
               | Some r \<Rightarrow> r);
          meta = EqList_Meta r;
          reply = (\<lambda>p. \<lparr>EqListMeta = responseMeta e meta RESULT_CODE_OK [], EqListItems = fst p, EqListNext = snd p\<rparr>);
          refuse = (\<lambda>code reason. \<lparr>EqListMeta = responseMeta e meta code reason, EqListItems = [], EqListNext = []\<rparr>)
      in case authorize_backoffice ctx meta of
           Some reason \<Rightarrow> (refuse RESULT_CODE_DENIED reason, registry_denied x e meta [] ''list_equipment'' reason s)
         | None \<Rightarrow>
           let start = page_start (EqList_PageToken r); psize = page_size 50 (EqList_PageSize r)
           in if svc_db s \<noteq> None then
                (case listEquipmentFromDB x (EqList_StatusFilter r) psize start s of
                   (None, s1) \<Rightarrow> (refuse RESULT_CODE_ERROR ''persistence unavailable'', s1)
                 | (Some items, s1) \<Rightarrow> (reply (items, db_next start psize items), s1))
              else if registry_disableInMemoryCache s then (reply ([], []), s)
              else (reply (page_slice start psize (equipment_of (EqList_StatusFilter r) s)), s))"

end
