(* ===== verification/Ingestion.thy ===== *)
theory Ingestion
  imports Registry
begin

text \<open>
  Significant events and meter records, \<^verbatim>\<open>internal/platform/server/events_grpc.go\<close> and \<^verbatim>\<open>events_postgres.go\<close>. Every
  submission takes a place in a bounded ingestion buffer and gives it back when it is stored; a submission that fails keeps
  its place, and a full buffer disables the service for good.
\<close>

section \<open>Messages and state\<close>

datatype event_severity =
    EVENT_SEVERITY_UNSPECIFIED | EVENT_SEVERITY_INFO | EVENT_SEVERITY_WARN | EVENT_SEVERITY_CRITICAL
  | EVENT_SEVERITY_OTHER i32

datatype meter_record_type =
    METER_RECORD_TYPE_UNSPECIFIED | METER_RECORD_TYPE_SNAPSHOT | METER_RECORD_TYPE_DELTA | METER_RECORD_TYPE_OTHER i32

record significant_event =
  EventId :: string
  EvEquipmentId :: string
  EventCode :: string
  LocalizedDescription :: string
  Severity :: event_severity
  EvOccurredAt :: string
  EvReceivedAt :: string
  EvRecordedAt :: string
  EvTags :: attributes

record meter_record =
  MeterId :: string
  MtEquipmentId :: string
  MeterLabel :: string
  MonetaryUnit :: string
  RecordType :: meter_record_type
  ValueMinor :: i64
  DeltaMinor :: i64
  MtOccurredAt :: string
  MtReceivedAt :: string
  MtRecordedAt :: string
  MtTags :: attributes

record event_request =
  EvReq_Meta :: "request_meta option"
  EvReq_Event :: "significant_event option"

record meter_request =
  MtReq_Meta :: "request_meta option"
  MtReq_Meter :: "meter_record option"

record record_list_request =
  RecList_Meta :: "request_meta option"
  RecList_EquipmentId :: string
  RecList_MeterLabel :: string
  RecList_FromTime :: string
  RecList_ToTime :: string
  RecList_PageSize :: i32
  RecList_PageToken :: string

record event_response =
  EvMeta :: response_meta
  EvEvent :: "significant_event option"

record meter_response =
  MtMeta :: response_meta
  MtMeter :: "meter_record option"

record 'a record_list_response =
  RecListMeta :: response_meta
  RecListItems :: "'a list"
  RecListNext :: string

datatype buffer_status = bufferQueued | bufferAcknowledged

record ingestionBufferRecord =
  bufferID :: string
  recordKind :: string
  buf_equipmentID :: string
  buf_sourceRecordID :: string
  buf_status :: buffer_status
  buf_occurredAt :: string
  buf_receivedAt :: string
  buf_recordedAt :: string

record events_service = "floor_db svc" +
  events :: "string \<rightharpoonup> significant_event"
  meters :: "string \<rightharpoonup> meter_record"
  eventOrder :: "string list"
  meterOrder :: "string list"
  buffers :: "ingestionBufferRecord list"
  bufferCap :: nat
  events_disabled :: bool
  nextBuffer :: nat
  events_disableInMemoryCache :: bool

definition NewEventsService :: "floor_db option \<Rightarrow> events_service" where
  "NewEventsService handle =
     \<lparr>svc_AuditStore = Some NewInMemoryStore, svc_nextAuditID = 0, svc_db = handle,
      events = Map.empty, meters = Map.empty, eventOrder = [], meterOrder = [], buffers = [], bufferCap = 1024,
      events_disabled = False, nextBuffer = 0, events_disableInMemoryCache = False\<rparr>"

definition events_SetDisableInMemoryCache :: "bool \<Rightarrow> events_service \<Rightarrow> events_service" where
  "events_SetDisableInMemoryCache disable s = s\<lparr>events_disableInMemoryCache := disable\<rparr>"

definition events_appendAudit ::
    "ext \<Rightarrow> env \<Rightarrow> request_meta option \<Rightarrow> string \<Rightarrow> string \<Rightarrow> string \<Rightarrow> string \<Rightarrow> string \<Rightarrow> string \<Rightarrow> string
     \<Rightarrow> events_service \<Rightarrow> bool \<times> events_service" where
  "events_appendAudit x e meta objectType objectID action before after result reason =
     svc_append x e (\<lambda>n. audit_event e (''events-audit-'' @ itoa_nat n) meta objectType objectID action
                           before after result reason)"

definition submitBlocked ::
    "ext \<Rightarrow> env \<Rightarrow> request_meta option \<Rightarrow> string \<Rightarrow> string \<Rightarrow> string \<Rightarrow> string \<Rightarrow> events_service \<Rightarrow> events_service" where
  "submitBlocked x e meta objectType objectID action reason s =
     snd (events_appendAudit x e meta objectType objectID action json_empty json_empty ResultDenied reason s)"

fun severity_number :: "event_severity \<Rightarrow> int" where
  "severity_number EVENT_SEVERITY_UNSPECIFIED = 0"
| "severity_number EVENT_SEVERITY_INFO = 1"
| "severity_number EVENT_SEVERITY_WARN = 2"
| "severity_number EVENT_SEVERITY_CRITICAL = 3"
| "severity_number (EVENT_SEVERITY_OTHER w) = sint w"

fun severity_string :: "event_severity \<Rightarrow> string" where
  "severity_string EVENT_SEVERITY_UNSPECIFIED = ''EVENT_SEVERITY_UNSPECIFIED''"
| "severity_string EVENT_SEVERITY_INFO = ''EVENT_SEVERITY_INFO''"
| "severity_string EVENT_SEVERITY_WARN = ''EVENT_SEVERITY_WARN''"
| "severity_string EVENT_SEVERITY_CRITICAL = ''EVENT_SEVERITY_CRITICAL''"
| "severity_string (EVENT_SEVERITY_OTHER w) = itoa (sint w)"

fun record_type_number :: "meter_record_type \<Rightarrow> int" where
  "record_type_number METER_RECORD_TYPE_UNSPECIFIED = 0"
| "record_type_number METER_RECORD_TYPE_SNAPSHOT = 1"
| "record_type_number METER_RECORD_TYPE_DELTA = 2"
| "record_type_number (METER_RECORD_TYPE_OTHER w) = sint w"

definition event_json :: "significant_event \<Rightarrow> string" where
  "event_json v = json_encode (JObject (
     jstr ''event_id'' (EventId v) @ jstr ''equipment_id'' (EvEquipmentId v) @ jstr ''event_code'' (EventCode v)
     @ jstr ''localized_description'' (LocalizedDescription v) @ jint ''severity'' (severity_number (Severity v))
     @ jstr ''occurred_at'' (EvOccurredAt v) @ jstr ''received_at'' (EvReceivedAt v)
     @ jstr ''recorded_at'' (EvRecordedAt v) @ jmap ''tags'' (EvTags v)))"

definition meter_json :: "meter_record \<Rightarrow> string" where
  "meter_json v = json_encode (JObject (
     jstr ''meter_id'' (MeterId v) @ jstr ''equipment_id'' (MtEquipmentId v) @ jstr ''meter_label'' (MeterLabel v)
     @ jstr ''monetary_unit'' (MonetaryUnit v) @ jint ''record_type'' (record_type_number (RecordType v))
     @ jint ''value_minor'' (sint (ValueMinor v)) @ jint ''delta_minor'' (sint (DeltaMinor v))
     @ jstr ''occurred_at'' (MtOccurredAt v) @ jstr ''received_at'' (MtReceivedAt v)
     @ jstr ''recorded_at'' (MtRecordedAt v) @ jmap ''tags'' (MtTags v)))"

section \<open>The ingestion buffer\<close>

definition queued :: "events_service \<Rightarrow> nat" where
  "queued s = length (filter (\<lambda>b. buf_status b = bufferQueued) (buffers s))"

definition buffer_id :: "nat \<Rightarrow> string" where
  "buffer_id n = ''buf-'' @ itoa_nat n"

definition new_buffer :: "env \<Rightarrow> string \<Rightarrow> string \<Rightarrow> string \<Rightarrow> string \<Rightarrow> nat \<Rightarrow> ingestionBufferRecord" where
  "new_buffer e kind equipmentID sourceRecordID occurredAt n =
     \<lparr>bufferID = buffer_id n, recordKind = kind, buf_equipmentID = equipmentID, buf_sourceRecordID = sourceRecordID,
      buf_status = bufferQueued, buf_occurredAt = occurredAt, buf_receivedAt = fmt_rfc3339nano (env_now e),
      buf_recordedAt = fmt_rfc3339nano (env_now e)\<rparr>"

text \<open>\<open>None\<close>: the buffer is exhausted.\<close>

definition queueBufferLocked ::
    "env \<Rightarrow> string \<Rightarrow> string \<Rightarrow> string \<Rightarrow> string \<Rightarrow> events_service \<Rightarrow> ingestionBufferRecord option \<times> events_service" where
  "queueBufferLocked e kind equipmentID sourceRecordID occurredAt s =
     (if events_disabled s then (None, s)
      else if bufferCap s \<le> queued s then (None, s\<lparr>events_disabled := True\<rparr>)
      else let b = new_buffer e kind equipmentID sourceRecordID occurredAt (Suc (nextBuffer s))
           in (Some b, s\<lparr>nextBuffer := Suc (nextBuffer s), buffers := buffers s @ [b]\<rparr>))"

fun acknowledge :: "string \<Rightarrow> ingestionBufferRecord list \<Rightarrow> ingestionBufferRecord list" where
  "acknowledge bid [] = []"
| "acknowledge bid (b # bs) =
     (if bufferID b = bid then b\<lparr>buf_status := bufferAcknowledged\<rparr> # bs else b # acknowledge bid bs)"

definition acknowledgeBufferLocked :: "string \<Rightarrow> events_service \<Rightarrow> events_service" where
  "acknowledgeBufferLocked bid s = s\<lparr>buffers := acknowledge bid (buffers s)\<rparr>"

section \<open>The database\<close>

definition ensureEquipmentRowTx :: "env \<Rightarrow> string \<Rightarrow> floor_db \<Rightarrow> floor_db option" where
  "ensureEquipmentRowTx e equipmentID d =
     (if trim_space equipmentID = [] then Some d
      else Some (d\<lparr>equipment_registry := insert_new er_equipment_id
        \<lparr>er_equipment_id = equipmentID, er_external_reference = [], er_location = [], er_status = ''active'',
         er_theoretical_rtp_bps = None, er_control_program_version = [], er_config_version = [], er_attributes = [],
         er_created_at = env_dbnow e, er_updated_at = env_dbnow e\<rparr> (equipment_registry d)\<rparr>))"

definition registered :: "string \<Rightarrow> floor_db \<Rightarrow> bool" where
  "registered equipmentID d \<longleftrightarrow> (\<exists>r \<in> set (equipment_registry d). er_equipment_id r = equipmentID)"

definition cast_ts :: "ext \<Rightarrow> env \<Rightarrow> string \<Rightarrow> time option" where
  "cast_ts x e v = pg_time_of_text x (nonEmptyTimestamp e v)"

text \<open>
  An insertion is refused when a cast fails or when the equipment of a new row is not registered. The columns no
  statement reads are left out; the unique index on the source identifier is implied by the key, whose value it holds.
\<close>

definition insert_event :: "ext \<Rightarrow> env \<Rightarrow> significant_event \<Rightarrow> floor_db \<Rightarrow> floor_db option" where
  "insert_event x e v d =
     (case (cast_ts x e (EvOccurredAt v), cast_ts x e (EvReceivedAt v), cast_ts x e (EvRecordedAt v)) of
        (Some occurred, Some received, Some recorded) \<Rightarrow>
          if \<exists>r \<in> set (significant_events d). sr_event_id r = EventId v then Some d
          else if \<not> registered (EvEquipmentId v) d then None
          else Some (d\<lparr>significant_events := significant_events d @
            [\<lparr>sr_event_id = EventId v, sr_equipment_id = EvEquipmentId v, sr_event_code = EventCode v,
              sr_localized_description = LocalizedDescription v, sr_severity = severity_string (Severity v),
              sr_occurred_at = occurred, sr_received_at = received, sr_recorded_at = recorded\<rparr>]\<rparr>)
      | _ \<Rightarrow> None)"

fun meterKindToDB :: "meter_record_type \<Rightarrow> string" where
  "meterKindToDB METER_RECORD_TYPE_SNAPSHOT = ''meter_snapshot''"
| "meterKindToDB METER_RECORD_TYPE_DELTA = ''meter_delta''"
| "meterKindToDB _ = ''meter_snapshot''"

definition meterKindFromDB :: "string \<Rightarrow> meter_record_type" where
  "meterKindFromDB v =
     (if v = ''meter_snapshot'' then METER_RECORD_TYPE_SNAPSHOT
      else if v = ''meter_delta'' then METER_RECORD_TYPE_DELTA
      else METER_RECORD_TYPE_UNSPECIFIED)"

definition insert_meter :: "ext \<Rightarrow> env \<Rightarrow> meter_record \<Rightarrow> floor_db \<Rightarrow> floor_db option" where
  "insert_meter x e v d =
     (case (cast_ts x e (MtOccurredAt v), cast_ts x e (MtReceivedAt v), cast_ts x e (MtRecordedAt v),
            pg_char3 x (to_upper (MonetaryUnit v))) of
        (Some occurred, Some received, Some recorded, Some unit) \<Rightarrow>
          if \<exists>r \<in> set (meter_records d). mr_meter_id r = MeterId v then Some d
          else if \<not> registered (MtEquipmentId v) d then None
          else Some (d\<lparr>meter_records := meter_records d @
            [\<lparr>mr_meter_id = MeterId v, mr_equipment_id = MtEquipmentId v, mr_meter_label = MeterLabel v,
              mr_monetary_unit = unit, mr_record_kind = meterKindToDB (RecordType v), mr_value_minor = ValueMinor v,
              mr_delta_minor = DeltaMinor v, mr_occurred_at = occurred, mr_received_at = received,
              mr_recorded_at = recorded\<rparr>]\<rparr>)
      | _ \<Rightarrow> None)"

text \<open>A request identifier, when there is one, is used once for each kind of record.\<close>

definition persistBufferTx ::
    "ext \<Rightarrow> env \<Rightarrow> string \<Rightarrow> ingestionBufferRecord \<Rightarrow> string \<Rightarrow> floor_db \<Rightarrow> floor_db option" where
  "persistBufferTx x e kind b rid d =
     (case (cast_ts x e (buf_occurredAt b), cast_ts x e (buf_receivedAt b)) of
        (Some occurred, Some received) \<Rightarrow>
          if rid \<noteq> [] \<and> (\<exists>r \<in> set (ingestion_buffers d). br_request_id r = rid \<and> br_record_kind r = kind)
          then None
          else if \<not> registered (buf_equipmentID b) d then None
          else Some (d\<lparr>ingestion_buffers := ingestion_buffers d @
            [\<lparr>br_record_kind = kind, br_status = ''acknowledged'', br_equipment_id = buf_equipmentID b,
              br_source_record_id = buf_sourceRecordID b, br_request_id = rid, br_occurred_at = occurred,
              br_received_at = received\<rparr>]\<rparr>)
      | _ \<Rightarrow> None)"

definition persistSignificantEvent ::
    "ext \<Rightarrow> env \<Rightarrow> request_meta option \<Rightarrow> significant_event \<Rightarrow> ingestionBufferRecord \<Rightarrow> events_service
     \<Rightarrow> bool \<times> events_service" where
  "persistSignificantEvent x e meta v b =
     svc_exec (sql_tx [ensureEquipmentRowTx e (EvEquipmentId v), insert_event x e v,
                       persistBufferTx x e ''significant_event'' b (requestID meta)])"

definition persistMeterRecord ::
    "ext \<Rightarrow> env \<Rightarrow> request_meta option \<Rightarrow> meter_record \<Rightarrow> ingestionBufferRecord \<Rightarrow> events_service
     \<Rightarrow> bool \<times> events_service" where
  "persistMeterRecord x e meta v b =
     svc_exec (sql_tx [ensureEquipmentRowTx e (MtEquipmentId v), insert_meter x e v,
                       persistBufferTx x e ''meter_snapshot'' b (requestID meta)])"

definition eventSeverityFromDB :: "string \<Rightarrow> event_severity" where
  "eventSeverityFromDB v =
     (let u = to_upper v
      in if u = ''EVENT_SEVERITY_INFO'' \<or> u = ''INFO'' then EVENT_SEVERITY_INFO
         else if u = ''EVENT_SEVERITY_WARN'' \<or> u = ''WARN'' then EVENT_SEVERITY_WARN
         else if u = ''EVENT_SEVERITY_CRITICAL'' \<or> u = ''CRITICAL'' then EVENT_SEVERITY_CRITICAL
         else EVENT_SEVERITY_UNSPECIFIED)"

definition row_to_event :: "event_row \<Rightarrow> significant_event" where
  "row_to_event r =
     \<lparr>EventId = sr_event_id r, EvEquipmentId = sr_equipment_id r, EventCode = sr_event_code r,
      LocalizedDescription = sr_localized_description r, Severity = eventSeverityFromDB (sr_severity r),
      EvOccurredAt = fmt_rfc3339nano (sr_occurred_at r), EvReceivedAt = fmt_rfc3339nano (sr_received_at r),
      EvRecordedAt = fmt_rfc3339nano (sr_recorded_at r), EvTags = []\<rparr>"

definition listEventsFromDB ::
    "ext \<Rightarrow> string \<Rightarrow> nat \<Rightarrow> nat \<Rightarrow> events_service \<Rightarrow> significant_event list option \<times> events_service" where
  "listEventsFromDB x equipmentID limit offset =
     svc_query (\<lambda>d. map row_to_event (take limit (drop offset
       (stable_sort (\<lambda>a b. sr_recorded_at a < sr_recorded_at b \<or>
            (sr_recorded_at a = sr_recorded_at b \<and> pg_text_less x (sr_event_id a) (sr_event_id b)))
         (filter (\<lambda>r. equipmentID = [] \<or> sr_equipment_id r = equipmentID) (significant_events d))))))"

definition row_to_meter :: "meter_row \<Rightarrow> meter_record" where
  "row_to_meter r =
     \<lparr>MeterId = mr_meter_id r, MtEquipmentId = mr_equipment_id r, MeterLabel = mr_meter_label r,
      MonetaryUnit = mr_monetary_unit r, RecordType = meterKindFromDB (mr_record_kind r),
      ValueMinor = mr_value_minor r, DeltaMinor = mr_delta_minor r,
      MtOccurredAt = fmt_rfc3339nano (mr_occurred_at r), MtReceivedAt = fmt_rfc3339nano (mr_received_at r),
      MtRecordedAt = fmt_rfc3339nano (mr_recorded_at r), MtTags = []\<rparr>"

definition listMetersFromDB ::
    "ext \<Rightarrow> string \<Rightarrow> string \<Rightarrow> nat \<Rightarrow> nat \<Rightarrow> events_service \<Rightarrow> meter_record list option \<times> events_service" where
  "listMetersFromDB x equipmentID meterLabel limit offset =
     svc_query (\<lambda>d. map row_to_meter (take limit (drop offset
       (stable_sort (\<lambda>a b. mr_recorded_at a < mr_recorded_at b \<or>
            (mr_recorded_at a = mr_recorded_at b \<and> pg_text_less x (mr_meter_id a) (mr_meter_id b)))
         (filter (\<lambda>r. (equipmentID = [] \<or> mr_equipment_id r = equipmentID) \<and> (meterLabel = [] \<or> mr_meter_label r = meterLabel))
           (meter_records d))))))"

section \<open>Submissions\<close>

text \<open>
  The common part of the submissions, from the place in the buffer on: the audit event, the transaction, the copy in memory
  and the acknowledgment. The result is the refusal or \<open>None\<close>.
\<close>

definition ingest ::
    "ext \<Rightarrow> env \<Rightarrow> request_meta option \<Rightarrow> string \<Rightarrow> string \<Rightarrow> string \<Rightarrow> string
     \<Rightarrow> (ingestionBufferRecord \<Rightarrow> events_service \<Rightarrow> bool \<times> events_service) \<Rightarrow> (events_service \<Rightarrow> events_service)
     \<Rightarrow> ingestionBufferRecord option \<times> events_service \<Rightarrow> (result_code \<times> string) option \<times> events_service" where
  "ingest x e meta objectType objectID action after persist keep place =
     (case place of
        (None, s) \<Rightarrow>
          (Some (RESULT_CODE_DENIED, ''ingestion buffer exhausted''),
           submitBlocked x e meta objectType objectID action ''ingestion buffer exhausted'' s)
      | (Some b, s) \<Rightarrow>
          (case events_appendAudit x e meta objectType objectID action json_empty after ResultSuccess [] s of
             (False, s1) \<Rightarrow> (Some (RESULT_CODE_ERROR, ''audit unavailable''), s1)
           | (True, s1) \<Rightarrow>
             (case persist b s1 of
                (False, s2) \<Rightarrow> (Some (RESULT_CODE_ERROR, ''persistence unavailable''), s2)
              | (True, s2) \<Rightarrow>
                (None, acknowledgeBufferLocked (bufferID b)
                   (if events_disableInMemoryCache s2 then s2 else keep s2)))))"

definition event_refusal :: "env \<Rightarrow> request_meta option \<Rightarrow> result_code \<Rightarrow> string \<Rightarrow> event_response" where
  "event_refusal e meta code reason = \<lparr>EvMeta = responseMeta e meta code reason, EvEvent = None\<rparr>"

definition event_ok :: "env \<Rightarrow> request_meta option \<Rightarrow> significant_event \<Rightarrow> event_response" where
  "event_ok e meta v = \<lparr>EvMeta = responseMeta e meta RESULT_CODE_OK [], EvEvent = Some v\<rparr>"

definition stamped_event :: "env \<Rightarrow> significant_event \<Rightarrow> significant_event" where
  "stamped_event e v =
     (let now = fmt_rfc3339nano (env_now e)
      in v\<lparr>EvOccurredAt := (if EvOccurredAt v = [] then now else EvOccurredAt v), EvReceivedAt := now, EvRecordedAt := now\<rparr>)"

definition keep_event :: "significant_event \<Rightarrow> events_service \<Rightarrow> events_service" where
  "keep_event v s = s\<lparr>events := (events s)(EventId v \<mapsto> v), eventOrder := eventOrder s @ [EventId v]\<rparr>"

definition SubmitSignificantEvent ::
    "ext \<Rightarrow> env \<Rightarrow> auth_actor option \<Rightarrow> event_request option \<Rightarrow> events_service \<Rightarrow> event_response \<times> events_service" where
  "SubmitSignificantEvent x e ctx req s =
     (case Option.bind req (\<lambda>r. map_option (Pair (EvReq_Meta r)) (EvReq_Event r)) of
        None \<Rightarrow> (event_refusal e None RESULT_CODE_INVALID ''event_id and equipment_id are required'', s)
      | Some (meta, v) \<Rightarrow>
        if EventId v = [] \<or> EvEquipmentId v = [] then
          (event_refusal e None RESULT_CODE_INVALID ''event_id and equipment_id are required'', s)
        else (case authorize_backoffice ctx meta of
          Some reason \<Rightarrow>
            (event_refusal e meta RESULT_CODE_DENIED reason,
             submitBlocked x e meta ''significant_event'' (EventId v) ''submit_significant_event'' reason s)
        | None \<Rightarrow>
          (case events s (EventId v) of
             Some old \<Rightarrow> (event_ok e meta old, s)
           | None \<Rightarrow>
             let v1 = stamped_event e v
             in (case ingest x e meta ''significant_event'' (EventId v) ''submit_significant_event'' (event_json v1)
                       (persistSignificantEvent x e meta v1) (keep_event v1)
                       (queueBufferLocked e ''significant_event'' (EvEquipmentId v) (EventId v) (EvOccurredAt v) s) of
                   (Some (code, reason), s1) \<Rightarrow> (event_refusal e meta code reason, s1)
                 | (None, s1) \<Rightarrow> (event_ok e meta v1, s1)))))"

definition meter_refusal :: "env \<Rightarrow> request_meta option \<Rightarrow> result_code \<Rightarrow> string \<Rightarrow> meter_response" where
  "meter_refusal e meta code reason = \<lparr>MtMeta = responseMeta e meta code reason, MtMeter = None\<rparr>"

definition meter_ok :: "env \<Rightarrow> request_meta option \<Rightarrow> meter_record \<Rightarrow> meter_response" where
  "meter_ok e meta v = \<lparr>MtMeta = responseMeta e meta RESULT_CODE_OK [], MtMeter = Some v\<rparr>"

definition stamped_meter :: "env \<Rightarrow> meter_record_type \<Rightarrow> meter_record \<Rightarrow> meter_record" where
  "stamped_meter e kind v =
     (let now = fmt_rfc3339nano (env_now e)
      in v\<lparr>MtOccurredAt := (if MtOccurredAt v = [] then now else MtOccurredAt v), RecordType := kind,
           MtReceivedAt := now, MtRecordedAt := now\<rparr>)"

definition keep_meter :: "meter_record \<Rightarrow> events_service \<Rightarrow> events_service" where
  "keep_meter v s = s\<lparr>meters := (meters s)(MeterId v \<mapsto> v), meterOrder := meterOrder s @ [MeterId v]\<rparr>"

definition submitMeter ::
    "ext \<Rightarrow> env \<Rightarrow> auth_actor option \<Rightarrow> request_meta option \<Rightarrow> meter_record option \<Rightarrow> meter_record_type
     \<Rightarrow> events_service \<Rightarrow> meter_response \<times> events_service" where
  "submitMeter x e ctx meta meter kind s =
     (case meter of
        None \<Rightarrow> (meter_refusal e None RESULT_CODE_INVALID ''meter_id, equipment_id, and meter_label are required'', s)
      | Some v \<Rightarrow>
        if MeterId v = [] \<or> MtEquipmentId v = [] \<or> MeterLabel v = [] then
          (meter_refusal e None RESULT_CODE_INVALID ''meter_id, equipment_id, and meter_label are required'', s)
        else (case authorize_backoffice ctx meta of
          Some reason \<Rightarrow>
            (meter_refusal e meta RESULT_CODE_DENIED reason,
             submitBlocked x e meta ''meter_record'' (MeterId v) ''submit_meter'' reason s)
        | None \<Rightarrow>
          (case meters s (MeterId v) of
             Some old \<Rightarrow> (meter_ok e meta old, s)
           | None \<Rightarrow>
             let v1 = stamped_meter e kind v
             in (case ingest x e meta ''meter_record'' (MeterId v) ''submit_meter'' (meter_json v1)
                       (persistMeterRecord x e meta v1) (keep_meter v1)
                       (queueBufferLocked e ''meter'' (MtEquipmentId v) (MeterId v) (MtOccurredAt v) s) of
                   (Some (code, reason), s1) \<Rightarrow> (meter_refusal e meta code reason, s1)
                 | (None, s1) \<Rightarrow> (meter_ok e meta v1, s1)))))"

text \<open>\<^verbatim>\<open>req.Meta\<close> is read without a check: a nil request panics.\<close>

definition SubmitMeterSnapshot ::
    "ext \<Rightarrow> env \<Rightarrow> auth_actor option \<Rightarrow> meter_request option \<Rightarrow> events_service \<Rightarrow> meter_response outcome \<times> events_service" where
  "SubmitMeterSnapshot x e ctx req s =
     (case req of
        None \<Rightarrow> (Panics, s)
      | Some r \<Rightarrow> map_prod Returns id (submitMeter x e ctx (MtReq_Meta r) (MtReq_Meter r) METER_RECORD_TYPE_SNAPSHOT s))"

definition SubmitMeterDelta ::
    "ext \<Rightarrow> env \<Rightarrow> auth_actor option \<Rightarrow> meter_request option \<Rightarrow> events_service \<Rightarrow> meter_response outcome \<times> events_service" where
  "SubmitMeterDelta x e ctx req s =
     (case req of
        None \<Rightarrow> (Panics, s)
      | Some r \<Rightarrow> map_prod Returns id (submitMeter x e ctx (MtReq_Meta r) (MtReq_Meter r) METER_RECORD_TYPE_DELTA s))"

section \<open>Listings\<close>

definition no_record_list_request :: record_list_request where
  "no_record_list_request = \<lparr>RecList_Meta = None, RecList_EquipmentId = [], RecList_MeterLabel = [], RecList_FromTime = [],
     RecList_ToTime = [], RecList_PageSize = 0, RecList_PageToken = []\<rparr>"

text \<open>The list handlers; they read neither \<^verbatim>\<open>from_time\<close> nor \<^verbatim>\<open>to_time\<close>.\<close>

definition events_listing ::
    "ext \<Rightarrow> env \<Rightarrow> auth_actor option \<Rightarrow> record_list_request option \<Rightarrow> string \<Rightarrow> string
     \<Rightarrow> (record_list_request \<Rightarrow> nat \<Rightarrow> nat \<Rightarrow> events_service \<Rightarrow> 'a list option \<times> events_service)
     \<Rightarrow> (record_list_request \<Rightarrow> events_service \<Rightarrow> 'a list)
     \<Rightarrow> events_service \<Rightarrow> 'a record_list_response \<times> events_service" where
  "events_listing x e ctx req objectType action rows mem s =
     (let r = (case req of None \<Rightarrow> no_record_list_request | Some r \<Rightarrow> r); meta = RecList_Meta r;
          reply = (\<lambda>p. \<lparr>RecListMeta = responseMeta e meta RESULT_CODE_OK [], RecListItems = fst p, RecListNext = snd p\<rparr>);
          refuse = (\<lambda>code reason. \<lparr>RecListMeta = responseMeta e meta code reason, RecListItems = [], RecListNext = []\<rparr>)
      in case authorize_backoffice ctx meta of
           Some reason \<Rightarrow> (refuse RESULT_CODE_DENIED reason, submitBlocked x e meta objectType [] action reason s)
         | None \<Rightarrow>
           let start = page_start (RecList_PageToken r); psize = page_size 100 (RecList_PageSize r)
           in if svc_db s \<noteq> None then
                (case rows r psize start s of
                   (None, s1) \<Rightarrow> (refuse RESULT_CODE_ERROR ''persistence unavailable'', s1)
                 | (Some items, s1) \<Rightarrow> (reply (items, db_next start psize items), s1))
              else if events_disableInMemoryCache s then (reply ([], []), s)
              else (reply (page_slice start psize (mem r s)), s))"

definition event_before :: "significant_event \<Rightarrow> significant_event \<Rightarrow> bool" where
  "event_before a b =
     (if EvRecordedAt a = EvRecordedAt b then EventId a < EventId b else EvRecordedAt a < EvRecordedAt b)"

definition meter_before :: "meter_record \<Rightarrow> meter_record \<Rightarrow> bool" where
  "meter_before a b =
     (if MtRecordedAt a = MtRecordedAt b then MeterId a < MeterId b else MtRecordedAt a < MtRecordedAt b)"

definition events_of :: "record_list_request \<Rightarrow> events_service \<Rightarrow> significant_event list" where
  "events_of r s = stable_sort event_before
     (filter (\<lambda>v. RecList_EquipmentId r = [] \<or> EvEquipmentId v = RecList_EquipmentId r)
       (List.map_filter (events s) (eventOrder s)))"

definition meters_of :: "record_list_request \<Rightarrow> events_service \<Rightarrow> meter_record list" where
  "meters_of r s = stable_sort meter_before
     (filter (\<lambda>v. (RecList_EquipmentId r = [] \<or> MtEquipmentId v = RecList_EquipmentId r) \<and>
                  (RecList_MeterLabel r = [] \<or> MeterLabel v = RecList_MeterLabel r))
       (List.map_filter (meters s) (meterOrder s)))"

definition ListEvents ::
    "ext \<Rightarrow> env \<Rightarrow> auth_actor option \<Rightarrow> record_list_request option \<Rightarrow> events_service
     \<Rightarrow> significant_event record_list_response \<times> events_service" where
  "ListEvents x e ctx req s =
     events_listing x e ctx req ''significant_event'' ''list_events''
       (\<lambda>r. listEventsFromDB x (RecList_EquipmentId r)) events_of s"

definition ListMeters ::
    "ext \<Rightarrow> env \<Rightarrow> auth_actor option \<Rightarrow> record_list_request option \<Rightarrow> events_service
     \<Rightarrow> meter_record record_list_response \<times> events_service" where
  "ListMeters x e ctx req s =
     events_listing x e ctx req ''meter_record'' ''list_meters''
       (\<lambda>r. listMetersFromDB x (RecList_EquipmentId r) (RecList_MeterLabel r)) meters_of s"

end
