(* ===== verification/RegistryProps.thy ===== *)
theory RegistryProps
  imports Registry
begin

text \<open>
  What the registry gives back: the equipment that was put in last, under its identifier, with the time of its first
  registration kept.
\<close>

section \<open>The service without a database\<close>

text \<open>Equipment is filed under its identifier and has both times.\<close>

definition equipment_filed :: "(string, equipment_record) mapping \<Rightarrow> bool" where
  "equipment_filed m \<longleftrightarrow> (\<forall>eid q. Mapping.lookup m eid = Some q \<longrightarrow>
     EquipmentId q = eid \<and> eid \<noteq> [] \<and> EquipCreatedAt q \<noteq> [] \<and> UpdatedAt q \<noteq> [])"

definition registry_inv :: "ext \<Rightarrow> registry_service \<Rightarrow> bool" where
  "registry_inv x s \<longleftrightarrow> mem_idle x s \<and> equipment_filed (equipment s)"

lemma registry_appendAudit_mem:
  assumes "mem_idle x s"
  obtains st n where "registry_appendAudit x e meta oid act b a r why s = (True, s\<lparr>svc_AuditStore := st, svc_nextAuditID := n\<rparr>)"
    "mem_idle x (s\<lparr>svc_AuditStore := st, svc_nextAuditID := n\<rparr>)"
  by (rule svc_append_mem [OF assms]) (rule that [unfolded registry_appendAudit_def])

lemma registry_denied_mem:
  assumes "mem_idle x s"
  shows "mem_idle x (registry_denied x e meta oid act why s) \<and> equipment (registry_denied x e meta oid act why s) = equipment s"
  by (rule registry_appendAudit_mem [OF assms, of e meta oid act json_empty json_empty ResultDenied why])
     (simp add: registry_denied_def)

text \<open>A registration that is admitted.\<close>

lemma UpsertEquipment_admitted:
  assumes "mem_idle x s" "Upsert_Equipment r = Some q" "EquipmentId q \<noteq> []" "authorize_backoffice ctx (Upsert_Meta r) = None"
  obtains st n where "UpsertEquipment x e ctx (Some r) s =
      (equipment_ok e (Upsert_Meta r) (stamped_equipment e (Mapping.lookup (equipment s) (EquipmentId q)) q),
       store_equipment (stamped_equipment e (Mapping.lookup (equipment s) (EquipmentId q)) q)
         (s\<lparr>svc_AuditStore := st, svc_nextAuditID := n\<rparr>))"
    "mem_idle x (s\<lparr>svc_AuditStore := st, svc_nextAuditID := n\<rparr>)"
proof -
  let ?old = "Mapping.lookup (equipment s) (EquipmentId q)"
  let ?q = "stamped_equipment e ?old q"
  have db: "svc_db s = None" using assms(1) by (simp add: mem_idle_def)
  obtain st n where a: "registry_appendAudit x e (Upsert_Meta r) (EquipmentId q) ''upsert_equipment''
      (equipmentSnapshot ?old) (equipmentSnapshot (Some ?q)) ResultSuccess (Upsert_Reason r) s =
      (True, s\<lparr>svc_AuditStore := st, svc_nextAuditID := n\<rparr>)"
    "mem_idle x (s\<lparr>svc_AuditStore := st, svc_nextAuditID := n\<rparr>)"
    by (rule registry_appendAudit_mem [OF assms(1)])
  show ?thesis
    by (rule that [OF _ a(2)]) (use assms(2-4) db a(1) in \<open>simp add: UpsertEquipment_def Let_def\<close>)
qed

lemma stamped_equipment_id [simp]: "EquipmentId (stamped_equipment e old q) = EquipmentId q"
  by (simp add: stamped_equipment_def Let_def)

lemma store_equipment_inv:
  assumes "registry_inv x s" "EquipmentId q \<noteq> []" "mem_idle x (s\<lparr>svc_AuditStore := st, svc_nextAuditID := n\<rparr>)"
  shows "registry_inv x (store_equipment (stamped_equipment e old q) (s\<lparr>svc_AuditStore := st, svc_nextAuditID := n\<rparr>))"
proof -
  have "EquipCreatedAt (stamped_equipment e old q) \<noteq> []" "UpdatedAt (stamped_equipment e old q) \<noteq> []"
    by (auto simp: stamped_equipment_def Let_def fmt_rfc3339nano_def split_beta split: option.splits)
  with assms show ?thesis
    by (auto simp: registry_inv_def store_equipment_def equipment_filed_def lookup_update' mem_idle_def svc_ok_def)
qed

lemma UpsertEquipment_inv:
  assumes inv: "registry_inv x s"
  shows "registry_inv x (snd (UpsertEquipment x e ctx req s))"
proof (cases "\<exists>r q. req = Some r \<and> Upsert_Equipment r = Some q \<and> EquipmentId q \<noteq> [] \<and> authorize_backoffice ctx (Upsert_Meta r) = None")
  case True
  then obtain r q where r: "req = Some r" "Upsert_Equipment r = Some q" "EquipmentId q \<noteq> []"
      "authorize_backoffice ctx (Upsert_Meta r) = None" by blast
  have idle: "mem_idle x s" using inv by (simp add: registry_inv_def)
  show ?thesis
    by (rule UpsertEquipment_admitted [OF idle r(2-4), of e]) (use store_equipment_inv [OF inv r(3)] r(1) in simp)
next
  case False
  have "registry_inv x (registry_denied x e meta oid act why s)" for meta oid act why
    using registry_denied_mem inv by (simp add: registry_inv_def)
  with False inv show ?thesis
    by (cases "Option.bind req (\<lambda>r. map_option (Pair r) (Upsert_Equipment r))")
       (auto simp: UpsertEquipment_def Let_def split: option.splits bind_splits)
qed

lemma registry_reads_inv:
  assumes "registry_inv x s"
  shows "registry_inv x (snd (GetEquipment x e ctx g s))" "registry_inv x (snd (ListEquipment x e ctx l s))"
proof -
  have "registry_inv x (registry_denied x e meta oid act why s)" for meta oid act why
    using registry_denied_mem assms by (simp add: registry_inv_def)
  moreover have "svc_db s = None" using assms by (simp add: registry_inv_def mem_idle_def)
  ultimately show "registry_inv x (snd (GetEquipment x e ctx g s))" "registry_inv x (snd (ListEquipment x e ctx l s))"
    using assms by (simp_all add: GetEquipment_def ListEquipment_def Let_def split: option.splits)
qed

datatype registry_request =
    CallUpsert "upsert_request option" | CallGetEquipment "get_request option" | CallEquipment "equipment_list_request option"
  | CallRegistryCache bool

type_synonym registry_input = "env \<times> auth_actor option \<times> registry_request"

fun registry_react :: "ext \<Rightarrow> registry_input \<Rightarrow> registry_service \<Rightarrow> registry_service" where
  "registry_react x (e, ctx, CallUpsert r) s = snd (UpsertEquipment x e ctx r s)"
| "registry_react x (e, ctx, CallGetEquipment r) s = snd (GetEquipment x e ctx r s)"
| "registry_react x (e, ctx, CallEquipment r) s = snd (ListEquipment x e ctx r s)"
| "registry_react x (e, ctx, CallRegistryCache b) s = registry_SetDisableInMemoryCache b s"

definition registry_runs :: "ext \<Rightarrow> registry_input list \<Rightarrow> registry_service" where
  "registry_runs x reqs = fold (registry_react x) reqs (NewRegistryService None)"

lemma registry_switch_inv: "registry_inv x s \<Longrightarrow> registry_inv x (registry_SetDisableInMemoryCache b s)"
  by (simp add: registry_SetDisableInMemoryCache_def registry_inv_def mem_idle_def svc_ok_def)

interpretation reg: reactor "\<lambda>s. s = NewRegistryService None" "registry_react x" "registry_inv x" for x
proof unfold_locales
  fix s i assume "registry_inv x s"
  then show "registry_inv x (registry_react x i s)"
    by (cases "(x, i, s)" rule: registry_react.cases)
       (simp_all add: UpsertEquipment_inv registry_reads_inv registry_switch_inv)
qed (simp add: registry_inv_def NewRegistryService_def mem_idle_def svc_ok_def equipment_filed_def)

lemma registry_runs_inv: "registry_inv x (registry_runs x reqs)"
  unfolding registry_runs_def by (rule reg.always_inv) simp

section \<open>Properties\<close>

text \<open>
  Without a database, equipment that a request registers is what the next look-up of its identifier answers, with the
  fields of the request; its time of creation is the one the request names, else that of the registration it replaces, else
  now; its time of update is now; and no other equipment changes.
\<close>

theorem equipment_roundtrip:
  assumes "s = registry_runs x reqs" "\<not> registry_disableInMemoryCache s"
    and "Upsert_Equipment r = Some q" "EquipmentId q \<noteq> []" "authorize_backoffice ctx (Upsert_Meta r) = None"
    and "Get_EquipmentId g = EquipmentId q" "authorize_backoffice ctx' (Get_Meta g) = None"
    and "s1 = snd (UpsertEquipment x e ctx (Some r) s)"
    and "created = (if EquipCreatedAt q \<noteq> [] then EquipCreatedAt q
           else case Mapping.lookup (equipment s) (EquipmentId q) of Some old \<Rightarrow> EquipCreatedAt old
                | None \<Rightarrow> fmt_rfc3339nano (env_now e))"
    and "q' = q\<lparr>EquipCreatedAt := created, UpdatedAt := fmt_rfc3339nano (env_now e)\<rparr>"
  shows "fst (UpsertEquipment x e ctx (Some r) s) = equipment_ok e (Upsert_Meta r) q' \<and>
    GetEquipment x e' ctx' (Some g) s1 = (equipment_ok e' (Get_Meta g) q', s1) \<and>
    (\<forall>eid. eid \<noteq> EquipmentId q \<longrightarrow> Mapping.lookup (equipment s1) eid = Mapping.lookup (equipment s) eid)"
proof -
  have inv: "registry_inv x s" using registry_runs_inv assms(1) by blast
  then have idle: "mem_idle x s" by (simp add: registry_inv_def)
  have q': "stamped_equipment e (Mapping.lookup (equipment s) (EquipmentId q)) q = q'"
    using inv assms(9,10) by (auto simp: stamped_equipment_def Let_def registry_inv_def equipment_filed_def split: option.splits)
  obtain st n where u: "UpsertEquipment x e ctx (Some r) s = (equipment_ok e (Upsert_Meta r) q',
      store_equipment q' (s\<lparr>svc_AuditStore := st, svc_nextAuditID := n\<rparr>))"
    by (rule UpsertEquipment_admitted [OF idle assms(3-5), of e]) (simp add: q')
  have id: "EquipmentId q' = EquipmentId q" by (simp add: assms(10))
  have s1: "equipment s1 = Mapping.update (EquipmentId q) q' (equipment s)" "\<not> registry_disableInMemoryCache s1" "svc_db s1 = None"
    using u assms(2,8) idle by (simp_all add: store_equipment_def id mem_idle_def)
  show ?thesis
    using u s1 assms(4,6,7) by (simp add: GetEquipment_def Let_def lookup_update lookup_update_neq)
qed

definition demo_equipment :: equipment_record where
  "demo_equipment = \<lparr>EquipmentId = ''egm-1'', ExternalReference = [], Location = ''floor'', EquipStatus = EQUIPMENT_STATUS_ACTIVE,
     TheoreticalRtpBps = ''9400'', ControlProgramVersion = [], ConfigVersion = [], EquipCreatedAt = [], UpdatedAt = [],
     Attributes = []\<rparr>"

theorem equipment_roundtrip_witness:
  "\<exists>q'. fst (GetEquipment demo_ext demo_env None (Some \<lparr>Get_Meta = demo_meta ''k'', Get_EquipmentId = ''egm-1''\<rparr>)
     (snd (UpsertEquipment demo_ext demo_env None
        (Some \<lparr>Upsert_Meta = demo_meta ''k'', Upsert_Equipment = Some demo_equipment, Upsert_Reason = []\<rparr>)
        (registry_runs demo_ext [])))) = equipment_ok demo_env (demo_meta ''k'') q' \<and> Location q' = ''floor''"
proof -
  have auth: "authorize_backoffice None (demo_meta ''k'') = None"
    by (simp add: authorize_backoffice_def resolveActor_def demo_meta_def operator_or_service_def)
  have on: "\<not> registry_disableInMemoryCache (registry_runs demo_ext [])" by (simp add: registry_runs_def NewRegistryService_def)
  have id: "EquipmentId demo_equipment = ''egm-1''" "Location demo_equipment = ''floor''" "EquipCreatedAt demo_equipment = []"
    "Mapping.lookup (equipment (registry_runs demo_ext [])) ''egm-1'' = None" by (simp_all add: demo_equipment_def registry_runs_def NewRegistryService_def)
  let ?r = "\<lparr>Upsert_Meta = demo_meta ''k'', Upsert_Equipment = Some demo_equipment, Upsert_Reason = []\<rparr>"
  let ?g = "\<lparr>Get_Meta = demo_meta ''k'', Get_EquipmentId = ''egm-1''\<rparr>"
  from equipment_roundtrip [where q = demo_equipment and r = ?r and g = ?g and x = demo_ext and ctx = None and ctx' = None
      and e = demo_env and e' = demo_env, OF refl on _ _ _ _ _ refl refl refl] auth id
  show ?thesis
    by (intro exI [of _ "demo_equipment\<lparr>EquipCreatedAt := fmt_rfc3339nano (env_now demo_env),
        UpdatedAt := fmt_rfc3339nano (env_now demo_env)\<rparr>"]) simp
qed

end
