(* ===== verification/IngestionProps.thy ===== *)
theory IngestionProps
  imports Ingestion RegistryProps "HOL-Library.Product_Lexorder"
begin

text \<open>
  The ingestion buffer is bounded, and a full one stops the service for good: without a database that never happens, with one
  every failed submission brings it nearer. Stored events are listed once each, in the order of a reference sort, and an
  event's equipment is registered with it.
\<close>

section \<open>The buffer\<close>

definition buffers_ok :: "events_service \<Rightarrow> bool" where
  "buffers_ok s \<longleftrightarrow> bufferCap s = 1024 \<and> queued s \<le> bufferCap s \<and> (events_disabled s \<longrightarrow> queued s = bufferCap s) \<and>
     (\<forall>b \<in> set (buffers s). \<exists>k \<le> nextBuffer s. bufferID b = buffer_id k)"

text \<open>The part of the state the buffer is kept in.\<close>

definition buffer_view :: "events_service \<Rightarrow> ingestionBufferRecord list \<times> nat \<times> bool \<times> nat" where
  "buffer_view s = (buffers s, bufferCap s, events_disabled s, nextBuffer s)"

lemma buffer_view_eq:
  "buffer_view s' = buffer_view s \<Longrightarrow> buffers_ok s' = buffers_ok s \<and> queued s' = queued s \<and> events_disabled s' = events_disabled s"
  by (simp add: buffer_view_def buffers_ok_def queued_def)

lemma events_appendAudit_frame:
  defines "a x e meta ot oid act b c r why s \<equiv> snd (events_appendAudit x e meta ot oid act b c r why s)"
  shows "buffer_view (a x e meta ot oid act b c r why s) = buffer_view s"
    and "events_disableInMemoryCache (a x e meta ot oid act b c r why s) = events_disableInMemoryCache s"
    and "(events (a x e meta ot oid act b c r why s), eventOrder (a x e meta ot oid act b c r why s)) = (events s, eventOrder s)"
  using svc_append_fields [of x e "\<lambda>n. audit_event e (''events-audit-'' @ itoa_nat n) meta ot oid act b c r why" s]
  by (auto simp: a_def events_appendAudit_def buffer_view_def)

lemma submitBlocked_frame: "buffer_view (submitBlocked x e meta ot oid act why s) = buffer_view s"
  by (simp add: submitBlocked_def events_appendAudit_frame)

lemma svc_exec_buffer_view: "buffer_view (snd (svc_exec q s)) = buffer_view s" for s :: events_service
  by (auto simp: svc_exec_def buffer_view_def split: option.splits prod.splits)

lemma buffer_id_inj [simp]: "buffer_id k = buffer_id n \<longleftrightarrow> k = n"
  by (simp add: buffer_id_def)

lemma buffers_ok_fresh: "buffers_ok s \<Longrightarrow> c \<in> set (buffers s) \<Longrightarrow> bufferID c \<noteq> buffer_id (Suc (nextBuffer s))"
  by (fastforce simp: buffers_ok_def)

lemma acknowledge_last: "(\<And>b. b \<in> set bs \<Longrightarrow> bufferID b \<noteq> bid) \<Longrightarrow> bufferID b = bid \<Longrightarrow>
    acknowledge bid (bs @ [b]) = bs @ [b\<lparr>buf_status := bufferAcknowledged\<rparr>]"
  by (induction bs) auto

text \<open>What a submission that reaches the buffer does to it.\<close>

inductive buffer_step :: "events_service \<Rightarrow> (result_code \<times> string) option \<Rightarrow> events_service \<Rightarrow> bool" where
  refused: "events_disabled s \<or> bufferCap s \<le> queued s \<Longrightarrow> buffer_view s' = (buffers s, bufferCap s, True, nextBuffer s) \<Longrightarrow>
    buffer_step s (Some (RESULT_CODE_DENIED, ''ingestion buffer exhausted'')) s'"
| stuck: "\<not> events_disabled s \<Longrightarrow> queued s < bufferCap s \<Longrightarrow> buf_status b = bufferQueued \<Longrightarrow> bufferID b = buffer_id (Suc (nextBuffer s)) \<Longrightarrow>
    buffer_view s' = (buffers s @ [b], bufferCap s, False, Suc (nextBuffer s)) \<Longrightarrow> buffer_step s (Some failure) s'"
| stored: "\<not> events_disabled s \<Longrightarrow> queued s < bufferCap s \<Longrightarrow> buf_status b = bufferAcknowledged \<Longrightarrow>
    bufferID b = buffer_id (Suc (nextBuffer s)) \<Longrightarrow>
    buffer_view s' = (buffers s @ [b], bufferCap s, False, Suc (nextBuffer s)) \<Longrightarrow> buffer_step s None s'"

lemma ingest_buffer_step:
  assumes ok: "buffers_ok s"
    and persist: "\<And>b s. buffer_view (snd (persist b s)) = buffer_view s"
    and keep: "\<And>s. buffer_view (keep s) = buffer_view s"
    and out: "ingest x e meta ot oid act a persist keep (queueBufferLocked e kind eid sid occ s) = (res, s')"
  shows "buffer_step s res s'"
proof (cases "events_disabled s \<or> bufferCap s \<le> queued s")
  case True
  define s0 where "s0 = (if events_disabled s then s else s\<lparr>events_disabled := True\<rparr>)"
  have s0: "queueBufferLocked e kind eid sid occ s = (None, s0)" "buffer_view s0 = (buffers s, bufferCap s, True, nextBuffer s)"
    using True by (auto simp: queueBufferLocked_def buffer_view_def s0_def)
  then have "res = Some (RESULT_CODE_DENIED, ''ingestion buffer exhausted'')" "buffer_view s' = buffer_view s0"
    using out by (auto simp: ingest_def submitBlocked_frame)
  then show ?thesis using True s0 by (auto intro: buffer_step.refused)
next
  case False
  define b where "b = new_buffer e kind eid sid occ (Suc (nextBuffer s))"
  define s0 where "s0 = s\<lparr>nextBuffer := Suc (nextBuffer s), buffers := buffers s @ [b]\<rparr>"
  have b: "buf_status b = bufferQueued" "bufferID b = buffer_id (Suc (nextBuffer s))" by (simp_all add: b_def new_buffer_def)
  have view: "buffer_view s0 = (buffers s @ [b], bufferCap s, False, Suc (nextBuffer s))"
    using False by (simp add: buffer_view_def s0_def)
  have place: "queueBufferLocked e kind eid sid occ s = (Some b, s0)"
    using False by (simp add: queueBufferLocked_def Let_def b_def s0_def)
  obtain ok1 s1 where a: "events_appendAudit x e meta ot oid act json_empty a ResultSuccess [] s0 = (ok1, s1)" by fastforce
  have v1: "buffer_view s1 = buffer_view s0"
    using events_appendAudit_frame(1) [of x e meta ot oid act json_empty a ResultSuccess "[]" s0] a by simp
  obtain ok2 s2 where p: "persist b s1 = (ok2, s2)" by fastforce
  have v2: "buffer_view s2 = buffer_view s1" using persist [of b s1] p by simp
  show ?thesis
  proof (cases "ok1 \<and> ok2")
    case True
    let ?k = "if events_disableInMemoryCache s2 then s2 else keep s2"
    have k: "buffer_view ?k = buffer_view s0" using keep v1 v2 by simp
    have fresh: "bufferID c \<noteq> bufferID b" if "c \<in> set (buffers s)" for c
      using buffers_ok_fresh [OF ok that] b(2) by simp
    have s': "s' = acknowledgeBufferLocked (bufferID b) ?k" "res = None"
      using out place a p True by (simp_all add: ingest_def)
    have "acknowledge (bufferID b) (buffers s @ [b]) = buffers s @ [b\<lparr>buf_status := bufferAcknowledged\<rparr>]"
      using fresh by (rule acknowledge_last) simp_all
    then have "buffer_view s' = (buffers s @ [b\<lparr>buf_status := bufferAcknowledged\<rparr>], bufferCap s, False, Suc (nextBuffer s))" "res = None"
      using k view s' by (simp_all add: acknowledgeBufferLocked_def buffer_view_def)
    then show ?thesis using False b by (auto intro!: buffer_step.stored [where b = "b\<lparr>buf_status := bufferAcknowledged\<rparr>"])
  next
    case fail: False
    then have "\<exists>f. res = Some f" "buffer_view s' = buffer_view s0"
      using out place a p v1 v2 by (auto simp: ingest_def split: bool.splits)
    then show ?thesis using False b view by (auto intro!: buffer_step.stuck [where b = b])
  qed
qed

lemma buffer_step_ok: "buffer_step s res s' \<Longrightarrow> buffers_ok s \<Longrightarrow> buffers_ok s' \<and> (events_disabled s \<longrightarrow> events_disabled s')"
proof (induction rule: buffer_step.induct)
  case (refused s s')
  then show ?case by (auto simp: buffer_view_def buffers_ok_def queued_def)
next
  case (stuck s b s' failure)
  then show ?case by (auto simp: buffer_view_def buffers_ok_def queued_def intro: le_SucI)
next
  case (stored s b s')
  then show ?case by (auto simp: buffer_view_def buffers_ok_def queued_def intro: le_SucI)
qed


section \<open>The handlers and the buffer\<close>

text \<open>A handler leaves the buffer alone or makes one step of it.\<close>

definition buffer_call :: "events_service \<Rightarrow> events_service \<Rightarrow> bool" where
  "buffer_call s s' \<longleftrightarrow> buffer_view s' = buffer_view s \<or> (\<exists>res. buffer_step s res s')"

lemma buffer_call_same: "buffer_call s s"
  by (simp add: buffer_call_def)

lemma buffer_call_blocked: "buffer_call s (submitBlocked x e meta ot oid act why s)"
  by (simp add: buffer_call_def submitBlocked_frame)

lemma snd_answer [simp]: "snd (case out of (Some (code, why), s1) \<Rightarrow> (bad code why, s1) | (None, s1) \<Rightarrow> (good, s1)) = snd out"
  by (auto split: prod.splits option.splits)

lemma persist_buffer_view [simp]:
  "buffer_view (snd (persistSignificantEvent x e meta v b s)) = buffer_view s"
  "buffer_view (snd (persistMeterRecord x e meta m b s)) = buffer_view s"
  by (simp_all add: persistSignificantEvent_def persistMeterRecord_def svc_exec_buffer_view)

lemma keep_buffer_view [simp]: "buffer_view (keep_event v s) = buffer_view s" "buffer_view (keep_meter m s) = buffer_view s"
  by (simp_all add: keep_event_def keep_meter_def buffer_view_def)

lemma SubmitSignificantEvent_buffer:
  assumes "buffers_ok s"
  shows "buffer_call s (snd (SubmitSignificantEvent x e ctx req s))"
proof -
  have "buffer_call s (snd (ingest x e meta ot oid act a (persistSignificantEvent x e meta v) (keep_event v)
      (queueBufferLocked e kind eid sid occ s)))" for meta ot oid act a v kind eid sid occ
  proof -
    obtain res s1 where out: "ingest x e meta ot oid act a (persistSignificantEvent x e meta v) (keep_event v) (queueBufferLocked e kind eid sid occ s) = (res, s1)"
      by fastforce
    have "buffer_step s res s1" by (rule ingest_buffer_step [OF assms _ _ out]) simp_all
    then show ?thesis by (auto simp: buffer_call_def out)
  qed
  then show ?thesis
    by (simp add: SubmitSignificantEvent_def Let_def buffer_call_blocked buffer_call_same split: option.splits)
qed

lemma submitMeter_buffer:
  assumes "buffers_ok s"
  shows "buffer_call s (snd (submitMeter x e ctx meta m kind s))"
proof -
  have "buffer_call s (snd (ingest x e meta ot oid act a (persistMeterRecord x e meta v) (keep_meter v)
      (queueBufferLocked e k eid sid occ s)))" for ot oid act a v k eid sid occ
  proof -
    obtain res s1 where out: "ingest x e meta ot oid act a (persistMeterRecord x e meta v) (keep_meter v) (queueBufferLocked e k eid sid occ s) = (res, s1)"
      by fastforce
    have "buffer_step s res s1" by (rule ingest_buffer_step [OF assms _ _ out]) simp_all
    then show ?thesis by (auto simp: buffer_call_def out)
  qed
  then show ?thesis
    by (simp add: submitMeter_def Let_def buffer_call_blocked buffer_call_same split: option.splits)
qed

lemma svc_query_buffer_view: "buffer_view (snd (svc_query q s)) = buffer_view s" for s :: events_service
  by (auto simp: svc_query_def buffer_view_def split: option.splits prod.splits)

lemma events_listing_buffer:
  assumes "\<And>r n k s. buffer_view (snd (rows r n k s)) = buffer_view s"
  shows "buffer_view (snd (events_listing x e ctx req ot act rows mem s)) = buffer_view s"
proof -
  have "buffer_view s1 = buffer_view s" if "rows r n k s = (out, s1)" for r n k out s1
    using assms [of r n k s] that by simp
  then show ?thesis
    by (auto simp: events_listing_def Let_def submitBlocked_frame split: option.splits prod.splits)
qed

datatype ingestion_request =
    CallEvent "event_request option" | CallSnapshot "meter_request option" | CallDelta "meter_request option"
  | CallEvents "record_list_request option" | CallMeters "record_list_request option" | CallEventsCache bool

type_synonym ingestion_input = "env \<times> auth_actor option \<times> ingestion_request"

fun ingestion_react :: "ext \<Rightarrow> ingestion_input \<Rightarrow> events_service \<Rightarrow> events_service" where
  "ingestion_react x (e, ctx, CallEvent r) s = snd (SubmitSignificantEvent x e ctx r s)"
| "ingestion_react x (e, ctx, CallSnapshot r) s = snd (SubmitMeterSnapshot x e ctx r s)"
| "ingestion_react x (e, ctx, CallDelta r) s = snd (SubmitMeterDelta x e ctx r s)"
| "ingestion_react x (e, ctx, CallEvents r) s = snd (ListEvents x e ctx r s)"
| "ingestion_react x (e, ctx, CallMeters r) s = snd (ListMeters x e ctx r s)"
| "ingestion_react x (e, ctx, CallEventsCache b) s = events_SetDisableInMemoryCache b s"

definition ingestion_runs :: "ext \<Rightarrow> floor_db option \<Rightarrow> ingestion_input list \<Rightarrow> events_service" where
  "ingestion_runs x h reqs = fold (ingestion_react x) reqs (NewEventsService h)"

lemma ingestion_react_buffer:
  assumes "buffers_ok s"
  shows "buffer_call s (ingestion_react x i s)"
proof -
  obtain e ctx c where i: "i = (e, ctx, c)" by (cases i) auto
  have same: "buffer_view s' = buffer_view s \<Longrightarrow> buffer_call s s'" for s' by (simp add: buffer_call_def)
  have "buffer_view (snd (ListEvents x e ctx r s)) = buffer_view s" "buffer_view (snd (ListMeters x e ctx r s)) = buffer_view s" for r
    unfolding ListEvents_def ListMeters_def
    by (rule events_listing_buffer, simp add: listEventsFromDB_def listMetersFromDB_def svc_query_buffer_view)+
  then show ?thesis
    using SubmitSignificantEvent_buffer [OF assms] submitMeter_buffer [OF assms]
    by (cases c) (auto simp: i SubmitMeterSnapshot_def SubmitMeterDelta_def events_SetDisableInMemoryCache_def same
        buffer_view_def split: option.splits)
qed

interpretation buf: reactor "\<lambda>s. \<exists>h. s = NewEventsService h" "ingestion_react x" buffers_ok for x
proof unfold_locales
  fix s i assume "buffers_ok s"
  then show "buffers_ok (ingestion_react x i s)"
    using ingestion_react_buffer [of s x i] buffer_step_ok buffer_view_eq unfolding buffer_call_def by blast
qed (auto simp: buffers_ok_def NewEventsService_def queued_def)

interpretation off: reactor "\<lambda>s. buffers_ok s \<and> events_disabled s" "ingestion_react x" "\<lambda>s. buffers_ok s \<and> events_disabled s" for x
proof unfold_locales
  fix s i assume "buffers_ok s \<and> events_disabled s"
  then show "buffers_ok (ingestion_react x i s) \<and> events_disabled (ingestion_react x i s)"
    using ingestion_react_buffer [of s x i] buffer_step_ok buffer_view_eq unfolding buffer_call_def by blast
qed

lemma ingestion_runs_ok: "buffers_ok (ingestion_runs x h reqs)"
  unfolding ingestion_runs_def by (rule buf.always_inv) blast

section \<open>The service without a database\<close>

text \<open>The events in memory: each once in the order, under its identifier.\<close>

definition records_ok :: "events_service \<Rightarrow> bool" where
  "records_ok s \<longleftrightarrow> distinct (eventOrder s) \<and> set (eventOrder s) \<subseteq> dom (events s) \<and>
     (\<forall>k v. events s k = Some v \<longrightarrow> EventId v = k)"

definition ingestion_inv :: "ext \<Rightarrow> events_service \<Rightarrow> bool" where
  "ingestion_inv x s \<longleftrightarrow> mem_idle x s \<and> buffers_ok s \<and> queued s = 0 \<and> \<not> events_disabled s \<and> records_ok s"

text \<open>What of the state says whether the service is in memory and which events it holds.\<close>

definition same_store :: "events_service \<Rightarrow> events_service \<Rightarrow> bool" where
  "same_store s s' \<longleftrightarrow> events s' = events s \<and> eventOrder s' = eventOrder s"

lemma events_appendAudit_mem:
  assumes "mem_idle x s"
  obtains st n where "events_appendAudit x e meta ot oid act b a r why s = (True, s\<lparr>svc_AuditStore := st, svc_nextAuditID := n\<rparr>)"
    "mem_idle x (s\<lparr>svc_AuditStore := st, svc_nextAuditID := n\<rparr>)"
  by (rule svc_append_mem [OF assms]) (rule that [unfolded events_appendAudit_def])

lemma submitBlocked_inv:
  assumes "ingestion_inv x s"
  shows "ingestion_inv x (submitBlocked x e meta ot oid act why s)"
proof -
  have "mem_idle x s" using assms by (simp add: ingestion_inv_def)
  then obtain st n where b: "submitBlocked x e meta ot oid act why s = s\<lparr>svc_AuditStore := st, svc_nextAuditID := n\<rparr>"
      "mem_idle x (s\<lparr>svc_AuditStore := st, svc_nextAuditID := n\<rparr>)"
    by (rule events_appendAudit_mem [of x s e meta ot oid act json_empty json_empty ResultDenied why]) (simp add: submitBlocked_def)
  then show ?thesis using assms by (simp add: ingestion_inv_def buffers_ok_def queued_def records_ok_def)
qed

text \<open>A submission in memory is always stored.\<close>

lemma ingest_mem:
  assumes inv: "ingestion_inv x s"
    and persist: "\<And>b s. svc_db s = None \<Longrightarrow> persist b s = (True, s)"
    and frame: "\<And>b s. buffer_view (snd (persist b s)) = buffer_view s"
    and keep: "\<And>s. buffer_view (keep s) = buffer_view s" "\<And>s. mem_idle x s \<Longrightarrow> mem_idle x (keep s)"
    and pres: "\<And>s1. same_store s s1 \<Longrightarrow> records_ok (keep s1)"
  shows "fst (ingest x e meta ot oid act a persist keep (queueBufferLocked e kind eid sid occ s)) = None \<and>
    ingestion_inv x (snd (ingest x e meta ot oid act a persist keep (queueBufferLocked e kind eid sid occ s)))"
proof -
  note [simp] = ingestion_inv_def
  define b where "b = new_buffer e kind eid sid occ (Suc (nextBuffer s))"
  define s0 where "s0 = s\<lparr>nextBuffer := Suc (nextBuffer s), buffers := buffers s @ [b]\<rparr>"
  have place: "queueBufferLocked e kind eid sid occ s = (Some b, s0)"
    using inv by (simp add: queueBufferLocked_def Let_def b_def s0_def buffers_ok_def)
  have idle0: "mem_idle x s0" using inv by (simp add: s0_def mem_idle_def svc_ok_def)
  obtain st n where au: "events_appendAudit x e meta ot oid act json_empty a ResultSuccess [] s0 =
      (True, s0\<lparr>svc_AuditStore := st, svc_nextAuditID := n\<rparr>)" "mem_idle x (s0\<lparr>svc_AuditStore := st, svc_nextAuditID := n\<rparr>)"
    by (rule events_appendAudit_mem [OF idle0])
  define s1 where "s1 = s0\<lparr>svc_AuditStore := st, svc_nextAuditID := n\<rparr>"
  define s2 where "s2 = (if events_disableInMemoryCache s1 then s1 else keep s1)"
  have "svc_db s1 = None" using au(2) by (simp add: s1_def mem_idle_def)
  then have out: "ingest x e meta ot oid act a persist keep (queueBufferLocked e kind eid sid occ s) =
      (None, acknowledgeBufferLocked (bufferID b) s2)"
    using place au(1) persist by (simp add: ingest_def s1_def s2_def)
  have ok: "buffers_ok s" "queued s = 0" "records_ok s" using inv by simp_all
  have step: "buffer_step s None (acknowledgeBufferLocked (bufferID b) s2)"
    by (rule ingest_buffer_step [OF ok(1) frame keep(1) out])
  have "same_store s s1" by (simp add: same_store_def s1_def s0_def)
  then have "records_ok s2" using pres ok(3) by (simp add: s2_def same_store_def records_ok_def)
  moreover have "mem_idle x s2" using au(2) keep(2) by (simp add: s2_def s1_def)
  moreover have "queued (acknowledgeBufferLocked (bufferID b) s2) = 0 \<and> \<not> events_disabled (acknowledgeBufferLocked (bufferID b) s2)"
    using step ok(2) by (cases rule: buffer_step.cases) (auto simp: buffer_view_def queued_def)
  moreover have "buffers_ok (acknowledgeBufferLocked (bufferID b) s2)" using buffer_step_ok [OF step ok(1)] by simp
  ultimately show ?thesis
    by (simp add: out) (simp add: acknowledgeBufferLocked_def mem_idle_def svc_ok_def records_ok_def)
qed

lemma keep_event_records:
  "records_ok s \<Longrightarrow> events s (EventId v) = None \<Longrightarrow> same_store s s1 \<Longrightarrow> records_ok (keep_event v s1)"
  by (auto simp: records_ok_def keep_event_def same_store_def)

lemma stamped_event_id [simp]: "EventId (stamped_event e v) = EventId v"
  by (simp add: stamped_event_def Let_def)

lemma persist_mem: "svc_db s = None \<Longrightarrow> persistSignificantEvent x e meta v b s = (True, s)"
  "svc_db s = None \<Longrightarrow> persistMeterRecord x e meta m b s = (True, s)"
  by (simp_all add: persistSignificantEvent_def persistMeterRecord_def svc_exec_def)

lemma keep_idle: "mem_idle x s \<Longrightarrow> mem_idle x (keep_event v s) \<and> mem_idle x (keep_meter m s)"
  by (simp add: keep_event_def keep_meter_def mem_idle_def svc_ok_def)

lemma SubmitSignificantEvent_inv:
  assumes inv: "ingestion_inv x s"
  shows "ingestion_inv x (snd (SubmitSignificantEvent x e ctx req s))"
proof -
  have "ingestion_inv x (snd (ingest x e meta ot oid act a (persistSignificantEvent x e meta (stamped_event e v))
      (keep_event (stamped_event e v)) (queueBufferLocked e kind eid sid occ s)))"
    if "events s (EventId v) = None" for meta ot oid act a v kind eid sid occ
    by (rule ingest_mem [OF inv, THEN conjunct2])
       (use inv that keep_event_records [of s "stamped_event e v"] in \<open>simp_all add: persist_mem keep_idle ingestion_inv_def\<close>)
  with inv submitBlocked_inv [OF inv] show ?thesis
    by (simp add: SubmitSignificantEvent_def Let_def split: option.splits)
qed

lemma submitMeter_inv:
  assumes inv: "ingestion_inv x s"
  shows "ingestion_inv x (snd (submitMeter x e ctx meta m kind s))"
proof -
  have "records_ok (keep_meter v s1)" if "same_store s s1" for v s1
    using inv that by (simp add: keep_meter_def same_store_def records_ok_def ingestion_inv_def)
  then have "ingestion_inv x (snd (ingest x e meta ot oid act a (persistMeterRecord x e meta v)
      (keep_meter v) (queueBufferLocked e k eid sid occ s)))" for ot oid act a v k eid sid occ
    by (intro ingest_mem [OF inv, THEN conjunct2]) (simp_all add: persist_mem keep_idle)
  with inv submitBlocked_inv [OF inv] show ?thesis
    by (simp add: submitMeter_def Let_def split: option.splits)
qed

lemma events_listing_inv: "ingestion_inv x s \<Longrightarrow> ingestion_inv x (snd (events_listing x e ctx req ot act rows mem s))"
  by (auto simp: events_listing_def Let_def submitBlocked_inv ingestion_inv_def [of x s] mem_idle_def split: option.splits)

lemma events_switch_inv: "ingestion_inv x s \<Longrightarrow> ingestion_inv x (events_SetDisableInMemoryCache b s)"
  by (simp add: events_SetDisableInMemoryCache_def ingestion_inv_def mem_idle_def svc_ok_def buffers_ok_def queued_def records_ok_def)

interpretation ing: reactor "\<lambda>s. s = NewEventsService None" "ingestion_react x" "ingestion_inv x" for x
proof unfold_locales
  fix s and i :: ingestion_input assume inv: "ingestion_inv x s"
  obtain e ctx c where i: "i = (e, ctx, c)" by (cases i) auto
  show "ingestion_inv x (ingestion_react x i s)"
    using inv
    by (cases c) (auto simp: i SubmitMeterSnapshot_def SubmitMeterDelta_def ListEvents_def ListMeters_def
        SubmitSignificantEvent_inv submitMeter_inv events_listing_inv events_switch_inv split: option.splits)
qed (simp add: ingestion_inv_def NewEventsService_def mem_idle_def svc_ok_def buffers_ok_def queued_def records_ok_def)

lemma ingestion_runs_inv: "ingestion_inv x (ingestion_runs x None reqs)"
  unfolding ingestion_runs_def by (rule ing.always_inv) simp

section \<open>Outages\<close>

text \<open>A new event of a caller who may submit it.\<close>

definition event_admitted :: "auth_actor option \<Rightarrow> request_meta option \<Rightarrow> significant_event \<Rightarrow> events_service \<Rightarrow> bool" where
  "event_admitted ctx meta v s \<longleftrightarrow> EventId v \<noteq> [] \<and> EvEquipmentId v \<noteq> [] \<and> authorize_backoffice ctx meta = None \<and>
     events s (EventId v) = None"

lemma SubmitSignificantEvent_admitted:
  "event_admitted ctx meta v s \<Longrightarrow>
   SubmitSignificantEvent x e ctx (Some \<lparr>EvReq_Meta = meta, EvReq_Event = Some v\<rparr>) s =
     (case ingest x e meta ''significant_event'' (EventId v) ''submit_significant_event'' (event_json (stamped_event e v))
         (persistSignificantEvent x e meta (stamped_event e v)) (keep_event (stamped_event e v))
         (queueBufferLocked e ''significant_event'' (EvEquipmentId v) (EventId v) (EvOccurredAt v) s) of
        (Some (code, why), s1) \<Rightarrow> (event_refusal e meta code why, s1)
      | (None, s1) \<Rightarrow> (event_ok e meta (stamped_event e v), s1))"
  by (simp add: event_admitted_def SubmitSignificantEvent_def Let_def)

lemma SubmitSignificantEvent_exhausted:
  assumes "buffers_ok s" "queued s = 1024 \<or> events_disabled s" "event_admitted ctx meta v s"
    "SubmitSignificantEvent x e ctx (Some \<lparr>EvReq_Meta = meta, EvReq_Event = Some v\<rparr>) s = (resp, s')"
  shows "resp = event_refusal e meta RESULT_CODE_DENIED ''ingestion buffer exhausted''" "buffers_ok s' \<and> events_disabled s'"
proof -
  define t where "t = (if events_disabled s then s else s\<lparr>events_disabled := True\<rparr>)"
  have "queueBufferLocked e ''significant_event'' (EvEquipmentId v) (EventId v) (EvOccurredAt v) s = (None, t)"
    using assms(1,2) by (auto simp: queueBufferLocked_def buffers_ok_def t_def)
  then have "resp = event_refusal e meta RESULT_CODE_DENIED ''ingestion buffer exhausted'' \<and> s' = submitBlocked x e meta
      ''significant_event'' (EventId v) ''submit_significant_event'' ''ingestion buffer exhausted'' t"
    using assms(4) by (simp add: SubmitSignificantEvent_admitted [OF assms(3)] ingest_def)
  moreover have "buffers_ok t" "events_disabled t" using assms(1,2) by (auto simp: t_def buffers_ok_def queued_def)
  ultimately show "resp = event_refusal e meta RESULT_CODE_DENIED ''ingestion buffer exhausted''" "buffers_ok s' \<and> events_disabled s'"
    using buffer_view_eq [OF submitBlocked_frame] by blast+
qed

text \<open>
  C38. At most 1024 submissions wait in the ingestion buffer, in every mode and after any requests and failures. A new event
  that finds 1024 waiting, or the service disabled, is denied because the buffer is exhausted, and leaves the service disabled;
  disabled it stays, whatever follows. Only a full buffer disables it: a disabled service has 1024 submissions waiting. Without a
  database no submission ever waits and the service is never disabled.
\<close>

theorem ingestion_buffer_bounded:
  "queued (ingestion_runs x h reqs) \<le> 1024 \<and>
   (event_admitted ctx meta v (ingestion_runs x h reqs) \<and> (queued (ingestion_runs x h reqs) = 1024 \<or> events_disabled (ingestion_runs x h reqs)) \<longrightarrow>
      fst (SubmitSignificantEvent x e ctx (Some \<lparr>EvReq_Meta = meta, EvReq_Event = Some v\<rparr>) (ingestion_runs x h reqs)) =
        event_refusal e meta RESULT_CODE_DENIED ''ingestion buffer exhausted'' \<and>
      events_disabled (ingestion_runs x h (reqs @ (e, ctx, CallEvent (Some \<lparr>EvReq_Meta = meta, EvReq_Event = Some v\<rparr>)) # later))) \<and>
   (events_disabled (ingestion_runs x h reqs) \<longrightarrow>
      events_disabled (ingestion_runs x h (reqs @ later)) \<and> queued (ingestion_runs x h reqs) = 1024) \<and>
   (h = None \<longrightarrow> queued (ingestion_runs x h reqs) = 0 \<and> \<not> events_disabled (ingestion_runs x h reqs))"
proof (intro conjI impI)
  let ?s = "ingestion_runs x h reqs" and ?req = "Some \<lparr>EvReq_Meta = meta, EvReq_Event = Some v\<rparr>"
  note ok = ingestion_runs_ok [of x h reqs]
  obtain resp t where out: "SubmitSignificantEvent x e ctx ?req ?s = (resp, t)" by fastforce
  have on: "events_disabled (fold (ingestion_react x) later u)" if "buffers_ok u \<and> events_disabled u" for u
    using off.run_inv [of u x later] that by blast
  show "queued ?s \<le> 1024" using ok by (simp add: buffers_ok_def)
  show "fst (SubmitSignificantEvent x e ctx ?req ?s) = event_refusal e meta RESULT_CODE_DENIED ''ingestion buffer exhausted''"
    if "event_admitted ctx meta v ?s \<and> (queued ?s = 1024 \<or> events_disabled ?s)"
    using SubmitSignificantEvent_exhausted(1) [OF ok conjunct2 [OF that] conjunct1 [OF that] out] out by simp
  show "events_disabled (ingestion_runs x h (reqs @ (e, ctx, CallEvent ?req) # later))"
    if "event_admitted ctx meta v ?s \<and> (queued ?s = 1024 \<or> events_disabled ?s)"
    using on [OF SubmitSignificantEvent_exhausted(2) [OF ok conjunct2 [OF that] conjunct1 [OF that] out]] out
    by (simp add: ingestion_runs_def)
  show "events_disabled (ingestion_runs x h (reqs @ later))" if "events_disabled ?s"
    using on [of ?s] ok that by (simp add: ingestion_runs_def)
  show "queued ?s = 1024" if "events_disabled ?s" using ok that by (simp add: buffers_ok_def)
  show "queued ?s = 0" "\<not> events_disabled ?s" if "h = None"
    using ingestion_runs_inv [of x reqs] that by (simp_all add: ingestion_inv_def)
qed

text \<open>An outage of the database: every submission during it keeps its place, and the one after it finds the buffer full.\<close>

definition outage_db :: "nat \<Rightarrow> floor_db" where
  "outage_db n = \<lparr>db_faults = replicate n True, db_int_text = True, db_audit_events = [], equipment_registry = [], significant_events = [],
     meter_records = [], ingestion_buffers = []\<rparr>"

definition demo_door :: significant_event where
  "demo_door = \<lparr>EventId = ''ev-1'', EvEquipmentId = ''egm-1'', EventCode = ''E1'', LocalizedDescription = ''door'',
     Severity = EVENT_SEVERITY_WARN, EvOccurredAt = [], EvReceivedAt = [], EvRecordedAt = [], EvTags = []\<rparr>"

definition demo_submission :: ingestion_input where
  "demo_submission = (demo_env, None, CallEvent (Some \<lparr>EvReq_Meta = demo_meta ''k'', EvReq_Event = Some demo_door\<rparr>))"

definition outage :: "nat \<Rightarrow> nat \<Rightarrow> events_service \<Rightarrow> bool" where
  "outage n k s \<longleftrightarrow> svc_AuditStore s \<noteq> None \<and> (\<exists>d. svc_db s = Some d \<and> db_faults d = replicate n True) \<and>
     queued s = k \<and> bufferCap s = 1024 \<and> \<not> events_disabled s \<and> events s = Map.empty"

lemma svc_append_outage:
  assumes "svc_AuditStore s = Some st" "svc_db s = Some d" "db_faults d = True # fs"
  shows "svc_append x e mk s = (False, s\<lparr>svc_nextAuditID := Suc (svc_nextAuditID s), svc_db := Some (d\<lparr>db_faults := fs\<rparr>)\<rparr>)"
  using assms
  by (cases s) (simp add: svc_append_def audit_put_def Let_def appendAuditEventToDB_def sql_tx_def sql_tx_commit_def sql_exec_def)

lemma demo_door_admitted: "events s = Map.empty \<Longrightarrow> event_admitted None (demo_meta ''k'') demo_door s"
  by (simp add: event_admitted_def demo_door_def authorize_backoffice_def resolveActor_def demo_meta_def operator_or_service_def)

lemma outage_step:
  assumes "outage (Suc n) k s" "k < 1024"
  shows "outage n (Suc k) (ingestion_react x demo_submission s)"
proof -
  obtain st d where o: "svc_AuditStore s = Some st" "svc_db s = Some d" "db_faults d = True # replicate n True"
    using assms(1) by (auto simp: outage_def)
  define b where "b = new_buffer demo_env ''significant_event'' (EvEquipmentId demo_door) (EventId demo_door) (EvOccurredAt demo_door) (Suc (nextBuffer s))"
  let ?s0 = "s\<lparr>nextBuffer := Suc (nextBuffer s), buffers := buffers s @ [b]\<rparr>"
  have place: "queueBufferLocked demo_env ''significant_event'' (EvEquipmentId demo_door) (EventId demo_door) (EvOccurredAt demo_door) s = (Some b, ?s0)"
    using assms by (simp add: queueBufferLocked_def Let_def b_def outage_def)
  have "events_appendAudit x demo_env meta ot oid act json_empty a ResultSuccess [] ?s0 =
      (False, ?s0\<lparr>svc_nextAuditID := Suc (svc_nextAuditID s), svc_db := Some (d\<lparr>db_faults := replicate n True\<rparr>)\<rparr>)" for meta ot oid act a
    using svc_append_outage [where s = ?s0 and fs = "replicate n True"] o by (simp add: events_appendAudit_def)
  then have "ingestion_react x demo_submission s =
      ?s0\<lparr>svc_nextAuditID := Suc (svc_nextAuditID s), svc_db := Some (d\<lparr>db_faults := replicate n True\<rparr>)\<rparr>"
    using SubmitSignificantEvent_admitted [OF demo_door_admitted] assms(1) place
    by (simp add: demo_submission_def outage_def ingest_def)
  moreover have "buf_status b = bufferQueued" by (simp add: b_def new_buffer_def)
  ultimately show ?thesis using assms(1) o(1) by (simp add: outage_def queued_def)
qed

lemma outage_run: "outage (n + m) k s \<Longrightarrow> k + m \<le> 1024 \<Longrightarrow> outage n (k + m) (fold (ingestion_react x) (replicate m demo_submission) s)"
proof (induction m arbitrary: k s)
  case (Suc m)
  then have "outage (n + m) (Suc k) (ingestion_react x demo_submission s)" by (intro outage_step) simp_all
  from Suc.IH [OF this] Suc.prems(2) show ?case by simp
qed simp

lemma outage_fills:
  fixes x :: ext
  defines "s \<equiv> ingestion_runs x (Some (outage_db 1024)) (replicate 1024 demo_submission)"
  shows "queued s = 1024" "\<not> events_disabled s" "event_admitted None (demo_meta ''k'') demo_door s"
proof -
  have "outage (0 + 1024) 0 (NewEventsService (Some (outage_db 1024)))"
    by (simp add: outage_def NewEventsService_def outage_db_def queued_def)
  then have o: "outage 0 (0 + 1024) s" unfolding s_def ingestion_runs_def by (rule outage_run) simp
  then show "queued s = 1024" "\<not> events_disabled s" by (simp_all add: outage_def)
  show "event_admitted None (demo_meta ''k'') demo_door s" using o by (intro demo_door_admitted) (simp add: outage_def)
qed

theorem ingestion_buffer_bounded_witness:
  "\<not> events_disabled (ingestion_runs demo_ext (Some (outage_db 1024)) (replicate 1024 demo_submission)) \<and>
   fst (SubmitSignificantEvent demo_ext demo_env None (Some \<lparr>EvReq_Meta = demo_meta ''k'', EvReq_Event = Some demo_door\<rparr>)
       (ingestion_runs demo_ext (Some (outage_db 1024)) (replicate 1024 demo_submission))) =
     event_refusal demo_env (demo_meta ''k'') RESULT_CODE_DENIED ''ingestion buffer exhausted'' \<and>
   events_disabled (ingestion_runs demo_ext (Some (outage_db 1024)) (replicate 1024 demo_submission @ [demo_submission, (demo_env, None, CallEvents None)]))"
  using ingestion_buffer_bounded [of demo_ext "Some (outage_db 1024)" "replicate 1024 demo_submission" None "demo_meta ''k''" demo_door demo_env
      "[(demo_env, None, CallEvents None)]"] outage_fills [of demo_ext]
  unfolding demo_submission_def by blast

section \<open>Events and the registry\<close>

text \<open>A transaction that succeeds has run its statements in order, whatever the state of the fault schedule between them.\<close>

lemma sql_all_Cons_ok:
  assumes "sql_all (q # qs) d = (True, d')"
  obtains fs d2 where "q (d\<lparr>db_faults := fs\<rparr>) = Some d2" "sql_all qs d2 = (True, d')"
proof -
  obtain ok d1 where x: "sql_exec d = (ok, d1)" by fastforce
  then have "\<exists>fs. d1 = d\<lparr>db_faults := fs\<rparr>"
    using sql_exec_tables [of d] by (metis snd_conv dbcore.surjective dbcore.update_convs(1))
  moreover obtain d2 where "ok" "q d1 = Some d2" "sql_all qs d2 = (True, d')"
    using assms x by (auto split: if_splits option.splits)
  ultimately show ?thesis using that by blast
qed

lemma sql_tx3_ok:
  assumes "sql_tx [q1, q2, q3] d = (True, d')"
  obtains f1 f2 f3 d1 d2 d3 f4 where "q1 (d\<lparr>db_faults := f1\<rparr>) = Some d1" "q2 (d1\<lparr>db_faults := f2\<rparr>) = Some d2"
    "q3 (d2\<lparr>db_faults := f3\<rparr>) = Some d3" "d' = d3\<lparr>db_faults := f4\<rparr>"
proof -
  have "sql_all [Some, q1, q2, q3, Some] d = (True, d')"
    using assms by (auto simp: sql_tx_def sql_tx_commit_def Let_def split_beta prod_eq_iff simp del: sql_all.simps split: if_splits)
  then obtain f0 d0 f1 d1 f2 d2 f3 d3 f4 d4 where "Some (d\<lparr>db_faults := f0\<rparr>) = Some d0" "q1 (d0\<lparr>db_faults := f1\<rparr>) = Some d1"
      "q2 (d1\<lparr>db_faults := f2\<rparr>) = Some d2" "q3 (d2\<lparr>db_faults := f3\<rparr>) = Some d3" "Some (d3\<lparr>db_faults := f4\<rparr>) = Some d4"
      "sql_all [] d4 = (True, d')"
    by (elim sql_all_Cons_ok) blast
  then show ?thesis by (intro that) auto
qed

text \<open>An audit event leaves the tables of the floor alone.\<close>

lemma events_appendAudit_tables:
  assumes "svc_db s = Some d" "events_appendAudit x e meta ot oid act b a r why s = (ok, s1)"
  shows "\<exists>d1. svc_db s1 = Some d1 \<and> equipment_registry d1 = equipment_registry d \<and> significant_events d1 = significant_events d"
proof -
  let ?P = "\<lambda>d1 :: floor_db. equipment_registry d1 = equipment_registry d \<and> significant_events d1 = significant_events d"
  have P: "?P (snd (appendAuditEventToDB x e ev d))" for ev
    unfolding appendAuditEventToDB_def Let_def sql_tx_def
    by (rule sql_tx_commit_induct) (auto simp: audit_insert_def Let_def split: if_splits)
  show ?thesis
    using assms P
    by (auto simp: events_appendAudit_def svc_append_def audit_put_def Let_def map_prod_def split_beta
        split: option.splits if_splits)
qed

lemma ingest_code: "ingest x e meta ot oid act a persist keep place = (Some (code, why), s') \<Longrightarrow> code \<noteq> RESULT_CODE_OK"
  by (auto simp: ingest_def split: prod.splits option.splits bool.splits)

lemma ingest_ok:
  assumes "ingest x e meta ot oid act a persist keep place = (None, s')" "\<And>s. svc_db (keep s) = svc_db s"
  obtains b s0 s1 s2 where "place = (Some b, s0)" "events_appendAudit x e meta ot oid act json_empty a ResultSuccess [] s0 = (True, s1)"
    "persist b s1 = (True, s2)" "svc_db s' = svc_db s2"
  using assms
  by (auto simp: ingest_def acknowledgeBufferLocked_def split: prod.splits option.splits bool.splits)

lemma queueBufferLocked_db: "queueBufferLocked e kind eid sid occ s = (r, s0) \<Longrightarrow> svc_db s0 = svc_db s"
  by (auto simp: queueBufferLocked_def Let_def split: if_splits)

text \<open>What the transaction of an event does to the tables.\<close>

lemma event_tx_tables:
  assumes "sql_tx [ensureEquipmentRowTx e eid, insert_event x e v, persistBufferTx x e k b rid] d = (True, d')"
    and "trim_space eid \<noteq> []"
  shows "\<exists>row. equipment_registry d' = insert_new er_equipment_id row (equipment_registry d) \<and> er_equipment_id row = eid \<and>
      er_status row = ''active'' \<and> er_created_at row = env_dbnow e" (is ?reg)
    and "\<exists>row \<in> set (significant_events d'). sr_event_id row = EventId v" (is ?ev)
proof -
  obtain f1 f2 f3 d1 d2 d3 f4 where q: "ensureEquipmentRowTx e eid (d\<lparr>db_faults := f1\<rparr>) = Some d1"
      "insert_event x e v (d1\<lparr>db_faults := f2\<rparr>) = Some d2" "persistBufferTx x e k b rid (d2\<lparr>db_faults := f3\<rparr>) = Some d3"
      "d' = d3\<lparr>db_faults := f4\<rparr>"
    by (rule sql_tx3_ok [OF assms(1)])
  have "equipment_registry d3 = equipment_registry d2" "significant_events d3 = significant_events d2"
    using q(3) by (auto simp: persistBufferTx_def split: option.splits if_splits)
  moreover have "equipment_registry d2 = equipment_registry d1" "\<exists>row \<in> set (significant_events d2). sr_event_id row = EventId v"
    using q(2) by (auto simp: insert_event_def split: option.splits if_splits)
  ultimately show ?reg ?ev
    using q(1,4) assms(2) by (auto simp: ensureEquipmentRowTx_def)
qed

lemma find_insert_new: "find (\<lambda>r. key r = key row) (insert_new key row rows) =
    Some (case find (\<lambda>r. key r = key row) rows of Some r \<Rightarrow> r | None \<Rightarrow> row)"
proof (cases "\<exists>r \<in> set rows. key r = key row")
  case True
  then have "find (\<lambda>r. key r = key row) rows \<noteq> None" by (auto simp: find_None_iff)
  with True show ?thesis by (auto simp: insert_new_def)
next
  case False
  then have "find (\<lambda>r. key r = key row) rows = None" by (simp add: find_None_iff)
  with False show ?thesis by (simp add: insert_new_def find_append)
qed

text \<open>
  The event service and the registry work on the same tables: when the event service with a database accepts a new event
  of equipment with a visible name, the registry on the resulting database finds that equipment, as it was registered before
  or, if it was not, as active equipment created at that moment; and the event is in the table of events.
\<close>

theorem event_registers_equipment:
  assumes "svc_db s = Some d" "event_admitted ctx meta v s" "trim_space (EvEquipmentId v) \<noteq> []"
    and "SubmitSignificantEvent x e ctx (Some \<lparr>EvReq_Meta = meta, EvReq_Event = Some v\<rparr>) s = (resp, s')"
    and "ResultCode (EvMeta resp) = RESULT_CODE_OK"
    and "svc_db s' = Some d'" "svc_db rs = Some (d'\<lparr>db_faults := []\<rparr>)"
    and "Get_EquipmentId g = EvEquipmentId v" "authorize_backoffice ctx' (Get_Meta g) = None"
  shows "\<exists>q. fst (GetEquipment x e' ctx' (Some g) rs) = equipment_ok e' (Get_Meta g) q \<and>
    (case find (\<lambda>r. er_equipment_id r = EvEquipmentId v) (equipment_registry d) of
       Some row \<Rightarrow> q = row_to_equipment row
     | None \<Rightarrow> EquipStatus q = EQUIPMENT_STATUS_ACTIVE \<and> EquipmentId q = EvEquipmentId v \<and>
               EquipCreatedAt q = fmt_rfc3339nano (env_dbnow e)) \<and>
    (\<exists>row \<in> set (significant_events d'). sr_event_id row = EventId v)"
proof -
  let ?v = "stamped_event e v"
  obtain res s1 where out: "ingest x e meta ''significant_event'' (EventId v) ''submit_significant_event'' (event_json ?v)
      (persistSignificantEvent x e meta ?v) (keep_event ?v)
      (queueBufferLocked e ''significant_event'' (EvEquipmentId v) (EventId v) (EvOccurredAt v) s) = (res, s1)" by fastforce
  have "res = None" "s1 = s'"
    using assms(4,5) out SubmitSignificantEvent_admitted [OF assms(2), of x e]
    by (auto simp: event_refusal_def dest!: ingest_code split: option.splits)
  then have done_: "ingest x e meta ''significant_event'' (EventId v) ''submit_significant_event'' (event_json ?v)
      (persistSignificantEvent x e meta ?v) (keep_event ?v)
      (queueBufferLocked e ''significant_event'' (EvEquipmentId v) (EventId v) (EvOccurredAt v) s) = (None, s')" using out by simp
  have keep: "svc_db (keep_event ?v s) = svc_db s" for s by (simp add: keep_event_def)
  obtain b s0 s2 s3 where st: "queueBufferLocked e ''significant_event'' (EvEquipmentId v) (EventId v) (EvOccurredAt v) s = (Some b, s0)"
      "events_appendAudit x e meta ''significant_event'' (EventId v) ''submit_significant_event'' json_empty (event_json ?v) ResultSuccess [] s0 = (True, s2)"
      "persistSignificantEvent x e meta ?v b s2 = (True, s3)" "svc_db s' = svc_db s3"
    by (rule ingest_ok [OF done_ keep])
  obtain d2 where d2: "svc_db s2 = Some d2" "equipment_registry d2 = equipment_registry d"
    using events_appendAudit_tables [OF _ st(2)] queueBufferLocked_db [OF st(1)] assms(1) by auto
  have tx: "sql_tx [ensureEquipmentRowTx e (EvEquipmentId v), insert_event x e ?v,
      persistBufferTx x e ''significant_event'' b (requestID meta)] d2 = (True, d')"
    using st(3,4) d2(1) assms(6) by (auto simp: persistSignificantEvent_def svc_exec_def stamped_event_def Let_def split: prod.splits)
  obtain row where row: "equipment_registry d' = insert_new er_equipment_id row (equipment_registry d)" "er_equipment_id row = EvEquipmentId v"
      "er_status row = ''active''" "er_created_at row = env_dbnow e"
    using event_tx_tables(1) [OF tx assms(3)] d2(2) by auto
  define q where "q = row_to_equipment (case find (\<lambda>r. er_equipment_id r = EvEquipmentId v) (equipment_registry d) of Some r \<Rightarrow> r | None \<Rightarrow> row)"
  have "find (\<lambda>r. er_equipment_id r = EvEquipmentId v) (equipment_registry d') =
      Some (case find (\<lambda>r. er_equipment_id r = EvEquipmentId v) (equipment_registry d) of Some r \<Rightarrow> r | None \<Rightarrow> row)"
    using find_insert_new [of er_equipment_id row "equipment_registry d"] row(1,2) by simp
  then have "fst (GetEquipment x e' ctx' (Some g) rs) = equipment_ok e' (Get_Meta g) q"
    using assms(2,7-9) by (simp add: GetEquipment_def getEquipmentFromDB_def svc_query_def sql_query_def sql_exec_def
        event_admitted_def q_def)
  moreover have "equipmentStatusFromDB ''active'' = EQUIPMENT_STATUS_ACTIVE" by code_simp
  then have "case find (\<lambda>r. er_equipment_id r = EvEquipmentId v) (equipment_registry d) of
       Some row \<Rightarrow> q = row_to_equipment row
     | None \<Rightarrow> EquipStatus q = EQUIPMENT_STATUS_ACTIVE \<and> EquipmentId q = EvEquipmentId v \<and>
               EquipCreatedAt q = fmt_rfc3339nano (env_dbnow e)"
    using row(2-4) by (auto simp: q_def row_to_equipment_def split: option.splits)
  moreover have "\<exists>row \<in> set (significant_events d'). sr_event_id row = EventId v"
    using event_tx_tables(2) [OF tx assms(3)] by simp
  ultimately show ?thesis by blast
qed

lemma events_appendAudit_has_db: "svc_db (snd (events_appendAudit x e meta ot oid act b a r why s)) = None \<longleftrightarrow> svc_db s = None"
  by (simp add: events_appendAudit_def svc_append_has_db)

lemma svc_exec_has_db: "svc_db (snd (svc_exec q s)) = None \<longleftrightarrow> svc_db s = None"
  by (simp add: svc_exec_def split: option.splits prod.splits)

lemma ingest_has_db:
  assumes "\<And>b s. svc_db (snd (persist b s)) = None \<longleftrightarrow> svc_db s = None" "\<And>s. svc_db (keep s) = svc_db s"
  shows "svc_db (snd (ingest x e meta ot oid act a persist keep place)) = None \<longleftrightarrow> svc_db (snd place) = None"
proof (cases "fst place")
  case (Some b)
  obtain ok1 s1 where a: "events_appendAudit x e meta ot oid act json_empty a ResultSuccess [] (snd place) = (ok1, s1)" by fastforce
  obtain ok2 s2 where p: "persist b s1 = (ok2, s2)" by fastforce
  show ?thesis
    using assms(1) [of b s1] assms(2) a p Some
      events_appendAudit_has_db [of x e meta ot oid act json_empty a ResultSuccess "[]" "snd place"]
    by (cases place) (simp add: ingest_def acknowledgeBufferLocked_def split: bool.splits)
qed (cases place, simp add: ingest_def submitBlocked_def events_appendAudit_has_db)

lemma submission_has_db: "svc_db s \<noteq> None \<Longrightarrow> svc_db (snd (SubmitSignificantEvent x e ctx req s)) \<noteq> None"
proof -
  assume db: "svc_db s \<noteq> None"
  have "svc_db (snd (queueBufferLocked e kind eid sid occ s)) = svc_db s" for kind eid sid occ
    by (simp add: queueBufferLocked_def Let_def)
  then have "svc_db (snd (ingest x e meta ot oid act a (persistSignificantEvent x e meta v) (keep_event v)
      (queueBufferLocked e kind eid sid occ s))) \<noteq> None" for meta ot oid act a v kind eid sid occ
    using db ingest_has_db [of "persistSignificantEvent x e meta v" "keep_event v"]
    by (simp add: persistSignificantEvent_def svc_exec_has_db keep_event_def)
  moreover have "svc_db (submitBlocked x e meta ot oid act why s) \<noteq> None" for meta ot oid act why
    using db by (simp only: submitBlocked_def events_appendAudit_has_db) simp
  ultimately show ?thesis
    using db by (simp add: SubmitSignificantEvent_def Let_def split: option.splits)
qed

text \<open>The event of a door is submitted to an empty database.\<close>

lemma demo_epoch: "parse_rfc3339nano (fmt_rfc3339nano 0) = Some 0"
proof (rule parse_fmt)
  have "fst (civil 0) = 1970" by code_simp
  then show "0 \<le> fst (civil 0)" "fst (civil 0) \<le> 9999" by simp_all
qed

lemma demo_cast: "cast_ts demo_ext demo_env v = Some 0" if "v = [] \<or> v = fmt_rfc3339nano 0"
proof -
  have "nonEmptyTimestamp demo_env v = fmt_rfc3339nano 0"
    using that by (auto simp: nonEmptyTimestamp_def demo_env_def)
  then show ?thesis by (simp add: cast_ts_def demo_epoch demo_ext_def)
qed

lemma demo_door_stored:
  assumes "equipment_registry d = []" "significant_events d = []" "ingestion_buffers d = []" "db_faults d = []"
    and "buf_occurredAt b = []" "buf_receivedAt b = fmt_rfc3339nano 0" "buf_equipmentID b = ''egm-1''"
  shows "fst (sql_tx [ensureEquipmentRowTx demo_env ''egm-1'', insert_event demo_ext demo_env (stamped_event demo_env demo_door),
      persistBufferTx demo_ext demo_env k b rid] d)"
proof -
  have v: "EvEquipmentId (stamped_event demo_env demo_door) = ''egm-1''" "EvOccurredAt (stamped_event demo_env demo_door) = fmt_rfc3339nano 0"
    "EvReceivedAt (stamped_event demo_env demo_door) = fmt_rfc3339nano 0" "EvRecordedAt (stamped_event demo_env demo_door) = fmt_rfc3339nano 0"
    by (simp_all add: stamped_event_def demo_door_def demo_env_def Let_def)
  have "trim_space ''egm-1'' = ''egm-1''" by code_simp
  with assms v show ?thesis
    by (simp add: sql_tx_def sql_tx_commit_def sql_exec_def ensureEquipmentRowTx_def insert_event_def persistBufferTx_def
        demo_cast registered_def insert_new_def)
qed

lemma demo_door_accepted:
  "ResultCode (EvMeta (fst (SubmitSignificantEvent demo_ext demo_env None
     (Some \<lparr>EvReq_Meta = demo_meta ''k'', EvReq_Event = Some demo_door\<rparr>) (NewEventsService (Some (outage_db 0)))))) = RESULT_CODE_OK"
proof -
  let ?s = "NewEventsService (Some (outage_db 0))"
  have adm: "event_admitted None (demo_meta ''k'') demo_door ?s" by (rule demo_door_admitted) (simp add: NewEventsService_def)
  define b where "b = new_buffer demo_env ''significant_event'' (EvEquipmentId demo_door) (EventId demo_door) (EvOccurredAt demo_door) 1"
  let ?t = "?s\<lparr>nextBuffer := 1, buffers := [b]\<rparr>"
  have place: "queueBufferLocked demo_env ''significant_event'' (EvEquipmentId demo_door) (EventId demo_door) (EvOccurredAt demo_door) ?s = (Some b, ?t)"
    by (simp add: queueBufferLocked_def NewEventsService_def queued_def b_def Let_def)
  have live: "svc_ok demo_ext ?t" "svc_db ?t = Some (outage_db 0)" "db_faults (outage_db 0) = []"
    by (simp_all add: svc_ok_def NewEventsService_def outage_db_def)
  let ?a = "event_json (stamped_event demo_env demo_door)"
  obtain st n rows where au: "events_appendAudit demo_ext demo_env (demo_meta ''k'') ''significant_event'' (EventId demo_door) ''submit_significant_event''
      json_empty ?a ResultSuccess [] ?t =
      (True, ?t\<lparr>svc_AuditStore := st, svc_nextAuditID := n, svc_db := Some (outage_db 0\<lparr>db_audit_events := rows\<rparr>)\<rparr>)"
    unfolding events_appendAudit_def by (rule svc_append_live [OF live])
  have bf: "buf_occurredAt b = []" "buf_receivedAt b = fmt_rfc3339nano 0" "buf_equipmentID b = ''egm-1''"
    by (simp_all add: b_def new_buffer_def demo_door_def demo_env_def)
  have "EvEquipmentId (stamped_event demo_env demo_door) = ''egm-1''" by (simp add: stamped_event_def demo_door_def Let_def)
  then have "fst (persistSignificantEvent demo_ext demo_env (demo_meta ''k'') (stamped_event demo_env demo_door) b
      (?t\<lparr>svc_AuditStore := st, svc_nextAuditID := n, svc_db := Some (outage_db 0\<lparr>db_audit_events := rows\<rparr>)\<rparr>))"
    using demo_door_stored [of "outage_db 0\<lparr>db_audit_events := rows\<rparr>" b] bf
    by (simp add: persistSignificantEvent_def svc_exec_def outage_db_def split_beta)
  then obtain s2 where "persistSignificantEvent demo_ext demo_env (demo_meta ''k'') (stamped_event demo_env demo_door) b
      (?t\<lparr>svc_AuditStore := st, svc_nextAuditID := n, svc_db := Some (outage_db 0\<lparr>db_audit_events := rows\<rparr>)\<rparr>) = (True, s2)"
    by (metis prod.collapse)
  then show ?thesis
    using place au by (simp add: SubmitSignificantEvent_admitted [OF adm] ingest_def event_ok_def)
qed

theorem event_registers_equipment_witness:
  "\<exists>d' q. svc_db (snd (SubmitSignificantEvent demo_ext demo_env None
       (Some \<lparr>EvReq_Meta = demo_meta ''k'', EvReq_Event = Some demo_door\<rparr>) (NewEventsService (Some (outage_db 0))))) = Some d' \<and>
     fst (GetEquipment demo_ext demo_env None (Some \<lparr>Get_Meta = demo_meta ''k'', Get_EquipmentId = ''egm-1''\<rparr>)
       (NewRegistryService (Some (d'\<lparr>db_faults := []\<rparr>)))) = equipment_ok demo_env (demo_meta ''k'') q \<and>
     EquipStatus q = EQUIPMENT_STATUS_ACTIVE"
proof -
  let ?s = "NewEventsService (Some (outage_db 0))"
  let ?out = "SubmitSignificantEvent demo_ext demo_env None (Some \<lparr>EvReq_Meta = demo_meta ''k'', EvReq_Event = Some demo_door\<rparr>) ?s"
  have adm: "event_admitted None (demo_meta ''k'') demo_door ?s" by (rule demo_door_admitted) (simp add: NewEventsService_def)
  have auth: "authorize_backoffice None (demo_meta ''k'') = None" using adm by (simp add: event_admitted_def)
  have name: "EvEquipmentId demo_door = ''egm-1''" by (simp add: demo_door_def)
  have seen: "trim_space ''egm-1'' \<noteq> []" by code_simp
  have "svc_db (snd ?out) \<noteq> None"
    by (rule submission_has_db) (simp add: NewEventsService_def)
  then obtain d' where d': "svc_db (snd ?out) = Some d'" by blast
  show ?thesis
    using event_registers_equipment [where s = ?s and v = demo_door and x = demo_ext and e = demo_env and ctx = None and ctx' = None
        and meta = "demo_meta ''k''" and d = "outage_db 0" and d' = d' and rs = "NewRegistryService (Some (d'\<lparr>db_faults := []\<rparr>))"
        and g = "\<lparr>Get_Meta = demo_meta ''k'', Get_EquipmentId = ''egm-1''\<rparr>" and e' = demo_env and resp = "fst ?out" and s' = "snd ?out",
        OF _ adm] demo_door_accepted d' auth name seen
    by (auto simp: NewEventsService_def NewRegistryService_def outage_db_def)
qed

section \<open>Events are listed in order\<close>

definition events_page ::
    "ext \<Rightarrow> env \<Rightarrow> auth_actor option \<Rightarrow> record_list_request \<Rightarrow> events_service \<Rightarrow> string \<Rightarrow> significant_event list \<times> string" where
  "events_page x e ctx r s token =
     (let resp = fst (ListEvents x e ctx (Some (r\<lparr>RecList_PageToken := token\<rparr>)) s) in (RecListItems resp, RecListNext resp))"

lemma event_before_key: "event_before = (\<lambda>a b. (EvRecordedAt a, EventId a) < (EvRecordedAt b, EventId b))"
  by (intro ext) (auto simp: event_before_def less_prod_def')

lemma events_sorted: "stable_sort event_before vs = sort_key (\<lambda>v. (EvRecordedAt v, EventId v)) vs"
  unfolding event_before_key by (rule stable_sort_key)

text \<open>
  Without a database and with the memory switched on, following the page tokens of the event list from the first page
  ends and gives exactly what the library's \<open>sort_key\<close> by time of recording and identifier makes of the stored events of the
  equipment asked for; the identifiers of the stored events are distinct.
\<close>

theorem events_listed_as_sorted:
  assumes "s = ingestion_runs x None reqs" "\<not> events_disableInMemoryCache s" "authorize_backoffice ctx (RecList_Meta r) = None"
    and "wanted = filter (\<lambda>v. RecList_EquipmentId r = [] \<or> EvEquipmentId v = RecList_EquipmentId r)
                    (map (\<lambda>k. the (events s k)) (eventOrder s))"
    and "int (length wanted) \<le> i64_max"
  shows "walk (Suc (length wanted)) (events_page x e ctx r s) [] = Some (sort_key (\<lambda>v. (EvRecordedAt v, EventId v)) wanted) \<and>
    distinct (map EventId wanted)"
proof
  have inv: "ingestion_inv x s" using ingestion_runs_inv assms(1) by blast
  then have rec: "distinct (eventOrder s)" "set (eventOrder s) \<subseteq> dom (events s)" "\<And>k v. events s k = Some v \<Longrightarrow> EventId v = k"
    and db: "svc_db s = None"
    by (auto simp: ingestion_inv_def records_ok_def mem_idle_def)
  have items: "events_of (r\<lparr>RecList_PageToken := t\<rparr>) s = sort_key (\<lambda>v. (EvRecordedAt v, EventId v)) wanted" for t
    using rec(2) by (simp add: events_of_def assms(4) map_filter_dom events_sorted)
  have "events_page x e ctx r s =
      (\<lambda>token. page_window (Suc 99) token (RecList_PageSize r) (sort_key (\<lambda>v. (EvRecordedAt v, EventId v)) wanted))"
    using assms(2,3) db items
    by (intro ext) (simp add: events_page_def ListEvents_def events_listing_def Let_def page_window_def)
  then show "walk (Suc (length wanted)) (events_page x e ctx r s) [] = Some (sort_key (\<lambda>v. (EvRecordedAt v, EventId v)) wanted)"
    using mem_pages.walk_complete [of "sort_key (\<lambda>v. (EvRecordedAt v, EventId v)) wanted" 99 "RecList_PageSize r"] assms(5) by simp
  have "map EventId (map (\<lambda>k. the (events s k)) (eventOrder s)) = eventOrder s"
    unfolding map_map by (rule map_idI) (use rec(2,3) in auto)
  then have "distinct (map EventId (map (\<lambda>k. the (events s k)) (eventOrder s)))" using rec(1) by (simp only:)
  then show "distinct (map EventId wanted)" unfolding assms(4) by (rule distinct_map_filter)
qed

lemma demo_stored:
  "eventOrder (ingestion_runs demo_ext None [demo_submission]) = [EventId demo_door] \<and>
   \<not> events_disableInMemoryCache (ingestion_runs demo_ext None [demo_submission])"
proof -
  let ?s = "NewEventsService None"
  have adm: "event_admitted None (demo_meta ''k'') demo_door ?s" by (rule demo_door_admitted) (simp add: NewEventsService_def)
  define b where "b = new_buffer demo_env ''significant_event'' (EvEquipmentId demo_door) (EventId demo_door) (EvOccurredAt demo_door) 1"
  let ?t = "?s\<lparr>nextBuffer := 1, buffers := [b]\<rparr>"
  have place: "queueBufferLocked demo_env ''significant_event'' (EvEquipmentId demo_door) (EventId demo_door) (EvOccurredAt demo_door) ?s = (Some b, ?t)"
    by (simp add: queueBufferLocked_def NewEventsService_def queued_def b_def Let_def)
  have idle: "mem_idle demo_ext ?t" by (simp add: mem_idle_def svc_ok_def NewEventsService_def)
  obtain st n where au: "events_appendAudit demo_ext demo_env (demo_meta ''k'') ''significant_event'' (EventId demo_door) ''submit_significant_event''
      json_empty (event_json (stamped_event demo_env demo_door)) ResultSuccess [] ?t = (True, ?t\<lparr>svc_AuditStore := st, svc_nextAuditID := n\<rparr>)"
    by (rule events_appendAudit_mem [OF idle])
  have "eventOrder ?t = []" "\<not> events_disableInMemoryCache ?t" "svc_db ?t = None" by (simp_all add: NewEventsService_def)
  then show ?thesis
    using place au
    by (simp add: ingestion_runs_def demo_submission_def SubmitSignificantEvent_admitted [OF adm] ingest_def persist_mem
        keep_event_def acknowledgeBufferLocked_def)
qed

theorem events_listed_as_sorted_witness:
  "\<exists>items. walk 2 (events_page demo_ext demo_env None
      \<lparr>RecList_Meta = demo_meta ''k'', RecList_EquipmentId = [], RecList_MeterLabel = [], RecList_FromTime = [],
       RecList_ToTime = [], RecList_PageSize = 0, RecList_PageToken = []\<rparr> (ingestion_runs demo_ext None [demo_submission])) [] = Some items
    \<and> length items = 1"
proof -
  let ?s = "ingestion_runs demo_ext None [demo_submission]" and ?v = "stamped_event demo_env demo_door"
  let ?r = "\<lparr>RecList_Meta = demo_meta ''k'', RecList_EquipmentId = [], RecList_MeterLabel = [], RecList_FromTime = [],
       RecList_ToTime = [], RecList_PageSize = 0, RecList_PageToken = []\<rparr>"
  have auth: "authorize_backoffice None (demo_meta ''k'') = None"
    using demo_door_admitted [of "NewEventsService None"] by (simp add: event_admitted_def NewEventsService_def)
  have one: "eventOrder ?s = [EventId demo_door]" "\<not> events_disableInMemoryCache ?s"
    using demo_stored by auto
  show ?thesis
    using events_listed_as_sorted [where x = demo_ext and reqs = "[demo_submission]" and ctx = None and r = ?r and e = demo_env,
        OF refl one(2) _ refl] auth one(1)
    by (auto simp: numeral_2_eq_2)
qed

end
