(* ===== verification/NetAddr.thy ===== *)
theory NetAddr
  imports Common
begin

text \<open>
  The parts of Go's \<^verbatim>\<open>net\<close> and \<^verbatim>\<open>net/netip\<close> packages that the remote access guard uses: addresses in text form, networks in
  CIDR notation, membership, and the split of a host and port. An address is the list of its 4 or 16 bytes, most
  significant first, as in \<^verbatim>\<open>net.IP\<close>.
\<close>

unbundle bit_operations_syntax

type_synonym ip = "8 word list"

section \<open>Addresses: netip.ParseAddr\<close>

text \<open>One octet: at least one digit, no leading zero, at most 255.\<close>

definition parse_octet :: "string \<Rightarrow> 8 word option" where
  "parse_octet p =
     (if p = [] \<or> \<not> list_all is_digit p \<or> (1 < length p \<and> hd p = CHR ''0'') \<or> 255 < digits_val p then None
      else Some (of_nat (digits_val p)))"

fun all_some :: "'a option list \<Rightarrow> 'a list option" where
  "all_some [] = Some []"
| "all_some (None # os) = None"
| "all_some (Some x # os) = map_option ((#) x) (all_some os)"

definition parse_ipv4 :: "string \<Rightarrow> ip option" where
  "parse_ipv4 s =
     (let ps = split_on (CHR ''.'') s in if length ps = 4 then all_some (map parse_octet ps) else None)"

definition hex_val :: "char \<Rightarrow> nat option" where
  "hex_val c =
     (let n = of_char c
      in if 48 \<le> n \<and> n \<le> 57 then Some (n - 48)
         else if 97 \<le> n \<and> n \<le> 102 then Some (n - 87)
         else if 65 \<le> n \<and> n \<le> 70 then Some (n - 55) else None)"

definition hex_run :: "string \<Rightarrow> string" where
  "hex_run s = takeWhile (\<lambda>c. hex_val c \<noteq> None) s"

definition hex_word :: "string \<Rightarrow> nat" where
  "hex_word ds = foldl (\<lambda>a c. 16 * a + the (hex_val c)) 0 ds"

text \<open>
  The loop over the groups of an IPv6 address: \<open>acc\<close> are the bytes so far, \<open>ellipsis\<close> the place of the \<^verbatim>\<open>::\<close>. The result is
  the bytes read and the place; what is left of the text must be empty.
\<close>

function ipv6_groups :: "ip \<Rightarrow> nat option \<Rightarrow> string \<Rightarrow> (ip \<times> nat option) option" where
  "ipv6_groups acc ellipsis s =
     (if 16 \<le> length acc then (if s = [] then Some (acc, ellipsis) else None)
      else
        let ds = hex_run s; rest = drop (length ds) s
        in if ds = [] \<or> 4 < length ds then None
           else if rest \<noteq> [] \<and> hd rest = CHR ''.'' then
             (if ellipsis = None \<and> length acc \<noteq> 12 then None
              else if 12 < length acc then None
              else map_option (\<lambda>v4. (acc @ v4, ellipsis)) (parse_ipv4 s))
           else
             let acc1 = acc @ [of_nat (hex_word ds div 256), of_nat (hex_word ds mod 256)]
             in if rest = [] then Some (acc1, ellipsis)
                else if hd rest \<noteq> CHR '':'' \<or> length rest = 1 then None
                else if rest ! 1 = CHR '':'' then
                  (if ellipsis \<noteq> None then None
                   else if length rest = 2 then Some (acc1, Some (length acc1))
                   else ipv6_groups acc1 (Some (length acc1)) (drop 2 rest))
                else ipv6_groups acc1 ellipsis (drop 1 rest))"
  by pat_completeness auto
termination
  by (relation "measure (\<lambda>(acc, ellipsis, s). length s)") auto

declare ipv6_groups.simps [simp del]

text \<open>The zeros a \<^verbatim>\<open>::\<close> stands for; it must stand for at least one group.\<close>

definition ipv6_expand :: "ip \<times> nat option \<Rightarrow> ip option" where
  "ipv6_expand p =
     (case p of (bs, ellipsis) \<Rightarrow>
        if length bs < 16 then map_option (\<lambda>i. take i bs @ replicate (16 - length bs) 0 @ drop i bs) ellipsis
        else if ellipsis \<noteq> None then None else Some bs)"

text \<open>The zone, and the address without it; an address with a zone is refused by all callers.\<close>

definition parse_ipv6 :: "string \<Rightarrow> ip option" where
  "parse_ipv6 s =
     (if CHR ''%'' \<in> set s then None
      else if s = ''::'' then Some (replicate 16 0)
      else if take 2 s = ''::'' then Option.bind (ipv6_groups [] (Some 0) (drop 2 s)) ipv6_expand
      else Option.bind (ipv6_groups [] None s) ipv6_expand)"

text \<open>
  \<^verbatim>\<open>netip.ParseAddr\<close> for the callers that refuse zones: the first dot, colon or percent sign decides. The result keeps the
  4 bytes of an IPv4 address apart from the 16 of an IPv6 one.
\<close>

definition parse_addr :: "string \<Rightarrow> ip option" where
  "parse_addr s =
     (case dropWhile (\<lambda>c. c \<noteq> CHR ''.'' \<and> c \<noteq> CHR '':'' \<and> c \<noteq> CHR ''%'') s of
        [] \<Rightarrow> None
      | c # _ \<Rightarrow> if c = CHR ''.'' then parse_ipv4 s else if c = CHR '':'' then parse_ipv6 s else None)"

definition v4_prefix :: ip where
  "v4_prefix = replicate 10 0 @ [0xff, 0xff]"

text \<open>\<^verbatim>\<open>Addr.As16\<close>, \<^verbatim>\<open>net.ParseIP\<close> and \<^verbatim>\<open>IP.To4\<close>.\<close>

definition as16 :: "ip \<Rightarrow> ip" where
  "as16 a = (if length a = 4 then v4_prefix @ a else a)"

definition ParseIP :: "string \<Rightarrow> ip option" where
  "ParseIP s = map_option as16 (parse_addr s)"

definition To4 :: "ip \<Rightarrow> ip option" where
  "To4 a = (if length a = 4 then Some a
            else if length a = 16 \<and> take 12 a = v4_prefix then Some (drop 12 a) else None)"

section \<open>Networks: net.ParseCIDR, IPNet.Contains\<close>

record ipnet =
  net_IP :: ip
  net_Mask :: ip

definition mask_byte :: "nat \<Rightarrow> 8 word" where
  "mask_byte k = (if 8 \<le> k then 0xff else push_bit (8 - k) (mask k))"

definition CIDRMask :: "nat \<Rightarrow> nat \<Rightarrow> ip" where
  "CIDRMask ones len = map (\<lambda>i. mask_byte (ones - 8 * i)) [0..<len]"

definition mask_ip :: "ip \<Rightarrow> ip \<Rightarrow> ip" where
  "mask_ip a m = map2 (AND) a m"

text \<open>
  \<^verbatim>\<open>IP.Mask\<close> of the 16-byte form keeps 4 bytes when the mask has 4, which it has exactly for an address in IPv4 notation.
\<close>

definition ParseCIDR :: "string \<Rightarrow> ipnet option" where
  "ParseCIDR s =
     (case split_two (CHR ''/'') s of
        None \<Rightarrow> None
      | Some (a, m) \<Rightarrow>
          (case parse_addr a of
             None \<Rightarrow> None
           | Some b \<Rightarrow>
               if m = [] \<or> \<not> list_all is_digit m \<or> 8 * length b < digits_val m then None
               else let k = CIDRMask (digits_val m) (length b) in Some \<lparr>net_IP = mask_ip b k, net_Mask = k\<rparr>))"

text \<open>\<open>networkNumberAndMask\<close>; the masks of \<open>ParseCIDR\<close> have 4 or 16 bytes.\<close>

definition network_number :: "ipnet \<Rightarrow> (ip \<times> ip) option" where
  "network_number n =
     (let a = (case To4 (net_IP n) of Some v4 \<Rightarrow> v4 | None \<Rightarrow> net_IP n)
      in if length a = 4 \<and> length (net_Mask n) = 4 then Some (a, net_Mask n)
         else if length a = 4 \<and> length (net_Mask n) = 16 then Some (a, drop 12 (net_Mask n))
         else if length a = 16 \<and> length (net_Mask n) = 16 then Some (a, net_Mask n)
         else None)"

definition Contains :: "ipnet \<Rightarrow> ip \<Rightarrow> bool" where
  "Contains n addr =
     (let b = (case To4 addr of Some v4 \<Rightarrow> v4 | None \<Rightarrow> addr)
      in case network_number n of
           None \<Rightarrow> b = []
         | Some (a, m) \<Rightarrow> length b = length a \<and> mask_ip a m = mask_ip b m)"

section \<open>net.SplitHostPort\<close>

definition after_last :: "char \<Rightarrow> string \<Rightarrow> string" where
  "after_last c s = rev (takeWhile (\<lambda>d. d \<noteq> c) (rev s))"

definition SplitHostPort :: "string \<Rightarrow> (string \<times> string) option" where
  "SplitHostPort hp =
     (if CHR '':'' \<notin> set hp then None
      else
        let port = after_last (CHR '':'') hp; i = length hp - length port - 1
        in if hd hp = CHR ''['' then
             (if CHR '']'' \<notin> set hp then None
              else let stop = length (takeWhile (\<lambda>c. c \<noteq> CHR '']'') hp)
                   in if stop + 1 \<noteq> i then None
                      else if CHR ''['' \<in> set (drop 1 hp) \<or> CHR '']'' \<in> set (drop (stop + 1) hp) then None
                      else Some (take (stop - 1) (drop 1 hp), port))
           else if CHR '':'' \<in> set (take i hp) then None
           else if CHR ''['' \<in> set hp \<or> CHR '']'' \<in> set hp then None
           else Some (take i hp, port))"

section \<open>What parsing and membership mean\<close>

text \<open>Every parsed address has 4 or 16 bytes, so that the 16-byte form has 16.\<close>

lemma all_some_length: "all_some os = Some xs \<Longrightarrow> length xs = length os"
  by (induction os arbitrary: xs rule: all_some.induct) auto

lemma parse_ipv4_length: "parse_ipv4 s = Some a \<Longrightarrow> length a = 4"
  by (auto simp: parse_ipv4_def Let_def split: if_splits dest: all_some_length)

lemma ipv6_groups_step:
  assumes "ipv6_groups acc ellipsis s = Some r" "length acc < 16"
  shows "(length acc \<le> 12 \<and> (\<exists>v4. parse_ipv4 s = Some v4 \<and> fst r = acc @ v4)) \<or> (\<exists>x y. fst r = acc @ [x, y]) \<or>
         (\<exists>x y el t. ipv6_groups (acc @ [x, y]) el t = Some r \<and> length t < length s)"
proof -
  define ds rest where "ds = hex_run s" and "rest = drop (length ds) s"
  define shorter :: "string \<Rightarrow> bool" where "shorter t \<longleftrightarrow> length t < length s" for t
  have "shorter (drop 2 rest)" "shorter (drop (Suc 0) rest)" if "rest \<noteq> []"
    using that by (auto simp: rest_def shorter_def)
  with assms show ?thesis
    unfolding ipv6_groups.simps [of acc ellipsis s] Let_def ds_def [symmetric] rest_def [symmetric] shorter_def [symmetric]
    by (auto simp: not_le split: if_split_asm)
qed

lemma ipv6_groups_length:
  "ipv6_groups acc ellipsis s = Some r \<Longrightarrow> even (length acc) \<Longrightarrow> length acc \<le> 16 \<Longrightarrow> length (fst r) \<le> 16"
proof (induction "length s" arbitrary: acc ellipsis s rule: less_induct)
  case less
  show ?case
  proof (cases "length acc < 16")
    case True
    with less.prems(2) have room: "length acc + 2 \<le> 16" by presburger
    from ipv6_groups_step [OF less.prems(1) True] show ?thesis
    proof (elim disjE exE conjE)
      fix x y el t assume "ipv6_groups (acc @ [x, y]) el t = Some r" "length t < length s"
      then show ?thesis using less.hyps [of t "acc @ [x, y]" el] less.prems(2) room by simp
    qed (use room in \<open>auto dest: parse_ipv4_length\<close>)
  next
    case False
    with less.prems show ?thesis by (auto simp: ipv6_groups.simps [of acc] split: if_splits)
  qed
qed

lemma ipv6_expand_length: "length (fst p) \<le> 16 \<Longrightarrow> ipv6_expand p = Some a \<Longrightarrow> length a = 16"
  by (auto simp: ipv6_expand_def split: prod.splits if_splits)

lemma parse_ipv6_length: "parse_ipv6 s = Some a \<Longrightarrow> length a = 16"
proof -
  assume "parse_ipv6 s = Some a"
  moreover have "length a = 16" if "Option.bind (ipv6_groups [] el t) ipv6_expand = Some a" for el t
    using that ipv6_groups_length [of "[]" el t] ipv6_expand_length by (auto simp: bind_eq_Some_conv)
  ultimately show ?thesis
    by (auto simp: parse_ipv6_def split: if_splits)
qed

lemma parse_addr_length: "parse_addr s = Some a \<Longrightarrow> length a = 4 \<or> length a = 16"
  by (auto simp: parse_addr_def parse_ipv4_length parse_ipv6_length split: list.splits if_splits)

lemma ParseIP_length: "ParseIP s = Some a \<Longrightarrow> length a = 16"
  by (auto simp: ParseIP_def as16_def v4_prefix_def dest: parse_addr_length)

text \<open>Bit \<open>j\<close> of an address, counted from the most significant one, and agreement in the first bits.\<close>

definition ip_bit :: "ip \<Rightarrow> nat \<Rightarrow> bool" where
  "ip_bit a j = bit (a ! (j div 8)) (7 - j mod 8)"

definition agree :: "nat \<Rightarrow> ip \<Rightarrow> ip \<Rightarrow> bool" where
  "agree n a b \<longleftrightarrow> length a = length b \<and> (\<forall>j < n. j < 8 * length a \<longrightarrow> ip_bit a j = ip_bit b j)"

lemma bit_mask_byte: "bit (mask_byte k) i \<longleftrightarrow> i < 8 \<and> 8 \<le> i + k"
proof (cases "8 \<le> k")
  case True
  have "mask_byte k = mask 8" using True by (simp add: mask_byte_def mask_eq_exp_minus_1)
  then show ?thesis using True by (simp only: bit_mask_iff) auto
next
  case False
  then show ?thesis by (auto simp: mask_byte_def bit_push_bit_iff bit_mask_iff)
qed

lemma mask_byte_eq: "a AND mask_byte k = b AND mask_byte k \<longleftrightarrow> (\<forall>i < 8. 8 \<le> i + k \<longrightarrow> bit a i = bit b i)"
  for a b :: "8 word"
  by (auto simp: bit_eq_iff bit_and_iff bit_mask_byte)

lemma mask_ip_agree:
  assumes "length a = length b"
  shows "mask_ip a (CIDRMask n (length a)) = mask_ip b (CIDRMask n (length a)) \<longleftrightarrow> agree n a b"
proof -
  have nth: "mask_ip c (CIDRMask n (length a)) ! q = c ! q AND mask_byte (n - 8 * q)" if "q < length a" "length c = length a" for c q
    using that by (simp add: mask_ip_def CIDRMask_def)
  have len: "length (mask_ip c (CIDRMask n (length a))) = length a" if "length c = length a" for c
    using that by (simp add: mask_ip_def CIDRMask_def)
  have "mask_ip a (CIDRMask n (length a)) = mask_ip b (CIDRMask n (length a)) \<longleftrightarrow>
      (\<forall>q < length a. a ! q AND mask_byte (n - 8 * q) = b ! q AND mask_byte (n - 8 * q))"
    unfolding list_eq_iff_nth_eq using assms nth len by auto
  also have "\<dots> \<longleftrightarrow> (\<forall>q < length a. \<forall>i < 8. 8 \<le> i + (n - 8 * q) \<longrightarrow> bit (a ! q) i = bit (b ! q) i)"
    by (simp only: mask_byte_eq)
  also have "\<dots> \<longleftrightarrow> (\<forall>j < n. j < 8 * length a \<longrightarrow> ip_bit a j = ip_bit b j)"
  proof (rule iffI; intro allI impI)
    fix j assume all: "\<forall>q < length a. \<forall>i < 8. 8 \<le> i + (n - 8 * q) \<longrightarrow> bit (a ! q) i = bit (b ! q) i"
      and j: "j < n" "j < 8 * length a"
    have "j div 8 < length a" using j(2) by (simp add: less_mult_imp_div_less mult.commute)
    moreover have "8 * (j div 8) + j mod 8 = j" "j mod 8 < 8" by simp_all
    then have "8 \<le> (7 - j mod 8) + (n - 8 * (j div 8))" using j(1) by linarith
    moreover have "7 - j mod 8 < 8" by simp
    ultimately show "ip_bit a j = ip_bit b j" using all unfolding ip_bit_def by blast
  next
    fix q i assume all: "\<forall>j < n. j < 8 * length a \<longrightarrow> ip_bit a j = ip_bit b j"
      and q: "q < length a" "i < (8 :: nat)" "8 \<le> i + (n - 8 * q)"
    define j where "j = 8 * q + (7 - i)"
    have "j < n" "j < 8 * length a" "j div 8 = q" using q by (auto simp: j_def)
    moreover have "j mod 8 = 7 - i" unfolding j_def by (simp add: mod_less)
    with q(2) have "7 - j mod 8 = i" by simp
    moreover note all
    ultimately show "bit (a ! q) i = bit (b ! q) i" by (auto simp: ip_bit_def)
  qed
  finally show ?thesis using assms by (simp add: agree_def)
qed

text \<open>Membership in a network in IPv4 notation is agreement with it in the bits it names.\<close>

lemma length_CIDRMask [simp]: "length (CIDRMask n len) = len"
  by (simp add: CIDRMask_def)

lemma length_mask_ip [simp]: "length (mask_ip a m) = min (length a) (length m)"
  by (simp add: mask_ip_def)

lemma mask_ip_twice: "length a \<le> length m \<Longrightarrow> mask_ip (mask_ip a m) m = mask_ip a m"
  by (simp add: mask_ip_def list_eq_iff_nth_eq and.assoc)

lemma Contains_ipv4:
  assumes "parse_addr (takeWhile (\<lambda>c. c \<noteq> CHR ''/'') s) = Some b" "length b = 4" "ParseCIDR s = Some n"
  shows "Contains n addr \<longleftrightarrow>
    (\<exists>v4. To4 addr = Some v4 \<and> agree (digits_val (tl (dropWhile (\<lambda>c. c \<noteq> CHR ''/'') s))) b v4) \<or>
    (length addr = 4 \<and> agree (digits_val (tl (dropWhile (\<lambda>c. c \<noteq> CHR ''/'') s))) b addr)"
proof -
  define k where "k = digits_val (tl (dropWhile (\<lambda>c. c \<noteq> CHR ''/'') s))"
  have n: "n = \<lparr>net_IP = mask_ip b (CIDRMask k 4), net_Mask = CIDRMask k 4\<rparr>"
    using assms by (auto simp: ParseCIDR_def split_two_def Let_def k_def split: if_splits option.splits)
  have nn: "network_number n = Some (mask_ip b (CIDRMask k 4), CIDRMask k 4)"
    using assms(2) by (simp add: n network_number_def To4_def)
  have eq: "mask_ip (mask_ip b (CIDRMask k 4)) (CIDRMask k 4) = mask_ip c (CIDRMask k 4) \<longleftrightarrow> agree k b c"
    if "length c = 4" for c
    using mask_ip_agree [of b c k] assms(2) that by (simp add: mask_ip_twice)
  have "length c = 4" if "To4 addr = Some c" for c
    using that by (auto simp: To4_def split: if_splits)
  moreover have "To4 addr = Some addr" if "length addr = 4" using that by (simp add: To4_def)
  ultimately show ?thesis
    using nn eq assms(2) by (auto simp: Contains_def k_def [symmetric] split: option.splits)
qed

end
