(* ===== verification/RemoteAccess.thy ===== *)
theory RemoteAccess
  imports Service Samples NetAddr Sorting
begin

text \<open>
  The remote access guard, \<^verbatim>\<open>internal/platform/server/remote_access.go\<close>: the HTTP middleware in front of the gateway that lets
  requests to administrative paths pass only from trusted networks, and logs and audits every decision. The lock is taken
  for short sections; a request is modelled as one step, as if requests came one after the other.
\<close>

section \<open>State\<close>

record http_request =
  ForwardedFor :: string
  RemoteAddr :: string
  Host :: string
  URLPath :: string
  HttpMethod :: string

record remote_access_activity =
  Timestamp :: string
  SourceIP :: string
  SourcePort :: string
  Destination :: string
  DestinationPort :: string
  Path :: string
  Method :: string
  Allowed :: bool
  ActReason :: string

record activity_row =
  ar_occurred_at :: time
  ar_source_ip :: string
  ar_source_port :: string
  ar_destination_host :: string
  ar_destination_port :: string
  ar_path :: string
  ar_method :: string
  ar_allowed :: bool
  ar_reason :: string

text \<open>The rows are kept in the order of their serial key.\<close>

record access_db = dbcore +
  remote_access_rows :: "activity_row list"

text \<open>The calls of the two observers, which the server connects to its metrics.\<close>

datatype guard_call = ObservedDecision string | ObservedLogState nat nat

record remote_access_guard = "access_db svc" +
  trusted :: "ipnet list"
  logs :: "remote_access_activity list"
  guard_disableInMemoryCache :: bool
  failClosedLogPersist :: bool
  inMemoryLogCap :: nat
  onDecision :: bool
  onLogState :: bool
  guard_observed :: "guard_call list"

text \<open>The networks of a list of texts; \<open>None\<close> when one is malformed. Blank texts are skipped.\<close>

fun parse_trusted :: "string list \<Rightarrow> ipnet list option" where
  "parse_trusted [] = Some []"
| "parse_trusted (c # cs) =
     (let t = trim_space c
      in if t = [] then parse_trusted cs
         else (case ParseCIDR t of
                 None \<Rightarrow> None
               | Some n \<Rightarrow> map_option ((#) n) (parse_trusted cs)))"

definition loopback_nets :: "ipnet list" where
  "loopback_nets = List.map_filter ParseCIDR [''127.0.0.1/32'', ''::1/128'']"

definition NewRemoteAccessGuard :: "store option \<Rightarrow> string list \<Rightarrow> remote_access_guard option" where
  "NewRemoteAccessGuard st cidrs =
     map_option (\<lambda>nets.
       \<lparr>svc_AuditStore = Some (case st of None \<Rightarrow> NewInMemoryStore | Some s \<Rightarrow> s), svc_nextAuditID = 0, svc_db = None,
        trusted = (if nets = [] then loopback_nets else nets), logs = [], guard_disableInMemoryCache = False,
        failClosedLogPersist = False, inMemoryLogCap = 0, onDecision = False, onLogState = False,
        guard_observed = []\<rparr>) (parse_trusted cidrs)"

section \<open>Configuration\<close>

definition guard_SetDB :: "access_db option \<Rightarrow> remote_access_guard \<Rightarrow> remote_access_guard" where
  "guard_SetDB db g = g\<lparr>svc_db := db\<rparr>"

definition SetDisableInMemoryActivityCache :: "bool \<Rightarrow> remote_access_guard \<Rightarrow> remote_access_guard" where
  "SetDisableInMemoryActivityCache disable g = g\<lparr>guard_disableInMemoryCache := disable\<rparr>"

definition SetFailClosedOnLogPersistenceFailure :: "bool \<Rightarrow> remote_access_guard \<Rightarrow> remote_access_guard" where
  "SetFailClosedOnLogPersistenceFailure enable g = g\<lparr>failClosedLogPersist := enable\<rparr>"

definition log_state_observed :: "remote_access_guard \<Rightarrow> remote_access_guard" where
  "log_state_observed g =
     (if onLogState g then g\<lparr>guard_observed := guard_observed g @ [ObservedLogState (length (logs g)) (inMemoryLogCap g)]\<rparr> else g)"

definition decided :: "string \<Rightarrow> remote_access_guard \<Rightarrow> remote_access_guard" where
  "decided outcome g = (if onDecision g then g\<lparr>guard_observed := guard_observed g @ [ObservedDecision outcome]\<rparr> else g)"

text \<open>A negative cap is 0, which is no cap.\<close>

definition SetInMemoryActivityLogCap :: "int \<Rightarrow> remote_access_guard \<Rightarrow> remote_access_guard" where
  "SetInMemoryActivityLogCap cap g = log_state_observed (g\<lparr>inMemoryLogCap := nat cap\<rparr>)"

text \<open>Whether an observer is installed.\<close>

definition SetLogStateObserver :: "bool \<Rightarrow> remote_access_guard \<Rightarrow> remote_access_guard" where
  "SetLogStateObserver observer g = log_state_observed (g\<lparr>onLogState := observer\<rparr>)"

definition SetDecisionObserver :: "bool \<Rightarrow> remote_access_guard \<Rightarrow> remote_access_guard" where
  "SetDecisionObserver observer g = g\<lparr>onDecision := observer\<rparr>"

section \<open>The source of a request\<close>

definition starts_with :: "string \<Rightarrow> string \<Rightarrow> bool" where
  "starts_with p s \<longleftrightarrow> take (length p) s = p"

definition isAdminPath :: "string \<Rightarrow> bool" where
  "isAdminPath path \<longleftrightarrow> starts_with ''/v1/config'' path \<or> starts_with ''/v1/reporting'' path \<or> starts_with ''/v1/audit'' path"

definition extractSourceIP :: "http_request \<Rightarrow> string \<times> string" where
  "extractSourceIP r =
     (let xff = trim_space (ForwardedFor r)
      in if xff \<noteq> [] then (trim_space (hd (split_on (CHR '','') xff)), [])
         else (case SplitHostPort (trim_space (RemoteAddr r)) of
                 Some hp \<Rightarrow> hp
               | None \<Rightarrow> (trim_space (RemoteAddr r), [])))"

definition isTrusted :: "remote_access_guard \<Rightarrow> string \<Rightarrow> bool" where
  "isTrusted g ipStr =
     (case ParseIP ipStr of None \<Rightarrow> False | Some addr \<Rightarrow> list_ex (\<lambda>n. Contains n addr) (trusted g))"

section \<open>The log and the audit trail\<close>

definition guard_event :: "env \<Rightarrow> nat \<Rightarrow> string \<Rightarrow> string \<Rightarrow> string \<Rightarrow> string \<Rightarrow> event" where
  "guard_event e n path sourceIP result reason =
     \<lparr>ev_AuditID = ''remote-access-'' @ itoa_nat n, ev_OccurredAt = env_now e, ev_RecordedAt = env_now e,
      ev_ActorID = sourceIP, ev_ActorType = ''remote'', ev_AuthContext = ''path='' @ path,
      ev_ObjectType = ''remote_access'', ev_ObjectID = path, ev_Action = result,
      ev_Before = json_empty, ev_After = json_empty,
      ev_Result = (if result = ''allowed'' then ResultSuccess else ResultDenied), ev_Reason = reason,
      ev_PartitionDay = fmt_date (env_now e), ev_HashPrev = [], ev_HashCurr = []\<rparr>"

definition guard_appendAudit ::
    "ext \<Rightarrow> env \<Rightarrow> string \<Rightarrow> string \<Rightarrow> string \<Rightarrow> string \<Rightarrow> remote_access_guard \<Rightarrow> bool \<times> remote_access_guard" where
  "guard_appendAudit x e path sourceIP result reason =
     svc_append x e (\<lambda>n. guard_event e n path sourceIP result reason)"

definition new_activity ::
    "env \<Rightarrow> http_request \<Rightarrow> string \<Rightarrow> string \<Rightarrow> bool \<Rightarrow> string \<Rightarrow> remote_access_activity" where
  "new_activity e r sourceIP sourcePort allowed reason =
     (let (host, port) = (case SplitHostPort (Host r) of Some hp \<Rightarrow> hp | None \<Rightarrow> (Host r, []))
      in \<lparr>Timestamp = fmt_rfc3339nano (env_now e), SourceIP = sourceIP, SourcePort = sourcePort,
          Destination = host, DestinationPort = port, Path = URLPath r, Method = HttpMethod r,
          Allowed = allowed, ActReason = reason\<rparr>)"

definition activity_row_of :: "ext \<Rightarrow> remote_access_activity \<Rightarrow> activity_row option" where
  "activity_row_of x a =
     map_option (\<lambda>t. \<lparr>ar_occurred_at = t, ar_source_ip = SourceIP a, ar_source_port = SourcePort a,
                      ar_destination_host = Destination a, ar_destination_port = DestinationPort a, ar_path = Path a,
                      ar_method = Method a, ar_allowed = Allowed a, ar_reason = ActReason a\<rparr>)
       (pg_time_of_text x (Timestamp a))"

definition persistActivity ::
    "ext \<Rightarrow> remote_access_activity \<Rightarrow> remote_access_guard \<Rightarrow> bool \<times> remote_access_guard" where
  "persistActivity x a =
     svc_exec (sql_stmt (\<lambda>d. map_option (\<lambda>row. d\<lparr>remote_access_rows := remote_access_rows d @ [row]\<rparr>)
                               (activity_row_of x a)))"

text \<open>\<open>False\<close>: the log is full or the database refused the entry.\<close>

definition logActivity ::
    "ext \<Rightarrow> env \<Rightarrow> http_request \<Rightarrow> string \<Rightarrow> string \<Rightarrow> bool \<Rightarrow> string \<Rightarrow> remote_access_guard
     \<Rightarrow> bool \<times> remote_access_guard" where
  "logActivity x e r sourceIP sourcePort allowed reason g =
     (let entry = new_activity e r sourceIP sourcePort allowed reason
      in if \<not> guard_disableInMemoryCache g \<and> svc_db g = None \<and> 0 < inMemoryLogCap g \<and> inMemoryLogCap g \<le> length (logs g)
         then (False, log_state_observed g)
         else persistActivity x entry
                (log_state_observed (if guard_disableInMemoryCache g then g else g\<lparr>logs := logs g @ [entry]\<rparr>)))"

definition row_to_activity :: "activity_row \<Rightarrow> remote_access_activity" where
  "row_to_activity r =
     \<lparr>Timestamp = fmt_rfc3339nano (ar_occurred_at r), SourceIP = ar_source_ip r, SourcePort = ar_source_port r,
      Destination = ar_destination_host r, DestinationPort = ar_destination_port r, Path = ar_path r,
      Method = ar_method r, Allowed = ar_allowed r, ActReason = ar_reason r\<rparr>"

text \<open>\<^verbatim>\<open>ORDER BY occurred_at DESC, activity_id DESC LIMIT 5000\<close>.\<close>

definition activitiesFromDB :: "remote_access_guard \<Rightarrow> remote_access_activity list option \<times> remote_access_guard" where
  "activitiesFromDB =
     svc_query (\<lambda>d. map row_to_activity (take 5000
       (stable_sort (\<lambda>a b. ar_occurred_at b < ar_occurred_at a) (rev (remote_access_rows d)))))"

definition Activities :: "remote_access_guard \<Rightarrow> remote_access_activity list \<times> remote_access_guard" where
  "Activities g =
     (case activitiesFromDB g of
        (Some rows, g1) \<Rightarrow> (rows, g1)
      | (None, g1) \<Rightarrow> (if guard_disableInMemoryCache g then [] else logs g, g1))"

section \<open>The middleware\<close>

datatype http_result = NextServed | HttpError nat string

text \<open>After a step that can fail to be logged: the answer when the guard fails closed.\<close>

definition checked_log :: "bool \<times> remote_access_guard \<Rightarrow> http_result option \<times> remote_access_guard" where
  "checked_log p =
     (case p of (ok, g) \<Rightarrow>
        if ok then (None, g)
        else (if failClosedLogPersist g then Some (HttpError 503 ''remote access logging unavailable'') else None,
              decided ''logging_unavailable'' g))"

definition untrusted_reason :: string where
  "untrusted_reason = ''source ip outside trusted network''"

definition deny_remote ::
    "ext \<Rightarrow> env \<Rightarrow> http_request \<Rightarrow> string \<Rightarrow> string \<Rightarrow> remote_access_guard \<Rightarrow> http_result \<times> remote_access_guard" where
  "deny_remote x e r sourceIP sourcePort g =
     (case checked_log (logActivity x e r sourceIP sourcePort False untrusted_reason g) of
        (Some err, g1) \<Rightarrow> (err, g1)
      | (None, g1) \<Rightarrow>
          (case checked_log (guard_appendAudit x e (URLPath r) sourceIP ''denied'' untrusted_reason (decided ''denied'' g1)) of
             (Some err, g2) \<Rightarrow> (err, g2)
           | (None, g2) \<Rightarrow> (HttpError 403 ''remote access denied'', g2)))"

definition admit_remote ::
    "ext \<Rightarrow> env \<Rightarrow> http_request \<Rightarrow> string \<Rightarrow> string \<Rightarrow> remote_access_guard \<Rightarrow> http_result \<times> remote_access_guard" where
  "admit_remote x e r sourceIP sourcePort g =
     (case checked_log (logActivity x e r sourceIP sourcePort True [] g) of
        (Some err, g1) \<Rightarrow> (err, g1)
      | (None, g1) \<Rightarrow>
          (case checked_log (guard_appendAudit x e (URLPath r) sourceIP ''allowed'' [] g1) of
             (Some err, g2) \<Rightarrow> (err, g2)
           | (None, g2) \<Rightarrow> (NextServed, decided ''allowed'' g2)))"

definition Wrap :: "ext \<Rightarrow> env \<Rightarrow> http_request \<Rightarrow> remote_access_guard \<Rightarrow> http_result \<times> remote_access_guard" where
  "Wrap x e r g =
     (if \<not> isAdminPath (URLPath r) then (NextServed, g)
      else (case extractSourceIP r of (sourceIP, sourcePort) \<Rightarrow>
              if isTrusted g sourceIP then admit_remote x e r sourceIP sourcePort g
              else deny_remote x e r sourceIP sourcePort g))"

end
