(* ===== verification/AuditQuery.thy ===== *)
theory AuditQuery
  imports RemoteAccess Pagination "HOL-Library.Monad_Syntax"
begin

text \<open>
  The audit service, \<^verbatim>\<open>internal/platform/server/audit_grpc.go\<close>, and the queries of \<^verbatim>\<open>audit_postgres.go\<close>: the listing of the audit
  events of all services, the listing of remote access activities, and the verification of the hash chain in the
  database. The service holds the stores of the other services by reference; here it holds their contents.
\<close>

section \<open>Messages and state\<close>

record audit_event_record =
  AuditId :: string
  AudOccurredAt :: string
  AudRecordedAt :: string
  AudActorId :: string
  AudActorType :: string
  AudObjectType :: string
  AudObjectId :: string
  AudAction :: string
  AudResult :: string
  AudReason :: string

record audit_list_request =
  AudList_Meta :: "request_meta option"
  AudList_PageSize :: i32
  AudList_PageToken :: string
  AudList_ObjectTypeFilter :: string

record 'a audit_list_response =
  AudListMeta :: response_meta
  AudListItems :: "'a list"
  AudListNext :: string

record verify_request =
  Verify_Meta :: "request_meta option"
  Verify_PartitionDay :: string

record verify_response =
  VerifyMeta :: response_meta
  Valid :: bool

record audit_service =
  aud_stores :: "store option list"
  aud_guard :: "remote_access_guard option"
  aud_db :: "access_db option"

definition NewAuditService :: "remote_access_guard option \<Rightarrow> store option list \<Rightarrow> audit_service" where
  "NewAuditService guard stores = \<lparr>aud_stores = stores, aud_guard = guard, aud_db = None\<rparr>"

definition audit_SetDB :: "access_db option \<Rightarrow> audit_service \<Rightarrow> audit_service" where
  "audit_SetDB db s = s\<lparr>aud_db := db\<rparr>"

definition maxAuditPageSize :: int where
  "maxAuditPageSize = 1000"

definition validatePageToken :: "string \<Rightarrow> bool" where
  "validatePageToken pageToken \<longleftrightarrow>
     pageToken = [] \<or> (case atoi pageToken of None \<Rightarrow> False | Some p \<Rightarrow> 0 \<le> p)"

section \<open>The database\<close>

definition event_record :: "event \<Rightarrow> audit_event_record" where
  "event_record v =
     \<lparr>AuditId = ev_AuditID v, AudOccurredAt = fmt_rfc3339nano (ev_OccurredAt v), AudRecordedAt = fmt_rfc3339nano (ev_RecordedAt v),
      AudActorId = ev_ActorID v, AudActorType = ev_ActorType v, AudObjectType = ev_ObjectType v, AudObjectId = ev_ObjectID v,
      AudAction = ev_Action v, AudResult = ev_Result v, AudReason = ev_Reason v\<rparr>"

text \<open>\<open>None\<close>: the page token is malformed or the query failed.\<close>

definition listAuditEventsFromDB ::
    "ext \<Rightarrow> string \<Rightarrow> string \<Rightarrow> i32 \<Rightarrow> access_db \<Rightarrow> (audit_event_record list \<times> string) option \<times> access_db" where
  "listAuditEventsFromDB x objectTypeFilter pageToken pageSize d =
     (if \<not> validatePageToken pageToken then (None, d)
      else
        let limit = page_size 100 pageSize; start = page_start pageToken
        in map_prod (map_option (\<lambda>rows. (rows, db_next start limit rows))) id
             (sql_query (\<lambda>d. map event_record (take limit (drop start
               (stable_sort (\<lambda>a b. audit_row_less x b a)
                 (filter (\<lambda>r. objectTypeFilter = [] \<or> ev_ObjectType r = objectTypeFilter) (db_audit_events d)))))) d))"

text \<open>
  \<^verbatim>\<open>ORDER BY partition_day, recorded_at, audit_id\<close>; a day is held as its text, whose order is that of the dates of years
  with four digits.
\<close>

definition chain_row_less :: "ext \<Rightarrow> event \<Rightarrow> event \<Rightarrow> bool" where
  "chain_row_less x a b \<longleftrightarrow> ev_PartitionDay a < ev_PartitionDay b \<or>
     (ev_PartitionDay a = ev_PartitionDay b \<and> audit_row_less x a b)"

definition chain_rows :: "ext \<Rightarrow> string \<Rightarrow> 'r dbcore_scheme \<Rightarrow> event list" where
  "chain_rows x partitionDay d =
     stable_sort (chain_row_less x) (filter (\<lambda>r. partitionDay = [] \<or> ev_PartitionDay r = partitionDay) (db_audit_events d))"

definition expected_prev :: "(string \<rightharpoonup> string) \<Rightarrow> string \<Rightarrow> string" where
  "expected_prev lastByPartition day =
     (case lastByPartition day of None \<Rightarrow> genesis | Some h \<Rightarrow> if h = [] then genesis else h)"

fun verify_rows :: "(string \<Rightarrow> string) \<Rightarrow> (string \<rightharpoonup> string) \<Rightarrow> event list \<Rightarrow> bool" where
  "verify_rows sha lastByPartition [] = True"
| "verify_rows sha lastByPartition (r # rs) =
     (let prev = expected_prev lastByPartition (ev_PartitionDay r)
      in ev_HashPrev r = prev \<and> ev_HashCurr r = ComputeHash sha prev r \<and>
         verify_rows sha (lastByPartition(ev_PartitionDay r \<mapsto> ev_HashCurr r)) rs)"

definition verifyAuditChainFromDB :: "ext \<Rightarrow> string \<Rightarrow> 'r dbcore_scheme \<Rightarrow> bool \<times> 'r dbcore_scheme" where
  "verifyAuditChainFromDB x partitionDay d =
     map_prod (\<lambda>ok. ok = Some True) id
       (sql_query (\<lambda>d. verify_rows (sha256 x) Map.empty (chain_rows x partitionDay d)) d)"

section \<open>Handlers\<close>

text \<open>\<^verbatim>\<open>time.Parse("2006-01-02", s)\<close> succeeds.\<close>

definition date_ok :: "string \<Rightarrow> bool" where
  "date_ok s =
     (case do {
        (y, s) \<leftarrow> getyear s;
        s \<leftarrow> skip_char (CHR ''-'') s;
        (m, s) \<leftarrow> getnum True s;
        if m \<le> 0 \<or> 12 < m then None else do {
        s \<leftarrow> skip_char (CHR ''-'') s;
        (d, s) \<leftarrow> getnum True s;
        if s \<noteq> [] \<or> d < 1 \<or> days_in (nat m) (leap y) < d then None else Some () }} of
      None \<Rightarrow> False | Some _ \<Rightarrow> True)"

definition no_audit_list_request :: audit_list_request where
  "no_audit_list_request = \<lparr>AudList_Meta = None, AudList_PageSize = 0, AudList_PageToken = [], AudList_ObjectTypeFilter = []\<rparr>"

definition audit_list_refusal :: "env \<Rightarrow> request_meta option \<Rightarrow> result_code \<Rightarrow> string \<Rightarrow> 'a audit_list_response" where
  "audit_list_refusal e meta code reason =
     \<lparr>AudListMeta = responseMeta e meta code reason, AudListItems = [], AudListNext = []\<rparr>"

definition audit_list_ok :: "env \<Rightarrow> request_meta option \<Rightarrow> 'a list \<times> string \<Rightarrow> 'a audit_list_response" where
  "audit_list_ok e meta p = \<lparr>AudListMeta = responseMeta e meta RESULT_CODE_OK [], AudListItems = fst p, AudListNext = snd p\<rparr>"

text \<open>The checks both listings make, in this order: the refusal, if any.\<close>

definition audit_list_invalid :: "auth_actor option \<Rightarrow> audit_list_request \<Rightarrow> (result_code \<times> string) option" where
  "audit_list_invalid ctx r =
     (case authorize_backoffice ctx (AudList_Meta r) of
        Some reason \<Rightarrow> Some (RESULT_CODE_DENIED, reason)
      | None \<Rightarrow>
          if sint (AudList_PageSize r) < 0 then Some (RESULT_CODE_INVALID, ''page_size must be non-negative'')
          else if \<not> validatePageToken (AudList_PageToken r) then Some (RESULT_CODE_INVALID, ''invalid page_token'')
          else if maxAuditPageSize < sint (AudList_PageSize r) then Some (RESULT_CODE_INVALID, ''page_size exceeds max allowed'')
          else None)"

definition audit_paginated :: "env \<Rightarrow> audit_list_request \<Rightarrow> 'a list \<Rightarrow> 'a audit_list_response" where
  "audit_paginated e r items =
     (case paginate items (AudList_PageToken r) (AudList_PageSize r) of
        None \<Rightarrow> audit_list_refusal e (AudList_Meta r) RESULT_CODE_INVALID ''invalid page_token''
      | Some p \<Rightarrow> audit_list_ok e (AudList_Meta r) p)"

definition audit_before :: "audit_event_record \<Rightarrow> audit_event_record \<Rightarrow> bool" where
  "audit_before a b =
     (if AudRecordedAt a = AudRecordedAt b then AuditId a < AuditId b else AudRecordedAt b < AudRecordedAt a)"

definition stored_events :: "string \<Rightarrow> store option list \<Rightarrow> audit_event_record list" where
  "stored_events objectTypeFilter stores =
     concat (map (\<lambda>st. map event_record
       (filter (\<lambda>v. objectTypeFilter = [] \<or> ev_ObjectType v = objectTypeFilter) (Events st))) (List.map_filter id stores))"

definition ListAuditEvents ::
    "ext \<Rightarrow> env \<Rightarrow> auth_actor option \<Rightarrow> audit_list_request option \<Rightarrow> audit_service
     \<Rightarrow> audit_event_record audit_list_response \<times> audit_service" where
  "ListAuditEvents x e ctx req s =
     (let r = (case req of None \<Rightarrow> no_audit_list_request | Some r \<Rightarrow> r); meta = AudList_Meta r
      in case audit_list_invalid ctx r of
           Some (code, reason) \<Rightarrow> (audit_list_refusal e meta code reason, s)
         | None \<Rightarrow>
           (case aud_db s of
              Some d \<Rightarrow>
                (case listAuditEventsFromDB x (AudList_ObjectTypeFilter r) (AudList_PageToken r) (AudList_PageSize r) d of
                   (None, d1) \<Rightarrow> (audit_list_refusal e meta RESULT_CODE_ERROR ''persistence unavailable'', s\<lparr>aud_db := Some d1\<rparr>)
                 | (Some p, d1) \<Rightarrow> (audit_list_ok e meta p, s\<lparr>aud_db := Some d1\<rparr>))
            | None \<Rightarrow>
                (audit_paginated e r (stable_sort audit_before (stored_events (AudList_ObjectTypeFilter r) (aud_stores s))), s)))"

definition activity_before :: "remote_access_activity \<Rightarrow> remote_access_activity \<Rightarrow> bool" where
  "activity_before a b = (if Timestamp a = Timestamp b then Path a < Path b else Timestamp b < Timestamp a)"

definition ListRemoteAccessActivities ::
    "env \<Rightarrow> auth_actor option \<Rightarrow> audit_list_request option \<Rightarrow> audit_service
     \<Rightarrow> remote_access_activity audit_list_response \<times> audit_service" where
  "ListRemoteAccessActivities e ctx req s =
     (let r = (case req of None \<Rightarrow> no_audit_list_request | Some r \<Rightarrow> r); meta = AudList_Meta r
      in case audit_list_invalid ctx r of
           Some (code, reason) \<Rightarrow> (audit_list_refusal e meta code reason, s)
         | None \<Rightarrow>
           (case aud_guard s of
              None \<Rightarrow> (audit_paginated e r [], s)
            | Some g \<Rightarrow>
                (case Activities g of
                   (acts, g1) \<Rightarrow> (audit_paginated e r (stable_sort activity_before acts), s\<lparr>aud_guard := Some g1\<rparr>))))"

definition verify_refusal :: "env \<Rightarrow> request_meta option \<Rightarrow> result_code \<Rightarrow> string \<Rightarrow> verify_response" where
  "verify_refusal e meta code reason = \<lparr>VerifyMeta = responseMeta e meta code reason, Valid = False\<rparr>"

definition VerifyAuditChain ::
    "ext \<Rightarrow> env \<Rightarrow> auth_actor option \<Rightarrow> verify_request option \<Rightarrow> audit_service \<Rightarrow> verify_response \<times> audit_service" where
  "VerifyAuditChain x e ctx req s =
     (let r = (case req of None \<Rightarrow> \<lparr>Verify_Meta = None, Verify_PartitionDay = []\<rparr> | Some r \<Rightarrow> r);
          meta = Verify_Meta r; day = Verify_PartitionDay r
      in case authorize_backoffice ctx meta of
           Some reason \<Rightarrow> (verify_refusal e meta RESULT_CODE_DENIED reason, s)
         | None \<Rightarrow>
           if day \<noteq> [] \<and> \<not> date_ok day then (verify_refusal e meta RESULT_CODE_INVALID ''partition_day must be YYYY-MM-DD'', s)
           else (case aud_db s of
                   None \<Rightarrow> (verify_refusal e meta RESULT_CODE_ERROR ''persistence unavailable'', s)
                 | Some d \<Rightarrow>
                     (case verifyAuditChainFromDB x day d of
                        (False, d1) \<Rightarrow>
                          (verify_refusal e meta RESULT_CODE_ERROR ''audit chain verification failed'', s\<lparr>aud_db := Some d1\<rparr>)
                      | (True, d1) \<Rightarrow>
                          (\<lparr>VerifyMeta = responseMeta e meta RESULT_CODE_OK [], Valid = True\<rparr>, s\<lparr>aud_db := Some d1\<rparr>))))"

end
