(* ===== verification/AuditQueryProps.thy ===== *)
theory AuditQueryProps
  imports AuditQuery Registry
begin

text \<open>
  The hash chain in the database: when what the database gives back is what was hashed and the events come in the order
  the database sorts them by, the chain verifies; a value the database rewrites makes the verification fail; and an event whose
  identifier is taken, as after a restart, is silently not recorded.
\<close>

section \<open>Days of a log\<close>

definition of_day :: "string \<Rightarrow> event list \<Rightarrow> event list" where
  "of_day day = filter (\<lambda>r. ev_PartitionDay r = day)"

lemma of_day_simps [simp]:
  "of_day day [] = []" "of_day day (r # rs) = (if ev_PartitionDay r = day then r # of_day day rs else of_day day rs)"
  "of_day day (rs @ ss) = of_day day rs @ of_day day ss"
  by (simp_all add: of_day_def)

text \<open>A digest is never empty; the verification is then a check of the chain of every day.\<close>

lemma verify_rows_days:
  assumes "\<And>s. sha s \<noteq> []" "\<And>day. chain_from sha (expected_prev m day) (of_day day rs)"
  shows "verify_rows sha m rs"
  using assms(2)
proof (induction rs arbitrary: m)
  case (Cons r rs)
  define h where "h = ComputeHash sha (expected_prev m (ev_PartitionDay r)) r"
  have h: "h \<noteq> []" using assms(1) by (cases "sha (hash_input (expected_prev m (ev_PartitionDay r)) r)") (auto simp: h_def ComputeHash_def)
  have r: "ev_HashPrev r = expected_prev m (ev_PartitionDay r)" "ev_HashCurr r = h"
    "chain_from sha h (of_day (ev_PartitionDay r) rs)"
    using Cons.prems [of "ev_PartitionDay r"] by (auto simp: h_def)
  have "chain_from sha (expected_prev (m(ev_PartitionDay r \<mapsto> h)) day) (of_day day rs)" for day
    using Cons.prems [of day] r(3) h by (auto simp: expected_prev_def split: if_splits)
  then have "verify_rows sha (m(ev_PartitionDay r \<mapsto> h)) rs" by (rule Cons.IH)
  then show ?case using r(1,2) by (simp add: h_def [symmetric])
qed simp

section \<open>Appending to the database\<close>

text \<open>
  A strict order that the database's collation gives its texts, as PostgreSQL documents it, and an event that is read back
  as it was hashed.
\<close>

definition text_order :: "ext \<Rightarrow> bool" where
  "text_order x \<longleftrightarrow> (\<forall>a b. pg_text_less x a b \<longrightarrow> \<not> pg_text_less x b a) \<and>
     (\<forall>a b c. \<not> pg_text_less x a b \<longrightarrow> \<not> pg_text_less x b c \<longrightarrow> \<not> pg_text_less x a c)"

definition stored_as_hashed :: "ext \<Rightarrow> event \<Rightarrow> bool" where
  "stored_as_hashed x v \<longleftrightarrow> ev_RecordedAt v \<noteq> zero_time \<and> ev_OccurredAt v \<noteq> zero_time \<and> ev_PartitionDay v \<noteq> [] \<and>
     pg_timestamptz x (ev_RecordedAt v) = ev_RecordedAt v \<and>
     pg_jsonb x (normalizeAuditJSON x (ev_Before v)) = ev_Before v \<and> pg_jsonb x (normalizeAuditJSON x (ev_After v)) = ev_After v"

lemma sorting_lex:
  fixes k :: "'a \<Rightarrow> 'b::linorder"
  assumes "sorting lt"
  shows "sorting (\<lambda>a b. k a < k b \<or> (k a = k b \<and> lt a b))"
proof
  fix a b c
  show "\<not> (k b < k a \<or> (k b = k a \<and> lt b a))" if "k a < k b \<or> (k a = k b \<and> lt a b)"
    using that sorting.asym [OF assms, of a b] by auto
  show "\<not> (k a < k c \<or> (k a = k c \<and> lt a c))" if "\<not> (k a < k b \<or> (k a = k b \<and> lt a b))" "\<not> (k b < k c \<or> (k b = k c \<and> lt b c))"
    using that sorting.neg_trans [OF assms, of a b c] by (cases "k b = k a"; cases "k c = k b") auto
qed

lemma chain_sorting:
  assumes "text_order x"
  shows "sorting (chain_row_less x)"
proof -
  have "sorting (\<lambda>a b. pg_text_less x (ev_AuditID a) (ev_AuditID b))"
    using assms unfolding text_order_def by unfold_locales blast+
  then show ?thesis
    unfolding chain_row_less_def audit_row_less_def by (intro sorting_lex)
qed

lemma audit_row_less_row:
  "audit_row_less x (audit_row x a) b = audit_row_less x (a\<lparr>ev_RecordedAt := pg_timestamptz x (ev_RecordedAt a)\<rparr>) b"
  by (simp add: audit_row_less_def audit_row_def)

lemma ComputeHash_row: "stored_as_hashed x v \<Longrightarrow> ComputeHash sha p (audit_row x v) = ComputeHash sha p v"
  by (simp add: stored_as_hashed_def ComputeHash_def hash_input_def audit_row_def)

text \<open>The chain of every day is valid and in the order of the database.\<close>

definition day_chains :: "ext \<Rightarrow> event list \<Rightarrow> bool" where
  "day_chains x rows \<longleftrightarrow> (\<forall>day. chain_from (sha256 x) genesis (of_day day rows) \<and> sorted_wrt (audit_row_less x) (of_day day rows))"

lemma select_last_sorted:
  assumes "sorted_wrt (audit_row_less x) (r # rs)"
  shows "foldl (\<lambda>m r. if audit_row_less x m r then r else m) r rs = last (r # rs)"
  using assms
proof (induction rs arbitrary: r)
  case (Cons s rs)
  then show ?case by simp
qed simp

lemma chain_end_last: "chain_end p (r # rs) = ev_HashCurr (last (r # rs))"
  by (induction rs arbitrary: p r) auto

lemma audit_select_last_chain:
  assumes "day_chains x rows"
  shows "audit_select_last x day rows = chain_end genesis (of_day day rows)"
proof (cases "of_day day rows")
  case (Cons r rs)
  then have "sorted_wrt (audit_row_less x) (r # rs)" using assms by (metis day_chains_def)
  with Cons show ?thesis
    by (simp add: audit_select_last_def of_day_def [symmetric] select_last_sorted chain_end_last del: chain_end.simps)
qed (simp add: audit_select_last_def of_day_def [symmetric])

lemma audit_insert_keeps:
  assumes "day_chains x (db_audit_events d)" "stored_as_hashed x v"
    and "\<And>r. r \<in> set (db_audit_events d) \<Longrightarrow> ev_AuditID r \<noteq> ev_AuditID v"
    and "\<And>r. r \<in> set (db_audit_events d) \<Longrightarrow> ev_PartitionDay r = ev_PartitionDay v \<Longrightarrow> audit_row_less x r v"
  obtains row where "audit_insert x v d = Some (d\<lparr>db_audit_events := db_audit_events d @ [row]\<rparr>)"
    "day_chains x (db_audit_events d @ [row])" "ev_AuditID row = ev_AuditID v" "ev_PartitionDay row = ev_PartitionDay v"
    "ev_RecordedAt row = ev_RecordedAt v"
proof -
  define prev where "prev = chain_end genesis (of_day (ev_PartitionDay v) (db_audit_events d))"
  define sv where "sv = v\<lparr>ev_HashPrev := prev, ev_HashCurr := ComputeHash (sha256 x) prev v\<rparr>"
  have ins: "audit_insert x v d = Some (d\<lparr>db_audit_events := db_audit_events d @ [audit_row x sv]\<rparr>)"
    using assms(3) by (auto simp: audit_insert_def Let_def audit_select_last_chain [OF assms(1)] prev_def [symmetric] sv_def)
  have "stored_as_hashed x sv" using assms(2) by (simp add: sv_def stored_as_hashed_def)
  then have hash: "ev_HashCurr (audit_row x sv) = ComputeHash (sha256 x) prev (audit_row x sv)" "ev_HashPrev (audit_row x sv) = prev"
    by (simp_all add: ComputeHash_row) (simp_all add: audit_row_def sv_def)
  have fields: "ev_AuditID (audit_row x sv) = ev_AuditID v" "ev_PartitionDay (audit_row x sv) = ev_PartitionDay v"
    "ev_RecordedAt (audit_row x sv) = ev_RecordedAt v"
    using assms(2) by (simp_all add: audit_row_def sv_def stored_as_hashed_def)
  have less: "audit_row_less x r (audit_row x sv)" if "r \<in> set (of_day (ev_PartitionDay v) (db_audit_events d))" for r
    using assms(4) [of r] that fields by (auto simp: of_day_def audit_row_less_def)
  have chains: "day_chains x (db_audit_events d @ [audit_row x sv])"
    unfolding day_chains_def
  proof (intro allI conjI)
    fix day
    have old: "chain_from (sha256 x) genesis (of_day day (db_audit_events d))"
      "sorted_wrt (audit_row_less x) (of_day day (db_audit_events d))" using assms(1) by (simp_all add: day_chains_def)
    show "chain_from (sha256 x) genesis (of_day day (db_audit_events d @ [audit_row x sv]))"
      using old(1) hash fields by (simp add: chain_from_append prev_def)
    show "sorted_wrt (audit_row_less x) (of_day day (db_audit_events d @ [audit_row x sv]))"
      using old(2) less fields by (auto simp: sorted_wrt_append)
  qed
  show ?thesis by (rule that [OF ins chains fields])
qed

text \<open>A sequence of appends, each in its environment.\<close>

fun append_events :: "ext \<Rightarrow> (env \<times> event) list \<Rightarrow> 'r dbcore_scheme \<Rightarrow> 'r dbcore_scheme" where
  "append_events x [] d = d"
| "append_events x ((e, v) # evs) d = append_events x evs (snd (appendAuditEventToDB x e v d))"

text \<open>The events of a sequence come in the order the database sorts the events of a day by.\<close>

definition in_db_order :: "ext \<Rightarrow> event list \<Rightarrow> bool" where
  "in_db_order x vs \<longleftrightarrow> distinct (map ev_AuditID vs) \<and>
     sorted_wrt (\<lambda>a b. ev_PartitionDay a = ev_PartitionDay b \<longrightarrow> audit_row_less x a b) vs"

lemma append_events_chains:
  assumes "db_faults d = []" "day_chains x (db_audit_events d)" "\<And>v. v \<in> set vs \<Longrightarrow> stored_as_hashed x v"
    and "in_db_order x vs" "evs = zip es vs" "length es = length vs"
    and "\<And>r v. r \<in> set (db_audit_events d) \<Longrightarrow> v \<in> set vs \<Longrightarrow> ev_AuditID r \<noteq> ev_AuditID v \<and>
           (ev_PartitionDay r = ev_PartitionDay v \<longrightarrow> audit_row_less x r v)"
  shows "db_faults (append_events x evs d) = [] \<and> day_chains x (db_audit_events (append_events x evs d)) \<and>
    length (db_audit_events (append_events x evs d)) = length (db_audit_events d) + length vs"
  using assms
proof (induction vs arbitrary: d es evs)
  case (Cons v vs)
  obtain e es' where es: "es = e # es'" using Cons.prems(6) by (cases es) auto
  have v: "stored_as_hashed x v" using Cons.prems(3) by simp
  obtain row where row: "audit_insert x v d = Some (d\<lparr>db_audit_events := db_audit_events d @ [row]\<rparr>)"
    "day_chains x (db_audit_events d @ [row])" "ev_AuditID row = ev_AuditID v" "ev_PartitionDay row = ev_PartitionDay v"
    "ev_RecordedAt row = ev_RecordedAt v"
    using audit_insert_keeps [OF Cons.prems(2) v] Cons.prems(7) by (metis list.set_intros(1))
  let ?d = "d\<lparr>db_audit_events := db_audit_events d @ [row]\<rparr>"
  have app: "appendAuditEventToDB x e v d = (True, ?d)"
    using v sql_tx_live [where q = "audit_insert x v", OF Cons.prems(1) row(1)] Cons.prems(1)
    by (simp add: appendAuditEventToDB_def stored_as_hashed_def Let_def)
  have new: "ev_AuditID w \<noteq> ev_AuditID v" if "w \<in> set vs" for w
    using Cons.prems(4) that by (auto simp: in_db_order_def image_iff)
  have rowless: "audit_row_less x row w = audit_row_less x v w" for w
    using row(3,5) by (simp add: audit_row_less_def)
  have "db_faults (append_events x (zip es' vs) ?d) = [] \<and> day_chains x (db_audit_events (append_events x (zip es' vs) ?d)) \<and>
      length (db_audit_events (append_events x (zip es' vs) ?d)) = length (db_audit_events ?d) + length vs"
  proof (rule Cons.IH [of ?d "zip es' vs" es'])
    show "ev_AuditID r \<noteq> ev_AuditID w \<and> (ev_PartitionDay r = ev_PartitionDay w \<longrightarrow> audit_row_less x r w)"
      if "r \<in> set (db_audit_events ?d)" "w \<in> set vs" for r w
      using that Cons.prems(4,7) row(3,4) rowless new by (fastforce simp: in_db_order_def)
  qed (use Cons.prems row(2) es in \<open>auto simp: in_db_order_def\<close>)
  then show ?case using app es Cons.prems(5) by simp
qed simp

lemma day_chains_verify:
  assumes "text_order x" "\<And>s. sha256 x s \<noteq> []" "day_chains x (db_audit_events d)"
  shows "verify_rows (sha256 x) Map.empty (chain_rows x day d)"
proof (rule verify_rows_days [OF assms(2)])
  fix day'
  define rows where "rows = filter (\<lambda>r. day = [] \<or> ev_PartitionDay r = day) (db_audit_events d)"
  have rows: "of_day day' rows = (if day = [] \<or> day' = day then of_day day' (db_audit_events d) else [])"
    by (auto simp: rows_def of_day_def filter_empty_conv intro!: filter_cong)
  note st = chain_sorting [OF assms(1)]
  have "sorted_wrt (audit_row_less x) (of_day day' rows)"
    using assms(3) rows by (simp add: day_chains_def)
  then have "sorting.in_order (chain_row_less x) (of_day day' rows)"
    unfolding sorting.in_order_def [OF st]
    by (rule sorted_wrt_mono_rel [rotated]) (use sorting.asym [OF st] in \<open>auto simp: chain_row_less_def of_day_def\<close>)
  then have "of_day day' (chain_rows x day d) = of_day day' rows"
    unfolding chain_rows_def rows_def [symmetric] of_day_def by (rule sorting.stable_sort_keeps [OF st])
  then show "chain_from (sha256 x) (expected_prev Map.empty day') (of_day day' (chain_rows x day d))"
    using assms(3) rows by (simp add: day_chains_def expected_prev_def)
qed

section \<open>The listings\<close>

text \<open>Newest first, and then by identifier or path: both comparisons are orders, so that the listings are sorted.\<close>

interpretation trail: sorting audit_before
  by unfold_locales (auto simp: audit_before_def split: if_splits)

interpretation acts: sorting activity_before
  by unfold_locales (auto simp: activity_before_def split: if_splits)

text \<open>\<open>paginate\<close> keeps the contract of a paged listing.\<close>

definition strict_page :: "'a list \<Rightarrow> i32 \<Rightarrow> string \<Rightarrow> 'a list \<times> string" where
  "strict_page items psize token = (case paginate items token psize of None \<Rightarrow> ([], []) | Some p \<Rightarrow> p)"

interpretation strict_pages: paged_listing "strict_page items psize" items "page_size 100 psize" for items psize
proof -
  have start: "(if token_of start = [] then Some 0 else atoi (token_of start)) = Some (int start)" if "int start \<le> i64_max" for start
    using that by (simp add: token_of_def)
  have at: "strict_page items psize (token_of start) =
      (take (page_size 100 psize) (drop start items),
       if start + page_size 100 psize < length items then itoa_nat (start + page_size 100 psize) else [])"
    if "int (length items) \<le> i64_max" "start \<le> length items" for start
    using that start [of start] by (simp add: strict_page_def paginate_def page_slice_at)
  have "0 < page_size 100 psize" by (simp add: page_size_def)
  then show "paged_listing (strict_page items psize) items (page_size 100 psize)"
    by unfold_locales (simp_all add: at token_of_add split: if_splits)
qed

text \<open>Following the page tokens of the event listing gives the events of all stores, each once, newest first.\<close>

lemma audit_events_listed:
  fixes fetch
  defines "fetch x e ctx r s \<equiv> \<lambda>token. (let resp = fst (ListAuditEvents x e ctx (Some (r\<lparr>AudList_PageToken := token\<rparr>)) s)
                                         in (AudListItems resp, AudListNext resp))"
  assumes "aud_db s = None" "authorize_backoffice ctx (AudList_Meta r) = None"
    and "0 \<le> sint (AudList_PageSize r)" "sint (AudList_PageSize r) \<le> maxAuditPageSize"
    and "items = stable_sort audit_before (stored_events (AudList_ObjectTypeFilter r) (aud_stores s))" "int (length items) \<le> i64_max"
  shows "walk (Suc (length items)) (fetch x e ctx r s) [] = Some items"
    and "mset items = mset (stored_events (AudList_ObjectTypeFilter r) (aud_stores s))" "trail.in_order items"
proof -
  have "fetch x e ctx r s = (\<lambda>token. strict_page items (AudList_PageSize r) token)"
  proof
    fix token
    have "\<not> validatePageToken token \<Longrightarrow> paginate items token (AudList_PageSize r) = None"
      by (auto simp: validatePageToken_def paginate_def split: option.splits)
    then show "fetch x e ctx r s token = strict_page items (AudList_PageSize r) token"
      using assms(2-6)
      by (auto simp: fetch_def ListAuditEvents_def audit_list_invalid_def audit_paginated_def strict_page_def audit_list_refusal_def
          audit_list_ok_def Let_def split: option.splits)
  qed
  then show "walk (Suc (length items)) (fetch x e ctx r s) [] = Some items"
    using strict_pages.walk_complete [of items "AudList_PageSize r"] assms(7) by simp
  show "mset items = mset (stored_events (AudList_ObjectTypeFilter r) (aud_stores s))" "trail.in_order items"
    unfolding assms(6) by (rule trail.stable_sort_mset, rule trail.stable_sort_in_order)
qed

section \<open>Properties\<close>

definition verify_admitted :: "auth_actor option \<Rightarrow> verify_request \<Rightarrow> bool" where
  "verify_admitted ctx r \<longleftrightarrow> authorize_backoffice ctx (Verify_Meta r) = None \<and>
     (Verify_PartitionDay r = [] \<or> date_ok (Verify_PartitionDay r))"

text \<open>
  C7. The chain in the database verifies. Let events be appended, one after the other, to an empty table of a database whose
  statements succeed, with identifiers that are all different, and, within a day, in the order of their recording times and
  identifiers; let the database give back the recording times and snapshots that were hashed. Then every event is in the table,
  and a verification of any day, or of all days, answers that the chain is valid.
\<close>

theorem audit_chain_in_database_verifies:
  assumes "text_order x" "\<forall>s. length (sha256 x s) = 32" "db_faults dstart = []" "db_audit_events dstart = []"
    and "\<forall>v \<in> set vs. stored_as_hashed x v" "in_db_order x vs" "length es = length vs"
    and "aud_db s = Some (append_events x (zip es vs) dstart)" "verify_admitted ctx r"
  shows "length (db_audit_events (append_events x (zip es vs) dstart)) = length vs \<and>
    fst (VerifyAuditChain x e ctx (Some r) s) = \<lparr>VerifyMeta = responseMeta e (Verify_Meta r) RESULT_CODE_OK [], Valid = True\<rparr>"
proof -
  let ?d = "append_events x (zip es vs) dstart"
  have "day_chains x (db_audit_events dstart)" using assms(4) by (simp add: day_chains_def)
  then have d: "db_faults ?d = []" "day_chains x (db_audit_events ?d)" "length (db_audit_events ?d) = length vs"
    using append_events_chains [of dstart x vs "zip es vs" es] assms(3-7) by simp_all
  have "sha256 x t \<noteq> []" for t using assms(2) by (metis length_0_conv zero_neq_numeral)
  then have "verify_rows (sha256 x) Map.empty (chain_rows x day ?d)" for day
    using day_chains_verify [OF assms(1) _ d(2)] by blast
  then have "verifyAuditChainFromDB x day ?d = (True, ?d)" for day
    using d(1) by (simp add: verifyAuditChainFromDB_def sql_query_def sql_exec_def)
  then show ?thesis
    using d(3) assms(8,9) by (auto simp: VerifyAuditChain_def verify_admitted_def Let_def)
qed

definition demo_digest :: "string \<Rightarrow> string" where
  "demo_digest s = take 32 (s @ replicate 32 (CHR ''0''))"

definition demo_trail_event :: "string \<Rightarrow> event" where
  "demo_trail_event i = (audit_event (demo_env\<lparr>env_now := 1000\<rparr>) i (demo_meta ''k'') ''equipment'' ''egm-1'' ''upsert_equipment''
     json_empty json_empty ResultSuccess [])"

definition empty_access_db :: access_db where
  "empty_access_db = \<lparr>db_faults = [], db_int_text = True, db_audit_events = [], remote_access_rows = []\<rparr>"

lemma demo_text_order: "text_order (demo_ext\<lparr>sha256 := h\<rparr>)"
  by (auto simp: text_order_def demo_ext_def)

lemma demo_trail_stored: "stored_as_hashed (demo_ext\<lparr>sha256 := h\<rparr>) (demo_trail_event i)"
proof -
  have "fmt_date 1000 \<noteq> []" by (simp add: fmt_date_def split_beta)
  then show ?thesis
    by (simp add: stored_as_hashed_def demo_trail_event_def audit_event_def demo_ext_def normalizeAuditJSON_def json_empty_def zero_time_def)
qed

theorem audit_chain_in_database_verifies_witness:
  "Valid (fst (VerifyAuditChain (demo_ext\<lparr>sha256 := demo_digest\<rparr>) demo_env None (Some \<lparr>Verify_Meta = demo_meta ''k'', Verify_PartitionDay = []\<rparr>)
     (audit_SetDB (Some (append_events (demo_ext\<lparr>sha256 := demo_digest\<rparr>)
        [(demo_env, demo_trail_event ''a-1''), (demo_env, demo_trail_event ''a-2'')] empty_access_db)) (NewAuditService None []))))"
proof -
  let ?x = "demo_ext\<lparr>sha256 := demo_digest\<rparr>" and ?vs = "[demo_trail_event ''a-1'', demo_trail_event ''a-2'']"
  let ?r = "\<lparr>Verify_Meta = demo_meta ''k'', Verify_PartitionDay = []\<rparr>"
  have "in_db_order ?x ?vs"
    by (simp add: in_db_order_def demo_trail_event_def audit_event_def audit_row_less_def demo_ext_def)
  moreover have "\<forall>s. length (sha256 ?x s) = 32" by (auto simp: demo_digest_def min_def)
  moreover have "verify_admitted None ?r"
    by (simp add: verify_admitted_def authorize_backoffice_def resolveActor_def demo_meta_def operator_or_service_def)
  ultimately show ?thesis
    using audit_chain_in_database_verifies [where x = ?x and vs = ?vs and es = "[demo_env, demo_env]" and dstart = empty_access_db and ctx = None
        and r = ?r and e = demo_env] demo_text_order demo_trail_stored
    by (simp add: audit_SetDB_def NewAuditService_def empty_access_db_def)
qed

text \<open>
  C17. A database that rewrites a snapshot breaks the chain. PostgreSQL gives a \<^verbatim>\<open>jsonb\<close> value back in its own spelling, with a
  blank behind every colon and comma, while the hash covers the text before it was stored. When the first event of a database has
  a snapshot that is valid JSON and is given back differently, the verification of a log that nobody touched fails, unless the
  two texts share a digest. The requirement RGS-0718 and the integration tests \<^verbatim>\<open>TestPostgresAuditChainVerificationPassesForPersistedEvents\<close>
  and \<^verbatim>\<open>TestPostgresAuditServiceVerifyAuditChain\<close>, which are skipped unless a test database is configured, expect it to pass.
\<close>

theorem normalised_snapshot_fails:
  assumes "db_faults dstart = []" "db_audit_events dstart = []"
    and "ev_RecordedAt v \<noteq> zero_time" "ev_OccurredAt v \<noteq> zero_time" "ev_PartitionDay v \<noteq> []"
    and "pg_timestamptz x (ev_RecordedAt v) = ev_RecordedAt v" "pg_jsonb x (normalizeAuditJSON x (ev_Before v)) = ev_Before v"
    and "ev_After v \<noteq> []" "json_valid x (ev_After v)" "pg_jsonb x (ev_After v) \<noteq> ev_After v"
    and "inj_on (sha256 x) {hash_input genesis v, hash_input genesis (v\<lparr>ev_After := pg_jsonb x (ev_After v)\<rparr>)}"
    and "aud_db s = Some (snd (appendAuditEventToDB x e' v dstart))" "verify_admitted ctx r" "Verify_PartitionDay r = []"
  shows "fst (appendAuditEventToDB x e' v dstart) \<and>
    fst (VerifyAuditChain x e ctx (Some r) s) = verify_refusal e (Verify_Meta r) RESULT_CODE_ERROR ''audit chain verification failed''"
proof -
  define sv where "sv = v\<lparr>ev_HashPrev := genesis, ev_HashCurr := ComputeHash (sha256 x) genesis v\<rparr>"
  let ?d = "dstart\<lparr>db_audit_events := [audit_row x sv]\<rparr>"
  have app: "appendAuditEventToDB x e' v dstart = (True, ?d)"
    using sql_tx_live [where q = "audit_insert x v" and d = dstart and d' = ?d] assms(1-5)
    by (simp add: appendAuditEventToDB_def Let_def audit_insert_def audit_select_last_def sv_def)
  let ?w = "v\<lparr>ev_After := pg_jsonb x (ev_After v)\<rparr>"
  have row: "hash_input genesis (audit_row x sv) = hash_input genesis ?w"
    using assms(6-9) by (simp add: hash_input_def audit_row_def sv_def normalizeAuditJSON_def)
  have "hash_input genesis ?w \<noteq> hash_input genesis v"
    using assms(10) hex_encode_inj by (auto simp: hash_input_def)
  then have "sha256 x (hash_input genesis ?w) \<noteq> sha256 x (hash_input genesis v)"
    using assms(11) by (auto simp: inj_on_def)
  then have "ComputeHash (sha256 x) genesis (audit_row x sv) \<noteq> ev_HashCurr (audit_row x sv)"
    using row by (simp add: ComputeHash_def hex_encode_inj) (simp add: audit_row_def sv_def ComputeHash_def hex_encode_inj)
  then have "\<not> verify_rows (sha256 x) Map.empty (chain_rows x [] ?d)"
    by (simp add: chain_rows_def stable_sort_def Let_def expected_prev_def)
  then have "verifyAuditChainFromDB x [] ?d = (False, ?d)"
    using assms(1) by (simp add: verifyAuditChainFromDB_def sql_query_def sql_exec_def)
  then show ?thesis
    using app assms(12-14) by (simp add: VerifyAuditChain_def verify_admitted_def Let_def)
qed

definition demo_spaced :: "string \<Rightarrow> string" where
  "demo_spaced t = concat (map (\<lambda>c. if c = CHR '':'' then '': '' else [c]) t)"

theorem normalised_snapshot_fails_witness:
  "\<not> Valid (fst (VerifyAuditChain (demo_ext\<lparr>pg_jsonb := demo_spaced\<rparr>) demo_env None (Some \<lparr>Verify_Meta = demo_meta ''k'', Verify_PartitionDay = []\<rparr>)
     (audit_SetDB (Some (snd (appendAuditEventToDB (demo_ext\<lparr>pg_jsonb := demo_spaced\<rparr>) demo_env
        ((demo_trail_event ''a-1'')\<lparr>ev_After := ''{\"amount\":500}''\<rparr>) empty_access_db))) (NewAuditService None []))))"
proof -
  let ?x = "demo_ext\<lparr>pg_jsonb := demo_spaced\<rparr>" and ?v = "(demo_trail_event ''a-1'')\<lparr>ev_After := ''{\"amount\":500}''\<rparr>"
  let ?r = "\<lparr>Verify_Meta = demo_meta ''k'', Verify_PartitionDay = []\<rparr>"
  have v: "ev_RecordedAt ?v \<noteq> zero_time" "ev_OccurredAt ?v \<noteq> zero_time" "ev_PartitionDay ?v \<noteq> []"
    using demo_trail_stored [of id "''a-1''"] by (simp_all add: stored_as_hashed_def)
  have json: "pg_jsonb ?x (normalizeAuditJSON ?x (ev_Before ?v)) = ev_Before ?v" "pg_jsonb ?x (ev_After ?v) \<noteq> ev_After ?v"
    by (simp_all add: demo_trail_event_def audit_event_def normalizeAuditJSON_def json_empty_def demo_spaced_def demo_ext_def)
  have "verify_admitted None ?r"
    by (simp add: verify_admitted_def authorize_backoffice_def resolveActor_def demo_meta_def operator_or_service_def)
  then show ?thesis
    using normalised_snapshot_fails [where x = ?x and v = ?v and dstart = empty_access_db and ctx = None and r = ?r and e = demo_env and e' = demo_env
        and s = "audit_SetDB (Some (snd (appendAuditEventToDB ?x demo_env ?v empty_access_db))) (NewAuditService None [])"] v json
    by (simp add: audit_SetDB_def NewAuditService_def empty_access_db_def demo_ext_def verify_refusal_def inj_on_def)
qed

text \<open>An event whose identifier is taken is accepted and not stored.\<close>

lemma append_taken:
  assumes "db_faults d = []" "\<exists>r \<in> set (db_audit_events d). ev_AuditID r = ev_AuditID v"
  shows "appendAuditEventToDB x e v d = (True, d)"
proof -
  obtain v3 where v3: "appendAuditEventToDB x e v d = sql_tx [Some, audit_insert x v3] d" "ev_AuditID v3 = ev_AuditID v"
    unfolding appendAuditEventToDB_def Let_def by fastforce
  have "audit_insert x v3 d = Some d" using assms(2) v3(2) by (auto simp: audit_insert_def Let_def)
  then show ?thesis
    using sql_tx_live [where q = "audit_insert x v3" and d = d and d' = d] v3(1) assms(1) by simp
qed

text \<open>
  C21. Audit identifiers are counted from 1 in every process. After a restart over a database that holds the first audit event of an
  earlier run of the registry, the first registration is accepted and changes the registry, and no audit event of it is
  recorded in the database.
\<close>

theorem restart_loses_audit_event:
  assumes "db_faults d = []" "\<exists>v \<in> set (db_audit_events d). ev_AuditID v = ''registry-audit-1''"
    and "Upsert_Equipment r = Some q" "EquipmentId q \<noteq> []" "authorize_backoffice ctx (Upsert_Meta r) = None"
    and "existing = map_option row_to_equipment (find (\<lambda>w. er_equipment_id w = EquipmentId q) (equipment_registry d))"
    and "equipment_row_of x e (stamped_equipment e existing q) = Some row"
    and "UpsertEquipment x e ctx (Some r) (NewRegistryService (Some d)) = (resp, s')"
  shows "resp = equipment_ok e (Upsert_Meta r) (stamped_equipment e existing q) \<and>
    (\<exists>d'. svc_db s' = Some d' \<and> db_audit_events d' = db_audit_events d \<and>
       equipment_registry d' = upsert_with er_equipment_id (merge_equipment e) row (equipment_registry d))"
proof -
  let ?s = "NewRegistryService (Some d)"
  have ask: "getEquipmentFromDB (EquipmentId q) ?s = (Some existing, ?s)"
    using assms(1,6) by (simp add: getEquipmentFromDB_def svc_query_def sql_query_def sql_exec_def NewRegistryService_def)
  have one: "itoa_nat 1 = ''1''" by code_simp
  have audit: "\<exists>st n. registry_appendAudit x e meta oid act b a res why ?s = (True, ?s\<lparr>svc_AuditStore := st, svc_nextAuditID := n\<rparr>)"
    for meta oid act b a res why
  proof -
    define v where "v = audit_event e (''registry-audit-'' @ itoa_nat 1) meta ''equipment'' oid act b a res why"
    have "ev_AuditID v = ''registry-audit-1''" unfolding v_def one by (simp add: audit_event_def)
    then have db: "appendAuditEventToDB x e v d = (True, d)" using assms(1,2) by (intro append_taken) auto
    have st: "store_ok (sha256 x) NewInMemoryStore" by simp
    show ?thesis
      using db by (simp add: registry_appendAudit_def svc_append_def audit_put_def NewRegistryService_def v_def Append_ok [OF st] Let_def)
  qed
  then obtain st n where a: "registry_appendAudit x e (Upsert_Meta r) (EquipmentId q) ''upsert_equipment'' (equipmentSnapshot existing)
      (equipmentSnapshot (Some (stamped_equipment e existing q))) ResultSuccess (Upsert_Reason r) ?s =
      (True, ?s\<lparr>svc_AuditStore := st, svc_nextAuditID := n\<rparr>)" by blast
  let ?d = "d\<lparr>equipment_registry := upsert_with er_equipment_id (merge_equipment e) row (equipment_registry d)\<rparr>"
  have up: "upsertEquipmentInDB x e (stamped_equipment e existing q) (?s\<lparr>svc_AuditStore := st, svc_nextAuditID := n\<rparr>) =
      (True, ?s\<lparr>svc_AuditStore := st, svc_nextAuditID := n, svc_db := Some ?d\<rparr>)"
    using assms(1,7) by (simp add: upsertEquipmentInDB_def svc_exec_def NewRegistryService_def sql_tx_def sql_tx_commit_def sql_exec_def)
  have "svc_db ?s \<noteq> None" by (simp add: NewRegistryService_def)
  then show ?thesis
    using assms(8) ask a up assms(3-5) by (auto simp: UpsertEquipment_def Let_def)
qed

definition demo_used_db :: floor_db where
  "demo_used_db = \<lparr>db_faults = [], db_int_text = True, db_audit_events = [demo_trail_event ''registry-audit-1''], equipment_registry = [],
     significant_events = [], meter_records = [], ingestion_buffers = []\<rparr>"

definition demo_egm :: equipment_record where
  "demo_egm = \<lparr>EquipmentId = ''egm-7'', ExternalReference = [], Location = [], EquipStatus = EQUIPMENT_STATUS_ACTIVE,
     TheoreticalRtpBps = [], ControlProgramVersion = [], ConfigVersion = [], EquipCreatedAt = [], UpdatedAt = [], Attributes = []\<rparr>"

theorem restart_loses_audit_event_witness:
  "\<exists>resp s' d'. UpsertEquipment demo_ext demo_env None
       (Some \<lparr>Upsert_Meta = demo_meta ''k'', Upsert_Equipment = Some demo_egm, Upsert_Reason = []\<rparr>)
       (NewRegistryService (Some demo_used_db)) = (resp, s') \<and>
     ResultCode (EqMeta resp) = RESULT_CODE_OK \<and> svc_db s' = Some d' \<and> equipment_registry d' \<noteq> [] \<and> length (db_audit_events d') = 1"
proof -
  let ?r = "\<lparr>Upsert_Meta = demo_meta ''k'', Upsert_Equipment = Some demo_egm, Upsert_Reason = []\<rparr>"
  obtain resp s' where u: "UpsertEquipment demo_ext demo_env None (Some ?r) (NewRegistryService (Some demo_used_db)) = (resp, s')" by fastforce
  have auth: "authorize_backoffice None (demo_meta ''k'') = None"
    by (simp add: authorize_backoffice_def resolveActor_def demo_meta_def operator_or_service_def)
  have used: "db_faults demo_used_db = []" "equipment_registry demo_used_db = []"
    "\<exists>v \<in> set (db_audit_events demo_used_db). ev_AuditID v = ''registry-audit-1''" "length (db_audit_events demo_used_db) = 1"
    by (simp_all add: demo_used_db_def demo_trail_event_def audit_event_def)
  have egm: "EquipmentId demo_egm = ''egm-7''" by (simp add: demo_egm_def)
  have "fst (civil 0) = 1970" by code_simp
  then have epoch: "parse_rfc3339nano (fmt_rfc3339nano 0) = Some 0" by (intro parse_fmt) simp_all
  have blank: "trim_space (fmt_rfc3339nano 0) \<noteq> []" "parseOptionalRTP [] = None" by code_simp+
  obtain row where row: "equipment_row_of demo_ext demo_env (stamped_equipment demo_env None demo_egm) = Some row"
    using epoch blank
    by (simp add: equipment_row_of_def stamped_equipment_def demo_egm_def demo_ext_def demo_env_def nonEmptyTimestamp_def Let_def)
  have "upsert_with er_equipment_id (merge_equipment demo_env) row [] \<noteq> []" by (simp add: upsert_with_def)
  then show ?thesis
    using restart_loses_audit_event [where r = ?r and q = demo_egm and existing = None and row = row and x = demo_ext and e = demo_env
        and d = demo_used_db and ctx = None, OF used(1,3) _ _ _ _ row u] auth used(2,4) egm u
    by (auto simp: equipment_ok_def responseMeta_def)
qed

end
