(* ===== verification/RemoteAccessProps.thy ===== *)
theory RemoteAccessProps
  imports RemoteAccess
begin

text \<open>
  What the guard ensures: an administrative request is served only when the source it claims is in a trusted network, and a guard that fails
  closed answers nothing it could not log and audit. The log in memory is the beginning of the list of all attempts, as far
  as its capacity goes. The source is what the client says it is when it sends the forwarding header.
\<close>

section \<open>What one step does\<close>

text \<open>An audit event that is accepted is the last one of the trail.\<close>

lemma svc_append_grows:
  assumes "svc_append x e mk s = (True, s')"
  shows "\<exists>ev. same_event (mk (Suc (svc_nextAuditID s))) ev \<and> svc_trail s' = svc_trail s @ [ev]"
proof -
  obtain st where st: "svc_AuditStore s = Some st"
    using assms by (auto simp: svc_append_def audit_put_def split: option.splits)
  define ev where "ev = mk (Suc (svc_nextAuditID s))"
  obtain r st' where app: "Append (sha256 x) ev st = (r, st')" by fastforce
  have "r \<noteq> None" "svc_AuditStore s' = Some st'"
    using assms st app by (auto simp: svc_append_def audit_put_def Let_def ev_def split: prod.splits if_splits option.splits)
  with app have "\<exists>ev'. same_event ev ev' \<and> st_events st' = st_events st @ [ev']"
    by (auto simp: Append_def Let_def same_event_def split: if_splits)
  with st \<open>svc_AuditStore s' = Some st'\<close> show ?thesis
    by (auto simp: svc_trail_def Events_def ev_def)
qed

text \<open>Neither the trusted networks nor the switches change.\<close>

definition guard_policy :: "remote_access_guard \<Rightarrow> ipnet list \<times> bool \<times> bool \<times> nat" where
  "guard_policy g = (trusted g, guard_disableInMemoryCache g, failClosedLogPersist g, inMemoryLogCap g)"

lemma observers_frame [simp]:
  "guard_policy (log_state_observed g) = guard_policy g" "guard_policy (decided o' g) = guard_policy g"
  "logs (log_state_observed g) = logs g" "logs (decided o' g) = logs g"
  "svc_trail (log_state_observed g) = svc_trail g" "svc_trail (decided o' g) = svc_trail g"
  "svc_db (log_state_observed g) = svc_db g" "svc_db (decided o' g) = svc_db g"
  "mem_idle x (log_state_observed g) = mem_idle x g" "mem_idle x (decided o' g) = mem_idle x g"
  by (simp_all add: log_state_observed_def decided_def guard_policy_def svc_trail_def mem_idle_def svc_ok_def)

lemma guard_append_frame:
  assumes "guard_appendAudit x e path ip res why g = (ok, g')"
  shows "guard_policy g' = guard_policy g" "logs g' = logs g"
    "map_option remote_access_rows (svc_db g') = map_option remote_access_rows (svc_db g)"
proof -
  obtain st n db where g': "g' = g\<lparr>svc_AuditStore := st, svc_nextAuditID := n, svc_db := db\<rparr>"
    using svc_append_frame [of x e "\<lambda>n. guard_event e n path ip res why" g] assms
    by (metis guard_appendAudit_def snd_conv)
  then show "guard_policy g' = guard_policy g" "logs g' = logs g" by (simp_all add: guard_policy_def)
  have "map_option remote_access_rows (svc_db (snd (svc_append x e mk g))) = map_option remote_access_rows (svc_db g)" for mk
  proof (cases "svc_db g")
    case (Some d)
    have rows: "remote_access_rows (snd (appendAuditEventToDB x e ev d)) = remote_access_rows d" for ev
    proof -
      obtain ev3 where ev3: "appendAuditEventToDB x e ev d = sql_tx [Some, audit_insert x ev3] d"
        unfolding appendAuditEventToDB_def Let_def by blast
      have "remote_access_rows d2 = remote_access_rows d1" if "audit_insert x ev3 d1 = Some d2" for d1 d2
        using that by (auto simp: audit_insert_def Let_def split: if_splits)
      then show ?thesis
        unfolding ev3 sql_tx_def sql_tx_commit_def
        by (auto simp: Let_def sql_exec_def split: prod.splits list.splits option.splits if_splits)
    qed
    show ?thesis
      using Some rows
      by (auto simp: svc_append_def audit_put_def Let_def map_prod_def split_beta split: option.splits if_splits)
  qed (auto simp: svc_append_def audit_put_def Let_def split: option.splits if_splits prod.splits)
  from this [of "\<lambda>n. guard_event e n path ip res why"] assms
  show "map_option remote_access_rows (svc_db g') = map_option remote_access_rows (svc_db g)"
    by (simp add: guard_appendAudit_def)
qed

text \<open>An activity that was logged: in memory unless that is switched off, and in the database when there is one.\<close>

definition activity_logged :: "remote_access_activity \<Rightarrow> remote_access_guard \<Rightarrow> remote_access_guard \<Rightarrow> bool" where
  "activity_logged a g g' \<longleftrightarrow>
     (\<not> guard_disableInMemoryCache g \<longrightarrow> logs g' = logs g @ [a]) \<and>
     (\<forall>d. svc_db g = Some d \<longrightarrow> (\<exists>d' row. svc_db g' = Some d' \<and> remote_access_rows d' = remote_access_rows d @ [row] \<and>
        ar_source_ip row = SourceIP a \<and> ar_path row = Path a \<and> ar_method row = Method a \<and> ar_allowed row = Allowed a \<and>
        ar_reason row = ActReason a))"

lemma logActivity_logs:
  assumes "logActivity x e r ip port ok why g = (True, g')"
  shows "activity_logged (new_activity e r ip port ok why) g g'"
proof -
  define a where "a = new_activity e r ip port ok why"
  have p: "persistActivity x a (log_state_observed (if guard_disableInMemoryCache g then g else g\<lparr>logs := logs g @ [a]\<rparr>)) = (True, g')"
    using assms by (simp add: logActivity_def a_def Let_def split: if_splits)
  have "logs g' = logs (if guard_disableInMemoryCache g then g else g\<lparr>logs := logs g @ [a]\<rparr>)"
    using p by (auto simp: persistActivity_def svc_exec_def split: option.splits prod.splits)
  moreover have "\<exists>d' row. svc_db g' = Some d' \<and> remote_access_rows d' = remote_access_rows d @ [row] \<and> activity_row_of x a = Some row"
    if "svc_db g = Some d" for d
    using p that
    by (auto simp: persistActivity_def svc_exec_def sql_stmt_def sql_exec_def Let_def split: option.splits prod.splits if_splits list.splits)
  ultimately show ?thesis
    by (fastforce simp: activity_logged_def a_def [symmetric] activity_row_of_def)
qed

lemma logActivity_frame:
  assumes "logActivity x e r ip port ok why g = (res, g')"
  shows "guard_policy g' = guard_policy g" "svc_trail g' = svc_trail g" "svc_nextAuditID g' = svc_nextAuditID g"
  using assms
  by (auto simp: logActivity_def persistActivity_def svc_exec_def Let_def log_state_observed_def guard_policy_def svc_trail_def
      split: option.splits prod.splits if_splits)

text \<open>The attempt is in the log and is the last event of the audit trail.\<close>

definition attempt_recorded ::
    "env \<Rightarrow> http_request \<Rightarrow> bool \<Rightarrow> remote_access_guard \<Rightarrow> remote_access_guard \<Rightarrow> bool" where
  "attempt_recorded e r allowed g g' \<longleftrightarrow>
     activity_logged (new_activity e r (fst (extractSourceIP r)) (snd (extractSourceIP r)) allowed
       (if allowed then [] else untrusted_reason)) g g' \<and>
     (\<exists>ev. svc_trail g' = svc_trail g @ [ev] \<and> ev_ActorID ev = fst (extractSourceIP r) \<and> ev_ObjectID ev = URLPath r \<and>
        ev_Action ev = (if allowed then ''allowed'' else ''denied'') \<and>
        ev_Result ev = (if allowed then ResultSuccess else ResultDenied))"

abbreviation logging_unavailable :: http_result where
  "logging_unavailable \<equiv> HttpError 503 ''remote access logging unavailable''"

lemma guard_append_recorded:
  assumes "guard_appendAudit x e path ip res why g = (True, g')"
  shows "\<exists>ev. svc_trail g' = svc_trail g @ [ev] \<and> ev_ActorID ev = ip \<and> ev_ObjectID ev = path \<and> ev_Action ev = res \<and>
     ev_Result ev = (if res = ''allowed'' then ResultSuccess else ResultDenied)"
proof -
  obtain ev where ev: "same_event (guard_event e (Suc (svc_nextAuditID g)) path ip res why) ev" "svc_trail g' = svc_trail g @ [ev]"
    using svc_append_grows [OF assms [unfolded guard_appendAudit_def]] by blast
  then obtain p c where "ev = (guard_event e (Suc (svc_nextAuditID g)) path ip res why)\<lparr>ev_HashPrev := p, ev_HashCurr := c\<rparr>"
    unfolding same_event_def by blast
  with ev(2) show ?thesis by (intro exI [of _ ev]) (simp add: guard_event_def)
qed

lemma activity_logged_later:
  assumes "activity_logged a g g1" "logs g2 = logs g1"
    "map_option remote_access_rows (svc_db g2) = map_option remote_access_rows (svc_db g1)"
  shows "activity_logged a g g2"
  using assms unfolding activity_logged_def by (cases "svc_db g2") fastforce+

text \<open>The two branches: what a fail-closed guard answers once it could log.\<close>

lemma fail_closed_step:
  assumes "checked_log (ok, g) = (None, g')" "failClosedLogPersist g"
  shows "ok \<and> g' = g"
  using assms by (cases ok) (simp_all add: checked_log_def)

lemma policy_fields:
  assumes "guard_policy g' = guard_policy g"
  shows "failClosedLogPersist g' = failClosedLogPersist g" "trusted g' = trusted g"
    "guard_disableInMemoryCache g' = guard_disableInMemoryCache g" "inMemoryLogCap g' = inMemoryLogCap g"
  using assms by (simp_all add: guard_policy_def)

lemma checked_log_answers: "fst (checked_log p) \<in> {None, Some logging_unavailable}"
  by (simp add: checked_log_def split: prod.splits)

lemma logged_then_audited:
  assumes "checked_log (logActivity x e r ip port ok why g) = (None, g1)"
    and "checked_log (guard_appendAudit x e (URLPath r) ip res why (f g1)) = (None, g2)"
    and "failClosedLogPersist g" "f = id \<or> f = decided d" "extractSourceIP r = (ip, port)"
    and "res = (if ok then ''allowed'' else ''denied'')" "why = (if ok then [] else untrusted_reason)"
  shows "attempt_recorded e r ok g g2"
proof -
  obtain b gl where l: "logActivity x e r ip port ok why g = (b, gl)" by fastforce
  have "failClosedLogPersist gl" using policy_fields(1) [OF logActivity_frame(1) [OF l]] assms(3) by simp
  then have l1: "b" "gl = g1" using fail_closed_step assms(1) l by auto
  obtain c ga where a: "guard_appendAudit x e (URLPath r) ip res why (f g1) = (c, ga)" by fastforce
  have f: "guard_policy (f g1) = guard_policy g1" "logs (f g1) = logs g1" "svc_db (f g1) = svc_db g1" "svc_trail (f g1) = svc_trail g1"
    using assms(4) by auto
  have "failClosedLogPersist ga"
    using policy_fields(1) [OF guard_append_frame(1) [OF a]] policy_fields(1) [OF f(1)] \<open>failClosedLogPersist gl\<close> l1 by simp
  then have a1: "c" "ga = g2" using fail_closed_step assms(2) a by auto
  have "activity_logged (new_activity e r ip port ok why) g g2"
    using l l1 a a1 f guard_append_frame [OF a] by (intro activity_logged_later [OF logActivity_logs]) auto
  moreover have "svc_trail g1 = svc_trail g" using logActivity_frame(2) [OF l] l1 by simp
  ultimately show ?thesis
    using guard_append_recorded [of x e "URLPath r" ip res why "f g1" g2] a a1 f assms(5-7)
    by (auto simp: attempt_recorded_def)
qed

lemma admit_fail_closed:
  assumes "failClosedLogPersist g" "extractSourceIP r = (ip, port)" "admit_remote x e r ip port g = (resp, g')"
  shows "resp = logging_unavailable \<or> (resp = NextServed \<and> attempt_recorded e r True g g')"
proof -
  obtain v1 g1 where l: "checked_log (logActivity x e r ip port True [] g) = (v1, g1)" by fastforce
  obtain v2 g2 where a: "checked_log (guard_appendAudit x e (URLPath r) ip ''allowed'' [] g1) = (v2, g2)" by fastforce
  have v: "v1 \<in> {None, Some logging_unavailable}" "v2 \<in> {None, Some logging_unavailable}"
    using checked_log_answers l a by (metis fst_conv)+
  have "attempt_recorded e r True g g2" if "v1 = None" "v2 = None"
    using logged_then_audited [of x e r ip port True "[]" g g1 "''allowed''" id] l a that assms(1,2) by simp
  then show ?thesis
    using assms(3) l a v by (auto simp: admit_remote_def attempt_recorded_def activity_logged_def)
qed

lemma deny_fail_closed:
  assumes "failClosedLogPersist g" "extractSourceIP r = (ip, port)" "deny_remote x e r ip port g = (resp, g')"
  shows "resp = logging_unavailable \<or> (resp = HttpError 403 ''remote access denied'' \<and> attempt_recorded e r False g g')"
proof -
  obtain v1 g1 where l: "checked_log (logActivity x e r ip port False untrusted_reason g) = (v1, g1)" by fastforce
  obtain v2 g2 where a: "checked_log (guard_appendAudit x e (URLPath r) ip ''denied'' untrusted_reason (decided ''denied'' g1)) = (v2, g2)"
    by fastforce
  have v: "v1 \<in> {None, Some logging_unavailable}" "v2 \<in> {None, Some logging_unavailable}"
    using checked_log_answers l a by (metis fst_conv)+
  have "attempt_recorded e r False g g2" if "v1 = None" "v2 = None"
    using logged_then_audited [of x e r ip port False untrusted_reason g g1 "''denied''" "decided ''denied''" g2 "''denied''"]
      l a that assms(1,2) by simp
  then show ?thesis using assms(3) l a v by (auto simp: deny_remote_def)
qed

section \<open>The guard without a database\<close>

text \<open>The attempt of a request, as a log would hold it; other requests leave no entry.\<close>

definition attempt :: "remote_access_guard \<Rightarrow> env \<times> http_request \<Rightarrow> remote_access_activity list" where
  "attempt g i =
     (case i of (e, r) \<Rightarrow>
        if \<not> isAdminPath (URLPath r) then []
        else (case extractSourceIP r of (ip, port) \<Rightarrow>
                [new_activity e r ip port (isTrusted g ip) (if isTrusted g ip then [] else untrusted_reason)]))"

definition guard_react :: "ext \<Rightarrow> env \<times> http_request \<Rightarrow> remote_access_guard \<Rightarrow> remote_access_guard" where
  "guard_react x i g = snd (Wrap x (fst i) (snd i) g)"

definition capped :: "nat \<Rightarrow> 'a list \<Rightarrow> 'a list" where
  "capped n xs = (if n = 0 then xs else take n xs)"

lemma attempt_policy: "guard_policy g' = guard_policy g \<Longrightarrow> attempt g' = attempt g"
proof -
  assume "guard_policy g' = guard_policy g"
  then have "isTrusted g' = isTrusted g" by (intro ext) (simp add: isTrusted_def guard_policy_def split: option.split)
  then show ?thesis by (intro ext) (simp add: attempt_def split: prod.split)
qed

definition guard_mem :: "ext \<Rightarrow> remote_access_guard \<Rightarrow> bool" where
  "guard_mem x g \<longleftrightarrow> mem_idle x g \<and> \<not> guard_disableInMemoryCache g"

lemma logActivity_mem:
  assumes "guard_mem x g" "logActivity x e r ip port ok why g = (b, g')"
  shows "b \<longleftrightarrow> inMemoryLogCap g = 0 \<or> length (logs g) < inMemoryLogCap g"
    and "logs g' = logs g @ (if b then [new_activity e r ip port ok why] else [])"
    and "guard_mem x g'" and "guard_policy g' = guard_policy g"
  using assms
  by (auto simp: guard_mem_def mem_idle_def svc_ok_def logActivity_def persistActivity_def svc_exec_def log_state_observed_def
      guard_policy_def Let_def split: if_splits)

lemma guard_append_mem:
  assumes "guard_mem x g" "guard_appendAudit x e path ip res why g = (b, g')"
  shows "b" "guard_mem x g'" "logs g' = logs g" "guard_policy g' = guard_policy g"
proof -
  have idle: "mem_idle x g" using assms(1) by (simp add: guard_mem_def)
  obtain st n where "guard_appendAudit x e path ip res why g = (True, g\<lparr>svc_AuditStore := st, svc_nextAuditID := n\<rparr>)"
    "mem_idle x (g\<lparr>svc_AuditStore := st, svc_nextAuditID := n\<rparr>)"
    unfolding guard_appendAudit_def by (rule svc_append_mem [OF idle])
  then show "b" "guard_mem x g'" "logs g' = logs g" "guard_policy g' = guard_policy g"
    using assms by (auto simp: guard_mem_def guard_policy_def)
qed

lemma decided_mem [simp]: "guard_mem x (decided d g) = guard_mem x g"
  by (simp add: guard_mem_def decided_def mem_idle_def svc_ok_def)

lemma checked_log_frame:
  assumes "checked_log (b, g) = (v, g')"
  shows "logs g' = logs g" "guard_mem x g' = guard_mem x g" "guard_policy g' = guard_policy g"
    "v = None \<longleftrightarrow> b \<or> \<not> failClosedLogPersist g"
  using assms by (auto simp: checked_log_def split: if_splits)

text \<open>Both branches log the attempt when there is room and change nothing else of interest.\<close>

lemma remote_branch_mem:
  assumes "guard_mem x g" and f: "f = id \<or> f = decided d" and f': "f' = id \<or> f' = decided d'"
    and "(resp, g') = (case checked_log (logActivity x e r ip port ok why g) of
        (Some err, g1) \<Rightarrow> (err, g1)
      | (None, g1) \<Rightarrow> (case checked_log (guard_appendAudit x e (URLPath r) ip res why (f g1)) of
             (Some err, g2) \<Rightarrow> (err, g2) | (None, g2) \<Rightarrow> (good, f' g2)))"
    and "room = (inMemoryLogCap g = 0 \<or> length (logs g) < inMemoryLogCap g)"
  shows "logs g' = logs g @ (if room then [new_activity e r ip port ok why] else [])" "guard_mem x g'" "guard_policy g' = guard_policy g"
    "room \<or> \<not> failClosedLogPersist g \<Longrightarrow> resp = good"
proof -
  obtain b gl where l: "logActivity x e r ip port ok why g = (b, gl)" by fastforce
  note lm = logActivity_mem [OF assms(1) l]
  obtain v1 g1 where c1: "checked_log (b, gl) = (v1, g1)" by fastforce
  note m1 = checked_log_frame [OF c1]
  obtain c ga where a: "guard_appendAudit x e (URLPath r) ip res why (f g1) = (c, ga)" by fastforce
  have fg: "guard_mem x (f g1)" "logs (f g1) = logs g1" "guard_policy (f g1) = guard_policy g1" using f m1(2) lm(3) by auto
  note am = guard_append_mem [OF fg(1) a]
  obtain v2 g2 where c2: "checked_log (c, ga) = (v2, g2)" by fastforce
  note m2 = checked_log_frame [OF c2]
  have f2: "logs (f' g2) = logs g2" "guard_mem x (f' g2) = guard_mem x g2" "guard_policy (f' g2) = guard_policy g2" using f' by auto
  have fc: "failClosedLogPersist gl = failClosedLogPersist g" using policy_fields(1) [OF lm(4)] .
  have v2: "v2 = None" using m2(4) am(1) by simp
  show "logs g' = logs g @ (if room then [new_activity e r ip port ok why] else [])" "guard_mem x g'" "guard_policy g' = guard_policy g"
    using assms(4,5) l lm c1 m1 a am c2 m2 fg f2 v2 by (auto split: option.splits)
  show "resp = good" if "room \<or> \<not> failClosedLogPersist g"
    using that assms(4,5) l lm c1 m1 a c2 v2 fc by simp
qed

lemma Wrap_mem:
  assumes "guard_mem x g" "room = (inMemoryLogCap g = 0 \<or> length (logs g) < inMemoryLogCap g)"
  shows "logs (guard_react x i g) = logs g @ (if room then attempt g i else [])" "guard_mem x (guard_react x i g)"
    "guard_policy (guard_react x i g) = guard_policy g"
    "isAdminPath (URLPath (snd i)) \<Longrightarrow> isTrusted g (fst (extractSourceIP (snd i))) \<Longrightarrow> room \<or> \<not> failClosedLogPersist g \<Longrightarrow>
       fst (Wrap x (fst i) (snd i) g) = NextServed"
proof -
  obtain e r where i: "i = (e, r)" by fastforce
  obtain ip port where src: "extractSourceIP r = (ip, port)" by fastforce
  obtain resp g' where w: "Wrap x e r g = (resp, g')" by fastforce
  have *: "logs g' = logs g @ (if room then attempt g i else []) \<and> guard_mem x g' \<and> guard_policy g' = guard_policy g \<and>
      (isAdminPath (URLPath r) \<longrightarrow> isTrusted g ip \<longrightarrow> room \<or> \<not> failClosedLogPersist g \<longrightarrow> resp = NextServed)"
  proof (cases "isAdminPath (URLPath r)")
    case False
    with w assms i show ?thesis by (auto simp: Wrap_def attempt_def)
  next
    case True
    show ?thesis
    proof (cases "isTrusted g ip")
      case tr: True
      have "(resp, g') = admit_remote x e r ip port g" using w True tr src by (simp add: Wrap_def)
      from remote_branch_mem [where f = id and f' = "decided ''allowed''", unfolded id_apply, OF assms(1) disjI1 [OF refl] disjI2 [OF refl]
          this [unfolded admit_remote_def] assms(2)]
      show ?thesis using True tr src i by (auto simp: attempt_def)
    next
      case tr: False
      have "(resp, g') = deny_remote x e r ip port g" using w True tr src by (simp add: Wrap_def)
      from remote_branch_mem [where f = "decided ''denied''" and f' = id, unfolded id_apply, OF assms(1) disjI2 [OF refl] disjI1 [OF refl]
          this [unfolded deny_remote_def] assms(2)]
      show ?thesis using True tr src i by (auto simp: attempt_def)
    qed
  qed
  then show "logs (guard_react x i g) = logs g @ (if room then attempt g i else [])" "guard_mem x (guard_react x i g)"
    "guard_policy (guard_react x i g) = guard_policy g"
    "isAdminPath (URLPath (snd i)) \<Longrightarrow> isTrusted g (fst (extractSourceIP (snd i))) \<Longrightarrow> room \<or> \<not> failClosedLogPersist g \<Longrightarrow>
       fst (Wrap x (fst i) (snd i) g) = NextServed"
    using w i src by (simp_all add: guard_react_def)
qed

section \<open>Properties\<close>

text \<open>The address of the peer enters a decision only through the source that is read from the request.\<close>

lemma Wrap_peer:
  assumes "trim_space (ForwardedFor r) \<noteq> []"
  shows "Wrap x e (r\<lparr>RemoteAddr := peer\<rparr>) g = Wrap x e r g"
proof -
  have src: "extractSourceIP (r\<lparr>RemoteAddr := peer\<rparr>) = extractSourceIP r"
    using assms by (simp add: extractSourceIP_def)
  have new: "new_activity e (r\<lparr>RemoteAddr := peer\<rparr>) = new_activity e r" for e
    by (intro ext) (simp add: new_activity_def split: option.split)
  have path: "URLPath (r\<lparr>RemoteAddr := peer\<rparr>) = URLPath r" by simp
  show ?thesis unfolding Wrap_def src admit_remote_def deny_remote_def logActivity_def new path ..
qed

text \<open>The address a request is judged by: what it claims in the forwarding header, or else the host of its peer.\<close>

definition claimed_source :: "http_request \<Rightarrow> string" where
  "claimed_source r =
     (if trim_space (ForwardedFor r) \<noteq> [] then trim_space (hd (split_on (CHR '','') (trim_space (ForwardedFor r))))
      else case SplitHostPort (trim_space (RemoteAddr r)) of Some (host, _) \<Rightarrow> host | None \<Rightarrow> trim_space (RemoteAddr r))"

lemma claimed_source: "fst (extractSourceIP r) = claimed_source r"
  by (simp add: extractSourceIP_def claimed_source_def Let_def split: option.split)

text \<open>
  C8. A request to an administrative path is judged by the address it claims: the first entry of its \<^verbatim>\<open>X-Forwarded-For\<close> header when it sends
  one, whoever its peer is, and the host of its peer otherwise. It reaches the gateway only when that address lies in one of
  the trusted networks; with any other claim it is refused, with 403 or 503. A guard that fails closed answers 503 or has recorded
  the attempt, with its decision, in the log, in the database when there is one, and as the last event of the audit trail. With a
  forwarding header the peer has no influence on the answer: the guard keeps out clients outside the trusted networks only when
  a proxy in front of it sets the header.
\<close>

theorem remote_access_guarded:
  assumes "isAdminPath (URLPath r)" "Wrap x e r g = (resp, g')"
    and "in_trusted = (\<exists>addr. ParseIP (claimed_source r) = Some addr \<and> (\<exists>n \<in> set (trusted g). Contains n addr))"
  shows "(resp = NextServed \<longrightarrow> in_trusted) \<and>
    (\<not> in_trusted \<longrightarrow> resp = HttpError 403 ''remote access denied'' \<or> resp = logging_unavailable) \<and>
    (failClosedLogPersist g \<longrightarrow> resp = logging_unavailable \<or>
       (resp = (if in_trusted then NextServed else HttpError 403 ''remote access denied'') \<and> attempt_recorded e r in_trusted g g')) \<and>
    (trim_space (ForwardedFor r) \<noteq> [] \<longrightarrow> (\<forall>peer. Wrap x e (r\<lparr>RemoteAddr := peer\<rparr>) g = (resp, g')))"
proof -
  obtain ip port where src: "extractSourceIP r = (ip, port)" by fastforce
  have tr: "isTrusted g ip \<longleftrightarrow> in_trusted"
    using assms(3) src claimed_source [of r] by (auto simp: isTrusted_def list_ex_iff split: option.splits)
  have peer: "trim_space (ForwardedFor r) \<noteq> [] \<longrightarrow> (\<forall>peer. Wrap x e (r\<lparr>RemoteAddr := peer\<rparr>) g = (resp, g'))"
    using assms(2) by (simp add: Wrap_peer)
  have denied: "resp = HttpError 403 ''remote access denied'' \<or> resp = logging_unavailable" if "deny_remote x e r ip port g = (resp, g')"
    using that by (auto simp: deny_remote_def checked_log_def split: prod.splits if_splits)
  show ?thesis
  proof (cases in_trusted)
    case True
    with assms(1,2) src tr have w: "admit_remote x e r ip port g = (resp, g')" by (simp add: Wrap_def)
    show ?thesis using True admit_fail_closed [OF _ src w] peer by auto
  next
    case False
    with assms(1,2) src tr have w: "deny_remote x e r ip port g = (resp, g')" by (simp add: Wrap_def)
    show ?thesis using False denied [OF w] deny_fail_closed [OF _ src w] peer by auto
  qed
qed

text \<open>A guard that fails closed denies a request from a public address; the attempt is logged.\<close>

definition demo_guard :: remote_access_guard where
  "demo_guard = SetFailClosedOnLogPersistenceFailure True (the (NewRemoteAccessGuard None [''10.0.0.0/8'']))"

definition demo_remote :: "string \<Rightarrow> string \<Rightarrow> http_request" where
  "demo_remote xff addr = \<lparr>ForwardedFor = xff, RemoteAddr = addr, Host = ''rgs:8080'', URLPath = ''/v1/config/changes'', HttpMethod = ''GET''\<rparr>"

theorem remote_access_guarded_witness:
  "\<exists>g'. Wrap demo_ext demo_env (demo_remote [] ''10.1.2.3:4000'') demo_guard = (NextServed, g') \<and>
     attempt_recorded demo_env (demo_remote [] ''10.1.2.3:4000'') True demo_guard g'"
proof -
  let ?r = "demo_remote [] ''10.1.2.3:4000''"
  obtain nets where nets: "parse_trusted [''10.0.0.0/8''] = Some [nets]" "Contains nets [0, 0, 0, 0, 0, 0, 0, 0, 0, 0, 0xff, 0xff, 10, 1, 2, 3]"
    by (rule that [of "the (ParseCIDR ''10.0.0.0/8'')"]) code_simp+
  have admin: "isAdminPath (URLPath ?r)" by (simp add: demo_remote_def) code_simp
  have src: "extractSourceIP ?r = (''10.1.2.3'', ''4000'')" unfolding demo_remote_def by code_simp
  have ip: "ParseIP ''10.1.2.3'' = Some [0, 0, 0, 0, 0, 0, 0, 0, 0, 0, 0xff, 0xff, 10, 1, 2, 3]" by code_simp
  have g: "guard_mem demo_ext demo_guard" "inMemoryLogCap demo_guard = 0" "failClosedLogPersist demo_guard" "trusted demo_guard = [nets]"
    using nets(1) by (simp_all add: demo_guard_def SetFailClosedOnLogPersistenceFailure_def NewRemoteAccessGuard_def guard_mem_def mem_idle_def svc_ok_def)
  have tr: "isTrusted demo_guard ''10.1.2.3''" using g(4) ip nets(2) by (simp add: isTrusted_def)
  obtain resp g' where w: "Wrap demo_ext demo_env ?r demo_guard = (resp, g')" by fastforce
  have "resp = NextServed"
    using Wrap_mem(4) [OF g(1) refl, of "(demo_env, ?r)"] admin src tr g(2) w by simp
  moreover have "claimed_source ?r = ''10.1.2.3''" using claimed_source [of ?r] src by simp
  then have tr: "True = (\<exists>addr. ParseIP (claimed_source ?r) = Some addr \<and> (\<exists>n \<in> set (trusted demo_guard). Contains n addr))"
    using ip g(4) nets(2) by simp
  ultimately show ?thesis
    using remote_access_guarded [OF admin w tr] g(3) w by simp
qed

text \<open>
  C18. Without a database and with the memory switched on, the activity log is the list of all administrative attempts, cut
  off at the configured capacity (0 is no limit): the earliest attempts are kept, later ones are dropped. When the guard does
  not fail closed, a trusted request is still served when its attempt is dropped.
\<close>

interpretation wall: reactor "\<lambda>g. guard_mem x g \<and> guard_policy g = p" "guard_react x" "\<lambda>g. guard_mem x g \<and> guard_policy g = p" for x p
  by unfold_locales (auto simp: Wrap_mem)

lemma guard_logs:
  assumes "guard_mem x g" "logs g = capped (inMemoryLogCap g) done"
  shows "logs (fold (guard_react x) reqs g) = capped (inMemoryLogCap g) (done @ concat (map (attempt g) reqs))"
  using assms
proof (induction reqs arbitrary: g "done")
  case (Cons i reqs)
  let ?g = "guard_react x i g"
  define room where "room = (inMemoryLogCap g = 0 \<or> length (logs g) < inMemoryLogCap g)"
  note step = Wrap_mem [OF Cons.prems(1) room_def, of i]
  have cap: "inMemoryLogCap ?g = inMemoryLogCap g" using policy_fields(4) [OF step(3)] .
  have "length (attempt g i) \<le> 1" by (simp add: attempt_def split: prod.splits)
  then have "logs ?g = capped (inMemoryLogCap g) (done @ attempt g i)"
    using step(1) Cons.prems(2) by (auto simp: capped_def room_def min_def)
  then show ?case
    using Cons.IH [OF step(2), of "done @ attempt g i"] cap attempt_policy [OF step(3)] by simp
qed simp

theorem access_log_keeps_first:
  assumes "NewRemoteAccessGuard None cidrs = Some g0" "g = SetInMemoryActivityLogCap cap g0"
    and "s = fold (guard_react x) reqs g"
  shows "logs s = capped (nat cap) (concat (map (attempt g) reqs)) \<and>
    (isAdminPath (URLPath r) \<longrightarrow> isTrusted g (fst (extractSourceIP r)) \<longrightarrow> fst (Wrap x e r s) = NextServed)"
proof -
  have g: "guard_mem x g" "inMemoryLogCap g = nat cap" "logs g = []" "\<not> failClosedLogPersist g"
    using assms(1,2)
    by (auto simp: NewRemoteAccessGuard_def SetInMemoryActivityLogCap_def log_state_observed_def guard_mem_def mem_idle_def svc_ok_def)
  have "logs s = capped (nat cap) (concat (map (attempt g) reqs))"
    using guard_logs [OF g(1), of "[]" reqs] g(2,3) assms(3) by (simp add: capped_def)
  moreover have s: "guard_mem x s" "guard_policy s = guard_policy g"
    using wall.run_inv [of x g "guard_policy g" reqs] g(1) assms(3) by simp_all
  have "isTrusted s = isTrusted g"
    using policy_fields(2) [OF s(2)] by (intro ext) (simp add: isTrusted_def split: option.split)
  ultimately show ?thesis
    using Wrap_mem(4) [OF s(1) refl, of "(e, r)"] policy_fields(1) [OF s(2)] g(4) by simp
qed

theorem access_log_keeps_first_witness:
  "\<exists>g. NewRemoteAccessGuard None [] = Some g \<and>
     length (logs (fold (guard_react demo_ext) (replicate 3 (demo_env, demo_remote [] ''8.8.8.8:1'')) (SetInMemoryActivityLogCap 2 g))) = 2"
proof -
  have "parse_trusted [] = Some []" by simp
  then obtain g where g: "NewRemoteAccessGuard None [] = Some g" by (simp add: NewRemoteAccessGuard_def)
  have one: "length (attempt h (demo_env, demo_remote [] ''8.8.8.8:1'')) = 1" for h
    unfolding attempt_def demo_remote_def by (simp add: isAdminPath_def starts_with_def split_beta)
  have "length (logs (fold (guard_react demo_ext) (replicate 3 (demo_env, demo_remote [] ''8.8.8.8:1'')) (SetInMemoryActivityLogCap 2 g))) = 2"
    using access_log_keeps_first [OF g refl refl, where cap = 2 and x = demo_ext and reqs = "replicate 3 (demo_env, demo_remote [] ''8.8.8.8:1'')"] one
    by (simp add: capped_def numeral_3_eq_3)
  with g show ?thesis by blast
qed

text \<open>
  A request that carries a forwarding header is judged by the header alone: the address of its peer has no influence on the
  answer. A client at any address that sends a loopback address in the header reaches the administrative paths of a guard
  in its default configuration.
\<close>

theorem forwarded_header_decides:
  assumes "trim_space (ForwardedFor r) \<noteq> []"
  shows "Wrap x e (r\<lparr>RemoteAddr := peer\<rparr>) g = Wrap x e r g \<and>
    (isAdminPath (URLPath r) \<longrightarrow> ForwardedFor r = ''127.0.0.1'' \<longrightarrow> NewRemoteAccessGuard None [] = Some g \<longrightarrow>
       fst (Wrap x e r g) = NextServed)"
proof -
  have "Wrap x e (r\<lparr>RemoteAddr := peer\<rparr>) g = Wrap x e r g" using assms by (rule Wrap_peer)
  moreover have "fst (Wrap x e r g) = NextServed"
    if r: "isAdminPath (URLPath r)" "ForwardedFor r = ''127.0.0.1''" and g: "NewRemoteAccessGuard None [] = Some g"
  proof -
    have "extractSourceIP r = (trim_space (hd (split_on (CHR '','') (trim_space ''127.0.0.1''))), [])"
      using r(2) assms by (simp add: extractSourceIP_def)
    moreover have "trim_space (hd (split_on (CHR '','') (trim_space ''127.0.0.1''))) = ''127.0.0.1''" by code_simp
    moreover have "list_ex (\<lambda>n. Contains n (the (ParseIP ''127.0.0.1''))) loopback_nets" "ParseIP ''127.0.0.1'' \<noteq> None" by code_simp+
    then have "isTrusted g ''127.0.0.1''"
      using g by (auto simp: isTrusted_def NewRemoteAccessGuard_def)
    moreover have "guard_mem x g" "\<not> failClosedLogPersist g"
      using g by (auto simp: NewRemoteAccessGuard_def guard_mem_def mem_idle_def svc_ok_def)
    ultimately show ?thesis
      using Wrap_mem(4) [of x g _ "(e, r)"] r(1) by simp
  qed
  ultimately show ?thesis by blast
qed

theorem forwarded_header_decides_witness:
  "fst (Wrap demo_ext demo_env (demo_remote ''127.0.0.1'' ''203.0.113.9:5555'') (the (NewRemoteAccessGuard None []))) = NextServed"
proof -
  have g: "NewRemoteAccessGuard None [] = Some (the (NewRemoteAccessGuard None []))" by (simp add: NewRemoteAccessGuard_def)
  have "trim_space ''127.0.0.1'' \<noteq> []" "isAdminPath ''/v1/config/changes''" by code_simp+
  then show ?thesis
    using forwarded_header_decides [of "demo_remote ''127.0.0.1'' ''203.0.113.9:5555''"] g by (simp add: demo_remote_def)
qed

end
