(* ===== verification/Reporting.thy ===== *)
theory Reporting
  imports Ledger Ingestion
begin

text \<open>
  The reporting service, \<^verbatim>\<open>internal/platform/server/reporting_grpc.go\<close> and \<^verbatim>\<open>reporting_postgres.go\<close>. A report reads the tables of
  the database or, when they give no row, the memory of the ledger and of the events service, and is kept as a run in
  JSON or CSV. The service refers to the two other services; here it holds their states. It locks their mutexes: while
  the ledger's is held, a report about the ledger blocks.
\<close>

section \<open>Messages and state\<close>

datatype report_type =
    REPORT_TYPE_UNSPECIFIED | REPORT_TYPE_SIGNIFICANT_EVENTS_ALTERATIONS | REPORT_TYPE_CASHLESS_LIABILITY_SUMMARY
  | REPORT_TYPE_ACCOUNT_TRANSACTION_STATEMENT | REPORT_TYPE_OTHER i32

datatype report_interval =
    REPORT_INTERVAL_UNSPECIFIED | REPORT_INTERVAL_DTD | REPORT_INTERVAL_MTD | REPORT_INTERVAL_YTD | REPORT_INTERVAL_LTD
  | REPORT_INTERVAL_OTHER i32

datatype report_format = REPORT_FORMAT_UNSPECIFIED | REPORT_FORMAT_JSON | REPORT_FORMAT_CSV | REPORT_FORMAT_OTHER i32

datatype report_run_status = REPORT_RUN_STATUS_UNSPECIFIED | REPORT_RUN_STATUS_COMPLETED | REPORT_RUN_STATUS_FAILED

record report_run =
  ReportRunId :: string
  ReportType :: report_type
  Interval :: report_interval
  Format :: report_format
  RunStatus :: report_run_status
  RunOperatorId :: string
  ReportTitle :: string
  GeneratedAt :: string
  NoActivity :: bool
  ContentType :: string
  Content :: string

record generate_request =
  Gen_Meta :: "request_meta option"
  Gen_ReportType :: report_type
  Gen_Interval :: report_interval
  Gen_Format :: report_format
  Gen_OperatorId :: string

record run_list_request =
  RunList_Meta :: "request_meta option"
  RunList_ReportTypeFilter :: report_type
  RunList_PageSize :: i32
  RunList_PageToken :: string

record run_get_request =
  RunGet_Meta :: "request_meta option"
  RunGet_ReportRunId :: string

record run_response =
  RunMeta :: response_meta
  RunReport :: "report_run option"

record run_list_response =
  RunListMeta :: response_meta
  RunListItems :: "report_run list"
  RunListNext :: string

record run_row =
  rr_report_run_id :: string
  rr_report_type :: string
  rr_report_interval :: string
  rr_report_format :: string
  rr_status :: string
  rr_operator_id :: string
  rr_report_title :: string
  rr_generated_at :: time
  rr_no_activity :: bool
  rr_content_type :: string
  rr_content :: string
  rr_request_id :: string
  rr_actor_id :: string
  rr_actor_type :: string

text \<open>The tables the reports read, filled by the other services, and the table of runs.\<close>

record report_db = dbcore +
  rep_significant_events :: "event_row list"
  rep_ledger_accounts :: "account_row list"
  rep_ledger_transactions :: "transaction_row list"
  report_runs :: "run_row list"

record reporting_service = "report_db svc" +
  rep_Ledger :: "ledger option"
  rep_Events :: "events_service option"
  runs :: "string \<rightharpoonup> report_run"
  runOrder :: "string list"
  nextRunID :: nat
  reporting_disableInMemoryCache :: bool

definition NewReportingService :: "ledger option \<Rightarrow> events_service option \<Rightarrow> report_db option \<Rightarrow> reporting_service" where
  "NewReportingService lg evs handle =
     \<lparr>svc_AuditStore = Some NewInMemoryStore, svc_nextAuditID = 0, svc_db = handle, rep_Ledger = lg, rep_Events = evs,
      runs = Map.empty, runOrder = [], nextRunID = 0, reporting_disableInMemoryCache = False\<rparr>"

definition reporting_SetDisableInMemoryCache :: "bool \<Rightarrow> reporting_service \<Rightarrow> reporting_service" where
  "reporting_SetDisableInMemoryCache disable s = s\<lparr>reporting_disableInMemoryCache := disable\<rparr>"

definition reporting_useInMemoryCache :: "reporting_service \<Rightarrow> bool" where
  "reporting_useInMemoryCache s \<longleftrightarrow> \<not> reporting_disableInMemoryCache s"

definition nextRunIDLocked :: "reporting_service \<Rightarrow> string \<times> reporting_service" where
  "nextRunIDLocked s = (let n = Suc (nextRunID s) in (''report-'' @ itoa_nat n, s\<lparr>nextRunID := n\<rparr>))"

definition reporting_appendAudit ::
    "ext \<Rightarrow> env \<Rightarrow> request_meta option \<Rightarrow> string \<Rightarrow> string \<Rightarrow> string \<Rightarrow> string \<Rightarrow> string \<Rightarrow> string
     \<Rightarrow> reporting_service \<Rightarrow> bool \<times> reporting_service" where
  "reporting_appendAudit x e meta objectID action before after result reason =
     svc_append x e (\<lambda>n. audit_event e (''reporting-audit-'' @ itoa_nat n) meta ''report_run'' objectID action
                           before after result reason)"

section \<open>Intervals\<close>

definition intervalStart :: "time \<Rightarrow> report_interval \<Rightarrow> time" where
  "intervalStart now interval =
     (case civil now of (y, m, d) \<Rightarrow>
        (case interval of
           REPORT_INTERVAL_DTD \<Rightarrow> date y m d 0 0 0 0
         | REPORT_INTERVAL_MTD \<Rightarrow> date y m 1 0 0 0 0
         | REPORT_INTERVAL_YTD \<Rightarrow> date y 1 1 0 0 0 0
         | _ \<Rightarrow> zero_time))"

definition inInterval :: "time \<Rightarrow> report_interval \<Rightarrow> time \<Rightarrow> bool" where
  "inInterval ts interval now =
     (if interval = REPORT_INTERVAL_LTD then True
      else if ts = zero_time then False
      else \<not> ts < intervalStart now interval \<and> \<not> now < ts)"

definition parseTS :: "string \<Rightarrow> time" where
  "parseTS v = (if v = [] then zero_time else (case parse_rfc3339nano v of None \<Rightarrow> zero_time | Some t \<Rightarrow> t))"

fun reportTitle :: "report_type \<Rightarrow> string" where
  "reportTitle REPORT_TYPE_SIGNIFICANT_EVENTS_ALTERATIONS = ''System Significant Events and Alterations''"
| "reportTitle REPORT_TYPE_CASHLESS_LIABILITY_SUMMARY = ''Cashless Liability Summary''"
| "reportTitle REPORT_TYPE_ACCOUNT_TRANSACTION_STATEMENT = ''Account Transaction Statement''"
| "reportTitle _ = ''Unknown Report''"

fun interval_string :: "report_interval \<Rightarrow> string" where
  "interval_string REPORT_INTERVAL_UNSPECIFIED = ''REPORT_INTERVAL_UNSPECIFIED''"
| "interval_string REPORT_INTERVAL_DTD = ''REPORT_INTERVAL_DTD''"
| "interval_string REPORT_INTERVAL_MTD = ''REPORT_INTERVAL_MTD''"
| "interval_string REPORT_INTERVAL_YTD = ''REPORT_INTERVAL_YTD''"
| "interval_string REPORT_INTERVAL_LTD = ''REPORT_INTERVAL_LTD''"
| "interval_string (REPORT_INTERVAL_OTHER w) = itoa (sint w)"

fun ledger_type_string :: "ledger_transaction_type \<Rightarrow> string" where
  "ledger_type_string LEDGER_TRANSACTION_TYPE_UNSPECIFIED = ''LEDGER_TRANSACTION_TYPE_UNSPECIFIED''"
| "ledger_type_string LEDGER_TRANSACTION_TYPE_DEPOSIT = ''LEDGER_TRANSACTION_TYPE_DEPOSIT''"
| "ledger_type_string LEDGER_TRANSACTION_TYPE_WITHDRAWAL = ''LEDGER_TRANSACTION_TYPE_WITHDRAWAL''"
| "ledger_type_string LEDGER_TRANSACTION_TYPE_TRANSFER_TO_DEVICE = ''LEDGER_TRANSACTION_TYPE_TRANSFER_TO_DEVICE''"
| "ledger_type_string LEDGER_TRANSACTION_TYPE_TRANSFER_TO_ACCOUNT = ''LEDGER_TRANSACTION_TYPE_TRANSFER_TO_ACCOUNT''"
| "ledger_type_string LEDGER_TRANSACTION_TYPE_GAMEPLAY_DEBIT = ''LEDGER_TRANSACTION_TYPE_GAMEPLAY_DEBIT''"
| "ledger_type_string LEDGER_TRANSACTION_TYPE_GAMEPLAY_CREDIT = ''LEDGER_TRANSACTION_TYPE_GAMEPLAY_CREDIT''"
| "ledger_type_string LEDGER_TRANSACTION_TYPE_MANUAL_ADJUSTMENT = ''LEDGER_TRANSACTION_TYPE_MANUAL_ADJUSTMENT''"

section \<open>Payloads\<close>

text \<open>
  A payload is a \<^verbatim>\<open>map[string]any\<close>: its entries, with the values a report puts there. \<^verbatim>\<open>json.Marshal\<close> writes a map in the order
  of its keys.
\<close>

datatype any = AString string | AInt int | ABool bool | ARows "(string \<times> any) list list"

type_synonym entries = "(string \<times> any) list"

definition marshal_object :: "(string \<times> string) list \<Rightarrow> string" where
  "marshal_object kvs = ''{'' @ join '','' (map (\<lambda>(k, v). json_string k @ '':'' @ v) (sort_key fst kvs)) @ ''}''"

fun marshal_any :: "any \<Rightarrow> string" where
  "marshal_any (AString s) = json_string s"
| "marshal_any (AInt i) = itoa i"
| "marshal_any (ABool b) = (if b then ''true'' else ''false'')"
| "marshal_any (ARows rows) =
     ''['' @ join '','' (map (\<lambda>row. marshal_object (map (\<lambda>(k, v). (k, marshal_any v)) row)) rows) @ '']''"

definition marshal_payload :: "entries \<Rightarrow> string" where
  "marshal_payload p = marshal_object (map (\<lambda>(k, v). (k, marshal_any v)) p)"

definition toString :: "any option \<Rightarrow> string" where
  "toString v =
     (case v of
        None \<Rightarrow> []
      | Some (AString s) \<Rightarrow> s
      | Some (AInt i) \<Rightarrow> itoa i
      | Some (ABool b) \<Rightarrow> if b then ''true'' else ''false''
      | Some rows \<Rightarrow> marshal_any rows)"

definition payload_rows :: "entries \<Rightarrow> entries list" where
  "payload_rows p = (case map_of p ''rows'' of Some (ARows rows) \<Rightarrow> rows | _ \<Rightarrow> [])"

text \<open>What the three payloads have in common; \<open>totals\<close> are the entries of the liability summary.\<close>

definition report_payload ::
    "env \<Rightarrow> report_type \<Rightarrow> report_interval \<Rightarrow> string \<Rightarrow> entries \<Rightarrow> entries list \<Rightarrow> entries \<times> bool" where
  "report_payload e rt interval operatorID totals rows =
     ([(''operator_id'', AString operatorID), (''report_title'', AString (reportTitle rt)),
       (''selected_interval'', AString (interval_string interval)), (''generated_at'', AString (fmt_rfc3339nano (env_now e))),
       (''no_activity'', ABool (rows = [])), (''row_count'', AInt (int (length rows)))] @ totals @
      [(''rows'', ARows rows)] @ (if rows = [] then [(''note'', AString ''No Activity'')] else []), rows = [])"

section \<open>Reading the database\<close>

text \<open>\<^verbatim>\<open>($1 IS NULL OR occurred_at >= $1) AND ($2 IS NULL OR occurred_at <= $2)\<close>, with \<^verbatim>\<open>$2\<close> the time now.\<close>

definition within :: "ext \<Rightarrow> time \<Rightarrow> report_interval \<Rightarrow> time \<Rightarrow> bool" where
  "within x now interval occurred \<longleftrightarrow>
     (case nullTime (intervalStart now interval) of None \<Rightarrow> True | Some t \<Rightarrow> pg_timestamptz x t \<le> occurred) \<and>
     occurred \<le> pg_timestamptz x now"

text \<open>\<^verbatim>\<open>ORDER BY occurred_at ASC, id ASC\<close>.\<close>

definition oldest_first :: "ext \<Rightarrow> ('r \<Rightarrow> time) \<Rightarrow> ('r \<Rightarrow> string) \<Rightarrow> 'r list \<Rightarrow> 'r list" where
  "oldest_first x t k =
     stable_sort (\<lambda>a b. t a < t b \<or> (t a = t b \<and> pg_text_less x (k a) (k b)))"

definition event_entries :: "string \<Rightarrow> string \<Rightarrow> string \<Rightarrow> string \<Rightarrow> string \<Rightarrow> string \<Rightarrow> string \<Rightarrow> string \<Rightarrow> entries" where
  "event_entries eventID equipmentID eventCode desc severity occurredAt receivedAt recordedAt =
     [(''event_id'', AString eventID), (''equipment_id'', AString equipmentID), (''event_code'', AString eventCode),
      (''localized_description'', AString desc), (''severity'', AString severity), (''occurred_at'', AString occurredAt),
      (''received_at'', AString receivedAt), (''recorded_at'', AString recordedAt)]"

definition fetchSignificantEventsRows :: "ext \<Rightarrow> time \<Rightarrow> report_interval \<Rightarrow> report_db \<Rightarrow> entries list" where
  "fetchSignificantEventsRows x now interval d =
     map (\<lambda>r. event_entries (sr_event_id r) (sr_equipment_id r) (sr_event_code r) (sr_localized_description r) (sr_severity r)
            (fmt_rfc3339nano (sr_occurred_at r)) (fmt_rfc3339nano (sr_received_at r)) (fmt_rfc3339nano (sr_recorded_at r)))
       (oldest_first x sr_occurred_at sr_event_id
         (filter (\<lambda>r. within x now interval (sr_occurred_at r)) (rep_significant_events d)))"

definition account_entries :: "string \<Rightarrow> string \<Rightarrow> i64 \<Rightarrow> i64 \<Rightarrow> entries" where
  "account_entries accountID currency available pending =
     [(''account_id'', AString accountID), (''currency'', AString currency), (''available'', AInt (sint available)),
      (''pending'', AInt (sint pending)), (''total'', AInt (sint (available + pending)))]"

text \<open>The rows of the summary and the two totals, which wrap around.\<close>

type_synonym liabilities = "entries list \<times> i64 \<times> i64"

definition add_liability :: "liabilities \<Rightarrow> string \<times> string \<times> i64 \<times> i64 \<Rightarrow> liabilities" where
  "add_liability acc r =
     (case (acc, r) of ((rows, totalAvailable, totalPending), (accountID, currency, available, pending)) \<Rightarrow>
        (rows @ [account_entries accountID currency available pending], totalAvailable + available, totalPending + pending))"

definition liability_of :: "(string \<times> string \<times> i64 \<times> i64) list \<Rightarrow> liabilities" where
  "liability_of accts = foldl add_liability ([], 0, 0) accts"

definition fetchCashlessLiabilityRows :: "ext \<Rightarrow> report_db \<Rightarrow> liabilities" where
  "fetchCashlessLiabilityRows x d =
     liability_of (map (\<lambda>r. (ar_account_id r, ar_currency_code r, word_of_int (ar_available r), word_of_int (ar_pending r)))
       (stable_sort (\<lambda>a b. pg_text_less x (ar_account_id a) (ar_account_id b)) (rep_ledger_accounts d)))"

definition transaction_entries ::
    "string \<Rightarrow> string \<Rightarrow> ledger_transaction_type \<Rightarrow> i64 \<Rightarrow> string \<Rightarrow> string \<Rightarrow> string \<Rightarrow> entries" where
  "transaction_entries txID accountID ty amount currency occurredAt authID =
     [(''transaction_id'', AString txID), (''account_id'', AString accountID),
      (''transaction_type'', AString (ledger_type_string ty)), (''amount_minor'', AInt (sint amount)),
      (''currency'', AString currency), (''occurred_at'', AString occurredAt), (''authorization_id'', AString authID)]"

definition fetchAccountTransactionStatementRows :: "ext \<Rightarrow> time \<Rightarrow> report_interval \<Rightarrow> report_db \<Rightarrow> entries list" where
  "fetchAccountTransactionStatementRows x now interval d =
     map (\<lambda>r. transaction_entries (tr_transaction_id r) (tr_account_id r) (ledgerTxTypeFromDB (tr_transaction_type r))
            (word_of_int (tr_amount r)) (tr_currency_code r) (fmt_rfc3339nano (tr_occurred_at r)) (tr_authorization_id r))
       (oldest_first x tr_occurred_at tr_transaction_id
         (filter (\<lambda>r. within x now interval (tr_occurred_at r)) (rep_ledger_transactions d)))"

text \<open>What a query gives; \<open>none\<close> without a database or when the query fails.\<close>

definition db_rows :: "(report_db \<Rightarrow> 'a) \<Rightarrow> 'a \<Rightarrow> reporting_service \<Rightarrow> 'a \<times> reporting_service" where
  "db_rows q none s = (case svc_query q s of (None, s') \<Rightarrow> (none, s') | (Some r, s') \<Rightarrow> (r, s'))"

section \<open>Reading the other services\<close>

definition event_time :: "significant_event \<Rightarrow> time" where
  "event_time v = (let ts = parseTS (EvOccurredAt v) in if ts = zero_time then parseTS (EvRecordedAt v) else ts)"

definition events_in_memory :: "time \<Rightarrow> report_interval \<Rightarrow> events_service \<Rightarrow> entries list" where
  "events_in_memory now interval evs =
     map (\<lambda>v. event_entries (EventId v) (EvEquipmentId v) (EventCode v) (LocalizedDescription v)
            (severity_string (Severity v)) (EvOccurredAt v) (EvReceivedAt v) (EvRecordedAt v))
       (filter (\<lambda>v. inInterval (event_time v) interval now) (List.map_filter (events evs) (eventOrder evs)))"

text \<open>\<^verbatim>\<open>sort.Strings\<close> of the keys of a map.\<close>

definition sorted_keys :: "(string \<rightharpoonup> 'a) \<Rightarrow> string list" where
  "sorted_keys m = sorted_list_of_set (dom m)"

definition liabilities_in_memory :: "ledger \<Rightarrow> liabilities" where
  "liabilities_in_memory lg =
     liability_of (List.map_filter (\<lambda>a. map_option (\<lambda>acct. (a, acct_currency acct, acct_available acct, acct_pending acct))
                                          (accounts lg a)) (sorted_keys (accounts lg)))"

definition transactions_in_memory :: "time \<Rightarrow> report_interval \<Rightarrow> ledger \<Rightarrow> entries list" where
  "transactions_in_memory now interval lg =
     concat (map (\<lambda>a. map (\<lambda>tx. transaction_entries (TransactionId tx) (TxAccountId tx) (TransactionType tx)
                              (AmountMinor (TxAmount tx)) (Currency (TxAmount tx)) (TxOccurredAt tx) (TxAuthorizationId tx))
         (filter (\<lambda>tx. inInterval (parseTS (TxOccurredAt tx)) interval now)
           (case transactionsByAcct lg a of None \<Rightarrow> [] | Some txs \<Rightarrow> txs)))
       (sorted_keys (transactionsByAcct lg)))"

text \<open>
  The rows of the database, or those of the memory of another service when there are none. \<open>held\<close>: the service's mutex is
  held, so that \<^verbatim>\<open>Lock\<close> does not return.
\<close>

definition rows_or_memory ::
    "'a \<times> reporting_service \<Rightarrow> ('a \<Rightarrow> bool) \<Rightarrow> 'b option \<Rightarrow> ('b \<Rightarrow> bool) \<Rightarrow> ('b \<Rightarrow> 'a) \<Rightarrow> 'a outcome \<times> reporting_service" where
  "rows_or_memory r no_rows other held mem =
     (case r of (rows, s) \<Rightarrow>
        (case other of
           Some o' \<Rightarrow> if no_rows rows \<and> reporting_useInMemoryCache s
                      then (if held o' then Blocks else Returns (mem o'), s) else (Returns rows, s)
         | None \<Rightarrow> (Returns rows, s)))"

definition buildSignificantEventsPayload ::
    "ext \<Rightarrow> env \<Rightarrow> report_interval \<Rightarrow> string \<Rightarrow> reporting_service \<Rightarrow> (entries \<times> bool) outcome \<times> reporting_service" where
  "buildSignificantEventsPayload x e interval operatorID s =
     map_prod (map_outcome (report_payload e REPORT_TYPE_SIGNIFICANT_EVENTS_ALTERATIONS interval operatorID [])) id
       (rows_or_memory (db_rows (fetchSignificantEventsRows x (env_now e) interval) [] s) (\<lambda>rows. rows = [])
          (rep_Events s) (\<lambda>_. False) (events_in_memory (env_now e) interval))"

definition buildCashlessLiabilityPayload ::
    "ext \<Rightarrow> env \<Rightarrow> report_interval \<Rightarrow> string \<Rightarrow> reporting_service \<Rightarrow> (entries \<times> bool) outcome \<times> reporting_service" where
  "buildCashlessLiabilityPayload x e interval operatorID s =
     map_prod (map_outcome (\<lambda>(rows, totalAvailable, totalPending).
         report_payload e REPORT_TYPE_CASHLESS_LIABILITY_SUMMARY interval operatorID
           [(''total_available'', AInt (sint totalAvailable)), (''total_pending'', AInt (sint totalPending))] rows)) id
       (rows_or_memory (db_rows (fetchCashlessLiabilityRows x) ([], 0, 0) s) (\<lambda>r. fst r = [])
          (rep_Ledger s) mu liabilities_in_memory)"

definition buildAccountTransactionStatementPayload ::
    "ext \<Rightarrow> env \<Rightarrow> report_interval \<Rightarrow> string \<Rightarrow> reporting_service \<Rightarrow> (entries \<times> bool) outcome \<times> reporting_service" where
  "buildAccountTransactionStatementPayload x e interval operatorID s =
     map_prod (map_outcome (report_payload e REPORT_TYPE_ACCOUNT_TRANSACTION_STATEMENT interval operatorID [])) id
       (rows_or_memory (db_rows (fetchAccountTransactionStatementRows x (env_now e) interval) [] s) (\<lambda>rows. rows = [])
          (rep_Ledger s) mu (transactions_in_memory (env_now e) interval))"

section \<open>CSV\<close>

text \<open>
  \<^verbatim>\<open>encoding/csv\<close>: a field with a separator, a quote or a line break, the field \<^verbatim>\<open>\.\<close> and a field that starts with a white space rune are
  quoted, with quotes doubled; a record ends with a line feed.
\<close>

definition fieldNeedsQuotes :: "string \<Rightarrow> bool" where
  "fieldNeedsQuotes field \<longleftrightarrow> field \<noteq> [] \<and>
     (field = [CHR 0x5C, CHR ''.''] \<or>
      list_ex (\<lambda>c. c = CHR ''\<newline>'' \<or> c = CHR 0x0D \<or> c = CHR ''\"'' \<or> c = CHR '','') field \<or>
      0 < space_rune (map of_char field))"

definition csv_double :: "char \<Rightarrow> string" where
  "csv_double c = (if c = CHR ''\"'' then [c, c] else [c])"

definition csv_field :: "string \<Rightarrow> string" where
  "csv_field field =
     (if fieldNeedsQuotes field then ''\"'' @ concat (map csv_double field) @ ''\"'' else field)"

definition csv_record :: "string list \<Rightarrow> string" where
  "csv_record rec = join '','' (map csv_field rec) @ [CHR ''\<newline>'']"

definition csv_write :: "string list list \<Rightarrow> string" where
  "csv_write recs = concat (map csv_record recs)"

definition event_columns :: "string list" where
  "event_columns = [''event_id'', ''equipment_id'', ''event_code'', ''localized_description'', ''severity'', ''occurred_at'',
     ''received_at'', ''recorded_at'']"

definition liability_columns :: "string list" where
  "liability_columns = [''account_id'', ''currency'', ''available'', ''pending'', ''total'']"

definition statement_columns :: "string list" where
  "statement_columns = [''transaction_id'', ''account_id'', ''transaction_type'', ''amount_minor'', ''currency'', ''occurred_at'',
     ''authorization_id'']"

definition head_columns :: "string list" where
  "head_columns = [''operator_id'', ''report_title'', ''selected_interval'', ''generated_at'']"

definition cells :: "string list \<Rightarrow> entries \<Rightarrow> string list" where
  "cells columns p = map (\<lambda>k. toString (map_of p k)) columns"

text \<open>The records of a report: two about the report, the names of the columns, and the rows.\<close>

definition csv_table :: "string list \<Rightarrow> string list \<Rightarrow> entries \<Rightarrow> string list list" where
  "csv_table heads columns p =
     [heads, cells heads p, columns] @
     (if payload_rows p = [] then [[''No Activity'']] else []) @ map (cells columns) (payload_rows p)"

fun csv_records :: "report_type \<Rightarrow> entries \<Rightarrow> string list list" where
  "csv_records REPORT_TYPE_SIGNIFICANT_EVENTS_ALTERATIONS p = csv_table head_columns event_columns p"
| "csv_records REPORT_TYPE_CASHLESS_LIABILITY_SUMMARY p =
     csv_table (head_columns @ [''total_available'', ''total_pending'']) liability_columns p"
| "csv_records REPORT_TYPE_ACCOUNT_TRANSACTION_STATEMENT p = csv_table head_columns statement_columns p"
| "csv_records _ p = [[''No Activity'']]"

definition payloadToCSV :: "report_type \<Rightarrow> entries \<Rightarrow> string" where
  "payloadToCSV reportType p = csv_write (csv_records reportType p)"

section \<open>Runs in the database\<close>

fun reportTypeToDB :: "report_type \<Rightarrow> string" where
  "reportTypeToDB REPORT_TYPE_SIGNIFICANT_EVENTS_ALTERATIONS = ''significant_events_alterations''"
| "reportTypeToDB REPORT_TYPE_CASHLESS_LIABILITY_SUMMARY = ''cashless_liability_summary''"
| "reportTypeToDB REPORT_TYPE_ACCOUNT_TRANSACTION_STATEMENT = ''account_transaction_statement''"
| "reportTypeToDB _ = ''unknown''"

definition reportTypeFromDB :: "string \<Rightarrow> report_type" where
  "reportTypeFromDB v =
     (if v = ''significant_events_alterations'' then REPORT_TYPE_SIGNIFICANT_EVENTS_ALTERATIONS
      else if v = ''cashless_liability_summary'' then REPORT_TYPE_CASHLESS_LIABILITY_SUMMARY
      else if v = ''account_transaction_statement'' then REPORT_TYPE_ACCOUNT_TRANSACTION_STATEMENT
      else REPORT_TYPE_UNSPECIFIED)"

fun reportIntervalToDB :: "report_interval \<Rightarrow> string" where
  "reportIntervalToDB REPORT_INTERVAL_DTD = ''dtd''"
| "reportIntervalToDB REPORT_INTERVAL_MTD = ''mtd''"
| "reportIntervalToDB REPORT_INTERVAL_YTD = ''ytd''"
| "reportIntervalToDB _ = ''ltd''"

definition reportIntervalFromDB :: "string \<Rightarrow> report_interval" where
  "reportIntervalFromDB v =
     (if v = ''dtd'' then REPORT_INTERVAL_DTD else if v = ''mtd'' then REPORT_INTERVAL_MTD
      else if v = ''ytd'' then REPORT_INTERVAL_YTD else if v = ''ltd'' then REPORT_INTERVAL_LTD
      else REPORT_INTERVAL_UNSPECIFIED)"

fun reportFormatToDB :: "report_format \<Rightarrow> string" where
  "reportFormatToDB REPORT_FORMAT_CSV = ''csv''"
| "reportFormatToDB _ = ''json''"

definition reportFormatFromDB :: "string \<Rightarrow> report_format" where
  "reportFormatFromDB v =
     (if v = ''json'' then REPORT_FORMAT_JSON else if v = ''csv'' then REPORT_FORMAT_CSV else REPORT_FORMAT_UNSPECIFIED)"

fun reportStatusToDB :: "report_run_status \<Rightarrow> string" where
  "reportStatusToDB REPORT_RUN_STATUS_FAILED = ''failed''"
| "reportStatusToDB _ = ''completed''"

definition reportStatusFromDB :: "string \<Rightarrow> report_run_status" where
  "reportStatusFromDB v =
     (if v = ''completed'' then REPORT_RUN_STATUS_COMPLETED else if v = ''failed'' then REPORT_RUN_STATUS_FAILED
      else REPORT_RUN_STATUS_UNSPECIFIED)"

definition run_row_of :: "ext \<Rightarrow> env \<Rightarrow> request_meta option \<Rightarrow> report_run \<Rightarrow> run_row option" where
  "run_row_of x e meta run =
     map_option (\<lambda>generated.
       \<lparr>rr_report_run_id = ReportRunId run, rr_report_type = reportTypeToDB (ReportType run),
        rr_report_interval = reportIntervalToDB (Interval run), rr_report_format = reportFormatToDB (Format run),
        rr_status = reportStatusToDB (RunStatus run), rr_operator_id = RunOperatorId run, rr_report_title = ReportTitle run,
        rr_generated_at = generated, rr_no_activity = NoActivity run, rr_content_type = ContentType run,
        rr_content = Content run, rr_request_id = requestID meta,
        rr_actor_id = (case Option.bind meta MetaActor of None \<Rightarrow> [] | Some a \<Rightarrow> ActorId a),
        rr_actor_type = (case Option.bind meta MetaActor of None \<Rightarrow> [] | Some a \<Rightarrow> actor_type_string (ActorType a))\<rparr>)
     (pg_time_of_text x (nonEmptyTime e (GeneratedAt run)))"

text \<open>\<^verbatim>\<open>ON CONFLICT (report_run_id) DO UPDATE\<close>: the type, the interval and the format of the old row stay.\<close>

definition merge_run :: "run_row \<Rightarrow> run_row \<Rightarrow> run_row" where
  "merge_run old new =
     new\<lparr>rr_report_type := rr_report_type old, rr_report_interval := rr_report_interval old,
         rr_report_format := rr_report_format old\<rparr>"

definition persistReportRun ::
    "ext \<Rightarrow> env \<Rightarrow> request_meta option \<Rightarrow> report_run \<Rightarrow> reporting_service \<Rightarrow> bool \<times> reporting_service" where
  "persistReportRun x e meta run =
     svc_exec (sql_stmt (\<lambda>d. map_option
       (\<lambda>row. d\<lparr>report_runs := upsert_with rr_report_run_id merge_run row (report_runs d)\<rparr>) (run_row_of x e meta run)))"

definition row_to_run :: "run_row \<Rightarrow> report_run" where
  "row_to_run r =
     \<lparr>ReportRunId = rr_report_run_id r, ReportType = reportTypeFromDB (rr_report_type r),
      Interval = reportIntervalFromDB (rr_report_interval r), Format = reportFormatFromDB (rr_report_format r),
      RunStatus = reportStatusFromDB (rr_status r), RunOperatorId = rr_operator_id r, ReportTitle = rr_report_title r,
      GeneratedAt = fmt_rfc3339nano (rr_generated_at r), NoActivity = rr_no_activity r, ContentType = rr_content_type r,
      Content = rr_content r\<rparr>"

definition run_row_newer :: "ext \<Rightarrow> run_row \<Rightarrow> run_row \<Rightarrow> bool" where
  "run_row_newer x a b \<longleftrightarrow> rr_generated_at b < rr_generated_at a \<or>
     (rr_generated_at a = rr_generated_at b \<and> pg_text_less x (rr_report_run_id b) (rr_report_run_id a))"

definition listReportRunsFromDB ::
    "ext \<Rightarrow> report_type \<Rightarrow> nat \<Rightarrow> nat \<Rightarrow> reporting_service \<Rightarrow> report_run list option \<times> reporting_service" where
  "listReportRunsFromDB x filt limit offset =
     (let reportType = (if filt = REPORT_TYPE_UNSPECIFIED then [] else reportTypeToDB filt)
      in svc_query (\<lambda>d. map row_to_run (take limit (drop offset
           (stable_sort (run_row_newer x)
             (filter (\<lambda>r. reportType = [] \<or> rr_report_type r = reportType) (report_runs d)))))))"

definition getReportRunFromDB :: "string \<Rightarrow> reporting_service \<Rightarrow> report_run option option \<times> reporting_service" where
  "getReportRunFromDB reportRunID =
     svc_query (\<lambda>d. map_option row_to_run (find (\<lambda>r. rr_report_run_id r = reportRunID) (report_runs d)))"

section \<open>Handlers\<close>

fun report_type_number :: "report_type \<Rightarrow> int" where
  "report_type_number REPORT_TYPE_UNSPECIFIED = 0"
| "report_type_number REPORT_TYPE_SIGNIFICANT_EVENTS_ALTERATIONS = 1"
| "report_type_number REPORT_TYPE_CASHLESS_LIABILITY_SUMMARY = 2"
| "report_type_number REPORT_TYPE_ACCOUNT_TRANSACTION_STATEMENT = 3"
| "report_type_number (REPORT_TYPE_OTHER w) = sint w"

fun interval_number :: "report_interval \<Rightarrow> int" where
  "interval_number REPORT_INTERVAL_UNSPECIFIED = 0"
| "interval_number REPORT_INTERVAL_DTD = 1"
| "interval_number REPORT_INTERVAL_MTD = 2"
| "interval_number REPORT_INTERVAL_YTD = 3"
| "interval_number REPORT_INTERVAL_LTD = 4"
| "interval_number (REPORT_INTERVAL_OTHER w) = sint w"

fun format_number :: "report_format \<Rightarrow> int" where
  "format_number REPORT_FORMAT_UNSPECIFIED = 0"
| "format_number REPORT_FORMAT_JSON = 1"
| "format_number REPORT_FORMAT_CSV = 2"
| "format_number (REPORT_FORMAT_OTHER w) = sint w"

fun run_status_number :: "report_run_status \<Rightarrow> int" where
  "run_status_number REPORT_RUN_STATUS_UNSPECIFIED = 0"
| "run_status_number REPORT_RUN_STATUS_COMPLETED = 1"
| "run_status_number REPORT_RUN_STATUS_FAILED = 2"

definition run_json :: "report_run \<Rightarrow> string" where
  "run_json run = json_encode (JObject (
     jstr ''report_run_id'' (ReportRunId run) @ jint ''report_type'' (report_type_number (ReportType run)) @
     jint ''interval'' (interval_number (Interval run)) @ jint ''format'' (format_number (Format run)) @
     jint ''status'' (run_status_number (RunStatus run)) @ jstr ''operator_id'' (RunOperatorId run) @
     jstr ''report_title'' (ReportTitle run) @ jstr ''generated_at'' (GeneratedAt run) @
     jbool ''no_activity'' (NoActivity run) @ jstr ''content_type'' (ContentType run) @
     jstr ''content'' (base64_std (Content run))))"

definition run_refusal :: "env \<Rightarrow> request_meta option \<Rightarrow> result_code \<Rightarrow> string \<Rightarrow> run_response" where
  "run_refusal e meta code reason = \<lparr>RunMeta = responseMeta e meta code reason, RunReport = None\<rparr>"

definition run_ok :: "env \<Rightarrow> request_meta option \<Rightarrow> report_run \<Rightarrow> run_response" where
  "run_ok e meta run = \<lparr>RunMeta = responseMeta e meta RESULT_CODE_OK [], RunReport = Some run\<rparr>"

text \<open>The refusal of an audited denial.\<close>

definition reporting_denied ::
    "ext \<Rightarrow> env \<Rightarrow> request_meta option \<Rightarrow> string \<Rightarrow> string \<Rightarrow> string \<Rightarrow> reporting_service \<Rightarrow> reporting_service" where
  "reporting_denied x e meta objectID action reason s =
     snd (reporting_appendAudit x e meta objectID action json_empty json_empty ResultDenied reason s)"

text \<open>The builder of a report type; \<open>None\<close> is an unsupported type.\<close>

fun report_builder ::
    "report_type \<Rightarrow> (ext \<Rightarrow> env \<Rightarrow> report_interval \<Rightarrow> string \<Rightarrow> reporting_service
      \<Rightarrow> (entries \<times> bool) outcome \<times> reporting_service) option" where
  "report_builder REPORT_TYPE_SIGNIFICANT_EVENTS_ALTERATIONS = Some buildSignificantEventsPayload"
| "report_builder REPORT_TYPE_CASHLESS_LIABILITY_SUMMARY = Some buildCashlessLiabilityPayload"
| "report_builder REPORT_TYPE_ACCOUNT_TRANSACTION_STATEMENT = Some buildAccountTransactionStatementPayload"
| "report_builder _ = None"

definition new_run :: "env \<Rightarrow> generate_request \<Rightarrow> string \<Rightarrow> entries \<Rightarrow> bool \<Rightarrow> report_run" where
  "new_run e r runID p noActivity =
     \<lparr>ReportRunId = runID, ReportType = Gen_ReportType r, Interval = Gen_Interval r, Format = Gen_Format r,
      RunStatus = REPORT_RUN_STATUS_COMPLETED, RunOperatorId = Gen_OperatorId r,
      ReportTitle = reportTitle (Gen_ReportType r), GeneratedAt = fmt_rfc3339nano (env_now e), NoActivity = noActivity,
      ContentType = (if Gen_Format r = REPORT_FORMAT_JSON then ''application/json'' else ''text/csv''),
      Content = (if Gen_Format r = REPORT_FORMAT_JSON then marshal_payload p else payloadToCSV (Gen_ReportType r) p)\<rparr>"

text \<open>The run takes its place in memory, before it is audited and stored.\<close>

definition keep_run :: "report_run \<Rightarrow> reporting_service \<Rightarrow> reporting_service" where
  "keep_run run s =
     (if reporting_disableInMemoryCache s then s
      else s\<lparr>runs := (runs s)(ReportRunId run \<mapsto> run), runOrder := runOrder s @ [ReportRunId run]\<rparr>)"

definition record_run ::
    "ext \<Rightarrow> env \<Rightarrow> generate_request \<Rightarrow> entries \<Rightarrow> bool \<Rightarrow> reporting_service \<Rightarrow> run_response \<times> reporting_service" where
  "record_run x e r p noActivity s =
     (case nextRunIDLocked s of (runID, s1) \<Rightarrow>
        let run = new_run e r runID p noActivity; meta = Gen_Meta r
        in case reporting_appendAudit x e meta runID ''generate_report'' json_empty (run_json run) ResultSuccess [] (keep_run run s1) of
             (False, s2) \<Rightarrow> (run_refusal e meta RESULT_CODE_ERROR ''audit unavailable'', s2)
           | (True, s2) \<Rightarrow>
               (case persistReportRun x e meta run s2 of
                  (False, s3) \<Rightarrow> (run_refusal e meta RESULT_CODE_ERROR ''persistence unavailable'', s3)
                | (True, s3) \<Rightarrow> (run_ok e meta run, s3)))"

definition GenerateReport ::
    "ext \<Rightarrow> env \<Rightarrow> auth_actor option \<Rightarrow> generate_request option \<Rightarrow> reporting_service
     \<Rightarrow> run_response outcome \<times> reporting_service" where
  "GenerateReport x e ctx req s =
     (case req of
        None \<Rightarrow> (Returns (run_refusal e None RESULT_CODE_INVALID ''request is required''), s)
      | Some r \<Rightarrow>
          let meta = Gen_Meta r; refuse = (\<lambda>code reason. Returns (run_refusal e meta code reason))
          in case authorize_backoffice ctx meta of
               Some reason \<Rightarrow> (refuse RESULT_CODE_DENIED reason, reporting_denied x e meta [] ''generate_report'' reason s)
             | None \<Rightarrow>
               if Gen_ReportType r = REPORT_TYPE_UNSPECIFIED then (refuse RESULT_CODE_INVALID ''report_type is required'', s)
               else if Gen_Interval r = REPORT_INTERVAL_UNSPECIFIED then (refuse RESULT_CODE_INVALID ''interval is required'', s)
               else if Gen_Format r = REPORT_FORMAT_UNSPECIFIED then (refuse RESULT_CODE_INVALID ''format is required'', s)
               else (case report_builder (Gen_ReportType r) of
                       None \<Rightarrow> (refuse RESULT_CODE_INVALID ''unsupported report_type'', s)
                     | Some build \<Rightarrow>
                         (case build x e (Gen_Interval r) (Gen_OperatorId r) s of
                            (Returns (p, noActivity), s1) \<Rightarrow> map_prod Returns id (record_run x e r p noActivity s1)
                          | (Panics, s1) \<Rightarrow> (Panics, s1)
                          | (Blocks, s1) \<Rightarrow> (Blocks, s1))))"

definition no_run_list_request :: run_list_request where
  "no_run_list_request =
     \<lparr>RunList_Meta = None, RunList_ReportTypeFilter = REPORT_TYPE_UNSPECIFIED, RunList_PageSize = 0, RunList_PageToken = []\<rparr>"

definition run_list_answer :: "env \<Rightarrow> request_meta option \<Rightarrow> result_code \<Rightarrow> string \<Rightarrow> report_run list \<times> string \<Rightarrow> run_list_response" where
  "run_list_answer e meta code reason p =
     \<lparr>RunListMeta = responseMeta e meta code reason, RunListItems = fst p, RunListNext = snd p\<rparr>"

text \<open>The runs in memory, newest first.\<close>

definition runs_of :: "report_type \<Rightarrow> reporting_service \<Rightarrow> report_run list" where
  "runs_of filt s =
     filter (\<lambda>r. filt = REPORT_TYPE_UNSPECIFIED \<or> ReportType r = filt) (List.map_filter (runs s) (rev (runOrder s)))"

definition ListReportRuns ::
    "ext \<Rightarrow> env \<Rightarrow> auth_actor option \<Rightarrow> run_list_request option \<Rightarrow> reporting_service
     \<Rightarrow> run_list_response \<times> reporting_service" where
  "ListReportRuns x e ctx req s =
     (let r = (case req of None \<Rightarrow> no_run_list_request | Some r \<Rightarrow> r); meta = RunList_Meta r;
          start = page_start (RunList_PageToken r); psize = page_size 50 (RunList_PageSize r)
      in case authorize_backoffice ctx meta of
           Some reason \<Rightarrow>
             (run_list_answer e meta RESULT_CODE_DENIED reason ([], []), reporting_denied x e meta [] ''list_report_runs'' reason s)
         | None \<Rightarrow>
             if svc_db s \<noteq> None
             then (case listReportRunsFromDB x (RunList_ReportTypeFilter r) psize start s of
                     (None, s1) \<Rightarrow> (run_list_answer e meta RESULT_CODE_ERROR ''persistence unavailable'' ([], []), s1)
                   | (Some items, s1) \<Rightarrow> (run_list_answer e meta RESULT_CODE_OK [] (items, db_next start psize items), s1))
             else (run_list_answer e meta RESULT_CODE_OK [] (page_slice start psize (runs_of (RunList_ReportTypeFilter r) s)), s))"

definition found_run :: "env \<Rightarrow> request_meta option \<Rightarrow> report_run option \<Rightarrow> run_response" where
  "found_run e meta found =
     (case found of None \<Rightarrow> run_refusal e meta RESULT_CODE_INVALID ''report run not found'' | Some run \<Rightarrow> run_ok e meta run)"

definition GetReportRun ::
    "ext \<Rightarrow> env \<Rightarrow> auth_actor option \<Rightarrow> run_get_request option \<Rightarrow> reporting_service
     \<Rightarrow> run_response \<times> reporting_service" where
  "GetReportRun x e ctx req s =
     (case req of
        None \<Rightarrow> (run_refusal e None RESULT_CODE_INVALID ''report_run_id is required'', s)
      | Some r \<Rightarrow>
          let meta = RunGet_Meta r; runID = RunGet_ReportRunId r
          in if runID = [] then (run_refusal e None RESULT_CODE_INVALID ''report_run_id is required'', s)
             else (case authorize_backoffice ctx meta of
                     Some reason \<Rightarrow>
                       (run_refusal e meta RESULT_CODE_DENIED reason, reporting_denied x e meta runID ''get_report_run'' reason s)
                   | None \<Rightarrow>
                       if svc_db s \<noteq> None
                       then (case getReportRunFromDB runID s of
                               (None, s1) \<Rightarrow> (run_refusal e meta RESULT_CODE_ERROR ''persistence unavailable'', s1)
                             | (Some found, s1) \<Rightarrow> (found_run e meta found, s1))
                       else (found_run e meta (runs s runID), s)))"

end
