(* ===== verification/Calendar.thy ===== *)
theory Calendar
  imports GoTime
begin

text \<open>
  The civil date as a bijection between days and valid dates: \<open>civil\<close> of an instant is a date exactly when the instant lies in the
  day that \<open>date\<close> computes for it.
\<close>

lemma div_pred: "0 < k \<Longrightarrow> (y :: int) div k = (y - 1) div k + (if y mod k = 0 then 1 else 0)"
proof -
  assume k: "0 < k"
  have y: "y = k * (y div k) + y mod k" by simp
  show ?thesis
  proof (cases "y mod k = 0")
    case True
    with y have "y - 1 = k * (y div k - 1) + (k - 1)" by (simp add: algebra_simps)
    with k True show ?thesis using int_div_pos_eq [of "y - 1" k "y div k - 1" "k - 1"] by simp
  next
    case False
    moreover have "0 \<le> y mod k" "y mod k < k" using k by simp_all
    ultimately show ?thesis using y int_div_pos_eq [of "y - 1" k "y div k" "y mod k - 1"] by simp
  qed
qed

definition year_days :: "int \<Rightarrow> int" where
  "year_days y = (if leap y then 366 else 365)"

lemma days_before_next_year: "days_before_year (y + 1) = days_before_year y + year_days y"
proof -
  define a b c where abc: "a = (y - 1) div 4" "b = (y - 1) div 100" "c = (y - 1) div 400"
  define p q r where pqr: "p \<longleftrightarrow> y mod 4 = 0" "q \<longleftrightarrow> y mod 100 = 0" "r \<longleftrightarrow> y mod 400 = 0"
  have "q \<longrightarrow> p" "r \<longrightarrow> q" unfolding pqr by presburger+
  moreover have "y div 4 = a + (if p then 1 else 0)" "y div 100 = b + (if q then 1 else 0)" "y div 400 = c + (if r then 1 else 0)"
    unfolding abc pqr by (rule div_pred, simp)+
  moreover have "leap y \<longleftrightarrow> p \<and> (\<not> q \<or> r)" by (simp only: leap_def pqr)
  ultimately show ?thesis
    unfolding days_before_year_def year_days_def add_diff_cancel_right' abc [symmetric] by (cases p; cases q; cases r; simp)
qed

lemma days_before_year_mono: "y < y' \<Longrightarrow> days_before_year y + year_days y \<le> days_before_year y'"
proof (induction y' rule: int_gr_induct)
  case (step i)
  then show ?case using days_before_next_year [of i] by (simp add: year_days_def split: if_splits)
qed (simp add: days_before_next_year)

lemma year_yday_unique:
  assumes "0 \<le> yd" "yd < year_days y"
  shows "year_yday (days_before_year y + yd) = (y, yd)"
proof -
  obtain y' yd' where y': "year_yday (days_before_year y + yd) = (y', yd')" by fastforce
  from year_yday_inverse [OF this]
  have sum: "days_before_year y' + yd' = days_before_year y + yd" and b: "0 \<le> yd'" "yd' < year_days y'"
    by (simp_all add: year_days_def split: if_splits)
  have "y' = y"
    using days_before_year_mono [of y y'] days_before_year_mono [of y' y] assms sum b by (cases y y' rule: linorder_cases) auto
  with sum y' show ?thesis by simp
qed

definition valid_date :: "int \<Rightarrow> nat \<Rightarrow> int \<Rightarrow> bool" where
  "valid_date y m d \<longleftrightarrow> 1 \<le> m \<and> m \<le> 12 \<and> 1 \<le> d \<and> d \<le> days_in m (leap y)"

text \<open>A finite table again: the days of every month, in a year of either kind.\<close>

definition day_month_ok :: "bool \<Rightarrow> nat \<Rightarrow> bool" where
  "day_month_ok lp m \<longleftrightarrow>
     list_all (\<lambda>d. let yd = cum_days lp ! (m - 1) + d - 1 in month_of lp yd = m \<and> 0 \<le> yd \<and> yd < (if lp then 366 else 365))
       [1..days_in m lp]"

lemma day_month_table: "list_all (day_month_ok lp) [1..<13]"
  by (cases lp) (simp_all only:, code_simp+)

lemma day_of_month:
  assumes "valid_date y m d"
  defines "yd \<equiv> cum_days (leap y) ! (m - 1) + d - 1"
  shows "month_of (leap y) yd = m" "0 \<le> yd" "yd < year_days y"
proof -
  have "day_month_ok (leap y) m"
    using day_month_table [of "leap y"] assms(1) unfolding list_all_iff valid_date_def
    by (metis atLeastLessThan_iff atLeastLessThan_upt Suc_eq_plus1 less_Suc_eq_le numeral_plus_one semiring_norm(5))
  then show "month_of (leap y) yd = m" "0 \<le> yd" "yd < year_days y"
    using assms(1) by (auto simp: day_month_ok_def list_all_iff valid_date_def yd_def year_days_def Let_def)
qed

definition day_number :: "int \<Rightarrow> nat \<Rightarrow> int \<Rightarrow> int" where
  "day_number y m d = days_before_year y + cum_days (leap y) ! (m - 1) + d - 1 - 719162"

lemma date_midnight: "date y m d 0 0 0 0 = day_number y m d * day_ns"
  by (simp add: date_def day_number_def)

lemma civil_valid: "civil t = (y, m, d) \<Longrightarrow> valid_date y m d"
  using civil_bounds by (simp add: valid_date_def)

lemma civil_day:
  assumes "civil t = (y, m, d)"
  shows "t div day_ns = day_number y m d"
proof -
  obtain y' yd where yy: "year_yday (t div day_ns + 719162) = (y', yd)" by fastforce
  with assms have "y' = y" "d = yd - cum_days (leap y) ! (m - 1) + 1"
    by (auto simp: civil_def Let_def)
  with year_yday_inverse [OF yy] show ?thesis by (simp add: day_number_def)
qed

lemma civil_iff:
  assumes "valid_date y m d"
  shows "civil t = (y, m, d) \<longleftrightarrow> t div day_ns = day_number y m d"
proof
  assume t: "t div day_ns = day_number y m d"
  define yd where "yd = cum_days (leap y) ! (m - 1) + d - 1"
  have "t div day_ns + 719162 = days_before_year y + yd"
    using t by (simp add: day_number_def yd_def)
  moreover have "year_yday (days_before_year y + yd) = (y, yd)"
    using day_of_month [OF assms] by (intro year_yday_unique) (simp_all add: yd_def)
  ultimately have "year_yday (t div day_ns + 719162) = (y, yd)" by simp
  moreover have "month_of (leap y) yd = m" using day_of_month(1) [OF assms] by (simp add: yd_def)
  ultimately show "civil t = (y, m, d)"
    unfolding civil_def Let_def by (simp only: prod.case) (simp add: yd_def)
qed (rule civil_day)

lemma midnight_le: "day * k \<le> t \<longleftrightarrow> day \<le> t div k" if "0 < k" for day t k :: int
proof
  assume "day * k \<le> t"
  then have "day * k div k \<le> t div k" using that by (rule zdiv_mono1)
  then show "day \<le> t div k" using that by simp
next
  assume "day \<le> t div k"
  then have "day * k \<le> t div k * k" using that by simp
  also have "\<dots> \<le> t" using that by (simp add: minus_mod_eq_div_mult [symmetric])
  finally show "day * k \<le> t" .
qed

text \<open>From the first of the month to a day of it is the month; from the first of January to a day of the year is the year.\<close>

lemma civil_from_first_of_month:
  assumes "civil now = (y, m, d)" "day_number y m 1 \<le> t div day_ns" "t \<le> now"
  obtains d' where "civil t = (y, m, d')"
proof -
  define d' where "d' = t div day_ns - day_number y m 1 + 1"
  have "t div day_ns \<le> day_number y m d"
    using assms(3) civil_day [OF assms(1)] by (metis zdiv_mono1 zero_less_numeral zero_less_mult_iff)
  then have "valid_date y m d'"
    using assms(2) civil_valid [OF assms(1)] by (auto simp: valid_date_def d'_def day_number_def)
  moreover have "t div day_ns = day_number y m d'" by (simp add: d'_def day_number_def)
  ultimately have "civil t = (y, m, d')" by (simp only: civil_iff)
  then show ?thesis by (rule that)
qed

lemma year_from_first_of_january:
  assumes "civil now = (y, m, d)" "day_number y 1 1 \<le> t div day_ns" "t \<le> now"
  shows "fst (civil t) = y"
proof -
  define yd where "yd = t div day_ns + 719162 - days_before_year y"
  have first: "cum_days lp ! 0 = 0" for lp by (simp add: cum_days_def)
  have le: "t div day_ns \<le> day_number y m d"
    using assms(3) civil_day [OF assms(1)] by (metis zdiv_mono1 zero_less_numeral zero_less_mult_iff)
  have "0 \<le> yd" using assms(2) by (simp add: yd_def day_number_def first)
  moreover have "yd < year_days y"
    using le day_of_month(3) [OF civil_valid [OF assms(1)]] by (simp add: yd_def day_number_def)
  ultimately have "year_yday (days_before_year y + yd) = (y, yd)" by (rule year_yday_unique)
  then show ?thesis by (simp add: yd_def civil_def Let_def split_beta algebra_simps)
qed

lemma first_of_january_le:
  assumes "civil t = (y, m, d)"
  shows "day_number y 1 1 \<le> t div day_ns"
  using civil_day [OF assms] day_of_month(2) [OF civil_valid [OF assms]]
  by (simp add: day_number_def cum_days_def split: if_splits)

lemma first_of_month_le:
  assumes "civil t = (y, m, d)"
  shows "day_number y m 1 \<le> t div day_ns"
  using civil_day [OF assms] civil_valid [OF assms] by (simp add: day_number_def valid_date_def)

end
