(* ===== verification/ReportingProps.thy ===== *)
theory ReportingProps
  imports Reporting Calendar LedgerProps
begin

text \<open>
  What the reports say. A report in CSV can be read back cell by cell whatever its texts contain; the intervals are those of the
  calendar; and the liability summary is the ledger's book: one row per account, with the net of its postings.
\<close>

section \<open>Reading CSV\<close>

text \<open>
  A reader after RFC 4180, for the statements below: \<open>csv_quoted\<close> reads the rest of a quoted field, \<open>csv_cell\<close> a field, \<open>csv_read\<close> the
  records; \<open>None\<close> is malformed text. The fuel counts the fields, which are at most the characters of the text.
\<close>

fun csv_quoted :: "string \<Rightarrow> (string \<times> string) option" where
  "csv_quoted [] = None"
| "csv_quoted [c] = (if c = CHR ''\"'' then Some ([], []) else None)"
| "csv_quoted (c # d # s) =
     (if c \<noteq> CHR ''\"'' then map_option (apfst ((#) c)) (csv_quoted (d # s))
      else if d = CHR ''\"'' then map_option (apfst ((#) c)) (csv_quoted s)
      else Some ([], d # s))"

definition ends_cell :: "char \<Rightarrow> bool" where
  "ends_cell c \<longleftrightarrow> c = CHR '','' \<or> c = CHR ''\<newline>''"

definition csv_cell :: "string \<Rightarrow> (string \<times> string) option" where
  "csv_cell s =
     (case s of
        c # t \<Rightarrow> if c = CHR ''\"'' then csv_quoted t
                 else Some (takeWhile (\<lambda>c. \<not> ends_cell c) s, dropWhile (\<lambda>c. \<not> ends_cell c) s)
      | [] \<Rightarrow> None)"

fun csv_read :: "nat \<Rightarrow> string list \<Rightarrow> string \<Rightarrow> string list list option" where
  "csv_read 0 row s = None"
| "csv_read (Suc n) row s =
     (case csv_cell s of
        Some (f, c # t) \<Rightarrow>
          if c = CHR '','' then csv_read n (row @ [f]) t
          else if c = CHR ''\<newline>''
               then (if t = [] then Some [row @ [f]] else map_option ((#) (row @ [f])) (csv_read n [] t))
               else None
      | _ \<Rightarrow> None)"

definition csv_parse :: "string \<Rightarrow> string list list option" where
  "csv_parse s = csv_read (length s) [] s"

lemma csv_quoted_doubled:
  "c \<noteq> CHR ''\"'' \<Longrightarrow> csv_quoted (concat (map csv_double f) @ CHR ''\"'' # c # t) = Some (f, c # t)"
proof (induction f)
  case (Cons a f)
  obtain d u where u: "concat (map csv_double f) @ CHR ''\"'' # c # t = d # u"
    by (cases "concat (map csv_double f)") auto
  with Cons show ?case by (cases "a = CHR ''\"''") (simp_all add: csv_double_def [of a] csv_double_def [of "CHR ''\"''"])
qed simp

lemma csv_cell_field:
  assumes "ends_cell c"
  shows "csv_cell (csv_field f @ c # t) = Some (f, c # t)"
proof (cases "fieldNeedsQuotes f")
  case True
  moreover have "c \<noteq> CHR ''\"''" using assms by (auto simp: ends_cell_def)
  ultimately show ?thesis
    using csv_quoted_doubled [of c f t] by (simp add: csv_field_def csv_cell_def)
next
  case False
  then have plain: "\<forall>a \<in> set f. \<not> ends_cell a \<and> a \<noteq> CHR ''\"''"
    by (auto simp: fieldNeedsQuotes_def ends_cell_def list_ex_iff)
  moreover have "c \<noteq> CHR ''\"''" using assms by (auto simp: ends_cell_def)
  ultimately have "csv_cell (f @ c # t) =
      Some (takeWhile (\<lambda>c. \<not> ends_cell c) (f @ c # t), dropWhile (\<lambda>c. \<not> ends_cell c) (f @ c # t))"
    by (cases f) (auto simp: csv_cell_def)
  also have "\<dots> = Some (f, c # t)"
    using plain assms by (simp add: takeWhile_append dropWhile_append)
  finally show ?thesis using False by (simp add: csv_field_def)
qed

lemma length_join: "fs \<noteq> [] \<Longrightarrow> length fs \<le> Suc (length (join '','' fs))"
  by (induction "'','' :: string" fs rule: join.induct) auto

lemma csv_read_record:
  assumes "length fs < n"
  shows "csv_read n row (join '','' (map csv_field (f # fs)) @ CHR ''\<newline>'' # t) =
    (if t = [] then Some [row @ f # fs]
     else map_option ((#) (row @ f # fs)) (csv_read (n - Suc (length fs)) [] t))"
  using assms
proof (induction fs arbitrary: n row f)
  case Nil
  then obtain k where "n = Suc k" by (cases n) auto
  then show ?case by (simp add: csv_cell_field ends_cell_def)
next
  case (Cons g fs)
  then obtain k where k: "n = Suc k" by (cases n) auto
  have "csv_read n row (join '','' (map csv_field (f # g # fs)) @ CHR ''\<newline>'' # t) =
      csv_read k (row @ [f]) (join '','' (map csv_field (g # fs)) @ CHR ''\<newline>'' # t)"
    using csv_cell_field [of "CHR '',''" f] by (simp add: k ends_cell_def)
  with Cons.IH [of k "row @ [f]" g] Cons.prems k show ?case by simp
qed

lemma csv_read_write:
  assumes "recs \<noteq> []" "[] \<notin> set recs" "length (csv_write recs) \<le> n"
  shows "csv_read n [] (csv_write recs) = Some recs"
  using assms
proof (induction recs arbitrary: n)
  case (Cons r recs)
  then obtain f fs where r: "r = f # fs" by (cases r) auto
  define t where "t = csv_write recs"
  have whole: "csv_write (r # recs) = join '','' (map csv_field (f # fs)) @ CHR ''\<newline>'' # t"
    by (simp add: csv_write_def csv_record_def r t_def)
  have len: "length fs \<le> length (join '','' (map csv_field (f # fs)))"
    using length_join [of "map csv_field (f # fs)"] by simp
  then have n: "length fs < n" "length t \<le> n - Suc (length fs)"
    using Cons.prems(3) by (simp_all add: whole)
  have "t = [] \<longleftrightarrow> recs = []"
    by (cases recs) (auto simp: t_def csv_write_def csv_record_def)
  moreover have "csv_read (n - Suc (length fs)) [] t = Some recs" if "recs \<noteq> []"
    unfolding t_def using that Cons.prems(2) n(2) by (intro Cons.IH) (simp_all add: t_def)
  ultimately show ?case
    unfolding whole csv_read_record [OF n(1)] by (auto simp: r)
qed simp

lemma csv_parse_write: "recs \<noteq> [] \<Longrightarrow> [] \<notin> set recs \<Longrightarrow> csv_parse (csv_write recs) = Some recs"
  by (simp add: csv_parse_def csv_read_write)

lemma csv_table_rows:
  "heads \<noteq> [] \<Longrightarrow> columns \<noteq> [] \<Longrightarrow> csv_table heads columns p \<noteq> [] \<and> [] \<notin> set (csv_table heads columns p)"
  by (auto simp: csv_table_def cells_def)

lemma columns_nonempty [simp]: "head_columns \<noteq> []" "event_columns \<noteq> []" "liability_columns \<noteq> []" "statement_columns \<noteq> []"
  by (simp_all add: head_columns_def event_columns_def liability_columns_def statement_columns_def)

lemma report_reads_back: "csv_parse (payloadToCSV rt p) = Some (csv_records rt p)"
proof -
  have "csv_records rt p \<noteq> [] \<and> [] \<notin> set (csv_records rt p)"
    by (cases rt) (simp_all add: csv_table_rows)
  then show ?thesis by (simp add: payloadToCSV_def csv_parse_write)
qed

section \<open>Intervals\<close>

text \<open>
  C36: the intervals of the reports are those of the calendar. Day, month and year to date hold exactly the instants that are not after
  the time of the report and have the same date, the same month and year, or the same year; the zero time, which stands for an
  unreadable timestamp, belongs to none of them. Life to date holds everything.
\<close>

theorem report_interval_calendar:
  "(inInterval ts REPORT_INTERVAL_DTD now \<longleftrightarrow> ts \<noteq> zero_time \<and> ts \<le> now \<and> civil ts = civil now) \<and>
   (inInterval ts REPORT_INTERVAL_MTD now \<longleftrightarrow> ts \<noteq> zero_time \<and> ts \<le> now \<and>
      fst (civil ts) = fst (civil now) \<and> fst (snd (civil ts)) = fst (snd (civil now))) \<and>
   (inInterval ts REPORT_INTERVAL_YTD now \<longleftrightarrow> ts \<noteq> zero_time \<and> ts \<le> now \<and> fst (civil ts) = fst (civil now)) \<and>
   inInterval ts REPORT_INTERVAL_LTD now"
proof -
  obtain y m d where now: "civil now = (y, m, d)" by (metis prod_cases3)
  obtain y' m' d' where ts: "civil ts = (y', m', d')" by (metis prod_cases3)
  have start: "date a b c 0 0 0 0 \<le> ts \<longleftrightarrow> day_number a b c \<le> ts div day_ns" for a b c
    unfolding date_midnight by (rule midnight_le) simp
  have le: "ts div day_ns \<le> now div day_ns" if "ts \<le> now" using that by (intro zdiv_mono1) auto
  have "civil ts = civil now \<longleftrightarrow> day_number y m d \<le> ts div day_ns"
      "y' = y \<and> m' = m \<longleftrightarrow> day_number y m 1 \<le> ts div day_ns"
      "y' = y \<longleftrightarrow> day_number y 1 1 \<le> ts div day_ns" if "ts \<le> now"
  proof -
    show "civil ts = civil now \<longleftrightarrow> day_number y m d \<le> ts div day_ns"
      using le [OF that] civil_iff [OF civil_valid [OF now], of ts] civil_day [OF now] by (auto simp: now)
    show "y' = y \<and> m' = m \<longleftrightarrow> day_number y m 1 \<le> ts div day_ns"
      using that first_of_month_le [OF ts] civil_from_first_of_month [OF now _ that] ts by auto
    show "y' = y \<longleftrightarrow> day_number y 1 1 \<le> ts div day_ns"
      using that first_of_january_le [OF ts] year_from_first_of_january [OF now _ that] ts by auto
  qed
  then show ?thesis
    unfolding inInterval_def intervalStart_def by (simp add: now ts not_less start conj_commute cong: conj_cong)
qed

section \<open>The liability summary\<close>

text \<open>Two more facts about every book: it has finitely many accounts, and none has a pending balance.\<close>

definition book_settled :: "book \<Rightarrow> bool" where
  "book_settled b \<longleftrightarrow> finite (dom (bk_accounts b)) \<and> (\<forall>a acct. bk_accounts b a = Some acct \<longrightarrow> acct_pending acct = 0)"

lemma book_settled_step: "book_step b b' \<Longrightarrow> book_settled b \<Longrightarrow> book_settled b'"
  by (induction rule: book_step.induct) (auto simp: book_settled_def new_account_def)

lemma book_settled_run: "book_settled (book_of (ledger_runs x is))"
  using ledger_runs_book [of x "is"]
  by (induction rule: rtranclp_induct) (auto simp: book_settled_step, simp add: empty_book_def book_settled_def)

lemma liability_of_eq:
  "liability_of accts = (map (\<lambda>(a, c, v, p). account_entries a c v p) accts,
     \<Sum>(a, c, v, p) \<leftarrow> accts. v, \<Sum>(a, c, v, p) \<leftarrow> accts. p)"
proof -
  have "foldl add_liability (rows, m, n) accts = (rows @ map (\<lambda>(a, c, v, p). account_entries a c v p) accts,
      m + (\<Sum>(a, c, v, p) \<leftarrow> accts. v), n + (\<Sum>(a, c, v, p) \<leftarrow> accts. p))" for rows m n
    by (induction accts arbitrary: rows m n) (auto simp: add_liability_def)
  then show ?thesis by (simp add: liability_of_def)
qed

lemma map_filter_Some: "(\<And>k. k \<in> set ks \<Longrightarrow> f k = Some (g k)) \<Longrightarrow> List.map_filter f ks = map g ks"
  by (induction ks) (simp_all add: List.map_filter_simps)

definition currency_at :: "ledger \<Rightarrow> string \<Rightarrow> string" where
  "currency_at lg a = (case accounts lg a of None \<Rightarrow> [] | Some acct \<Rightarrow> acct_currency acct)"

lemma liabilities_book:
  fixes x "is" defines "lg \<equiv> ledger_runs x is"
  assumes "\<forall>a \<in> dom (accounts lg). \<not> house_account a"
  shows "liabilities_in_memory lg =
    (map (\<lambda>a. account_entries a (currency_at lg a) (net_of a (postingsByTx lg)) 0) (sorted_keys (accounts lg)),
     \<Sum>a \<in> dom (accounts lg). net_of a (postingsByTx lg), 0)"
proof -
  let ?k = "sorted_keys (accounts lg)"
  let ?row = "\<lambda>a. (a, currency_at lg a, net_of a (postingsByTx lg), 0 :: i64)"
  have fin: "finite (dom (accounts lg))" and pending: "accounts lg a = Some acct \<Longrightarrow> acct_pending acct = 0" for a acct
    using book_settled_run [of x "is"] by (simp_all add: book_settled_def book_of_def lg_def)
  have keys: "set ?k = dom (accounts lg)" "distinct ?k" using fin by (simp_all add: sorted_keys_def)
  have "map_option (\<lambda>acct. (a, acct_currency acct, acct_available acct, acct_pending acct)) (accounts lg a) = Some (?row a)"
    if mem: "a \<in> set ?k" for a
  proof -
    obtain acct where acct: "accounts lg a = Some acct" using mem keys by auto
    have "balance_of a (accounts lg) = net_of a (postingsByTx lg)"
      using ledger_reachable [of x "is"] assms(2) acct by (auto simp: book_double_entry_def book_of_def lg_def)
    then show ?thesis using pending [OF acct] by (simp add: acct balance_of_def currency_at_def)
  qed
  then have "List.map_filter (\<lambda>a. map_option (\<lambda>acct. (a, acct_currency acct, acct_available acct, acct_pending acct))
      (accounts lg a)) ?k = map ?row ?k"
    by (rule map_filter_Some)
  moreover have "(\<Sum>a \<leftarrow> ?k. net_of a (postingsByTx lg)) = (\<Sum>a \<in> dom (accounts lg). net_of a (postingsByTx lg))"
    using keys by (simp add: sum.distinct_set_conv_list flip: keys(1))
  moreover have "(\<Sum>a \<leftarrow> ks. 0 :: i64) = 0" for ks :: "string list" by (induction ks) simp_all
  ultimately show ?thesis
    by (simp add: liabilities_in_memory_def liability_of_eq comp_def)
qed

lemma reporting_appendAudit_mem:
  assumes "mem_idle x s"
  obtains st n where "reporting_appendAudit x e meta oid act b a r why s = (True, s\<lparr>svc_AuditStore := st, svc_nextAuditID := n\<rparr>)"
    "mem_idle x (s\<lparr>svc_AuditStore := st, svc_nextAuditID := n\<rparr>)"
  by (rule svc_append_mem [OF assms]) (rule that [unfolded reporting_appendAudit_def])

definition run_id :: "reporting_service \<Rightarrow> string" where
  "run_id s = ''report-'' @ itoa_nat (Suc (nextRunID s))"

lemma record_run_mem:
  fixes e r p noActivity
  assumes "mem_idle x s" "\<not> reporting_disableInMemoryCache s"
  defines "run \<equiv> new_run e r (run_id s) p noActivity"
  obtains s' where "record_run x e r p noActivity s = (run_ok e (Gen_Meta r) run, s')"
    "runs s' = (runs s)(run_id s \<mapsto> run)" "runOrder s' = runOrder s @ [run_id s]" "svc_db s' = None"
proof -
  define s1 where "s1 = s\<lparr>nextRunID := Suc (nextRunID s), runs := (runs s)(run_id s \<mapsto> run), runOrder := runOrder s @ [run_id s]\<rparr>"
  have id: "ReportRunId run = run_id s" by (simp add: run_def new_run_def)
  have mem: "mem_idle x s1" using assms(1) by (simp add: mem_idle_def svc_ok_def s1_def)
  obtain st n where aud: "reporting_appendAudit x e (Gen_Meta r) (run_id s) ''generate_report'' json_empty (run_json run) ResultSuccess [] s1
      = (True, s1\<lparr>svc_AuditStore := st, svc_nextAuditID := n\<rparr>)"
    by (rule reporting_appendAudit_mem [OF mem])
  have "nextRunIDLocked s = (run_id s, s\<lparr>nextRunID := Suc (nextRunID s)\<rparr>)"
    by (simp add: nextRunIDLocked_def run_id_def Let_def)
  moreover have "keep_run run (s\<lparr>nextRunID := Suc (nextRunID s)\<rparr>) = s1"
    using assms(2) by (simp add: keep_run_def id s1_def)
  moreover have "svc_db s1 = None" using mem by (simp add: mem_idle_def)
  ultimately have "record_run x e r p noActivity s = (run_ok e (Gen_Meta r) run, s1\<lparr>svc_AuditStore := st, svc_nextAuditID := n\<rparr>)"
    using aud by (simp add: record_run_def Let_def persistReportRun_def svc_exec_def run_def)
  then show ?thesis
    by (rule that) (use \<open>svc_db s1 = None\<close> in \<open>simp_all add: s1_def\<close>)
qed

lemma itoa_zero: "itoa 0 = ''0''"
  by code_simp

text \<open>The cells of a liability row and of the second record of the report.\<close>

lemma liability_cells:
  "cells liability_columns (account_entries a c v p) = [a, c, itoa (sint v), itoa (sint p), itoa (sint (v + p))]"
  by (simp add: cells_def liability_columns_def account_entries_def toString_def)

definition liability_payload :: "env \<Rightarrow> report_interval \<Rightarrow> string \<Rightarrow> liabilities \<Rightarrow> entries" where
  "liability_payload e interval operatorID l =
     fst (report_payload e REPORT_TYPE_CASHLESS_LIABILITY_SUMMARY interval operatorID
            [(''total_available'', AInt (sint (fst (snd l)))), (''total_pending'', AInt (sint (snd (snd l))))] (fst l))"

lemma liability_records:
  assumes "rows \<noteq> []"
  shows "csv_records REPORT_TYPE_CASHLESS_LIABILITY_SUMMARY (liability_payload e interval operatorID (rows, m, n)) =
    [head_columns @ [''total_available'', ''total_pending''],
     [operatorID, ''Cashless Liability Summary'', interval_string interval, fmt_rfc3339nano (env_now e), itoa (sint m), itoa (sint n)],
     liability_columns] @ map (cells liability_columns) rows"
  using assms
  by (simp add: csv_table_def liability_payload_def report_payload_def payload_rows_def cells_def head_columns_def toString_def)

text \<open>
  C13: the liability summary is the ledger's book. Whatever was called on a ledger without a database, a liability report in CSV over it
  is accepted, and reading its text back gives exactly one row per account, in the order of the identifiers, with the net of the
  account's postings and no pending amount, under totals that are the sum of those nets; a later look-up gives the same
  report. The customers' accounts are not named like those of the house.
\<close>

theorem liability_report_is_book:
  fixes x "is" defines "lg \<equiv> ledger_runs x is"
  assumes "mem_idle x s" "\<not> reporting_disableInMemoryCache s" "rep_Ledger s = Some lg"
    and "authorize_backoffice ctx (Gen_Meta r) = None" "Gen_ReportType r = REPORT_TYPE_CASHLESS_LIABILITY_SUMMARY"
    and "Gen_Format r = REPORT_FORMAT_CSV" "Gen_Interval r \<noteq> REPORT_INTERVAL_UNSPECIFIED"
    and "accounts lg \<noteq> Map.empty" "\<forall>a \<in> dom (accounts lg). \<not> house_account a"
  shows "\<exists>run s'. GenerateReport x e ctx (Some r) s = (Returns (run_ok e (Gen_Meta r) run), s') \<and>
    csv_parse (Content run) = Some (
      [head_columns @ [''total_available'', ''total_pending''],
       [Gen_OperatorId r, ''Cashless Liability Summary'', interval_string (Gen_Interval r), fmt_rfc3339nano (env_now e),
        itoa (sint (\<Sum>a \<in> dom (accounts lg). net_of a (postingsByTx lg))), ''0''],
       liability_columns] @
      map (\<lambda>a. [a, currency_at lg a, itoa (sint (net_of a (postingsByTx lg))), ''0'', itoa (sint (net_of a (postingsByTx lg)))])
        (sorted_keys (accounts lg))) \<and>
    fst (GetReportRun x e ctx (Some \<lparr>RunGet_Meta = Gen_Meta r, RunGet_ReportRunId = ReportRunId run\<rparr>) s') = run_ok e (Gen_Meta r) run"
proof -
  let ?rows = "map (\<lambda>a. account_entries a (currency_at lg a) (net_of a (postingsByTx lg)) 0) (sorted_keys (accounts lg))"
  let ?total = "\<Sum>a \<in> dom (accounts lg). net_of a (postingsByTx lg)"
  let ?p = "liability_payload e (Gen_Interval r) (Gen_OperatorId r) (?rows, ?total, 0)"
  let ?run = "new_run e r (run_id s) ?p False"
  have db: "svc_db s = None" using assms(2) by (simp add: mem_idle_def)
  have mu: "\<not> mu lg" using ledger_sim.always_inv [OF refl, of x "is"] by (simp add: lg_def ledger_runs_def ledger_idle_def)
  have lia: "liabilities_in_memory lg = (?rows, ?total, 0)"
    unfolding lg_def by (rule liabilities_book) (use assms(10) in \<open>simp add: lg_def\<close>)
  have rows: "?rows \<noteq> []"
    using assms(9) book_settled_run [of x "is"] by (simp add: sorted_keys_def book_settled_def book_of_def lg_def)
  have "buildCashlessLiabilityPayload x e (Gen_Interval r) (Gen_OperatorId r) s = (Returns (?p, False), s)"
    using rows mu assms(3,4) lia
    by (simp add: buildCashlessLiabilityPayload_def db_rows_def svc_query_def db rows_or_memory_def reporting_useInMemoryCache_def
        liability_payload_def report_payload_def)
  moreover obtain s' where s': "record_run x e r ?p False s = (run_ok e (Gen_Meta r) ?run, s')"
      "runs s' = (runs s)(run_id s \<mapsto> ?run)" "svc_db s' = None"
    by (rule record_run_mem [OF assms(2,3)])
  ultimately have "GenerateReport x e ctx (Some r) s = (Returns (run_ok e (Gen_Meta r) ?run), s')"
    using assms(5-8) by (simp add: GenerateReport_def)
  moreover have "csv_parse (Content ?run) = Some (csv_records REPORT_TYPE_CASHLESS_LIABILITY_SUMMARY ?p)"
    using assms(6,7) by (simp add: new_run_def report_reads_back)
  moreover have "fst (GetReportRun x e ctx (Some \<lparr>RunGet_Meta = Gen_Meta r, RunGet_ReportRunId = ReportRunId ?run\<rparr>) s') =
      run_ok e (Gen_Meta r) ?run"
    using s' assms(5) by (simp add: GetReportRun_def found_run_def new_run_def run_id_def)
  moreover have "csv_records REPORT_TYPE_CASHLESS_LIABILITY_SUMMARY ?p =
      [head_columns @ [''total_available'', ''total_pending''],
       [Gen_OperatorId r, ''Cashless Liability Summary'', interval_string (Gen_Interval r), fmt_rfc3339nano (env_now e),
        itoa (sint ?total), ''0''], liability_columns] @
      map (\<lambda>a. [a, currency_at lg a, itoa (sint (net_of a (postingsByTx lg))), ''0'', itoa (sint (net_of a (postingsByTx lg)))])
        (sorted_keys (accounts lg))"
    unfolding liability_records [OF rows] by (simp add: liability_cells itoa_zero)
  ultimately show ?thesis by (intro exI [of _ ?run] exI [of _ s'] conjI; simp only:)
qed

definition demo_report :: generate_request where
  "demo_report = \<lparr>Gen_Meta = demo_meta ''k1'', Gen_ReportType = REPORT_TYPE_CASHLESS_LIABILITY_SUMMARY,
     Gen_Interval = REPORT_INTERVAL_LTD, Gen_Format = REPORT_FORMAT_CSV, Gen_OperatorId = ''op, \"1\"''\<rparr>"

definition demo_reporting :: reporting_service where
  "demo_reporting = NewReportingService (Some (ledger_runs demo_ext demo_run)) None None"

lemma demo_book:
  "accounts (ledger_runs demo_ext demo_run) = [''acct-1'' \<mapsto> (new_account ''acct-1'' ''USD'')\<lparr>acct_available := 500\<rparr>] \<and>
   net_of ''acct-1'' (postingsByTx (ledger_runs demo_ext demo_run)) = 500"
  using demo_run_posted
  by (auto simp: posted_def account_at_def balance_of_def net_of_def posting_net_def posting_def postings_of_def)

theorem liability_report_is_book_witness:
  "\<exists>run s'. GenerateReport demo_ext demo_env None (Some demo_report) demo_reporting = (Returns (run_ok demo_env (demo_meta ''k1'') run), s') \<and>
    csv_parse (Content run) = Some
      [head_columns @ [''total_available'', ''total_pending''],
       [''op, \"1\"'', ''Cashless Liability Summary'', ''REPORT_INTERVAL_LTD'', fmt_rfc3339nano 0, ''500'', ''0''],
       liability_columns, [''acct-1'', ''USD'', ''500'', ''0'', ''500'']]"
proof -
  let ?lg = "ledger_runs demo_ext demo_run"
  have sel: "Gen_Meta demo_report = demo_meta ''k1''" "Gen_ReportType demo_report = REPORT_TYPE_CASHLESS_LIABILITY_SUMMARY"
      "Gen_Format demo_report = REPORT_FORMAT_CSV" "Gen_Interval demo_report = REPORT_INTERVAL_LTD" "Gen_OperatorId demo_report = ''op, \"1\"''"
    by (simp_all add: demo_report_def)
  have s: "mem_idle demo_ext demo_reporting" "\<not> reporting_disableInMemoryCache demo_reporting" "rep_Ledger demo_reporting = Some ?lg"
    by (simp_all add: demo_reporting_def NewReportingService_def mem_idle_def svc_ok_def store_ok_new)
  have auth: "authorize_backoffice None (Gen_Meta demo_report) = None"
    by (simp add: sel authorize_backoffice_def resolveActor_def demo_meta_def operator_or_service_def)
  have dec: "itoa 500 = ''500''" by code_simp
  have keys: "sorted_keys [''acct-1'' \<mapsto> a] = [''acct-1'']" for a :: ledgerAccount by (simp add: sorted_keys_def)
  have book: "accounts ?lg = [''acct-1'' \<mapsto> (new_account ''acct-1'' ''USD'')\<lparr>acct_available := 500\<rparr>]"
      "net_of ''acct-1'' (postingsByTx ?lg) = 500"
    using demo_book by blast+
  have hyps: "Gen_Interval demo_report \<noteq> REPORT_INTERVAL_UNSPECIFIED" "accounts ?lg \<noteq> Map.empty"
      "\<forall>a \<in> dom (accounts ?lg). \<not> house_account a"
    by (simp_all add: sel(4) book(1))
  have vals: "currency_at ?lg ''acct-1'' = ''USD''" "sorted_keys (accounts ?lg) = [''acct-1'']"
      "(\<Sum>a \<in> dom (accounts ?lg). net_of a (postingsByTx ?lg)) = 500"
    by (simp_all add: currency_at_def new_account_def book keys)
  from liability_report_is_book [OF s auth sel(2,3) hyps, of demo_env] show ?thesis
    by (elim exE conjE, intro exI conjI) (simp only: sel, simp add: vals book(2) sel dec demo_env_def)
qed

end
