(* ===== verification/Extensions.thy ===== *)
theory Extensions
  imports Pagination Sorting
begin

text \<open>
  The extension services, \<^verbatim>\<open>internal/platform/server/extensions_grpc.go\<close> and \<^verbatim>\<open>extensions_postgres.go\<close>: bonus transactions and
  promotional awards (\<^verbatim>\<open>PromotionsService\<close>), and the events of the system window (\<^verbatim>\<open>UISystemOverlayService\<close>). A record gets an
  identifier and a time unless the caller gave them, is kept in memory, stored and only then audited.
\<close>

section \<open>Messages and state\<close>

datatype promotional_award_type =
    PROMOTIONAL_AWARD_TYPE_UNSPECIFIED | PROMOTIONAL_AWARD_TYPE_FREEPLAY | PROMOTIONAL_AWARD_TYPE_MATCH_BONUS
  | PROMOTIONAL_AWARD_TYPE_LOYALTY_POINTS | PROMOTIONAL_AWARD_TYPE_NON_CASHABLE_CREDIT | PROMOTIONAL_AWARD_TYPE_OTHER i32

datatype system_window_event_type =
    SYSTEM_WINDOW_EVENT_TYPE_UNSPECIFIED | SYSTEM_WINDOW_EVENT_TYPE_OPENED | SYSTEM_WINDOW_EVENT_TYPE_CLOSED
  | SYSTEM_WINDOW_EVENT_TYPE_DECLINED | SYSTEM_WINDOW_EVENT_TYPE_TIMED_OUT | SYSTEM_WINDOW_EVENT_TYPE_OTHER i32

record bonus_transaction =
  BonusTransactionId :: string
  BnEquipmentId :: string
  BnPlayerId :: string
  BnCampaignId :: string
  MeterName :: string
  BnAmount :: "money option"
  BnOccurredAt :: string

record promotional_award =
  PromotionalAwardId :: string
  AwPlayerId :: string
  AwardType :: promotional_award_type
  AwAmount :: "money option"
  AwCampaignId :: string
  AwOccurredAt :: string

record system_window_event =
  WinEventId :: string
  WinEquipmentId :: string
  WinPlayerId :: string
  WindowId :: string
  WinEventType :: system_window_event_type
  EventTime :: string
  Details :: string

record 'a ext_request =
  Ext_Meta :: "request_meta option"
  Ext_Item :: "'a option"

record 'a ext_response =
  ExtMeta :: response_meta
  ExtItem :: "'a option"

record bonus_list_request =
  BnList_Meta :: "request_meta option"
  BnList_EquipmentId :: string
  Limit :: i32

record award_list_request =
  AwList_Meta :: "request_meta option"
  AwList_PlayerId :: string
  AwList_CampaignId :: string
  AwList_PageSize :: i32
  AwList_PageToken :: string

record window_list_request =
  WinList_Meta :: "request_meta option"
  WinList_EquipmentId :: string
  WinList_FromTime :: string
  WinList_ToTime :: string
  WinList_PageSize :: i32
  WinList_PageToken :: string

text \<open>The list of bonus transactions has no next token; it is empty here.\<close>

record 'a ext_list_response =
  ExtListMeta :: response_meta
  ExtListItems :: "'a list"
  ExtListNext :: string

record bonus_row =
  bn_bonus_transaction_id :: string
  bn_equipment_id :: string
  bn_player_id :: string
  bn_campaign_id :: string
  bn_meter_name :: string
  bn_amount_minor :: i64
  bn_currency_code :: string
  bn_occurred_at :: time

record award_row =
  aw_promotional_award_id :: string
  aw_player_id :: string
  aw_award_type :: string
  aw_campaign_id :: string
  aw_amount_minor :: i64
  aw_currency_code :: string
  aw_occurred_at :: time

record window_row =
  wn_event_id :: string
  wn_equipment_id :: string
  wn_player_id :: string
  wn_window_id :: string
  wn_event_type :: string
  wn_details :: string
  wn_event_time :: time

record extension_db = dbcore +
  bonus_transactions :: "bonus_row list"
  promotional_awards :: "award_row list"
  system_window_events :: "window_row list"

record promotions_service = "extension_db svc" +
  bonusTx :: "string \<rightharpoonup> bonus_transaction"
  bonusOrder :: "string list"
  awards :: "string \<rightharpoonup> promotional_award"
  awardOrder :: "string list"
  nextBonusID :: nat
  nextAwardID :: nat
  promo_disableInMemoryCache :: bool

record overlay_service = "extension_db svc" +
  windowEvents :: "string \<rightharpoonup> system_window_event"
  windowOrder :: "string list"
  nextEventID :: nat
  overlay_disableInMemoryCache :: bool

definition NewPromotionsService :: "extension_db option \<Rightarrow> promotions_service" where
  "NewPromotionsService handle =
     \<lparr>svc_AuditStore = Some NewInMemoryStore, svc_nextAuditID = 0, svc_db = handle, bonusTx = Map.empty, bonusOrder = [],
      awards = Map.empty, awardOrder = [], nextBonusID = 0, nextAwardID = 0, promo_disableInMemoryCache = False\<rparr>"

definition promo_SetDisableInMemoryCache :: "bool \<Rightarrow> promotions_service \<Rightarrow> promotions_service" where
  "promo_SetDisableInMemoryCache disable s = s\<lparr>promo_disableInMemoryCache := disable\<rparr>"

definition NewUISystemOverlayService :: "extension_db option \<Rightarrow> overlay_service" where
  "NewUISystemOverlayService handle =
     \<lparr>svc_AuditStore = Some NewInMemoryStore, svc_nextAuditID = 0, svc_db = handle, windowEvents = Map.empty, windowOrder = [],
      nextEventID = 0, overlay_disableInMemoryCache = False\<rparr>"

definition overlay_SetDisableInMemoryCache :: "bool \<Rightarrow> overlay_service \<Rightarrow> overlay_service" where
  "overlay_SetDisableInMemoryCache disable s = s\<lparr>overlay_disableInMemoryCache := disable\<rparr>"

definition promo_appendAudit ::
    "ext \<Rightarrow> env \<Rightarrow> request_meta option \<Rightarrow> string \<Rightarrow> string \<Rightarrow> string \<Rightarrow> string \<Rightarrow> string \<Rightarrow> string \<Rightarrow> string
     \<Rightarrow> promotions_service \<Rightarrow> bool \<times> promotions_service" where
  "promo_appendAudit x e meta objectType objectID action before after result reason =
     svc_append x e (\<lambda>n. audit_event e (''promotions-audit-'' @ itoa_nat n) meta objectType objectID action
                           before after result reason)"

definition overlay_appendAudit ::
    "ext \<Rightarrow> env \<Rightarrow> request_meta option \<Rightarrow> string \<Rightarrow> string \<Rightarrow> string \<Rightarrow> string \<Rightarrow> string \<Rightarrow> string
     \<Rightarrow> overlay_service \<Rightarrow> bool \<times> overlay_service" where
  "overlay_appendAudit x e meta objectID action before after result reason =
     svc_append x e (\<lambda>n. audit_event e (''ui-overlay-audit-'' @ itoa_nat n) meta ''system_window_event'' objectID action
                           before after result reason)"

section \<open>Times and types\<close>

definition parseRFC3339OrZero :: "string \<Rightarrow> time" where
  "parseRFC3339OrZero v = (if v = [] then zero_time else (case parse_rfc3339nano v of None \<Rightarrow> zero_time | Some t \<Rightarrow> t))"

definition parseRFC3339Strict :: "string \<Rightarrow> time option" where
  "parseRFC3339Strict v = (if v = [] then Some zero_time else parse_rfc3339nano v)"

definition validPromotionalAwardType :: "promotional_award_type \<Rightarrow> bool" where
  "validPromotionalAwardType t \<longleftrightarrow>
     t \<in> {PROMOTIONAL_AWARD_TYPE_FREEPLAY, PROMOTIONAL_AWARD_TYPE_MATCH_BONUS, PROMOTIONAL_AWARD_TYPE_LOYALTY_POINTS,
          PROMOTIONAL_AWARD_TYPE_NON_CASHABLE_CREDIT}"

definition validSystemWindowEventType :: "system_window_event_type \<Rightarrow> bool" where
  "validSystemWindowEventType t \<longleftrightarrow>
     t \<in> {SYSTEM_WINDOW_EVENT_TYPE_OPENED, SYSTEM_WINDOW_EVENT_TYPE_CLOSED, SYSTEM_WINDOW_EVENT_TYPE_DECLINED,
          SYSTEM_WINDOW_EVENT_TYPE_TIMED_OUT}"

fun award_type_number :: "promotional_award_type \<Rightarrow> int" where
  "award_type_number PROMOTIONAL_AWARD_TYPE_UNSPECIFIED = 0"
| "award_type_number PROMOTIONAL_AWARD_TYPE_FREEPLAY = 1"
| "award_type_number PROMOTIONAL_AWARD_TYPE_MATCH_BONUS = 2"
| "award_type_number PROMOTIONAL_AWARD_TYPE_LOYALTY_POINTS = 3"
| "award_type_number PROMOTIONAL_AWARD_TYPE_NON_CASHABLE_CREDIT = 4"
| "award_type_number (PROMOTIONAL_AWARD_TYPE_OTHER w) = sint w"

fun window_type_number :: "system_window_event_type \<Rightarrow> int" where
  "window_type_number SYSTEM_WINDOW_EVENT_TYPE_UNSPECIFIED = 0"
| "window_type_number SYSTEM_WINDOW_EVENT_TYPE_OPENED = 1"
| "window_type_number SYSTEM_WINDOW_EVENT_TYPE_CLOSED = 2"
| "window_type_number SYSTEM_WINDOW_EVENT_TYPE_DECLINED = 3"
| "window_type_number SYSTEM_WINDOW_EVENT_TYPE_TIMED_OUT = 4"
| "window_type_number (SYSTEM_WINDOW_EVENT_TYPE_OTHER w) = sint w"

text \<open>The conversion of an \<^verbatim>\<open>int\<close> to the enumeration keeps its low 32 bits; only the valid types are accepted.\<close>

definition parsePromotionalAwardType :: "string \<Rightarrow> promotional_award_type option" where
  "parsePromotionalAwardType raw =
     Option.bind (atoi raw) (\<lambda>v.
       let w = word_of_int v :: i32
       in if w = 1 then Some PROMOTIONAL_AWARD_TYPE_FREEPLAY
          else if w = 2 then Some PROMOTIONAL_AWARD_TYPE_MATCH_BONUS
          else if w = 3 then Some PROMOTIONAL_AWARD_TYPE_LOYALTY_POINTS
          else if w = 4 then Some PROMOTIONAL_AWARD_TYPE_NON_CASHABLE_CREDIT else None)"

definition parseSystemWindowEventType :: "string \<Rightarrow> system_window_event_type option" where
  "parseSystemWindowEventType raw =
     Option.bind (atoi raw) (\<lambda>v.
       let w = word_of_int v :: i32
       in if w = 1 then Some SYSTEM_WINDOW_EVENT_TYPE_OPENED
          else if w = 2 then Some SYSTEM_WINDOW_EVENT_TYPE_CLOSED
          else if w = 3 then Some SYSTEM_WINDOW_EVENT_TYPE_DECLINED
          else if w = 4 then Some SYSTEM_WINDOW_EVENT_TYPE_TIMED_OUT else None)"

section \<open>The database\<close>

text \<open>\<^verbatim>\<open>GetAmountMinor\<close> and \<^verbatim>\<open>GetCurrency\<close> of a message that may be missing.\<close>

definition amount_minor :: "money option \<Rightarrow> i64" where
  "amount_minor m = (case m of None \<Rightarrow> 0 | Some m \<Rightarrow> AmountMinor m)"

definition amount_currency :: "money option \<Rightarrow> string" where
  "amount_currency m = (case m of None \<Rightarrow> [] | Some m \<Rightarrow> Currency m)"

text \<open>\<^verbatim>\<open>ORDER BY time DESC, id DESC\<close>.\<close>

definition latest_first :: "ext \<Rightarrow> ('r \<Rightarrow> time) \<Rightarrow> ('r \<Rightarrow> string) \<Rightarrow> 'r list \<Rightarrow> 'r list" where
  "latest_first x t k = stable_sort (\<lambda>a b. t b < t a \<or> (t a = t b \<and> pg_text_less x (k b) (k a)))"

definition bonus_row_of :: "ext \<Rightarrow> env \<Rightarrow> bonus_transaction \<Rightarrow> bonus_row option" where
  "bonus_row_of x e tx =
     (case (pg_char3 x (amount_currency (BnAmount tx)), pg_time_of_text x (nonEmptyTime e (BnOccurredAt tx))) of
        (Some currency, Some occurred) \<Rightarrow> Some
          \<lparr>bn_bonus_transaction_id = BonusTransactionId tx, bn_equipment_id = BnEquipmentId tx, bn_player_id = BnPlayerId tx,
           bn_campaign_id = BnCampaignId tx, bn_meter_name = MeterName tx, bn_amount_minor = amount_minor (BnAmount tx),
           bn_currency_code = currency, bn_occurred_at = occurred\<rparr>
      | _ \<Rightarrow> None)"

definition persistBonusTransaction ::
    "ext \<Rightarrow> env \<Rightarrow> bonus_transaction \<Rightarrow> promotions_service \<Rightarrow> bool \<times> promotions_service" where
  "persistBonusTransaction x e tx =
     svc_exec (sql_stmt (\<lambda>d. map_option
       (\<lambda>row. d\<lparr>bonus_transactions := upsert bn_bonus_transaction_id row (bonus_transactions d)\<rparr>) (bonus_row_of x e tx)))"

definition row_to_bonus :: "bonus_row \<Rightarrow> bonus_transaction" where
  "row_to_bonus r =
     \<lparr>BonusTransactionId = bn_bonus_transaction_id r, BnEquipmentId = bn_equipment_id r, BnPlayerId = bn_player_id r,
      BnCampaignId = bn_campaign_id r, MeterName = bn_meter_name r,
      BnAmount = Some (money (bn_amount_minor r) (bn_currency_code r)), BnOccurredAt = fmt_rfc3339nano (bn_occurred_at r)\<rparr>"

definition listBonusTransactionsFromDB ::
    "ext \<Rightarrow> string \<Rightarrow> nat \<Rightarrow> promotions_service \<Rightarrow> bonus_transaction list option \<times> promotions_service" where
  "listBonusTransactionsFromDB x equipmentID limit =
     svc_query (\<lambda>d. map row_to_bonus (take limit (latest_first x bn_occurred_at bn_bonus_transaction_id
       (filter (\<lambda>r. equipmentID = [] \<or> bn_equipment_id r = equipmentID) (bonus_transactions d)))))"

definition award_row_of :: "ext \<Rightarrow> env \<Rightarrow> promotional_award \<Rightarrow> award_row option" where
  "award_row_of x e aw =
     (case (pg_char3 x (amount_currency (AwAmount aw)), pg_time_of_text x (nonEmptyTime e (AwOccurredAt aw))) of
        (Some currency, Some occurred) \<Rightarrow> Some
          \<lparr>aw_promotional_award_id = PromotionalAwardId aw, aw_player_id = AwPlayerId aw,
           aw_award_type = itoa (award_type_number (AwardType aw)), aw_campaign_id = AwCampaignId aw,
           aw_amount_minor = amount_minor (AwAmount aw), aw_currency_code = currency, aw_occurred_at = occurred\<rparr>
      | _ \<Rightarrow> None)"

definition persistPromotionalAward ::
    "ext \<Rightarrow> env \<Rightarrow> promotional_award \<Rightarrow> promotions_service \<Rightarrow> bool \<times> promotions_service" where
  "persistPromotionalAward x e aw =
     svc_exec (sql_stmt (\<lambda>d. map_option
       (\<lambda>row. d\<lparr>promotional_awards := upsert aw_promotional_award_id row (promotional_awards d)\<rparr>) (award_row_of x e aw)))"

definition row_to_award :: "award_row \<Rightarrow> promotional_award option" where
  "row_to_award r =
     map_option (\<lambda>awardType.
       \<lparr>PromotionalAwardId = aw_promotional_award_id r, AwPlayerId = aw_player_id r, AwardType = awardType,
        AwAmount = Some (money (aw_amount_minor r) (aw_currency_code r)), AwCampaignId = aw_campaign_id r,
        AwOccurredAt = fmt_rfc3339nano (aw_occurred_at r)\<rparr>)
     (parsePromotionalAwardType (aw_award_type r))"

text \<open>A row that cannot be read fails the whole page.\<close>

definition db_page :: "nat \<Rightarrow> nat \<Rightarrow> 'a list option \<Rightarrow> ('a list \<times> string) option" where
  "db_page limit offset rows = map_option (\<lambda>out. (out, db_next offset limit out)) rows"

definition listPromotionalAwardsFromDB ::
    "ext \<Rightarrow> string \<Rightarrow> string \<Rightarrow> nat \<Rightarrow> nat \<Rightarrow> promotions_service
     \<Rightarrow> (promotional_award list \<times> string) option \<times> promotions_service" where
  "listPromotionalAwardsFromDB x playerID campaignID limit offset s =
     map_prod (\<lambda>r. Option.bind r (db_page limit offset)) id
       (svc_query (\<lambda>d. those (map row_to_award (take limit (drop offset (latest_first x aw_occurred_at aw_promotional_award_id
         (filter (\<lambda>r. (playerID = [] \<or> aw_player_id r = playerID) \<and> (campaignID = [] \<or> aw_campaign_id r = campaignID))
           (promotional_awards d))))))) s)"

definition window_row_of :: "ext \<Rightarrow> env \<Rightarrow> system_window_event \<Rightarrow> window_row option" where
  "window_row_of x e ev =
     map_option (\<lambda>t.
       \<lparr>wn_event_id = WinEventId ev, wn_equipment_id = WinEquipmentId ev, wn_player_id = WinPlayerId ev,
        wn_window_id = WindowId ev, wn_event_type = itoa (window_type_number (WinEventType ev)), wn_details = Details ev,
        wn_event_time = t\<rparr>)
     (pg_time_of_text x (nonEmptyTime e (EventTime ev)))"

definition persistSystemWindowEvent ::
    "ext \<Rightarrow> env \<Rightarrow> system_window_event \<Rightarrow> overlay_service \<Rightarrow> bool \<times> overlay_service" where
  "persistSystemWindowEvent x e ev =
     svc_exec (sql_stmt (\<lambda>d. map_option
       (\<lambda>row. d\<lparr>system_window_events := upsert wn_event_id row (system_window_events d)\<rparr>) (window_row_of x e ev)))"

definition row_to_window :: "window_row \<Rightarrow> system_window_event option" where
  "row_to_window r =
     map_option (\<lambda>ty.
       \<lparr>WinEventId = wn_event_id r, WinEquipmentId = wn_equipment_id r, WinPlayerId = wn_player_id r, WindowId = wn_window_id r,
        WinEventType = ty, EventTime = fmt_rfc3339nano (wn_event_time r), Details = wn_details r\<rparr>)
     (parseSystemWindowEventType (wn_event_type r))"

definition listSystemWindowEventsFromDB ::
    "ext \<Rightarrow> string \<Rightarrow> time \<Rightarrow> time \<Rightarrow> nat \<Rightarrow> nat \<Rightarrow> overlay_service
     \<Rightarrow> (system_window_event list \<times> string) option \<times> overlay_service" where
  "listSystemWindowEventsFromDB x equipmentID fromTS toTS limit offset s =
     map_prod (\<lambda>r. Option.bind r (db_page limit offset)) id
       (svc_query (\<lambda>d. those (map row_to_window (take limit (drop offset (latest_first x wn_event_time wn_event_id
         (filter (\<lambda>r. (equipmentID = [] \<or> wn_equipment_id r = equipmentID) \<and>
              (case nullTime fromTS of None \<Rightarrow> True | Some t \<Rightarrow> pg_timestamptz x t \<le> wn_event_time r) \<and>
              (case nullTime toTS of None \<Rightarrow> True | Some t \<Rightarrow> wn_event_time r \<le> pg_timestamptz x t))
           (system_window_events d))))))) s)"

section \<open>Answers\<close>

definition ext_answer :: "env \<Rightarrow> request_meta option \<Rightarrow> result_code \<Rightarrow> string \<Rightarrow> 'a option \<Rightarrow> 'a ext_response" where
  "ext_answer e meta code reason item = \<lparr>ExtMeta = responseMeta e meta code reason, ExtItem = item\<rparr>"

definition ext_list_answer ::
    "env \<Rightarrow> request_meta option \<Rightarrow> result_code \<Rightarrow> string \<Rightarrow> 'a list \<times> string \<Rightarrow> 'a ext_list_response" where
  "ext_list_answer e meta code reason p =
     \<lparr>ExtListMeta = responseMeta e meta code reason, ExtListItems = fst p, ExtListNext = snd p\<rparr>"

text \<open>The end of the three recording handlers: the record is stored, then audited.\<close>

definition stored_then_audited ::
    "env \<Rightarrow> request_meta option \<Rightarrow> 'a \<Rightarrow> ('s \<Rightarrow> bool \<times> 's) \<Rightarrow> ('s \<Rightarrow> bool \<times> 's) \<Rightarrow> 's \<Rightarrow> 'a ext_response \<times> 's" where
  "stored_then_audited e meta item persist aud s =
     (case persist s of
        (False, s1) \<Rightarrow> (ext_answer e meta RESULT_CODE_ERROR ''persistence unavailable'' None, s1)
      | (True, s1) \<Rightarrow>
          (case aud s1 of
             (False, s2) \<Rightarrow> (ext_answer e meta RESULT_CODE_ERROR ''audit unavailable'' None, s2)
           | (True, s2) \<Rightarrow> (ext_answer e meta RESULT_CODE_OK [] (Some item), s2)))"

definition promo_denied ::
    "ext \<Rightarrow> env \<Rightarrow> request_meta option \<Rightarrow> string \<Rightarrow> string \<Rightarrow> string \<Rightarrow> string \<Rightarrow> promotions_service \<Rightarrow> promotions_service" where
  "promo_denied x e meta objectType objectID action reason s =
     snd (promo_appendAudit x e meta objectType objectID action json_empty json_empty ResultDenied reason s)"

definition overlay_denied ::
    "ext \<Rightarrow> env \<Rightarrow> request_meta option \<Rightarrow> string \<Rightarrow> string \<Rightarrow> string \<Rightarrow> overlay_service \<Rightarrow> overlay_service" where
  "overlay_denied x e meta objectID action reason s =
     snd (overlay_appendAudit x e meta objectID action json_empty json_empty ResultDenied reason s)"

section \<open>Bonus transactions\<close>

definition bonus_json :: "bonus_transaction \<Rightarrow> string" where
  "bonus_json tx = json_encode (JObject (
     jstr ''bonus_transaction_id'' (BonusTransactionId tx) @ jstr ''equipment_id'' (BnEquipmentId tx) @
     jstr ''player_id'' (BnPlayerId tx) @ jstr ''campaign_id'' (BnCampaignId tx) @ jstr ''meter_name'' (MeterName tx) @
     jopt ''amount'' (map_option money_json (BnAmount tx)) @ jstr ''occurred_at'' (BnOccurredAt tx)))"

definition nextBonusIDLocked :: "promotions_service \<Rightarrow> string \<times> promotions_service" where
  "nextBonusIDLocked s = (let n = Suc (nextBonusID s) in (''bonus-'' @ itoa_nat n, s\<lparr>nextBonusID := n\<rparr>))"

text \<open>What of a request is refused before the caller is checked: the object of the audit event, its reason and the answer.\<close>

definition bonus_invalid :: "bonus_transaction ext_request option \<Rightarrow> (string \<times> string \<times> string) option" where
  "bonus_invalid req =
     (case Option.bind req Ext_Item of
        None \<Rightarrow> Some ([], ''invalid request'', ''transaction requires equipment_id, player_id, and positive amount'')
      | Some tx \<Rightarrow>
          if BnEquipmentId tx = [] \<or> BnPlayerId tx = [] \<or> invalidAmount (BnAmount tx)
          then Some ([], ''invalid request'', ''transaction requires equipment_id, player_id, and positive amount'')
          else if BnOccurredAt tx \<noteq> [] \<and> parseRFC3339Strict (BnOccurredAt tx) = None
          then Some (BnEquipmentId tx, ''invalid occurred_at'', ''invalid occurred_at'')
          else None)"

text \<open>The transaction with its identifier and time.\<close>

definition stamped_bonus :: "env \<Rightarrow> bonus_transaction \<Rightarrow> promotions_service \<Rightarrow> bonus_transaction \<times> promotions_service" where
  "stamped_bonus e tx s =
     (case (if BonusTransactionId tx = [] then nextBonusIDLocked s else (BonusTransactionId tx, s)) of (i, s1) \<Rightarrow>
        (tx\<lparr>BonusTransactionId := i,
            BnOccurredAt := (if BnOccurredAt tx = [] then fmt_rfc3339nano (env_now e) else BnOccurredAt tx)\<rparr>, s1))"

definition keep_bonus :: "bonus_transaction \<Rightarrow> promotions_service \<Rightarrow> promotions_service" where
  "keep_bonus tx s =
     (if promo_disableInMemoryCache s then s
      else s\<lparr>bonusTx := (bonusTx s)(BonusTransactionId tx \<mapsto> tx), bonusOrder := bonusOrder s @ [BonusTransactionId tx]\<rparr>)"

definition RecordBonusTransaction ::
    "ext \<Rightarrow> env \<Rightarrow> auth_actor option \<Rightarrow> bonus_transaction ext_request option \<Rightarrow> promotions_service
     \<Rightarrow> bonus_transaction ext_response \<times> promotions_service" where
  "RecordBonusTransaction x e ctx req s =
     (let meta = Option.bind req Ext_Meta; action = ''record_bonus_transaction''
      in case bonus_invalid req of
           Some (objectID, reason, denial) \<Rightarrow>
             (ext_answer e meta RESULT_CODE_INVALID denial None, promo_denied x e meta ''bonus_transaction'' objectID action reason s)
         | None \<Rightarrow>
             (case authorize_backoffice ctx meta of
                Some reason \<Rightarrow>
                  (ext_answer e meta RESULT_CODE_DENIED reason None, promo_denied x e meta ''bonus_transaction'' [] action reason s)
              | None \<Rightarrow>
                  (case stamped_bonus e (the (Option.bind req Ext_Item)) s of (tx, s1) \<Rightarrow>
                     stored_then_audited e meta tx (persistBonusTransaction x e tx)
                       (promo_appendAudit x e meta ''bonus_transaction'' (BonusTransactionId tx) action json_empty (bonus_json tx)
                          ResultSuccess []) (keep_bonus tx s1))))"

text \<open>The transactions in memory, newest first.\<close>

definition bonuses_of :: "string \<Rightarrow> promotions_service \<Rightarrow> bonus_transaction list" where
  "bonuses_of equipmentID s =
     filter (\<lambda>tx. equipmentID = [] \<or> BnEquipmentId tx = equipmentID) (List.map_filter (bonusTx s) (rev (bonusOrder s)))"

definition no_bonus_list_request :: bonus_list_request where
  "no_bonus_list_request = \<lparr>BnList_Meta = None, BnList_EquipmentId = [], Limit = 0\<rparr>"

definition ListRecentBonusTransactions ::
    "ext \<Rightarrow> env \<Rightarrow> auth_actor option \<Rightarrow> bonus_list_request option \<Rightarrow> promotions_service
     \<Rightarrow> bonus_transaction ext_list_response \<times> promotions_service" where
  "ListRecentBonusTransactions x e ctx req s =
     (let r = (case req of None \<Rightarrow> no_bonus_list_request | Some r \<Rightarrow> r); meta = BnList_Meta r; equipmentID = BnList_EquipmentId r;
          denied = promo_denied x e meta ''bonus_transaction'' equipmentID ''list_recent_bonus_transactions'';
          limit = page_size 25 (Limit r)
      in case authorize_backoffice ctx meta of
           Some reason \<Rightarrow> (ext_list_answer e meta RESULT_CODE_DENIED reason ([], []), denied reason s)
         | None \<Rightarrow>
             if sint (Limit r) < 0 \<or> 100 < limit
             then (ext_list_answer e meta RESULT_CODE_INVALID ''invalid limit'' ([], []), denied ''invalid limit'' s)
             else if svc_db s \<noteq> None
             then (case listBonusTransactionsFromDB x equipmentID limit s of
                     (None, s1) \<Rightarrow> (ext_list_answer e meta RESULT_CODE_ERROR ''persistence unavailable'' ([], []), s1)
                   | (Some rows, s1) \<Rightarrow> (ext_list_answer e meta RESULT_CODE_OK [] (rows, []), s1))
             else if promo_disableInMemoryCache s then (ext_list_answer e meta RESULT_CODE_OK [] ([], []), s)
             else (ext_list_answer e meta RESULT_CODE_OK [] (take limit (bonuses_of equipmentID s), []), s))"

section \<open>Promotional awards\<close>

definition award_json :: "promotional_award \<Rightarrow> string" where
  "award_json aw = json_encode (JObject (
     jstr ''promotional_award_id'' (PromotionalAwardId aw) @ jstr ''player_id'' (AwPlayerId aw) @
     jint ''award_type'' (award_type_number (AwardType aw)) @ jopt ''amount'' (map_option money_json (AwAmount aw)) @
     jstr ''campaign_id'' (AwCampaignId aw) @ jstr ''occurred_at'' (AwOccurredAt aw)))"

definition nextAwardIDLocked :: "promotions_service \<Rightarrow> string \<times> promotions_service" where
  "nextAwardIDLocked s = (let n = Suc (nextAwardID s) in (''award-'' @ itoa_nat n, s\<lparr>nextAwardID := n\<rparr>))"

definition award_invalid :: "promotional_award ext_request option \<Rightarrow> (string \<times> string \<times> string) option" where
  "award_invalid req =
     (case Option.bind req Ext_Item of
        None \<Rightarrow> Some ([], ''invalid request'', ''award requires player_id, award_type, and positive amount'')
      | Some aw \<Rightarrow>
          if AwPlayerId aw = [] \<or> \<not> validPromotionalAwardType (AwardType aw) \<or> invalidAmount (AwAmount aw)
          then Some ([], ''invalid request'', ''award requires player_id, award_type, and positive amount'')
          else if AwOccurredAt aw \<noteq> [] \<and> parseRFC3339Strict (AwOccurredAt aw) = None
          then Some (AwPlayerId aw, ''invalid occurred_at'', ''invalid occurred_at'')
          else None)"

definition stamped_award :: "env \<Rightarrow> promotional_award \<Rightarrow> promotions_service \<Rightarrow> promotional_award \<times> promotions_service" where
  "stamped_award e aw s =
     (case (if PromotionalAwardId aw = [] then nextAwardIDLocked s else (PromotionalAwardId aw, s)) of (i, s1) \<Rightarrow>
        (aw\<lparr>PromotionalAwardId := i,
            AwOccurredAt := (if AwOccurredAt aw = [] then fmt_rfc3339nano (env_now e) else AwOccurredAt aw)\<rparr>, s1))"

definition keep_award :: "promotional_award \<Rightarrow> promotions_service \<Rightarrow> promotions_service" where
  "keep_award aw s =
     (if promo_disableInMemoryCache s then s
      else s\<lparr>awards := (awards s)(PromotionalAwardId aw \<mapsto> aw), awardOrder := awardOrder s @ [PromotionalAwardId aw]\<rparr>)"

definition RecordPromotionalAward ::
    "ext \<Rightarrow> env \<Rightarrow> auth_actor option \<Rightarrow> promotional_award ext_request option \<Rightarrow> promotions_service
     \<Rightarrow> promotional_award ext_response \<times> promotions_service" where
  "RecordPromotionalAward x e ctx req s =
     (let meta = Option.bind req Ext_Meta; action = ''record_promotional_award''
      in case award_invalid req of
           Some (objectID, reason, denial) \<Rightarrow>
             (ext_answer e meta RESULT_CODE_INVALID denial None, promo_denied x e meta ''promotional_award'' objectID action reason s)
         | None \<Rightarrow>
             (case authorize_backoffice ctx meta of
                Some reason \<Rightarrow>
                  (ext_answer e meta RESULT_CODE_DENIED reason None, promo_denied x e meta ''promotional_award'' [] action reason s)
              | None \<Rightarrow>
                  (case stamped_award e (the (Option.bind req Ext_Item)) s of (aw, s1) \<Rightarrow>
                     stored_then_audited e meta aw (persistPromotionalAward x e aw)
                       (promo_appendAudit x e meta ''promotional_award'' (PromotionalAwardId aw) action json_empty (award_json aw)
                          ResultSuccess []) (keep_award aw s1))))"

definition awards_of :: "string \<Rightarrow> string \<Rightarrow> promotions_service \<Rightarrow> promotional_award list" where
  "awards_of playerID campaignID s =
     filter (\<lambda>aw. (playerID = [] \<or> AwPlayerId aw = playerID) \<and> (campaignID = [] \<or> AwCampaignId aw = campaignID))
       (List.map_filter (awards s) (rev (awardOrder s)))"

text \<open>The strict reading of a page token: \<open>None\<close> refuses it.\<close>

definition strict_start :: "string \<Rightarrow> nat option" where
  "strict_start token =
     (if token = [] then Some 0
      else (case atoi token of None \<Rightarrow> None | Some n \<Rightarrow> if n < 0 then None else Some (nat n)))"

definition no_award_list_request :: award_list_request where
  "no_award_list_request =
     \<lparr>AwList_Meta = None, AwList_PlayerId = [], AwList_CampaignId = [], AwList_PageSize = 0, AwList_PageToken = []\<rparr>"

definition ListPromotionalAwards ::
    "ext \<Rightarrow> env \<Rightarrow> auth_actor option \<Rightarrow> award_list_request option \<Rightarrow> promotions_service
     \<Rightarrow> promotional_award ext_list_response \<times> promotions_service" where
  "ListPromotionalAwards x e ctx req s =
     (let r = (case req of None \<Rightarrow> no_award_list_request | Some r \<Rightarrow> r); meta = AwList_Meta r; playerID = AwList_PlayerId r;
          refuse = (\<lambda>code reason. (ext_list_answer e meta code reason ([], []),
                      promo_denied x e meta ''promotional_award'' playerID ''list_promotional_awards'' reason s));
          psize = page_size 25 (AwList_PageSize r)
      in case authorize_backoffice ctx meta of
           Some reason \<Rightarrow> refuse RESULT_CODE_DENIED reason
         | None \<Rightarrow>
             if sint (AwList_PageSize r) < 0 \<or> 100 < psize then refuse RESULT_CODE_INVALID ''invalid page_size''
             else (case strict_start (AwList_PageToken r) of
                     None \<Rightarrow> refuse RESULT_CODE_INVALID ''invalid page_token''
                   | Some start \<Rightarrow>
                       if svc_db s \<noteq> None
                       then (case listPromotionalAwardsFromDB x playerID (AwList_CampaignId r) psize start s of
                               (None, s1) \<Rightarrow> (ext_list_answer e meta RESULT_CODE_ERROR ''persistence unavailable'' ([], []), s1)
                             | (Some p, s1) \<Rightarrow> (ext_list_answer e meta RESULT_CODE_OK [] p, s1))
                       else if promo_disableInMemoryCache s then (ext_list_answer e meta RESULT_CODE_OK [] ([], []), s)
                       else (ext_list_answer e meta RESULT_CODE_OK []
                               (page_slice start psize (awards_of playerID (AwList_CampaignId r) s)), s)))"

section \<open>Events of the system window\<close>

definition window_json :: "system_window_event \<Rightarrow> string" where
  "window_json ev = json_encode (JObject (
     jstr ''event_id'' (WinEventId ev) @ jstr ''equipment_id'' (WinEquipmentId ev) @ jstr ''player_id'' (WinPlayerId ev) @
     jstr ''window_id'' (WindowId ev) @ jint ''event_type'' (window_type_number (WinEventType ev)) @
     jstr ''event_time'' (EventTime ev) @ jstr ''details'' (Details ev)))"

definition nextEventIDLocked :: "overlay_service \<Rightarrow> string \<times> overlay_service" where
  "nextEventIDLocked s = (let n = Suc (nextEventID s) in (''win-evt-'' @ itoa_nat n, s\<lparr>nextEventID := n\<rparr>))"

definition window_invalid :: "system_window_event ext_request option \<Rightarrow> (string \<times> string \<times> string) option" where
  "window_invalid req =
     (case Option.bind req Ext_Item of
        None \<Rightarrow> Some ([], ''invalid request'', ''event requires equipment_id, window_id, and event_type'')
      | Some ev \<Rightarrow>
          if WinEquipmentId ev = [] \<or> WindowId ev = [] \<or> \<not> validSystemWindowEventType (WinEventType ev)
          then Some ([], ''invalid request'', ''event requires equipment_id, window_id, and event_type'')
          else if EventTime ev \<noteq> [] \<and> parseRFC3339Strict (EventTime ev) = None
          then Some (WinEquipmentId ev, ''invalid event_time'', ''invalid event_time'')
          else None)"

definition stamped_window :: "env \<Rightarrow> system_window_event \<Rightarrow> overlay_service \<Rightarrow> system_window_event \<times> overlay_service" where
  "stamped_window e ev s =
     (case (if WinEventId ev = [] then nextEventIDLocked s else (WinEventId ev, s)) of (i, s1) \<Rightarrow>
        (ev\<lparr>WinEventId := i, EventTime := (if EventTime ev = [] then fmt_rfc3339nano (env_now e) else EventTime ev)\<rparr>, s1))"

definition keep_window :: "system_window_event \<Rightarrow> overlay_service \<Rightarrow> overlay_service" where
  "keep_window ev s =
     (if overlay_disableInMemoryCache s then s
      else s\<lparr>windowEvents := (windowEvents s)(WinEventId ev \<mapsto> ev), windowOrder := windowOrder s @ [WinEventId ev]\<rparr>)"

definition SubmitSystemWindowEvent ::
    "ext \<Rightarrow> env \<Rightarrow> auth_actor option \<Rightarrow> system_window_event ext_request option \<Rightarrow> overlay_service
     \<Rightarrow> system_window_event ext_response \<times> overlay_service" where
  "SubmitSystemWindowEvent x e ctx req s =
     (let meta = Option.bind req Ext_Meta; action = ''submit_system_window_event''
      in case window_invalid req of
           Some (objectID, reason, denial) \<Rightarrow>
             (ext_answer e meta RESULT_CODE_INVALID denial None, overlay_denied x e meta objectID action reason s)
         | None \<Rightarrow>
             (case authorize_backoffice ctx meta of
                Some reason \<Rightarrow> (ext_answer e meta RESULT_CODE_DENIED reason None, overlay_denied x e meta [] action reason s)
              | None \<Rightarrow>
                  (case stamped_window e (the (Option.bind req Ext_Item)) s of (ev, s1) \<Rightarrow>
                     stored_then_audited e meta ev (persistSystemWindowEvent x e ev)
                       (overlay_appendAudit x e meta (WinEventId ev) action json_empty (window_json ev) ResultSuccess [])
                       (keep_window ev s1))))"

text \<open>Between the bounds that are given; an event without a readable time is at the zero time.\<close>

definition window_between :: "time \<Rightarrow> time \<Rightarrow> system_window_event \<Rightarrow> bool" where
  "window_between fromTS toTS ev \<longleftrightarrow>
     (let t = parseRFC3339OrZero (EventTime ev)
      in \<not> (fromTS \<noteq> zero_time \<and> t < fromTS) \<and> \<not> (toTS \<noteq> zero_time \<and> toTS < t))"

definition windows_of :: "string \<Rightarrow> time \<Rightarrow> time \<Rightarrow> overlay_service \<Rightarrow> system_window_event list" where
  "windows_of equipmentID fromTS toTS s =
     filter (\<lambda>ev. (equipmentID = [] \<or> WinEquipmentId ev = equipmentID) \<and> window_between fromTS toTS ev)
       (List.map_filter (windowEvents s) (rev (windowOrder s)))"

definition no_window_list_request :: window_list_request where
  "no_window_list_request =
     \<lparr>WinList_Meta = None, WinList_EquipmentId = [], WinList_FromTime = [], WinList_ToTime = [], WinList_PageSize = 0,
      WinList_PageToken = []\<rparr>"

text \<open>The checks of the request, in the order of the handler: a refusal (audited reason and answer), or the window to list.\<close>

definition window_query :: "window_list_request \<Rightarrow> (string \<times> string) + (nat \<times> nat \<times> time \<times> time)" where
  "window_query r =
     (let psize = page_size 50 (WinList_PageSize r); same = (\<lambda>reason. Inl (reason, reason))
      in if sint (WinList_PageSize r) < 0 then same ''invalid page_size''
         else case strict_start (WinList_PageToken r) of
                None \<Rightarrow> same ''invalid page_token''
              | Some start \<Rightarrow>
                  if 200 < psize then same ''invalid page_size''
                  else (case parseRFC3339Strict (WinList_FromTime r) of
                          None \<Rightarrow> same ''invalid from_time''
                        | Some fromTS \<Rightarrow>
                            (case parseRFC3339Strict (WinList_ToTime r) of
                               None \<Rightarrow> same ''invalid to_time''
                             | Some toTS \<Rightarrow>
                                 if fromTS \<noteq> zero_time \<and> toTS \<noteq> zero_time \<and> toTS < fromTS
                                 then Inl (''invalid time range'', ''from_time must be <= to_time'')
                                 else Inr (start, psize, fromTS, toTS))))"

definition ListSystemWindowEvents ::
    "ext \<Rightarrow> env \<Rightarrow> auth_actor option \<Rightarrow> window_list_request option \<Rightarrow> overlay_service
     \<Rightarrow> system_window_event ext_list_response \<times> overlay_service" where
  "ListSystemWindowEvents x e ctx req s =
     (let r = (case req of None \<Rightarrow> no_window_list_request | Some r \<Rightarrow> r); meta = WinList_Meta r; equipmentID = WinList_EquipmentId r;
          refuse = (\<lambda>code reason denial. (ext_list_answer e meta code denial ([], []),
                      overlay_denied x e meta equipmentID ''list_system_window_events'' reason s))
      in case authorize_backoffice ctx meta of
           Some reason \<Rightarrow> refuse RESULT_CODE_DENIED reason reason
         | None \<Rightarrow>
             (case window_query r of
                Inl (reason, denial) \<Rightarrow> refuse RESULT_CODE_INVALID reason denial
              | Inr (start, psize, fromTS, toTS) \<Rightarrow>
                  if svc_db s \<noteq> None
                  then (case listSystemWindowEventsFromDB x equipmentID fromTS toTS psize start s of
                          (None, s1) \<Rightarrow> (ext_list_answer e meta RESULT_CODE_ERROR ''persistence unavailable'' ([], []), s1)
                        | (Some p, s1) \<Rightarrow> (ext_list_answer e meta RESULT_CODE_OK [] p, s1))
                  else if overlay_disableInMemoryCache s then (ext_list_answer e meta RESULT_CODE_OK [] ([], []), s)
                  else (ext_list_answer e meta RESULT_CODE_OK []
                          (page_slice start psize (windows_of equipmentID fromTS toTS s)), s)))"

end
