(* ===== verification/ExtensionsProps.thy ===== *)
theory ExtensionsProps
  imports Extensions Samples
begin

text \<open>
  The extension services as logs. What the three recording handlers share is the contract \<open>recorder\<close>: a record goes into a table
  under its key and its key to the end of an order. The lemmas show once how the listing changes; the services interpret the
  contract for bonus transactions, awards and window events.
\<close>

section \<open>Recorders\<close>

locale recorder =
  fixes key :: "'a \<Rightarrow> string" and table :: "'s \<Rightarrow> string \<rightharpoonup> 'a" and order :: "'s \<Rightarrow> string list"
    and keep :: "'a \<Rightarrow> 's \<Rightarrow> 's" and off :: "'s \<Rightarrow> bool"
  assumes keep_table: "\<not> off s \<Longrightarrow> table (keep v s) = (table s)(key v \<mapsto> v)"
    and keep_order: "\<not> off s \<Longrightarrow> order (keep v s) = order s @ [key v]"
    and keep_off: "off s \<Longrightarrow> keep v s = s"
begin

text \<open>Every record is filed under its key, and the order holds exactly the keys.\<close>

definition filed :: "'s \<Rightarrow> bool" where
  "filed s \<longleftrightarrow> (\<forall>k v. table s k = Some v \<longrightarrow> key v = k) \<and> dom (table s) = set (order s)"

text \<open>The records, newest first.\<close>

definition log :: "'s \<Rightarrow> 'a list" where
  "log s = List.map_filter (table s) (rev (order s))"

definition replaced :: "'a \<Rightarrow> 'a \<Rightarrow> 'a" where
  "replaced v t = (if key t = key v then v else t)"

lemma filed_keep: "filed s \<Longrightarrow> filed (keep v s)"
  by (cases "off s") (auto simp: keep_off filed_def keep_table keep_order split: if_splits)

lemma filed_same: "filed s \<Longrightarrow> table s' = table s \<Longrightarrow> order s' = order s \<Longrightarrow> filed s'"
  by (simp add: filed_def)

text \<open>A new record comes first, and takes the place of every record with its key.\<close>

lemma log_keep:
  assumes "filed s" "\<not> off s"
  shows "log (keep v s) = v # map (replaced v) (log s)"
proof -
  have "List.map_filter ((table s)(key v \<mapsto> v)) ks = map (replaced v) (List.map_filter (table s) ks)"
    if "set ks \<subseteq> dom (table s)" for ks
    using that
  proof (induction ks)
    case (Cons k ks)
    then obtain t where t: "table s k = Some t" by auto
    then have "key t = k" using assms(1) by (simp add: filed_def)
    with Cons t show ?case by (auto simp: List.map_filter_simps replaced_def)
  qed (simp add: List.map_filter_simps)
  from this [of "rev (order s)"] show ?thesis
    using assms by (simp add: log_def keep_table keep_order List.map_filter_simps filed_def)
qed

lemma log_fresh:
  assumes "filed s" "\<not> off s" "key v \<notin> set (order s)"
  shows "log (keep v s) = v # log s"
proof -
  have "replaced v t = t" if t: "t \<in> set (log s)" for t
  proof -
    obtain k where "table s k = Some t" "k \<in> set (order s)"
      using t by (auto simp: log_def List.map_filter_def)
    with assms show ?thesis by (auto simp: filed_def replaced_def)
  qed
  then have "map (replaced v) (log s) = log s" by (rule map_idI)
  with assms show ?thesis by (simp add: log_keep)
qed

end

interpretation bonus: recorder BonusTransactionId bonusTx bonusOrder keep_bonus promo_disableInMemoryCache
  by unfold_locales (simp_all add: keep_bonus_def)

interpretation award: recorder PromotionalAwardId awards awardOrder keep_award promo_disableInMemoryCache
  by unfold_locales (simp_all add: keep_award_def)

interpretation window: recorder WinEventId windowEvents windowOrder keep_window overlay_disableInMemoryCache
  by unfold_locales (simp_all add: keep_window_def)

section \<open>The services without a database\<close>

definition promo_inv :: "ext \<Rightarrow> promotions_service \<Rightarrow> bool" where
  "promo_inv x s \<longleftrightarrow> mem_idle x s \<and> bonus.filed s \<and> award.filed s"

lemma promo_appendAudit_mem:
  assumes "mem_idle x s"
  obtains st n where "promo_appendAudit x e meta ot oid act b a r why s = (True, s\<lparr>svc_AuditStore := st, svc_nextAuditID := n\<rparr>)"
    "mem_idle x (s\<lparr>svc_AuditStore := st, svc_nextAuditID := n\<rparr>)"
  by (rule svc_append_mem [OF assms]) (rule that [unfolded promo_appendAudit_def])

lemma promo_inv_frame:
  assumes "promo_inv x s" "mem_idle x s'" "bonusTx s' = bonusTx s" "bonusOrder s' = bonusOrder s" "awards s' = awards s"
    "awardOrder s' = awardOrder s"
  shows "promo_inv x s'"
  using assms bonus.filed_same [of s s'] award.filed_same [of s s'] by (simp add: promo_inv_def)

lemma promo_inv_denied: "promo_inv x s \<Longrightarrow> promo_inv x (promo_denied x e meta ot oid act why s)"
proof -
  assume inv: "promo_inv x s"
  then have "mem_idle x s" by (simp add: promo_inv_def)
  then show ?thesis
    by (rule promo_appendAudit_mem [of x s e meta ot oid act json_empty json_empty ResultDenied why])
       (simp add: promo_denied_def promo_inv_frame [OF inv])
qed

text \<open>The recording itself: the answer is the record, and the state is that of \<open>keep\<close> but for the audit trail.\<close>

lemma recorded_mem:
  assumes "mem_idle x (keep s :: promotions_service)" "\<And>s. mem_idle x s \<Longrightarrow> persist s = (True, s)"
  obtains st n where "stored_then_audited e meta item persist (promo_appendAudit x e meta ot oid act b a r why) (keep s) =
      (ext_answer e meta RESULT_CODE_OK [] (Some item), (keep s)\<lparr>svc_AuditStore := st, svc_nextAuditID := n\<rparr>)"
    "mem_idle x ((keep s)\<lparr>svc_AuditStore := st, svc_nextAuditID := n\<rparr>)"
  by (rule promo_appendAudit_mem [OF assms(1), of e meta ot oid act b a r why])
     (rule that, simp_all add: stored_then_audited_def assms)

lemma extension_persist_mem:
  "mem_idle x s \<Longrightarrow> persistBonusTransaction x e tx s = (True, s)"
  "mem_idle x s \<Longrightarrow> persistPromotionalAward x e aw s = (True, s)"
  "mem_idle x w \<Longrightarrow> persistSystemWindowEvent x e ev w = (True, w)"
  by (simp_all add: mem_idle_def persistBonusTransaction_def persistPromotionalAward_def persistSystemWindowEvent_def svc_exec_def)

lemma stamped_bonus_frame:
  assumes "stamped_bonus e tx s = (tx1, s1)"
  shows "\<exists>n. s1 = s\<lparr>nextBonusID := n\<rparr>"
  using assms by (auto simp: stamped_bonus_def nextBonusIDLocked_def Let_def split: if_splits intro: exI [of _ "nextBonusID s"])

lemma stamped_award_frame:
  assumes "stamped_award e aw s = (aw1, s1)"
  shows "\<exists>n. s1 = s\<lparr>nextAwardID := n\<rparr>"
  using assms by (auto simp: stamped_award_def nextAwardIDLocked_def Let_def split: if_splits intro: exI [of _ "nextAwardID s"])

lemma promo_inv_counters:
  "promo_inv x s \<Longrightarrow> promo_inv x (s\<lparr>nextBonusID := n\<rparr>)" "promo_inv x s \<Longrightarrow> promo_inv x (s\<lparr>nextAwardID := n\<rparr>)"
  "promo_inv x s \<Longrightarrow> promo_inv x (s\<lparr>promo_disableInMemoryCache := b\<rparr>)"
proof -
  assume inv: "promo_inv x s"
  then have "mem_idle x (s\<lparr>nextBonusID := n\<rparr>)" "mem_idle x (s\<lparr>nextAwardID := n\<rparr>)" "mem_idle x (s\<lparr>promo_disableInMemoryCache := b\<rparr>)"
    by (simp_all add: promo_inv_def mem_idle_def svc_ok_def)
  then show "promo_inv x (s\<lparr>nextBonusID := n\<rparr>)" "promo_inv x (s\<lparr>nextAwardID := n\<rparr>)"
    "promo_inv x (s\<lparr>promo_disableInMemoryCache := b\<rparr>)"
    using promo_inv_frame [OF inv] by simp_all
qed

lemma promo_inv_keep:
  "promo_inv x s \<Longrightarrow> promo_inv x (keep_bonus tx s)" "promo_inv x s \<Longrightarrow> promo_inv x (keep_award aw s)"
proof -
  assume inv: "promo_inv x s"
  then have "bonus.filed (keep_bonus tx s)" "award.filed (keep_award aw s)"
    by (simp_all add: promo_inv_def bonus.filed_keep award.filed_keep)
  moreover have "award.filed (keep_bonus tx s)" "bonus.filed (keep_award aw s)"
    using inv by (auto simp: promo_inv_def keep_bonus_def keep_award_def intro: award.filed_same [of s] bonus.filed_same [of s])
  ultimately show "promo_inv x (keep_bonus tx s)" "promo_inv x (keep_award aw s)"
    using inv by (auto simp: promo_inv_def mem_idle_def svc_ok_def keep_bonus_def keep_award_def)
qed

lemma RecordBonusTransaction_admitted:
  assumes inv: "promo_inv x s" and r: "Ext_Item r = Some tx" "bonus_invalid (Some r) = None"
    "authorize_backoffice ctx (Ext_Meta r) = None" and st: "stamped_bonus e tx s = (tx1, s1)"
  obtains st n where "RecordBonusTransaction x e ctx (Some r) s =
      (ext_answer e (Ext_Meta r) RESULT_CODE_OK [] (Some tx1), (keep_bonus tx1 s1)\<lparr>svc_AuditStore := st, svc_nextAuditID := n\<rparr>)"
    "promo_inv x ((keep_bonus tx1 s1)\<lparr>svc_AuditStore := st, svc_nextAuditID := n\<rparr>)"
proof -
  have inv1: "promo_inv x (keep_bonus tx1 s1)"
    using stamped_bonus_frame [OF st] promo_inv_counters(1) [OF inv] by (auto intro: promo_inv_keep)
  then have mem: "mem_idle x (keep_bonus tx1 s1)" by (simp add: promo_inv_def)
  obtain st n where aud: "stored_then_audited e (Ext_Meta r) tx1 (persistBonusTransaction x e tx1)
      (promo_appendAudit x e (Ext_Meta r) ''bonus_transaction'' (BonusTransactionId tx1) ''record_bonus_transaction'' json_empty
         (bonus_json tx1) ResultSuccess []) (keep_bonus tx1 s1) =
      (ext_answer e (Ext_Meta r) RESULT_CODE_OK [] (Some tx1), (keep_bonus tx1 s1)\<lparr>svc_AuditStore := st, svc_nextAuditID := n\<rparr>)"
    "mem_idle x ((keep_bonus tx1 s1)\<lparr>svc_AuditStore := st, svc_nextAuditID := n\<rparr>)"
    by (rule recorded_mem [where keep = "keep_bonus tx1", OF mem extension_persist_mem(1)])
  have "promo_inv x ((keep_bonus tx1 s1)\<lparr>svc_AuditStore := st, svc_nextAuditID := n\<rparr>)"
    using inv1 aud(2) by (rule promo_inv_frame) simp_all
  then show ?thesis
    using that aud(1) r st by (simp add: RecordBonusTransaction_def Let_def)
qed

lemma RecordPromotionalAward_admitted:
  assumes inv: "promo_inv x s" and r: "Ext_Item r = Some aw" "award_invalid (Some r) = None"
    "authorize_backoffice ctx (Ext_Meta r) = None" and st: "stamped_award e aw s = (aw1, s1)"
  obtains st n where "RecordPromotionalAward x e ctx (Some r) s =
      (ext_answer e (Ext_Meta r) RESULT_CODE_OK [] (Some aw1), (keep_award aw1 s1)\<lparr>svc_AuditStore := st, svc_nextAuditID := n\<rparr>)"
    "promo_inv x ((keep_award aw1 s1)\<lparr>svc_AuditStore := st, svc_nextAuditID := n\<rparr>)"
proof -
  have inv1: "promo_inv x (keep_award aw1 s1)"
    using stamped_award_frame [OF st] promo_inv_counters(2) [OF inv] by (auto intro: promo_inv_keep)
  then have mem: "mem_idle x (keep_award aw1 s1)" by (simp add: promo_inv_def)
  obtain st n where aud: "stored_then_audited e (Ext_Meta r) aw1 (persistPromotionalAward x e aw1)
      (promo_appendAudit x e (Ext_Meta r) ''promotional_award'' (PromotionalAwardId aw1) ''record_promotional_award'' json_empty
         (award_json aw1) ResultSuccess []) (keep_award aw1 s1) =
      (ext_answer e (Ext_Meta r) RESULT_CODE_OK [] (Some aw1), (keep_award aw1 s1)\<lparr>svc_AuditStore := st, svc_nextAuditID := n\<rparr>)"
    "mem_idle x ((keep_award aw1 s1)\<lparr>svc_AuditStore := st, svc_nextAuditID := n\<rparr>)"
    by (rule recorded_mem [where keep = "keep_award aw1", OF mem extension_persist_mem(2)])
  have "promo_inv x ((keep_award aw1 s1)\<lparr>svc_AuditStore := st, svc_nextAuditID := n\<rparr>)"
    using inv1 aud(2) by (rule promo_inv_frame) simp_all
  then show ?thesis
    using that aud(1) r st by (simp add: RecordPromotionalAward_def Let_def)
qed

lemma RecordBonusTransaction_inv:
  assumes inv: "promo_inv x s"
  shows "promo_inv x (snd (RecordBonusTransaction x e ctx req s))"
proof (cases "bonus_invalid req = None \<and> authorize_backoffice ctx (Option.bind req Ext_Meta) = None")
  case True
  then obtain r tx where r: "req = Some r" "Ext_Item r = Some tx"
    by (auto simp: bonus_invalid_def split: option.splits bind_splits)
  show ?thesis
    using True r(1) by (cases "stamped_bonus e tx s") (rule RecordBonusTransaction_admitted [OF inv r(2), of ctx e], simp_all only: snd_conv bind.bind_lunit, auto)
next
  case False
  with promo_inv_denied [OF inv] show ?thesis by (auto simp: RecordBonusTransaction_def Let_def split: option.splits)
qed

lemma RecordPromotionalAward_inv:
  assumes inv: "promo_inv x s"
  shows "promo_inv x (snd (RecordPromotionalAward x e ctx req s))"
proof (cases "award_invalid req = None \<and> authorize_backoffice ctx (Option.bind req Ext_Meta) = None")
  case True
  then obtain r aw where r: "req = Some r" "Ext_Item r = Some aw"
    by (auto simp: award_invalid_def split: option.splits bind_splits)
  show ?thesis
    using True r(1) by (cases "stamped_award e aw s") (rule RecordPromotionalAward_admitted [OF inv r(2), of ctx e], simp_all only: snd_conv bind.bind_lunit, auto)
next
  case False
  with promo_inv_denied [OF inv] show ?thesis by (auto simp: RecordPromotionalAward_def Let_def split: option.splits)
qed

lemma promo_lists_inv:
  assumes "promo_inv x s"
  shows "promo_inv x (snd (ListRecentBonusTransactions x e ctx b s))" "promo_inv x (snd (ListPromotionalAwards x e ctx a s))"
proof -
  have "svc_db s = None" using assms by (simp add: promo_inv_def mem_idle_def)
  with assms promo_inv_denied [OF assms]
  show "promo_inv x (snd (ListRecentBonusTransactions x e ctx b s))" "promo_inv x (snd (ListPromotionalAwards x e ctx a s))"
    by (simp_all add: ListRecentBonusTransactions_def ListPromotionalAwards_def Let_def split: option.splits)
qed

datatype promo_request =
    CallBonus "bonus_transaction ext_request option" | CallBonuses "bonus_list_request option"
  | CallAward "promotional_award ext_request option" | CallAwards "award_list_request option" | CallPromoCache bool

type_synonym promo_input = "env \<times> auth_actor option \<times> promo_request"

fun promo_react :: "ext \<Rightarrow> promo_input \<Rightarrow> promotions_service \<Rightarrow> promotions_service" where
  "promo_react x (e, ctx, CallBonus r) s = snd (RecordBonusTransaction x e ctx r s)"
| "promo_react x (e, ctx, CallBonuses r) s = snd (ListRecentBonusTransactions x e ctx r s)"
| "promo_react x (e, ctx, CallAward r) s = snd (RecordPromotionalAward x e ctx r s)"
| "promo_react x (e, ctx, CallAwards r) s = snd (ListPromotionalAwards x e ctx r s)"
| "promo_react x (e, ctx, CallPromoCache b) s = promo_SetDisableInMemoryCache b s"

definition promo_runs :: "ext \<Rightarrow> promo_input list \<Rightarrow> promotions_service" where
  "promo_runs x reqs = fold (promo_react x) reqs (NewPromotionsService None)"

interpretation promo: reactor "\<lambda>s. s = NewPromotionsService None" "promo_react x" "promo_inv x" for x
proof unfold_locales
  fix s i assume "promo_inv x s"
  then show "promo_inv x (promo_react x i s)"
    by (cases "(x, i, s)" rule: promo_react.cases)
       (simp_all add: RecordBonusTransaction_inv RecordPromotionalAward_inv promo_lists_inv promo_SetDisableInMemoryCache_def
          promo_inv_counters)
next
  fix s assume "s = NewPromotionsService None"
  then show "promo_inv x s"
    by (simp add: promo_inv_def NewPromotionsService_def mem_idle_def svc_ok_def store_ok_new bonus.filed_def award.filed_def)
qed

lemma promo_runs_inv: "promo_inv x (promo_runs x reqs)"
  unfolding promo_runs_def by (rule promo.always_inv) simp

section \<open>Properties\<close>

text \<open>
  C22: without a database a bonus transaction that is accepted is the first of the next listing, under the caller's identifier or the
  next number, and takes the place of every transaction with the same identifier; all other transactions follow as before. Nothing
  keeps a caller's identifier apart from the numbers of the service.
\<close>

theorem bonus_listed_first:
  fixes x reqs defines "s \<equiv> promo_runs x reqs"
  assumes "\<not> promo_disableInMemoryCache s" "Ext_Item r = Some tx" "bonus_invalid (Some r) = None"
    and "authorize_backoffice ctx (Ext_Meta r) = None" "0 \<le> sint limit" "sint limit \<le> 100"
  shows "\<exists>tx1 s'. RecordBonusTransaction x e ctx (Some r) s = (ext_answer e (Ext_Meta r) RESULT_CODE_OK [] (Some tx1), s') \<and>
    tx1 = tx\<lparr>BonusTransactionId := (if BonusTransactionId tx = [] then ''bonus-'' @ itoa_nat (Suc (nextBonusID s)) else BonusTransactionId tx),
             BnOccurredAt := (if BnOccurredAt tx = [] then fmt_rfc3339nano (env_now e) else BnOccurredAt tx)\<rparr> \<and>
    fst (ListRecentBonusTransactions x e' ctx (Some \<lparr>BnList_Meta = Ext_Meta r, BnList_EquipmentId = [], Limit = limit\<rparr>) s') =
      ext_list_answer e' (Ext_Meta r) RESULT_CODE_OK []
        (take (page_size 25 limit)
           (tx1 # map (\<lambda>t. if BonusTransactionId t = BonusTransactionId tx1 then tx1 else t) (bonuses_of [] s)), [])"
proof -
  have inv: "promo_inv x s" unfolding s_def by (rule promo_runs_inv)
  obtain tx1 s1 where st: "stamped_bonus e tx s = (tx1, s1)" by fastforce
  obtain m where s1: "s1 = s\<lparr>nextBonusID := m\<rparr>" using stamped_bonus_frame [OF st] by blast
  obtain str n where rec: "RecordBonusTransaction x e ctx (Some r) s =
      (ext_answer e (Ext_Meta r) RESULT_CODE_OK [] (Some tx1), (keep_bonus tx1 s1)\<lparr>svc_AuditStore := str, svc_nextAuditID := n\<rparr>)"
    and inv': "promo_inv x ((keep_bonus tx1 s1)\<lparr>svc_AuditStore := str, svc_nextAuditID := n\<rparr>)" (is "promo_inv x ?s'")
    by (rule RecordBonusTransaction_admitted [OF inv assms(3-5) st])
  have log: "bonuses_of [] t = bonus.log t" for t
    by (simp add: bonuses_of_def bonus.log_def)
  have "bonus.filed s1" using inv s1 promo_inv_counters(1) by (auto simp: promo_inv_def)
  then have "bonus.log (keep_bonus tx1 s1) = tx1 # map (bonus.replaced tx1) (bonus.log s1)"
    by (rule bonus.log_keep) (simp add: s1 assms(2))
  moreover have "bonus.log ?s' = bonus.log (keep_bonus tx1 s1)" "bonus.log s1 = bonus.log s"
    by (simp_all add: bonus.log_def s1)
  ultimately have items: "bonuses_of [] ?s' = tx1 # map (bonus.replaced tx1) (bonuses_of [] s)" by (simp add: log)
  have "svc_db ?s' = None" "\<not> promo_disableInMemoryCache ?s'"
    using inv' assms(2) by (simp_all add: promo_inv_def mem_idle_def keep_bonus_def s1)
  moreover have "page_size 25 limit \<le> 100" using assms(6,7) by (auto simp: page_size_def)
  ultimately have "fst (ListRecentBonusTransactions x e' ctx
      (Some \<lparr>BnList_Meta = Ext_Meta r, BnList_EquipmentId = [], Limit = limit\<rparr>) ?s') =
      ext_list_answer e' (Ext_Meta r) RESULT_CODE_OK [] (take (page_size 25 limit) (tx1 # map (bonus.replaced tx1) (bonuses_of [] s)), [])"
    using assms(5,6) by (simp add: ListRecentBonusTransactions_def items)
  moreover have "bonus.replaced tx1 = (\<lambda>t. if BonusTransactionId t = BonusTransactionId tx1 then tx1 else t)"
    by (simp add: bonus.replaced_def fun_eq_iff)
  moreover have "tx1 = tx\<lparr>BonusTransactionId := (if BonusTransactionId tx = [] then ''bonus-'' @ itoa_nat (Suc (nextBonusID s)) else BonusTransactionId tx),
             BnOccurredAt := (if BnOccurredAt tx = [] then fmt_rfc3339nano (env_now e) else BnOccurredAt tx)\<rparr>"
    using st by (auto simp: stamped_bonus_def nextBonusIDLocked_def Let_def split: if_splits)
  ultimately show ?thesis using rec by (intro exI [of _ tx1] exI [of _ ?s']) simp
qed

text \<open>A caller who names a transaction \<^verbatim>\<open>bonus-1\<close> has it replaced by the first transaction the service numbers itself.\<close>

definition demo_bonus :: "string \<Rightarrow> i64 \<Rightarrow> bonus_transaction ext_request" where
  "demo_bonus i n = \<lparr>Ext_Meta = demo_meta ''k1'', Ext_Item = Some
     \<lparr>BonusTransactionId = i, BnEquipmentId = ''eq-1'', BnPlayerId = ''p-1'', BnCampaignId = [], MeterName = [],
      BnAmount = Some (money n ''USD''), BnOccurredAt = ''1970-01-01T00:00:00Z''\<rparr>\<rparr>"

definition demo_promo :: "promo_input list" where
  "demo_promo = [(demo_env, None, CallBonus (Some (demo_bonus ''bonus-1'' 5)))]"

lemma demo_bonus_valid:
  assumes "n = 5 \<or> n = 7"
  shows "bonus_invalid (Some (demo_bonus i n)) = None" "authorize_backoffice None (Ext_Meta (demo_bonus i n)) = None"
proof -
  have "parseRFC3339Strict ''1970-01-01T00:00:00Z'' = Some 0" by code_simp
  with assms show "bonus_invalid (Some (demo_bonus i n)) = None"
    by (auto simp: bonus_invalid_def demo_bonus_def not_invalidAmount)
  show "authorize_backoffice None (Ext_Meta (demo_bonus i n)) = None"
    by (simp add: demo_bonus_def authorize_backoffice_def resolveActor_def demo_meta_def operator_or_service_def)
qed

lemma demo_promo_state:
  "nextBonusID (promo_runs demo_ext demo_promo) = 0 \<and> \<not> promo_disableInMemoryCache (promo_runs demo_ext demo_promo) \<and>
   bonuses_of [] (promo_runs demo_ext demo_promo) = [the (Ext_Item (demo_bonus ''bonus-1'' 5))]"
proof -
  let ?tx = "the (Ext_Item (demo_bonus ''bonus-1'' 5))"
  have inv: "promo_inv demo_ext (NewPromotionsService None)"
    using promo_runs_inv [of demo_ext "[]"] by (simp add: promo_runs_def)
  have item: "Ext_Item (demo_bonus ''bonus-1'' 5) = Some ?tx" by (simp add: demo_bonus_def)
  have st: "stamped_bonus demo_env ?tx (NewPromotionsService None) = (?tx, NewPromotionsService None)"
    by (simp add: stamped_bonus_def demo_bonus_def)
  have "\<exists>str n. promo_runs demo_ext demo_promo =
      (keep_bonus ?tx (NewPromotionsService None))\<lparr>svc_AuditStore := str, svc_nextAuditID := n\<rparr>"
    by (rule RecordBonusTransaction_admitted [OF inv item demo_bonus_valid st])
       (auto simp: promo_runs_def demo_promo_def)
  then show ?thesis
    by (auto simp: keep_bonus_def NewPromotionsService_def bonuses_of_def List.map_filter_simps)
qed

theorem bonus_listed_first_witness:
  "\<exists>tx1 s'. RecordBonusTransaction demo_ext demo_env None (Some (demo_bonus [] 7)) (promo_runs demo_ext demo_promo) =
      (ext_answer demo_env (demo_meta ''k1'') RESULT_CODE_OK [] (Some tx1), s') \<and>
    BonusTransactionId tx1 = ''bonus-1'' \<and> BnAmount tx1 = Some (money 7 ''USD'') \<and>
    ExtListItems (fst (ListRecentBonusTransactions demo_ext demo_env None
      (Some \<lparr>BnList_Meta = demo_meta ''k1'', BnList_EquipmentId = [], Limit = 10\<rparr>) s')) = [tx1, tx1]"
proof -
  have item: "Ext_Item (demo_bonus [] 7) = Some (the (Ext_Item (demo_bonus [] 7)))" by (simp add: demo_bonus_def)
  have one: "itoa_nat (Suc 0) = ''1''" by code_simp
  have meta: "Ext_Meta (demo_bonus [] 7) = demo_meta ''k1''" by (simp add: demo_bonus_def)
  have valid: "bonus_invalid (Some (demo_bonus [] 7)) = None" "authorize_backoffice None (Ext_Meta (demo_bonus [] 7)) = None"
    by (simp_all add: demo_bonus_valid)
  have cache: "\<not> promo_disableInMemoryCache (promo_runs demo_ext demo_promo)" using demo_promo_state by blast
  from bonus_listed_first [OF cache item valid, of 10 demo_env demo_env] show ?thesis
    using demo_promo_state
    by (elim exE conjE) (auto simp: meta ext_list_answer_def page_size_def demo_bonus_def one)
qed

end
