(* ===== verification/GoText.thy ===== *)
theory GoText
  imports Common
begin

text \<open>
  More of Go's text handling, as the evidence tools use it: \<^verbatim>\<open>strings.Fields\<close>, \<^verbatim>\<open>Contains\<close> and \<^verbatim>\<open>EqualFold\<close>, the decoders of
  \<^verbatim>\<open>encoding/hex\<close> and \<^verbatim>\<open>encoding/base64\<close>, and \<^verbatim>\<open>path/filepath\<close> with the separator \<open>/\<close>. The decoders give back what the encoders wrote.
\<close>

section \<open>strings\<close>

text \<open>The bytes up to the next white space rune, and the rest.\<close>

fun word_of :: "string \<Rightarrow> string \<times> string" where
  "word_of [] = ([], [])"
| "word_of (c # s) =
     (if 0 < space_rune (map of_char (c # s)) then ([], c # s) else (case word_of s of (w, r) \<Rightarrow> (c # w, r)))"

lemma word_of_append: "fst (word_of s) @ snd (word_of s) = s"
  by (induction s rule: word_of.induct) (auto split: prod.splits)

lemma length_trim_left: "length (trim_left s) \<le> length s"
proof (induction s rule: trim_left.induct)
  case (1 s)
  then show ?case by (subst trim_left.simps) (auto simp: Let_def intro: order_trans)
qed

lemma trim_left_word:
  assumes "trim_left s \<noteq> []"
  shows "fst (word_of (trim_left s)) \<noteq> []"
proof -
  have "trim_left s = [] \<or> space_rune (map of_char (trim_left s)) = 0"
  proof (induction s rule: trim_left.induct)
    case (1 s)
    then show ?case by (subst (1 2) trim_left.simps) (simp add: Let_def)
  qed
  with assms show ?thesis by (cases "trim_left s") (auto split: prod.splits)
qed

function split_fields :: "string \<Rightarrow> string list" where
  "split_fields s = (let t = trim_left s in if t = [] then [] else fst (word_of t) # split_fields (snd (word_of t)))"
  by auto
termination
proof (relation "measure length")
  fix s t :: string
  assume "t = trim_left s" "t \<noteq> []"
  then have "length (fst (word_of t)) \<noteq> 0" "length t \<le> length s" using trim_left_word length_trim_left by auto
  moreover have "length (fst (word_of t)) + length (snd (word_of t)) = length t"
    by (metis length_append word_of_append)
  ultimately have "length (snd (word_of t)) < length s" by linarith
  then show "(snd (word_of t), s) \<in> measure length" by simp
qed simp

declare split_fields.simps [simp del]

fun contains :: "string \<Rightarrow> string \<Rightarrow> bool" where
  "contains [] sub = (sub = [])"
| "contains (c # s) sub = (take (length sub) (c # s) = sub \<or> contains s sub)"

text \<open>
  \<^verbatim>\<open>strings.EqualFold\<close> where one side is a hexadecimal text: no rune outside ASCII folds to a hexadecimal digit.
\<close>

definition equal_fold :: "string \<Rightarrow> string \<Rightarrow> bool" where
  "equal_fold a b \<longleftrightarrow> map lower_byte a = map lower_byte b"

text \<open>\<^verbatim>\<open>strings.ToLower\<close>, compared with words that hold no letter a rune outside ASCII has as its lower case (only i and k).\<close>

definition to_lower :: "string \<Rightarrow> string" where
  "to_lower = map lower_byte"

section \<open>encoding/hex and encoding/base64\<close>

definition hex_digit_val :: "char \<Rightarrow> nat option" where
  "hex_digit_val c =
     (let n = (of_char c :: nat)
      in if 48 \<le> n \<and> n \<le> 57 then Some (n - 48) else if 97 \<le> n \<and> n \<le> 102 then Some (n - 87)
         else if 65 \<le> n \<and> n \<le> 70 then Some (n - 55) else None)"

fun hex_decode :: "string \<Rightarrow> string option" where
  "hex_decode [] = Some []"
| "hex_decode [c] = None"
| "hex_decode (a # b # s) =
     (case (hex_digit_val a, hex_digit_val b) of
        (Some m, Some n) \<Rightarrow> map_option ((#) (char_of (16 * m + n))) (hex_decode s)
      | _ \<Rightarrow> None)"

lemma hex_digit_val_digit: "d < 16 \<Longrightarrow> hex_digit_val (hex_digit d) = Some d"
  by (simp add: hex_digit_val_def hex_digit_def Let_def)

lemmas of_char_lt = nat_of_char_less_256

lemma hex_decode_encode: "hex_decode (hex_encode s) = Some s"
proof (induction s)
  case (Cons c s)
  have "of_char c div 16 < (16 :: nat)" using of_char_lt [of c] by (simp only: div_less_iff_less_mult)
  moreover have "char_of (16 * (of_char c div 16) + of_char c mod 16 :: nat) = c"
    by (simp only: mult_div_mod_eq char_of_char)
  ultimately show ?case using Cons by (simp add: hex_digit_val_digit)
qed simp

definition base64_val :: "char \<Rightarrow> nat option" where
  "base64_val c =
     (let n = (of_char c :: nat)
      in if 65 \<le> n \<and> n \<le> 90 then Some (n - 65) else if 97 \<le> n \<and> n \<le> 122 then Some (n - 71)
         else if 48 \<le> n \<and> n \<le> 57 then Some (n + 4) else if c = CHR ''+'' then Some 62
         else if c = CHR ''/'' then Some 63 else None)"

text \<open>Groups of four digits; the last one may be filled up with \<^verbatim>\<open>=\<close>. Line breaks are skipped.\<close>

fun base64_groups :: "string \<Rightarrow> string option" where
  "base64_groups [] = Some []"
| "base64_groups (a # b # c # d # s) =
     (case (base64_val a, base64_val b) of
        (Some i, Some j) \<Rightarrow>
          if d = CHR ''='' \<and> s = []
          then (if c = CHR ''='' then Some [char_of (i * 4 + j div 16)]
                else map_option (\<lambda>k. let n = i * 4096 + j * 64 + k in [char_of (n div 1024), char_of (n div 4 mod 256)]) (base64_val c))
          else (case (base64_val c, base64_val d) of
                  (Some k, Some l) \<Rightarrow>
                    let n = i * 262144 + j * 4096 + k * 64 + l
                    in map_option (\<lambda>r. char_of (n div 65536) # char_of (n div 256 mod 256) # char_of (n mod 256) # r) (base64_groups s)
                | _ \<Rightarrow> None)
      | _ \<Rightarrow> None)"
| "base64_groups s = None"

definition base64_decode :: "string \<Rightarrow> string option" where
  "base64_decode s = base64_groups (filter (\<lambda>c. c \<noteq> CHR 0x0A \<and> c \<noteq> CHR 0x0D) s)"

lemma of_char_base64_digit:
  "d < 64 \<Longrightarrow> of_char (base64_digit d) =
     (if d < 26 then 65 + d else if d < 52 then 71 + d else if d < 62 then d - 4 else if d = 62 then 43 else 47 :: nat)"
  by (simp add: base64_digit_def)

lemma base64_digit_facts:
  assumes "d < 64"
  shows "base64_val (base64_digit d) = Some d" "base64_digit d \<noteq> CHR ''=''" "base64_digit d \<noteq> CHR 0x0A" "base64_digit d \<noteq> CHR 0x0D"
proof -
  show "base64_val (base64_digit d) = Some d"
    unfolding base64_val_def Let_def of_char_base64_digit [OF assms] using assms by (auto simp: base64_digit_def)
  have "of_char (base64_digit d) \<notin> {61, 10, 13 :: nat}" unfolding of_char_base64_digit [OF assms] by auto
  then show "base64_digit d \<noteq> CHR ''=''" "base64_digit d \<noteq> CHR 0x0A" "base64_digit d \<noteq> CHR 0x0D" by auto
qed

text \<open>The numbers behind a group: four digits of six bits and three bytes.\<close>

lemma four_digits: "n div 262144 * 262144 + n div 4096 mod 64 * 4096 + n div 64 mod 64 * 64 + n mod 64 = n" for n :: nat
proof -
  define p q r where pqr: "p = n div 64" "q = p div 64" "r = q div 64"
  have "n div 4096 = q" "n div 262144 = r" by (simp_all add: pqr div_mult2_eq [symmetric])
  moreover have "n = 64 * p + n mod 64" "p = 64 * q + p mod 64" "q = 64 * r + q mod 64" by (simp_all add: pqr)
  ultimately have "n div 262144 * 262144 + n div 4096 mod 64 * 4096 + p mod 64 * 64 + n mod 64 = n" by simp
  then show ?thesis by (simp add: pqr(1))
qed

lemma three_bytes:
  fixes a b c :: nat
  assumes "a < 256" "b < 256" "c < 256"
  shows "(a * 65536 + b * 256 + c) div 65536 = a" "(a * 65536 + b * 256 + c) div 256 mod 256 = b"
    "(a * 65536 + b * 256 + c) mod 256 = c" "(a * 65536 + b * 256 + c) div 262144 < 64"
proof -
  have "a * 65536 + b * 256 + c = c + 256 * (a * 256 + b)" by simp
  then have q: "(a * 65536 + b * 256 + c) div 256 = a * 256 + b" "(a * 65536 + b * 256 + c) mod 256 = c"
    using assms(3) by (simp_all only: div_mult_self2 mod_mult_self2) simp_all
  show "(a * 65536 + b * 256 + c) mod 256 = c" by (rule q)
  show "(a * 65536 + b * 256 + c) div 256 mod 256 = b" using assms(2) by (simp add: q(1))
  have "(a * 65536 + b * 256 + c) div 65536 = (a * 256 + b) div 256"
    by (simp only: q(1) [symmetric] div_mult2_eq [symmetric]) simp
  then show "(a * 65536 + b * 256 + c) div 65536 = a" using assms(2) by simp
  show "(a * 65536 + b * 256 + c) div 262144 < 64" using assms by (simp add: less_mult_imp_div_less)
qed

lemma base64_groups_raw: "base64_groups (base64_raw s @ replicate ((3 - length s mod 3) mod 3) (CHR ''='')) = Some s"
proof (induction s rule: base64_raw.induct)
  case (2 a)
  let ?n = "of_char a * 65536 :: nat"
  have d: "?n div 262144 < 64" "?n div 4096 mod 64 < 64" using three_bytes(4) [of "of_char a" 0 0] of_char_lt [of a] by simp_all
  have "?n div 262144 = of_char a div 4" "?n div 4096 = of_char a * 16"
    using div_mult_mult2 [of 65536 "of_char a" "4 :: nat"] div_mult_mult2 [of 4096 "of_char a * 16" "1 :: nat"] by simp_all
  moreover have "of_char a * 16 mod 64 div 16 = of_char a mod (4 :: nat)" using mod_mult_mult2 [of "of_char a" "16 :: nat" 4] by simp
  ultimately have "?n div 262144 * 4 + ?n div 4096 mod 64 div 16 = of_char a" by (simp only: div_mult_mod_eq)
  with d show ?case by (simp add: Let_def base64_digit_facts numeral_2_eq_2)
next
  case (3 a b)
  let ?n = "of_char a * 65536 + of_char b * 256 :: nat"
  have d: "?n div 262144 < 64" "?n div 4096 mod 64 < 64" "?n div 64 mod 64 < 64"
    using three_bytes(4) [of "of_char a" "of_char b" 0] of_char_lt [of a] of_char_lt [of b] by simp_all
  have "?n = 64 * (of_char a * 1024 + of_char b * 4)" by simp
  then have "?n mod 64 = 0" by (simp only: mod_mult_self1_is_0)
  with four_digits [of ?n] have n: "?n div 262144 * 4096 + ?n div 4096 mod 64 * 64 + ?n div 64 mod 64 = of_char a * 1024 + of_char b * 4"
    by simp
  have "(of_char a * 1024 + of_char b * 4) div 1024 = (of_char a :: nat)" "(of_char a * 1024 + of_char b * 4) div 4 mod 256 = (of_char b :: nat)"
    using of_char_lt [of b] div_mult_mult2 [of 4 "of_char a * 256 + of_char b" "1 :: nat"] by simp_all
  moreover have "char_of (256 * of_char a + of_char b :: nat) = char_of ((256 * of_char a + of_char b) mod 256 :: nat)"
    by (simp only: char_of_mod_256)
  then have "char_of (256 * of_char a + of_char b :: nat) = b" by (simp only: mod_mult_self4 of_char_mod_256 char_of_char)
  ultimately show ?case using d n by (simp add: Let_def base64_digit_facts)
next
  case (4 a b c s)
  let ?n = "of_char a * 65536 + of_char b * 256 + of_char c :: nat"
  note bytes = three_bytes [of "of_char a" "of_char b" "of_char c", OF of_char_lt of_char_lt of_char_lt]
  have d: "?n div 262144 < 64" "?n div 4096 mod 64 < 64" "?n div 64 mod 64 < 64" "?n mod 64 < 64" using bytes(4) by simp_all
  have "length (a # b # c # s) mod 3 = length s mod 3" by simp
  with 4 d show ?case
    by (simp add: Let_def base64_digit_facts four_digits bytes del: char_of_mod_256)
qed simp

lemma base64_raw_plain: "\<forall>c \<in> set (base64_raw s). c \<noteq> CHR 0x0A \<and> c \<noteq> CHR 0x0D"
proof -
  have "n div 262144 < 64" if "n < 16777216" for n :: nat using that by simp
  then show ?thesis
    by (induction s rule: base64_raw.induct)
       (auto simp: Let_def base64_digit_facts of_char_lt three_bytes(4) [of _ 0 0, simplified] three_bytes(4) [of _ _ 0, simplified] three_bytes(4))
qed

lemma base64_decode_encode: "base64_decode (base64_std s) = Some s"
proof -
  have "filter (\<lambda>c. c \<noteq> CHR 0x0A \<and> c \<noteq> CHR 0x0D) (base64_std s) = base64_std s"
    using base64_raw_plain [of s] by (auto simp: base64_std_def intro!: filter_True)
  then show ?thesis by (simp add: base64_decode_def base64_std_def base64_groups_raw)
qed

section \<open>path/filepath\<close>

text \<open>The elements of a clean path, last first.\<close>

definition clean_step :: "bool \<Rightarrow> string list \<Rightarrow> string \<Rightarrow> string list" where
  "clean_step rooted st p =
     (if p = [] \<or> p = ''.'' then st
      else if p = ''..''
      then (case st of [] \<Rightarrow> if rooted then [] else [''..''] | t # ts \<Rightarrow> if t = ''..'' then ''..'' # st else ts)
      else p # st)"

definition Clean :: "string \<Rightarrow> string" where
  "Clean path =
     (if path = [] then ''.''
      else let rooted = hd path = CHR ''/''; body = join ''/'' (rev (foldl (clean_step rooted) [] (split_on (CHR ''/'') path)))
           in if rooted then CHR ''/'' # body else if body = [] then ''.'' else body)"

definition Base :: "string \<Rightarrow> string" where
  "Base path =
     (if path = [] then ''.''
      else let b = rev (takeWhile (\<lambda>c. c \<noteq> CHR ''/'') (dropWhile (\<lambda>c. c = CHR ''/'') (rev path)))
           in if b = [] then ''/'' else b)"

definition Dir :: "string \<Rightarrow> string" where
  "Dir path = Clean (rev (dropWhile (\<lambda>c. c \<noteq> CHR ''/'') (rev path)))"

definition Join :: "string list \<Rightarrow> string" where
  "Join elems = (let es = filter (\<lambda>s. s \<noteq> []) elems in if es = [] then [] else Clean (join ''/'' es))"

end
