(* ===== verification/Evidence.thy ===== *)
theory Evidence
  imports GoText Complex_Main
begin

text \<open>
  The validator of the evidence a verification run leaves behind: \<^verbatim>\<open>internal/platform/evidence/summary_validator.go\<close> (the schema and
  the consistency of \<^verbatim>\<open>summary.json\<close>) and \<^verbatim>\<open>summary_artifact_validator.go\<close> (the files a summary is linked with, the manifest and the
  signed attestation).

  A decoded JSON object is a map from its keys to values; a JSON number is the rational number its \<^verbatim>\<open>float64\<close> holds. The JSON
  decoder, SHA-256 and Ed25519 are parameters (\<open>evidence_lib\<close>): \<open>json_unmarshal\<close> decodes a text into a \<^verbatim>\<open>map[string]any\<close> (\<open>None\<close> is
  an error), \<open>ed_public\<close> is the public key of a seed. The host is a record as well: its environment, the contents of the files that
  can be read, what a shell command prints, and which paths can be written.
\<close>

section \<open>Values, errors, the host\<close>

datatype jvalue = VNull | VBool bool | VNumber rat | VString string | VOther

type_synonym jobject = "string \<rightharpoonup> jvalue"

record evidence_lib =
  json_unmarshal :: "string \<Rightarrow> jobject option"
  sha256 :: "string \<Rightarrow> string"
  ed_public :: "string \<Rightarrow> string"
  ed_sign :: "string \<Rightarrow> string \<Rightarrow> string"
  ed_verify :: "string \<Rightarrow> string \<Rightarrow> string \<Rightarrow> bool"

record host =
  Getenv :: "string \<Rightarrow> string"
  ReadFile :: "string \<Rightarrow> string option"
  RunCommand :: "string \<Rightarrow> string option"
  CanWrite :: "string \<Rightarrow> bool"
  CanMkdir :: "string \<Rightarrow> bool"
  FileOf :: "string \<Rightarrow> string"

text \<open>The errors: a field that is absent, a field with a wrong value, or the text of the message up to its arguments.\<close>

datatype evidence_error = MissingField string | InvalidField string | Failed string

fun first_error :: "'e option list \<Rightarrow> 'e option" where
  "first_error [] = None"
| "first_error (None # cs) = first_error cs"
| "first_error (Some err # cs) = Some err"

lemma first_error_None: "first_error cs = None \<longleftrightarrow> list_all (\<lambda>c. c = None) cs"
  by (induction cs rule: first_error.induct) auto

text \<open>A call that returns an error or a value, followed by the rest of the function.\<close>

definition then_check :: "'e + 'a \<Rightarrow> ('a \<Rightarrow> 'e option) \<Rightarrow> 'e option" where
  "then_check r f = (case r of Inl err \<Rightarrow> Some err | Inr v \<Rightarrow> f v)"

lemma then_check_None: "then_check r f = None \<longleftrightarrow> (\<exists>v. r = Inr v \<and> f v = None)"
  by (cases r) (auto simp: then_check_def)

definition or_fail :: "string \<Rightarrow> 'a option \<Rightarrow> evidence_error + 'a" where
  "or_fail msg r = (case r of None \<Rightarrow> Inl (Failed msg) | Some v \<Rightarrow> Inr v)"

lemma or_fail_Inr [simp]: "or_fail msg r = Inr v \<longleftrightarrow> r = Some v"
  by (cases r) (auto simp: or_fail_def)

definition check :: "bool \<Rightarrow> string \<Rightarrow> evidence_error option" where
  "check ok msg = (if ok then None else Some (Failed msg))"

lemma check_None [simp]: "check ok msg = None \<longleftrightarrow> ok"
  by (simp add: check_def)

section \<open>The fields of a summary: summary_validator.go\<close>

definition field :: "(jvalue \<Rightarrow> bool) \<Rightarrow> jobject \<Rightarrow> string \<Rightarrow> evidence_error option" where
  "field ok m key =
     (case m key of
        None \<Rightarrow> Some (MissingField key)
      | Some v \<Rightarrow> if ok v then None else Some (InvalidField key))"

lemma field_None: "field ok m key = None \<longleftrightarrow> (\<exists>v. m key = Some v \<and> ok v)"
  by (auto simp: field_def split: option.splits)

definition requireNonEmptyString :: "jobject \<Rightarrow> string \<Rightarrow> evidence_error option" where
  "requireNonEmptyString = field (\<lambda>v. case v of VString s \<Rightarrow> s \<noteq> [] | _ \<Rightarrow> False)"

definition requireInSetString :: "string list \<Rightarrow> jobject \<Rightarrow> string \<Rightarrow> evidence_error option" where
  "requireInSetString vals = field (\<lambda>v. case v of VString s \<Rightarrow> s \<in> set vals | _ \<Rightarrow> False)"

definition requireOptionalInSetString :: "string list \<Rightarrow> jobject \<Rightarrow> string \<Rightarrow> evidence_error option" where
  "requireOptionalInSetString vals = field (\<lambda>v. case v of VNull \<Rightarrow> True | VString s \<Rightarrow> s \<in> set vals | _ \<Rightarrow> False)"

definition requireBool :: "jobject \<Rightarrow> string \<Rightarrow> evidence_error option" where
  "requireBool = field (\<lambda>v. case v of VBool b \<Rightarrow> True | _ \<Rightarrow> False)"

definition requireNumberEquals :: "rat \<Rightarrow> jobject \<Rightarrow> string \<Rightarrow> evidence_error option" where
  "requireNumberEquals n = field (\<lambda>v. case v of VNumber f \<Rightarrow> f = n | _ \<Rightarrow> False)"

definition requireNumberNonNegative :: "jobject \<Rightarrow> string \<Rightarrow> evidence_error option" where
  "requireNumberNonNegative = field (\<lambda>v. case v of VNumber f \<Rightarrow> 0 \<le> f | _ \<Rightarrow> False)"

text \<open>The pattern \<^verbatim>\<open>^[A-Fa-f0-9]{64}$\<close>.\<close>

definition sha256HexPattern :: "string \<Rightarrow> bool" where
  "sha256HexPattern s \<longleftrightarrow> length s = 64 \<and> list_all (\<lambda>c. hex_digit_val c \<noteq> None) s"

definition requireSHA256HexString :: "jobject \<Rightarrow> string \<Rightarrow> evidence_error option" where
  "requireSHA256HexString = field (\<lambda>v. case v of VString s \<Rightarrow> sha256HexPattern s | _ \<Rightarrow> False)"

text \<open>Type assertions with the zero value as the result of a failed one; an absent key is a nil interface.\<close>

definition numberValue :: "jvalue option \<Rightarrow> rat" where
  "numberValue v = (case v of Some (VNumber f) \<Rightarrow> f | _ \<Rightarrow> 0)"

definition string_value :: "jvalue option \<Rightarrow> string" where
  "string_value v = (case v of Some (VString s) \<Rightarrow> s | _ \<Rightarrow> [])"

definition is_nil :: "jvalue option \<Rightarrow> bool" where
  "is_nil v \<longleftrightarrow> v = None \<or> v = Some VNull"

text \<open>
  The conversion \<^verbatim>\<open>int(f)\<close> drops the fraction; what it gives outside the range of \<^verbatim>\<open>int\<close> is left to the implementation, and is the
  least \<^verbatim>\<open>int64\<close> on amd64.
\<close>

definition int_of_float :: "rat \<Rightarrow> int" where
  "int_of_float f =
     (let t = (if 0 \<le> f then \<lfloor>f\<rfloor> else \<lceil>f\<rceil>) in if i64_min \<le> t \<and> t \<le> i64_max then t else i64_min)"

definition failureLabel :: "int \<Rightarrow> int \<Rightarrow> string" where
  "failureLabel protoStatus verifyStatus =
     (if protoStatus \<noteq> 0 \<and> verifyStatus \<noteq> 0 then ''both'' else if protoStatus \<noteq> 0 then ''proto_check'' else ''make_verify'')"

text \<open>The fields of schema 2, in the order they are checked in.\<close>

definition schema2_fields :: "jobject \<Rightarrow> evidence_error option list" where
  "schema2_fields s =
     [requireNumberEquals 2 s ''summary_schema_version'',
      requireNonEmptyString s ''timestamp_utc'',
      requireNonEmptyString s ''run_dir'',
      requireInSetString [''full'', ''diff-only''] s ''proto_mode'',
      requireBool s ''require_clean_worktree'',
      requireBool s ''required_artifacts_present'',
      requireBool s ''optional_changed_files_present'',
      requireNumberNonNegative s ''required_artifact_count_expected'',
      requireNumberNonNegative s ''required_artifact_count_present'',
      requireNumberNonNegative s ''required_artifact_count_missing'',
      requireNumberNonNegative s ''artifact_file_count'',
      requireNumberNonNegative s ''artifact_total_bytes'',
      requireNumberEquals 0 s ''summary_validation_status'',
      requireNonEmptyString s ''summary_validation_log'',
      requireSHA256HexString s ''summary_validation_log_sha256'',
      requireInSetString [''signed''] s ''attestation_status'',
      requireInSetString [''ed25519''] s ''attestation_alg'',
      requireOptionalInSetString [''attestation.json''] s ''attestation_file'',
      requireOptionalInSetString [''attestation.sig''] s ''attestation_signature_file'',
      requireNumberNonNegative s ''proto_check_status'',
      requireNumberNonNegative s ''make_verify_status'',
      requireInSetString [''pass'', ''fail''] s ''overall_status'',
      requireOptionalInSetString [''proto_check'', ''make_verify'', ''both''] s ''failed_step'',
      requireOptionalInSetString [''changed_files.txt''] s ''changed_files_artifact'']"

text \<open>
  The counts, the changed files and the statuses must agree. The sum of the counts is taken in \<^verbatim>\<open>int\<close> and wraps around; the type
  assertions \<^verbatim>\<open>.(bool)\<close> and \<^verbatim>\<open>.(string)\<close> cannot panic after the checks of the fields.
\<close>

definition schema2_counts :: "jobject \<Rightarrow> evidence_error option list" where
  "schema2_counts s =
     (let expected = int_of_float (numberValue (s ''required_artifact_count_expected''));
          present = int_of_float (numberValue (s ''required_artifact_count_present''));
          missing = int_of_float (numberValue (s ''required_artifact_count_missing''))
      in [check (0 \<le> expected \<and> 0 \<le> present \<and> 0 \<le> missing) ''required artifact counts must be non-negative'',
          check (sint (word_of_int present + word_of_int missing :: i64) = expected) ''required artifact counts inconsistent'',
          check ((s ''required_artifacts_present'' = Some (VBool True)) = (missing = 0))
            ''required_artifacts_present inconsistent with missing count''])"

definition schema2_changed :: "jobject \<Rightarrow> evidence_error option list" where
  "schema2_changed s =
     (let optionalChanged = (s ''optional_changed_files_present'' = Some (VBool True)); changedArtifact = s ''changed_files_artifact''
      in [check (optionalChanged \<longrightarrow> changedArtifact = Some (VString ''changed_files.txt''))
            ''optional_changed_files_present=true requires changed_files_artifact=changed_files.txt'',
          check (\<not> optionalChanged \<longrightarrow> is_nil changedArtifact)
            ''optional_changed_files_present=false requires changed_files_artifact=null''])"

definition schema2_status :: "jobject \<Rightarrow> evidence_error option list" where
  "schema2_status s =
     (let protoStatus = int_of_float (numberValue (s ''proto_check_status''));
          verifyStatus = int_of_float (numberValue (s ''make_verify_status''));
          failedStep = s ''failed_step''
      in if string_value (s ''overall_status'') = ''pass''
         then [check (protoStatus = 0 \<and> verifyStatus = 0) ''overall_status=pass requires zero statuses'',
               check (is_nil failedStep) ''overall_status=pass requires failed_step=null'']
         else [check (\<not> (protoStatus = 0 \<and> verifyStatus = 0)) ''overall_status=fail requires non-zero status'',
               check (failedStep = Some (VString (failureLabel protoStatus verifyStatus))) ''failed_step mismatch''])"

definition validateSummarySchema2 :: "jobject \<Rightarrow> evidence_error option" where
  "validateSummarySchema2 s =
     first_error (schema2_fields s @ schema2_counts s @ schema2_changed s @ schema2_status s)"

definition ValidateSummaryJSON :: "evidence_lib \<Rightarrow> string \<Rightarrow> evidence_error option" where
  "ValidateSummaryJSON lib data =
     (case json_unmarshal lib data of
        None \<Rightarrow> Some (Failed ''invalid JSON'')
      | Some s \<Rightarrow>
          (case s ''summary_schema_version'' of
             Some (VNumber version) \<Rightarrow>
               if version = 2 then validateSummarySchema2 s else Some (Failed ''unsupported summary_schema_version'')
           | _ \<Rightarrow> Some (Failed ''field summary_schema_version must be number'')))"

section \<open>Keys: summary_artifact_validator.go\<close>

definition DefaultVerifyEvidenceAttestationKeyID :: string where
  "DefaultVerifyEvidenceAttestationKeyID = ''dev-default''"

definition defaultDevSeedContext :: string where
  "defaultDevSeedContext = ''open-rgs-go-dev-attestation-seed''"

text \<open>\<^verbatim>\<open>ed25519.NewKeyFromSeed\<close>, \<^verbatim>\<open>PrivateKey.Public\<close> and \<^verbatim>\<open>PrivateKey.Seed\<close>: a private key is the seed followed by the public key.\<close>

definition NewKeyFromSeed :: "evidence_lib \<Rightarrow> string \<Rightarrow> string" where
  "NewKeyFromSeed lib seed = seed @ ed_public lib seed"

definition key_Public :: "string \<Rightarrow> string" where
  "key_Public priv = drop 32 priv"

definition key_Seed :: "string \<Rightarrow> string" where
  "key_Seed priv = take 32 priv"

definition defaultDevEd25519PublicKey :: "evidence_lib \<Rightarrow> string" where
  "defaultDevEd25519PublicKey lib = key_Public (NewKeyFromSeed lib (take 32 (sha256 lib defaultDevSeedContext)))"

definition resolveValueSource :: "host \<Rightarrow> string \<Rightarrow> string \<Rightarrow> string \<Rightarrow> evidence_error + string" where
  "resolveValueSource h valueEnv fileEnv commandEnv =
     (let p = trim_space (Getenv h fileEnv); cmdRaw = trim_space (Getenv h commandEnv)
      in if p \<noteq> [] then map_sum id trim_space (or_fail (''read '' @ valueEnv @ '' file'') (ReadFile h p))
         else if cmdRaw \<noteq> [] then map_sum id trim_space (or_fail (''run '' @ valueEnv @ '' command'') (RunCommand h cmdRaw))
         else Inr (trim_space (Getenv h valueEnv)))"

definition normalizeKeyMaterial :: "string \<Rightarrow> string" where
  "normalizeKeyMaterial raw =
     (let trimmed = trim_space raw
      in if 2 \<le> length trimmed \<and> (hd trimmed = CHR 0x22 \<and> last trimmed = CHR 0x22 \<or> hd trimmed = CHR 0x27 \<and> last trimmed = CHR 0x27)
         then trim_space (butlast (tl trimmed)) else trimmed)"

definition parseEd25519PublicKey :: "string \<Rightarrow> evidence_error + string" where
  "parseEd25519PublicKey raw =
     (case base64_decode (normalizeKeyMaterial raw) of
        None \<Rightarrow> Inl (Failed ''decode ed25519 public key base64'')
      | Some decoded \<Rightarrow> if length decoded = 32 then Inr decoded else Inl (Failed ''invalid ed25519 public key length''))"

text \<open>A key ring: entries \<^verbatim>\<open>id:value\<close> between commas; empty entries are skipped and a later entry replaces an earlier one.\<close>

definition ring_entry :: "string \<Rightarrow> (string \<times> string) option" where
  "ring_entry p =
     (case split_two (CHR '':'') p of
        None \<Rightarrow> None
      | Some (a, b) \<Rightarrow> if a = [] \<or> b = [] \<or> trim_space a = [] \<or> trim_space b = [] then None else Some (trim_space a, trim_space b))"

fun key_ring :: "string list \<Rightarrow> (string \<rightharpoonup> string) \<Rightarrow> (string \<rightharpoonup> string) option" where
  "key_ring [] ring = Some ring"
| "key_ring (part # ps) ring =
     (if trim_space part = [] then key_ring ps ring
      else (case ring_entry (trim_space part) of
              None \<Rightarrow> None
            | Some (i, v) \<Rightarrow> key_ring ps (ring(i \<mapsto> v))))"

definition enforced :: "host \<Rightarrow> bool" where
  "enforced h \<longleftrightarrow>
     Getenv h ''RGS_VERIFY_EVIDENCE_ENFORCE_ATTESTATION_KEY'' = ''true'' \<or> Getenv h ''GITHUB_ACTIONS'' = ''true''"

text \<open>
  Which key material belongs to a key id: the ring when one is configured, otherwise the single key when its id is the configured
  one, otherwise the development key. The validator and \<^verbatim>\<open>attestsign\<close> have the same text for their own variables.
\<close>

definition ring_lookup :: "string \<Rightarrow> string \<Rightarrow> (string \<Rightarrow> evidence_error + 'k) \<Rightarrow> string \<Rightarrow> evidence_error + 'k" where
  "ring_lookup keyRingRaw keyID parse var =
     (case key_ring (split_on (CHR '','') keyRingRaw) Map.empty of
        None \<Rightarrow> Inl (Failed (''invalid '' @ var @ '' entry''))
      | Some ring \<Rightarrow> (case ring keyID of None \<Rightarrow> Inl (Failed ''no ed25519 key for key_id'') | Some raw \<Rightarrow> parse raw))"

definition single_key :: "host \<Rightarrow> string \<Rightarrow> string \<Rightarrow> (string \<Rightarrow> evidence_error + 'k) \<Rightarrow> 'k \<Rightarrow> evidence_error + 'k" where
  "single_key h raw keyID parse dflt =
     (if raw = []
      then (if \<not> enforced h \<and> keyID = DefaultVerifyEvidenceAttestationKeyID then Inr dflt
            else Inl (Failed ''a key or a key ring is required for ed25519''))
      else let configured = Getenv h ''RGS_VERIFY_EVIDENCE_ATTESTATION_KEY_ID'';
               singleID = (if configured = [] then DefaultVerifyEvidenceAttestationKeyID else configured)
           in if singleID \<noteq> keyID then Inl (Failed ''ed25519 key_id mismatch'') else parse raw)"

definition resolveEd25519PublicKey :: "evidence_lib \<Rightarrow> host \<Rightarrow> string \<Rightarrow> evidence_error + string" where
  "resolveEd25519PublicKey lib h keyID =
     (case resolveValueSource h ''RGS_VERIFY_EVIDENCE_ATTESTATION_ED25519_PUBLIC_KEYS''
             ''RGS_VERIFY_EVIDENCE_ATTESTATION_ED25519_PUBLIC_KEYS_FILE''
             ''RGS_VERIFY_EVIDENCE_ATTESTATION_ED25519_PUBLIC_KEYS_COMMAND'' of
        Inl err \<Rightarrow> Inl err
      | Inr keyRingRaw \<Rightarrow>
          if keyRingRaw \<noteq> []
          then ring_lookup keyRingRaw keyID parseEd25519PublicKey ''RGS_VERIFY_EVIDENCE_ATTESTATION_ED25519_PUBLIC_KEYS''
          else (case resolveValueSource h ''RGS_VERIFY_EVIDENCE_ATTESTATION_ED25519_PUBLIC_KEY''
                       ''RGS_VERIFY_EVIDENCE_ATTESTATION_ED25519_PUBLIC_KEY_FILE''
                       ''RGS_VERIFY_EVIDENCE_ATTESTATION_ED25519_PUBLIC_KEY_COMMAND'' of
                  Inl err \<Rightarrow> Inl err
                | Inr raw \<Rightarrow> single_key h raw keyID parseEd25519PublicKey (defaultDevEd25519PublicKey lib)))"

definition verifyAttestationSignature :: "evidence_lib \<Rightarrow> host \<Rightarrow> string \<Rightarrow> string \<Rightarrow> string \<Rightarrow> string \<Rightarrow> evidence_error option" where
  "verifyAttestationSignature lib h alg keyID attestationData attestationSig =
     (if alg \<noteq> ''ed25519'' then Some (Failed ''unsupported attestation algorithm'')
      else then_check (resolveEd25519PublicKey lib h keyID)
        (\<lambda>pub. then_check (or_fail ''decode ed25519 signature hex'' (hex_decode attestationSig))
          (\<lambda>sigBytes. check (ed_verify lib pub attestationData sigBytes) ''attestation signature mismatch'')))"

section \<open>The files of a run: ValidateSummaryArtifact\<close>

text \<open>A line of \<^verbatim>\<open>manifest.sha256\<close> that gives a file a checksum.\<close>

definition manifest_has :: "string \<Rightarrow> string \<Rightarrow> string \<Rightarrow> bool" where
  "manifest_has manifestData checksum path \<longleftrightarrow>
     list_ex (\<lambda>line. case split_fields line of
                       a # b # _ \<Rightarrow> equal_fold a checksum \<and> Clean b = path
                     | _ \<Rightarrow> False)
       (split_on (CHR 0x0A) manifestData)"

definition attestation_fields :: "jobject \<Rightarrow> evidence_error option list" where
  "attestation_fields a =
     [requireNumberEquals 1 a ''attestation_schema_version'',
      requireNonEmptyString a ''generated_at'',
      requireNonEmptyString a ''run_dir'',
      requireNonEmptyString a ''summary_sha256'',
      requireNonEmptyString a ''key_id'',
      requireInSetString [''ed25519''] a ''alg'']"

text \<open>The checks of the attestation: its fields, its signature, the run and the summary it is about, and its lines in index and manifest.\<close>

definition attestation_checks ::
    "evidence_lib \<Rightarrow> host \<Rightarrow> string \<Rightarrow> jobject \<Rightarrow> string \<Rightarrow> string \<Rightarrow> string \<Rightarrow> string \<Rightarrow> jobject \<Rightarrow> evidence_error option" where
  "attestation_checks lib h summaryPath s indexData manifestData attestationData attestationSigData a =
     (let runDir = string_value (s ''run_dir''); alg = string_value (a ''alg'')
      in first_error
           (attestation_fields a @
            [check (enforced h \<longrightarrow> alg = ''ed25519'') ''strict/CI validation requires attestation alg=ed25519'',
             verifyAttestationSignature lib h alg (string_value (a ''key_id'')) attestationData (trim_space attestationSigData),
             check (Clean (string_value (a ''run_dir'')) = Clean runDir) ''attestation run_dir mismatch'',
             then_check (or_fail ''read summary for attestation hash'' (ReadFile h summaryPath))
               (\<lambda>summaryData. check (equal_fold (hex_encode (sha256 lib summaryData)) (string_value (a ''summary_sha256'')))
                  ''attestation summary_sha256 mismatch''),
             check (contains indexData (''attestation.json'' @ [CHR 0x09]) \<and> contains indexData (''attestation.sig'' @ [CHR 0x09]))
               ''index.txt missing attestation artifacts'',
             check (manifest_has manifestData (hex_encode (sha256 lib attestationData))
                      (Clean (Join [runDir, string_value (s ''attestation_file'')])) \<and>
                    manifest_has manifestData (hex_encode (sha256 lib attestationSigData))
                      (Clean (Join [runDir, string_value (s ''attestation_signature_file'')])))
               ''manifest.sha256 missing attestation checksum entries'']))"

text \<open>The checks of the validation log and of its lines in index and manifest, then the attestation.\<close>

definition artifact_checks :: "evidence_lib \<Rightarrow> host \<Rightarrow> string \<Rightarrow> jobject \<Rightarrow> evidence_error option" where
  "artifact_checks lib h summaryPath s =
     (let summaryDir = Clean (Dir summaryPath); runDir = string_value (s ''run_dir'');
          logName = string_value (s ''summary_validation_log''); expectedLogSHA = string_value (s ''summary_validation_log_sha256'')
      in then_check (or_fail ''read summary validation log'' (ReadFile h (Join [summaryDir, logName]))) (\<lambda>logData.
           if \<not> equal_fold (hex_encode (sha256 lib logData)) expectedLogSHA then Some (Failed ''summary_validation_log_sha256 mismatch'')
           else then_check (or_fail ''read index.txt'' (ReadFile h (Join [summaryDir, ''index.txt'']))) (\<lambda>indexData.
           if \<not> contains indexData (''summary_validation.log'' @ [CHR 0x09]) then Some (Failed ''index.txt missing summary_validation.log entry'')
           else then_check (or_fail ''read manifest.sha256'' (ReadFile h (Join [summaryDir, ''manifest.sha256'']))) (\<lambda>manifestData.
           if \<not> manifest_has manifestData expectedLogSHA (Clean (Join [runDir, logName]))
           then Some (Failed ''manifest.sha256 missing summary_validation.log checksum line'')
           else then_check (or_fail ''read attestation'' (ReadFile h (Join [summaryDir, string_value (s ''attestation_file'')]))) (\<lambda>attestationData.
           then_check (or_fail ''read attestation signature'' (ReadFile h (Join [summaryDir, string_value (s ''attestation_signature_file'')])))
             (\<lambda>attestationSigData.
           then_check (or_fail ''invalid attestation JSON'' (json_unmarshal lib attestationData)) (\<lambda>a.
             attestation_checks lib h summaryPath s indexData manifestData attestationData attestationSigData a)))))))"

definition ValidateSummaryArtifact :: "evidence_lib \<Rightarrow> host \<Rightarrow> string \<Rightarrow> string \<Rightarrow> evidence_error option" where
  "ValidateSummaryArtifact lib h summaryPath mode =
     (if mode \<noteq> ''json'' \<and> mode \<noteq> ''strict'' then Some (Failed ''invalid validation mode'')
      else then_check (or_fail ''read summary'' (ReadFile h summaryPath)) (\<lambda>data.
        if ValidateSummaryJSON lib data \<noteq> None then ValidateSummaryJSON lib data
        else if mode = ''json'' then None
        else then_check (or_fail ''invalid JSON'' (json_unmarshal lib data)) (\<lambda>s.
          let logName = string_value (s ''summary_validation_log''); attestationFile = string_value (s ''attestation_file'');
              attestationSigFile = string_value (s ''attestation_signature_file'')
          in first_error
               [check (Base logName = logName) ''summary_validation_log must be basename'',
                check (Base attestationFile = attestationFile) ''attestation_file must be basename'',
                check (Base attestationSigFile = attestationSigFile) ''attestation_signature_file must be basename'',
                check (Clean (string_value (s ''run_dir'')) = Clean (Dir summaryPath)) ''run_dir mismatch'',
                artifact_checks lib h summaryPath s])))"

end
