(* ===== verification/Attest.thy ===== *)
theory Attest
  imports Evidence
begin

text \<open>
  The command line tools around the evidence: \<^verbatim>\<open>cmd/attestsign\<close> (signs an attestation), \<^verbatim>\<open>cmd/attestkeygen\<close> (makes a key pair and
  prints it or writes it to files), \<^verbatim>\<open>cmd/verifysummary\<close> and \<^verbatim>\<open>cmd/credhash\<close>. A run of a tool maps the host and the arguments to
  the exit status, the lines printed on standard output and the host afterwards; messages on standard error are left out.
\<close>

section \<open>Command lines: the flag package\<close>

datatype flag_error = ErrHelp | BadFlag

text \<open>\<^verbatim>\<open>strconv.ParseBool\<close>.\<close>

definition parse_bool :: "string \<Rightarrow> bool option" where
  "parse_bool v =
     (if v \<in> {''1'', ''t'', ''T'', ''TRUE'', ''true'', ''True''} then Some True
      else if v \<in> {''0'', ''f'', ''F'', ''FALSE'', ''false'', ''False''} then Some False else None)"

text \<open>The name of a flag and the value behind the first \<^verbatim>\<open>=\<close> that is not the first byte.\<close>

definition flag_name :: "string \<Rightarrow> string \<times> string option" where
  "flag_name s =
     (case split_two (CHR ''='') (tl s) of
        None \<Rightarrow> (s, None)
      | Some (n, v) \<Rightarrow> (hd s # n, Some v))"

text \<open>
  \<^verbatim>\<open>FlagSet.Parse\<close>: \<open>known\<close> tells the flags and which of them are boolean. The result lists the settings in their order and the
  arguments that are left; the first argument that is not a flag ends the flags, and so does \<^verbatim>\<open>--\<close>.
\<close>

fun flag_parse :: "(string \<Rightarrow> bool option) \<Rightarrow> string list \<Rightarrow> flag_error + (string \<times> string) list \<times> string list" where
  "flag_parse known [] = Inr ([], [])"
| "flag_parse known (s # args) =
     (if length s < 2 \<or> hd s \<noteq> CHR ''-'' then Inr ([], s # args)
      else if s = ''--'' then Inr ([], args)
      else let body = (if s ! 1 = CHR ''-'' then drop 2 s else tl s)
           in if body = [] \<or> hd body = CHR ''-'' \<or> hd body = CHR ''='' then Inl BadFlag
              else (case flag_name body of (name, v) \<Rightarrow>
                (case known name of
                   None \<Rightarrow> Inl (if name = ''help'' \<or> name = ''h'' then ErrHelp else BadFlag)
                 | Some True \<Rightarrow>
                     (case v of
                        None \<Rightarrow> map_sum id (map_prod ((#) (name, ''true'')) id) (flag_parse known args)
                      | Some b \<Rightarrow> if parse_bool b = None then Inl BadFlag
                                  else map_sum id (map_prod ((#) (name, b)) id) (flag_parse known args))
                 | Some False \<Rightarrow>
                     (case v of
                        Some t \<Rightarrow> map_sum id (map_prod ((#) (name, t)) id) (flag_parse known args)
                      | None \<Rightarrow>
                          (case args of
                             [] \<Rightarrow> Inl BadFlag
                           | t # rest \<Rightarrow> map_sum id (map_prod ((#) (name, t)) id) (flag_parse known rest))))))"

definition flag_value :: "(string \<times> string) list \<Rightarrow> string \<Rightarrow> string \<Rightarrow> string" where
  "flag_value settings name dflt = (case map_of (rev settings) name of None \<Rightarrow> dflt | Some v \<Rightarrow> v)"

definition flag_bool :: "(string \<times> string) list \<Rightarrow> string \<Rightarrow> bool \<Rightarrow> bool" where
  "flag_bool settings name dflt =
     (case map_of (rev settings) name of None \<Rightarrow> dflt | Some v \<Rightarrow> parse_bool v = Some True)"

text \<open>The flags of the command line itself: a wrong one ends the program with status 2, a request for help with 0.\<close>

definition flag_exit :: "flag_error \<Rightarrow> nat" where
  "flag_exit err = (case err of ErrHelp \<Rightarrow> 0 | BadFlag \<Rightarrow> 2)"

section \<open>Runs of a program\<close>

record process =
  ExitStatus :: nat
  Stdout :: "string list"
  HostAfter :: host

definition exit_with :: "nat \<Rightarrow> host \<Rightarrow> process" where
  "exit_with status h = \<lparr>ExitStatus = status, Stdout = [], HostAfter = h\<rparr>"

text \<open>
  \<^verbatim>\<open>os.WriteFile\<close>: the file holds the data afterwards, under every path that names it, or the path cannot be written. \<open>FileOf\<close> is the
  file that a path names.
\<close>

definition stored :: "string \<Rightarrow> string \<Rightarrow> host \<Rightarrow> host" where
  "stored path data h = h\<lparr>ReadFile := (\<lambda>q. if FileOf h q = FileOf h path then Some data else ReadFile h q)\<rparr>"

definition WriteFile :: "string \<Rightarrow> string \<Rightarrow> host \<Rightarrow> host option" where
  "WriteFile path data h = (if CanWrite h path then Some (stored path data h) else None)"

section \<open>cmd/attestsign\<close>

definition parseEd25519PrivateKey :: "evidence_lib \<Rightarrow> string \<Rightarrow> evidence_error + string" where
  "parseEd25519PrivateKey lib raw =
     (case base64_decode (normalizeKeyMaterial raw) of
        None \<Rightarrow> Inl (Failed ''decode base64 private key'')
      | Some decoded \<Rightarrow>
          if length decoded = 32 then Inr (NewKeyFromSeed lib decoded)
          else if length decoded = 64 then Inr decoded else Inl (Failed ''invalid ed25519 private key length''))"

definition defaultDevEd25519PrivateKey :: "evidence_lib \<Rightarrow> string" where
  "defaultDevEd25519PrivateKey lib = NewKeyFromSeed lib (take 32 (sha256 lib defaultDevSeedContext))"

definition inline_key :: "host \<Rightarrow> bool" where
  "inline_key h \<longleftrightarrow>
     trim_space (Getenv h ''RGS_VERIFY_EVIDENCE_ATTESTATION_ED25519_PRIVATE_KEY'') \<noteq> [] \<or>
     trim_space (Getenv h ''RGS_VERIFY_EVIDENCE_ATTESTATION_ED25519_PRIVATE_KEYS'') \<noteq> []"

definition resolveEd25519PrivateKey :: "evidence_lib \<Rightarrow> host \<Rightarrow> string \<Rightarrow> evidence_error + string" where
  "resolveEd25519PrivateKey lib h keyID =
     (if enforced h \<and> Getenv h ''RGS_VERIFY_EVIDENCE_ALLOW_INLINE_PRIVATE_KEY'' \<noteq> ''true'' \<and> inline_key h
      then Inl (Failed ''inline ed25519 private-key env vars are disabled in strict/CI mode'')
      else (case resolveValueSource h ''RGS_VERIFY_EVIDENCE_ATTESTATION_ED25519_PRIVATE_KEYS''
                   ''RGS_VERIFY_EVIDENCE_ATTESTATION_ED25519_PRIVATE_KEYS_FILE''
                   ''RGS_VERIFY_EVIDENCE_ATTESTATION_ED25519_PRIVATE_KEYS_COMMAND'' of
              Inl err \<Rightarrow> Inl err
            | Inr keyRingRaw \<Rightarrow>
                if keyRingRaw \<noteq> []
                then ring_lookup keyRingRaw keyID (parseEd25519PrivateKey lib) ''RGS_VERIFY_EVIDENCE_ATTESTATION_ED25519_PRIVATE_KEYS''
                else (case resolveValueSource h ''RGS_VERIFY_EVIDENCE_ATTESTATION_ED25519_PRIVATE_KEY''
                             ''RGS_VERIFY_EVIDENCE_ATTESTATION_ED25519_PRIVATE_KEY_FILE''
                             ''RGS_VERIFY_EVIDENCE_ATTESTATION_ED25519_PRIVATE_KEY_COMMAND'' of
                        Inl err \<Rightarrow> Inl err
                      | Inr raw \<Rightarrow> single_key h raw keyID (parseEd25519PrivateKey lib) (defaultDevEd25519PrivateKey lib))))"

definition attestsign_flags :: "string \<Rightarrow> bool option" where
  "attestsign_flags name = (if name \<in> {''in'', ''out'', ''alg'', ''key-id''} then Some False else None)"

definition attestsign :: "evidence_lib \<Rightarrow> host \<Rightarrow> string list \<Rightarrow> process" where
  "attestsign lib h args =
     (case flag_parse attestsign_flags args of
        Inl err \<Rightarrow> exit_with (flag_exit err) h
      | Inr (settings, _) \<Rightarrow>
          let inp = flag_value settings ''in'' []; out = flag_value settings ''out'' []
          in if inp = [] \<or> out = [] then exit_with 2 h
             else (case ReadFile h inp of
                     None \<Rightarrow> exit_with 1 h
                   | Some data \<Rightarrow>
                       if flag_value settings ''alg'' ''ed25519'' \<noteq> ''ed25519'' then exit_with 1 h
                       else (case resolveEd25519PrivateKey lib h (flag_value settings ''key-id'' DefaultVerifyEvidenceAttestationKeyID) of
                               Inl err \<Rightarrow> exit_with 1 h
                             | Inr priv \<Rightarrow>
                                 (case WriteFile out (hex_encode (ed_sign lib priv data) @ [CHR 0x0A]) h of
                                    None \<Rightarrow> exit_with 1 h
                                  | Some h' \<Rightarrow> exit_with 0 h'))))"

section \<open>cmd/attestkeygen\<close>

record keygen_config =
  cfg_alg :: string
  cfg_format :: string
  cfg_outDir :: string
  cfg_verify :: bool
  cfg_keyID :: string
  cfg_keyIDVar :: string
  cfg_emitKeyID :: bool
  cfg_privateVar :: string
  cfg_publicVar :: string
  cfg_ringOutput :: bool
  cfg_privateMaterialFmt :: string

definition envOr :: "(string \<Rightarrow> string) \<Rightarrow> string \<Rightarrow> string \<Rightarrow> string" where
  "envOr lookup key fallback = (let v = trim_space (lookup key) in if v \<noteq> [] then v else fallback)"

definition envOr2 :: "(string \<Rightarrow> string) \<Rightarrow> string \<Rightarrow> string \<Rightarrow> string \<Rightarrow> string" where
  "envOr2 lookup primary secondary fallback = envOr lookup primary (envOr lookup secondary fallback)"

definition envBoolOr :: "(string \<Rightarrow> string) \<Rightarrow> string \<Rightarrow> bool \<Rightarrow> bool" where
  "envBoolOr lookup key fallback =
     (let v = trim_space (to_lower (lookup key))
      in if v \<in> {''1'', ''true'', ''yes'', ''y'', ''on''} then True
         else if v \<in> {''0'', ''false'', ''no'', ''n'', ''off''} then False else fallback)"

definition keygen_flags :: "string \<Rightarrow> bool option" where
  "keygen_flags name =
     (if name \<in> {''alg'', ''format'', ''out-dir'', ''key-id'', ''key-id-var'', ''private-var'', ''public-var'', ''private-material''}
      then Some False
      else if name \<in> {''verify'', ''emit-key-id'', ''ring''} then Some True else None)"

definition parseConfig :: "string list \<Rightarrow> (string \<Rightarrow> string) \<Rightarrow> flag_error + keygen_config" where
  "parseConfig args lookup =
     map_sum id (\<lambda>(settings, rest).
       \<lparr>cfg_alg = flag_value settings ''alg'' (envOr lookup ''RGS_ATTEST_KEYGEN_ALG'' ''ed25519''),
        cfg_format = flag_value settings ''format'' (envOr lookup ''RGS_ATTEST_KEYGEN_FORMAT'' ''assignments''),
        cfg_outDir = flag_value settings ''out-dir'' (envOr lookup ''RGS_ATTEST_KEYGEN_OUT_DIR'' []),
        cfg_verify = flag_bool settings ''verify'' (envBoolOr lookup ''RGS_ATTEST_KEYGEN_VERIFY'' False),
        cfg_keyID = flag_value settings ''key-id''
          (envOr2 lookup ''RGS_ATTEST_KEYGEN_KEY_ID'' ''RGS_VERIFY_EVIDENCE_ATTESTATION_KEY_ID'' ''ci-active''),
        cfg_keyIDVar = flag_value settings ''key-id-var''
          (envOr lookup ''RGS_ATTEST_KEYGEN_KEY_ID_VAR'' ''RGS_VERIFY_EVIDENCE_ATTESTATION_KEY_ID''),
        cfg_emitKeyID = flag_bool settings ''emit-key-id'' (envBoolOr lookup ''RGS_ATTEST_KEYGEN_EMIT_KEY_ID'' True),
        cfg_privateVar = flag_value settings ''private-var''
          (envOr lookup ''RGS_ATTEST_KEYGEN_PRIVATE_VAR'' ''RGS_VERIFY_EVIDENCE_ATTESTATION_ED25519_PRIVATE_KEY''),
        cfg_publicVar = flag_value settings ''public-var''
          (envOr lookup ''RGS_ATTEST_KEYGEN_PUBLIC_VAR'' ''RGS_VERIFY_EVIDENCE_ATTESTATION_ED25519_PUBLIC_KEYS''),
        cfg_ringOutput = flag_bool settings ''ring'' (envBoolOr lookup ''RGS_ATTEST_KEYGEN_RING'' True),
        cfg_privateMaterialFmt = flag_value settings ''private-material'' (envOr lookup ''RGS_ATTEST_KEYGEN_PRIVATE_MATERIAL'' ''seed'')\<rparr>)
     (flag_parse keygen_flags args)"

record keyMaterial =
  privateValue :: string
  publicValue :: string

definition renderKeyMaterial :: "keygen_config \<Rightarrow> string \<Rightarrow> string \<Rightarrow> keyMaterial" where
  "renderKeyMaterial cfg pub priv =
     (let privateBytes = (if cfg_privateMaterialFmt cfg = ''seed'' then key_Seed priv else priv);
          prefix = (if cfg_ringOutput cfg then cfg_keyID cfg @ '':'' else [])
      in \<lparr>privateValue = prefix @ base64_std privateBytes, publicValue = prefix @ base64_std pub\<rparr>)"

definition assignment :: "string \<Rightarrow> string \<Rightarrow> string" where
  "assignment var v = var @ ''='' @ v"

definition renderAssignments :: "keygen_config \<Rightarrow> keyMaterial \<Rightarrow> string list" where
  "renderAssignments cfg material =
     (if cfg_format cfg = ''github-secrets'' then [privateValue material, publicValue material]
      else (if cfg_emitKeyID cfg then [assignment (cfg_keyIDVar cfg) (cfg_keyID cfg)] else [])
           @ [assignment (cfg_privateVar cfg) (privateValue material), assignment (cfg_publicVar cfg) (publicValue material)])"

text \<open>
  The files and the lines that name them; no lines when the directory or a file cannot be written. A private key file that is
  written stays when the public one fails.
\<close>

definition writeSecretFiles :: "keygen_config \<Rightarrow> keyMaterial \<Rightarrow> host \<Rightarrow> string list option \<times> host" where
  "writeSecretFiles cfg material h =
     (let ring = cfg_ringOutput cfg;
          privatePath = Join [cfg_outDir cfg, if ring then ''private-keys.txt'' else ''private-key.txt''];
          publicPath = Join [cfg_outDir cfg, if ring then ''public-keys.txt'' else ''public-key.txt'']
      in if \<not> CanMkdir h (cfg_outDir cfg) then (None, h)
         else (case WriteFile privatePath (privateValue material @ [CHR 0x0A]) h of
                 None \<Rightarrow> (None, h)
               | Some h1 \<Rightarrow>
                   (case WriteFile publicPath (publicValue material @ [CHR 0x0A]) h1 of
                      None \<Rightarrow> (None, h1)
                    | Some h2 \<Rightarrow>
                        (Some [assignment (cfg_keyIDVar cfg) (cfg_keyID cfg),
                           assignment (if ring then ''RGS_VERIFY_EVIDENCE_ATTESTATION_ED25519_PRIVATE_KEYS_FILE''
                                       else ''RGS_VERIFY_EVIDENCE_ATTESTATION_ED25519_PRIVATE_KEY_FILE'') privatePath,
                           assignment (if ring then ''RGS_VERIFY_EVIDENCE_ATTESTATION_ED25519_PUBLIC_KEYS_FILE''
                                       else ''RGS_VERIFY_EVIDENCE_ATTESTATION_ED25519_PUBLIC_KEY_FILE'') publicPath], h2))))"

definition stripKeyIDPrefix :: "string \<Rightarrow> string \<Rightarrow> evidence_error + string" where
  "stripKeyIDPrefix v keyID =
     (case trim_prefix (keyID @ '':'') v of
        None \<Rightarrow> Inl (Failed ''expected prefix'')
      | Some raw \<Rightarrow> if raw = [] then Inl (Failed ''empty key material after prefix'') else Inr raw)"

definition verifyMaterial :: "evidence_lib \<Rightarrow> keygen_config \<Rightarrow> keyMaterial \<Rightarrow> evidence_error option" where
  "verifyMaterial lib cfg material =
     (let strip = (\<lambda>v. if cfg_ringOutput cfg then stripKeyIDPrefix v (cfg_keyID cfg) else Inr v)
      in then_check (strip (privateValue material)) (\<lambda>privateRaw.
         then_check (strip (publicValue material)) (\<lambda>publicRaw.
         then_check (or_fail ''decode private key base64'' (base64_decode privateRaw)) (\<lambda>privateDecoded.
         then_check (or_fail ''decode public key base64'' (base64_decode publicRaw)) (\<lambda>publicDecoded.
           if length publicDecoded \<noteq> 32 then Some (Failed ''invalid public key length'')
           else if length privateDecoded \<noteq> 32 \<and> length privateDecoded \<noteq> 64 then Some (Failed ''invalid private key length'')
           else let privateKey = (if length privateDecoded = 32 then NewKeyFromSeed lib privateDecoded else privateDecoded)
                in check (key_Public privateKey = publicDecoded) ''public key does not match derived private key'')))))"

text \<open>\<open>rnd\<close> is what \<^verbatim>\<open>rand.Reader\<close> gives for the seed of \<^verbatim>\<open>ed25519.GenerateKey\<close>, \<open>None\<close> when it fails.\<close>

definition attestkeygen :: "evidence_lib \<Rightarrow> string option \<Rightarrow> host \<Rightarrow> string list \<Rightarrow> process" where
  "attestkeygen lib rnd h args =
     (case parseConfig args (Getenv h) of
        Inl err \<Rightarrow> exit_with 2 h
      | Inr cfg \<Rightarrow>
          if cfg_alg cfg \<noteq> ''ed25519'' \<or> trim_space (cfg_keyID cfg) = [] \<or>
             (cfg_format cfg \<noteq> ''assignments'' \<and> cfg_format cfg \<noteq> ''github-secrets'') \<or>
             (cfg_privateMaterialFmt cfg \<noteq> ''seed'' \<and> cfg_privateMaterialFmt cfg \<noteq> ''private'')
          then exit_with 2 h
          else (case rnd of
                  None \<Rightarrow> exit_with 1 h
                | Some seed \<Rightarrow>
                    let priv = NewKeyFromSeed lib seed; material = renderKeyMaterial cfg (key_Public priv) priv
                    in if cfg_verify cfg \<and> verifyMaterial lib cfg material \<noteq> None then exit_with 1 h
                       else if cfg_outDir cfg \<noteq> []
                       then (case writeSecretFiles cfg material h of
                               (None, h') \<Rightarrow> exit_with 1 h'
                             | (Some lines, h') \<Rightarrow> \<lparr>ExitStatus = 0, Stdout = lines, HostAfter = h'\<rparr>)
                       else \<lparr>ExitStatus = 0, Stdout = renderAssignments cfg material, HostAfter = h\<rparr>))"

section \<open>cmd/verifysummary\<close>

definition verifysummary_flags :: "string \<Rightarrow> bool option" where
  "verifysummary_flags name = (if name = ''mode'' then Some False else None)"

definition verifysummary :: "evidence_lib \<Rightarrow> host \<Rightarrow> string list \<Rightarrow> process" where
  "verifysummary lib h args =
     (case flag_parse verifysummary_flags args of
        Inl err \<Rightarrow> exit_with (flag_exit err) h
      | Inr (settings, rest) \<Rightarrow>
          (case rest of
             [summaryPath] \<Rightarrow>
               if ValidateSummaryArtifact lib h summaryPath (flag_value settings ''mode'' ''strict'') \<noteq> None then exit_with 1 h
               else \<lparr>ExitStatus = 0, Stdout = [''verify summary validation passed''], HostAfter = h\<rparr>
           | _ \<Rightarrow> exit_with 2 h))"

section \<open>cmd/credhash\<close>

text \<open>
  Standard input is \<open>None\<close> when it cannot be examined, otherwise whether it is a terminal and what it holds; \<^verbatim>\<open>ReadString\<close> gives the
  bytes up to the first line break. The hash is a parameter.
\<close>

definition readSecret :: "string list \<Rightarrow> (bool \<times> string) option \<Rightarrow> string option" where
  "readSecret args stdin =
     (if args \<noteq> [] \<and> trim_space (hd args) \<noteq> [] then Some (hd args)
      else (case stdin of
              None \<Rightarrow> None
            | Some (terminal, input) \<Rightarrow>
                let secret = trim_space (takeWhile (\<lambda>c. c \<noteq> CHR 0x0A) input)
                in if terminal \<or> secret = [] then None else Some secret))"

definition credhash :: "(string \<Rightarrow> string option) \<Rightarrow> host \<Rightarrow> string list \<Rightarrow> (bool \<times> string) option \<Rightarrow> process" where
  "credhash bcrypt h args stdin =
     (case Option.bind (readSecret args stdin) bcrypt of
        None \<Rightarrow> exit_with 1 h
      | Some hashed \<Rightarrow> \<lparr>ExitStatus = 0, Stdout = [hashed], HostAfter = h\<rparr>)"

end
