(* ===== verification/EvidenceProps.thy ===== *)
theory EvidenceProps
  imports Attest
begin

text \<open>
  What the evidence tools guarantee: evidence that is accepted strictly cannot be altered behind its attestation, keys written by
  \<^verbatim>\<open>attestkeygen\<close> sign attestations that the validator accepts, and which form of key material \<^verbatim>\<open>attestsign\<close> refuses.
\<close>

section \<open>Texts without white space\<close>

definition plain :: "string \<Rightarrow> bool" where
  "plain s \<longleftrightarrow> list_all (\<lambda>c. 33 \<le> (of_char c :: nat) \<and> (of_char c :: nat) \<le> 126) s"

lemma plain_Nil [simp]: "plain []"
  and plain_Cons [simp]: "plain (c # s) \<longleftrightarrow> 33 \<le> (of_char c :: nat) \<and> (of_char c :: nat) \<le> 126 \<and> plain s"
  and plain_append [simp]: "plain (s @ t) \<longleftrightarrow> plain s \<and> plain t"
  by (auto simp: plain_def)

lemma plain_set: "plain s \<longleftrightarrow> (\<forall>c \<in> set s. 33 \<le> (of_char c :: nat) \<and> (of_char c :: nat) \<le> 126)"
  by (simp add: plain_def list_all_iff)

lemma space_rune_plain: "s \<noteq> [] \<Longrightarrow> plain s \<Longrightarrow> space_rune (map of_char (s @ t)) = 0"
  by (cases s) (auto simp: space_rune_def split: list.splits)

lemma trim_left_plain: "plain s \<Longrightarrow> s \<noteq> [] \<Longrightarrow> trim_left (s @ t) = s @ t"
  by (subst trim_left.simps) (simp only: space_rune_plain Let_def if_True simp_thms)

lemma space_rune_end_plain: "plain s \<Longrightarrow> space_rune_end s = 0"
proof -
  assume "plain s"
  then have "space_rune (map of_char (drop n s)) = 0" for n
    using space_rune_plain [of "drop n s" "[]"] by (cases "drop n s = []") (auto simp: plain_set dest: in_set_dropD)
  then show ?thesis unfolding space_rune_end_def by (metis zero_neq_one zero_neq_numeral)
qed

lemma trim_space_plain: "plain s \<Longrightarrow> trim_space s = s"
proof (cases "s = []")
  case False
  moreover assume "plain s"
  ultimately show ?thesis using trim_left_plain [of s "[]"] by (simp add: trim_space_def trim_right.simps space_rune_end_plain)
qed simp

lemma trim_space_line: "plain s \<Longrightarrow> s \<noteq> [] \<Longrightarrow> trim_space (s @ [CHR 0x0A]) = s"
proof -
  assume s: "plain s" "s \<noteq> []"
  have "space_rune_end (s @ [CHR 0x0A]) = 1" by (simp add: space_rune_end_def space_rune_def)
  then have "trim_right (s @ [CHR 0x0A]) = trim_right s" by (subst trim_right.simps) simp
  moreover have "trim_right s = s" using s by (simp add: trim_right.simps space_rune_end_plain)
  ultimately show ?thesis using trim_left_plain [OF s] by (simp add: trim_space_def)
qed

lemma plain_hex: "plain (hex_encode s)"
proof (induction s)
  case (Cons c s)
  have "of_char c div 16 < (16 :: nat)" using of_char_lt [of c] by (simp only: div_less_iff_less_mult)
  moreover have "of_char c mod 16 < (16 :: nat)" by simp
  moreover have "33 \<le> (of_char (hex_digit d) :: nat) \<and> (of_char (hex_digit d) :: nat) \<le> 126" if "d < 16" for d
    using that by (simp add: hex_digit_def)
  ultimately show ?case using Cons by simp
qed simp

lemma hex_encode_Nil_iff: "hex_encode s = [] \<longleftrightarrow> s = []"
  by (cases s) auto

lemma base64_groups_valid:
  "base64_groups t = Some s \<Longrightarrow> c \<in> set t \<Longrightarrow> base64_val c \<noteq> None \<or> c = CHR ''=''"
  by (induction t arbitrary: s rule: base64_groups.induct) (auto simp: Let_def split: option.splits if_splits)

lemma base64_groups_std: "base64_groups (base64_std s) = Some s"
  by (simp add: base64_std_def base64_groups_raw)

lemma base64_char_plain:
  assumes "base64_val c \<noteq> None \<or> c = CHR ''=''"
  shows "33 \<le> (of_char c :: nat)" "(of_char c :: nat) \<le> 126" "c \<notin> {CHR '','', CHR '':'', CHR 0x22, CHR 0x27}"
  using assms by (auto simp: base64_val_def Let_def split: if_splits)

lemma base64_std_chars:
  assumes "c \<in> set (base64_std s)"
  shows "33 \<le> (of_char c :: nat) \<and> (of_char c :: nat) \<le> 126 \<and> c \<notin> {CHR '','', CHR '':'', CHR 0x22, CHR 0x27}"
  using base64_char_plain [OF base64_groups_valid [OF base64_groups_std assms]] by blast

lemma plain_base64: "plain (base64_std s)"
  using base64_std_chars by (auto simp: plain_set)

lemma normalizeKeyMaterial_plain: "plain s \<Longrightarrow> last s \<notin> {CHR 0x22, CHR 0x27} \<Longrightarrow> normalizeKeyMaterial s = s"
  by (simp add: normalizeKeyMaterial_def Let_def trim_space_plain)

lemma normalizeKeyMaterial_base64: "normalizeKeyMaterial (base64_std s) = base64_std s"
proof (cases "base64_std s = []")
  case True
  then show ?thesis unfolding normalizeKeyMaterial_def by simp
next
  case False
  then have "last (base64_std s) \<notin> {CHR 0x22, CHR 0x27}" using base64_std_chars [of "last (base64_std s)" s] by simp
  then show ?thesis by (rule normalizeKeyMaterial_plain [OF plain_base64])
qed

lemma base64_std_nonempty: "s \<noteq> [] \<Longrightarrow> base64_std s \<noteq> []"
  using base64_groups_std [of s] by auto

section \<open>Key rings\<close>

lemma split_on_absent: "c \<notin> set s \<Longrightarrow> split_on c s = [s]"
  by (induction s) auto

lemma split_two_first: "c \<notin> set a \<Longrightarrow> split_two c (a @ c # b) = Some (a, b)"
  by (induction a) (auto simp: split_two_def)

definition key_id_ok :: "string \<Rightarrow> bool" where
  "key_id_ok i \<longleftrightarrow> i \<noteq> [] \<and> plain i \<and> CHR '','' \<notin> set i \<and> CHR '':'' \<notin> set i"

text \<open>A ring of one entry, as \<^verbatim>\<open>attestkeygen\<close> writes it.\<close>

lemma ring_lookup_entry:
  assumes "key_id_ok i" "s \<noteq> []"
  shows "ring_lookup (i @ '':'' @ base64_std s) i parse var = parse (base64_std s)"
proof -
  have "CHR '','' \<notin> set (i @ '':'' @ base64_std s)" using assms base64_std_chars [of "CHR '',''" s] by (auto simp: key_id_ok_def)
  then have "split_on (CHR '','') (i @ '':'' @ base64_std s) = [i @ '':'' @ base64_std s]" by (rule split_on_absent)
  moreover have "trim_space (i @ '':'' @ base64_std s) = i @ '':'' @ base64_std s"
    using assms by (intro trim_space_plain) (simp add: key_id_ok_def plain_base64)
  moreover have "ring_entry (i @ '':'' @ base64_std s) = Some (i, base64_std s)"
    using assms split_two_first [of "CHR '':''" i "base64_std s"]
    by (simp add: ring_entry_def key_id_ok_def trim_space_plain plain_base64 base64_std_nonempty)
  ultimately show ?thesis by (simp add: ring_lookup_def)
qed

lemma parse_public: "length pub = 32 \<Longrightarrow> parseEd25519PublicKey (base64_std pub) = Inr pub"
  by (simp add: parseEd25519PublicKey_def normalizeKeyMaterial_base64 base64_decode_encode)

lemma parse_private:
  assumes "length seed = 32" "length (ed_public lib seed) = 32"
  shows "parseEd25519PrivateKey lib (base64_std seed) = Inr (NewKeyFromSeed lib seed)"
    "parseEd25519PrivateKey lib (base64_std (NewKeyFromSeed lib seed)) = Inr (NewKeyFromSeed lib seed)"
  using assms by (simp_all add: parseEd25519PrivateKey_def normalizeKeyMaterial_base64 base64_decode_encode NewKeyFromSeed_def)

text \<open>Key material with a colon is no base64 text.\<close>

lemma base64_decode_colon: "CHR '':'' \<in> set s \<Longrightarrow> base64_decode s = None"
proof (rule ccontr)
  assume s: "CHR '':'' \<in> set s" "base64_decode s \<noteq> None"
  then obtain d where "base64_groups (filter (\<lambda>c. c \<noteq> CHR 0x0A \<and> c \<noteq> CHR 0x0D) s) = Some d" by (auto simp: base64_decode_def)
  from base64_groups_valid [OF this, of "CHR '':''"] s(1) base64_char_plain(3) [of "CHR '':''"] show False by simp
qed

section \<open>Accepted evidence cannot be altered\<close>

lemma lower_hex: "map lower_byte (hex_encode s) = hex_encode s"
proof (induction s)
  case (Cons c s)
  have "of_char c div 16 < (16 :: nat)" using of_char_lt [of c] by (simp only: div_less_iff_less_mult)
  moreover have "of_char c mod 16 < (16 :: nat)" by simp
  moreover have "lower_byte (hex_digit d) = hex_digit d" if "d < 16" for d
    using that by (simp add: hex_digit_def lower_byte_def Let_def)
  ultimately show ?case using Cons by simp
qed simp

lemma equal_fold_hex: "equal_fold (hex_encode s) v \<Longrightarrow> equal_fold (hex_encode t) v \<Longrightarrow> s = t"
  by (simp add: equal_fold_def lower_hex) (metis hex_encode_inj)

lemma requireInSetString_None: "requireInSetString vals m key = None \<longleftrightarrow> (\<exists>s \<in> set vals. m key = Some (VString s))"
  by (auto simp: requireInSetString_def field_def split: option.splits jvalue.splits)

lemma requireOptionalInSetString_None:
  "requireOptionalInSetString vals m key = None \<longleftrightarrow> m key = Some VNull \<or> (\<exists>s \<in> set vals. m key = Some (VString s))"
  by (auto simp: requireOptionalInSetString_def field_def split: option.splits jvalue.splits)

text \<open>What strict acceptance has checked about the summary and the attestation.\<close>

lemma strict_accepted:
  assumes "ValidateSummaryArtifact lib h path ''strict'' = None"
  obtains data s att sig a logData where
    "ReadFile h path = Some data" "json_unmarshal lib data = Some s" "ValidateSummaryJSON lib data = None"
    "Clean (string_value (s ''run_dir'')) = Clean (Dir path)"
    "ReadFile h (Join [Clean (Dir path), string_value (s ''summary_validation_log'')]) = Some logData"
    "equal_fold (hex_encode (sha256 lib logData)) (string_value (s ''summary_validation_log_sha256''))"
    "ReadFile h (Join [Clean (Dir path), string_value (s ''attestation_file'')]) = Some att"
    "ReadFile h (Join [Clean (Dir path), string_value (s ''attestation_signature_file'')]) = Some sig"
    "json_unmarshal lib att = Some a"
    "verifyAttestationSignature lib h ''ed25519'' (string_value (a ''key_id'')) att (trim_space sig) = None"
    "equal_fold (hex_encode (sha256 lib data)) (string_value (a ''summary_sha256''))"
    "Base (string_value (s ''attestation_file'')) = string_value (s ''attestation_file'')"
    "Base (string_value (s ''attestation_signature_file'')) = string_value (s ''attestation_signature_file'')"
proof -
  from assms obtain data s where data: "ReadFile h path = Some data" "json_unmarshal lib data = Some s" "ValidateSummaryJSON lib data = None"
      "Clean (string_value (s ''run_dir'')) = Clean (Dir path)"
      "Base (string_value (s ''attestation_file'')) = string_value (s ''attestation_file'')"
      "Base (string_value (s ''attestation_signature_file'')) = string_value (s ''attestation_signature_file'')"
    and rest: "artifact_checks lib h path s = None"
    by (auto simp: ValidateSummaryArtifact_def then_check_None first_error_None Let_def split: if_splits)
  from rest obtain logData indexData manifestData att sig a where
      files: "ReadFile h (Join [Clean (Dir path), string_value (s ''summary_validation_log'')]) = Some logData"
      "equal_fold (hex_encode (sha256 lib logData)) (string_value (s ''summary_validation_log_sha256''))"
      "ReadFile h (Join [Clean (Dir path), string_value (s ''attestation_file'')]) = Some att"
      "ReadFile h (Join [Clean (Dir path), string_value (s ''attestation_signature_file'')]) = Some sig"
      "json_unmarshal lib att = Some a"
    and att: "attestation_checks lib h path s indexData manifestData att sig a = None"
    by (auto simp: artifact_checks_def then_check_None Let_def split: if_splits)
  from att have "verifyAttestationSignature lib h (string_value (a ''alg'')) (string_value (a ''key_id'')) att (trim_space sig) = None"
    and "requireInSetString [''ed25519''] a ''alg'' = None"
    and "equal_fold (hex_encode (sha256 lib data)) (string_value (a ''summary_sha256''))"
    using data(1) by (auto simp: attestation_checks_def attestation_fields_def first_error_None then_check_None Let_def)
  moreover from this(2) have "string_value (a ''alg'') = ''ed25519''"
    by (auto simp: requireInSetString_None string_value_def)
  ultimately show thesis
    using data files by (intro that [of data s logData att sig a]) simp_all
qed

text \<open>The names of the two attestation files are fixed.\<close>

lemma attestation_names:
  assumes "ValidateSummaryJSON lib data = None" "json_unmarshal lib data = Some s"
    "Base (string_value (s ''attestation_file'')) = string_value (s ''attestation_file'')"
    "Base (string_value (s ''attestation_signature_file'')) = string_value (s ''attestation_signature_file'')"
  shows "string_value (s ''attestation_file'') = ''attestation.json''" "string_value (s ''attestation_signature_file'') = ''attestation.sig''"
proof -
  from assms(1,2) have "validateSummarySchema2 s = None"
    by (auto simp: ValidateSummaryJSON_def split: option.splits jvalue.splits if_splits)
  then have "requireOptionalInSetString [''attestation.json''] s ''attestation_file'' = None"
    "requireOptionalInSetString [''attestation.sig''] s ''attestation_signature_file'' = None"
    by (simp_all add: validateSummarySchema2_def first_error_None schema2_fields_def)
  moreover have "Base [] \<noteq> []" by (simp add: Base_def)
  ultimately show "string_value (s ''attestation_file'') = ''attestation.json''" "string_value (s ''attestation_signature_file'') = ''attestation.sig''"
    using assms(3,4) by (auto simp: requireOptionalInSetString_None string_value_def)
qed

text \<open>
  C39: Two states of a run directory, with the same attestation file, are both accepted strictly. When no two different texts
  of their files share a SHA-256 value, the summary and the validation log it names are the same texts in both, and the
  attestation carries a valid signature of the key that the host resolves for its key id: a summary or a log that is changed after
  the attestation was signed is refused, whatever else is changed with it.
\<close>

theorem accepted_evidence_unaltered:
  assumes "ValidateSummaryArtifact lib h path ''strict'' = None" "ValidateSummaryArtifact lib h' path ''strict'' = None"
    and "ReadFile h (Join [Clean (Dir path), ''attestation.json'']) = ReadFile h' (Join [Clean (Dir path), ''attestation.json''])"
    and no_collision: "\<And>p t u. ReadFile h p = Some t \<Longrightarrow> ReadFile h' p = Some u \<Longrightarrow> sha256 lib t = sha256 lib u \<Longrightarrow> t = u"
  shows "ReadFile h path = ReadFile h' path \<and>
    (\<exists>data s. ReadFile h path = Some data \<and> json_unmarshal lib data = Some s \<and>
       ReadFile h (Join [Clean (Dir path), string_value (s ''summary_validation_log'')]) =
       ReadFile h' (Join [Clean (Dir path), string_value (s ''summary_validation_log'')])) \<and>
    (\<exists>att a pub sig. ReadFile h (Join [Clean (Dir path), ''attestation.json'']) = Some att \<and> json_unmarshal lib att = Some a \<and>
       resolveEd25519PublicKey lib h (string_value (a ''key_id'')) = Inr pub \<and> ed_verify lib pub att sig)"
proof -
  from strict_accepted [OF assms(1)] obtain data s att sig a logData where one:
    "ReadFile h path = Some data" "json_unmarshal lib data = Some s" "ValidateSummaryJSON lib data = None"
    "ReadFile h (Join [Clean (Dir path), string_value (s ''summary_validation_log'')]) = Some logData"
    "equal_fold (hex_encode (sha256 lib logData)) (string_value (s ''summary_validation_log_sha256''))"
    "ReadFile h (Join [Clean (Dir path), ''attestation.json'']) = Some att" "json_unmarshal lib att = Some a"
    "verifyAttestationSignature lib h ''ed25519'' (string_value (a ''key_id'')) att (trim_space sig) = None"
    "equal_fold (hex_encode (sha256 lib data)) (string_value (a ''summary_sha256''))"
    by (metis attestation_names(1))
  from strict_accepted [OF assms(2)] obtain data' s' att' a' logData' where two:
    "ReadFile h' path = Some data'" "json_unmarshal lib data' = Some s'"
    "ReadFile h' (Join [Clean (Dir path), string_value (s' ''summary_validation_log'')]) = Some logData'"
    "equal_fold (hex_encode (sha256 lib logData')) (string_value (s' ''summary_validation_log_sha256''))"
    "ReadFile h' (Join [Clean (Dir path), ''attestation.json'']) = Some att'" "json_unmarshal lib att' = Some a'"
    "equal_fold (hex_encode (sha256 lib data')) (string_value (a' ''summary_sha256''))"
    by (metis attestation_names(1))
  from assms(3) one(6,7) two(5,6) have "a' = a" by simp
  with one(9) two(7) have "sha256 lib data = sha256 lib data'" by (simp add: equal_fold_hex)
  with no_collision one(1) two(1) have data: "data' = data" by blast
  with one(2) two(2) have "s' = s" by simp
  with one(4,5) two(3,4) no_collision have "logData' = logData" by (metis equal_fold_hex)
  moreover from one(8) obtain pub sigBytes where "resolveEd25519PublicKey lib h (string_value (a ''key_id'')) = Inr pub"
      "ed_verify lib pub att sigBytes"
    by (auto simp: verifyAttestationSignature_def then_check_None)
  ultimately show ?thesis using one two data \<open>s' = s\<close> by (intro conjI) auto
qed

text \<open>A run directory, with a transparent library: a text is its own checksum and a seed its own public key.\<close>

definition demo_summary :: jobject where
  "demo_summary = map_of
     [(''summary_schema_version'', VNumber 2), (''timestamp_utc'', VString ''T''), (''run_dir'', VString ''r''),
      (''proto_mode'', VString ''full''), (''require_clean_worktree'', VBool True), (''required_artifacts_present'', VBool True),
      (''optional_changed_files_present'', VBool False), (''required_artifact_count_expected'', VNumber 7),
      (''required_artifact_count_present'', VNumber 7), (''required_artifact_count_missing'', VNumber 0),
      (''artifact_file_count'', VNumber 7), (''artifact_total_bytes'', VNumber 9), (''summary_validation_status'', VNumber 0),
      (''summary_validation_log'', VString ''v.log''), (''summary_validation_log_sha256'', VString (hex_encode (replicate 32 CHR ''L''))),
      (''attestation_status'', VString ''signed''), (''attestation_alg'', VString ''ed25519''),
      (''attestation_file'', VString ''attestation.json''), (''attestation_signature_file'', VString ''attestation.sig''),
      (''proto_check_status'', VNumber 0), (''make_verify_status'', VNumber 0), (''overall_status'', VString ''pass''),
      (''failed_step'', VNull), (''changed_files_artifact'', VNull)]"

definition demo_attestation :: jobject where
  "demo_attestation = map_of
     [(''attestation_schema_version'', VNumber 1), (''generated_at'', VString ''T''), (''run_dir'', VString ''r''),
      (''summary_sha256'', VString (hex_encode (replicate 32 CHR ''S''))), (''key_id'', VString ''dev-default''), (''alg'', VString ''ed25519'')]"

definition demo_evidence_lib :: evidence_lib where
  "demo_evidence_lib =
     \<lparr>json_unmarshal = (\<lambda>t. if t = replicate 32 CHR ''S'' then Some demo_summary
                          else if t = replicate 32 CHR ''A'' then Some demo_attestation else None),
      sha256 = take 32, ed_public = (\<lambda>seed. seed), ed_sign = (\<lambda>priv m. drop 32 priv @ m), ed_verify = (\<lambda>pub m sig. sig = pub @ m)\<rparr>"

definition demo_evidence_run :: "string \<Rightarrow> host" where
  "demo_evidence_run index =
     (let sig = hex_encode (defaultDevSeedContext @ replicate 32 CHR ''A'')
      in \<lparr>Getenv = (\<lambda>v. []),
          ReadFile = map_of
            [(''r/summary.json'', replicate 32 CHR ''S''), (''r/v.log'', replicate 32 CHR ''L''), (''r/index.txt'', index),
             (''r/attestation.json'', replicate 32 CHR ''A''), (''r/attestation.sig'', sig),
             (''r/manifest.sha256'',
              hex_encode (replicate 32 CHR ''L'') @ ''  r/v.log'' @ [CHR 0x0A] @
              hex_encode (replicate 32 CHR ''A'') @ ''  r/attestation.json'' @ [CHR 0x0A] @
              hex_encode (take 32 sig) @ ''  r/attestation.sig'' @ [CHR 0x0A])],
          RunCommand = Map.empty, CanWrite = (\<lambda>_. True), CanMkdir = (\<lambda>_. True), FileOf = id\<rparr>)"

definition demo_index :: "string list \<Rightarrow> string" where
  "demo_index names = concat (map (\<lambda>n. n @ [CHR 0x09]) names)"

lemma demo_summary_valid: "ValidateSummaryJSON demo_evidence_lib (replicate 32 CHR ''S'') = None"
proof -
  have "sha256HexPattern (hex_encode (replicate 32 CHR ''L''))" by code_simp
  then show ?thesis
    by (simp add: ValidateSummaryJSON_def demo_evidence_lib_def validateSummarySchema2_def first_error_None demo_summary_def schema2_fields_def
        requireNumberEquals_def requireNonEmptyString_def requireInSetString_def requireBool_def requireNumberNonNegative_def
        requireSHA256HexString_def requireOptionalInSetString_def field_def schema2_counts_def schema2_changed_def schema2_status_def
        numberValue_def string_value_def is_nil_def int_of_float_def)
qed

lemma demo_paths:
  "Clean (Dir ''r/summary.json'') = ''r''" "Clean ''r'' = ''r''" "Join [''r'', ''v.log''] = ''r/v.log''" "Clean ''r/v.log'' = ''r/v.log''"
  "Join [''r'', ''attestation.json''] = ''r/attestation.json''" "Clean ''r/attestation.json'' = ''r/attestation.json''"
  "Join [''r'', ''attestation.sig''] = ''r/attestation.sig''" "Clean ''r/attestation.sig'' = ''r/attestation.sig''"
  "Join [''r'', ''index.txt''] = ''r/index.txt''" "Join [''r'', ''manifest.sha256''] = ''r/manifest.sha256''"
  "Base ''v.log'' = ''v.log''" "Base ''attestation.json'' = ''attestation.json''" "Base ''attestation.sig'' = ''attestation.sig''"
  by code_simp+

text \<open>A line of the manifest, as \<^verbatim>\<open>sha256sum\<close> writes it: two words between two blanks.\<close>

lemma word_of_plain:
  assumes "plain w"
  shows "word_of w = (w, [])" "word_of (w @ CHR '' '' # r) = (w, CHR '' '' # r)"
proof -
  have "word_of (w @ r) = (w, r)" if "r = [] \<or> hd r = CHR '' ''" for r
    using assms
  proof (induction w)
    case Nil
    with that show ?case by (cases r) (auto simp: space_rune_def)
  next
    case (Cons c w)
    moreover have "space_rune (map of_char ((c # w) @ r)) = 0" using Cons.prems by (intro space_rune_plain) simp_all
    ultimately show ?case by simp
  qed
  from this [of "[]"] this [of "CHR '' '' # r"] show "word_of w = (w, [])" "word_of (w @ CHR '' '' # r) = (w, CHR '' '' # r)" by simp_all
qed

lemma trim_left_blank: "trim_left (CHR '' '' # s) = trim_left s"
  by (subst trim_left.simps) (simp add: space_rune_def)

lemma split_fields_line:
  assumes "plain a" "a \<noteq> []" "plain b" "b \<noteq> []"
  shows "split_fields (a @ ''  '' @ b) = [a, b]"
proof -
  have "split_fields [] = []" by (subst split_fields.simps) (simp add: trim_left.simps)
  moreover have "split_fields b = b # split_fields []"
    using trim_left_plain [OF assms(3,4), of "[]"] assms by (subst split_fields.simps) (simp add: word_of_plain)
  moreover have "split_fields (CHR '' '' # CHR '' '' # b) = split_fields b"
    by (subst (1 2) split_fields.simps) (simp add: trim_left_blank)
  moreover have "split_fields (a @ ''  '' @ b) = a # split_fields (CHR '' '' # CHR '' '' # b)"
    using trim_left_plain [OF assms(1,2), of "''  '' @ b"] assms by (subst split_fields.simps) (simp add: word_of_plain)
  ultimately show ?thesis by simp
qed

lemma split_on_line: "c \<notin> set l \<Longrightarrow> split_on c (l @ c # r) = l # split_on c r"
  by (induction l) auto

definition manifest_line :: "string \<Rightarrow> string \<Rightarrow> string \<Rightarrow> string" where
  "manifest_line a b rest = (a @ ''  '' @ b) @ CHR 0x0A # rest"

lemma manifest_has_line:
  assumes "plain a" "a \<noteq> []" "plain b" "b \<noteq> []"
  shows "manifest_has (manifest_line a b rest) k p \<longleftrightarrow> (equal_fold a k \<and> Clean b = p) \<or> manifest_has rest k p"
proof -
  have "CHR 0x0A \<notin> set (a @ ''  '' @ b)" using assms(1,3) by (auto simp: plain_set)
  from split_on_line [OF this] show ?thesis unfolding manifest_has_def manifest_line_def by (simp add: split_fields_line [OF assms, simplified])
qed

lemma demo_evidence_run_accepted:
  assumes "contains index (''summary_validation.log'' @ [CHR 0x09])" "contains index (''attestation.json'' @ [CHR 0x09])"
    "contains index (''attestation.sig'' @ [CHR 0x09])"
  shows "ValidateSummaryArtifact demo_evidence_lib (demo_evidence_run index) ''r/summary.json'' ''strict'' = None"
proof -
  let ?lib = demo_evidence_lib and ?h = "demo_evidence_run index" and ?A = "replicate 32 CHR ''A''" and ?L = "replicate 32 CHR ''L''"
  define sig where "sig = hex_encode (defaultDevSeedContext @ ?A)"
  define m where "m = manifest_line (hex_encode ?L) ''r/v.log'' (manifest_line (hex_encode ?A) ''r/attestation.json''
    (manifest_line (hex_encode (take 32 sig)) ''r/attestation.sig'' []))"
  have sig: "trim_space sig = sig" "hex_decode sig = Some (defaultDevSeedContext @ ?A)"
    by (simp_all only: sig_def trim_space_plain plain_hex hex_decode_encode)
  have ne: "hex_encode ?L \<noteq> []" "hex_encode ?A \<noteq> []" "hex_encode (take 32 sig) \<noteq> []"
    by (simp_all add: hex_encode_Nil_iff sig_def defaultDevSeedContext_def)
  have files: "ReadFile ?h ''r/summary.json'' = Some (replicate 32 CHR ''S'')" "ReadFile ?h ''r/v.log'' = Some ?L"
    "ReadFile ?h ''r/index.txt'' = Some index" "ReadFile ?h ''r/attestation.json'' = Some ?A" "ReadFile ?h ''r/attestation.sig'' = Some sig"
    "ReadFile ?h ''r/manifest.sha256'' = Some m" and env: "Getenv ?h v = []" for v
    by (simp_all add: demo_evidence_run_def Let_def sig_def m_def manifest_line_def)
  have refl: "equal_fold x x" for x by (simp add: equal_fold_def)
  have man: "manifest_has m (hex_encode ?L) ''r/v.log''" "manifest_has m (hex_encode ?A) ''r/attestation.json''"
    "manifest_has m (hex_encode (take 32 sig)) ''r/attestation.sig''"
    unfolding m_def using ne by (simp_all add: manifest_has_line plain_hex refl demo_paths)
  have sum: "string_value (demo_summary ''run_dir'') = ''r''" "string_value (demo_summary ''summary_validation_log'') = ''v.log''"
    "string_value (demo_summary ''summary_validation_log_sha256'') = hex_encode ?L"
    "string_value (demo_summary ''attestation_file'') = ''attestation.json''"
    "string_value (demo_summary ''attestation_signature_file'') = ''attestation.sig''"
    by (simp_all add: demo_summary_def string_value_def)
  have lib: "json_unmarshal ?lib (replicate 32 CHR ''S'') = Some demo_summary" "json_unmarshal ?lib ?A = Some demo_attestation"
    "sha256 ?lib t = take 32 t" "ed_public ?lib t = t" "ed_verify ?lib p t g \<longleftrightarrow> g = p @ t" for t p g
    by (simp_all add: demo_evidence_lib_def)
  have "length defaultDevSeedContext = 32" by (simp add: defaultDevSeedContext_def)
  then have "resolveEd25519PublicKey ?lib ?h ''dev-default'' = Inr defaultDevSeedContext"
    by (simp add: resolveEd25519PublicKey_def resolveValueSource_def env single_key_def enforced_def DefaultVerifyEvidenceAttestationKeyID_def
        defaultDevEd25519PublicKey_def key_Public_def NewKeyFromSeed_def lib)
  then have "verifyAttestationSignature ?lib ?h ''ed25519'' ''dev-default'' ?A sig = None"
    by (simp add: verifyAttestationSignature_def then_check_None sig lib)
  then have "attestation_checks ?lib ?h ''r/summary.json'' demo_summary index m ?A sig demo_attestation = None"
    by (simp add: attestation_checks_def attestation_fields_def first_error_None demo_attestation_def requireNumberEquals_def
        requireNonEmptyString_def requireInSetString_def field_def string_value_def then_check_None files sum [unfolded string_value_def] refl lib
        demo_paths man assms [simplified] sig enforced_def env hex_encode_Nil_iff)
  then show ?thesis
    by (simp add: ValidateSummaryArtifact_def artifact_checks_def Let_def first_error_None then_check_None files demo_summary_valid lib sum demo_paths
        assms [simplified] refl man)
qed

lemma accepted_evidence_unaltered_witness:
  "ValidateSummaryArtifact demo_evidence_lib (demo_evidence_run (demo_index [''summary_validation.log'', ''attestation.json'', ''attestation.sig'']))
     ''r/summary.json'' ''strict'' = None \<and>
   ReadFile (demo_evidence_run (demo_index [''summary_validation.log'', ''attestation.json'', ''attestation.sig''])) ''r/summary.json'' =
   ReadFile (demo_evidence_run (demo_index [''attestation.sig'', ''attestation.json'', ''summary_validation.log''])) ''r/summary.json''"
proof -
  let ?h = "demo_evidence_run (demo_index [''summary_validation.log'', ''attestation.json'', ''attestation.sig''])"
  let ?h' = "demo_evidence_run (demo_index [''attestation.sig'', ''attestation.json'', ''summary_validation.log''])"
  have ok: "ValidateSummaryArtifact demo_evidence_lib ?h ''r/summary.json'' ''strict'' = None"
    "ValidateSummaryArtifact demo_evidence_lib ?h' ''r/summary.json'' ''strict'' = None"
    by (rule demo_evidence_run_accepted; simp add: demo_index_def)+
  have att: "ReadFile ?h (Join [Clean (Dir ''r/summary.json''), ''attestation.json'']) =
      ReadFile ?h' (Join [Clean (Dir ''r/summary.json''), ''attestation.json''])"
    unfolding demo_paths by (simp add: demo_evidence_run_def Let_def)
  have "t = u" if "ReadFile ?h p = Some t" "ReadFile ?h' p = Some u" "sha256 demo_evidence_lib t = sha256 demo_evidence_lib u" for p t u
    using that by (auto simp: demo_evidence_run_def Let_def demo_evidence_lib_def demo_index_def split: if_splits)
  from accepted_evidence_unaltered [OF ok att this] ok show ?thesis by simp
qed

end
