(* ===== verification/AttestProps.thy ===== *)
theory AttestProps
  imports EvidenceProps
begin

text \<open>
  The evidence tools together: \<^verbatim>\<open>attestkeygen\<close> makes keys, a shell exports the assignments it prints, \<^verbatim>\<open>attestsign\<close> signs an
  attestation and the validator checks the signature.
\<close>

section \<open>Names of files in a directory\<close>

lemma split_on_chars: "p \<in> set (split_on c s) \<Longrightarrow> set p \<subseteq> set s"
  by (induction s arbitrary: p) (auto split: list.splits if_splits, blast+)

lemma split_on_append: "split_on c (a @ c # b) = split_on c a @ split_on c b"
proof (induction a)
  case (Cons x a)
  have "split_on c a \<noteq> []" by (cases a) (auto split: list.splits)
  with Cons show ?case by (auto split: list.splits)
qed simp

lemma clean_elements: "set (foldl (clean_step rooted) st ps) \<subseteq> set st \<union> set ps \<union> {''..''}"
proof (induction ps arbitrary: st)
  case (Cons p ps)
  have "set (clean_step rooted st p) \<subseteq> set st \<union> {p, ''..''}" by (auto simp: clean_step_def split: list.splits if_splits)
  with Cons [of "clean_step rooted st p"] show ?case by auto
qed auto

lemma set_join: "set (join sep xs) \<subseteq> set sep \<union> \<Union> (set ` set xs)"
  by (induction sep xs rule: join.induct) auto

lemma join_snoc: "join sep (xs @ [f]) = (if xs = [] then f else join sep xs @ sep @ f)"
  by (induction sep xs rule: join.induct) auto

definition file_name :: "string \<Rightarrow> bool" where
  "file_name f \<longleftrightarrow> f \<noteq> [] \<and> CHR ''/'' \<notin> set f \<and> f \<noteq> ''.'' \<and> f \<noteq> ''..''"

lemma Join_file:
  assumes "dir \<noteq> []"
  obtains pre where "\<And>f. file_name f \<Longrightarrow> Join [dir, f] = pre @ f" "set pre \<subseteq> set dir \<union> {CHR ''/'', CHR ''.''}"
proof -
  define rooted where "rooted \<longleftrightarrow> hd dir = CHR ''/''"
  define st where "st = foldl (clean_step rooted) [] (split_on (CHR ''/'') dir)"
  define pre where "pre = (if rooted then ''/'' else []) @ (if st = [] then [] else join ''/'' (rev st) @ ''/'')"
  have "Join [dir, f] = pre @ f" if f: "file_name f" for f
  proof -
    have "foldl (clean_step rooted) [] (split_on (CHR ''/'') (dir @ CHR ''/'' # f)) = f # st"
      using f by (simp add: split_on_append split_on_absent file_name_def clean_step_def st_def)
    moreover have "hd (dir @ CHR ''/'' # f) = CHR ''/'' \<longleftrightarrow> rooted" using assms by (simp add: rooted_def)
    ultimately have "Clean (dir @ CHR ''/'' # f) =
        (let body = join ''/'' (rev st @ [f]) in if rooted then CHR ''/'' # body else if body = [] then ''.'' else body)"
      by (cases rooted) (simp_all add: Clean_def Let_def)
    then show ?thesis using f assms by (simp add: Join_def Let_def join_snoc pre_def file_name_def)
  qed
  moreover have "set pre \<subseteq> set dir \<union> {CHR ''/'', CHR ''.''}"
    using clean_elements [of rooted "[]" "split_on (CHR ''/'') dir"] set_join [of "''/''" "rev st"] split_on_chars [of _ "CHR ''/''" dir]
    by (fastforce simp: pre_def st_def split: if_splits)
  ultimately show thesis by (rule that)
qed

lemma Join_key_files:
  assumes "dir \<noteq> []" "plain dir"
  shows "plain (Join [dir, ''private-keys.txt''])" "plain (Join [dir, ''public-keys.txt''])"
    "Join [dir, ''private-keys.txt''] \<noteq> Join [dir, ''public-keys.txt'']" "Join [dir, ''private-keys.txt''] \<noteq> []"
    "Join [dir, ''public-keys.txt''] \<noteq> []"
proof -
  obtain pre where pre: "\<And>f. file_name f \<Longrightarrow> Join [dir, f] = pre @ f" "set pre \<subseteq> set dir \<union> {CHR ''/'', CHR ''.''}"
    by (rule Join_file [OF assms(1)]) blast
  from pre(2) assms(2) have "plain pre" by (auto simp: plain_set)
  moreover have "Join [dir, ''private-keys.txt''] = pre @ ''private-keys.txt''" "Join [dir, ''public-keys.txt''] = pre @ ''public-keys.txt''"
    by (rule pre(1), simp add: file_name_def)+
  ultimately show "plain (Join [dir, ''private-keys.txt''])" "plain (Join [dir, ''public-keys.txt''])"
    "Join [dir, ''private-keys.txt''] \<noteq> Join [dir, ''public-keys.txt'']" "Join [dir, ''private-keys.txt''] \<noteq> []"
    "Join [dir, ''public-keys.txt''] \<noteq> []"
    by simp_all
qed

section \<open>The printed assignments\<close>

text \<open>What a shell does with lines \<^verbatim>\<open>VAR=value\<close> that are exported.\<close>

definition exported :: "string list \<Rightarrow> host \<Rightarrow> host" where
  "exported lines h =
     foldl (\<lambda>g line. case split_two (CHR ''='') line of
                       None \<Rightarrow> g
                     | Some (var, v) \<Rightarrow> g\<lparr>Getenv := (Getenv g)(var := v)\<rparr>) h lines"

lemma exported_Nil [simp]: "exported [] h = h"
  and exported_assignment [simp]:
    "CHR ''='' \<notin> set var \<Longrightarrow> exported (assignment var v # lines) h = exported lines (h\<lparr>Getenv := (Getenv h)(var := v)\<rparr>)"
  by (simp_all add: exported_def assignment_def split_two_first)

text \<open>A host on which only the enforcement of attestation keys may be configured.\<close>

definition bare :: "host \<Rightarrow> bool" where
  "bare h \<longleftrightarrow> (\<forall>v. v \<noteq> ''RGS_VERIFY_EVIDENCE_ENFORCE_ATTESTATION_KEY'' \<and> v \<noteq> ''GITHUB_ACTIONS'' \<longrightarrow> Getenv h v = [])"

definition keygen_defaults :: "string \<Rightarrow> string \<Rightarrow> keygen_config" where
  "keygen_defaults i dir =
     \<lparr>cfg_alg = ''ed25519'', cfg_format = ''assignments'', cfg_outDir = dir, cfg_verify = False, cfg_keyID = i,
      cfg_keyIDVar = ''RGS_VERIFY_EVIDENCE_ATTESTATION_KEY_ID'', cfg_emitKeyID = True,
      cfg_privateVar = ''RGS_VERIFY_EVIDENCE_ATTESTATION_ED25519_PRIVATE_KEY'',
      cfg_publicVar = ''RGS_VERIFY_EVIDENCE_ATTESTATION_ED25519_PUBLIC_KEYS'', cfg_ringOutput = True, cfg_privateMaterialFmt = ''seed''\<rparr>"

lemma parseConfig_bare:
  assumes "bare h"
  shows "parseConfig [''-key-id'', i] (Getenv h) = Inr (keygen_defaults i [])"
    "parseConfig [''-key-id'', i, ''-out-dir'', dir] (Getenv h) = Inr (keygen_defaults i dir)"
proof -
  have "envOr (Getenv h) v w = w" "envBoolOr (Getenv h) v b = b"
    if "v \<noteq> ''RGS_VERIFY_EVIDENCE_ENFORCE_ATTESTATION_KEY''" "v \<noteq> ''GITHUB_ACTIONS''" for v w b
    using assms that by (simp_all add: bare_def envOr_def envBoolOr_def to_lower_def)
  then show "parseConfig [''-key-id'', i] (Getenv h) = Inr (keygen_defaults i [])"
    "parseConfig [''-key-id'', i, ''-out-dir'', dir] (Getenv h) = Inr (keygen_defaults i dir)"
    by (simp_all add: parseConfig_def keygen_flags_def flag_name_def split_two_def flag_value_def flag_bool_def envOr2_def keygen_defaults_def)
qed

section \<open>Keys, signatures, and the validator\<close>

text \<open>The laws of Ed25519: public keys have 32 bytes, and a signature made with the private key of a seed verifies with its public key.\<close>

definition ed25519_laws :: "evidence_lib \<Rightarrow> bool" where
  "ed25519_laws lib \<longleftrightarrow>
     (\<forall>seed m. length seed = 32 \<longrightarrow>
        length (ed_public lib seed) = 32 \<and> ed_verify lib (ed_public lib seed) m (ed_sign lib (NewKeyFromSeed lib seed) m))"

lemma resolveValueSource_file:
  assumes "plain p" "p \<noteq> []" "Getenv h fileEnv = p" "ReadFile h p = Some (v @ [CHR 0x0A])" "plain v" "v \<noteq> []"
  shows "resolveValueSource h valueEnv fileEnv commandEnv = Inr v"
  using assms by (simp add: resolveValueSource_def trim_space_plain trim_space_line or_fail_def)

lemma attestsign_args:
  "flag_parse attestsign_flags [''-in'', inp, ''-out'', out, ''-key-id'', i] = Inr ([(''in'', inp), (''out'', out), (''key-id'', i)], [])"
  by (simp add: attestsign_flags_def flag_name_def split_two_def)

lemma attestsign_run:
  assumes "inp \<noteq> []" "out \<noteq> []" "ReadFile h inp = Some data"
  shows "attestsign lib h [''-in'', inp, ''-out'', out, ''-key-id'', i] =
    (case resolveEd25519PrivateKey lib h i of
       Inl err \<Rightarrow> exit_with 1 h
     | Inr priv \<Rightarrow> (case WriteFile out (hex_encode (ed_sign lib priv data) @ [CHR 0x0A]) h of None \<Rightarrow> exit_with 1 h | Some h' \<Rightarrow> exit_with 0 h'))"
  unfolding attestsign_def attestsign_args using assms by (simp add: flag_value_def)

lemma stored_sel [simp]:
  "Getenv (stored p t h) = Getenv h" "CanWrite (stored p t h) = CanWrite h" "CanMkdir (stored p t h) = CanMkdir h"
  "RunCommand (stored p t h) = RunCommand h" "FileOf (stored p t h) = FileOf h"
  "ReadFile (stored p t h) q = (if FileOf h q = FileOf h p then Some t else ReadFile h q)"
  by (simp_all add: stored_def)

text \<open>What \<^verbatim>\<open>attestkeygen\<close> writes and prints in its file mode.\<close>

lemma keygen_files:
  assumes "bare h" "key_id_ok i" "dir \<noteq> []" "plain dir" "CanMkdir h dir" "\<And>p. CanWrite h p" "length seed = 32"
  shows "attestkeygen lib (Some seed) h [''-key-id'', i, ''-out-dir'', dir] =
    \<lparr>ExitStatus = 0,
     Stdout = [assignment ''RGS_VERIFY_EVIDENCE_ATTESTATION_KEY_ID'' i,
       assignment ''RGS_VERIFY_EVIDENCE_ATTESTATION_ED25519_PRIVATE_KEYS_FILE'' (Join [dir, ''private-keys.txt'']),
       assignment ''RGS_VERIFY_EVIDENCE_ATTESTATION_ED25519_PUBLIC_KEYS_FILE'' (Join [dir, ''public-keys.txt''])],
     HostAfter = stored (Join [dir, ''public-keys.txt'']) ((i @ '':'' @ base64_std (ed_public lib seed)) @ [CHR 0x0A])
       (stored (Join [dir, ''private-keys.txt'']) ((i @ '':'' @ base64_std seed) @ [CHR 0x0A]) h)\<rparr>"
  using assms
  by (simp add: attestkeygen_def parseConfig_bare keygen_defaults_def key_id_ok_def trim_space_plain writeSecretFiles_def Let_def WriteFile_def
      renderKeyMaterial_def key_Seed_def key_Public_def NewKeyFromSeed_def)

text \<open>What it prints without a directory.\<close>

lemma keygen_prints:
  assumes "bare h" "key_id_ok i" "length seed = 32"
  shows "attestkeygen lib (Some seed) h [''-key-id'', i] =
    \<lparr>ExitStatus = 0,
     Stdout = [assignment ''RGS_VERIFY_EVIDENCE_ATTESTATION_KEY_ID'' i,
       assignment ''RGS_VERIFY_EVIDENCE_ATTESTATION_ED25519_PRIVATE_KEY'' (i @ '':'' @ base64_std seed),
       assignment ''RGS_VERIFY_EVIDENCE_ATTESTATION_ED25519_PUBLIC_KEYS'' (i @ '':'' @ base64_std (ed_public lib seed))],
     HostAfter = h\<rparr>"
  using assms
  by (simp add: attestkeygen_def parseConfig_bare keygen_defaults_def key_id_ok_def trim_space_plain renderAssignments_def
      renderKeyMaterial_def key_Seed_def key_Public_def NewKeyFromSeed_def)

text \<open>A host that has the key files exported: both tools resolve the key of the seed.\<close>

lemma key_files_resolve:
  assumes "ed25519_laws lib" "length seed = 32" "key_id_ok i" "plain p" "p \<noteq> []"
  shows "Getenv h ''RGS_VERIFY_EVIDENCE_ATTESTATION_ED25519_PRIVATE_KEYS_FILE'' = p \<Longrightarrow>
      ReadFile h p = Some ((i @ '':'' @ base64_std seed) @ [CHR 0x0A]) \<Longrightarrow> \<not> inline_key h \<Longrightarrow>
      resolveEd25519PrivateKey lib h i = Inr (NewKeyFromSeed lib seed)"
    and "Getenv h ''RGS_VERIFY_EVIDENCE_ATTESTATION_ED25519_PUBLIC_KEYS_FILE'' = p \<Longrightarrow>
      ReadFile h p = Some ((i @ '':'' @ base64_std (ed_public lib seed)) @ [CHR 0x0A]) \<Longrightarrow>
      resolveEd25519PublicKey lib h i = Inr (ed_public lib seed)"
proof -
  have len: "length (ed_public lib seed) = 32" using assms(1,2) by (simp add: ed25519_laws_def)
  have ring: "plain (i @ '':'' @ base64_std k)" "i @ '':'' @ base64_std k \<noteq> []" for k
    using assms(3) by (simp_all add: key_id_ok_def plain_base64)
  have ne: "seed \<noteq> []" "ed_public lib seed \<noteq> []" using assms(2) len by auto
  show "resolveEd25519PrivateKey lib h i = Inr (NewKeyFromSeed lib seed)"
    if env: "Getenv h ''RGS_VERIFY_EVIDENCE_ATTESTATION_ED25519_PRIVATE_KEYS_FILE'' = p" and
      stored: "ReadFile h p = Some ((i @ '':'' @ base64_std seed) @ [CHR 0x0A])" and "\<not> inline_key h"
    unfolding resolveEd25519PrivateKey_def resolveValueSource_file [OF assms(4,5) env stored ring]
    using that(3) ring(2) [of seed] by (simp add: ring_lookup_entry [OF assms(3) ne(1), simplified] parse_private [OF assms(2) len])
  show "resolveEd25519PublicKey lib h i = Inr (ed_public lib seed)"
    if env: "Getenv h ''RGS_VERIFY_EVIDENCE_ATTESTATION_ED25519_PUBLIC_KEYS_FILE'' = p" and
      stored: "ReadFile h p = Some ((i @ '':'' @ base64_std (ed_public lib seed)) @ [CHR 0x0A])"
    unfolding resolveEd25519PublicKey_def resolveValueSource_file [OF assms(4,5) env stored ring]
    using ring(2) [of "ed_public lib seed"] by (simp add: ring_lookup_entry [OF assms(3) ne(2), simplified] parse_public [OF len])
qed

lemma trim_space_hex_line: "trim_space (hex_encode s @ [CHR 0x0A]) = hex_encode s"
proof (cases "s = []")
  case True
  have "trim_space [CHR 0x0A] = []" by code_simp
  with True show ?thesis by simp
qed (simp add: trim_space_line plain_hex hex_encode_Nil_iff)

text \<open>
  C37: Keys of \<^verbatim>\<open>attestkeygen --key-id i --out-dir dir\<close> work, in CI as well: the tool ends with status 0, and when the assignments it
  prints are exported, \<^verbatim>\<open>attestsign\<close> with that key id ends with status 0 and writes a signature of the attestation that the validator
  accepts. The host has no other attestation settings, its files can be written, the two key files are different files, and the
  signature does not overwrite the public key, under whatever path; the key id is a word without comma and colon; Ed25519 satisfies its laws.
\<close>

theorem written_keys_sign_evidence:
  fixes lib h i dir seed
  defines "gen \<equiv> attestkeygen lib (Some seed) h [''-key-id'', i, ''-out-dir'', dir]"
  defines "sign \<equiv> (\<lambda>inp out. attestsign lib (exported (Stdout gen) (HostAfter gen)) [''-in'', inp, ''-out'', out, ''-key-id'', i])"
  assumes "ed25519_laws lib" "length seed = 32" "key_id_ok i" "dir \<noteq> []" "plain dir" "bare h" "CanMkdir h dir" "\<And>p. CanWrite h p"
    and "inp \<noteq> []" "out \<noteq> []" "FileOf h out \<noteq> FileOf h (Join [dir, ''public-keys.txt''])" "ReadFile (HostAfter gen) inp = Some data"
    and "FileOf h (Join [dir, ''private-keys.txt'']) \<noteq> FileOf h (Join [dir, ''public-keys.txt''])"
  shows "ExitStatus gen = 0 \<and> ExitStatus (sign inp out) = 0 \<and>
    (\<exists>sig. ReadFile (HostAfter (sign inp out)) out = Some sig \<and>
       verifyAttestationSignature lib (HostAfter (sign inp out)) ''ed25519'' i data (trim_space sig) = None)"
proof -
  let ?priv = "Join [dir, ''private-keys.txt'']" and ?pub = "Join [dir, ''public-keys.txt'']"
  let ?line = "hex_encode (ed_sign lib (NewKeyFromSeed lib seed) data) @ [CHR 0x0A]"
  define h1 where "h1 = exported (Stdout gen) (HostAfter gen)"
  note gen = keygen_files [OF assms(8,5,6,7,9,10,4), of lib, folded gen_def]
  note paths = Join_key_files [OF assms(6,7)]
  have env: "Getenv h1 ''RGS_VERIFY_EVIDENCE_ATTESTATION_ED25519_PRIVATE_KEYS_FILE'' = ?priv"
    "Getenv h1 ''RGS_VERIFY_EVIDENCE_ATTESTATION_ED25519_PUBLIC_KEYS_FILE'' = ?pub" "\<not> inline_key h1"
    using assms(8) by (simp_all add: h1_def gen inline_key_def bare_def)
  have files: "ReadFile h1 ?priv = Some ((i @ '':'' @ base64_std seed) @ [CHR 0x0A])"
    "ReadFile h1 ?pub = Some ((i @ '':'' @ base64_std (ed_public lib seed)) @ [CHR 0x0A])" "ReadFile h1 inp = Some data" "CanWrite h1 out"
    using assms(10,14,15) by (simp_all add: h1_def gen)
  have same: "FileOf h1 = FileOf h" by (simp add: h1_def gen)
  have "resolveEd25519PrivateKey lib h1 i = Inr (NewKeyFromSeed lib seed)"
    by (rule key_files_resolve(1) [OF assms(3,4,5) paths(1,4) env(1) files(1) env(3)])
  then have sign: "sign inp out = exit_with 0 (stored out ?line h1)"
    using files(4) by (simp add: sign_def h1_def [symmetric] attestsign_run [OF assms(11,12) files(3)] WriteFile_def del: flag_parse.simps)
  have "resolveEd25519PublicKey lib (HostAfter (sign inp out)) i = Inr (ed_public lib seed)"
    using env(2) files(2) assms(13) same by (intro key_files_resolve(2) [OF assms(3,4,5) paths(2,5)]) (simp_all add: sign exit_with_def)
  then have "verifyAttestationSignature lib (HostAfter (sign inp out)) ''ed25519'' i data (trim_space ?line) = None"
    using assms(3,4) by (simp add: verifyAttestationSignature_def then_check_None trim_space_hex_line hex_decode_encode ed25519_laws_def)
  then show ?thesis by (simp add: gen sign exit_with_def)
qed

text \<open>A host with one attestation, and the key id \<^verbatim>\<open>ci-active\<close>.\<close>

definition demo_host :: host where
  "demo_host = \<lparr>Getenv = (\<lambda>v. if v = ''GITHUB_ACTIONS'' then ''true'' else []), ReadFile = [''a.json'' \<mapsto> ''{}''], RunCommand = Map.empty,
     CanWrite = (\<lambda>_. True), CanMkdir = (\<lambda>_. True), FileOf = Clean\<rparr>"

lemma demo_host_facts:
  "bare demo_host" "key_id_ok ''ci-active''" "ed25519_laws demo_evidence_lib" "CanMkdir demo_host p" "CanWrite demo_host p"
  "length (replicate 32 CHR ''k'') = 32" "plain ''keys''" "ReadFile demo_host ''a.json'' = Some ''{}''"
  by (simp_all add: bare_def demo_host_def key_id_ok_def ed25519_laws_def demo_evidence_lib_def NewKeyFromSeed_def)

lemma written_keys_sign_evidence_witness:
  "\<exists>gen sign sig. gen = attestkeygen demo_evidence_lib (Some (replicate 32 CHR ''k'')) demo_host [''-key-id'', ''ci-active'', ''-out-dir'', ''keys''] \<and>
     ExitStatus gen = 0 \<and>
     sign = attestsign demo_evidence_lib (exported (Stdout gen) (HostAfter gen)) [''-in'', ''a.json'', ''-out'', ''a.sig'', ''-key-id'', ''ci-active''] \<and>
     ReadFile (HostAfter sign) ''a.sig'' = Some sig \<and>
     verifyAttestationSignature demo_evidence_lib (HostAfter sign) ''ed25519'' ''ci-active'' ''{}'' (trim_space sig) = None"
proof -
  let ?gen = "attestkeygen demo_evidence_lib (Some (replicate 32 CHR ''k'')) demo_host [''-key-id'', ''ci-active'', ''-out-dir'', ''keys'']"
  have paths: "Join [''keys'', ''private-keys.txt''] = ''keys/private-keys.txt''" "Join [''keys'', ''public-keys.txt''] = ''keys/public-keys.txt''"
    by code_simp+
  have files: "FileOf demo_host ''a.json'' = ''a.json''" "FileOf demo_host ''a.sig'' = ''a.sig''"
    "FileOf demo_host ''keys/private-keys.txt'' = ''keys/private-keys.txt''" "FileOf demo_host ''keys/public-keys.txt'' = ''keys/public-keys.txt''"
    unfolding demo_host_def by (simp, code_simp)+
  have "ReadFile (HostAfter ?gen) ''a.json'' = Some ''{}''"
    unfolding keygen_files [OF demo_host_facts(1,2) _ demo_host_facts(7,4,5,6), of "demo_evidence_lib", simplified] paths
    by (simp add: demo_host_facts(8) files)
  moreover have "FileOf demo_host ''a.sig'' \<noteq> FileOf demo_host (Join [''keys'', ''public-keys.txt''])"
    "FileOf demo_host (Join [''keys'', ''private-keys.txt'']) \<noteq> FileOf demo_host (Join [''keys'', ''public-keys.txt''])"
    unfolding paths files by simp_all
  ultimately show ?thesis
    using written_keys_sign_evidence [OF demo_host_facts(3,6,2) _ demo_host_facts(7,1,4,5), of "''a.json''" "''a.sig''" "''{}''"] by blast
qed

text \<open>
  What \<^verbatim>\<open>attestkeygen --key-id i\<close> prints by default is not usable as it is: the private key is printed as a key-ring entry
  \<open>i:value\<close> under the variable of the single key, so with these assignments exported \<^verbatim>\<open>attestsign\<close> finds no key (in CI because inline keys
  are disabled, elsewhere because the entry is no base64 text), ends with status 1 and writes nothing.
\<close>

theorem printed_keys_refused:
  fixes lib h i seed
  defines "gen \<equiv> attestkeygen lib (Some seed) h [''-key-id'', i]"
  defines "h' \<equiv> exported (Stdout gen) (HostAfter gen)"
  assumes "length seed = 32" "key_id_ok i" "bare h" "inp \<noteq> []" "out \<noteq> []" "ReadFile h inp = Some data"
  shows "ExitStatus gen = 0 \<and>
    resolveEd25519PrivateKey lib h' i =
      Inl (Failed (if enforced h then ''inline ed25519 private-key env vars are disabled in strict/CI mode''
                   else ''decode base64 private key'')) \<and>
    attestsign lib h' [''-in'', inp, ''-out'', out, ''-key-id'', i] = exit_with 1 h'"
proof -
  let ?v = "i @ '':'' @ base64_std seed"
  note gen = keygen_prints [OF assms(5,4,3), of lib, folded gen_def]
  have v: "plain ?v" "?v \<noteq> []" "CHR '':'' \<in> set ?v" using assms(4) by (simp_all add: key_id_ok_def plain_base64)
  have env: "Getenv h' ''RGS_VERIFY_EVIDENCE_ATTESTATION_ED25519_PRIVATE_KEY'' = ?v"
    "Getenv h' ''RGS_VERIFY_EVIDENCE_ATTESTATION_ED25519_PRIVATE_KEYS'' = []"
    "Getenv h' ''RGS_VERIFY_EVIDENCE_ATTESTATION_ED25519_PRIVATE_KEYS_FILE'' = []"
    "Getenv h' ''RGS_VERIFY_EVIDENCE_ATTESTATION_ED25519_PRIVATE_KEYS_COMMAND'' = []"
    "Getenv h' ''RGS_VERIFY_EVIDENCE_ATTESTATION_ED25519_PRIVATE_KEY_FILE'' = []"
    "Getenv h' ''RGS_VERIFY_EVIDENCE_ATTESTATION_ED25519_PRIVATE_KEY_COMMAND'' = []"
    "Getenv h' ''RGS_VERIFY_EVIDENCE_ALLOW_INLINE_PRIVATE_KEY'' = []" "Getenv h' ''RGS_VERIFY_EVIDENCE_ATTESTATION_KEY_ID'' = i"
    "enforced h' \<longleftrightarrow> enforced h" "ReadFile h' inp = Some data"
    using assms(5,8) by (simp_all add: h'_def gen bare_def enforced_def)
  have "seed \<noteq> []" using assms(3) by auto
  then have "base64_std seed \<noteq> []" by (rule base64_std_nonempty)
  then have "last ?v \<notin> {CHR 0x22, CHR 0x27}" using base64_std_chars [of "last (base64_std seed)" seed] by simp
  then have "CHR '':'' \<in> set (normalizeKeyMaterial ?v)" using normalizeKeyMaterial_plain [OF v(1)] v(3) by simp
  then have parse: "parseEd25519PrivateKey lib ?v = Inl (Failed ''decode base64 private key'')"
    by (simp add: parseEd25519PrivateKey_def base64_decode_colon)
  have "inline_key h'" using v(2) by (simp add: inline_key_def env trim_space_plain [OF v(1), simplified])
  then have key: "resolveEd25519PrivateKey lib h' i =
      Inl (Failed (if enforced h then ''inline ed25519 private-key env vars are disabled in strict/CI mode''
                   else ''decode base64 private key''))"
    using v(2) assms(4)
    by (simp add: resolveEd25519PrivateKey_def resolveValueSource_def env trim_space_plain [OF v(1), simplified] single_key_def parse [simplified] key_id_ok_def)
  then have "attestsign lib h' [''-in'', inp, ''-out'', out, ''-key-id'', i] = exit_with 1 h'"
    by (simp add: attestsign_run [OF assms(6,7) env(10)] del: flag_parse.simps)
  with key show ?thesis by (simp add: gen)
qed

lemma printed_keys_refused_witness:
  "attestsign demo_evidence_lib
     (exported (Stdout (attestkeygen demo_evidence_lib (Some (replicate 32 CHR ''k'')) demo_host [''-key-id'', ''ci-active''])) demo_host)
     [''-in'', ''a.json'', ''-out'', ''a.sig'', ''-key-id'', ''ci-active''] =
   exit_with 1
     (exported (Stdout (attestkeygen demo_evidence_lib (Some (replicate 32 CHR ''k'')) demo_host [''-key-id'', ''ci-active''])) demo_host)"
proof -
  have "HostAfter (attestkeygen demo_evidence_lib (Some (replicate 32 CHR ''k'')) demo_host [''-key-id'', ''ci-active'']) = demo_host"
    unfolding keygen_prints [OF demo_host_facts(1,2,6)] by simp
  then show ?thesis
    using printed_keys_refused [OF demo_host_facts(6,2,1), of "''a.json''" "''a.sig''" "''{}''" demo_evidence_lib] demo_host_facts(8)
    by (simp del: flag_parse.simps)
qed

end
