(* ===== verification/Metrics.thy ===== *)
theory Metrics
  imports Ledger Identity RemoteAccess
begin

text \<open>
  The observable side of the server: \<^verbatim>\<open>internal/platform/server/metrics.go\<close>, the system service of \<^verbatim>\<open>system_grpc.go\<close> and
  \<^verbatim>\<open>system_http.go\<close>, and the cleanup worker of the ledger (\<^verbatim>\<open>ledger_postgres.go\<close>) with the observer the server gives it.

  A counter with labels is a function from the values of its labels, a histogram keeps its observations. Counters and gauges are
  \<^verbatim>\<open>float64\<close> in the package; the numbers here stay below the bound up to which these are exact.
\<close>

section \<open>Metrics\<close>

record metrics =
  cleanupRunsTotal :: "string \<Rightarrow> nat"
  cleanupDeletedTotal :: nat
  cleanupLastDeleted :: nat
  cleanupLastRunUnix :: int
  idempotencyKeysTotal :: nat
  idempotencyKeysExpired :: nat
  loginAttemptsTotal :: "string \<times> string \<Rightarrow> nat"
  lockoutActivations :: "string \<Rightarrow> nat"
  identitySessionsActive :: nat
  identitySessionsRevoked :: nat
  identitySessionsExpired :: nat
  remoteAccessDecisions :: "string \<Rightarrow> nat"
  remoteAccessLogEntries :: int
  remoteAccessLogCap :: int
  rpcRequestsTotal :: "string \<times> string \<times> string \<Rightarrow> nat"
  rpcRequestLatency :: "string \<times> string \<Rightarrow> duration list"
  httpRequestsTotal :: "string \<times> string \<times> string \<Rightarrow> nat"
  httpRequestLatency :: "string \<times> string \<Rightarrow> duration list"

text \<open>The names the metrics are registered under: subsystem, name and labels; registering a name twice panics.\<close>

definition metric_names :: "(string \<times> string \<times> string list) list" where
  "metric_names =
     [(''ledger_idempotency'', ''cleanup_runs_total'', [''result'']),
      (''ledger_idempotency'', ''cleanup_deleted_total'', []),
      (''ledger_idempotency'', ''cleanup_last_deleted'', []),
      (''ledger_idempotency'', ''cleanup_last_run_unix'', []),
      (''ledger_idempotency'', ''keys_total'', []),
      (''ledger_idempotency'', ''keys_expired'', []),
      (''identity'', ''login_attempts_total'', [''result'', ''actor_type'']),
      (''identity'', ''lockout_activations_total'', [''actor_type'']),
      (''identity'', ''sessions_active'', []),
      (''identity'', ''sessions_revoked'', []),
      (''identity'', ''sessions_expired'', []),
      (''remote_access'', ''decisions_total'', [''outcome'']),
      (''remote_access'', ''inmemory_log_entries'', []),
      (''remote_access'', ''inmemory_log_cap'', []),
      (''rpc'', ''requests_total'', [''transport'', ''method'', ''result'']),
      (''rpc'', ''request_duration_seconds'', [''transport'', ''method'']),
      (''http'', ''requests_total'', [''method'', ''path'', ''status'']),
      (''http'', ''request_duration_seconds'', [''method'', ''path''])]"

definition NewMetrics :: "metrics outcome" where
  "NewMetrics =
     (if \<not> distinct (map (\<lambda>(sub, name, labels). ''open_rgs_'' @ sub @ ''_'' @ name) metric_names) then Panics
      else Returns
        \<lparr>cleanupRunsTotal = (\<lambda>_. 0), cleanupDeletedTotal = 0, cleanupLastDeleted = 0, cleanupLastRunUnix = 0,
         idempotencyKeysTotal = 0, idempotencyKeysExpired = 0, loginAttemptsTotal = (\<lambda>_. 0), lockoutActivations = (\<lambda>_. 0),
         identitySessionsActive = 0, identitySessionsRevoked = 0, identitySessionsExpired = 0,
         remoteAccessDecisions = (\<lambda>_. 0), remoteAccessLogEntries = 0, remoteAccessLogCap = 0,
         rpcRequestsTotal = (\<lambda>_. 0), rpcRequestLatency = (\<lambda>_. []), httpRequestsTotal = (\<lambda>_. 0), httpRequestLatency = (\<lambda>_. [])\<rparr>)"

definition inc :: "'l \<Rightarrow> ('l \<Rightarrow> nat) \<Rightarrow> 'l \<Rightarrow> nat" where
  "inc l c = c(l := Suc (c l))"

definition add_observation :: "'l \<Rightarrow> duration \<Rightarrow> ('l \<Rightarrow> duration list) \<Rightarrow> 'l \<Rightarrow> duration list" where
  "add_observation l d c = c(l := c l @ [d])"

text \<open>\<open>None\<close> is the error of the cleanup, for which the worker reports 0 deleted rows.\<close>

definition ObserveLedgerIdempotencyCleanup :: "env \<Rightarrow> nat option \<Rightarrow> metrics \<Rightarrow> metrics" where
  "ObserveLedgerIdempotencyCleanup e r m =
     (let m1 = m\<lparr>cleanupLastRunUnix := unix (env_wall e), cleanupLastDeleted := (case r of None \<Rightarrow> 0 | Some n \<Rightarrow> n)\<rparr>
      in case r of
           None \<Rightarrow> m1\<lparr>cleanupRunsTotal := inc ''error'' (cleanupRunsTotal m1)\<rparr>
         | Some n \<Rightarrow> m1\<lparr>cleanupRunsTotal := inc ''success'' (cleanupRunsTotal m1), cleanupDeletedTotal := cleanupDeletedTotal m1 + n\<rparr>)"

definition idempotency_counts :: "env \<Rightarrow> ledger_db \<Rightarrow> nat \<times> nat" where
  "idempotency_counts e d =
     (length (ledger_idempotency_keys d), length (filter (\<lambda>r. ir_expires_at r \<le> env_dbnow e) (ledger_idempotency_keys d)))"

definition RefreshLedgerIdempotencyCounts :: "env \<Rightarrow> ledger \<Rightarrow> metrics \<Rightarrow> metrics \<times> ledger" where
  "RefreshLedgerIdempotencyCounts e lg m =
     (case ledger_query (idempotency_counts e) lg of
        (None, lg') \<Rightarrow> (m, lg')
      | (Some (n, expired), lg') \<Rightarrow> (m\<lparr>idempotencyKeysTotal := n, idempotencyKeysExpired := expired\<rparr>, lg'))"

definition session_counts :: "env \<Rightarrow> identity_db \<Rightarrow> nat \<times> nat \<times> nat" where
  "session_counts e d =
     (let n = (\<lambda>P. length (filter P (identity_sessions d)))
      in (n (\<lambda>r. \<not> is_revoked r \<and> env_dbnow e < is_expires_at r), n is_revoked, n (\<lambda>r. is_expires_at r \<le> env_dbnow e)))"

definition RefreshIdentitySessionCounts :: "env \<Rightarrow> identity \<Rightarrow> metrics \<Rightarrow> metrics \<times> identity" where
  "RefreshIdentitySessionCounts e s m =
     (case svc_query (session_counts e) s of
        (None, s') \<Rightarrow> (m, s')
      | (Some (active, revoked, expired), s') \<Rightarrow>
          (m\<lparr>identitySessionsActive := active, identitySessionsRevoked := revoked, identitySessionsExpired := expired\<rparr>, s'))"

definition ObserveIdentityLogin :: "result_code \<Rightarrow> actor_type \<Rightarrow> metrics \<Rightarrow> metrics" where
  "ObserveIdentityLogin result actorType m =
     (let outcome = (case result of
                       RESULT_CODE_OK \<Rightarrow> ''ok''
                     | RESULT_CODE_DENIED \<Rightarrow> ''denied''
                     | RESULT_CODE_INVALID \<Rightarrow> ''invalid''
                     | _ \<Rightarrow> ''error'')
      in m\<lparr>loginAttemptsTotal := inc (outcome, actor_type_string actorType) (loginAttemptsTotal m)\<rparr>)"

definition ObserveIdentityLockoutActivation :: "actor_type \<Rightarrow> metrics \<Rightarrow> metrics" where
  "ObserveIdentityLockoutActivation actorType m = m\<lparr>lockoutActivations := inc (actor_type_string actorType) (lockoutActivations m)\<rparr>"

definition ObserveRemoteAccessDecision :: "string \<Rightarrow> metrics \<Rightarrow> metrics" where
  "ObserveRemoteAccessDecision outcome m =
     m\<lparr>remoteAccessDecisions := inc (if outcome = [] then ''unknown'' else outcome) (remoteAccessDecisions m)\<rparr>"

definition ObserveRemoteAccessLogState :: "int \<Rightarrow> int \<Rightarrow> metrics \<Rightarrow> metrics" where
  "ObserveRemoteAccessLogState n cap m =
     m\<lparr>remoteAccessLogEntries := (if n < 0 then 0 else n), remoteAccessLogCap := (if cap < 0 then 0 else cap)\<rparr>"

text \<open>What the observers of the identity service and of the guard were called with, replayed on the metrics.\<close>

fun identity_observed :: "identity_call \<Rightarrow> metrics \<Rightarrow> metrics" where
  "identity_observed (ObservedLogin r a) = ObserveIdentityLogin r a"
| "identity_observed (ObservedLockout a) = ObserveIdentityLockoutActivation a"

fun guard_call_observed :: "guard_call \<Rightarrow> metrics \<Rightarrow> metrics" where
  "guard_call_observed (ObservedDecision outcome) = ObserveRemoteAccessDecision outcome"
| "guard_call_observed (ObservedLogState n cap) = ObserveRemoteAccessLogState (int n) (int cap)"

section \<open>Requests\<close>

datatype grpc_code =
  OK | InvalidArgument | Unauthenticated | PermissionDenied | NotFoundCode | Aborted | ResourceExhausted | FailedPrecondition | Internal
  | OtherCode string

fun grpc_code_string :: "grpc_code \<Rightarrow> string" where
  "grpc_code_string OK = ''OK''"
| "grpc_code_string InvalidArgument = ''InvalidArgument''"
| "grpc_code_string Unauthenticated = ''Unauthenticated''"
| "grpc_code_string PermissionDenied = ''PermissionDenied''"
| "grpc_code_string NotFoundCode = ''NotFound''"
| "grpc_code_string Aborted = ''Aborted''"
| "grpc_code_string ResourceExhausted = ''ResourceExhausted''"
| "grpc_code_string FailedPrecondition = ''FailedPrecondition''"
| "grpc_code_string Internal = ''Internal''"
| "grpc_code_string (OtherCode c) = c"

definition ObserveRPCRequest :: "string \<Rightarrow> string \<Rightarrow> grpc_code \<Rightarrow> duration \<Rightarrow> metrics \<Rightarrow> metrics" where
  "ObserveRPCRequest transport method result elapsed m =
     m\<lparr>rpcRequestsTotal := inc (transport, method, grpc_code_string result) (rpcRequestsTotal m),
       rpcRequestLatency := add_observation (transport, method) elapsed (rpcRequestLatency m)\<rparr>"

definition ObserveHTTPRequest :: "string \<Rightarrow> string \<Rightarrow> int \<Rightarrow> duration \<Rightarrow> metrics \<Rightarrow> metrics" where
  "ObserveHTTPRequest method path statusCode elapsed m =
     (let statusClass = (if 200 \<le> statusCode \<and> statusCode < 300 then ''2xx'' else if 300 \<le> statusCode \<and> statusCode < 400 then ''3xx''
                         else if 400 \<le> statusCode \<and> statusCode < 500 then ''4xx'' else ''5xx'')
      in m\<lparr>httpRequestsTotal := inc (method, path, statusClass) (httpRequestsTotal m),
           httpRequestLatency := add_observation (method, path) elapsed (httpRequestLatency m)\<rparr>)"

definition grpcCodeFromHTTPStatus :: "int \<Rightarrow> grpc_code" where
  "grpcCodeFromHTTPStatus statusCode =
     (if 200 \<le> statusCode \<and> statusCode < 300 then OK
      else if statusCode = 400 then InvalidArgument
      else if statusCode = 401 then Unauthenticated
      else if statusCode = 403 then PermissionDenied
      else if statusCode = 404 then NotFoundCode
      else if statusCode = 409 then Aborted
      else if statusCode = 429 then ResourceExhausted
      else if 400 \<le> statusCode \<and> statusCode < 500 then FailedPrecondition
      else Internal)"

text \<open>\<open>took\<close> is the time from the start of the handler to the observation.\<close>

definition UnaryMetricsInterceptor :: "string \<Rightarrow> grpc_code \<Rightarrow> duration \<Rightarrow> metrics \<Rightarrow> metrics" where
  "UnaryMetricsInterceptor fullMethod code took = ObserveRPCRequest ''grpc'' fullMethod code took"

text \<open>The wrapped writer remembers the last status it was told; a handler that writes none has written 200.\<close>

definition written_status :: "int list \<Rightarrow> int" where
  "written_status calls = foldl (\<lambda>status c. c) 200 calls"

definition HTTPMetricsMiddleware :: "string \<Rightarrow> string \<Rightarrow> int list \<Rightarrow> duration \<Rightarrow> duration \<Rightarrow> metrics \<Rightarrow> metrics" where
  "HTTPMetricsMiddleware method path calls took took' m =
     (let status = written_status calls
      in ObserveHTTPRequest method path status took' (ObserveRPCRequest ''rest'' path (grpcCodeFromHTTPStatus status) took m))"

section \<open>The cleanup worker of the ledger\<close>

text \<open>The observer: the result of the batch, then the counts of both tables, each statement at a time of its own.\<close>

definition cleanup_observed :: "env \<Rightarrow> env \<Rightarrow> nat option \<Rightarrow> ledger \<times> identity \<times> metrics \<Rightarrow> ledger \<times> identity \<times> metrics" where
  "cleanup_observed e e' r w =
     (case w of (lg, s, m) \<Rightarrow>
        let m1 = ObserveLedgerIdempotencyCleanup e r m
        in if svc_db lg = None then (lg, s, m1)
           else (case RefreshLedgerIdempotencyCounts e lg m1 of (m2, lg') \<Rightarrow>
                 case RefreshIdentitySessionCounts e' s m2 of (m3, s') \<Rightarrow> (lg', s', m3)))"

text \<open>
  A tick of \<^verbatim>\<open>StartIdempotencyCleanupWorker\<close>: batches until one fails, is empty or is not full. The clocks move while it runs: \<open>es\<close> gives
  the environment of each of its statements, three to a round. The fuel bounds the number of batches; \<open>Suc\<close> of the number of rows
  is enough. The worker runs only with a database and a positive interval.
\<close>

fun idempotency_tick :: "nat \<Rightarrow> (nat \<Rightarrow> env) \<Rightarrow> int \<Rightarrow> ledger \<times> identity \<times> metrics \<Rightarrow> (ledger \<times> identity \<times> metrics) option" where
  "idempotency_tick 0 es batchSize w = None"
| "idempotency_tick (Suc fuel) es batchSize w =
     (let batch = (if batchSize \<le> 0 then 500 else batchSize)
      in case CleanupExpiredIdempotencyKeys (es 0) batch (fst w) of
           (None, lg) \<Rightarrow> Some (cleanup_observed (es 1) (es 2) None (lg, snd w))
         | (Some deleted, lg) \<Rightarrow>
             let w1 = cleanup_observed (es 1) (es 2) (Some deleted) (lg, snd w)
             in if deleted = 0 then Some w1 else if int deleted < batch then Some w1
                else idempotency_tick fuel (\<lambda>n. es (n + 3)) batchSize w1)"

definition cleanup_worker_runs :: "duration \<Rightarrow> ledger \<Rightarrow> bool" where
  "cleanup_worker_runs interval lg \<longleftrightarrow> dbEnabled lg \<and> 0 < interval"

section \<open>The system service\<close>

text \<open>\<^verbatim>\<open>Time.Sub\<close>, which stops at the ends of \<^verbatim>\<open>int64\<close>, and \<^verbatim>\<open>Duration.String\<close>.\<close>

definition time_sub :: "time \<Rightarrow> time \<Rightarrow> duration" where
  "time_sub a b = max i64_min (min i64_max (a - b))"

text \<open>The fraction \<open>v\<close> of the unit \<open>10 ^ prec\<close>, without zeros at the end and without a point when it is zero.\<close>

definition fmt_frac :: "nat \<Rightarrow> nat \<Rightarrow> string" where
  "fmt_frac prec v = (let ds = strip_zeros (pad prec v) in if ds = [] then [] else CHR ''.'' # ds)"

definition duration_string :: "duration \<Rightarrow> string" where
  "duration_string d =
     (let u = nat \<bar>d\<bar>; sign = (if d < 0 then ''-'' else []);
          part = (\<lambda>prec. itoa_nat (u div 10 ^ prec) @ fmt_frac prec (u mod 10 ^ prec))
      in if u = 0 then ''0s''
         else if u < 1000 then sign @ itoa_nat u @ ''ns''
         else if u < 1000000 then sign @ part 3 @ [CHR 0xC2, CHR 0xB5] @ ''s''
         else if u < 1000000000 then sign @ part 6 @ ''ms''
         else let s = u div 1000000000; secs = itoa_nat (s mod 60) @ fmt_frac 9 (u mod 1000000000) @ ''s''; mins = s div 60
              in if mins = 0 then sign @ secs
                 else if mins div 60 = 0 then sign @ itoa_nat mins @ ''m'' @ secs
                 else sign @ itoa_nat (mins div 60) @ ''h'' @ itoa_nat (mins mod 60) @ ''m'' @ secs)"

record system_service =
  SystemStartedAt :: time
  SystemVersion :: string

record status_response =
  StatusMeta :: response_meta
  ServiceName :: string
  StatusVersion :: string
  Uptime :: string

text \<open>\<open>req\<close> is the request and in it the request's metadata; both may be missing.\<close>

definition GetSystemStatus :: "env \<Rightarrow> request_meta option option \<Rightarrow> system_service \<Rightarrow> status_response" where
  "GetSystemStatus e req s =
     \<lparr>StatusMeta = \<lparr>RspRequestId = requestID (Option.bind req id), ResultCode = RESULT_CODE_OK, DenialReason = [],
        ServerTime = fmt_rfc3339nano (env_now e)\<rparr>,
      ServiceName = ''open-rgs-go'', StatusVersion = SystemVersion s, Uptime = duration_string (time_sub (env_now e) (SystemStartedAt s))\<rparr>"

text \<open>\<^verbatim>\<open>/healthz\<close>: the status and the body.\<close>

definition health :: "int \<times> string" where
  "health = (200, ''ok'')"

end
