(* ===== verification/Daemon.thy ===== *)
theory Daemon
  imports GoText Metrics Wagering Registry Ingestion Reporting Config Extensions Sessions AuditQuery
begin

text \<open>
  The server process, \<^verbatim>\<open>cmd/rgsd/main.go\<close>: the settings it reads from the environment, the checks of the production mode, the TLS
  configuration (\<^verbatim>\<open>internal/platform/server/tls.go\<close>), the keyset of the access tokens and its refresh, and how the services
  are put together. \<open>None\<close> is an end of the process, by \<^verbatim>\<open>log.Fatalf\<close> or by a panic.

  The machine the process starts on is a record: its environment, files and shell commands, whether the database answers, which
  pairs of certificate and key load, which texts hold a certificate and which addresses are free; \<open>keyset_json\<close> decodes the
  keyset file. The tables of the database are a record of the tables of each service. Listeners, the gateway's handlers and the
  shutdown are left out.
\<close>

section \<open>time.ParseDuration\<close>

definition unit_of :: "string \<Rightarrow> nat option" where
  "unit_of u =
     (if u = ''ns'' then Some 1
      else if u = ''us'' \<or> u = [CHR 0xC2, CHR 0xB5, CHR ''s''] \<or> u = [CHR 0xCE, CHR 0xBC, CHR ''s''] then Some 1000
      else if u = ''ms'' then Some 1000000 else if u = ''s'' then Some 1000000000
      else if u = ''m'' then Some 60000000000 else if u = ''h'' then Some 3600000000000 else None)"

text \<open>The digits behind the point, as many as fit into 63 bits, and their scale.\<close>

fun leading_fraction :: "string \<Rightarrow> nat \<times> nat \<Rightarrow> nat \<times> nat" where
  "leading_fraction [] fs = fs"
| "leading_fraction (c # ds) (f, scale) =
     (if f > (2 ^ 63 - 1) div 10 \<or> 10 * f + digit_val c > 2 ^ 63 then (f, scale)
      else leading_fraction ds (10 * f + digit_val c, 10 * scale))"

text \<open>
  One number with its unit, and the rest of the text. The fraction of the unit is the exact one, cut off; the package multiplies
  \<^verbatim>\<open>float64\<close> numbers, which gives the same for fractions of whole nanoseconds.
\<close>

definition duration_term :: "string \<Rightarrow> (nat \<times> string) option" where
  "duration_term s =
     (let ds = takeWhile is_digit s; s1 = dropWhile is_digit s;
          pointed = (s1 \<noteq> [] \<and> hd s1 = CHR ''.'');
          fd = (if pointed then takeWhile is_digit (tl s1) else []);
          s2 = (if pointed then dropWhile is_digit (tl s1) else s1);
          stop = (\<lambda>c. is_digit c \<or> c = CHR ''.'');
          u = takeWhile (\<lambda>c. \<not> stop c) s2; s3 = dropWhile (\<lambda>c. \<not> stop c) s2
      in if (ds = [] \<and> fd = []) \<or> digits_val ds > 2 ^ 63 \<or> u = [] then None
         else (case unit_of u of
                 None \<Rightarrow> None
               | Some unit \<Rightarrow>
                   let (f, scale) = leading_fraction fd (0, 1); v = digits_val ds * unit + f * unit div scale
                   in if digits_val ds > 2 ^ 63 div unit \<or> v > 2 ^ 63 then None else Some (v, s3)))"

lemma duration_term_shorter: "duration_term s = Some (v, r) \<Longrightarrow> length r < length s"
proof -
  assume t: "duration_term s = Some (v, r)"
  define s1 where "s1 = dropWhile is_digit s"
  define s2 where "s2 = (if s1 \<noteq> [] \<and> hd s1 = CHR ''.'' then dropWhile is_digit (tl s1) else s1)"
  define P where "P = (\<lambda>c. \<not> (is_digit c \<or> c = CHR ''.''))"
  from t have r: "r = dropWhile P s2" "takeWhile P s2 \<noteq> []"
    by (auto simp: duration_term_def Let_def s1_def s2_def P_def split: if_splits option.splits prod.splits)
  have "length s1 \<le> length s" unfolding s1_def by (rule length_dropWhile_le)
  moreover have "length s2 \<le> length s1" unfolding s2_def using length_dropWhile_le [of is_digit "tl s1"] by auto
  moreover have "length (takeWhile P s2) + length r = length s2" unfolding r(1) by (metis length_append takeWhile_dropWhile_id)
  ultimately show ?thesis using r(2) by (cases "takeWhile P s2") auto
qed

function duration_sum :: "nat \<Rightarrow> string \<Rightarrow> nat option" where
  "duration_sum d s =
     (if s = [] then Some d
      else (case duration_term s of
              None \<Rightarrow> None
            | Some (v, r) \<Rightarrow> let d' = (d + v) mod 2 ^ 64 in if d' > 2 ^ 63 then None else duration_sum d' r))"
  by auto
termination
  by (relation "measure (length \<circ> snd)") (auto dest: duration_term_shorter)

declare duration_sum.simps [simp del]

definition ParseDuration :: "string \<Rightarrow> duration option" where
  "ParseDuration s =
     (let signed = (s \<noteq> [] \<and> (hd s = CHR ''-'' \<or> hd s = CHR ''+'')); neg = (signed \<and> hd s = CHR ''-''); t = (if signed then tl s else s)
      in if t = ''0'' then Some 0 else if t = [] then None
         else Option.bind (duration_sum 0 t) (\<lambda>d. if neg then Some (- int d) else if d > 2 ^ 63 - 1 then None else Some (int d)))"

section \<open>Settings\<close>

type_synonym environment = "string \<Rightarrow> string"

definition env_or :: "environment \<Rightarrow> string \<Rightarrow> string \<Rightarrow> string" where
  "env_or ev key def = (if ev key = [] then def else ev key)"

definition mustParseDurationEnv :: "environment \<Rightarrow> string \<Rightarrow> string \<Rightarrow> duration option" where
  "mustParseDurationEnv ev key def = ParseDuration (env_or ev key def)"

definition mustParseIntEnv :: "environment \<Rightarrow> string \<Rightarrow> int \<Rightarrow> int option" where
  "mustParseIntEnv ev key def = (let raw = env_or ev key [] in if raw = [] then Some def else atoi raw)"

definition mustParseBoolEnv :: "environment \<Rightarrow> string \<Rightarrow> bool \<Rightarrow> bool option" where
  "mustParseBoolEnv ev key def =
     (let raw = trim_space (env_or ev key [])
      in if raw = [] then Some def
         else if to_lower raw \<in> {''1'', ''true'', ''yes'', ''on''} then Some True
         else if to_lower raw \<in> {''0'', ''false'', ''no'', ''off''} then Some False else None)"

definition validateProductionRuntime :: "bool \<Rightarrow> bool \<Rightarrow> string \<Rightarrow> bool \<Rightarrow> string \<Rightarrow> string \<Rightarrow> string \<Rightarrow> string \<Rightarrow> bool" where
  "validateProductionRuntime strict strictExternalJWTKeyset databaseURL tlsEnabled jwtSigningSecret jwtKeysetSpec jwtKeysetFile jwtKeysetCommand \<longleftrightarrow>
     \<not> strict \<or>
     (trim_space databaseURL \<noteq> [] \<and> tlsEnabled \<and>
      \<not> (trim_space jwtKeysetSpec = [] \<and> trim_space jwtKeysetFile = [] \<and> trim_space jwtKeysetCommand = [] \<and>
         jwtSigningSecret = ''dev-insecure-change-me'') \<and>
      \<not> (strictExternalJWTKeyset \<and> trim_space jwtKeysetFile = [] \<and> trim_space jwtKeysetCommand = []))"

text \<open>The keys of the download library; entries that are malformed are skipped.\<close>

fun parse_secrets :: "string list \<Rightarrow> (string \<rightharpoonup> string) \<Rightarrow> (string \<rightharpoonup> string)" where
  "parse_secrets [] out = out"
| "parse_secrets (part # parts) out =
     (case split_two (CHR '':'') (trim_space part) of
        None \<Rightarrow> parse_secrets parts out
      | Some (k, v) \<Rightarrow>
          let kid = trim_space k; secret = trim_space v
          in parse_secrets parts (if kid = [] \<or> secret = [] then out else out(kid \<mapsto> secret)))"

definition parseKeyValueSecrets :: "string \<Rightarrow> string \<rightharpoonup> string" where
  "parseKeyValueSecrets spec = parse_secrets (split_on (CHR '','') spec) Map.empty"

record settings =
  set_version :: string
  set_grpcAddr :: string
  set_httpAddr :: string
  set_trustedCIDRs :: "string list"
  set_databaseURL :: string
  set_jwtSigningSecret :: string
  set_jwtKeysetSpec :: string
  set_jwtActiveKID :: string
  set_jwtKeysetFile :: string
  set_jwtKeysetCommand :: string
  set_jwtKeysetRefreshInterval :: duration
  set_downloadSigningKeysSpec :: string
  set_jwtAccessTTL :: duration
  set_jwtRefreshTTL :: duration
  set_identityLockoutTTL :: duration
  set_identityLockoutMaxFailures :: int
  set_identitySessionCleanupInterval :: duration
  set_identitySessionCleanupBatch :: int
  set_loginRateLimitMaxAttempts :: int
  set_loginRateLimitWindow :: duration
  set_eftFraudMaxFailures :: int
  set_eftFraudLockoutTTL :: duration
  set_idempotencyTTL :: duration
  set_idempotencyCleanupInterval :: duration
  set_idempotencyCleanupBatch :: int
  set_metricsRefreshInterval :: duration
  set_activityLogCap :: int
  set_tlsEnabled :: bool
  set_tlsRequireClientCert :: bool
  set_strictProductionMode :: bool
  set_strictExternalJWTKeyset :: bool

definition read_settings :: "environment \<Rightarrow> settings option" where
  "read_settings ev =
     do {
       let version = env_or ev ''RGS_VERSION'' ''dev'';
       refreshInterval \<leftarrow> mustParseDurationEnv ev ''RGS_JWT_KEYSET_REFRESH_INTERVAL'' ''1m'';
       accTTL \<leftarrow> mustParseDurationEnv ev ''RGS_JWT_ACCESS_TTL'' ''15m'';
       refTTL \<leftarrow> mustParseDurationEnv ev ''RGS_JWT_REFRESH_TTL'' ''24h'';
       lockTTL \<leftarrow> mustParseDurationEnv ev ''RGS_IDENTITY_LOCKOUT_TTL'' ''15m'';
       lockMax \<leftarrow> mustParseIntEnv ev ''RGS_IDENTITY_LOCKOUT_MAX_FAILURES'' 5;
       sessInterval \<leftarrow> mustParseDurationEnv ev ''RGS_IDENTITY_SESSION_CLEANUP_INTERVAL'' ''15m'';
       sessBatch \<leftarrow> mustParseIntEnv ev ''RGS_IDENTITY_SESSION_CLEANUP_BATCH'' 500;
       rateMax \<leftarrow> mustParseIntEnv ev ''RGS_IDENTITY_LOGIN_RATE_LIMIT_MAX_ATTEMPTS'' 60;
       rateWindow \<leftarrow> mustParseDurationEnv ev ''RGS_IDENTITY_LOGIN_RATE_LIMIT_WINDOW'' ''1m'';
       eftMax \<leftarrow> mustParseIntEnv ev ''RGS_EFT_FRAUD_MAX_FAILURES'' 5;
       eftTTL \<leftarrow> mustParseDurationEnv ev ''RGS_EFT_FRAUD_LOCKOUT_TTL'' ''15m'';
       idemTTL \<leftarrow> mustParseDurationEnv ev ''RGS_LEDGER_IDEMPOTENCY_TTL'' ''24h'';
       idemInterval \<leftarrow> mustParseDurationEnv ev ''RGS_LEDGER_IDEMPOTENCY_CLEANUP_INTERVAL'' ''15m'';
       idemBatch \<leftarrow> mustParseIntEnv ev ''RGS_LEDGER_IDEMPOTENCY_CLEANUP_BATCH'' 500;
       metricsInterval \<leftarrow> mustParseDurationEnv ev ''RGS_METRICS_REFRESH_INTERVAL'' ''1m'';
       logCap \<leftarrow> mustParseIntEnv ev ''RGS_REMOTE_ACCESS_ACTIVITY_LOG_CAP'' 5000;
       strict \<leftarrow> mustParseBoolEnv ev ''RGS_STRICT_PRODUCTION_MODE'' (version \<noteq> ''dev'');
       strictExt \<leftarrow> mustParseBoolEnv ev ''RGS_STRICT_EXTERNAL_JWT_KEYSET'' strict;
       Some \<lparr>set_version = version,
             set_grpcAddr = env_or ev ''RGS_GRPC_ADDR'' '':8081'',
             set_httpAddr = env_or ev ''RGS_HTTP_ADDR'' '':8080'',
             set_trustedCIDRs = split_on (CHR '','') (env_or ev ''RGS_TRUSTED_CIDRS'' ''127.0.0.1/32,::1/128''),
             set_databaseURL = env_or ev ''RGS_DATABASE_URL'' [],
             set_jwtSigningSecret = env_or ev ''RGS_JWT_SIGNING_SECRET'' ''dev-insecure-change-me'',
             set_jwtKeysetSpec = env_or ev ''RGS_JWT_KEYSET'' [],
             set_jwtActiveKID = env_or ev ''RGS_JWT_ACTIVE_KID'' ''default'',
             set_jwtKeysetFile = env_or ev ''RGS_JWT_KEYSET_FILE'' [],
             set_jwtKeysetCommand = env_or ev ''RGS_JWT_KEYSET_COMMAND'' [],
             set_jwtKeysetRefreshInterval = refreshInterval,
             set_downloadSigningKeysSpec = env_or ev ''RGS_DOWNLOAD_SIGNING_KEYS'' [],
             set_jwtAccessTTL = accTTL, set_jwtRefreshTTL = refTTL,
             set_identityLockoutTTL = lockTTL, set_identityLockoutMaxFailures = lockMax,
             set_identitySessionCleanupInterval = sessInterval, set_identitySessionCleanupBatch = sessBatch,
             set_loginRateLimitMaxAttempts = rateMax, set_loginRateLimitWindow = rateWindow,
             set_eftFraudMaxFailures = eftMax, set_eftFraudLockoutTTL = eftTTL,
             set_idempotencyTTL = idemTTL, set_idempotencyCleanupInterval = idemInterval, set_idempotencyCleanupBatch = idemBatch,
             set_metricsRefreshInterval = metricsInterval, set_activityLogCap = logCap,
             set_tlsEnabled = (env_or ev ''RGS_TLS_ENABLED'' ''false'' = ''true''),
             set_tlsRequireClientCert = (env_or ev ''RGS_TLS_REQUIRE_CLIENT_CERT'' ''false'' = ''true''),
             set_strictProductionMode = strict, set_strictExternalJWTKeyset = strictExt\<rparr>
     }"

section \<open>The machine; TLS; the keyset\<close>

record machine =
  mc_env :: environment
  mc_file :: "string \<Rightarrow> string option"
  mc_shell :: "string \<Rightarrow> string option"
  mc_keypair :: "string \<Rightarrow> string \<Rightarrow> bool"
  mc_certs :: "string \<Rightarrow> bool"
  mc_database :: "string \<Rightarrow> bool"
  mc_listen :: "string \<Rightarrow> bool"
  keyset_json :: "string \<Rightarrow> (string \<times> (string \<times> string) list) option"

record tls_settings =
  tls_Enabled :: bool
  tls_CertFile :: string
  tls_KeyFile :: string
  tls_ClientCAFile :: string
  tls_RequireClientCert :: bool
  tls_MinVersionTLS12 :: bool

record tls_config =
  MinVersionTLS12 :: bool
  RequireAndVerifyClientCert :: bool
  ClientCAs :: "string option"

text \<open>\<open>Some None\<close> is no TLS.\<close>

definition BuildTLSConfig :: "machine \<Rightarrow> tls_settings \<Rightarrow> tls_config option option" where
  "BuildTLSConfig mc c =
     (if \<not> tls_Enabled c then Some None
      else if tls_CertFile c = [] \<or> tls_KeyFile c = [] \<or> \<not> mc_keypair mc (tls_CertFile c) (tls_KeyFile c) then None
      else if \<not> tls_RequireClientCert c
      then Some (Some \<lparr>MinVersionTLS12 = tls_MinVersionTLS12 c, RequireAndVerifyClientCert = False, ClientCAs = None\<rparr>)
      else if tls_ClientCAFile c = [] then None
      else (case mc_file mc (tls_ClientCAFile c) of
              None \<Rightarrow> None
            | Some ca \<Rightarrow>
                if \<not> mc_certs mc ca then None
                else Some (Some \<lparr>MinVersionTLS12 = tls_MinVersionTLS12 c, RequireAndVerifyClientCert = True, ClientCAs = Some ca\<rparr>)))"

definition LoadHMACKeysetFile :: "machine \<Rightarrow> string \<Rightarrow> HMACKeyset option" where
  "LoadHMACKeysetFile mc path =
     do { raw \<leftarrow> mc_file mc path; (active, entries) \<leftarrow> keyset_json mc raw; LoadHMACKeysetJSON active entries }"

definition LoadHMACKeysetCommand :: "machine \<Rightarrow> string \<Rightarrow> HMACKeyset option" where
  "LoadHMACKeysetCommand mc command =
     (if trim_space command = [] then None
      else do { out \<leftarrow> mc_shell mc (trim_space command); (active, entries) \<leftarrow> keyset_json mc out; LoadHMACKeysetJSON active entries })"

definition fingerprint_text :: "HMACKeyset \<Rightarrow> string" where
  "fingerprint_text keyset =
     ActiveKID keyset @ concat (map (\<lambda>kid. ''|'' @ kid @ '':'' @ the (Keys keyset kid)) (sorted_list_of_set (dom (Keys keyset))))"

definition keysetFingerprint :: "ext \<Rightarrow> HMACKeyset \<Rightarrow> string" where
  "keysetFingerprint x keyset = hex_encode (sha256 x (fingerprint_text keyset))"

definition loadJWTKeyset :: "ext \<Rightarrow> machine \<Rightarrow> settings \<Rightarrow> (HMACKeyset \<times> string) option" where
  "loadJWTKeyset x mc c =
     map_option (\<lambda>keyset. (keyset, keysetFingerprint x keyset))
       (if trim_space (set_jwtKeysetFile c) \<noteq> [] then LoadHMACKeysetFile mc (set_jwtKeysetFile c)
        else if trim_space (set_jwtKeysetCommand c) \<noteq> [] then LoadHMACKeysetCommand mc (set_jwtKeysetCommand c)
        else ParseHMACKeyset (set_jwtSigningSecret c) (set_jwtKeysetSpec c) (set_jwtActiveKID c))"

section \<open>The process\<close>

text \<open>The tables, by the service that uses them. Registry and events share theirs.\<close>

record tables =
  tb_identity :: identity_db
  tb_ledger :: ledger_db
  tb_wagering :: wager_db
  tb_floor :: floor_db
  tb_reporting :: report_db
  tb_config :: config_db
  tb_extensions :: extension_db
  tb_sessions :: sessions_db
  tb_access :: access_db

text \<open>
  The signer of the tokens is shared by the identity service and the refresh of the keyset: it is the field of the identity
  service. \<open>pr_fingerprint\<close> is what the refresh remembers.
\<close>

record process_state =
  pr_settings :: settings
  pr_tls :: "tls_config option"
  pr_metrics :: metrics
  pr_system :: system_service
  pr_identity :: identity
  pr_ledger :: ledger
  pr_wagering :: wagering
  pr_registry :: registry_service
  pr_events :: events_service
  pr_reporting :: reporting_service
  pr_config :: config_service
  pr_promotions :: promotions_service
  pr_overlay :: overlay_service
  pr_sessions :: sessions_service
  pr_guard :: remote_access_guard
  pr_audit :: audit_service
  pr_verifier :: jwt_keys
  pr_fingerprint :: string

definition tls_of :: "environment \<Rightarrow> settings \<Rightarrow> tls_settings" where
  "tls_of ev c =
     \<lparr>tls_Enabled = set_tlsEnabled c, tls_CertFile = env_or ev ''RGS_TLS_CERT_FILE'' [], tls_KeyFile = env_or ev ''RGS_TLS_KEY_FILE'' [],
      tls_ClientCAFile = env_or ev ''RGS_TLS_CLIENT_CA_FILE'' [], tls_RequireClientCert = set_tlsRequireClientCert c, tls_MinVersionTLS12 = True\<rparr>"

text \<open>The identity service with its policies; with a database it must hold an active credential.\<close>

definition boot_identity :: "settings \<Rightarrow> jwt_keys \<Rightarrow> identity_db option \<Rightarrow> identity option" where
  "boot_identity c signer handle =
     do {
       s0 \<leftarrow> returned (NewIdentityService (set_jwtSigningSecret c) (set_jwtAccessTTL c) (set_jwtRefreshTTL c) handle);
       let s1 = SetLoginRateLimit (set_loginRateLimitMaxAttempts c) (set_loginRateLimitWindow c)
                  (SetLockoutPolicy (set_identityLockoutMaxFailures c) (set_identityLockoutTTL c) (SetJWTSigner (Some signer) s0));
       s2 \<leftarrow> (if handle = None then Some s1
              else (case HasActiveCredentials s1 of (Some True, s') \<Rightarrow> Some s' | _ \<Rightarrow> None));
       Some (SetMetricsObservers True s2)
     }"

definition boot_ledger :: "settings \<Rightarrow> ledger_db option \<Rightarrow> ledger" where
  "boot_ledger c handle =
     snd (SetIdempotencyTTL (set_idempotencyTTL c)
       (snd (SetDisableInMemoryIdempotencyCache (set_strictProductionMode c)
         (snd (SetEFTFraudPolicy (set_eftFraudMaxFailures c) (set_eftFraudLockoutTTL c) (NewLedgerService handle))))))"

definition boot_guard :: "settings \<Rightarrow> access_db option \<Rightarrow> remote_access_guard option" where
  "boot_guard c handle =
     map_option (\<lambda>g. SetLogStateObserver True (SetDecisionObserver True (SetInMemoryActivityLogCap (set_activityLogCap c)
         (SetFailClosedOnLogPersistenceFailure (set_strictProductionMode c)
           (SetDisableInMemoryActivityCache (set_strictProductionMode c)
             (if handle = None then g else guard_SetDB handle g))))))
       (NewRemoteAccessGuard (Some NewInMemoryStore) (set_trustedCIDRs c))"

text \<open>
  The services of a process, each with its part of the database. The counts of the tables are read once before the workers
  start, and the guard has told its observers about its log. The store of the wagering service is not among those of the audit
  service.
\<close>

definition boot_config :: "settings \<Rightarrow> config_db option \<Rightarrow> config_service" where
  "boot_config c handle =
     (let keys = parseKeyValueSecrets (set_downloadSigningKeysSpec c)
      in SetDownloadSignatureKeys (map (\<lambda>k. (k, the (keys k))) (sorted_list_of_set (dom keys)))
           (config_SetDisableInMemoryCache (set_strictProductionMode c) (NewConfigService handle)))"

definition wire ::
    "env \<Rightarrow> settings \<Rightarrow> tls_config option \<Rightarrow> HMACKeyset \<Rightarrow> string \<Rightarrow> tables option \<Rightarrow> metrics \<Rightarrow> identity \<Rightarrow> remote_access_guard \<Rightarrow> process_state" where
  "wire e c tls keyset fingerprint db m ids guard =
     (let strict = set_strictProductionMode c;
          counted = RefreshLedgerIdempotencyCounts e (boot_ledger c (map_option tb_ledger db)) m;
          counted' = RefreshIdentitySessionCounts e ids (fst counted);
          lg = snd counted;
          registry = registry_SetDisableInMemoryCache strict (NewRegistryService (map_option tb_floor db));
          events = events_SetDisableInMemoryCache strict (NewEventsService (map_option tb_floor db));
          reporting = reporting_SetDisableInMemoryCache strict (NewReportingService (Some lg) (Some events) (map_option tb_reporting db));
          config = boot_config c (map_option tb_config db);
          promotions = promo_SetDisableInMemoryCache strict (NewPromotionsService (map_option tb_extensions db));
          overlay = overlay_SetDisableInMemoryCache strict (NewUISystemOverlayService (map_option tb_extensions db));
          sess = sessions_SetDisableInMemoryCache strict (NewSessionsService (map_option tb_sessions db));
          audit = NewAuditService (Some guard)
            [svc_AuditStore lg, svc_AuditStore registry, svc_AuditStore events, svc_AuditStore reporting, svc_AuditStore config,
             svc_AuditStore (snd counted'), svc_AuditStore promotions, svc_AuditStore overlay, svc_AuditStore sess, svc_AuditStore guard]
      in \<lparr>pr_settings = c, pr_tls = tls, pr_metrics = fold guard_call_observed (guard_observed guard) (fst counted'),
          pr_system = \<lparr>SystemStartedAt = env_wall e, SystemVersion = set_version c\<rparr>, pr_identity = snd counted', pr_ledger = lg,
          pr_wagering = wagering_SetDisableInMemoryIdempotencyCache strict (NewWageringService (map_option tb_wagering db)),
          pr_registry = registry, pr_events = events, pr_reporting = reporting, pr_config = config, pr_promotions = promotions,
          pr_overlay = overlay, pr_sessions = sess, pr_guard = guard,
          pr_audit = (if db = None then audit else audit_SetDB (map_option tb_access db) audit),
          pr_verifier = NewJWTVerifierWithKeyset keyset, pr_fingerprint = fingerprint\<rparr>)"

text \<open>The main program up to the point where it waits for a signal.\<close>

definition boot :: "ext \<Rightarrow> env \<Rightarrow> machine \<Rightarrow> tables \<Rightarrow> process_state option" where
  "boot x e mc tb =
     do {
       c \<leftarrow> read_settings (mc_env mc);
       _ \<leftarrow> (if validateProductionRuntime (set_strictProductionMode c) (set_strictExternalJWTKeyset c) (set_databaseURL c)
                 (set_tlsEnabled c) (set_jwtSigningSecret c) (set_jwtKeysetSpec c) (set_jwtKeysetFile c) (set_jwtKeysetCommand c)
             then Some () else None);
       tls \<leftarrow> BuildTLSConfig mc (tls_of (mc_env mc) c);
       (keyset, fingerprint) \<leftarrow> loadJWTKeyset x mc c;
       m \<leftarrow> returned NewMetrics;
       db \<leftarrow> (if set_databaseURL c = [] then Some None else if mc_database mc (set_databaseURL c) then Some (Some tb) else None);
       ids \<leftarrow> boot_identity c (NewJWTSignerWithKeyset keyset) (map_option tb_identity db);
       _ \<leftarrow> (if mc_listen mc (set_grpcAddr c) then Some () else None);
       guard \<leftarrow> boot_guard c (map_option tb_access db);
       Some (wire e c tls keyset fingerprint db m ids guard)
     }"

text \<open>
  A tick of the refresh of the keyset: a keyset that cannot be loaded or has the remembered fingerprint changes nothing. The signer
  and the verifier change in one step here; the code sets them one after the other, each under its own lock, so that a
  request in between can meet a new signer and an old verifier.
\<close>

definition refresh_enabled :: "settings \<Rightarrow> bool" where
  "refresh_enabled c \<longleftrightarrow>
     (trim_space (set_jwtKeysetFile c) \<noteq> [] \<or> trim_space (set_jwtKeysetCommand c) \<noteq> []) \<and> 0 < set_jwtKeysetRefreshInterval c"

definition refresh_tick :: "ext \<Rightarrow> machine \<Rightarrow> process_state \<Rightarrow> process_state" where
  "refresh_tick x mc p =
     (if \<not> refresh_enabled (pr_settings p) then p
      else (case loadJWTKeyset x mc (pr_settings p) of
              None \<Rightarrow> p
            | Some (loaded, fingerprint) \<Rightarrow>
                if fingerprint = pr_fingerprint p then p
                else (case SetKeyset loaded (tokenSigner (pr_identity p)) of
                        (False, _) \<Rightarrow> p
                      | (True, signer) \<Rightarrow>
                          let p1 = p\<lparr>pr_identity := SetJWTSigner (Some signer) (pr_identity p)\<rparr>
                          in (case SetKeyset loaded (pr_verifier p) of
                                (False, _) \<Rightarrow> p1
                              | (True, verifier) \<Rightarrow> p1\<lparr>pr_verifier := verifier, pr_fingerprint := fingerprint\<rparr>))))"

text \<open>Who may call without a token: the methods of the interceptor and the paths of the gateway.\<close>

definition open_methods :: "string list" where
  "open_methods = [''/rgs.v1.SystemService/GetSystemStatus'', ''/rgs.v1.IdentityService/Login'', ''/rgs.v1.IdentityService/RefreshToken'',
     ''/grpc.health.v1.Health/Check'']"

definition open_paths :: "string list" where
  "open_paths = [''/v1/system/status'', ''/v1/identity/login'', ''/v1/identity/refresh'']"

end
