(* ===== verification/Gateway.thy ===== *)
theory Gateway
  imports Daemon
begin

text \<open>
  Requests on their way through a running process (\<^verbatim>\<open>cmd/rgsd/main.go\<close>): a gRPC call passes the metrics and the interceptor of the
  access tokens, a request of the gateway passes the remote access guard, the metrics and the middleware of the access tokens, and
  both end in a method of a registered service. Then the background work: the refresh of the keyset, the cleanup of the ledger and
  the refresh of the metrics.

  The generated registration code finds the method of a request and translates its messages. It is a parameter, what it
  decoded a request to (a method with its message, or an answer of its own) and what it writes for a message; the
  methods themselves are those of the services. The paths are those the multiplexer of the standard library hands on; it answers
  \<^verbatim>\<open>/healthz\<close> and \<^verbatim>\<open>/metrics\<close> by other handlers.
\<close>

section \<open>The registered services\<close>

text \<open>The methods of the services, each with its message; a message may be nil.\<close>

datatype identity_rpc =
    RpcLogin "login_request option" | RpcLogout "refresh_request option" | RpcRefreshToken "refresh_request option"
  | RpcSetCredential "credential_request option" | RpcDisableCredential "credential_request option"
  | RpcEnableCredential "credential_request option" | RpcGetLockout "credential_request option" | RpcResetLockout "credential_request option"

datatype ledger_rpc =
    RpcGetBalance "account_request option" | RpcDeposit "deposit_request option" | RpcWithdraw "amount_request option"
  | RpcTransferToDevice "device_request option" | RpcTransferToAccount "amount_request option" | RpcListTransactions "list_request option"

datatype wagering_rpc =
    RpcPlaceWager "place_request option" | RpcSettleWager "settle_request option" | RpcCancelWager "cancel_request option"

datatype registry_rpc =
    RpcUpsertEquipment "upsert_request option" | RpcGetEquipment "get_request option" | RpcListEquipment "equipment_list_request option"

datatype events_rpc =
    RpcSubmitSignificantEvent "event_request option" | RpcSubmitMeterSnapshot "meter_request option" | RpcSubmitMeterDelta "meter_request option"
  | RpcListEvents "record_list_request option" | RpcListMeters "record_list_request option"

datatype reporting_rpc =
    RpcGenerateReport "generate_request option" | RpcListReportRuns "run_list_request option" | RpcGetReportRun "run_get_request option"

datatype config_rpc =
    RpcProposeConfigChange "propose_request option" | RpcApproveConfigChange "change_request option" | RpcApplyConfigChange "change_request option"
  | RpcListConfigHistory "page_request option" | RpcRecordDownloadLibraryChange "entry_request option"
  | RpcListDownloadLibraryChanges "page_request option"

datatype promotions_rpc =
    RpcRecordBonusTransaction "bonus_transaction ext_request option" | RpcListRecentBonusTransactions "bonus_list_request option"
  | RpcRecordPromotionalAward "promotional_award ext_request option" | RpcListPromotionalAwards "award_list_request option"

datatype overlay_rpc =
    RpcSubmitSystemWindowEvent "system_window_event ext_request option" | RpcListSystemWindowEvents "window_list_request option"

datatype sessions_rpc =
    RpcStartSession "start_request option" | RpcEndSession "session_request option" | RpcGetSession "session_request option"

datatype audit_rpc =
    RpcListAuditEvents "audit_list_request option" | RpcListRemoteAccessActivities "audit_list_request option"
  | RpcVerifyAuditChain "verify_request option"

text \<open>How a method ends, without its answer.\<close>

abbreviation finished :: "'a outcome \<times> 's \<Rightarrow> unit outcome \<times> 's" where
  "finished \<equiv> map_prod (map_outcome (\<lambda>_. ())) id"

abbreviation replied :: "'a \<times> 's \<Rightarrow> unit outcome \<times> 's" where
  "replied \<equiv> map_prod (\<lambda>_. Returns ()) id"

fun serve_identity :: "ext \<Rightarrow> ('z) identity_lib_scheme \<Rightarrow> env \<Rightarrow> auth_actor option \<Rightarrow> identity_rpc \<Rightarrow> identity \<Rightarrow> unit outcome \<times> identity" where
  "serve_identity x lib e ctx (RpcLogin r) s = replied (Login x lib e r s)"
| "serve_identity x lib e ctx (RpcLogout r) s = replied (Logout x e r s)"
| "serve_identity x lib e ctx (RpcRefreshToken r) s = replied (RefreshToken x lib e r s)"
| "serve_identity x lib e ctx (RpcSetCredential r) s = replied (SetCredential x lib e ctx r s)"
| "serve_identity x lib e ctx (RpcDisableCredential r) s = replied (DisableCredential x e ctx r s)"
| "serve_identity x lib e ctx (RpcEnableCredential r) s = replied (EnableCredential x e ctx r s)"
| "serve_identity x lib e ctx (RpcGetLockout r) s = replied (GetLockout x e ctx r s)"
| "serve_identity x lib e ctx (RpcResetLockout r) s = replied (ResetLockout x e ctx r s)"

fun serve_ledger :: "ext \<Rightarrow> env \<Rightarrow> auth_actor option \<Rightarrow> ledger_rpc \<Rightarrow> ledger \<Rightarrow> unit outcome \<times> ledger" where
  "serve_ledger x e ctx (RpcGetBalance r) s = finished (GetBalance x e ctx r s)"
| "serve_ledger x e ctx (RpcDeposit r) s = finished (Deposit x e ctx r s)"
| "serve_ledger x e ctx (RpcWithdraw r) s = finished (Withdraw x e ctx r s)"
| "serve_ledger x e ctx (RpcTransferToDevice r) s = finished (TransferToDevice x e ctx r s)"
| "serve_ledger x e ctx (RpcTransferToAccount r) s = finished (TransferToAccount x e ctx r s)"
| "serve_ledger x e ctx (RpcListTransactions r) s = finished (ListTransactions x e ctx r s)"

fun serve_wagering :: "ext \<Rightarrow> env \<Rightarrow> auth_actor option \<Rightarrow> wagering_rpc \<Rightarrow> wagering \<Rightarrow> unit outcome \<times> wagering" where
  "serve_wagering x e ctx (RpcPlaceWager r) s = replied (PlaceWager x e ctx r s)"
| "serve_wagering x e ctx (RpcSettleWager r) s = replied (SettleWager x e ctx r s)"
| "serve_wagering x e ctx (RpcCancelWager r) s = replied (CancelWager x e ctx r s)"

fun serve_registry :: "ext \<Rightarrow> env \<Rightarrow> auth_actor option \<Rightarrow> registry_rpc \<Rightarrow> registry_service \<Rightarrow> unit outcome \<times> registry_service" where
  "serve_registry x e ctx (RpcUpsertEquipment r) s = replied (UpsertEquipment x e ctx r s)"
| "serve_registry x e ctx (RpcGetEquipment r) s = replied (GetEquipment x e ctx r s)"
| "serve_registry x e ctx (RpcListEquipment r) s = replied (ListEquipment x e ctx r s)"

fun serve_events :: "ext \<Rightarrow> env \<Rightarrow> auth_actor option \<Rightarrow> events_rpc \<Rightarrow> events_service \<Rightarrow> unit outcome \<times> events_service" where
  "serve_events x e ctx (RpcSubmitSignificantEvent r) s = replied (SubmitSignificantEvent x e ctx r s)"
| "serve_events x e ctx (RpcSubmitMeterSnapshot r) s = finished (SubmitMeterSnapshot x e ctx r s)"
| "serve_events x e ctx (RpcSubmitMeterDelta r) s = finished (SubmitMeterDelta x e ctx r s)"
| "serve_events x e ctx (RpcListEvents r) s = replied (ListEvents x e ctx r s)"
| "serve_events x e ctx (RpcListMeters r) s = replied (ListMeters x e ctx r s)"

fun serve_reporting :: "ext \<Rightarrow> env \<Rightarrow> auth_actor option \<Rightarrow> reporting_rpc \<Rightarrow> reporting_service \<Rightarrow> unit outcome \<times> reporting_service" where
  "serve_reporting x e ctx (RpcGenerateReport r) s = finished (GenerateReport x e ctx r s)"
| "serve_reporting x e ctx (RpcListReportRuns r) s = replied (ListReportRuns x e ctx r s)"
| "serve_reporting x e ctx (RpcGetReportRun r) s = replied (GetReportRun x e ctx r s)"

fun serve_config :: "ext \<Rightarrow> env \<Rightarrow> auth_actor option \<Rightarrow> config_rpc \<Rightarrow> config_service \<Rightarrow> unit outcome \<times> config_service" where
  "serve_config x e ctx (RpcProposeConfigChange r) s = finished (ProposeConfigChange x e ctx r s)"
| "serve_config x e ctx (RpcApproveConfigChange r) s = finished (ApproveConfigChange x e ctx r s)"
| "serve_config x e ctx (RpcApplyConfigChange r) s = finished (ApplyConfigChange x e ctx r s)"
| "serve_config x e ctx (RpcListConfigHistory r) s = replied (ListConfigHistory x e ctx r s)"
| "serve_config x e ctx (RpcRecordDownloadLibraryChange r) s = finished (RecordDownloadLibraryChange x e ctx r s)"
| "serve_config x e ctx (RpcListDownloadLibraryChanges r) s = replied (ListDownloadLibraryChanges x e ctx r s)"

fun serve_promotions :: "ext \<Rightarrow> env \<Rightarrow> auth_actor option \<Rightarrow> promotions_rpc \<Rightarrow> promotions_service \<Rightarrow> unit outcome \<times> promotions_service" where
  "serve_promotions x e ctx (RpcRecordBonusTransaction r) s = replied (RecordBonusTransaction x e ctx r s)"
| "serve_promotions x e ctx (RpcListRecentBonusTransactions r) s = replied (ListRecentBonusTransactions x e ctx r s)"
| "serve_promotions x e ctx (RpcRecordPromotionalAward r) s = replied (RecordPromotionalAward x e ctx r s)"
| "serve_promotions x e ctx (RpcListPromotionalAwards r) s = replied (ListPromotionalAwards x e ctx r s)"

fun serve_overlay :: "ext \<Rightarrow> env \<Rightarrow> auth_actor option \<Rightarrow> overlay_rpc \<Rightarrow> overlay_service \<Rightarrow> unit outcome \<times> overlay_service" where
  "serve_overlay x e ctx (RpcSubmitSystemWindowEvent r) s = replied (SubmitSystemWindowEvent x e ctx r s)"
| "serve_overlay x e ctx (RpcListSystemWindowEvents r) s = replied (ListSystemWindowEvents x e ctx r s)"

fun serve_sessions :: "ext \<Rightarrow> env \<Rightarrow> auth_actor option \<Rightarrow> sessions_rpc \<Rightarrow> sessions_service \<Rightarrow> unit outcome \<times> sessions_service" where
  "serve_sessions x e ctx (RpcStartSession r) s = replied (StartSession x e ctx r s)"
| "serve_sessions x e ctx (RpcEndSession r) s = replied (EndSession x e ctx r s)"
| "serve_sessions x e ctx (RpcGetSession r) s = replied (GetSession x e ctx r s)"

fun serve_audit :: "ext \<Rightarrow> env \<Rightarrow> auth_actor option \<Rightarrow> audit_rpc \<Rightarrow> audit_service \<Rightarrow> unit outcome \<times> audit_service" where
  "serve_audit x e ctx (RpcListAuditEvents r) s = replied (ListAuditEvents x e ctx r s)"
| "serve_audit x e ctx (RpcListRemoteAccessActivities r) s = replied (ListRemoteAccessActivities e ctx r s)"
| "serve_audit x e ctx (RpcVerifyAuditChain r) s = replied (VerifyAuditChain x e ctx r s)"

text \<open>
  The audit service holds pointers to the guard and to the stores of the other services: what it sees of them is their state at
  the time of the call.
\<close>

definition audit_now :: "process_state \<Rightarrow> audit_service" where
  "audit_now p =
     (pr_audit p)\<lparr>aud_guard := Some (pr_guard p),
       aud_stores := [svc_AuditStore (pr_ledger p), svc_AuditStore (pr_registry p), svc_AuditStore (pr_events p),
         svc_AuditStore (pr_reporting p), svc_AuditStore (pr_config p), svc_AuditStore (pr_identity p), svc_AuditStore (pr_promotions p),
         svc_AuditStore (pr_overlay p), svc_AuditStore (pr_sessions p), svc_AuditStore (pr_guard p)]\<rparr>"

text \<open>So does the reporting service to the ledger and the events service.\<close>

definition reporting_now :: "process_state \<Rightarrow> reporting_service" where
  "reporting_now p = (pr_reporting p)\<lparr>rep_Ledger := Some (pr_ledger p), rep_Events := Some (pr_events p)\<rparr>"

text \<open>The identity service after a call, and the metrics after what it told its observers in it.\<close>

definition with_identity :: "identity \<Rightarrow> process_state \<Rightarrow> process_state" where
  "with_identity s p =
     p\<lparr>pr_identity := s,
       pr_metrics := fold identity_observed (drop (length (observed (pr_identity p))) (observed s)) (pr_metrics p)\<rparr>"

text \<open>A call of a method on the state of the process. The status of the system is read only.\<close>

datatype service_call =
    SystemCall "request_meta option option" | IdentityCall identity_rpc | LedgerCall ledger_rpc | WageringCall wagering_rpc
  | RegistryCall registry_rpc | EventsCall events_rpc | ReportingCall reporting_rpc | ConfigCall config_rpc
  | PromotionsCall promotions_rpc | OverlayCall overlay_rpc | SessionsCall sessions_rpc | AuditCall audit_rpc

fun serve_call ::
    "ext \<Rightarrow> ('z) identity_lib_scheme \<Rightarrow> env \<Rightarrow> auth_actor option \<Rightarrow> service_call \<Rightarrow> process_state \<Rightarrow> unit outcome \<times> process_state" where
  "serve_call x lib e ctx (SystemCall r) p = replied (GetSystemStatus e r (pr_system p), p)"
| "serve_call x lib e ctx (IdentityCall c) p = apsnd (\<lambda>s. with_identity s p) (serve_identity x lib e ctx c (pr_identity p))"
| "serve_call x lib e ctx (LedgerCall c) p = apsnd (\<lambda>s. p\<lparr>pr_ledger := s\<rparr>) (serve_ledger x e ctx c (pr_ledger p))"
| "serve_call x lib e ctx (WageringCall c) p = apsnd (\<lambda>s. p\<lparr>pr_wagering := s\<rparr>) (serve_wagering x e ctx c (pr_wagering p))"
| "serve_call x lib e ctx (RegistryCall c) p = apsnd (\<lambda>s. p\<lparr>pr_registry := s\<rparr>) (serve_registry x e ctx c (pr_registry p))"
| "serve_call x lib e ctx (EventsCall c) p = apsnd (\<lambda>s. p\<lparr>pr_events := s\<rparr>) (serve_events x e ctx c (pr_events p))"
| "serve_call x lib e ctx (ReportingCall c) p = apsnd (\<lambda>s. p\<lparr>pr_reporting := s\<rparr>) (serve_reporting x e ctx c (reporting_now p))"
| "serve_call x lib e ctx (ConfigCall c) p = apsnd (\<lambda>s. p\<lparr>pr_config := s\<rparr>) (serve_config x e ctx c (pr_config p))"
| "serve_call x lib e ctx (PromotionsCall c) p = apsnd (\<lambda>s. p\<lparr>pr_promotions := s\<rparr>) (serve_promotions x e ctx c (pr_promotions p))"
| "serve_call x lib e ctx (OverlayCall c) p = apsnd (\<lambda>s. p\<lparr>pr_overlay := s\<rparr>) (serve_overlay x e ctx c (pr_overlay p))"
| "serve_call x lib e ctx (SessionsCall c) p = apsnd (\<lambda>s. p\<lparr>pr_sessions := s\<rparr>) (serve_sessions x e ctx c (pr_sessions p))"
| "serve_call x lib e ctx (AuditCall c) p =
     apsnd (\<lambda>s. p\<lparr>pr_audit := s, pr_guard := (case aud_guard s of None \<Rightarrow> pr_guard p | Some g \<Rightarrow> g)\<rparr>) (serve_audit x e ctx c (audit_now p))"

section \<open>Requests\<close>

type_synonym 'r handler = "auth_actor option \<Rightarrow> process_state \<Rightarrow> 'r outcome \<times> process_state"

text \<open>
  A handler of the generated code: it answers a request that it cannot decode, and otherwise calls the method with the actor of the
  request and writes its answer. A method that panics or blocks writes none.
\<close>

definition service_handler :: "ext \<Rightarrow> ('z) identity_lib_scheme \<Rightarrow> env \<Rightarrow> 'r + service_call \<Rightarrow> 'r \<Rightarrow> 'r handler" where
  "service_handler x lib e decoded encoded actor p =
     (case decoded of
        Inl refusal \<Rightarrow> (Returns refusal, p)
      | Inr c \<Rightarrow> apfst (map_outcome (\<lambda>_. encoded)) (serve_call x lib e actor c p))"

text \<open>The metrics of a call are written when it returns.\<close>

definition serve_grpc ::
    "('z) jwt_lib_scheme \<Rightarrow> time \<Rightarrow> duration \<Rightarrow> grpc_code handler \<Rightarrow> string \<Rightarrow> string list option \<Rightarrow> process_state
     \<Rightarrow> grpc_code outcome \<times> process_state" where
  "serve_grpc lib wall took handler fullMethod md p =
     (case (case UnaryJWTInterceptor lib (pr_verifier p) open_methods wall fullMethod md of
              Inl msg \<Rightarrow> (Returns Unauthenticated, p)
            | Inr actor \<Rightarrow> handler actor p) of
        (Returns code, p1) \<Rightarrow> (Returns code, p1\<lparr>pr_metrics := UnaryMetricsInterceptor fullMethod code took (pr_metrics p1)\<rparr>)
      | (out, p1) \<Rightarrow> (out, p1))"

text \<open>A request of the gateway is answered with the statuses that were written, the first of which counts.\<close>

definition authenticatedGateway ::
    "('z) jwt_lib_scheme \<Rightarrow> time \<Rightarrow> int list handler \<Rightarrow> string \<Rightarrow> string \<Rightarrow> process_state \<Rightarrow> int list outcome \<times> process_state" where
  "authenticatedGateway lib wall handler path header p =
     (case HTTPJWTMiddlewareWithSkips lib (pr_verifier p) open_paths wall path header of
        Inl msg \<Rightarrow> (Returns [401], p)
      | Inr actor \<Rightarrow> handler actor p)"

text \<open>The guard after a step, and the metrics after what it told its observers in that step.\<close>

definition with_guard :: "remote_access_guard \<Rightarrow> process_state \<Rightarrow> process_state" where
  "with_guard g p =
     p\<lparr>pr_guard := g,
       pr_metrics := fold guard_call_observed (drop (length (guard_observed (pr_guard p))) (guard_observed g)) (pr_metrics p)\<rparr>"

definition serve_http ::
    "ext \<Rightarrow> ('z) jwt_lib_scheme \<Rightarrow> env \<Rightarrow> duration \<times> duration \<Rightarrow> int list handler \<Rightarrow> http_request \<Rightarrow> string \<Rightarrow> process_state \<Rightarrow>
     int list outcome \<times> process_state" where
  "serve_http x lib e took handler r header p =
     (case Wrap x e r (pr_guard p) of
        (HttpError code msg, g) \<Rightarrow> (Returns [int code], with_guard g p)
      | (NextServed, g) \<Rightarrow>
          (case authenticatedGateway lib (env_wall e) handler (URLPath r) header (with_guard g p) of
             (Returns calls, p1) \<Rightarrow>
               (Returns calls, p1\<lparr>pr_metrics := HTTPMetricsMiddleware (HttpMethod r) (URLPath r) calls (fst took) (snd took) (pr_metrics p1)\<rparr>)
           | (out, p1) \<Rightarrow> (out, p1)))"

section \<open>Background work\<close>

text \<open>A tick of the refresh of the metrics, with a database and a positive interval.\<close>

definition metrics_tick :: "env \<Rightarrow> env \<Rightarrow> process_state \<Rightarrow> process_state" where
  "metrics_tick e e' p =
     (if svc_db (pr_ledger p) = None \<or> set_metricsRefreshInterval (pr_settings p) \<le> 0 then p
      else (case RefreshLedgerIdempotencyCounts e (pr_ledger p) (pr_metrics p) of (m1, lg) \<Rightarrow>
            case RefreshIdentitySessionCounts e' (pr_identity p) m1 of (m2, s) \<Rightarrow>
              p\<lparr>pr_ledger := lg, pr_identity := s, pr_metrics := m2\<rparr>))"

text \<open>A tick of the cleanup of the ledger; \<open>None\<close> when the fuel ends.\<close>

definition ledger_cleanup_tick :: "nat \<Rightarrow> (nat \<Rightarrow> env) \<Rightarrow> process_state \<Rightarrow> process_state option" where
  "ledger_cleanup_tick fuel es p =
     (if \<not> cleanup_worker_runs (set_idempotencyCleanupInterval (pr_settings p)) (pr_ledger p) then Some p
      else map_option (\<lambda>(lg, s, m). p\<lparr>pr_ledger := lg, pr_identity := s, pr_metrics := m\<rparr>)
             (idempotency_tick fuel es (set_idempotencyCleanupBatch (pr_settings p)) (pr_ledger p, pr_identity p, pr_metrics p)))"

end
