(* ===== verification/DaemonProps.thy ===== *)
theory DaemonProps
  imports Daemon LedgerTables
begin

text \<open>
  What a running server process guarantees: the production mode, the keys of the access tokens across refreshes, and the ledger of
  a process in production mode.
\<close>

section \<open>A process that has started\<close>

lemma RefreshLedger_facts:
  assumes "RefreshLedgerIdempotencyCounts e lg m = (m', lg')"
  shows "svc_db lg' = None \<longleftrightarrow> svc_db lg = None" "lg'\<lparr>svc_db := svc_db lg\<rparr> = lg"
    "svc_db lg = Some d \<Longrightarrow> db_faults d = [] \<Longrightarrow> lg' = lg"
  using assms
  by (auto simp: RefreshLedgerIdempotencyCounts_def ledger_query_def sql_query_def sql_exec_def split: option.splits prod.splits list.splits)

lemma RefreshIdentity_facts:
  assumes "RefreshIdentitySessionCounts e s m = (m', s')"
  shows "svc_db s' = None \<longleftrightarrow> svc_db s = None" "tokenSigner s' = tokenSigner s"
  using assms
  by (auto simp: RefreshIdentitySessionCounts_def svc_query_def split: option.splits prod.splits)

text \<open>The parts of a process, as they were put together.\<close>

lemma bind_SomeE:
  assumes "Option.bind r f = Some y"
  obtains v where "r = Some v" "f v = Some y"
  using assms by (auto simp: bind_eq_Some_conv)

lemma bootE:
  assumes "boot x e mc tb = Some p"
  obtains c tls keyset fingerprint m db ids guard where
    "p = wire e c tls keyset fingerprint db m ids guard" "read_settings (mc_env mc) = Some c"
    "validateProductionRuntime (set_strictProductionMode c) (set_strictExternalJWTKeyset c) (set_databaseURL c) (set_tlsEnabled c)
       (set_jwtSigningSecret c) (set_jwtKeysetSpec c) (set_jwtKeysetFile c) (set_jwtKeysetCommand c)"
    "BuildTLSConfig mc (tls_of (mc_env mc) c) = Some tls" "loadJWTKeyset x mc c = Some (keyset, fingerprint)"
    "db = (if set_databaseURL c = [] then None else Some tb)" "boot_identity c keyset (map_option tb_identity db) = Some ids"
    "boot_guard c (map_option tb_access db) = Some guard"
proof -
  from assms obtain c tls k m db ids guard where parts: "read_settings (mc_env mc) = Some c"
      "validateProductionRuntime (set_strictProductionMode c) (set_strictExternalJWTKeyset c) (set_databaseURL c) (set_tlsEnabled c)
         (set_jwtSigningSecret c) (set_jwtKeysetSpec c) (set_jwtKeysetFile c) (set_jwtKeysetCommand c)"
      "BuildTLSConfig mc (tls_of (mc_env mc) c) = Some tls" "loadJWTKeyset x mc c = Some k"
      "(if set_databaseURL c = [] then Some None else if mc_database mc (set_databaseURL c) then Some (Some tb) else None) = Some db"
      "boot_identity c (fst k) (map_option tb_identity db) = Some ids" "boot_guard c (map_option tb_access db) = Some guard"
      "Some (wire e c tls (fst k) (snd k) db m ids guard) = Some p"
    unfolding boot_def NewJWTSignerWithKeyset_def case_prod_beta by (elim bind_SomeE) (auto split: if_splits)
  show thesis
    by (rule that [where c = c and tls = tls and keyset = "fst k" and fingerprint = "snd k" and m = m and db = db and ids = ids and guard = guard])
       (use parts in \<open>auto split: if_splits\<close>)
qed

text \<open>The flags and handles of a process are those of its settings.\<close>

lemma boot_ledger_facts:
  "svc_db (boot_ledger c handle) = handle" "disableInMemIdemCache (boot_ledger c handle) = set_strictProductionMode c"
  "\<not> mu (boot_ledger c handle)" "svc_AuditStore (boot_ledger c handle) \<noteq> None" "withdrawByIdempotency (boot_ledger c handle) = Map.empty"
  by (simp_all add: boot_ledger_def SetIdempotencyTTL_def SetDisableInMemoryIdempotencyCache_def SetEFTFraudPolicy_def with_lock_def NewLedgerService_def)

lemma boot_identity_facts:
  assumes "boot_identity c keyset handle = Some s"
  shows "svc_db s = None \<longleftrightarrow> handle = None" "tokenSigner s = keyset"
proof -
  from assms obtain s0 s1 where "NewIdentityService (set_jwtSigningSecret c) (set_jwtAccessTTL c) (set_jwtRefreshTTL c) handle = Returns s0"
      "s1 = SetLoginRateLimit (set_loginRateLimitMaxAttempts c) (set_loginRateLimitWindow c)
         (SetLockoutPolicy (set_identityLockoutMaxFailures c) (set_identityLockoutTTL c) (SetJWTSigner (Some keyset) s0))"
    and s: "s = SetMetricsObservers True s1 \<or> (\<exists>b s2. HasActiveCredentials s1 = (b, s2) \<and> s = SetMetricsObservers True s2)"
    unfolding boot_identity_def Let_def
    by (elim bind_SomeE) (auto split: if_splits prod.splits option.splits bool.splits elim: returned.elims)
  then have "svc_db s1 = handle" "tokenSigner s1 = keyset"
    by (auto simp: NewIdentityService_def Let_def SetLoginRateLimit_def SetLockoutPolicy_def SetJWTSigner_def split: outcome.splits)
  moreover have "svc_db s2 = None \<longleftrightarrow> svc_db s1 = None" "tokenSigner s2 = tokenSigner s1" if "HasActiveCredentials s1 = (b, s2)" for b s2
    using that by (auto simp: HasActiveCredentials_def svc_query_def split: if_splits option.splits prod.splits)
  ultimately show "svc_db s = None \<longleftrightarrow> handle = None" "tokenSigner s = keyset" using s by (auto simp: SetMetricsObservers_def)
qed

lemma boot_guard_facts:
  assumes "boot_guard c handle = Some g"
  shows "svc_db g = handle" "failClosedLogPersist g = set_strictProductionMode c" "guard_disableInMemoryCache g = set_strictProductionMode c"
proof -
  have "svc_db g = handle \<and> failClosedLogPersist g = set_strictProductionMode c \<and> guard_disableInMemoryCache g = set_strictProductionMode c"
    using assms
    by (cases handle)
       (auto simp: boot_guard_def SetLogStateObserver_def SetDecisionObserver_def SetInMemoryActivityLogCap_def log_state_observed_def
         SetFailClosedOnLogPersistenceFailure_def SetDisableInMemoryActivityCache_def guard_SetDB_def NewRemoteAccessGuard_def)
  then show "svc_db g = handle" "failClosedLogPersist g = set_strictProductionMode c" "guard_disableInMemoryCache g = set_strictProductionMode c"
    by simp_all
qed

lemmas boot_setters = registry_SetDisableInMemoryCache_def NewRegistryService_def events_SetDisableInMemoryCache_def NewEventsService_def
  reporting_SetDisableInMemoryCache_def NewReportingService_def boot_config_def SetDownloadSignatureKeys_def config_SetDisableInMemoryCache_def
  NewConfigService_def promo_SetDisableInMemoryCache_def NewPromotionsService_def overlay_SetDisableInMemoryCache_def
  NewUISystemOverlayService_def sessions_SetDisableInMemoryCache_def NewSessionsService_def
  wagering_SetDisableInMemoryIdempotencyCache_def NewWageringService_def

text \<open>Every service of a process has the database or none has, and every one takes the production mode over.\<close>

definition databases :: "process_state \<Rightarrow> bool list" where
  "databases p =
     [svc_db (pr_identity p) \<noteq> None, svc_db (pr_ledger p) \<noteq> None, svc_db (pr_wagering p) \<noteq> None, svc_db (pr_registry p) \<noteq> None,
      svc_db (pr_events p) \<noteq> None, svc_db (pr_reporting p) \<noteq> None, svc_db (pr_config p) \<noteq> None, svc_db (pr_promotions p) \<noteq> None,
      svc_db (pr_overlay p) \<noteq> None, svc_db (pr_sessions p) \<noteq> None, svc_db (pr_guard p) \<noteq> None, aud_db (pr_audit p) \<noteq> None]"

definition caches_disabled :: "process_state \<Rightarrow> bool list" where
  "caches_disabled p =
     [disableInMemIdemCache (pr_ledger p), disableInMemCache (pr_wagering p), registry_disableInMemoryCache (pr_registry p),
      events_disableInMemoryCache (pr_events p), reporting_disableInMemoryCache (pr_reporting p), config_disableInMemoryCache (pr_config p),
      promo_disableInMemoryCache (pr_promotions p), overlay_disableInMemoryCache (pr_overlay p), sess_disableInMemoryCache (pr_sessions p),
      guard_disableInMemoryCache (pr_guard p)]"

lemma wire_facts:
  assumes "p = wire e c tls keyset fingerprint db m ids guard"
  shows "pr_settings p = c" "pr_tls p = tls" "pr_guard p = guard" "pr_verifier p = keyset" "pr_fingerprint p = fingerprint"
    "svc_db (pr_identity p) = None \<longleftrightarrow> svc_db ids = None" "tokenSigner (pr_identity p) = tokenSigner ids"
    "svc_db (pr_ledger p) = None \<longleftrightarrow> db = None" "disableInMemIdemCache (pr_ledger p) = set_strictProductionMode c"
    "pr_ledger p = snd (RefreshLedgerIdempotencyCounts e (boot_ledger c (map_option tb_ledger db)) m)"
proof -
  let ?r = "RefreshLedgerIdempotencyCounts e (boot_ledger c (map_option tb_ledger db)) m"
  show p: "pr_settings p = c" "pr_tls p = tls" "pr_guard p = guard" "pr_verifier p = keyset" "pr_fingerprint p = fingerprint"
    "pr_ledger p = snd ?r"
    by (simp_all add: assms wire_def Let_def NewJWTVerifierWithKeyset_def)
  have "RefreshIdentitySessionCounts e ids (fst ?r) = (fst (RefreshIdentitySessionCounts e ids (fst ?r)), pr_identity p)"
    by (simp add: assms wire_def Let_def)
  from RefreshIdentity_facts [OF this]
  show "svc_db (pr_identity p) = None \<longleftrightarrow> svc_db ids = None" "tokenSigner (pr_identity p) = tokenSigner ids" by simp_all
  have "?r = (fst ?r, pr_ledger p)" by (simp add: p)
  note lg = RefreshLedger_facts(1,2) [OF this]
  from lg(1) show "svc_db (pr_ledger p) = None \<longleftrightarrow> db = None" by (simp add: boot_ledger_facts)
  have "disableInMemIdemCache (pr_ledger p) = disableInMemIdemCache ((pr_ledger p)\<lparr>svc_db := svc_db (boot_ledger c (map_option tb_ledger db))\<rparr>)"
    by simp
  then show "disableInMemIdemCache (pr_ledger p) = set_strictProductionMode c" unfolding lg(2) by (simp add: boot_ledger_facts)
qed

lemma wire_handles:
  assumes "p = wire e c tls keyset fingerprint db m ids guard" "svc_db ids = None \<longleftrightarrow> db = None" "svc_db guard = map_option tb_access db"
    "guard_disableInMemoryCache guard = set_strictProductionMode c"
  shows "databases p = replicate 12 (db \<noteq> None)" "caches_disabled p = replicate 10 (set_strictProductionMode c)"
proof -
  note facts = wire_facts [OF assms(1)]
  have "aud_db (pr_audit p) = map_option tb_access db"
    by (simp add: assms(1) wire_def Let_def NewAuditService_def audit_SetDB_def)
  moreover have "svc_db (pr_wagering p) = map_option tb_wagering db" "svc_db (pr_registry p) = map_option tb_floor db"
    "svc_db (pr_events p) = map_option tb_floor db" "svc_db (pr_reporting p) = map_option tb_reporting db"
    "svc_db (pr_config p) = map_option tb_config db" "svc_db (pr_promotions p) = map_option tb_extensions db"
    "svc_db (pr_overlay p) = map_option tb_extensions db" "svc_db (pr_sessions p) = map_option tb_sessions db"
    by (simp_all add: assms(1) wire_def Let_def boot_setters)
  ultimately show "databases p = replicate 12 (db \<noteq> None)"
    using facts(3,6,8) assms(2,3) by (simp add: databases_def numeral_eq_Suc)
  have "disableInMemCache (pr_wagering p) = set_strictProductionMode c" "registry_disableInMemoryCache (pr_registry p) = set_strictProductionMode c"
    "events_disableInMemoryCache (pr_events p) = set_strictProductionMode c" "reporting_disableInMemoryCache (pr_reporting p) = set_strictProductionMode c"
    "config_disableInMemoryCache (pr_config p) = set_strictProductionMode c" "promo_disableInMemoryCache (pr_promotions p) = set_strictProductionMode c"
    "overlay_disableInMemoryCache (pr_overlay p) = set_strictProductionMode c" "sess_disableInMemoryCache (pr_sessions p) = set_strictProductionMode c"
    by (simp_all add: assms(1) wire_def Let_def boot_setters)
  then show "caches_disabled p = replicate 10 (set_strictProductionMode c)"
    using facts(3,9) assms(4) by (simp add: caches_disabled_def numeral_eq_Suc)
qed

text \<open>What the validation of the settings leaves of a process in production mode.\<close>

lemma booted:
  assumes "boot x e mc tb = Some p"
  shows "databases p = replicate 12 (set_databaseURL (pr_settings p) \<noteq> [])"
    "caches_disabled p = replicate 10 (set_strictProductionMode (pr_settings p))"
    "failClosedLogPersist (pr_guard p) = set_strictProductionMode (pr_settings p)" "tokenSigner (pr_identity p) = pr_verifier p"
    "loadJWTKeyset x mc (pr_settings p) = Some (pr_verifier p, pr_fingerprint p)"
    "BuildTLSConfig mc (tls_of (mc_env mc) (pr_settings p)) = Some (pr_tls p)" "read_settings (mc_env mc) = Some (pr_settings p)"
    "validateProductionRuntime (set_strictProductionMode (pr_settings p)) (set_strictExternalJWTKeyset (pr_settings p))
       (set_databaseURL (pr_settings p)) (set_tlsEnabled (pr_settings p)) (set_jwtSigningSecret (pr_settings p))
       (set_jwtKeysetSpec (pr_settings p)) (set_jwtKeysetFile (pr_settings p)) (set_jwtKeysetCommand (pr_settings p))"
    "\<exists>m. pr_ledger p = snd (RefreshLedgerIdempotencyCounts e
       (boot_ledger (pr_settings p) (if set_databaseURL (pr_settings p) = [] then None else Some (tb_ledger tb))) m)"
proof -
  from assms obtain c tls keyset fingerprint m db ids guard where p: "p = wire e c tls keyset fingerprint db m ids guard"
      "read_settings (mc_env mc) = Some c"
      "validateProductionRuntime (set_strictProductionMode c) (set_strictExternalJWTKeyset c) (set_databaseURL c) (set_tlsEnabled c)
         (set_jwtSigningSecret c) (set_jwtKeysetSpec c) (set_jwtKeysetFile c) (set_jwtKeysetCommand c)"
      "BuildTLSConfig mc (tls_of (mc_env mc) c) = Some tls" "loadJWTKeyset x mc c = Some (keyset, fingerprint)"
      "db = (if set_databaseURL c = [] then None else Some tb)" "boot_identity c keyset (map_option tb_identity db) = Some ids"
      "boot_guard c (map_option tb_access db) = Some guard"
    by (rule bootE)
  note facts = wire_facts [OF p(1)] and ids = boot_identity_facts [OF p(7)] and guard = boot_guard_facts [OF p(8)]
  note handles = wire_handles [OF p(1) _ guard(1,3)]
  show "databases p = replicate 12 (set_databaseURL (pr_settings p) \<noteq> [])"
    "caches_disabled p = replicate 10 (set_strictProductionMode (pr_settings p))"
    using handles ids(1) p(6) facts(1) by auto
  show "failClosedLogPersist (pr_guard p) = set_strictProductionMode (pr_settings p)" "tokenSigner (pr_identity p) = pr_verifier p"
    by (simp_all add: facts guard ids)
  show "loadJWTKeyset x mc (pr_settings p) = Some (pr_verifier p, pr_fingerprint p)"
    "BuildTLSConfig mc (tls_of (mc_env mc) (pr_settings p)) = Some (pr_tls p)" "read_settings (mc_env mc) = Some (pr_settings p)"
    using p(2,4,5) by (simp_all add: facts)
  show "validateProductionRuntime (set_strictProductionMode (pr_settings p)) (set_strictExternalJWTKeyset (pr_settings p))
       (set_databaseURL (pr_settings p)) (set_tlsEnabled (pr_settings p)) (set_jwtSigningSecret (pr_settings p))
       (set_jwtKeysetSpec (pr_settings p)) (set_jwtKeysetFile (pr_settings p)) (set_jwtKeysetCommand (pr_settings p))"
    using p(3) by (simp add: facts)
  have "map_option tb_ledger db = (if set_databaseURL c = [] then None else Some (tb_ledger tb))" by (simp add: p(6))
  with facts(1,10) show "\<exists>m. pr_ledger p = snd (RefreshLedgerIdempotencyCounts e
       (boot_ledger (pr_settings p) (if set_databaseURL (pr_settings p) = [] then None else Some (tb_ledger tb))) m)" by metis
qed

lemma strict_mode_parsed:
  "read_settings ev = Some c \<Longrightarrow>
    mustParseBoolEnv ev ''RGS_STRICT_PRODUCTION_MODE'' (set_version c \<noteq> ''dev'') = Some (set_strictProductionMode c)"
  unfolding read_settings_def Let_def bind_eq_Some_conv
  apply (elim exE conjE)
  apply (drule option.inject [THEN iffD1])
  apply hypsubst
  apply (simp only: settings.select_convs)
  done

lemma strict_by_default:
  assumes "read_settings ev = Some c" "ev ''RGS_STRICT_PRODUCTION_MODE'' = []"
  shows "set_strictProductionMode c \<longleftrightarrow> set_version c \<noteq> ''dev''"
  using strict_mode_parsed [OF assms(1)] assms(2) by (simp add: mustParseBoolEnv_def env_or_def)

lemma BuildTLSConfig_enabled:
  assumes "BuildTLSConfig mc c = Some r" "tls_Enabled c"
  shows "\<exists>t. r = Some t \<and> MinVersionTLS12 t = tls_MinVersionTLS12 c"
proof -
  have keypair: "\<not> (tls_CertFile c = [] \<or> tls_KeyFile c = [] \<or> \<not> mc_keypair mc (tls_CertFile c) (tls_KeyFile c))"
    using assms unfolding BuildTLSConfig_def by (metis option.distinct(1))
  show ?thesis
  proof (cases "tls_RequireClientCert c")
    case False
    with assms keypair show ?thesis by (simp add: BuildTLSConfig_def) (metis tls_config.select_convs(1))
  next
    case True
    with assms keypair obtain ca where "mc_file mc (tls_ClientCAFile c) = Some ca" "mc_certs mc ca" "tls_ClientCAFile c \<noteq> []"
      by (simp add: BuildTLSConfig_def split: if_splits option.splits)
    with True assms keypair show ?thesis by (simp add: BuildTLSConfig_def) (metis tls_config.select_convs(1))
  qed
qed

text \<open>
  C34: A server process that has started in the strict production mode, which is the default of every version but
  \<^verbatim>\<open>dev\<close>, has the database in all its services and keeps nothing in memory instead of it, its remote access guard fails closed, it serves with
  TLS of at least version 1.2, and its tokens are not signed with the built-in secret: a keyset or another secret was
  configured, and with a strict keyset a file or a command it comes from.
\<close>

theorem production_process_guarded:
  assumes "boot x e mc tb = Some p"
    and "set_strictProductionMode (pr_settings p) \<or>
      mc_env mc ''RGS_STRICT_PRODUCTION_MODE'' = [] \<and> set_version (pr_settings p) \<noteq> ''dev''"
  shows "databases p = replicate 12 True \<and> caches_disabled p = replicate 10 True \<and> failClosedLogPersist (pr_guard p) \<and>
    (\<exists>t. pr_tls p = Some t \<and> MinVersionTLS12 t) \<and>
    (set_jwtSigningSecret (pr_settings p) \<noteq> ''dev-insecure-change-me'' \<or> trim_space (set_jwtKeysetSpec (pr_settings p)) \<noteq> [] \<or>
     trim_space (set_jwtKeysetFile (pr_settings p)) \<noteq> [] \<or> trim_space (set_jwtKeysetCommand (pr_settings p)) \<noteq> []) \<and>
    (set_strictExternalJWTKeyset (pr_settings p) \<longrightarrow>
     LoadHMACKeysetFile mc (set_jwtKeysetFile (pr_settings p)) = Some (pr_verifier p) \<or>
     LoadHMACKeysetCommand mc (set_jwtKeysetCommand (pr_settings p)) = Some (pr_verifier p))"
proof -
  let ?c = "pr_settings p"
  note p = booted [OF assms(1)]
  have strict: "set_strictProductionMode ?c" using assms(2) strict_by_default [OF p(7)] by blast
  note valid = p(8) [unfolded validateProductionRuntime_def, simplified strict simp_thms]
  then have "set_databaseURL ?c \<noteq> []" by auto
  then have "databases p = replicate 12 True" "caches_disabled p = replicate 10 True" "failClosedLogPersist (pr_guard p)"
    using p(1-3) strict by simp_all
  moreover have "\<exists>t. pr_tls p = Some t \<and> MinVersionTLS12 t"
    using BuildTLSConfig_enabled [OF p(6)] valid by (auto simp: tls_of_def)
  moreover have "LoadHMACKeysetFile mc (set_jwtKeysetFile ?c) = Some (pr_verifier p) \<or>
      LoadHMACKeysetCommand mc (set_jwtKeysetCommand ?c) = Some (pr_verifier p)" if "set_strictExternalJWTKeyset ?c"
    using p(5) valid that by (auto simp: loadJWTKeyset_def split: if_splits)
  ultimately show ?thesis using valid by blast
qed

section \<open>The keys of the access tokens\<close>

lemma space_rune_append: "space_rune s \<noteq> 0 \<Longrightarrow> space_rune (s @ t) \<noteq> 0"
  by (auto simp: space_rune_def split: list.splits if_splits)

lemma trim_left_result: "space_rune (map of_char (trim_left s)) = 0"
proof (induction s rule: trim_left.induct)
  case (1 s)
  then show ?case by (subst trim_left.simps) (simp add: Let_def)
qed

lemma trim_right_result: "space_rune_end (trim_right s) = 0 \<and> (\<exists>t. s = trim_right s @ t)"
proof (induction s rule: trim_right.induct)
  case (1 s)
  show ?case
  proof (cases "space_rune_end s = 0")
    case True
    then show ?thesis by (simp add: trim_right.simps)
  next
    case False
    let ?s = "take (length s - space_rune_end s) s"
    have "trim_right s = trim_right ?s" using False by (subst trim_right.simps) (simp add: Let_def)
    moreover from 1 [OF refl False] obtain t where "space_rune_end (trim_right ?s) = 0" "?s = trim_right ?s @ t" by blast
    then have "space_rune_end (trim_right ?s) = 0" "s = trim_right ?s @ t @ drop (length s - space_rune_end s) s"
      by (simp_all add: append_assoc [symmetric] del: append_assoc)
    ultimately show ?thesis by metis
  qed
qed

lemma trim_space_idem: "trim_space (trim_space s) = trim_space s"
proof -
  let ?u = "trim_right (trim_left s)"
  from trim_right_result [of "trim_left s"] obtain t where u: "space_rune_end ?u = 0" "trim_left s = ?u @ t" by blast
  have "space_rune (map of_char ?u @ map of_char t) = 0" using trim_left_result [of s] u(2) by (metis map_append)
  then have "space_rune (map of_char ?u) = 0" using space_rune_append by blast
  then have "trim_left ?u = ?u" by (subst trim_left.simps) (simp add: Let_def)
  moreover have "trim_right ?u = ?u" using u(1) by (subst trim_right.simps) (simp add: Let_def)
  ultimately show ?thesis by (simp add: trim_space_def)
qed

text \<open>A keyset that is loaded names its active key, and has it.\<close>

lemma loaded_keyset:
  assumes "loadJWTKeyset x mc c = Some (keyset, fingerprint)"
  shows "trim_space (ActiveKID keyset) \<noteq> []" "Keys keyset (ActiveKID keyset) \<noteq> None"
proof -
  have "trim_space ''default'' \<noteq> []" by code_simp
  then have json: "trim_space (ActiveKID k) \<noteq> [] \<and> Keys k (ActiveKID k) \<noteq> None" if "LoadHMACKeysetJSON a es = Some k" for a es k
    using that by (auto simp: LoadHMACKeysetJSON_def Let_def trim_space_idem split: if_splits)
  have parsed: "trim_space (ActiveKID k) \<noteq> [] \<and> Keys k (ActiveKID k) \<noteq> None" if "ParseHMACKeyset f spec a = Some k" for f spec a k
    using that \<open>trim_space ''default'' \<noteq> []\<close> by (auto simp: ParseHMACKeyset_def Let_def split: if_splits option.splits)
  from assms have "trim_space (ActiveKID keyset) \<noteq> [] \<and> Keys keyset (ActiveKID keyset) \<noteq> None"
    by (auto simp: loadJWTKeyset_def LoadHMACKeysetFile_def LoadHMACKeysetCommand_def bind_eq_Some_conv split: if_splits prod.splits
        dest!: json parsed)
  then show "trim_space (ActiveKID keyset) \<noteq> []" "Keys keyset (ActiveKID keyset) \<noteq> None" by simp_all
qed

text \<open>Signer and verifier of a process hold the same keyset, whatever the refresh loads.\<close>

definition keys_agree :: "process_state \<Rightarrow> bool" where
  "keys_agree p \<longleftrightarrow> tokenSigner (pr_identity p) = pr_verifier p \<and> trim_space (ActiveKID (pr_verifier p)) \<noteq> []"

lemma boot_keys_agree: "boot x e mc tb = Some p \<Longrightarrow> keys_agree p"
  using booted(4,5) [of x e mc tb p] loaded_keyset(1) [of x mc "pr_settings p"] by (auto simp: keys_agree_def)

lemma refresh_tick_keys: "keys_agree p \<Longrightarrow> keys_agree (refresh_tick x mc p)"
proof (cases "loadJWTKeyset x mc (pr_settings p)")
  case (Some r)
  obtain keyset fingerprint where "r = (keyset, fingerprint)" by (cases r)
  with Some loaded_keyset [of x mc "pr_settings p"] show "keys_agree p \<Longrightarrow> keys_agree (refresh_tick x mc p)"
    by (auto simp: refresh_tick_def keys_agree_def SetKeyset_def SetJWTSigner_def)
qed (simp add: refresh_tick_def)

definition refreshed :: "ext \<Rightarrow> machine list \<Rightarrow> process_state \<Rightarrow> process_state" where
  "refreshed x mcs p = foldl (\<lambda>q mc. refresh_tick x mc q) p mcs"

lemma refreshed_keys: "keys_agree p \<Longrightarrow> keys_agree (refreshed x mcs p)"
  by (induction mcs arbitrary: p) (auto simp: refreshed_def refresh_tick_keys)

text \<open>
  C32: After a start and any number of refreshes of the keyset, whatever the files and commands give at each of them, a token that
  the identity service signs is accepted before it expires by the interceptor of every method and by the middleware of
  every path that need one, and yields the actor it was signed for; also after further refreshes that keep the key
  it was signed with. The JWT package accepts the tokens it signed.
\<close>

theorem refreshed_tokens_accepted:
  assumes "boot x e mc tb = Some p" and q: "q = refreshed x mcs p" and q': "q' = refreshed x mcs' q"
    and "jwt_accepts_own lib" "SignActor lib (tokenSigner (pr_identity q)) a now ttl = Some (token, expiresAt)"
    and "AuthID a \<noteq> []" "AuthType a \<noteq> []" "wall div second < expiresAt div second"
    and "Keys (pr_verifier q') (ActiveKID (pr_verifier q)) = Keys (pr_verifier q) (ActiveKID (pr_verifier q))"
    and "fullMethod \<notin> set open_methods" "path \<notin> set open_paths"
  shows "UnaryJWTInterceptor lib (pr_verifier q') open_methods wall fullMethod (Some [''Bearer '' @ token]) = Inr (Some a) \<and>
    HTTPJWTMiddlewareWithSkips lib (pr_verifier q') open_paths wall path (''Bearer '' @ token) = Inr (Some a)"
proof -
  have "keys_agree q" unfolding q by (rule refreshed_keys [OF boot_keys_agree [OF assms(1)]])
  then have agree: "tokenSigner (pr_identity q) = pr_verifier q" "trim_space (ActiveKID (pr_verifier q)) \<noteq> []" by (simp_all add: keys_agree_def)
  have "ParseActor lib (pr_verifier q') wall token = Some a"
    using assms(5) agree(1) by (intro SignActor_parses [OF assms(4) _ assms(9) agree(2) assms(6,7,8)]) simp
  then show ?thesis
    using assms(10,11) unfolding UnaryJWTInterceptor_def HTTPJWTMiddlewareWithSkips_def by (simp del: append.simps)
qed

text \<open>
  The fingerprint does not tell every two keysets apart: the secret of one key may spell the entry of another, and a refresh that
  adds that key changes nothing.
\<close>

lemma fingerprint_collision:
  "fingerprint_text \<lparr>ActiveKID = ''a'', Keys = [''a'' \<mapsto> ''x|b:y'']\<rparr> = fingerprint_text \<lparr>ActiveKID = ''a'', Keys = [''a'' \<mapsto> ''x'', ''b'' \<mapsto> ''y'']\<rparr>"
proof -
  have "sorted_list_of_set {''a'', ''b''} = [''a'', ''b'']" by (simp add: sorted_list_of_set_insert_remove)
  then show ?thesis by (simp add: fingerprint_text_def insert_commute)
qed

lemma refresh_missed:
  assumes "loadJWTKeyset x mc (pr_settings p) = Some (keyset, fingerprint)" "fingerprint = pr_fingerprint p"
  shows "refresh_tick x mc p = p"
  using assms by (simp add: refresh_tick_def)

section \<open>The ledger of a process in production mode\<close>

text \<open>
  C16: The production mode requires a database, and with a database a withdrawal beyond the balance is not denied: a process that has
  started in strict production mode on empty ledger tables either blocks at the first admitted withdrawal, with the mutex of the
  ledger held, and so does every later authorised request for a balance, or answers it with the error that persistence is
  unavailable. Which of the two depends on the driver alone: it blocks when the driver takes a Go integer for the text of an
  interval, and answers with the error when it does not. The integration test \<^verbatim>\<open>TestPostgresLedgerEFTLockoutPersistsAcrossRestart\<close>, which is
  skipped unless a test database is configured, expects the denial.
\<close>

theorem production_withdrawal_not_denied:
  fixes r :: amount_request
  assumes "boot x e mc tb = Some p" "set_strictProductionMode (pr_settings p)" "empty_ledger (tb_ledger tb)"
    and "Req_AccountId r \<noteq> []" "ledger_authorize ctx (Req_Meta r) (Req_AccountId r) = None" "\<not> invalidAmount (Req_Amount r)"
      "idempotency (Req_Meta r) \<noteq> []"
  shows "if db_int_text (tb_ledger tb)
    then fst (Withdraw x e' ctx (Some r) (pr_ledger p)) = Blocks \<and> mu (snd (Withdraw x e' ctx (Some r) (pr_ledger p))) \<and>
      (\<forall>e'' ctx' q. ledger_authorize ctx' (Req_Meta q) (Req_AccountId q) = None \<longrightarrow> Req_AccountId q \<noteq> [] \<longrightarrow>
         fst (GetBalance x e'' ctx' (Some q) (snd (Withdraw x e' ctx (Some r) (pr_ledger p)))) = Blocks)
    else fst (Withdraw x e' ctx (Some r) (pr_ledger p)) =
      Returns (tx_refusal e' (Req_Meta r) RESULT_CODE_ERROR ''persistence unavailable'')"
proof -
  let ?c = "pr_settings p" and ?d = "tb_ledger tb"
  note p = booted [OF assms(1)]
  have "set_databaseURL ?c \<noteq> []" using p(8) assms(2) by (auto simp: validateProductionRuntime_def)
  with p(9) obtain m where lg: "pr_ledger p = snd (RefreshLedgerIdempotencyCounts e (boot_ledger ?c (Some ?d)) m)" by auto
  have "pr_ledger p = boot_ledger ?c (Some ?d)"
    using RefreshLedger_facts(3) [of e "boot_ledger ?c (Some ?d)" m _ "pr_ledger p" ?d] assms(3) lg
    by (simp add: boot_ledger_facts empty_ledger_def prod_eq_iff)
  then have lp: "svc_db (pr_ledger p) = Some ?d" "\<not> mu (pr_ledger p)" "withdrawByIdempotency (pr_ledger p) = Map.empty"
    by (simp_all add: boot_ledger_facts)
  obtain u where u: "db_int_text ?d \<Longrightarrow> Withdraw x e' ctx (Some r) (pr_ledger p) = (Blocks, u) \<and> mu u"
    "\<not> db_int_text ?d \<Longrightarrow> Withdraw x e' ctx (Some r) (pr_ledger p) =
       (Returns (tx_refusal e' (Req_Meta r) RESULT_CODE_ERROR ''persistence unavailable''), u)"
    using withdraw_empty_tables [OF lp(1) assms(3) lp(2) assms(4-7), of x e'] lp(3) by (metis (no_types))
  show ?thesis
  proof (cases "db_int_text ?d")
    case True
    with u(1) [OF True] show ?thesis by (simp add: blocked_balance)
  qed (simp add: u(2))
qed

section \<open>A process that starts\<close>

definition demo_tables :: tables where
  "demo_tables =
     \<lparr>tb_identity = \<lparr>db_faults = [], db_int_text = True, db_audit_events = [],
        identity_credentials = [\<lparr>cr_actor_id = ''p1'', cr_actor_type = ''ACTOR_TYPE_PLAYER'', cr_password_hash = ''h'', cr_status = ''active''\<rparr>],
        identity_lockouts = [], identity_sessions = [], identity_login_rate_limits = []\<rparr>,
      tb_ledger = demo_db,
      tb_wagering = \<lparr>db_faults = [], db_int_text = True, db_audit_events = [], wagers_table = [], wagering_idempotency_keys = []\<rparr>,
      tb_floor = \<lparr>db_faults = [], db_int_text = True, db_audit_events = [], equipment_registry = [], significant_events = [], meter_records = [], ingestion_buffers = []\<rparr>,
      tb_reporting = \<lparr>db_faults = [], db_int_text = True, db_audit_events = [], rep_significant_events = [], rep_ledger_accounts = [],
        rep_ledger_transactions = [], report_runs = []\<rparr>,
      tb_config = \<lparr>db_faults = [], db_int_text = True, db_audit_events = [], config_changes = [], config_current_values = [], download_library_changes = []\<rparr>,
      tb_extensions = \<lparr>db_faults = [], db_int_text = True, db_audit_events = [], bonus_transactions = [], promotional_awards = [], system_window_events = []\<rparr>,
      tb_sessions = \<lparr>db_faults = [], db_int_text = True, db_audit_events = [], player_sessions = []\<rparr>,
      tb_access = \<lparr>db_faults = [], db_int_text = True, db_audit_events = [], remote_access_rows = []\<rparr>\<rparr>"

definition demo_machine :: machine where
  "demo_machine =
     \<lparr>mc_env = (\<lambda>v. if v = ''RGS_VERSION'' then ''1.0'' else if v = ''RGS_DATABASE_URL'' then ''db''
                    else if v = ''RGS_TLS_ENABLED'' then ''true'' else if v = ''RGS_TLS_CERT_FILE'' then ''cert''
                    else if v = ''RGS_TLS_KEY_FILE'' then ''key'' else if v = ''RGS_JWT_KEYSET_FILE'' then ''keys''
                    else if v = ''RGS_TRUSTED_CIDRS'' then '','' else []),
      mc_file = [''keys'' \<mapsto> ''{}''], mc_shell = Map.empty, mc_keypair = (\<lambda>_ _. True), mc_certs = (\<lambda>_. True), mc_database = (\<lambda>_. True),
      mc_listen = (\<lambda>_. True), keyset_json = (\<lambda>_. Some (''a'', [(''a'', ''s'')]))\<rparr>"

definition demo_keyset :: HMACKeyset where
  "demo_keyset = \<lparr>ActiveKID = ''a'', Keys = [''a'' \<mapsto> ''s'']\<rparr>"

lemma demo_durations:
  "ParseDuration ''1m'' = Some (60 * second)" "ParseDuration ''15m'' = Some (900 * second)" "ParseDuration ''24h'' = Some (86400 * second)"
  by (simp_all add: ParseDuration_def duration_sum.simps duration_term_def unit_of_def digits_val_def is_digit_def digit_val_def)

lemma demo_trims: "trim_space ''db'' = ''db''" "trim_space ''keys'' = ''keys''" "trim_space ''a'' = ''a''" "trim_space ''s'' = ''s''"
  "trim_space ''default'' = ''default''" "trim_space ''dev-insecure-change-me'' = ''dev-insecure-change-me''"
  by code_simp+

lemma demo_settings:
  obtains c where "read_settings (mc_env demo_machine) = Some c" "set_strictProductionMode c" "set_strictExternalJWTKeyset c" "set_version c = ''1.0''"
    "set_databaseURL c = ''db''" "set_tlsEnabled c" "\<not> set_tlsRequireClientCert c" "set_jwtKeysetFile c = ''keys''"
    "set_jwtSigningSecret c = ''dev-insecure-change-me''" "set_trustedCIDRs c = [[], []]" "0 < set_jwtKeysetRefreshInterval c"
proof -
  let ?ev = "mc_env demo_machine"
  have "?ev v = []" if "v \<notin> {''RGS_VERSION'', ''RGS_DATABASE_URL'', ''RGS_TLS_ENABLED'', ''RGS_TLS_CERT_FILE'', ''RGS_TLS_KEY_FILE'',
      ''RGS_JWT_KEYSET_FILE'', ''RGS_TRUSTED_CIDRS''}" for v
    using that by (simp add: demo_machine_def)
  then have unset: "env_or ?ev v d = d" if "v \<notin> {''RGS_VERSION'', ''RGS_DATABASE_URL'', ''RGS_TLS_ENABLED'', ''RGS_TLS_CERT_FILE'',
      ''RGS_TLS_KEY_FILE'', ''RGS_JWT_KEYSET_FILE'', ''RGS_TRUSTED_CIDRS''}" for v d
    using that by (simp add: env_or_def)
  have given: "env_or ?ev ''RGS_VERSION'' d = ''1.0''" "env_or ?ev ''RGS_DATABASE_URL'' d = ''db''" "env_or ?ev ''RGS_TLS_ENABLED'' d = ''true''"
    "env_or ?ev ''RGS_JWT_KEYSET_FILE'' d = ''keys''" "env_or ?ev ''RGS_TRUSTED_CIDRS'' d = '',''" for d
    by (simp_all add: env_or_def demo_machine_def)
  show thesis
    by (rule that, unfold read_settings_def mustParseDurationEnv_def mustParseIntEnv_def mustParseBoolEnv_def,
        simp add: unset given demo_durations) simp_all
qed

lemma demo_boot_on:
  fixes d :: ledger_db
  defines "tb \<equiv> demo_tables\<lparr>tb_ledger := d\<rparr>"
  obtains p where "boot demo_ext demo_env demo_machine tb = Some p" "set_strictProductionMode (pr_settings p)"
    "pr_verifier p = demo_keyset" "refresh_enabled (pr_settings p)"
proof -
  obtain c where c: "read_settings (mc_env demo_machine) = Some c" "set_strictProductionMode c" "set_strictExternalJWTKeyset c" "set_version c = ''1.0''"
    "set_databaseURL c = ''db''" "set_tlsEnabled c" "\<not> set_tlsRequireClientCert c" "set_jwtKeysetFile c = ''keys''"
    "set_jwtSigningSecret c = ''dev-insecure-change-me''" "set_trustedCIDRs c = [[], []]" "0 < set_jwtKeysetRefreshInterval c"
    by (rule demo_settings)
  have tls: "BuildTLSConfig demo_machine (tls_of (mc_env demo_machine) c) =
      Some (Some \<lparr>MinVersionTLS12 = True, RequireAndVerifyClientCert = False, ClientCAs = None\<rparr>)"
    using c(6,7) by (simp add: BuildTLSConfig_def tls_of_def env_or_def demo_machine_def)
  have keys: "loadJWTKeyset demo_ext demo_machine c = Some (demo_keyset, keysetFingerprint demo_ext demo_keyset)"
    using c(8) by (simp add: loadJWTKeyset_def LoadHMACKeysetFile_def LoadHMACKeysetJSON_def Let_def demo_machine_def demo_keyset_def demo_trims)
  obtain m where m: "returned NewMetrics = Some m" by (simp add: NewMetrics_def metric_names_def)
  obtain s0 where s0: "NewIdentityService (set_jwtSigningSecret c) (set_jwtAccessTTL c) (set_jwtRefreshTTL c) (Some (tb_identity demo_tables)) = Returns s0"
      "svc_db s0 = Some (tb_identity demo_tables)"
    by (simp add: NewIdentityService_def NewJWTSigner_def ParseHMACKeyset_def Let_def c(9) demo_trims)
  have "HasActiveCredentials s = (Some True, s)" if "svc_db s = Some (tb_identity demo_tables)" for s
    using that by (cases s) (simp add: HasActiveCredentials_def svc_query_def sql_query_def sql_exec_def demo_tables_def)
  then have ids: "\<exists>s. boot_identity c demo_keyset (Some (tb_identity demo_tables)) = Some s"
    using s0 by (simp add: boot_identity_def SetLoginRateLimit_def SetLockoutPolicy_def SetJWTSigner_def)
  have guard: "\<exists>g. boot_guard c (Some (tb_access demo_tables)) = Some g"
    by (simp add: boot_guard_def NewRemoteAccessGuard_def c(10))
  from ids guard obtain s g where "boot_identity c demo_keyset (Some (tb_identity demo_tables)) = Some s"
      "boot_guard c (Some (tb_access demo_tables)) = Some g" by blast
  moreover define p where "p = wire demo_env c (Some \<lparr>MinVersionTLS12 = True, RequireAndVerifyClientCert = False, ClientCAs = None\<rparr>)
      demo_keyset (keysetFingerprint demo_ext demo_keyset) (Some tb) m s g"
  ultimately have "boot demo_ext demo_env demo_machine tb = Some p"
    unfolding boot_def c(1) Option.bind.simps tls keys m NewJWTSignerWithKeyset_def
    by (simp add: validateProductionRuntime_def c demo_trims tb_def) (simp add: demo_machine_def)
  then show thesis
    using c(2,8,11) wire_facts(1,4) [OF p_def] by (intro that) (auto simp: refresh_enabled_def demo_trims)
qed

lemma demo_boot:
  obtains p where "boot demo_ext demo_env demo_machine demo_tables = Some p" "set_strictProductionMode (pr_settings p)"
    "pr_verifier p = demo_keyset" "refresh_enabled (pr_settings p)"
proof -
  have "demo_tables\<lparr>tb_ledger := demo_db\<rparr> = demo_tables" by (simp add: demo_tables_def)
  with demo_boot_on [of demo_db] that show thesis by metis
qed

lemma production_process_guarded_witness:
  "\<exists>p. boot demo_ext demo_env demo_machine demo_tables = Some p \<and> databases p = replicate 12 True \<and> failClosedLogPersist (pr_guard p)"
proof -
  obtain p where p: "boot demo_ext demo_env demo_machine demo_tables = Some p" "set_strictProductionMode (pr_settings p)"
    by (rule demo_boot)
  with production_process_guarded [of demo_ext demo_env demo_machine demo_tables p] show ?thesis by blast
qed

text \<open>A package that knows one token.\<close>

definition demo_jwt :: jwt_lib where
  "demo_jwt =
     (let claims = \<lparr>Sub = ''p1'', ActorTypeClaim = ''ACTOR_TYPE_PLAYER'', Iat = 0, Exp = 900\<rparr>
      in \<lparr>jwt_sign = (\<lambda>kid cl secret. if kid = ''a'' \<and> cl = claims \<and> secret = ''s'' then Some ''token'' else None),
          jwt_parse = (\<lambda>leeway wall key token. if token = ''token'' \<and> key ''HS256'' ''a'' = Some ''s'' \<and> wall div second < 900
                         then Some (Some ''p1'', Some ''ACTOR_TYPE_PLAYER'') else None)\<rparr>)"

lemma refreshed_tokens_accepted_witness:
  "\<exists>p. boot demo_ext demo_env demo_machine demo_tables = Some p \<and>
     UnaryJWTInterceptor demo_jwt (pr_verifier (refreshed demo_ext [demo_machine] p)) open_methods 0 ''/rgs.v1.LedgerService/Deposit''
       (Some [''Bearer token'']) = Inr (Some \<lparr>AuthID = ''p1'', AuthType = ''ACTOR_TYPE_PLAYER''\<rparr>)"
proof -
  let ?a = "\<lparr>AuthID = ''p1'', AuthType = ''ACTOR_TYPE_PLAYER''\<rparr>"
  obtain p where p: "boot demo_ext demo_env demo_machine demo_tables = Some p" "pr_verifier p = demo_keyset" by (rule demo_boot)
  have same: "refreshed demo_ext [demo_machine] p = p" using booted(5) [OF p(1)] by (simp add: refreshed_def refresh_missed)
  have "SignActor demo_jwt (tokenSigner (pr_identity p)) ?a 0 (900 * second) = Some (''token'', 900 * second)"
    by (simp add: booted(4) [OF p(1)] p(2) demo_keyset_def SignActor_def demo_jwt_def unix_def)
  moreover have "jwt_accepts_own demo_jwt" by (simp add: jwt_accepts_own_def demo_jwt_def)
  ultimately have "UnaryJWTInterceptor demo_jwt (pr_verifier p) open_methods 0 ''/rgs.v1.LedgerService/Deposit'' (Some [''Bearer '' @ ''token'']) = Inr (Some ?a)"
    using refreshed_tokens_accepted [OF p(1) same [symmetric], of p "[]" demo_jwt ?a 0 "900 * second" "''token''" "900 * second" 0
        "''/rgs.v1.LedgerService/Deposit''" "''/v1/ledger/deposit''"]
    by (simp add: refreshed_def open_methods_def open_paths_def)
  with p(1) same show ?thesis by simp
qed

lemma production_withdrawal_not_denied_witness:
  "\<exists>p q. boot demo_ext demo_env demo_machine (demo_tables\<lparr>tb_ledger := demo_db\<rparr>) = Some p \<and>
     fst (Withdraw demo_ext demo_env None (Some (demo_amount 100)) (pr_ledger p)) = Blocks \<and>
     boot demo_ext demo_env demo_machine (demo_tables\<lparr>tb_ledger := demo_db\<lparr>db_int_text := False\<rparr>\<rparr>) = Some q \<and>
     fst (Withdraw demo_ext demo_env None (Some (demo_amount 100)) (pr_ledger q)) =
       Returns (tx_refusal demo_env (demo_meta ''k1'') RESULT_CODE_ERROR ''persistence unavailable'')"
proof -
  let ?d = "demo_db\<lparr>db_int_text := False\<rparr>"
  obtain p where p: "boot demo_ext demo_env demo_machine (demo_tables\<lparr>tb_ledger := demo_db\<rparr>) = Some p" "set_strictProductionMode (pr_settings p)"
    by (rule demo_boot_on [of demo_db])
  obtain q where q: "boot demo_ext demo_env demo_machine (demo_tables\<lparr>tb_ledger := ?d\<rparr>) = Some q" "set_strictProductionMode (pr_settings q)"
    by (rule demo_boot_on [of ?d])
  have req: "Req_AccountId (demo_amount 100) \<noteq> []" "\<not> invalidAmount (Req_Amount (demo_amount 100))" "idempotency (Req_Meta (demo_amount 100)) \<noteq> []"
    "ledger_authorize None (Req_Meta (demo_amount 100)) (Req_AccountId (demo_amount 100)) = None" "Req_Meta (demo_amount 100) = demo_meta ''k1''"
    using demo_admitted [of demo_start "Some (money 100 ''USD'')" 100] by (simp_all add: admitted_def demo_amount_def)
  have d: "empty_ledger (tb_ledger (demo_tables\<lparr>tb_ledger := demo_db\<rparr>))" "empty_ledger (tb_ledger (demo_tables\<lparr>tb_ledger := ?d\<rparr>))"
    "db_int_text demo_db"
    by (simp_all add: empty_ledger_def demo_db_def)
  show ?thesis
    using production_withdrawal_not_denied [OF p d(1) req(1,4,2,3), of demo_env]
      production_withdrawal_not_denied [OF q d(2) req(1,4,2,3), of demo_env] p(1) q(1) d(3) req(5) by simp
qed

end
