(* ===== verification/GatewayProps.thy ===== *)
theory GatewayProps
  imports Gateway DaemonProps RemoteAccessProps IdentityProps
begin

text \<open>
  What holds of every request that a running process serves, whatever it served before: the steps of a process keep the policy of
  the guard and the agreement of signer and verifier.
\<close>

section \<open>What a guard keeps\<close>

definition guard_setup :: "remote_access_guard \<Rightarrow> (ipnet list \<times> bool \<times> bool \<times> nat) \<times> bool" where
  "guard_setup g = (guard_policy g, svc_db g = None)"

lemma logActivity_setup: "logActivity x e r ip port ok why g = (b, g') \<Longrightarrow> guard_setup g' = guard_setup g"
  using logActivity_frame(1) [of x e r ip port ok why g b g']
  by (auto simp: guard_setup_def logActivity_def persistActivity_def svc_exec_def Let_def split: if_splits option.splits prod.splits)

lemma guard_append_setup:
  assumes "guard_appendAudit x e path ip res why g = (b, g')"
  shows "guard_setup g' = guard_setup g"
proof -
  obtain st n db where "guard_appendAudit x e path ip res why g =
      (fst (guard_appendAudit x e path ip res why g), g\<lparr>svc_AuditStore := st, svc_nextAuditID := n, svc_db := db\<rparr>)"
    "db = None \<longleftrightarrow> svc_db g = None"
    unfolding guard_appendAudit_def by (rule svc_append_frame)
  with assms guard_append_frame(1) [OF assms] show ?thesis by (auto simp: guard_setup_def)
qed

lemma checked_log_setup: "checked_log (b, g) = (v, g') \<Longrightarrow> guard_setup g' = guard_setup g"
  by (auto simp: checked_log_def guard_setup_def split: if_splits)

lemma decided_setup: "guard_setup (decided d g) = guard_setup g"
  by (simp add: guard_setup_def)

lemma remote_branch_setup:
  assumes "(resp, g') = (case checked_log (logActivity x e r ip port ok why g) of
        (Some err, g1) \<Rightarrow> (err, g1)
      | (None, g1) \<Rightarrow> (case checked_log (guard_appendAudit x e (URLPath r) ip res why (f g1)) of
             (Some err, g2) \<Rightarrow> (err, g2) | (None, g2) \<Rightarrow> (good, f' g2)))"
    and "\<And>g. guard_setup (f g) = guard_setup g" "\<And>g. guard_setup (f' g) = guard_setup g"
  shows "guard_setup g' = guard_setup g"
proof -
  obtain b gl where l: "logActivity x e r ip port ok why g = (b, gl)" by fastforce
  obtain v1 g1 where c1: "checked_log (b, gl) = (v1, g1)" by fastforce
  obtain c ga where a: "guard_appendAudit x e (URLPath r) ip res why (f g1) = (c, ga)" by fastforce
  obtain v2 g2 where c2: "checked_log (c, ga) = (v2, g2)" by fastforce
  have s: "guard_setup g1 = guard_setup g" "guard_setup g2 = guard_setup g1"
    using logActivity_setup [OF l] checked_log_setup [OF c1] guard_append_setup [OF a] checked_log_setup [OF c2] assms(2) by simp_all
  show ?thesis
  proof (cases v1)
    case None
    show ?thesis using assms(1) l c1 a c2 s assms(3) None by (cases v2) simp_all
  next
    case (Some err)
    then show ?thesis using assms(1) l c1 s by simp
  qed
qed

lemma Wrap_setup:
  assumes "Wrap x e r g = (resp, g')"
  shows "guard_setup g' = guard_setup g"
proof (cases "isAdminPath (URLPath r)")
  case True
  obtain ip port where src: "extractSourceIP r = (ip, port)" by fastforce
  show ?thesis
  proof (cases "isTrusted g ip")
    case tr: True
    have "(resp, g') = admit_remote x e r ip port g" using assms True tr src by (simp add: Wrap_def)
    then show ?thesis unfolding admit_remote_def
      by (rule remote_branch_setup [where f = "\<lambda>g. g" and f' = "decided ''allowed''"]) (simp_all add: decided_setup)
  next
    case tr: False
    have "(resp, g') = deny_remote x e r ip port g" using assms True tr src by (simp add: Wrap_def)
    then show ?thesis unfolding deny_remote_def
      by (rule remote_branch_setup [where f = "decided ''denied''" and f' = "\<lambda>g. g"]) (simp_all add: decided_setup)
  qed
qed (use assms in \<open>simp add: Wrap_def\<close>)

lemma setup_trusted: "guard_setup g' = guard_setup g \<Longrightarrow> isTrusted g' ip = isTrusted g ip"
  by (simp add: guard_setup_def guard_policy_def isTrusted_def split: option.split)

text \<open>A request that a fail-closed guard lets through, or answers.\<close>

lemma Wrap_fail_closed:
  assumes "Wrap x e r g = (resp, g')" "failClosedLogPersist g"
  shows "resp = NextServed \<Longrightarrow> isAdminPath (URLPath r) \<Longrightarrow> isTrusted g (fst (extractSourceIP r)) \<and> attempt_recorded e r True g g'"
    and "resp = HttpError code msg \<Longrightarrow> code \<in> {403, 503}"
proof -
  obtain ip port where src: "extractSourceIP r = (ip, port)" by fastforce
  have *: "resp = NextServed \<and> (isAdminPath (URLPath r) \<longrightarrow> isTrusted g ip \<and> attempt_recorded e r True g g') \<or>
      resp = logging_unavailable \<or> resp = HttpError 403 ''remote access denied''"
  proof (cases "isAdminPath (URLPath r)")
    case True
    with assms(1) src show ?thesis
      using admit_fail_closed [OF assms(2) src, of x e resp g'] deny_fail_closed [OF assms(2) src, of x e resp g']
      by (auto simp: Wrap_def split: if_splits)
  qed (use assms(1) in \<open>simp add: Wrap_def\<close>)
  then show "resp = NextServed \<Longrightarrow> isAdminPath (URLPath r) \<Longrightarrow> isTrusted g (fst (extractSourceIP r)) \<and> attempt_recorded e r True g g'"
    "resp = HttpError code msg \<Longrightarrow> code \<in> {403, 503}"
    using src by auto
qed

section \<open>What a process keeps\<close>

text \<open>What a request leaves alone: the settings, the set-up of the guard and the keys.\<close>

definition leaves_setup :: "process_state \<Rightarrow> process_state \<Rightarrow> bool" where
  "leaves_setup p q \<longleftrightarrow> pr_settings q = pr_settings p \<and> guard_setup (pr_guard q) = guard_setup (pr_guard p) \<and>
     tokenSigner (pr_identity q) = tokenSigner (pr_identity p) \<and> pr_verifier q = pr_verifier p"

definition careful :: "'r handler \<Rightarrow> bool" where
  "careful handler \<longleftrightarrow> (\<forall>actor p. leaves_setup p (snd (handler actor p)))"

lemma leaves_setup_refl: "leaves_setup p p"
  by (simp add: leaves_setup_def)

lemma leaves_setup_trans: "leaves_setup p q \<Longrightarrow> leaves_setup q r \<Longrightarrow> leaves_setup p r"
  by (simp add: leaves_setup_def)

lemma leaves_setup_metrics: "leaves_setup p (q\<lparr>pr_metrics := m\<rparr>) = leaves_setup p q"
  by (simp add: leaves_setup_def)

lemma with_guard_setup: "guard_setup g = guard_setup (pr_guard p) \<Longrightarrow> leaves_setup p (with_guard g p)"
  by (simp add: leaves_setup_def with_guard_def)

text \<open>Every method of every registered service does.\<close>

lemma serve_identity_signer: "tokenSigner (snd (serve_identity x lib e ctx c s)) = tokenSigner s"
  by (cases c) (simp_all add: identity_methods_signer)

lemma Activities_setup: "guard_setup (snd (Activities g)) = guard_setup g"
  by (simp add: Activities_def activitiesFromDB_def svc_query_def guard_setup_def guard_policy_def split_beta split: option.split)

lemma audit_guard_kept:
  "aud_guard (snd (ListAuditEvents x e ctx r s)) = aud_guard s" "aud_guard (snd (VerifyAuditChain x e ctx v s)) = aud_guard s"
  by (simp_all add: ListAuditEvents_def VerifyAuditChain_def Let_def split_beta split: option.split bool.split)

lemma serve_audit_guard:
  "map_option guard_setup (aud_guard (snd (serve_audit x e ctx c s))) = map_option guard_setup (aud_guard s)"
proof (cases c)
  case (RpcListRemoteAccessActivities r)
  then show ?thesis
    by (simp add: ListRemoteAccessActivities_def Let_def split_beta Activities_setup split: option.split)
qed (simp_all add: audit_guard_kept)

lemma serve_call_setup: "leaves_setup p (snd (serve_call x lib e ctx c p))"
proof (cases c)
  case (IdentityCall d)
  then show ?thesis by (simp add: leaves_setup_def with_identity_def serve_identity_signer)
next
  case (AuditCall d)
  obtain g where "aud_guard (snd (serve_audit x e ctx d (audit_now p))) = Some g" "guard_setup g = guard_setup (pr_guard p)"
    using serve_audit_guard [of x e ctx d "audit_now p"] by (auto simp: audit_now_def)
  with AuditCall show ?thesis by (simp add: leaves_setup_def)
qed (simp_all add: leaves_setup_def)

lemma careful_services: "careful (service_handler x lib e decoded encoded)"
  by (simp add: careful_def service_handler_def leaves_setup_refl serve_call_setup split: sum.split)

lemma serve_grpc_setup:
  assumes "careful handler"
  shows "leaves_setup p (snd (serve_grpc lib wall took handler fullMethod md p))"
proof -
  define h where "h = (case UnaryJWTInterceptor lib (pr_verifier p) open_methods wall fullMethod md of
      Inl msg \<Rightarrow> (Returns Unauthenticated, p) | Inr actor \<Rightarrow> handler actor p)"
  have "leaves_setup p (snd h)" using assms by (simp add: h_def careful_def leaves_setup_refl split: sum.split)
  then show ?thesis
    by (simp add: serve_grpc_def h_def [symmetric] leaves_setup_metrics split_beta split: outcome.split)
qed

lemma authenticatedGateway_setup: "careful handler \<Longrightarrow> leaves_setup p (snd (authenticatedGateway lib wall handler path header p))"
  by (auto simp: authenticatedGateway_def careful_def leaves_setup_refl split: sum.split)

lemma serve_http_setup:
  assumes "careful handler"
  shows "leaves_setup p (snd (serve_http x lib e took handler r header p))"
proof -
  obtain resp g where w: "Wrap x e r (pr_guard p) = (resp, g)" by fastforce
  note g = with_guard_setup [OF Wrap_setup [OF w]]
  show ?thesis
  proof (cases resp)
    case NextServed
    with w leaves_setup_trans [OF g authenticatedGateway_setup [OF assms, of "with_guard g p" lib "env_wall e" "URLPath r" header]]
    show ?thesis by (simp add: serve_http_def leaves_setup_metrics split_beta split: outcome.split)
  qed (use w g in \<open>simp add: serve_http_def\<close>)
qed

lemma metrics_tick_setup: "leaves_setup p (metrics_tick e e' p)"
  using RefreshIdentity_facts(2) by (auto simp: metrics_tick_def leaves_setup_def split: prod.split)

lemma cleanup_observed_signer: "tokenSigner (fst (snd (cleanup_observed e e' r w))) = tokenSigner (fst (snd w))"
  using RefreshIdentity_facts(2) by (auto simp: cleanup_observed_def Let_def split: prod.split)

lemma idempotency_tick_signer:
  "idempotency_tick fuel es b w = Some w' \<Longrightarrow> tokenSigner (fst (snd w')) = tokenSigner (fst (snd w))"
proof (induction fuel arbitrary: es w)
  case (Suc fuel)
  obtain v lg where c: "CleanupExpiredIdempotencyKeys (es 0) (if b \<le> 0 then 500 else b) (fst w) = (v, lg)" by fastforce
  show ?case
  proof (cases v)
    case None
    with Suc.prems c show ?thesis using cleanup_observed_signer [of "es 1" "es 2" None "(lg, snd w)"] by (simp add: Let_def)
  next
    case (Some n)
    let ?w = "cleanup_observed (es 1) (es 2) (Some n) (lg, snd w)"
    have "w' = ?w \<or> idempotency_tick fuel (\<lambda>n. es (n + 3)) b ?w = Some w'" using Suc.prems c Some by (simp add: Let_def split: if_splits)
    then show ?thesis using Suc.IH [of _ ?w] cleanup_observed_signer [of "es 1" "es 2" "Some n" "(lg, snd w)"] by auto
  qed
qed simp

lemma ledger_cleanup_tick_setup:
  assumes "ledger_cleanup_tick fuel es p = Some q"
  shows "leaves_setup p q"
proof (cases "cleanup_worker_runs (set_idempotencyCleanupInterval (pr_settings p)) (pr_ledger p)")
  case True
  with assms obtain w where "idempotency_tick fuel es (set_idempotencyCleanupBatch (pr_settings p)) (pr_ledger p, pr_identity p, pr_metrics p) = Some w"
    "q = p\<lparr>pr_ledger := fst w, pr_identity := fst (snd w), pr_metrics := snd (snd w)\<rparr>"
    by (auto simp: ledger_cleanup_tick_def)
  with idempotency_tick_signer show ?thesis by (fastforce simp: leaves_setup_def)
qed (use assms in \<open>simp add: ledger_cleanup_tick_def leaves_setup_refl\<close>)

section \<open>Runs of a process\<close>

text \<open>
  A panic of a gRPC method ends the process; the server of the gateway recovers from one. A request that blocks is never answered,
  and the process goes on with what it left.
\<close>

inductive process_run :: "ext \<Rightarrow> ('z) identity_lib_scheme \<Rightarrow> process_state \<Rightarrow> process_state \<Rightarrow> bool" for x lib p where
  run_start: "process_run x lib p p"
| run_http: "process_run x lib p q \<Longrightarrow>
    process_run x lib p (snd (serve_http x lib e took (service_handler x lib e decoded encoded) r header q))"
| run_grpc: "process_run x lib p q \<Longrightarrow>
    serve_grpc lib (env_wall e) took' (service_handler x lib e decoded' encoded') fullMethod md q = (out, q') \<Longrightarrow> out \<noteq> Panics \<Longrightarrow>
    process_run x lib p q'"
| run_refresh: "process_run x lib p q \<Longrightarrow> process_run x lib p (refresh_tick x mc q)"
| run_cleanup: "process_run x lib p q \<Longrightarrow> ledger_cleanup_tick fuel es q = Some q' \<Longrightarrow> process_run x lib p q'"
| run_metrics: "process_run x lib p q \<Longrightarrow> process_run x lib p (metrics_tick e e' q)"

definition process_inv :: "process_state \<Rightarrow> process_state \<Rightarrow> bool" where
  "process_inv p q \<longleftrightarrow> pr_settings q = pr_settings p \<and> guard_setup (pr_guard q) = guard_setup (pr_guard p) \<and> keys_agree q"

lemma leaves_setup_inv: "process_inv p q \<Longrightarrow> leaves_setup q r \<Longrightarrow> process_inv p r"
  by (simp add: process_inv_def leaves_setup_def keys_agree_def)

lemma refresh_tick_inv: "process_inv p q \<Longrightarrow> process_inv p (refresh_tick x mc q)"
proof -
  assume q: "process_inv p q"
  have "pr_settings (refresh_tick x mc q) = pr_settings q" "pr_guard (refresh_tick x mc q) = pr_guard q"
    by (auto simp: refresh_tick_def Let_def split: option.split prod.split bool.split)
  with q refresh_tick_keys [of q x mc] show ?thesis by (simp add: process_inv_def)
qed

lemma process_inv_start: "keys_agree p \<Longrightarrow> process_inv p p"
  by (simp add: process_inv_def)

lemma process_run_inv: "process_run x lib p q \<Longrightarrow> keys_agree p \<Longrightarrow> process_inv p q"
proof (induction rule: process_run.induct)
  case (run_http q e took decoded encoded r header)
  then show ?case by (blast intro: leaves_setup_inv serve_http_setup careful_services)
next
  case (run_grpc q e took' decoded' encoded' fullMethod md out q')
  then have "leaves_setup q q'" using serve_grpc_setup [OF careful_services] by (metis snd_conv)
  with run_grpc show ?case by (blast intro: leaves_setup_inv)
qed (blast intro: process_inv_start leaves_setup_inv refresh_tick_inv metrics_tick_setup ledger_cleanup_tick_setup)+

section \<open>Requests of a process in production mode\<close>

text \<open>The source of a request is in one of the networks of the settings, which are the loopback networks when none is named.\<close>

definition trusted_source :: "settings \<Rightarrow> string \<Rightarrow> bool" where
  "trusted_source c ip \<longleftrightarrow>
     (case parse_trusted (set_trustedCIDRs c) of
        None \<Rightarrow> False
      | Some nets \<Rightarrow> (case ParseIP ip of None \<Rightarrow> False | Some addr \<Rightarrow> list_ex (\<lambda>n. Contains n addr) (if nets = [] then loopback_nets else nets)))"

lemma boot_guard_trusted:
  assumes "boot_guard c handle = Some g"
  shows "isTrusted g ip = trusted_source c ip"
proof -
  from assms obtain nets where "parse_trusted (set_trustedCIDRs c) = Some nets" "trusted g = (if nets = [] then loopback_nets else nets)"
    by (cases handle)
       (auto simp: boot_guard_def SetLogStateObserver_def SetDecisionObserver_def SetInMemoryActivityLogCap_def log_state_observed_def
         SetFailClosedOnLogPersistenceFailure_def SetDisableInMemoryActivityCache_def guard_SetDB_def NewRemoteAccessGuard_def)
  then show ?thesis by (simp add: isTrusted_def trusted_source_def split: option.split)
qed

lemma booted_guard:
  assumes "boot x e mc tb = Some p"
  shows "isTrusted (pr_guard p) ip = trusted_source (pr_settings p) ip"
proof -
  from assms show ?thesis
    by (rule bootE) (simp add: wire_facts(1) [OF refl] wire_facts(3) [OF refl] boot_guard_trusted)
qed

lemma frame_trans:
  "q' = q1\<lparr>pr_metrics := m\<rparr> \<Longrightarrow> q1 = q\<lparr>pr_guard := g, pr_metrics := n\<rparr> \<Longrightarrow> q' = q\<lparr>pr_guard := pr_guard q', pr_metrics := pr_metrics q'\<rparr>"
  by simp

lemma trim_prefix_Some: "trim_prefix p s = Some t \<Longrightarrow> s = p @ t"
  by (auto simp: trim_prefix_def split: if_splits) (metis append_take_drop_id)

lemma authenticated_call:
  assumes "authenticatedGateway lib wall handler path header p = (out, p')"
  shows "out = Returns [401] \<and> p' = p \<or>
    (\<exists>actor. handler actor p = (out, p') \<and>
       (actor = None \<and> path \<in> set open_paths \<or>
        actor \<noteq> None \<and> (\<exists>token. header = ''Bearer '' @ token \<and> ParseActor lib (pr_verifier p) wall token = actor)))"
proof -
  consider "path \<in> set open_paths" | "path \<notin> set open_paths" "trim_prefix ''Bearer '' header = None"
    | token where "path \<notin> set open_paths" "trim_prefix ''Bearer '' header = Some token" "ParseActor lib (pr_verifier p) wall token = None"
    | token a where "path \<notin> set open_paths" "trim_prefix ''Bearer '' header = Some token" "ParseActor lib (pr_verifier p) wall token = Some a"
    by fastforce
  then show ?thesis
    by cases (use assms in \<open>auto simp: authenticatedGateway_def HTTPJWTMiddlewareWithSkips_def dest!: trim_prefix_Some\<close>)
qed

text \<open>The guard and the keys of a process in production mode, at any time of its run, and the row of an attempt that was recorded.\<close>

lemma production_run:
  assumes "boot x e mc tb = Some p" "set_strictProductionMode (pr_settings p)" "process_run x lib p q"
  shows "failClosedLogPersist (pr_guard q)" "svc_db (pr_guard q) \<noteq> None" "tokenSigner (pr_identity q) = pr_verifier q"
    "isTrusted (pr_guard q) ip = trusted_source (pr_settings p) ip"
proof -
  note inv = process_run_inv [OF assms(3) boot_keys_agree [OF assms(1)], unfolded process_inv_def]
  then have same: "guard_setup (pr_guard q) = guard_setup (pr_guard p)" and "tokenSigner (pr_identity q) = pr_verifier q"
    by (simp_all add: keys_agree_def)
  then show "tokenSigner (pr_identity q) = pr_verifier q" "failClosedLogPersist (pr_guard q)"
    using booted(3) [OF assms(1)] assms(2) by (simp_all add: guard_setup_def guard_policy_def)
  have "set_databaseURL (pr_settings p) \<noteq> []" using booted(8) [OF assms(1)] assms(2) by (auto simp: validateProductionRuntime_def)
  then have "svc_db (pr_guard p) \<noteq> None" using booted(1) [OF assms(1)] by (simp add: databases_def numeral_eq_Suc)
  then show "svc_db (pr_guard q) \<noteq> None" using same by (simp add: guard_setup_def)
  show "isTrusted (pr_guard q) ip = trusted_source (pr_settings p) ip"
    using setup_trusted [OF same] booted_guard [OF assms(1)] by simp
qed

lemma recorded_row:
  assumes "attempt_recorded e r True g g'" "svc_db g \<noteq> None"
  shows "\<exists>d d' row. svc_db g = Some d \<and> svc_db g' = Some d' \<and> remote_access_rows d' = remote_access_rows d @ [row] \<and>
    ar_source_ip row = claimed_source r \<and> ar_path row = URLPath r \<and> ar_method row = HttpMethod r \<and> ar_allowed row"
  using assms by (auto simp: attempt_recorded_def activity_logged_def new_activity_def Let_def split_beta claimed_source)

lemma open_not_admin: "path \<in> set open_paths \<Longrightarrow> \<not> isAdminPath path"
  by (auto simp: open_paths_def isAdminPath_def starts_with_def)

text \<open>
  C29: In a process that has started in production mode, whatever requests its services answered over the gateway and over gRPC and
  whatever its background workers did since, a request to the gateway either is refused with 401, 403 or 503 and
  then nothing but the guard and the metrics changes, or reaches the generated handlers and through them a method of a
  service. It reaches them without an actor only on the three open paths, and otherwise with the actor of a token that the
  current keys of the identity service verify. An administrative path is reached only with an actor, when the address that the request
  claims lies in a network of the settings, and after the attempt was stored in the database as allowed, with that address. The
  address is the first entry of the forwarding header if the request has one, and the host of the peer otherwise.
\<close>

theorem production_requests_mediated:
  assumes "boot x e mc tb = Some p" "set_strictProductionMode (pr_settings p)" "process_run x lib p q"
    and "serve_http x lib e' took (service_handler x lib e' decoded encoded) r header q = (out, q')"
  shows "(\<exists>code \<in> {401, 403, 503}. out = Returns [code]) \<and> q' = q\<lparr>pr_guard := pr_guard q', pr_metrics := pr_metrics q'\<rparr> \<or>
    (\<exists>actor q1 q2. service_handler x lib e' decoded encoded actor q1 = (out, q2) \<and>
       q1 = q\<lparr>pr_guard := pr_guard q1, pr_metrics := pr_metrics q1\<rparr> \<and> q' = q2\<lparr>pr_metrics := pr_metrics q'\<rparr> \<and>
       (actor = None \<and> URLPath r \<in> set open_paths \<or>
        actor \<noteq> None \<and> (\<exists>token. header = ''Bearer '' @ token \<and> ParseActor lib (tokenSigner (pr_identity q)) (env_wall e') token = actor)) \<and>
       (isAdminPath (URLPath r) \<longrightarrow>
          actor \<noteq> None \<and> trusted_source (pr_settings p) (claimed_source r) \<and>
          (\<exists>d d' row. svc_db (pr_guard q) = Some d \<and> svc_db (pr_guard q1) = Some d' \<and>
             remote_access_rows d' = remote_access_rows d @ [row] \<and> ar_source_ip row = claimed_source r \<and>
             ar_path row = URLPath r \<and> ar_method row = HttpMethod r \<and> ar_allowed row)))"
proof -
  note run = production_run [OF assms(1-3)]
  let ?handler = "service_handler x lib e' decoded encoded"
  obtain resp g where w: "Wrap x e' r (pr_guard q) = (resp, g)" by fastforce
  have frame: "with_guard g q = q\<lparr>pr_guard := pr_guard (with_guard g q), pr_metrics := pr_metrics (with_guard g q)\<rparr>" by (simp add: with_guard_def)
  show ?thesis
  proof (cases resp)
    case (HttpError code msg)
    then have "out = Returns [int code]" "q' = with_guard g q" using assms(4) w by (simp_all add: serve_http_def)
    then show ?thesis using Wrap_fail_closed(2) [OF w run(1) HttpError] frame by auto
  next
    case NextServed
    define q1 where "q1 = with_guard g q"
    have q1: "pr_verifier q1 = pr_verifier q" "pr_guard q1 = g" by (simp_all add: q1_def with_guard_def)
    obtain q2 where call: "authenticatedGateway lib (env_wall e') ?handler (URLPath r) header q1 = (out, q2)"
        and q': "q' = q2\<lparr>pr_metrics := pr_metrics q'\<rparr>"
      using assms(4) w NextServed by (auto simp: serve_http_def q1_def split: prod.splits outcome.splits)
    have admin: "trusted_source (pr_settings p) (claimed_source r)" "attempt_recorded e' r True (pr_guard q) (pr_guard q1)" if "isAdminPath (URLPath r)"
      using Wrap_fail_closed(1) [OF w run(1) NextServed that] run(4) q1(2) by (simp_all add: claimed_source)
    note row = recorded_row [OF admin(2) run(2)]
    note checked = authenticated_call [OF call, unfolded q1(1), folded run(3)] and frame = frame [folded q1_def]
    show ?thesis
    proof (cases "out = Returns [401] \<and> q2 = q1")
      case True
      then have "q' = q\<lparr>pr_guard := pr_guard q', pr_metrics := pr_metrics q'\<rparr>" using frame_trans [OF _ frame] q' by blast
      with True show ?thesis by blast
    next
      case False
      with checked obtain actor where "?handler actor q1 = (out, q2)"
          "actor = None \<and> URLPath r \<in> set open_paths \<or>
           actor \<noteq> None \<and> (\<exists>token. header = ''Bearer '' @ token \<and> ParseActor lib (tokenSigner (pr_identity q)) (env_wall e') token = actor)"
        by blast
      with q' frame open_not_admin admin(1) row show ?thesis by blast
    qed
  qed
qed

text \<open>
  The guard stands before the gateway only: a gRPC call to any method with a valid token reaches its service from every
  network, and no attempt is logged.
\<close>

lemma grpc_not_guarded:
  assumes "ParseActor lib (pr_verifier p) wall token = Some a" "fullMethod \<notin> set open_methods" "handler (Some a) p = (Returns code, p1)"
  shows "fst (serve_grpc lib wall took handler fullMethod (Some [''Bearer '' @ token]) p) = Returns code"
    "pr_guard (snd (serve_grpc lib wall took handler fullMethod (Some [''Bearer '' @ token]) p)) = pr_guard p1"
  using assms unfolding serve_grpc_def UnaryJWTInterceptor_def by (simp_all del: append.simps)

text \<open>A guard with a database whose statements succeed lets a request through whose source it trusts.\<close>

lemma Wrap_live:
  assumes "isAdminPath (URLPath r)" "isTrusted g (fst (extractSourceIP r))" "svc_ok x g" "svc_db g = Some d" "db_faults d = []"
    and "pg_time_of_text x (fmt_rfc3339nano (env_now e)) \<noteq> None"
  shows "fst (Wrap x e r g) = NextServed"
proof -
  obtain ip port where src: "extractSourceIP r = (ip, port)" by fastforce
  define entry where "entry = new_activity e r ip port True []"
  define g0 where "g0 = log_state_observed (if guard_disableInMemoryCache g then g else g\<lparr>logs := logs g @ [entry]\<rparr>)"
  have g0: "svc_db g0 = Some d" "svc_ok x g0" using assms(3,4) by (simp_all add: g0_def log_state_observed_def svc_ok_def)
  have "Timestamp entry = fmt_rfc3339nano (env_now e)" by (simp add: entry_def new_activity_def split_beta Let_def)
  then obtain row where "activity_row_of x entry = Some row" using assms(6) by (auto simp: activity_row_of_def)
  moreover have "logActivity x e r ip port True [] g = persistActivity x entry g0"
    using assms(4) by (simp add: logActivity_def Let_def entry_def g0_def)
  ultimately have log: "logActivity x e r ip port True [] g = (True, g0\<lparr>svc_db := Some (d\<lparr>remote_access_rows := remote_access_rows d @ [row]\<rparr>)\<rparr>)"
    using assms(5) g0(1) by (simp add: persistActivity_def svc_exec_def sql_stmt_def sql_exec_def)
  let ?g1 = "g0\<lparr>svc_db := Some (d\<lparr>remote_access_rows := remote_access_rows d @ [row]\<rparr>)\<rparr>"
  have "svc_ok x ?g1" using g0(2) by (simp add: svc_ok_def)
  then have "fst (guard_appendAudit x e (URLPath r) ip ''allowed'' [] ?g1)"
    using svc_append_live [of x ?g1 "d\<lparr>remote_access_rows := remote_access_rows d @ [row]\<rparr>" e
        "\<lambda>n. guard_event e n (URLPath r) ip ''allowed'' []" "fst (guard_appendAudit x e (URLPath r) ip ''allowed'' [] ?g1)"] assms(5)
    by (simp add: guard_appendAudit_def)
  then have "fst (admit_remote x e r ip port g) = NextServed"
    by (simp add: admit_remote_def log checked_log_def split_beta)
  with assms(1,2) src show ?thesis by (simp add: Wrap_def)
qed

lemma booted_guard_live:
  assumes "boot x e mc tb = Some p" "set_strictProductionMode (pr_settings p)"
  shows "svc_ok x (pr_guard p)" "svc_db (pr_guard p) = Some (tb_access tb)"
proof -
  have url: "set_databaseURL (pr_settings p) \<noteq> []" using booted(8) [OF assms(1)] assms(2) by (auto simp: validateProductionRuntime_def)
  have "svc_ok x (pr_guard p) \<and> svc_db (pr_guard p) = Some (tb_access tb)"
    by (rule bootE [OF assms(1)], use url in
       \<open>auto simp: wire_facts(1) [OF refl] wire_facts(3) [OF refl] boot_guard_def SetLogStateObserver_def SetDecisionObserver_def
         SetInMemoryActivityLogCap_def log_state_observed_def SetFailClosedOnLogPersistenceFailure_def
         SetDisableInMemoryActivityCache_def guard_SetDB_def NewRemoteAccessGuard_def svc_ok_def\<close>)
  then show "svc_ok x (pr_guard p)" "svc_db (pr_guard p) = Some (tb_access tb)" by simp_all
qed

text \<open>An operator on the machine itself lists the history of the configuration.\<close>

definition demo_operator_lib :: identity_lib where
  "demo_operator_lib = \<lparr>jwt_sign = (\<lambda>_ _ _. None),
     jwt_parse = (\<lambda>leeway wall key token. if token = ''t'' \<and> key ''HS256'' ''a'' = Some ''s''
                   then Some (Some ''op-1'', Some ''ACTOR_TYPE_OPERATOR'') else None),
     bcrypt_ok = (=), bcrypt_cost = (\<lambda>_. Some 12)\<rparr>"

definition demo_admin_request :: "string \<Rightarrow> http_request" where
  "demo_admin_request peer = \<lparr>ForwardedFor = [], RemoteAddr = peer, Host = ''h'', URLPath = ''/v1/config/history'', HttpMethod = ''GET''\<rparr>"

lemma demo_admin_source: "claimed_source (demo_admin_request ''127.0.0.1:4711'') = ''127.0.0.1''" "isAdminPath ''/v1/config/history''"
  by code_simp+

lemma demo_trusted:
  assumes "boot demo_ext demo_env demo_machine demo_tables = Some p"
  shows "trusted_source (pr_settings p) ''127.0.0.1''"
proof -
  obtain c where "read_settings (mc_env demo_machine) = Some c" "set_trustedCIDRs c = [[], []]" by (rule demo_settings)
  then have "set_trustedCIDRs (pr_settings p) = [[], []]" using booted(7) [OF assms] by simp
  moreover have "trim_space [] = []" "list_ex (\<lambda>n. Contains n (the (ParseIP ''127.0.0.1''))) loopback_nets" "ParseIP ''127.0.0.1'' \<noteq> None"
    by code_simp+
  ultimately show ?thesis by (auto simp: trusted_source_def)
qed

lemma demo_operator_token:
  "HTTPJWTMiddlewareWithSkips demo_operator_lib demo_keyset open_paths wall ''/v1/config/history'' ''Bearer t'' =
     Inr (Some \<lparr>AuthID = ''op-1'', AuthType = ''ACTOR_TYPE_OPERATOR''\<rparr>)"
proof -
  have "trim_space ''a'' = ''a''" by code_simp
  then show ?thesis
    by (simp add: HTTPJWTMiddlewareWithSkips_def open_paths_def trim_prefix_def ParseActor_def demo_operator_lib_def demo_keyset_def
        claim_text_def verifier_key_def)
qed

definition demo_history_handler :: "int list handler" where
  "demo_history_handler = service_handler demo_ext demo_operator_lib demo_env (Inr (ConfigCall (RpcListConfigHistory None))) [200]"

lemma production_requests_mediated_witness:
  "\<exists>p q' actor q1 q2 d row. boot demo_ext demo_env demo_machine demo_tables = Some p \<and>
     serve_http demo_ext demo_operator_lib demo_env (1, 2) demo_history_handler (demo_admin_request ''127.0.0.1:4711'') ''Bearer t'' p = (Returns [200], q') \<and>
     demo_history_handler (Some actor) q1 = (Returns [200], q2) \<and> svc_db (pr_guard q1) = Some d \<and> remote_access_rows d = [row] \<and> ar_source_ip row = ''127.0.0.1''"
proof -
  let ?r = "demo_admin_request ''127.0.0.1:4711''"
  obtain p where p: "boot demo_ext demo_env demo_machine demo_tables = Some p" "set_strictProductionMode (pr_settings p)" "pr_verifier p = demo_keyset"
    by (rule demo_boot)
  have r: "URLPath ?r = ''/v1/config/history''" by (simp add: demo_admin_request_def)
  have live: "pg_time_of_text demo_ext (fmt_rfc3339nano (env_now demo_env)) \<noteq> None" by code_simp
  obtain g where w: "Wrap demo_ext demo_env ?r (pr_guard p) = (NextServed, g)"
    using Wrap_live [of ?r "pr_guard p" demo_ext "tb_access demo_tables" demo_env] booted_guard_live [OF p(1,2)] live
      booted_guard [OF p(1)] demo_trusted [OF p(1)] demo_admin_source r
    by (simp add: claimed_source demo_tables_def prod_eq_iff)
  obtain q2 where "demo_history_handler (Some \<lparr>AuthID = ''op-1'', AuthType = ''ACTOR_TYPE_OPERATOR''\<rparr>) (with_guard g p) = (Returns [200], q2)"
    by (simp add: demo_history_handler_def service_handler_def)
  then obtain q' where q': "serve_http demo_ext demo_operator_lib demo_env (1, 2) demo_history_handler ?r ''Bearer t'' p = (Returns [200], q')"
    using w p(3) r by (simp add: serve_http_def authenticatedGateway_def demo_operator_token with_guard_def)
  have "svc_db (pr_guard p) = Some (tb_access demo_tables)" "remote_access_rows (tb_access demo_tables) = []"
    using booted_guard_live(2) [OF p(1,2)] by (simp_all add: demo_tables_def)
  with production_requests_mediated [OF p(1,2) process_run.run_start q' [unfolded demo_history_handler_def]] demo_admin_source r p(1) q'
  show ?thesis unfolding demo_history_handler_def by auto
qed

end
