(* ===== verification/MetricsProps.thy ===== *)
theory MetricsProps
  imports Metrics Samples
begin

text \<open>
  The cleanup worker of the ledger together with the metrics: a tick ends, deletes exactly the expired keys, and the metrics
  report it.
\<close>

section \<open>Batches\<close>

text \<open>A batch is the first rows of a sorted selection; here for rows with distinct keys, which are deleted by their key.\<close>

lemma batch_subset: "set (take n (sort_key f (filter P xs))) \<subseteq> set (filter P xs)"
  by (metis set_sort set_take_subset)

lemma batch_distinct: "distinct xs \<Longrightarrow> distinct (take n (sort_key f (filter P xs)))"
  by (intro distinct_take) (simp add: distinct_sort)

lemma removed_count:
  assumes "distinct xs" "distinct gone" and sub: "set gone \<subseteq> set (filter P xs)"
  shows "length (filter P (filter (\<lambda>r. r \<notin> set gone) xs)) + length gone = length (filter P xs)"
proof -
  have "length gone = card (set gone)" using assms(2) by (simp add: distinct_card)
  moreover have "length (filter P (filter (\<lambda>r. r \<notin> set gone) xs)) = card (set (filter P xs) - set gone)"
    using assms(1) by (subst distinct_card [symmetric]) (auto intro!: arg_cong [where f = card])
  moreover have "length (filter P xs) = card (set (filter P xs))" using assms(1) by (metis distinct_card distinct_filter)
  moreover have "card (set (filter P xs) - set gone) = card (set (filter P xs)) - card (set gone)" "card (set gone) \<le> card (set (filter P xs))"
    by (rule card_Diff_subset [OF _ sub], simp) (rule card_mono [OF _ sub], simp)
  ultimately show ?thesis by linarith
qed

lemma batch_complete:
  fixes f :: "'r \<Rightarrow> 'k :: linorder"
  shows "length (take n (sort_key f (filter P xs))) < n \<Longrightarrow> set (take n (sort_key f (filter P xs))) = set (filter P xs)"
  by simp

lemma filter_keys: "distinct (map k xs) \<Longrightarrow> set gone \<subseteq> set xs \<Longrightarrow> filter (\<lambda>r. k r \<notin> set (map k gone)) xs = filter (\<lambda>r. r \<notin> set gone) xs"
  by (rule filter_cong) (auto simp: distinct_map dest: inj_onD)

section \<open>One batch of the worker\<close>

definition key_expired :: "env \<Rightarrow> idempotency_row \<Rightarrow> bool" where
  "key_expired e r \<longleftrightarrow> ir_expires_at r \<le> env_dbnow e"

definition row_key :: "idempotency_row \<Rightarrow> string \<times> string" where
  "row_key r = (ir_scope r, ir_key r)"

lemma cleanup_batch:
  fixes e :: env
  assumes "svc_db lg = Some d" "db_faults d = []" "0 < b" "distinct (map row_key (ledger_idempotency_keys d))"
  defines "gone \<equiv> take (nat b) (sort_key ir_expires_at (filter (key_expired e) (ledger_idempotency_keys d)))"
  shows "CleanupExpiredIdempotencyKeys e b lg =
    (Some (length gone), lg\<lparr>svc_db := Some (d\<lparr>ledger_idempotency_keys := filter (\<lambda>r. r \<notin> set gone) (ledger_idempotency_keys d)\<rparr>)\<rparr>)"
proof -
  have keys: "doomed_keys e (nat b) d = map row_key gone"
    by (simp add: doomed_keys_def gone_def key_expired_def [abs_def] row_key_def [abs_def])
  have "set gone \<subseteq> set (ledger_idempotency_keys d)"
    unfolding gone_def using batch_subset [of "nat b" ir_expires_at "key_expired e" "ledger_idempotency_keys d"] by auto
  then have "delete_keys (map row_key gone) d = d\<lparr>ledger_idempotency_keys := filter (\<lambda>r. r \<notin> set gone) (ledger_idempotency_keys d)\<rparr>"
    using filter_keys [OF assms(4)] by (simp add: delete_keys_def row_key_def [symmetric])
  then show ?thesis using assms(1-3) by (simp add: CleanupExpiredIdempotencyKeys_def sql_exec_def keys)
qed

lemma observed_batch:
  assumes "svc_db lg = Some d" "db_faults d = []" "svc_db s = Some di" "db_faults di = []"
  obtains m' where "cleanup_observed e e' (Some n) (lg, s, m) = (lg, s, m')" "cleanupDeletedTotal m' = cleanupDeletedTotal m + n"
    "idempotencyKeysTotal m' = length (ledger_idempotency_keys d)"
    "idempotencyKeysExpired m' = length (filter (key_expired e) (ledger_idempotency_keys d))"
    "cleanupRunsTotal m' = (cleanupRunsTotal m)(''success'' := Suc (cleanupRunsTotal m ''success''))"
proof -
  have q: "ledger_query (idempotency_counts e) lg = (Some (idempotency_counts e d), lg)"
    using assms(1,2) by (cases lg) (simp add: ledger_query_def sql_query_def sql_exec_def)
  have "svc_query (session_counts e') s = (Some (session_counts e' di), s)"
    using assms(3,4) by (cases s) (simp add: svc_query_def sql_query_def sql_exec_def)
  with q assms(1) have "cleanup_observed e e' (Some n) (lg, s, m) =
      (lg, s, snd (snd (cleanup_observed e e' (Some n) (lg, s, m))))"
    by (simp add: cleanup_observed_def Let_def RefreshLedgerIdempotencyCounts_def RefreshIdentitySessionCounts_def split: prod.splits)
  then show thesis
    by (rule that)
       (use q assms(1) \<open>svc_query (session_counts e') s = (Some (session_counts e' di), s)\<close> in
         \<open>simp_all add: cleanup_observed_def Let_def RefreshLedgerIdempotencyCounts_def RefreshIdentitySessionCounts_def
            ObserveLedgerIdempotencyCleanup_def idempotency_counts_def key_expired_def [abs_def] inc_def split: prod.splits\<close>)
qed

section \<open>A tick of the worker\<close>

lemma idempotency_tick_all:
  fixes es :: "nat \<Rightarrow> env"
  assumes "svc_db lg = Some d" "db_faults d = []" "svc_db s = Some di" "db_faults di = []"
    and "distinct (map row_key (ledger_idempotency_keys d))" "length (ledger_idempotency_keys d) < fuel" "mono (env_dbnow \<circ> es)"
  shows "\<exists>k m'. idempotency_tick fuel es b (lg, s, m) = Some (lg\<lparr>svc_db := Some (d\<lparr>ledger_idempotency_keys := filter (\<lambda>r. \<not> key_expired (es (3 * k)) r) (ledger_idempotency_keys d)\<rparr>)\<rparr>, s, m') \<and>
    cleanupDeletedTotal m' = cleanupDeletedTotal m + length (filter (key_expired (es (3 * k))) (ledger_idempotency_keys d)) \<and>
    idempotencyKeysTotal m' = length (filter (\<lambda>r. \<not> key_expired (es (3 * k)) r) (ledger_idempotency_keys d)) \<and> idempotencyKeysExpired m' = length (filter (key_expired (es (3 * k + 1))) (filter (\<lambda>r. \<not> key_expired (es (3 * k)) r) (ledger_idempotency_keys d))) \<and>
    cleanupRunsTotal m' = (cleanupRunsTotal m)(''success'' := cleanupRunsTotal m ''success'' + Suc k)"
  using assms(1,2,5-7)
proof (induction fuel arbitrary: es lg d m)
  case (Suc fuel)
  define n where "n = (if b \<le> 0 then 500 else b)"
  have n: "0 < n" by (simp add: n_def)
  let ?rows = "ledger_idempotency_keys d"
  define gone where "gone = take (nat n) (sort_key ir_expires_at (filter (key_expired (es 0)) ?rows))"
  let ?d = "d\<lparr>ledger_idempotency_keys := filter (\<lambda>r. r \<notin> set gone) ?rows\<rparr>"
  let ?lg = "lg\<lparr>svc_db := Some ?d\<rparr>"
  have rows: "distinct ?rows" using Suc.prems(3) by (simp add: distinct_map)
  have dg: "distinct gone" unfolding gone_def by (rule batch_distinct [OF rows])
  have "set gone \<subseteq> set (filter (key_expired (es 0)) ?rows)" unfolding gone_def by (rule batch_subset)
  then have sub: "set gone \<subseteq> set (filter (key_expired (es k)) ?rows)" for k
    using monoD [OF Suc.prems(5), of 0 k] by (auto simp: key_expired_def)
  have step: "CleanupExpiredIdempotencyKeys (es 0) n lg = (Some (length gone), ?lg)"
    unfolding gone_def by (rule cleanup_batch [OF Suc.prems(1,2) n Suc.prems(3)])
  obtain m1 where m1: "cleanup_observed (es 1) (es 2) (Some (length gone)) (?lg, s, m) = (?lg, s, m1)" "cleanupDeletedTotal m1 = cleanupDeletedTotal m + length gone"
      "idempotencyKeysTotal m1 = length (ledger_idempotency_keys ?d)"
      "idempotencyKeysExpired m1 = length (filter (key_expired (es 1)) (ledger_idempotency_keys ?d))"
      "cleanupRunsTotal m1 = (cleanupRunsTotal m)(''success'' := Suc (cleanupRunsTotal m ''success''))"
    by (rule observed_batch [of ?lg ?d s di "es 1" "es 2" "length gone" m]) (use Suc.prems(2) assms(3,4) in simp_all)
  have tick: "idempotency_tick (Suc fuel) es b (lg, s, m) =
      (if length gone = 0 then Some (?lg, s, m1) else if int (length gone) < n then Some (?lg, s, m1)
       else idempotency_tick fuel (\<lambda>n. es (n + 3)) b (?lg, s, m1))"
    by (simp only: idempotency_tick.simps n_def [symmetric] Let_def fst_conv snd_conv step prod.case option.case m1(1))
  note count = removed_count [OF rows dg sub]
  show ?case
  proof (cases "int (length gone) < n")
    case True
    then have "length gone < nat n" by linarith
    then have "set gone = set (filter (key_expired (es 0)) ?rows)" unfolding gone_def by (rule batch_complete)
    then have left: "filter (\<lambda>r. r \<notin> set gone) ?rows = filter (\<lambda>r. \<not> key_expired (es 0) r) ?rows" by (auto intro!: filter_cong)
    have "idempotency_tick (Suc fuel) es b (lg, s, m) = Some (?lg, s, m1)"
      unfolding tick by (simp only: True if_True if_cancel)
    from this [unfolded left] show ?thesis
      using m1(2-5) count [of 0] by (intro exI [of _ 0] exI [of _ m1]) (simp add: left del: idempotency_tick.simps)
  next
    case False
    then have "gone \<noteq> []" using n by auto
    moreover have "length (ledger_idempotency_keys ?d) + length gone = length ?rows"
      using removed_count [OF rows dg, of "\<lambda>_. True"] sub [of 0] by auto
    ultimately have fewer: "length (ledger_idempotency_keys ?d) < fuel" using Suc.prems(4) by (cases gone) simp_all
    have mono: "mono (env_dbnow \<circ> (\<lambda>n. es (n + 3)))" using Suc.prems(5) by (auto simp: mono_def)
    have kept: "filter (\<lambda>r. \<not> key_expired (es k) r) (ledger_idempotency_keys ?d) = filter (\<lambda>r. \<not> key_expired (es k) r) ?rows" for k
      using sub [of k] by (auto intro!: filter_cong)
    have ready: "distinct (map row_key (ledger_idempotency_keys ?d))" "svc_db ?lg = Some ?d" "db_faults ?d = []"
      using Suc.prems(2,3) by (simp_all add: distinct_map_filter)
    from Suc.IH [OF ready(2,3,1) fewer mono, of m1] obtain k m' where m': "idempotency_tick fuel (\<lambda>n. es (n + 3)) b (?lg, s, m1) =
        Some (?lg\<lparr>svc_db := Some (?d\<lparr>ledger_idempotency_keys := filter (\<lambda>r. \<not> key_expired (es (3 * k + 3)) r) (ledger_idempotency_keys ?d)\<rparr>)\<rparr>, s, m')"
      "cleanupDeletedTotal m' = cleanupDeletedTotal m1 + length (filter (key_expired (es (3 * k + 3))) (ledger_idempotency_keys ?d))"
      "idempotencyKeysTotal m' = length (filter (\<lambda>r. \<not> key_expired (es (3 * k + 3)) r) (ledger_idempotency_keys ?d))"
      "idempotencyKeysExpired m' = length (filter (key_expired (es (3 * k + 1 + 3))) (filter (\<lambda>r. \<not> key_expired (es (3 * k + 3)) r) (ledger_idempotency_keys ?d)))"
      "cleanupRunsTotal m' = (cleanupRunsTotal m1)(''success'' := cleanupRunsTotal m1 ''success'' + Suc k)"
      by (elim exE conjE) (rule that)
    have "idempotency_tick (Suc fuel) es b (lg, s, m) = idempotency_tick fuel (\<lambda>n. es (n + 3)) b (?lg, s, m1)"
      unfolding tick using False \<open>gone \<noteq> []\<close> by simp
    with m'(1) have out: "idempotency_tick (Suc fuel) es b (lg, s, m) =
        Some (lg\<lparr>svc_db := Some (d\<lparr>ledger_idempotency_keys := filter (\<lambda>r. \<not> key_expired (es (3 * k + 3)) r) ?rows\<rparr>)\<rparr>, s, m')"
      unfolding kept by (simp del: idempotency_tick.simps)
    have sums: "cleanupDeletedTotal m' = cleanupDeletedTotal m + length (filter (key_expired (es (3 * k + 3))) ?rows)"
      using m'(2) m1(2) count [of "3 * k + 3"] by simp
    have runs: "cleanupRunsTotal m' = (cleanupRunsTotal m)(''success'' := cleanupRunsTotal m ''success'' + Suc (Suc k))"
      using m'(5) m1(5) by simp
    have three: "3 * Suc k = 3 * k + 3" "3 * k + 1 + 3 = 3 * k + 3 + 1" by simp_all
    show ?thesis
      by (intro exI [of _ "Suc k"] exI [of _ m'], unfold three(1), intro conjI out sums runs m'(3) [unfolded kept] m'(4) [unfolded kept three(2)])
  qed
qed simp

text \<open>
  C40: A tick of the idempotency cleanup ends and does its work. With statements that succeed and a clock of the database that does not
  run backwards, as many rounds as there are keys, and one more, are enough; afterwards exactly the keys that had not
  expired at the time of the last batch are left, in their order, and the metrics show it: the deleted keys are added to
  the total, one success is counted for every batch and no error, and the gauges are the number of keys left and the number of those
  that have expired since the last batch, which is none when the clock did not move.
\<close>

theorem idempotency_tick_complete:
  assumes "svc_db lg = Some d" "db_faults d = []" "svc_db s = Some di" "db_faults di = []" "distinct (map row_key (ledger_idempotency_keys d))"
    and "mono (\<lambda>i. env_dbnow (es i))"
  shows "\<exists>k m'. idempotency_tick (Suc (length (ledger_idempotency_keys d))) es b (lg, s, m) =
      Some (lg\<lparr>svc_db := Some (d\<lparr>ledger_idempotency_keys :=
        filter (\<lambda>r. env_dbnow (es (3 * k)) < ir_expires_at r) (ledger_idempotency_keys d)\<rparr>)\<rparr>, s, m') \<and>
    cleanupDeletedTotal m' = cleanupDeletedTotal m + length (filter (\<lambda>r. ir_expires_at r \<le> env_dbnow (es (3 * k))) (ledger_idempotency_keys d)) \<and>
    idempotencyKeysTotal m' = length (filter (\<lambda>r. env_dbnow (es (3 * k)) < ir_expires_at r) (ledger_idempotency_keys d)) \<and>
    idempotencyKeysExpired m' = length (filter (\<lambda>r. env_dbnow (es (3 * k)) < ir_expires_at r \<and>
      ir_expires_at r \<le> env_dbnow (es (3 * k + 1))) (ledger_idempotency_keys d)) \<and>
    (env_dbnow (es (3 * k + 1)) = env_dbnow (es (3 * k)) \<longrightarrow> idempotencyKeysExpired m' = 0) \<and>
    cleanupRunsTotal m' ''success'' = cleanupRunsTotal m ''success'' + Suc k \<and> cleanupRunsTotal m' ''error'' = cleanupRunsTotal m ''error''"
proof -
  have "mono (env_dbnow \<circ> es)" using assms(6) by (simp add: comp_def)
  from idempotency_tick_all [OF assms(1-5) lessI this, of b m] obtain k m' where
      "idempotency_tick (Suc (length (ledger_idempotency_keys d))) es b (lg, s, m) =
        Some (lg\<lparr>svc_db := Some (d\<lparr>ledger_idempotency_keys := filter (\<lambda>r. \<not> key_expired (es (3 * k)) r) (ledger_idempotency_keys d)\<rparr>)\<rparr>, s, m')"
      "cleanupDeletedTotal m' = cleanupDeletedTotal m + length (filter (key_expired (es (3 * k))) (ledger_idempotency_keys d))"
      "idempotencyKeysTotal m' = length (filter (\<lambda>r. \<not> key_expired (es (3 * k)) r) (ledger_idempotency_keys d))"
      "idempotencyKeysExpired m' = length (filter (key_expired (es (3 * k + 1))) (filter (\<lambda>r. \<not> key_expired (es (3 * k)) r) (ledger_idempotency_keys d)))"
      "cleanupRunsTotal m' = (cleanupRunsTotal m)(''success'' := cleanupRunsTotal m ''success'' + Suc k)"
    by blast
  then show ?thesis
    by (intro exI [of _ k] exI [of _ m']) (auto simp: key_expired_def [abs_def] not_le filter_empty_conv simp del: idempotency_tick.simps)
qed

definition demo_key_row :: "string \<Rightarrow> time \<Rightarrow> idempotency_row" where
  "demo_key_row k t = \<lparr>ir_scope = ''s'', ir_key = k, ir_request_hash = [], ir_payload = PTx \<lparr>RespMeta = responseMeta demo_env None RESULT_CODE_OK [], RespTransaction = None, RespAvailable = None\<rparr>,
     ir_result_code = [], ir_expires_at = t\<rparr>"

definition demo_keys_db :: ledger_db where
  "demo_keys_db = \<lparr>db_faults = [], db_int_text = True, db_audit_events = [], ledger_accounts = [], ledger_transactions = [], ledger_postings = [],
     ledger_idempotency_keys = [demo_key_row ''a'' (- 1), demo_key_row ''b'' 1, demo_key_row ''c'' 0], ledger_eft_lockouts = []\<rparr>"

definition demo_no_sessions :: identity_db where
  "demo_no_sessions = \<lparr>db_faults = [], db_int_text = True, db_audit_events = [], identity_credentials = [], identity_lockouts = [], identity_sessions = [],
     identity_login_rate_limits = []\<rparr>"

definition demo_cleanup_identity :: identity where
  "demo_cleanup_identity =
     \<lparr>svc_AuditStore = Some NewInMemoryStore, svc_nextAuditID = 0, svc_db = Some demo_no_sessions,
      refreshSessions = Map.empty, failedAttempts = Map.empty, lockedUntil = Map.empty, tokenSigner = \<lparr>ActiveKID = ''default'', Keys = [''default'' \<mapsto> ''secret'']\<rparr>,
      accessTTL = minute, refreshTTL = hour, lockoutTTL = minute, maxFailures = 5, loginRateMax = 60, loginRateWindowLen = minute,
      loginRates = Map.empty, observers = False, observed = []\<rparr>"

lemma idempotency_tick_complete_witness:
  "\<exists>m m' lg. returned NewMetrics = Some m \<and>
     idempotency_tick 4 (\<lambda>_. demo_env) 1 (NewLedgerService (Some demo_keys_db), demo_cleanup_identity, m) = Some (lg, demo_cleanup_identity, m') \<and>
     map_option ledger_idempotency_keys (svc_db lg) = Some [demo_key_row ''b'' 1] \<and> cleanupDeletedTotal m' = 2"
proof -
  have s: "svc_db demo_cleanup_identity = Some demo_no_sessions" by (simp add: demo_cleanup_identity_def)
  have faults: "db_faults demo_keys_db = []" "db_faults demo_no_sessions = []" by (simp_all add: demo_keys_db_def demo_no_sessions_def)
  obtain m where m: "returned NewMetrics = Some m" "cleanupDeletedTotal m = 0" by (simp add: NewMetrics_def metric_names_def)
  let ?lg = "NewLedgerService (Some demo_keys_db)"
  have lg: "svc_db ?lg = Some demo_keys_db" by (simp add: NewLedgerService_def)
  have rows: "distinct (map row_key (ledger_idempotency_keys demo_keys_db))" by (simp add: demo_keys_db_def row_key_def demo_key_row_def)
  have left: "filter (\<lambda>r. env_dbnow demo_env < ir_expires_at r) (ledger_idempotency_keys demo_keys_db) = [demo_key_row ''b'' 1]"
    and gone: "length (filter (\<lambda>r. ir_expires_at r \<le> env_dbnow demo_env) (ledger_idempotency_keys demo_keys_db)) = 2"
    and four: "Suc (length (ledger_idempotency_keys demo_keys_db)) = 4"
    by (simp_all add: demo_keys_db_def demo_env_def demo_key_row_def)
  from idempotency_tick_complete [OF lg faults(1) s faults(2) rows, of "\<lambda>_. demo_env" 1 m, unfolded left gone four] obtain m' where
    "idempotency_tick 4 (\<lambda>_. demo_env) 1 (?lg, demo_cleanup_identity, m) =
      Some (?lg\<lparr>svc_db := Some (demo_keys_db\<lparr>ledger_idempotency_keys := [demo_key_row ''b'' 1]\<rparr>)\<rparr>, demo_cleanup_identity, m')"
    "cleanupDeletedTotal m' = 2"
    using m(2) monoI [of "\<lambda>i :: nat. env_dbnow demo_env"] by auto
  moreover have "map_option ledger_idempotency_keys (svc_db (?lg\<lparr>svc_db := Some (demo_keys_db\<lparr>ledger_idempotency_keys := [demo_key_row ''b'' 1]\<rparr>)\<rparr>)) =
      Some [demo_key_row ''b'' 1]"
    by simp
  ultimately show ?thesis using m(1) by blast
qed

end
