(* ===== verification/Spec2Isabelle.thy ===== *)
theory Spec2Isabelle
  imports AuditChain LedgerTables WageringProps IdentityLimits SessionsProps ConfigProps IngestionProps AuditQueryProps
    RemoteAccessProps ReportingProps ExtensionsProps AttestProps GatewayProps MetricsProps
begin

text \<open>
  A verification development of open-rgs-go, a remote gaming server in Go.

  \<^bold>\<open>The program.\<close> The server process (\<^verbatim>\<open>src/cmd/rgsd/main.go\<close>) reads its settings, checks them for the production mode, connects to
  PostgreSQL when it is configured, and serves a set of services (\<^verbatim>\<open>src/internal/platform/server/\<close>) over gRPC and, through a
  generated gateway, over REST. A gRPC call passes the metrics and the interceptor of the access tokens; a REST request passes the
  remote access guard, the metrics and the middleware of the access tokens. The services are the cashless ledger, wagering, identity,
  player sessions, configuration, equipment registry, events and meters, reporting, promotions and the system window overlay,
  audit and system status. Each keeps its state in memory, behind one mutex, and also or instead in the database; each
  writes audit events to a hash chain of its own (\<^verbatim>\<open>src/internal/platform/audit/\<close>). Reporting reads the ledger and the events, the audit
  service reads the stores of the others and the log of the guard. Command line tools sign and check the evidence of a verification run.

  \<^bold>\<open>Conventions.\<close> A service is a record that extends \<open>svc\<close> (audit store, audit counter, database); a method is a function
  from the parameters, the request and the state to the answer and the new state. \<open>outcome\<close> is \<open>Returns\<close>, \<open>Panics\<close> or
  \<open>Blocks\<close>, the last for a mutex that is taken twice. Amounts and counters are 64-bit words where Go's \<^verbatim>\<open>int64\<close> matters, \<open>int\<close> or \<open>nat\<close>
  where it cannot overflow. A nil pointer is \<open>None\<close>, a Go string a list of bytes, a time an integer of nanoseconds. A database is
  a record of its tables with a list of the faults of the statements to come, so that every statement can fail, and a flag
  (\<open>db_int_text\<close>) for whether the driver takes a Go integer where a statement wants a text, which the statements with an interval in seconds
  rely on; a transaction that fails leaves the tables as they were. Calls of one service follow each other, as the mutexes make them.

  \<^bold>\<open>Parameters.\<close> What is not in the repository is an argument: \<open>ext\<close> (SHA-256 and what PostgreSQL makes of times, JSON values and the order of
  texts), \<open>env\<close> (the clocks and the random source at a call), \<open>jwt_lib\<close> and \<open>identity_lib\<close> (the JWT and bcrypt
  packages), \<open>evidence_lib\<close> (hashes, signatures and decoders of the evidence tools), \<open>machine\<close> (environment variables, files, shell, certificates,
  addresses), and what the generated gateway decodes a request to and writes as its answer. What is assumed of them are named predicates in the theorems, such as that hashes do not
  collide or that the JWT package accepts what it signed; each theorem with a hypothesis has a witness.

  \<^bold>\<open>Theories.\<close>

  \<^item> \<open>Prelude\<close>, \<open>GoTime\<close>, \<open>Calendar\<close>, \<open>GoText\<close>, \<open>Json\<close>, \<open>NetAddr\<close>, \<open>Sorting\<close>: outcomes, words and the locales \<open>reactor\<close> (an invariant of
    all runs) and \<open>simulation\<close> (a run implements a specification); the parts of Go's library the program uses: times and their formats, text,
    JSON of the audit snapshots, addresses and networks, \<^verbatim>\<open>sort.Slice\<close> (locale \<open>sorting\<close>).
  \<^item> \<open>Common\<close>, \<open>AuditChain\<close>, \<open>Service\<close>, \<open>Pagination\<close>, \<open>Lockout\<close>, \<open>Samples\<close>: messages and \<^verbatim>\<open>actor_context.go\<close>; the hash chain of
    \<^verbatim>\<open>audit/\<close> (locale \<open>audit_log\<close>); database statements, transactions, \<^verbatim>\<open>appendAudit\<close> and the insertion of \<^verbatim>\<open>audit_postgres.go\<close>; page
    tokens (locale \<open>paged_listing\<close>: the pages together are the list); the counter of failures (locale \<open>lockout\<close>) that ledger and identity
    share; the instances of the parameters for the witnesses.
  \<^item> \<open>LedgerDB\<close>, \<open>Ledger\<close> (\<^verbatim>\<open>ledger_grpc.go\<close>, \<^verbatim>\<open>ledger_postgres.go\<close>); \<open>LedgerBook\<close>, \<open>LedgerProps\<close>, \<open>LedgerOps\<close>, \<open>LedgerGuards\<close>, \<open>LedgerTables\<close>:
    without a database the ledger implements a double-entry book, whose balances are the net of the postings, exact while the credits fit 64
    bits; refusals, retries, lockout, isolation of players and roll-back; with a database, that no call ever gives an
    account a balance and that the first withdrawal on empty tables blocks the service or fails, depending on the driver. Both contradict
    integration tests of the repository, which run only with a test database.
  \<^item> \<open>Wagering\<close>, \<open>WageringProps\<close> (\<^verbatim>\<open>wagering_*.go\<close>): without a database the service implements the life cycle of wagers; with one, and the
    in-memory mirror, a pending wager can be resolved twice after a restart.
  \<^item> \<open>Jwt\<close> (\<^verbatim>\<open>auth/\<close>), \<open>Identity\<close>, \<open>IdentityProps\<close>, \<open>IdentityLimits\<close> (\<^verbatim>\<open>identity_*.go\<close>): a token only for the right secret of an
    account that is not locked; it authenticates exactly who logged in; lockout, single use of refresh tokens, the exact rate limit and the
    cleanup of sessions.
  \<^item> \<open>Sessions\<close>, \<open>SessionsProps\<close> (\<^verbatim>\<open>sessions_*.go\<close>): sessions are well formed and closed for good.
  \<^item> \<open>Config\<close>, \<open>ConfigProps\<close> (\<^verbatim>\<open>config_*.go\<close>): change control as an abstract machine that the service implements; signed activations.
  \<^item> \<open>Registry\<close>, \<open>RegistryProps\<close>, \<open>Ingestion\<close>, \<open>IngestionProps\<close> (\<^verbatim>\<open>registry_*.go\<close>, \<^verbatim>\<open>events_*.go\<close>): registered equipment, the bounded ingestion buffer,
    and the order of listings against a reference sort.
  \<^item> \<open>RemoteAccess\<close>, \<open>RemoteAccessProps\<close> (\<^verbatim>\<open>remote_access.go\<close>): the guard of the administrative paths and its log. The guard judges a request by
    the address it claims, which is the forwarding header when there is one.
  \<^item> \<open>AuditQuery\<close>, \<open>AuditQueryProps\<close> (\<^verbatim>\<open>audit_grpc.go\<close>, \<^verbatim>\<open>audit_postgres.go\<close>): when the chain in the database verifies, and how it fails to.
  \<^item> \<open>Reporting\<close>, \<open>ReportingProps\<close> (\<^verbatim>\<open>reporting_*.go\<close>): the intervals are those of the calendar; the liability report is the ledger's book.
  \<^item> \<open>Extensions\<close>, \<open>ExtensionsProps\<close> (\<^verbatim>\<open>extensions_*.go\<close>): the three records of promotions and overlay as logs (locale \<open>recorder\<close>).
  \<^item> \<open>Evidence\<close>, \<open>Attest\<close>, \<open>EvidenceProps\<close>, \<open>AttestProps\<close> (\<^verbatim>\<open>internal/platform/evidence/\<close>, \<^verbatim>\<open>cmd/attestsign\<close>, \<^verbatim>\<open>cmd/attestkeygen\<close>, \<^verbatim>\<open>cmd/verifysummary\<close>,
    \<^verbatim>\<open>cmd/credhash\<close>): accepted evidence is unaltered; keys that are written sign evidence that is accepted.
  \<^item> \<open>Metrics\<close>, \<open>MetricsProps\<close> (\<^verbatim>\<open>metrics.go\<close>, \<^verbatim>\<open>system_*.go\<close>, the cleanup worker of \<^verbatim>\<open>ledger_postgres.go\<close>): the tick of the worker ends with
    exactly the keys that have not expired at its last batch, and the metrics report it.
  \<^item> \<open>Daemon\<close>, \<open>DaemonProps\<close>, \<open>Gateway\<close>, \<open>GatewayProps\<close> (\<^verbatim>\<open>cmd/rgsd/main.go\<close>, \<^verbatim>\<open>tls.go\<close>): start of the process and its services, requests and
    background work. A process in production mode is guarded as its settings say; tokens stay acceptable across refreshes of the keyset; along
    every run of requests to the modelled services and of background work a REST request is refused or reaches a service with a
    verified actor, an administrative one only when the address it claims is in a trusted network and after it was logged; and the first
    withdrawal from the ledger of such a process blocks or fails.

  \<^bold>\<open>Fuel and bounds.\<close> Loops over data are structural or have a termination measure. Three loops take fuel: the client that follows page tokens (one
    round more than there are items is enough), the reader of CSV text (the length of the text) and the ticks of the two cleanup workers
    (one round more than there are rows); the theorems about them say that this much fuel gives the result. Limits of the code, such as
    page sizes, the capacity of the ingestion buffer and of the access log and the length of a session, are those of the source.

  \<^bold>\<open>Not modelled.\<close> The generated files under \<^verbatim>\<open>src/gen/\<close> (messages are records here; of the gateway, the
  decoding of a request and the encoding of an answer are parameters, the calls of the services are not); sockets, signals and the shutdown of
  the process; the exposition format of the metrics and the texts of log lines; PostgreSQL beyond the statements, constraints
  and conversions the code relies on, and the isolation of concurrent transactions; races between calls outside the mutexes; the
  migrations apart from the tables; shell scripts, documentation and the Unity client. Copies that the code makes only to avoid sharing
  (\<^verbatim>\<open>clone...\<close>) have no definition where values cannot be shared; where a missing or misplaced copy matters, as for wagers read from the
  database, both copies are kept apart.
\<close>

end
